(* ===== verification/CC_Prelude.thy ===== *)
theory CC_Prelude
  imports Complex_Main "HOL-Library.Sublist"
begin

text \<open>
  The vocabulary every component shares: JavaScript values as the program handles them
  (JSON values plus \<open>undefined\<close>), the coercions the source relies on (truthiness,
  \<open>||\<close>, \<open>??\<close>, optional chaining, \<open>String(v)\<close>), small facts on lists, and the
  locale of event machines whose invariants are proved once per step and lifted to runs.
  Numbers are integers: the places where the program computes with fractions carry a
  number type of their own.
\<close>

named_theorems key_simps \<open>definitions that expose the cache key and the request of a query hook\<close>
named_theorems effect_simps \<open>definitions that expose the cache calls of a mutation hook\<close>

section \<open>JavaScript values\<close>

datatype js =
    Undef
  | Null
  | Bool bool
  | Num int
  | Str string
  | Arr "js list"
  | Obj "(string \<times> js) list"

text \<open>Falsy values are \<open>undefined\<close>, \<open>null\<close>, \<open>false\<close>, \<open>0\<close> and the empty string.\<close>

fun truthy :: "js \<Rightarrow> bool" where
  "truthy Undef = False"
| "truthy Null = False"
| "truthy (Bool b) = b"
| "truthy (Num n) = (n \<noteq> 0)"
| "truthy (Str s) = (s \<noteq> [])"
| "truthy (Arr xs) = True"
| "truthy (Obj kvs) = True"

fun nullish :: "js \<Rightarrow> bool" where
  "nullish Undef = True"
| "nullish Null = True"
| "nullish _ = False"

text \<open>\<open>a || b\<close> and \<open>a ?? b\<close>.\<close>

definition js_or :: "js \<Rightarrow> js \<Rightarrow> js" where
  "js_or a b = (if truthy a then a else b)"

definition js_coalesce :: "js \<Rightarrow> js \<Rightarrow> js" where
  "js_coalesce a b = (if nullish a then b else a)"

text \<open>
  Property access \<open>v.k\<close>. On \<open>null\<close> and \<open>undefined\<close> it throws a \<open>TypeError\<close> (here
  \<open>None\<close>); on the other primitives and on arrays the property names the program reads
  this way are absent, so the result is \<open>undefined\<close>. \<open>js_opt_get\<close> is \<open>v?.k\<close>.
\<close>

fun js_get :: "js \<Rightarrow> string \<Rightarrow> js option" where
  "js_get Undef k = None"
| "js_get Null k = None"
| "js_get (Obj kvs) k = Some (case map_of kvs k of None \<Rightarrow> Undef | Some v \<Rightarrow> v)"
| "js_get _ k = Some Undef"

definition js_opt_get :: "js \<Rightarrow> string \<Rightarrow> js" where
  "js_opt_get v k = (case js_get v k of None \<Rightarrow> Undef | Some w \<Rightarrow> w)"

lemma js_opt_get_nullish [simp]: "nullish v \<Longrightarrow> js_opt_get v k = Undef"
  by (cases v) (simp_all add: js_opt_get_def)

lemma js_get_None_iff: "js_get v k = None \<longleftrightarrow> nullish v"
  by (cases v) simp_all

lemma js_get_nullish [simp]: "nullish v \<Longrightarrow> js_get v k = None"
  by (simp add: js_get_None_iff)

lemma js_get_cases:
  obtains (none) "nullish v" "js_get v k = None"
  | (some) d where "\<not> nullish v" "js_get v k = Some d"
proof (cases "js_get v k")
  case None
  then show thesis using none by (simp add: js_get_None_iff)
next
  case (Some d)
  then have "\<not> nullish v" using js_get_None_iff [of v k] by simp
  then show thesis using Some by (rule some)
qed

lemma nullish_not_truthy: "nullish v \<Longrightarrow> \<not> truthy v"
  by (cases v) simp_all

section \<open>Decimal notation and string coercion\<close>

fun show_nat :: "nat \<Rightarrow> string" where
  "show_nat n =
     (if n < 10 then [char_of (48 + n)] else show_nat (n div 10) @ [char_of (48 + n mod 10)])"

declare show_nat.simps [simp del]

definition show_int :: "int \<Rightarrow> string" where
  "show_int i = (if i < 0 then ''-'' @ show_nat (nat (- i)) else show_nat (nat i))"

text \<open>\<open>String(v)\<close>, which template literals apply to their holes.\<close>

fun intersperse_comma :: "string list \<Rightarrow> string" where
  "intersperse_comma [] = []"
| "intersperse_comma [s] = s"
| "intersperse_comma (s # t # ss) = s @ '','' @ intersperse_comma (t # ss)"

fun js_to_string :: "js \<Rightarrow> string" where
  "js_to_string Undef = ''undefined''"
| "js_to_string Null = ''null''"
| "js_to_string (Bool b) = (if b then ''true'' else ''false'')"
| "js_to_string (Num n) = show_int n"
| "js_to_string (Str s) = s"
| "js_to_string (Arr xs) =
     intersperse_comma (map (\<lambda>x. if nullish x then [] else js_to_string x) xs)"
| "js_to_string (Obj kvs) = ''[object Object]''"

text \<open>
  What \<open>JSON.stringify\<close> puts on the wire, as a value: object members that are
  \<open>undefined\<close> are left out, array elements that are \<open>undefined\<close> become \<open>null\<close>.
\<close>

fun json_wire :: "js \<Rightarrow> js" where
  "json_wire (Arr xs) = Arr (map (\<lambda>x. if x = Undef then Null else json_wire x) xs)"
| "json_wire (Obj kvs) =
     Obj (map (\<lambda>(k, v). (k, json_wire v)) (filter (\<lambda>(k, v). v \<noteq> Undef) kvs))"
| "json_wire v = v"

section \<open>Optional arguments\<close>

text \<open>Arguments declared \<open>T | undefined\<close> and \<open>T | null\<close> in the source.\<close>

fun undef_or :: "('a \<Rightarrow> js) \<Rightarrow> 'a option \<Rightarrow> js" where
  "undef_or f None = Undef"
| "undef_or f (Some x) = f x"

fun null_or :: "('a \<Rightarrow> js) \<Rightarrow> 'a option \<Rightarrow> js" where
  "null_or f None = Null"
| "null_or f (Some x) = f x"

lemma null_or_Num_Str [simp]: "null_or Num x \<noteq> Str s" "Str s \<noteq> null_or Num x"
  by (cases x; simp)+

lemma undef_or_Num_Str [simp]: "undef_or Num x \<noteq> Str s" "Str s \<noteq> undef_or Num x"
  by (cases x; simp)+

section \<open>Lists\<close>

lemma filter_length_same_iff: "length (filter P xs) = length xs \<longleftrightarrow> filter P xs = xs"
  by (metis filter_True length_filter_less less_irrefl)

lemma distinct_map_filterI: "distinct (map f xs) \<Longrightarrow> distinct (map f (filter P xs))"
  by (induction xs) auto

lemma find_Some_filter: "find P xs = Some x \<longleftrightarrow> (\<exists>ys. filter P xs = x # ys)"
  by (induction xs) auto

lemma find_in: "find P xs = Some x \<Longrightarrow> x \<in> set xs \<and> P x"
  by (induction xs) (auto split: if_splits)

lemma find_out: "find P xs = None \<longleftrightarrow> (\<forall>x\<in>set xs. \<not> P x)"
  by (induction xs) simp_all

section \<open>Event machines\<close>

text \<open>
  A component that reacts to events is a function from a state and an event to the next
  state; a run is the fold of that function over the events. An invariant that every
  step keeps holds along every run.
\<close>

definition run :: "('s \<Rightarrow> 'e \<Rightarrow> 's) \<Rightarrow> 's \<Rightarrow> 'e list \<Rightarrow> 's" where
  "run step s es = foldl step s es"

lemma run_Nil [simp]: "run step s [] = s"
  by (simp add: run_def)

lemma run_Cons [simp]: "run step s (e # es) = run step (step s e) es"
  by (simp add: run_def)

lemma run_append [simp]: "run step s (es @ es') = run step (run step s es) es'"
  by (simp add: run_def)

locale event_machine =
  fixes step :: "'s \<Rightarrow> 'e \<Rightarrow> 's"
    and start :: "'s \<Rightarrow> bool"
    and inv :: "'s \<Rightarrow> bool"
  assumes start_inv: "start s \<Longrightarrow> inv s"
    and step_inv: "inv s \<Longrightarrow> inv (step s e)"
begin

lemma run_inv: "inv s \<Longrightarrow> inv (run step s es)"
  by (induction es arbitrary: s) (simp_all add: step_inv)

lemma reachable_inv: "start s \<Longrightarrow> inv (run step s es)"
  by (rule run_inv) (rule start_inv)

lemma run_frame:
  assumes "\<And>s e. f (step s e) = f s"
  shows "f (run step s es) = f s"
  using assms by (induction es arbitrary: s) simp_all

end

end
