(* ===== verification/Api_Client.thy ===== *)
theory Api_Client
  imports CC_Prelude
begin

text \<open>
  The HTTP client \<open>web/src/lib/api.ts\<close>. The browser's \<open>fetch\<close> is a parameter: a function
  from the URL and the request options to a response, or to nothing when the promise is
  rejected. A response carries its status and the value of \<open>response.json()\<close>, absent when
  the body is not JSON. Every exception of the client is a value of \<open>api_error\<close>.
\<close>

datatype api_error =
    ApiRequestError int js js
  | NetworkFailure
  | BodyNotJson
  | BodyTypeError

record fetch_init =
  http_method :: string
  credentials :: string
  content_type :: "string option"
  req_body :: "js option"

record response =
  status :: int
  json :: "js option"

type_synonym fetch = "string \<Rightarrow> fetch_init \<Rightarrow> response option"

text \<open>\<open>Response.ok\<close>: the status is in the range 200 to 299.\<close>

definition resp_ok :: "response \<Rightarrow> bool" where
  "resp_ok r \<longleftrightarrow> 200 \<le> status r \<and> status r \<le> 299"

section \<open>Reading a response\<close>

definition default_message :: "int \<Rightarrow> string" where
  "default_message st = ''Request failed with status '' @ show_int st"

text \<open>
  \<open>throwApiError\<close>: the body's \<open>error.code\<close> and \<open>error.message\<close> when they are there and
  truthy, the defaults otherwise. A body that is not JSON, or is \<open>null\<close>, is swallowed by
  the \<open>catch\<close>. The \<open>Error\<close> constructor turns the message into a string.
\<close>

definition throwApiError :: "response \<Rightarrow> api_error" where
  "throwApiError r =
     (let code = Str ''unknown_error'';
          message = Str (default_message (status r));
          defaults = ApiRequestError (status r) code message
      in case json r of
           None \<Rightarrow> defaults
         | Some body \<Rightarrow>
             (case js_get body ''error'' of
                None \<Rightarrow> defaults
              | Some e \<Rightarrow>
                  if truthy e
                  then ApiRequestError (status r)
                         (js_or (js_opt_get e ''code'') code)
                         (Str (js_to_string (js_or (js_opt_get e ''message'') message)))
                  else defaults))"

definition handleResponse :: "response \<Rightarrow> api_error + js" where
  "handleResponse r =
     (if \<not> resp_ok r then Inl (throwApiError r)
      else if status r = 204 then Inr Undef
      else case json r of
             None \<Rightarrow> Inl BodyNotJson
           | Some body \<Rightarrow>
               (case js_get body ''data'' of
                  None \<Rightarrow> Inl BodyTypeError
                | Some d \<Rightarrow> Inr (if d \<noteq> Undef then d else body)))"

text \<open>
  \<open>apiGetPaginated\<close> reads the whole envelope. The four fields of the result, in the
  source's order.
\<close>

record paginated =
  items :: js
  total :: js
  limit :: js
  offset :: js

definition handlePaginated :: "response \<Rightarrow> api_error + paginated" where
  "handlePaginated r =
     (if \<not> resp_ok r then Inl (throwApiError r)
      else case json r of
             None \<Rightarrow> Inl BodyNotJson
           | Some body \<Rightarrow>
               (case js_get body ''data'' of
                  None \<Rightarrow> Inl BodyTypeError
                | Some d \<Rightarrow>
                    let p = js_opt_get body ''pagination'' in
                    Inr \<lparr> items = js_or d (Arr []),
                          total = js_or (js_opt_get p ''total'') (Num 0),
                          limit = js_or (js_opt_get p ''limit'') (Num 20),
                          offset = js_or (js_opt_get p ''offset'') (Num 0) \<rparr>))"

section \<open>The verbs\<close>

text \<open>
  A call of the client, as the hooks write it. \<open>ApiPost\<close> with \<open>Undef\<close> is a call without a
  body argument.
\<close>

datatype api_call =
    ApiGet string
  | ApiPost string js
  | ApiPatch string js
  | ApiPut string js
  | ApiDelete string
  | ApiGetPaginated string

fun call_path :: "api_call \<Rightarrow> string" where
  "call_path (ApiGet p) = p"
| "call_path (ApiPost p b) = p"
| "call_path (ApiPatch p b) = p"
| "call_path (ApiPut p b) = p"
| "call_path (ApiDelete p) = p"
| "call_path (ApiGetPaginated p) = p"

definition json_headers :: "string option" where
  "json_headers = Some ''application/json''"

definition with_fetch :: "fetch \<Rightarrow> string \<Rightarrow> fetch_init \<Rightarrow> (response \<Rightarrow> api_error + 'a) \<Rightarrow> api_error + 'a"
  where
  "with_fetch fetch url ini k =
     (case fetch url ini of None \<Rightarrow> Inl NetworkFailure | Some r \<Rightarrow> k r)"

definition apiGet :: "fetch \<Rightarrow> string \<Rightarrow> string \<Rightarrow> api_error + js" where
  "apiGet fetch base path =
     with_fetch fetch (base @ path)
       \<lparr> http_method = ''GET'', credentials = ''include'', content_type = None, req_body = None \<rparr>
       handleResponse"

definition apiPost :: "fetch \<Rightarrow> string \<Rightarrow> string \<Rightarrow> js \<Rightarrow> api_error + js" where
  "apiPost fetch base path body =
     with_fetch fetch (base @ path)
       \<lparr> http_method = ''POST'', credentials = ''include'',
         content_type = (if truthy body then json_headers else None),
         req_body = (if truthy body then Some (json_wire body) else None) \<rparr>
       handleResponse"

definition apiPatch :: "fetch \<Rightarrow> string \<Rightarrow> string \<Rightarrow> js \<Rightarrow> api_error + js" where
  "apiPatch fetch base path body =
     with_fetch fetch (base @ path)
       \<lparr> http_method = ''PATCH'', credentials = ''include'', content_type = json_headers,
         req_body = (if body = Undef then None else Some (json_wire body)) \<rparr>
       handleResponse"

definition apiPut :: "fetch \<Rightarrow> string \<Rightarrow> string \<Rightarrow> js \<Rightarrow> api_error + js" where
  "apiPut fetch base path body =
     with_fetch fetch (base @ path)
       \<lparr> http_method = ''PUT'', credentials = ''include'', content_type = json_headers,
         req_body = (if body = Undef then None else Some (json_wire body)) \<rparr>
       handleResponse"

definition apiDelete :: "fetch \<Rightarrow> string \<Rightarrow> string \<Rightarrow> api_error + js" where
  "apiDelete fetch base path =
     with_fetch fetch (base @ path)
       \<lparr> http_method = ''DELETE'', credentials = ''include'', content_type = None, req_body = None \<rparr>
       handleResponse"

definition apiGetPaginated :: "fetch \<Rightarrow> string \<Rightarrow> string \<Rightarrow> api_error + paginated" where
  "apiGetPaginated fetch base path =
     with_fetch fetch (base @ path)
       \<lparr> http_method = ''GET'', credentials = ''include'', content_type = None, req_body = None \<rparr>
       handlePaginated"

definition paginated_js :: "paginated \<Rightarrow> js" where
  "paginated_js p =
     Obj [(''items'', items p), (''total'', total p), (''limit'', limit p), (''offset'', offset p)]"

text \<open>Performing a call, the result of a page as the object the source returns.\<close>

fun perform :: "fetch \<Rightarrow> string \<Rightarrow> api_call \<Rightarrow> api_error + js" where
  "perform fetch base (ApiGet p) = apiGet fetch base p"
| "perform fetch base (ApiPost p b) = apiPost fetch base p b"
| "perform fetch base (ApiPatch p b) = apiPatch fetch base p b"
| "perform fetch base (ApiPut p b) = apiPut fetch base p b"
| "perform fetch base (ApiDelete p) = apiDelete fetch base p"
| "perform fetch base (ApiGetPaginated p) = map_sum id paginated_js (apiGetPaginated fetch base p)"

lemmas api_defs =
  apiGet_def apiPost_def apiPatch_def apiPut_def apiDelete_def apiGetPaginated_def with_fetch_def

section \<open>Behaviour\<close>

lemma throwApiError_status:
  "\<exists>c m. throwApiError r = ApiRequestError (status r) c m"
  by (auto simp: throwApiError_def Let_def split: option.splits)

lemma throwApiError_code_truthy:
  "throwApiError r = ApiRequestError st c m \<Longrightarrow> truthy c"
  by (auto simp: throwApiError_def Let_def js_or_def split: option.splits if_splits)

lemma handleResponse_ok_iff:
  "(\<exists>d. handleResponse r = Inr d) \<longleftrightarrow>
   resp_ok r \<and> (status r = 204 \<or> (\<exists>b. json r = Some b \<and> \<not> nullish b))"
proof (cases "json r")
  case None
  then show ?thesis by (simp add: handleResponse_def)
next
  case (Some b)
  then show ?thesis
    by (cases b "''data''" rule: js_get_cases) (simp_all add: handleResponse_def)
qed

lemma handlePaginated_ok_iff:
  "(\<exists>p. handlePaginated r = Inr p) \<longleftrightarrow> resp_ok r \<and> (\<exists>b. json r = Some b \<and> \<not> nullish b)"
proof (cases "json r")
  case None
  then show ?thesis by (simp add: handlePaginated_def)
next
  case (Some b)
  then show ?thesis
    by (cases b "''data''" rule: js_get_cases)
       (simp_all add: handlePaginated_def Let_def)
qed

section \<open>Properties\<close>

text \<open>
  C19. Every call of the client ends in exactly one of these: the browser gave no response;
  the status is outside 200 to 299 and the caller gets an \<open>ApiRequestError\<close> with that status
  and a code; the body of a good response cannot be read; or a value. A value comes exactly
  from a good response with a readable body, or with status 204 for the calls that read no
  page. All calls send the session cookie.
\<close>

theorem api_outcomes:
  "\<exists>ini. credentials ini = ''include'' \<and>
     (case fetch (base @ call_path c) ini of
        None \<Rightarrow> perform fetch base c = Inl NetworkFailure
      | Some r \<Rightarrow>
          (\<not> resp_ok r \<longrightarrow>
             (\<exists>code msg. perform fetch base c = Inl (ApiRequestError (status r) code msg) \<and> truthy code)) \<and>
          (resp_ok r \<longrightarrow>
             ((\<exists>d. perform fetch base c = Inr d) \<longleftrightarrow>
                (\<exists>b. json r = Some b \<and> \<not> nullish b) \<or>
                (status r = 204 \<and> (\<forall>p. c \<noteq> ApiGetPaginated p)))))"
proof -
  have err: "\<exists>code msg. throwApiError r = ApiRequestError (status r) code msg \<and> truthy code" for r
    using throwApiError_status throwApiError_code_truthy by metis
  have ok: "resp_ok r \<Longrightarrow> (\<exists>d. handleResponse r = Inr d) \<longleftrightarrow>
      (\<exists>b. json r = Some b \<and> \<not> nullish b) \<or> status r = 204" for r
    using handleResponse_ok_iff [of r] by blast
  have page: "resp_ok r \<Longrightarrow> (\<exists>d. map_sum id paginated_js (handlePaginated r) = Inr d) \<longleftrightarrow>
      (\<exists>b. json r = Some b \<and> \<not> nullish b)" for r
    using handlePaginated_ok_iff [of r] by (cases "handlePaginated r") auto
  have bad: "\<not> resp_ok r \<Longrightarrow> handleResponse r = Inl (throwApiError r)"
    "\<not> resp_ok r \<Longrightarrow> handlePaginated r = Inl (throwApiError r)" for r
    by (simp_all add: handleResponse_def handlePaginated_def)
  note facts = err ok page bad
  show ?thesis
  proof (cases c)
    case (ApiGet p)
    show ?thesis using facts
      by (intro exI [of _ "\<lparr> http_method = ''GET'', credentials = ''include'', content_type = None, req_body = None \<rparr>"])
        (auto simp: ApiGet api_defs split: option.split)
  next
    case (ApiGetPaginated p)
    show ?thesis using facts
      by (intro exI [of _ "\<lparr> http_method = ''GET'', credentials = ''include'', content_type = None, req_body = None \<rparr>"])
        (auto simp: ApiGetPaginated api_defs split: option.split)
  next
    case (ApiDelete p)
    show ?thesis using facts
      by (intro exI [of _ "\<lparr> http_method = ''DELETE'', credentials = ''include'', content_type = None, req_body = None \<rparr>"])
        (auto simp: ApiDelete api_defs split: option.split)
  next
    case (ApiPost p b)
    show ?thesis using facts
      by (intro exI [of _ "\<lparr> http_method = ''POST'', credentials = ''include'',
          content_type = (if truthy b then json_headers else None),
          req_body = (if truthy b then Some (json_wire b) else None) \<rparr>"])
        (auto simp: ApiPost api_defs split: option.split)
  next
    case (ApiPatch p b)
    show ?thesis using facts
      by (intro exI [of _ "\<lparr> http_method = ''PATCH'', credentials = ''include'', content_type = json_headers,
          req_body = (if b = Undef then None else Some (json_wire b)) \<rparr>"])
        (auto simp: ApiPatch api_defs split: option.split)
  next
    case (ApiPut p b)
    show ?thesis using facts
      by (intro exI [of _ "\<lparr> http_method = ''PUT'', credentials = ''include'', content_type = json_headers,
          req_body = (if b = Undef then None else Some (json_wire b)) \<rparr>"])
        (auto simp: ApiPut api_defs split: option.split)
  qed
qed

text \<open>The witness: a 409 answer with a code and no message.\<close>

theorem api_outcomes_witness:
  "\<exists>code msg. perform
     (\<lambda>_ _. Some \<lparr> status = 409, json = Some (Obj [(''error'', Obj [(''code'', Str ''taken'')])]) \<rparr>)
     [] (ApiGet ''/x'') = Inl (ApiRequestError 409 code msg) \<and> truthy code"
  using api_outcomes [of "\<lambda>_ _. Some \<lparr> status = 409,
      json = Some (Obj [(''error'', Obj [(''code'', Str ''taken'')])]) \<rparr>" "[]" "ApiGet ''/x''"]
  by (simp add: resp_ok_def)

end
