(* ===== verification/Formatters.thy ===== *)
theory Formatters
  imports CC_Prelude
begin

text \<open>
  \<open>web/src/lib/formatters.ts\<close> and the two small hooks that compute what the pages show:
  \<open>usePagination.ts\<close> and \<open>usePageTitle.ts\<close>. Strings are lists of bytes (UTF-8 beyond
  ASCII). The locale formatting of dates is a parameter; the URL encoding of
  \<open>URLSearchParams\<close> is the form encoding of the language's standard library.
\<close>

definition em_dash :: string where
  "em_dash = [CHR 0xE2, CHR 0x80, CHR 0x94]"

definition formatDate :: "(string \<Rightarrow> string option) \<Rightarrow> string option \<Rightarrow> string" where
  "formatDate toLocaleDateString dateStr =
     (case dateStr of
        None \<Rightarrow> em_dash
      | Some s \<Rightarrow> if s = [] then em_dash
                 else (case toLocaleDateString s of None \<Rightarrow> em_dash | Some d \<Rightarrow> d))"

definition formatDateTime :: "(string \<Rightarrow> string option) \<Rightarrow> string option \<Rightarrow> string" where
  "formatDateTime toLocaleString dateStr =
     (case dateStr of
        None \<Rightarrow> em_dash
      | Some s \<Rightarrow> if s = [] then em_dash
                 else (case toLocaleString s of None \<Rightarrow> em_dash | Some d \<Rightarrow> d))"

definition formatPlayerName :: "string \<Rightarrow> string \<Rightarrow> string option \<Rightarrow> string" where
  "formatPlayerName firstName lastName displayName =
     (case displayName of
        Some d \<Rightarrow> if d \<noteq> [] then d else firstName @ '' '' @ lastName
      | None \<Rightarrow> firstName @ '' '' @ lastName)"

section \<open>Initials\<close>

definition is_space :: "char \<Rightarrow> bool" where
  "is_space c \<longleftrightarrow> c \<in> {CHR '' '', CHR 0x09, CHR 0x0A, CHR 0x0B, CHR 0x0C, CHR 0x0D}"

definition trim :: "string \<Rightarrow> string" where
  "trim s = rev (dropWhile is_space (rev (dropWhile is_space s)))"

text \<open>\<open>s.split(c)\<close> for a one-character separator: always at least one piece.\<close>

fun split_on :: "char \<Rightarrow> string \<Rightarrow> string list" where
  "split_on c [] = [[]]"
| "split_on c (x # xs) =
     (if x = c then [] # split_on c xs
      else (case split_on c xs of [] \<Rightarrow> [[x]] | w # ws \<Rightarrow> (x # w) # ws))"

definition to_upper :: "char \<Rightarrow> char" where
  "to_upper c = (let n = of_char c :: nat in if 97 \<le> n \<and> n \<le> 122 then char_of (n - 32) else c)"

definition getInitials :: "string \<Rightarrow> string" where
  "getInitials name =
     (if trim name = [] then ''?''
      else take 2 (map to_upper (map hd (filter (\<lambda>w. w \<noteq> []) (split_on CHR '' '' name)))))"

lemma split_on_not_Nil: "split_on c s \<noteq> []"
  by (induction s) (auto split: list.splits)

lemma concat_split_on: "concat (split_on c s) = filter (\<lambda>x. x \<noteq> c) s"
proof (induction s)
  case Nil
  then show ?case by simp
next
  case (Cons x xs)
  obtain w ws where "split_on c xs = w # ws"
    using split_on_not_Nil by (cases "split_on c xs") auto
  with Cons show ?case by auto
qed

lemma trim_not_Nil: "trim s \<noteq> [] \<Longrightarrow> \<exists>c \<in> set s. \<not> is_space c"
proof (rule ccontr)
  assume ne: "trim s \<noteq> []" and "\<not> (\<exists>c \<in> set s. \<not> is_space c)"
  then have "\<forall>c \<in> set s. is_space c" by blast
  then have "dropWhile is_space s = []" by (simp add: dropWhile_eq_Nil_conv)
  with ne show False by (simp add: trim_def)
qed

lemma some_word_not_Nil:
  assumes "c \<in> set s" "c \<noteq> sep"
  shows "filter (\<lambda>w. w \<noteq> []) (split_on sep s) \<noteq> []"
proof
  assume "filter (\<lambda>w. w \<noteq> []) (split_on sep s) = []"
  then have "\<forall>w \<in> set (split_on sep s). w = []" by (simp add: filter_empty_conv)
  then have "concat (split_on sep s) = []" by simp
  then have "filter (\<lambda>x. x \<noteq> sep) s = []" by (simp only: concat_split_on)
  then have "\<forall>x \<in> set s. x = sep" by (simp add: filter_empty_conv)
  with assms show False by blast
qed

lemma getInitials_length: "1 \<le> length (getInitials name) \<and> length (getInitials name) \<le> 2"
proof (cases "trim name = []")
  case True
  then show ?thesis by (simp add: getInitials_def)
next
  case False
  then obtain c where c: "c \<in> set name" "\<not> is_space c" using trim_not_Nil by blast
  then have "c \<noteq> CHR '' ''" by (auto simp: is_space_def)
  with c(1) have "filter (\<lambda>w. w \<noteq> []) (split_on CHR '' '' name) \<noteq> []"
    by (rule some_word_not_Nil)
  then have "0 < length (filter (\<lambda>w. w \<noteq> []) (split_on CHR '' '' name))"
    by (simp only: length_greater_0_conv not_False_eq_True)
  then show ?thesis using False by (simp add: getInitials_def min_def del: length_greater_0_conv)
qed

section \<open>Query strings\<close>

definition form_safe :: "char \<Rightarrow> bool" where
  "form_safe c \<longleftrightarrow>
     (let n = of_char c :: nat in
      48 \<le> n \<and> n \<le> 57 \<or> 65 \<le> n \<and> n \<le> 90 \<or> 97 \<le> n \<and> n \<le> 122 \<or> n \<in> {42, 45, 46, 95})"

definition hex_digit :: "nat \<Rightarrow> char" where
  "hex_digit n = (if n < 10 then char_of (48 + n) else char_of (55 + n))"

definition form_encode_char :: "char \<Rightarrow> string" where
  "form_encode_char c =
     (if form_safe c then [c]
      else if c = CHR '' '' then ''+''
      else let n = of_char c :: nat in [CHR ''%'', hex_digit (n div 16), hex_digit (n mod 16)])"

definition form_encode :: "string \<Rightarrow> string" where
  "form_encode s = concat (map form_encode_char s)"

fun join_amp :: "string list \<Rightarrow> string" where
  "join_amp [] = []"
| "join_amp [p] = p"
| "join_amp (p # q # ps) = p @ ''&'' @ join_amp (q # ps)"

definition url_search_params :: "(string \<times> string) list \<Rightarrow> string" where
  "url_search_params kvs = join_amp (map (\<lambda>(k, v). form_encode k @ ''='' @ form_encode v) kvs)"

text \<open>The entries that survive: not \<open>undefined\<close>, not \<open>null\<close>, not the empty string.\<close>

definition present :: "js \<Rightarrow> bool" where
  "present v \<longleftrightarrow> v \<noteq> Undef \<and> v \<noteq> Null \<and> v \<noteq> Str []"

definition buildQueryString :: "(string \<times> js) list \<Rightarrow> string" where
  "buildQueryString params =
     (let entries = filter (\<lambda>(k, v). present v) params in
      if entries = [] then []
      else ''?'' @ url_search_params (map (\<lambda>(k, v). (k, js_to_string v)) entries))"

text \<open>
  The server's reading of such a string: split at the ampersands, then at the first
  equals sign, then undo the form encoding.
\<close>

definition unhex :: "char \<Rightarrow> nat" where
  "unhex c = (let n = of_char c :: nat in if n < 58 then n - 48 else n - 55)"

fun form_decode :: "string \<Rightarrow> string" where
  "form_decode [] = []"
| "form_decode (c # cs) =
     (if c = CHR ''+'' then CHR '' '' # form_decode cs
      else if c = CHR ''%''
      then (case cs of
              h # l # rest \<Rightarrow> char_of (16 * unhex h + unhex l) # form_decode rest
            | _ \<Rightarrow> c # form_decode cs)
      else c # form_decode cs)"

definition parse_pair :: "string \<Rightarrow> string \<times> string" where
  "parse_pair p =
     (form_decode (takeWhile (\<lambda>c. c \<noteq> CHR ''='') p),
      form_decode (tl (dropWhile (\<lambda>c. c \<noteq> CHR ''='') p)))"

definition parse_query :: "string \<Rightarrow> (string \<times> string) list" where
  "parse_query s =
     (case s of [] \<Rightarrow> [] | q # rest \<Rightarrow> map parse_pair (split_on CHR ''&'' rest))"

lemma of_char_lt_256: "(of_char c :: nat) < 256"
  by (metis nat_of_char_less_256)

lemma of_char_div_16: "(of_char c :: nat) div 16 < 16"
  using of_char_lt_256 [of c] by (simp only: div_less_iff_less_mult)

lemma unhex_hex_digit: "n < 16 \<Longrightarrow> unhex (hex_digit n) = n"
  by (auto simp: unhex_def hex_digit_def Let_def)

lemma hex_digit_plain:
  "n < 16 \<Longrightarrow> hex_digit n \<noteq> CHR ''&'' \<and> hex_digit n \<noteq> CHR ''=''"
proof -
  assume n: "n < 16"
  have "of_char (hex_digit n) \<noteq> (38::nat) \<and> of_char (hex_digit n) \<noteq> (61::nat)"
    using n by (auto simp: hex_digit_def)
  then show ?thesis by force
qed

lemma form_safe_plain:
  "form_safe c \<Longrightarrow> c \<noteq> CHR ''&'' \<and> c \<noteq> CHR ''='' \<and> c \<noteq> CHR ''%'' \<and> c \<noteq> CHR ''+''"
  by (auto simp: form_safe_def)

lemma form_decode_encode_char:
  "form_decode (form_encode_char c @ s) = c # form_decode s"
proof (cases "form_safe c \<or> c = CHR '' ''")
  case True
  then show ?thesis by (auto simp: form_encode_char_def dest: form_safe_plain)
next
  case False
  let ?n = "of_char c :: nat"
  have "16 * (?n div 16) + ?n mod 16 = ?n" by simp
  then show ?thesis
    using False by (simp add: form_encode_char_def Let_def unhex_hex_digit of_char_div_16)
qed

lemma form_decode_encode: "form_decode (form_encode s) = s"
  by (induction s) (simp_all add: form_encode_def form_decode_encode_char)

lemma form_encode_char_plain:
  "c \<in> set (form_encode_char d) \<Longrightarrow> c \<noteq> CHR ''&'' \<and> c \<noteq> CHR ''=''"
  using of_char_div_16 [of d] hex_digit_plain [of "of_char d div 16"] hex_digit_plain [of "of_char d mod 16"]
  by (auto simp: form_encode_char_def Let_def dest: form_safe_plain split: if_splits)

lemma form_encode_plain:
  "c \<in> set (form_encode s) \<Longrightarrow> c \<noteq> CHR ''&'' \<and> c \<noteq> CHR ''=''"
  by (auto simp: form_encode_def dest: form_encode_char_plain)

lemma split_on_free: "c \<notin> set s \<Longrightarrow> split_on c s = [s]"
  by (induction s) auto

lemma split_on_append: "c \<notin> set s \<Longrightarrow> split_on c (s @ c # t) = s # split_on c t"
  by (induction s) auto

lemma split_join_amp:
  assumes "ps \<noteq> []" "\<forall>p \<in> set ps. CHR ''&'' \<notin> set p"
  shows "split_on CHR ''&'' (join_amp ps) = ps"
  using assms by (induction ps rule: join_amp.induct) (simp_all add: split_on_free split_on_append)

lemma parse_pair_encode:
  "parse_pair (form_encode k @ ''='' @ form_encode v) = (k, v)"
proof -
  have no: "\<forall>c \<in> set (form_encode k). c \<noteq> CHR ''=''" by (auto dest: form_encode_plain)
  then have "takeWhile (\<lambda>c. c \<noteq> CHR ''='') (form_encode k @ CHR ''='' # form_encode v) = form_encode k"
    by (simp add: takeWhile_append)
  moreover from no
  have "dropWhile (\<lambda>c. c \<noteq> CHR ''='') (form_encode k @ CHR ''='' # form_encode v) =
      CHR ''='' # form_encode v"
    by (simp add: dropWhile_append)
  ultimately show ?thesis by (simp add: parse_pair_def form_decode_encode)
qed

lemma amp_free_pair:
  "CHR ''&'' \<notin> set (form_encode k @ ''='' @ form_encode v)"
  by (auto dest: form_encode_plain)

lemma parse_search_params:
  "kvs \<noteq> [] \<Longrightarrow> parse_query (''?'' @ url_search_params kvs) = kvs"
proof -
  assume ne: "kvs \<noteq> []"
  let ?ps = "map (\<lambda>(k, v). form_encode k @ ''='' @ form_encode v) kvs"
  have "split_on CHR ''&'' (join_amp ?ps) = ?ps"
    by (rule split_join_amp) (use ne amp_free_pair in auto)
  moreover have "map parse_pair ?ps = kvs"
    by (rule map_idI [THEN trans [OF map_map]]) (auto simp del: append_Cons append_Nil simp: parse_pair_encode)
  ultimately show ?thesis by (simp add: parse_query_def url_search_params_def)
qed

lemma parse_buildQueryString:
  "parse_query (buildQueryString params) =
     map (\<lambda>(k, v). (k, js_to_string v)) (filter (\<lambda>(k, v). present v) params)"
proof (cases "filter (\<lambda>(k, v). present v) params = []")
  case True
  then show ?thesis by (simp add: buildQueryString_def parse_query_def)
next
  case False
  then show ?thesis
    using parse_search_params [of "map (\<lambda>(k, v). (k, js_to_string v)) (filter (\<lambda>(k, v). present v) params)"]
    by (simp add: buildQueryString_def Let_def)
qed

section \<open>Pagination and page titles\<close>

text \<open>
  \<open>usePagination\<close>: the state is the page number, starting at 1; \<open>setPage\<close> stores what it
  is given, \<open>prevPage\<close> stops at 1. \<open>totalPages\<close> is \<open>Math.ceil(total / limit)\<close>, which is not
  a finite number when the limit is 0.
\<close>

datatype page_event = SetPage int | NextPage | PrevPage

definition init_page :: int where
  "init_page = 1"

fun page_step :: "int \<Rightarrow> page_event \<Rightarrow> int" where
  "page_step p (SetPage n) = n"
| "page_step p NextPage = p + 1"
| "page_step p PrevPage = max 1 (p - 1)"

definition page_offset :: "int \<Rightarrow> int \<Rightarrow> int" where
  "page_offset per page = (page - 1) * per"

definition total_pages :: "int \<Rightarrow> int \<Rightarrow> int option" where
  "total_pages per tot = (if per = 0 then None else Some (- ((- tot) div per)))"

lemma page_step_positive:
  "1 \<le> p \<Longrightarrow> (\<And>n. e = SetPage n \<Longrightarrow> 1 \<le> n) \<Longrightarrow> 1 \<le> page_step p e"
  by (cases e) auto

text \<open>The windows of the pages \<open>1 .. total_pages\<close> partition the items.\<close>

lemma total_pages_window:
  assumes "0 < per" "0 \<le> i" "i < tot"
  shows "\<exists>n. total_pages per tot = Some n \<and>
           (\<exists>!p. 1 \<le> p \<and> p \<le> n \<and> page_offset per p \<le> i \<and> i < page_offset per p + per)"
proof -
  let ?n = "- ((- tot) div per)" and ?p = "i div per + 1"
  have low: "(i div per) * per \<le> i" and high: "i < (i div per) * per + per"
    using div_mult_mod_eq [of i per] pos_mod_bound [of per i] pos_mod_sign [of per i] assms(1)
    by linarith+
  have "tot \<le> ?n * per"
  proof -
    have "(- tot) div per * per + (- tot) mod per = - tot" by (rule div_mult_mod_eq)
    moreover have "0 \<le> (- tot) mod per" using assms(1) by (rule pos_mod_sign)
    ultimately have "tot \<le> - ((- tot) div per * per)" by linarith
    then show ?thesis by simp
  qed
  with assms low have "(i div per) * per < ?n * per" by linarith
  then have "i div per < ?n" using assms(1) by (metis mult_less_cancel_right_pos)
  then have le: "?p \<le> ?n" by simp
  have ge: "1 \<le> ?p" using assms by (simp add: pos_imp_zdiv_nonneg_iff)
  have uniq: "q = ?p" if q: "page_offset per q \<le> i" "i < page_offset per q + per" for q
  proof -
    have "(q - 1) * per \<le> i" "i < (q - 1) * per + per"
      using q by (simp_all add: page_offset_def)
    then have "i div per = q - 1"
      using assms(1) by (intro int_div_pos_eq [of _ _ _ "i - (q - 1) * per"]) (auto simp: algebra_simps)
    then show ?thesis by simp
  qed
  have "total_pages per tot = Some ?n" using assms(1) by (simp add: total_pages_def)
  moreover have "\<exists>!p. 1 \<le> p \<and> p \<le> ?n \<and> page_offset per p \<le> i \<and> i < page_offset per p + per"
  proof (rule ex1I [of _ ?p])
    show "1 \<le> ?p \<and> ?p \<le> ?n \<and> page_offset per ?p \<le> i \<and> i < page_offset per ?p + per"
      using le ge low high by (simp add: page_offset_def)
  next
    fix q assume "1 \<le> q \<and> q \<le> ?n \<and> page_offset per q \<le> i \<and> i < page_offset per q + per"
    then show "q = ?p" using uniq by blast
  qed
  ultimately show ?thesis by blast
qed

definition base_title :: string where
  "base_title = ''Court Command''"

definition usePageTitle :: "string option \<Rightarrow> string" where
  "usePageTitle title =
     (case title of
        Some t \<Rightarrow> if t \<noteq> [] then t @ '' '' @ em_dash @ '' '' @ base_title
                 else base_title @ '' '' @ em_dash @ '' Pickleball Tournament & League Management''
      | None \<Rightarrow> base_title @ '' '' @ em_dash @ '' Pickleball Tournament & League Management'')"

section \<open>Properties\<close>

text \<open>
  C20. What \<open>buildQueryString\<close> writes, a server reads back: splitting and decoding the string
  gives the parameters that are neither undefined, null nor empty, in order, with their
  values as strings, whatever characters keys and values contain.
\<close>

theorem query_string_roundtrip:
  "parse_query (buildQueryString params) =
     map (\<lambda>(k, v). (k, js_to_string v)) (filter (\<lambda>(k, v). present v) params)"
  by (rule parse_buildQueryString)

text \<open>
  Paging never leaves the positive pages as long as only positive pages are set, the
  first page starts at offset 0, and the windows of the pages \<open>1\<close> to \<open>totalPages\<close> cover every
  item exactly once.
\<close>

theorem pagination_partition:
  assumes "\<forall>n. SetPage n \<in> set es \<longrightarrow> 1 \<le> n" and "0 < per" and "0 \<le> i" and "i < tot"
  shows "1 \<le> run page_step init_page es \<and> page_offset per init_page = 0 \<and>
    (\<exists>n. total_pages per tot = Some n \<and>
       (\<exists>!p. 1 \<le> p \<and> p \<le> n \<and> page_offset per p \<le> i \<and> i < page_offset per p + per))"
proof -
  have "1 \<le> p \<Longrightarrow> \<forall>n. SetPage n \<in> set es \<longrightarrow> 1 \<le> n \<Longrightarrow> 1 \<le> run page_step p es" for p
  proof (induction es arbitrary: p)
    case (Cons e es)
    then show ?case by (cases e) auto
  qed simp
  then show ?thesis
    using assms total_pages_window [OF assms(2-4)] by (simp add: init_page_def page_offset_def)
qed

theorem pagination_partition_witness:
  "1 \<le> run page_step init_page [NextPage, PrevPage, PrevPage]"
  using pagination_partition [of "[NextPage, PrevPage, PrevPage]" 20 5 45] by simp

end
