(* ===== verification/Query_Layer.thy ===== *)
theory Query_Layer
  imports Api_Client Formatters
begin

text \<open>
  What a hook file tells the query library: a query is a cache key, a call of the API
  client and options (\<open>enabled\<close>, \<open>staleTime\<close>, \<open>retry\<close>, \<open>refetchInterval\<close>) over the defaults
  of \<open>web/src/App.tsx\<close>; a mutation is a call built from its input and the calls \<open>onSuccess\<close>
  makes on the query client, in order. The query library itself is not part of the
  repository. The only behaviour of it the properties use is how a key given to
  \<open>invalidateQueries\<close> or \<open>removeQueries\<close> selects cache entries, a parameter \<open>qm\<close> with the
  documented rule \<open>key_filter\<close>.
\<close>

type_synonym key = "js list"

record query =
  q_key :: key
  q_call :: api_call
  q_enabled :: bool
  q_stale :: nat
  q_retry :: nat
  q_refetch :: "nat option"

text \<open>The \<open>defaultOptions\<close> of the application's \<open>QueryClient\<close>.\<close>

definition use_query :: "key \<Rightarrow> api_call \<Rightarrow> query" where
  "use_query k c =
     \<lparr> q_key = k, q_call = c, q_enabled = True, q_stale = 30000, q_retry = 1, q_refetch = None \<rparr>"

datatype cache_op =
    Invalidate key
  | SetData key js
  | RemoveQueries key
  | ClearCache

record 'i mutation =
  m_call :: "'i \<Rightarrow> api_call"
  m_success :: "js \<Rightarrow> 'i \<Rightarrow> cache_op list"

definition use_mutation :: "('i \<Rightarrow> api_call) \<Rightarrow> (js \<Rightarrow> 'i \<Rightarrow> cache_op list) \<Rightarrow> 'i mutation" where
  "use_mutation c s = \<lparr> m_call = c, m_success = s \<rparr>"

lemma use_query_simps [simp, key_simps]:
  "q_key (use_query k c) = k" "q_call (use_query k c) = c" "q_enabled (use_query k c)"
  "q_stale (use_query k c) = 30000" "q_retry (use_query k c) = 1"
  "q_refetch (use_query k c) = None"
  by (simp_all add: use_query_def)

lemma use_mutation_simps [simp, effect_simps]:
  "m_call (use_mutation c s) = c" "m_success (use_mutation c s) = s"
  by (simp_all add: use_mutation_def)

section \<open>Which entries a cache call reaches\<close>

fun scalar :: "js \<Rightarrow> bool" where
  "scalar (Arr _) = False"
| "scalar (Obj _) = False"
| "scalar _ = True"

text \<open>
  The documented rule of key filters: a filter key selects every entry whose key starts
  with it, and a filter key of scalars selects only those.
\<close>

definition key_filter :: "(key \<Rightarrow> key \<Rightarrow> bool) \<Rightarrow> bool" where
  "key_filter qm \<longleftrightarrow>
     (\<forall>p ks. qm p (p @ ks)) \<and> (\<forall>p k. list_all scalar p \<longrightarrow> qm p k \<longrightarrow> prefix p k)"

text \<open>After the call, the entry under \<open>k\<close> is either replaced, dropped or marked stale.\<close>

fun op_refreshes :: "(key \<Rightarrow> key \<Rightarrow> bool) \<Rightarrow> key \<Rightarrow> cache_op \<Rightarrow> bool" where
  "op_refreshes qm k (Invalidate p) = qm p k"
| "op_refreshes qm k (SetData k' v) = (k' = k)"
| "op_refreshes qm k (RemoveQueries p) = qm p k"
| "op_refreshes qm k ClearCache = True"

definition refreshes :: "(key \<Rightarrow> key \<Rightarrow> bool) \<Rightarrow> cache_op list \<Rightarrow> query \<Rightarrow> bool" where
  "refreshes qm ops q \<longleftrightarrow> list_ex (op_refreshes qm (q_key q)) ops"

lemma refreshes_simps [simp, effect_simps]:
  "refreshes qm [] q \<longleftrightarrow> False"
  "refreshes qm (op # ops) q \<longleftrightarrow> op_refreshes qm (q_key q) op \<or> refreshes qm ops q"
  by (simp_all add: refreshes_def)

lemma key_filter_prefix: "key_filter qm \<Longrightarrow> prefix p k \<Longrightarrow> qm p k"
  by (auto simp: key_filter_def prefix_def)

lemma key_filter_scalar: "key_filter qm \<Longrightarrow> list_all scalar p \<Longrightarrow> qm p k \<longleftrightarrow> prefix p k"
  by (auto simp: key_filter_def prefix_def)

text \<open>The library's own matching on scalar keys is an instance, so the rule can be met.\<close>

lemma key_filter_of_prefix: "key_filter prefix"
  by (simp add: key_filter_def)

end
