(* ===== verification/Scoring_Hooks.thy ===== *)
theory Scoring_Hooks
  imports Query_Layer
begin

text \<open>
  \<open>web/src/features/scoring/hooks.ts\<close> and \<open>web/src/features/quick-match/hooks.ts\<close>: the
  queries and mutations of the scoring consoles. \<open>applyResult\<close> is what every scoring
  action does with the server's answer.
\<close>

definition api_match :: "string \<Rightarrow> string \<Rightarrow> string" where
  "api_match publicId action = ''/api/v1/matches/public/'' @ publicId @ action"

definition useMatch :: "string option \<Rightarrow> query" where
  "useMatch publicId =
     (use_query [Str ''matches'', undef_or Str publicId]
        (ApiGet (''/api/v1/matches/public/'' @ js_to_string (undef_or Str publicId))))
     \<lparr> q_enabled := truthy (undef_or Str publicId), q_stale := 0 \<rparr>"

definition useAllCourts :: query where
  "useAllCourts =
     (use_query [Str ''courts'', Str ''all''] (ApiGetPaginated ''/api/v1/courts?limit=200&offset=0''))
     \<lparr> q_retry := 0, q_stale := 5 * 60 * 1000 \<rparr>"

definition useMatchEvents :: "string option \<Rightarrow> query" where
  "useMatchEvents publicId =
     (use_query [Str ''match-events'', undef_or Str publicId]
        (ApiGet (''/api/v1/matches/public/'' @ js_to_string (undef_or Str publicId) @ ''/events'')))
     \<lparr> q_enabled := truthy (undef_or Str publicId), q_stale := 0, q_retry := 0 \<rparr>"

definition useCourtMatches :: "int option \<Rightarrow> query" where
  "useCourtMatches courtId =
     (use_query [Str ''courts'', undef_or Num courtId, Str ''matches'']
        (ApiGet (''/api/v1/courts/'' @ js_to_string (undef_or Num courtId) @ ''/matches'')))
     \<lparr> q_enabled := truthy (undef_or Num courtId), q_stale := 0 \<rparr>"

definition useCourtsForTournament :: "int option \<Rightarrow> query" where
  "useCourtsForTournament tournamentId =
     (use_query [Str ''tournaments'', undef_or Num tournamentId, Str ''courts'']
        (ApiGet (''/api/v1/tournaments/'' @ js_to_string (undef_or Num tournamentId) @ ''/courts'')))
     \<lparr> q_enabled := truthy (undef_or Num tournamentId), q_stale := 5 * 60 * 1000 \<rparr>"

definition useMatchSeries :: "string option \<Rightarrow> query" where
  "useMatchSeries publicId =
     (use_query [Str ''match-series'', undef_or Str publicId]
        (ApiGet (''/api/v1/match-series/public/'' @ js_to_string (undef_or Str publicId))))
     \<lparr> q_enabled := truthy (undef_or Str publicId), q_stale := 2 * 60 * 1000 \<rparr>"

record assign_input =
  ai_matchId :: int
  ai_courtId :: int
  ai_tournamentId :: "int option"

definition useAssignMatchToCourt :: "assign_input mutation" where
  "useAssignMatchToCourt =
     use_mutation
       (\<lambda>v. ApiPatch (''/api/v1/matches/'' @ show_int (ai_matchId v) @ ''/court'')
              (Obj [(''court_id'', Num (ai_courtId v))]))
       (\<lambda>data vars.
          [Invalidate [Str ''divisions''], Invalidate [Str ''matches'']] @
          (if truthy (undef_or Num (ai_tournamentId vars))
           then [Invalidate [Str ''tournaments'', undef_or Num (ai_tournamentId vars), Str ''courts'']]
           else []))"

section \<open>Scoring actions\<close>

definition invalidateMatch :: "string \<Rightarrow> cache_op list" where
  "invalidateMatch publicId = [Invalidate [Str ''match-events'', Str publicId]]"

text \<open>
  \<open>result.match\<close> throws when the answer has no body, before the first call on the client.
\<close>

definition applyResult :: "string \<Rightarrow> js \<Rightarrow> cache_op list" where
  "applyResult publicId result =
     (case js_get result ''match'' of
        None \<Rightarrow> []
      | Some m \<Rightarrow> SetData [Str ''matches'', Str publicId] m # invalidateMatch publicId)"

record start_input =
  si_publicId :: string
  si_scored_by_name :: "string option"
  si_first_serving_team :: "int option"
  si_first_serving_player_id :: js

definition useStartMatch :: "start_input mutation" where
  "useStartMatch =
     use_mutation
       (\<lambda>v. ApiPost (api_match (si_publicId v) ''/start'')
              (Obj [(''scored_by_name'', undef_or Str (si_scored_by_name v)),
                    (''first_serving_team'', undef_or Num (si_first_serving_team v)),
                    (''first_serving_player_id'', si_first_serving_player_id v)]))
       (\<lambda>data v. applyResult (si_publicId v) data)"

text \<open>The team of a point is passed on as it comes, \<open>null\<close> included (see the consoles).\<close>

definition useScorePoint :: "(string \<times> js) mutation" where
  "useScorePoint =
     use_mutation
       (\<lambda>(publicId, team). ApiPost (api_match publicId ''/point'') (Obj [(''team'', team)]))
       (\<lambda>data (publicId, _). applyResult publicId data)"

definition useSideOut :: "string mutation" where
  "useSideOut =
     use_mutation (\<lambda>publicId. ApiPost (api_match publicId ''/sideout'') (Obj []))
       (\<lambda>data publicId. applyResult publicId data)"

definition useUndo :: "string mutation" where
  "useUndo =
     use_mutation (\<lambda>publicId. ApiPost (api_match publicId ''/undo'') (Obj []))
       (\<lambda>data publicId. applyResult publicId data)"

definition useRemovePoint :: "string mutation" where
  "useRemovePoint =
     use_mutation (\<lambda>publicId. ApiPost (api_match publicId ''/remove-point'') (Obj []))
       (\<lambda>data publicId. applyResult publicId data)"

definition useConfirmGameOver :: "string mutation" where
  "useConfirmGameOver =
     use_mutation (\<lambda>publicId. ApiPost (api_match publicId ''/confirm-game'') (Obj []))
       (\<lambda>data publicId. applyResult publicId data)"

definition useConfirmMatchOver :: "string mutation" where
  "useConfirmMatchOver =
     use_mutation (\<lambda>publicId. ApiPost (api_match publicId ''/confirm-match'') (Obj []))
       (\<lambda>data publicId. applyResult publicId data)"

definition useCallTimeout :: "(string \<times> int) mutation" where
  "useCallTimeout =
     use_mutation
       (\<lambda>(publicId, team). ApiPost (api_match publicId ''/timeout'') (Obj [(''team'', Num team)]))
       (\<lambda>data (publicId, _). applyResult publicId data)"

definition usePauseMatch :: "string mutation" where
  "usePauseMatch =
     use_mutation (\<lambda>publicId. ApiPost (api_match publicId ''/pause'') (Obj []))
       (\<lambda>data publicId. applyResult publicId data)"

definition useResumeMatch :: "string mutation" where
  "useResumeMatch =
     use_mutation (\<lambda>publicId. ApiPost (api_match publicId ''/resume'') (Obj []))
       (\<lambda>data publicId. applyResult publicId data)"

record forfeit_input =
  fi_publicId :: string
  fi_forfeiting_team :: int
  fi_reason :: string

definition useDeclareForfeit :: "forfeit_input mutation" where
  "useDeclareForfeit =
     use_mutation
       (\<lambda>v. ApiPost (api_match (fi_publicId v) ''/forfeit'')
              (Obj [(''forfeiting_team'', Num (fi_forfeiting_team v)), (''reason'', Str (fi_reason v))]))
       (\<lambda>data v. applyResult (fi_publicId v) data)"

record override_game =
  og_game_number :: int
  og_team_1_score :: int
  og_team_2_score :: int
  og_winner :: "int option"

definition override_game_js :: "override_game \<Rightarrow> js" where
  "override_game_js g =
     Obj [(''game_number'', Num (og_game_number g)), (''team_1_score'', Num (og_team_1_score g)),
          (''team_2_score'', Num (og_team_2_score g)), (''winner'', null_or Num (og_winner g))]"

record override_input =
  oi_publicId :: string
  oi_games :: "override_game list"
  oi_reason :: string

definition useOverrideScore :: "override_input mutation" where
  "useOverrideScore =
     use_mutation
       (\<lambda>v. ApiPost (api_match (oi_publicId v) ''/override'')
              (Obj [(''games'', Arr (map override_game_js (oi_games v))), (''reason'', Str (oi_reason v))]))
       (\<lambda>data v. applyResult (oi_publicId v) data)"

definition useMyTournamentAssignment :: query where
  "useMyTournamentAssignment =
     (use_query [Str ''auth'', Str ''tournament-staff''] (ApiGet ''/api/v1/auth/me/tournament-staff''))
     \<lparr> q_stale := 10 * 60 * 1000, q_retry := 0 \<rparr>"

section \<open>Quick matches\<close>

definition useMyQuickMatches :: query where
  "useMyQuickMatches =
     (use_query [Str ''quick-matches''] (ApiGet ''/api/v1/quick-matches'')) \<lparr> q_stale := 5 * 60 * 1000 \<rparr>"

record quick_match_input =
  qm_games_per_set :: int
  qm_sets_to_win :: int
  qm_points_to_win :: int
  qm_win_by :: int
  qm_rally_scoring :: bool
  qm_timeouts_per_game :: "int option"
  qm_timeout_duration_sec :: "int option"

definition useCreateQuickMatch :: "quick_match_input mutation" where
  "useCreateQuickMatch =
     use_mutation
       (\<lambda>i. ApiPost ''/api/v1/quick-matches''
              (Obj [(''games_per_set'', Num (qm_games_per_set i)),
                    (''sets_to_win'', Num (qm_sets_to_win i)),
                    (''points_to_win'', Num (qm_points_to_win i)),
                    (''win_by'', Num (qm_win_by i)),
                    (''rally_scoring'', Bool (qm_rally_scoring i)),
                    (''timeouts_per_game'', undef_or Num (qm_timeouts_per_game i)),
                    (''timeout_duration_sec'', undef_or Num (qm_timeout_duration_sec i))]))
       (\<lambda>data i. [Invalidate [Str ''quick-matches'']])"

lemmas scoring_query_defs [key_simps] =
  useMatch_def useAllCourts_def useMatchEvents_def useCourtMatches_def useCourtsForTournament_def
  useMatchSeries_def useMyTournamentAssignment_def useMyQuickMatches_def

lemmas scoring_mutation_defs [effect_simps] =
  useAssignMatchToCourt_def useStartMatch_def useScorePoint_def useSideOut_def useUndo_def
  useRemovePoint_def useConfirmGameOver_def useConfirmMatchOver_def useCallTimeout_def
  usePauseMatch_def useResumeMatch_def useDeclareForfeit_def useOverrideScore_def
  useCreateQuickMatch_def

section \<open>One contract for the twelve scoring actions\<close>

text \<open>What a scoring action promises its callers.\<close>

definition action_contract ::
    "(key \<Rightarrow> key \<Rightarrow> bool) \<Rightarrow> 'i mutation \<Rightarrow> ('i \<Rightarrow> string) \<Rightarrow> bool" where
  "action_contract qm mut pid \<longleftrightarrow>
     (\<forall>data i m other fetch base.
        (js_get data ''match'' = Some m \<longrightarrow>
           SetData (q_key (useMatch (Some (pid i)))) m \<in> set (m_success mut data i) \<and>
           refreshes qm (m_success mut data i) (useMatch (Some (pid i))) \<and>
           refreshes qm (m_success mut data i) (useMatchEvents (Some (pid i)))) \<and>
        (other \<noteq> pid i \<longrightarrow>
           \<not> refreshes qm (m_success mut data i) (useMatch (Some other)) \<and>
           \<not> refreshes qm (m_success mut data i) (useMatchEvents (Some other))) \<and>
        (\<exists>rest body. perform fetch base (m_call mut i) =
           with_fetch fetch (base @ api_match (pid i) rest)
             \<lparr> http_method = ''POST'', credentials = ''include'', content_type = json_headers,
               req_body = Some (json_wire body) \<rparr> handleResponse))"

text \<open>
  A scoring action posts under the match's public path and hands the answer to
  \<open>applyResult\<close> for the match it was called on.
\<close>

locale scoring_action =
  fixes mut :: "'i mutation" and pid :: "'i \<Rightarrow> string"
  assumes posts: "\<exists>rest body. m_call mut i = ApiPost (api_match (pid i) rest) body \<and> truthy body"
    and success: "m_success mut data i = applyResult (pid i) data"
begin

lemma stores_match:
  "js_get data ''match'' = Some m \<Longrightarrow>
     SetData (q_key (useMatch (Some (pid i)))) m \<in> set (m_success mut data i)"
  by (simp add: success applyResult_def useMatch_def)

lemma refreshes_match_and_events:
  assumes "key_filter qm" "js_get data ''match'' = Some m"
  shows "refreshes qm (m_success mut data i) (useMatch (Some (pid i)))"
    and "refreshes qm (m_success mut data i) (useMatchEvents (Some (pid i)))"
  using assms
  by (simp_all add: success applyResult_def invalidateMatch_def useMatch_def useMatchEvents_def
      key_filter_scalar)

lemma leaves_other_matches:
  assumes "key_filter qm" "other \<noteq> pid i"
  shows "\<not> refreshes qm (m_success mut data i) (useMatch (Some other))"
    and "\<not> refreshes qm (m_success mut data i) (useMatchEvents (Some other))"
  using assms
  by (auto simp: success applyResult_def invalidateMatch_def useMatch_def useMatchEvents_def
      key_filter_scalar split: option.splits)

lemma posts_json:
  "\<exists>rest body. perform fetch base (m_call mut i) =
     with_fetch fetch (base @ api_match (pid i) rest)
       \<lparr> http_method = ''POST'', credentials = ''include'', content_type = json_headers,
         req_body = Some (json_wire body) \<rparr> handleResponse"
proof -
  obtain rest body where "m_call mut i = ApiPost (api_match (pid i) rest) body" "truthy body"
    using posts by blast
  then have "perform fetch base (m_call mut i) =
     with_fetch fetch (base @ api_match (pid i) rest)
       \<lparr> http_method = ''POST'', credentials = ''include'', content_type = json_headers,
         req_body = Some (json_wire body) \<rparr> handleResponse"
    by (simp add: apiPost_def)
  then show ?thesis by blast
qed

lemma contract: "key_filter qm \<Longrightarrow> action_contract qm mut pid"
  by (auto simp: action_contract_def stores_match refreshes_match_and_events leaves_other_matches
      posts_json)

end

interpretation start: scoring_action useStartMatch si_publicId
  by unfold_locales (auto simp: useStartMatch_def)

interpretation point: scoring_action useScorePoint fst
  by unfold_locales (auto simp: useScorePoint_def split: prod.splits)

interpretation sideout: scoring_action useSideOut id
  by unfold_locales (auto simp: useSideOut_def)

interpretation undo: scoring_action useUndo id
  by unfold_locales (auto simp: useUndo_def)

interpretation remove_point: scoring_action useRemovePoint id
  by unfold_locales (auto simp: useRemovePoint_def)

interpretation confirm_game: scoring_action useConfirmGameOver id
  by unfold_locales (auto simp: useConfirmGameOver_def)

interpretation confirm_match: scoring_action useConfirmMatchOver id
  by unfold_locales (auto simp: useConfirmMatchOver_def)

interpretation call_timeout: scoring_action useCallTimeout fst
  by unfold_locales (auto simp: useCallTimeout_def split: prod.splits)

interpretation pause: scoring_action usePauseMatch id
  by unfold_locales (auto simp: usePauseMatch_def)

interpretation resume: scoring_action useResumeMatch id
  by unfold_locales (auto simp: useResumeMatch_def)

interpretation forfeit: scoring_action useDeclareForfeit fi_publicId
  by unfold_locales (auto simp: useDeclareForfeit_def)

interpretation override: scoring_action useOverrideScore oi_publicId
  by unfold_locales (auto simp: useOverrideScore_def)

section \<open>Properties\<close>

text \<open>
  C18. Each of the twelve scoring actions posts JSON under the path of the match it is called
  for. On an answer with a match it stores that match and refreshes the match and its event
  list; it never touches the cached data of another match.
\<close>

theorem scoring_actions:
  assumes "key_filter qm"
  shows "action_contract qm useStartMatch si_publicId \<and> action_contract qm useScorePoint fst \<and>
    action_contract qm useSideOut id \<and> action_contract qm useUndo id \<and>
    action_contract qm useRemovePoint id \<and> action_contract qm useConfirmGameOver id \<and>
    action_contract qm useConfirmMatchOver id \<and> action_contract qm useCallTimeout fst \<and>
    action_contract qm usePauseMatch id \<and> action_contract qm useResumeMatch id \<and>
    action_contract qm useDeclareForfeit fi_publicId \<and> action_contract qm useOverrideScore oi_publicId"
  by (intro conjI start.contract point.contract sideout.contract undo.contract
      remove_point.contract confirm_game.contract confirm_match.contract call_timeout.contract
      pause.contract resume.contract forfeit.contract override.contract assms)

theorem scoring_actions_witness: "action_contract prefix useScorePoint fst"
  using scoring_actions [OF key_filter_of_prefix] by blast

end
