(* ===== verification/Tournament_Hooks.thy ===== *)
theory Tournament_Hooks
  imports Query_Layer
begin

text \<open>
  \<open>web/src/features/tournaments/hooks.ts\<close>: the queries and mutations of the tournament
  pages, one definition per hook. A hook's arguments are its parameters; the argument of
  a mutation's \<open>mutationFn\<close> is the input of the \<open>mutation\<close> record.
\<close>

section \<open>Tournaments\<close>

definition useListTournaments :: "string option \<Rightarrow> string option \<Rightarrow> int option \<Rightarrow> int option \<Rightarrow> string option \<Rightarrow> query" where
  "useListTournaments query stat lmt ofs leagueId =
     (use_query [Str ''tournaments'', Str ''list'',
          Obj [(''query'', undef_or Str query), (''status'', undef_or Str stat), (''limit'',
          undef_or Num lmt), (''offset'', undef_or Num ofs), (''leagueId'', undef_or Str leagueId)]]
        (ApiGetPaginated (''/api/v1/tournaments'' @
            buildQueryString [(''query'', undef_or Str query), (''status'', undef_or Str stat),
             (''limit'', undef_or Num lmt), (''offset'', undef_or Num ofs), (''league_id'',
             undef_or Str leagueId)])))
     \<lparr> q_stale := 5 * 60 * 1000 \<rparr>"

definition useGetTournament :: "string \<Rightarrow> query" where
  "useGetTournament ident =
     (use_query [Str ''tournaments'', Str ident]
        (ApiGet (''/api/v1/tournaments/'' @ ident)))
     \<lparr> q_enabled := truthy (Str ident), q_stale := 2 * 60 * 1000 \<rparr>"

definition useCreateTournament :: "js mutation" where
  "useCreateTournament =
     use_mutation (\<lambda>body. ApiPost ''/api/v1/tournaments'' body)
       (\<lambda>_ _. [Invalidate [Str ''tournaments'']])"

definition useUpdateTournament :: "string \<Rightarrow> js mutation" where
  "useUpdateTournament ident =
     use_mutation (\<lambda>body. ApiPatch (''/api/v1/tournaments/'' @ ident) body)
       (\<lambda>_ _. [Invalidate [Str ''tournaments'']])"

definition useDeleteTournament :: "string \<Rightarrow> unit mutation" where
  "useDeleteTournament ident =
     use_mutation (\<lambda>_. ApiDelete (''/api/v1/tournaments/'' @ ident))
       (\<lambda>_ _. [Invalidate [Str ''tournaments'']])"

definition useUpdateTournamentStatus :: "string \<Rightarrow> string mutation" where
  "useUpdateTournamentStatus ident =
     use_mutation (\<lambda>stat. ApiPatch (''/api/v1/tournaments/'' @ ident @ ''/status'')
         (Obj [(''status'', Str stat)]))
       (\<lambda>_ _. [Invalidate [Str ''tournaments'']])"

definition useCloneTournament :: "string \<Rightarrow> (string \<times> string option \<times> string option) mutation" where
  "useCloneTournament ident =
     use_mutation (\<lambda>(nm, start_date, end_date). ApiPost (''/api/v1/tournaments/'' @ ident @ ''/clone'')
         (Obj [(''name'', Str nm), (''start_date'', undef_or Str start_date), (''end_date'',
          undef_or Str end_date)]))
       (\<lambda>_ _. [Invalidate [Str ''tournaments'']])"

section \<open>Divisions\<close>

definition useListDivisions :: "string \<Rightarrow> query" where
  "useListDivisions tournamentId =
     (use_query [Str ''tournaments'', Str tournamentId, Str ''divisions'']
        (ApiGet (''/api/v1/tournaments/'' @ tournamentId @ ''/divisions'')))
     \<lparr> q_enabled := truthy (Str tournamentId), q_stale := 5 * 60 * 1000 \<rparr>"

definition useGetDivision :: "string \<Rightarrow> string \<Rightarrow> query" where
  "useGetDivision tournamentId divisionId =
     (use_query [Str ''tournaments'', Str tournamentId, Str ''divisions'', Str divisionId]
        (ApiGet (''/api/v1/tournaments/'' @ tournamentId @ ''/divisions/'' @ divisionId)))
     \<lparr> q_enabled := truthy (Str tournamentId) \<and> truthy (Str divisionId), q_stale := 2 * 60 * 1000 \<rparr>"

definition useCreateDivision :: "string \<Rightarrow> js mutation" where
  "useCreateDivision tournamentId =
     use_mutation (\<lambda>body. ApiPost (''/api/v1/tournaments/'' @ tournamentId @ ''/divisions'') body)
       (\<lambda>_ _. [Invalidate [Str ''tournaments'', Str tournamentId, Str ''divisions'']])"

definition useUpdateDivision :: "string \<Rightarrow> string \<Rightarrow> js mutation" where
  "useUpdateDivision tournamentId divisionId =
     use_mutation (\<lambda>body. ApiPatch (''/api/v1/tournaments/'' @ tournamentId @ ''/divisions/'' @ divisionId) body)
       (\<lambda>_ _. [Invalidate [Str ''tournaments'', Str tournamentId, Str ''divisions'']])"

definition useDeleteDivision :: "string \<Rightarrow> string \<Rightarrow> unit mutation" where
  "useDeleteDivision tournamentId divisionId =
     use_mutation (\<lambda>_. ApiDelete (''/api/v1/tournaments/'' @ tournamentId @ ''/divisions/'' @ divisionId))
       (\<lambda>_ _. [Invalidate [Str ''tournaments'', Str tournamentId, Str ''divisions'']])"

definition useUpdateDivisionStatus :: "string \<Rightarrow> string \<Rightarrow> string mutation" where
  "useUpdateDivisionStatus tournamentId divisionId =
     use_mutation (\<lambda>stat. ApiPatch (''/api/v1/tournaments/'' @ tournamentId @ ''/divisions/'' @ divisionId @ ''/status'')
         (Obj [(''status'', Str stat)]))
       (\<lambda>_ _. [Invalidate [Str ''tournaments'', Str tournamentId, Str ''divisions'']])"

section \<open>Registrations\<close>

definition useListRegistrations :: "string \<Rightarrow> string option \<Rightarrow> int option \<Rightarrow> int option \<Rightarrow> query" where
  "useListRegistrations divisionId stat lmt ofs =
     (use_query [Str ''divisions'', Str divisionId, Str ''registrations'',
          Obj [(''status'', undef_or Str stat), (''limit'', undef_or Num lmt), (''offset'',
          undef_or Num ofs)]]
        (ApiGetPaginated (''/api/v1/divisions/'' @ divisionId @ ''/registrations'' @
            buildQueryString [(''status'', undef_or Str stat), (''limit'', undef_or Num lmt),
             (''offset'', undef_or Num ofs)])))
     \<lparr> q_enabled := truthy (Str divisionId), q_stale := 5 * 60 * 1000 \<rparr>"

definition useCreateRegistration :: "string \<Rightarrow> js mutation" where
  "useCreateRegistration divisionId =
     use_mutation (\<lambda>body. ApiPost (''/api/v1/divisions/'' @ divisionId @ ''/registrations'') body)
       (\<lambda>_ _. [Invalidate [Str ''divisions'', Str divisionId, Str ''registrations'']])"

definition useUpdateRegistrationStatus :: "string \<Rightarrow> string \<Rightarrow> string mutation" where
  "useUpdateRegistrationStatus divisionId registrationId =
     use_mutation (\<lambda>stat. ApiPatch (''/api/v1/divisions/'' @ divisionId @ ''/registrations/'' @ registrationId @ ''/status'')
         (Obj [(''status'', Str stat)]))
       (\<lambda>_ _. [Invalidate [Str ''divisions'', Str divisionId, Str ''registrations'']])"

definition useUpdateRegistrationSeed :: "string \<Rightarrow> string \<Rightarrow> int option mutation" where
  "useUpdateRegistrationSeed divisionId registrationId =
     use_mutation (\<lambda>seed. ApiPatch (''/api/v1/divisions/'' @ divisionId @ ''/registrations/'' @ registrationId @ ''/seed'')
         (Obj [(''seed'', null_or Num seed)]))
       (\<lambda>_ _. [Invalidate [Str ''divisions'', Str divisionId, Str ''registrations'']])"

definition useCheckInRegistration :: "string \<Rightarrow> string \<Rightarrow> unit mutation" where
  "useCheckInRegistration divisionId registrationId =
     use_mutation (\<lambda>_. ApiPost (''/api/v1/divisions/'' @ divisionId @ ''/registrations/'' @ registrationId @ ''/check-in'') Undef)
       (\<lambda>_ _. [Invalidate [Str ''divisions'', Str divisionId, Str ''registrations'']])"

definition useBulkNoShow :: "string \<Rightarrow> js mutation" where
  "useBulkNoShow divisionId =
     use_mutation (\<lambda>registration_ids. ApiPost (''/api/v1/divisions/'' @ divisionId @ ''/registrations/bulk-no-show'')
         (Obj [(''registration_ids'', registration_ids)]))
       (\<lambda>_ _. [Invalidate [Str ''divisions'', Str divisionId, Str ''registrations'']])"

definition useWithdrawMidTournament :: "string \<Rightarrow> string \<Rightarrow> unit mutation" where
  "useWithdrawMidTournament divisionId registrationId =
     use_mutation (\<lambda>_. ApiPost (''/api/v1/divisions/'' @ divisionId @ ''/registrations/'' @ registrationId @ ''/withdraw'') Undef)
       (\<lambda>_ _. [Invalidate [Str ''divisions'', Str divisionId, Str ''registrations'']])"

definition useUpdateAdminNotes :: "string \<Rightarrow> string \<Rightarrow> string mutation" where
  "useUpdateAdminNotes divisionId registrationId =
     use_mutation (\<lambda>admin_notes. ApiPatch (''/api/v1/divisions/'' @ divisionId @ ''/registrations/'' @ registrationId @ ''/admin-notes'')
         (Obj [(''admin_notes'', Str admin_notes)]))
       (\<lambda>_ _. [Invalidate [Str ''divisions'', Str divisionId, Str ''registrations'']])"

section \<open>Pods\<close>

definition useListPods :: "string \<Rightarrow> query" where
  "useListPods divisionId =
     (use_query [Str ''divisions'', Str divisionId, Str ''pods'']
        (ApiGet (''/api/v1/divisions/'' @ divisionId @ ''/pods'')))
     \<lparr> q_enabled := truthy (Str divisionId), q_stale := 5 * 60 * 1000 \<rparr>"

definition useCreatePod :: "string \<Rightarrow> js mutation" where
  "useCreatePod divisionId =
     use_mutation (\<lambda>body. ApiPost (''/api/v1/divisions/'' @ divisionId @ ''/pods'') body)
       (\<lambda>_ _. [Invalidate [Str ''divisions'', Str divisionId, Str ''pods'']])"

definition useUpdatePod :: "string \<Rightarrow> string \<Rightarrow> js mutation" where
  "useUpdatePod divisionId podId =
     use_mutation (\<lambda>body. ApiPatch (''/api/v1/divisions/'' @ divisionId @ ''/pods/'' @ podId) body)
       (\<lambda>_ _. [Invalidate [Str ''divisions'', Str divisionId, Str ''pods'']])"

definition useDeletePod :: "string \<Rightarrow> string \<Rightarrow> unit mutation" where
  "useDeletePod divisionId podId =
     use_mutation (\<lambda>_. ApiDelete (''/api/v1/divisions/'' @ divisionId @ ''/pods/'' @ podId))
       (\<lambda>_ _. [Invalidate [Str ''divisions'', Str divisionId, Str ''pods'']])"

section \<open>Announcements\<close>

definition useListTournamentAnnouncements :: "string \<Rightarrow> string option \<Rightarrow> query" where
  "useListTournamentAnnouncements tournamentId divisionId =
     (use_query [Str ''tournaments'', Str tournamentId, Str ''announcements'',
          Obj [(''divisionId'', undef_or Str divisionId)]]
        (ApiGet (''/api/v1/tournaments/'' @ tournamentId @ ''/announcements'' @
            buildQueryString [(''division_id'', undef_or Str divisionId)])))
     \<lparr> q_enabled := truthy (Str tournamentId), q_stale := 5 * 60 * 1000 \<rparr>"

definition useCreateTournamentAnnouncement :: "string \<Rightarrow> js mutation" where
  "useCreateTournamentAnnouncement tournamentId =
     use_mutation (\<lambda>body. ApiPost (''/api/v1/tournaments/'' @ tournamentId @ ''/announcements'') body)
       (\<lambda>_ _. [Invalidate [Str ''tournaments'', Str tournamentId, Str ''announcements'']])"

definition useUpdateAnnouncement :: "string \<Rightarrow> js mutation" where
  "useUpdateAnnouncement announcementId =
     use_mutation (\<lambda>body. ApiPatch (''/api/v1/announcements/'' @ announcementId) body)
       (\<lambda>_ _. [Invalidate [Str ''tournaments'']])"

definition useDeleteAnnouncement :: "string \<Rightarrow> unit mutation" where
  "useDeleteAnnouncement announcementId =
     use_mutation (\<lambda>_. ApiDelete (''/api/v1/announcements/'' @ announcementId))
       (\<lambda>_ _. [Invalidate [Str ''tournaments'']])"

section \<open>Brackets, presets, leagues and seasons of the create form\<close>

definition useGenerateBracket :: "string \<Rightarrow> unit mutation" where
  "useGenerateBracket divisionId =
     use_mutation (\<lambda>_. ApiPost (''/api/v1/divisions/'' @ divisionId @ ''/bracket/generate'') Undef)
       (\<lambda>_ _. [Invalidate [Str ''divisions'', Str divisionId, Str ''matches'']])"

definition useListBracketMatches :: "string \<Rightarrow> query" where
  "useListBracketMatches divisionId =
     (use_query [Str ''divisions'', Str divisionId, Str ''matches'']
        (ApiGet (''/api/v1/divisions/'' @ divisionId @ ''/matches'')))
     \<lparr> q_enabled := truthy (Str divisionId), q_stale := 5 * 60 * 1000 \<rparr>"

definition useListScoringPresets :: "query" where
  "useListScoringPresets =
     (use_query [Str ''scoring-presets'']
        (ApiGet ''/api/v1/scoring-presets''))
     \<lparr> q_stale := 5 * 60 * 1000 \<rparr>"

definition useSearchLeagues :: "string \<Rightarrow> query" where
  "useSearchLeagues query =
     (use_query [Str ''leagues'', Str ''search'', Str query]
        (ApiGetPaginated (''/api/v1/leagues'' @
            buildQueryString [(''query'', Str query), (''limit'', Num 20), (''offset'', Num 0)])))
     \<lparr> q_enabled := 0 < length query, q_stale := 5 * 60 * 1000 \<rparr>"

definition useLeagueSeasons :: "int option \<Rightarrow> query" where
  "useLeagueSeasons leagueId =
     (use_query [Str ''leagues'', null_or Num leagueId, Str ''seasons'']
        (ApiGet (''/api/v1/leagues/'' @ js_to_string (null_or Num leagueId) @ ''/seasons'')))
     \<lparr> q_enabled := truthy (null_or Num leagueId), q_stale := 5 * 60 * 1000 \<rparr>"

section \<open>Courts and staff of a tournament\<close>

definition useAssignCourtToTournament :: "int \<Rightarrow> int mutation" where
  "useAssignCourtToTournament tournamentId =
     use_mutation (\<lambda>courtId. ApiPost (''/api/v1/tournaments/'' @ show_int tournamentId @ ''/courts'')
         (Obj [(''court_id'', Num courtId)]))
       (\<lambda>_ _. [Invalidate [Str ''tournaments'', Num tournamentId, Str ''courts'']])"

definition useCreateTempTournamentCourt :: "int \<Rightarrow> (string \<times> string option) mutation" where
  "useCreateTempTournamentCourt tournamentId =
     use_mutation (\<lambda>(nm, surface_type). ApiPost (''/api/v1/tournaments/'' @ show_int tournamentId @ ''/courts/temp'')
         (Obj [(''name'', Str nm), (''surface_type'', undef_or Str surface_type)]))
       (\<lambda>_ _. [Invalidate [Str ''tournaments'', Num tournamentId, Str ''courts'']])"

definition useUnassignCourtFromTournament :: "int \<Rightarrow> int mutation" where
  "useUnassignCourtFromTournament tournamentId =
     use_mutation (\<lambda>courtId. ApiDelete (''/api/v1/tournaments/'' @ show_int tournamentId @ ''/courts/'' @ show_int courtId))
       (\<lambda>_ _. [Invalidate [Str ''tournaments'', Num tournamentId, Str ''courts'']])"

definition useTournamentStaff :: "int \<Rightarrow> query" where
  "useTournamentStaff tournamentId =
     (use_query [Str ''tournaments'', Num tournamentId, Str ''staff'']
        (ApiGet (''/api/v1/tournaments/'' @ show_int tournamentId @ ''/staff'')))
     \<lparr> q_enabled := truthy (Num tournamentId), q_stale := 5 * 60 * 1000 \<rparr>"

definition useRegenerateStaffPassword :: "int \<Rightarrow> string mutation" where
  "useRegenerateStaffPassword tournamentId =
     use_mutation (\<lambda>role. ApiPost (''/api/v1/tournaments/'' @ show_int tournamentId @ ''/staff/regenerate/'' @ role) Undef)
       (\<lambda>_ _. [Invalidate [Str ''tournaments'', Num tournamentId, Str ''staff'']])"

lemmas tournament_query_defs [key_simps] =
  useListTournaments_def useGetTournament_def useListDivisions_def useGetDivision_def
  useListRegistrations_def useListPods_def useListTournamentAnnouncements_def
  useListBracketMatches_def useListScoringPresets_def useSearchLeagues_def useLeagueSeasons_def
  useTournamentStaff_def

lemmas tournament_mutation_defs [effect_simps] =
  useCreateTournament_def useUpdateTournament_def useDeleteTournament_def
  useUpdateTournamentStatus_def useCloneTournament_def useCreateDivision_def
  useUpdateDivision_def useDeleteDivision_def useUpdateDivisionStatus_def
  useCreateRegistration_def useUpdateRegistrationStatus_def useUpdateRegistrationSeed_def
  useCheckInRegistration_def useBulkNoShow_def useWithdrawMidTournament_def
  useUpdateAdminNotes_def useCreatePod_def useUpdatePod_def useDeletePod_def
  useCreateTournamentAnnouncement_def useUpdateAnnouncement_def useDeleteAnnouncement_def
  useGenerateBracket_def useAssignCourtToTournament_def useCreateTempTournamentCourt_def
  useUnassignCourtFromTournament_def useRegenerateStaffPassword_def

end
