(* ===== verification/League_Hooks.thy ===== *)
theory League_Hooks
  imports Query_Layer
begin

text \<open>
  \<open>web/src/features/leagues/hooks.ts\<close>: the queries and mutations of leagues, seasons,
  division templates, registrations, announcements and standings.
\<close>

section \<open>Leagues\<close>

definition useListLeagues :: "string option \<Rightarrow> int \<Rightarrow> int \<Rightarrow> query" where
  "useListLeagues query lmt ofs =
     use_query [Str ''leagues'', Str ''list'',
          Obj [(''query'', undef_or Str query), (''limit'', Num lmt), (''offset'', Num ofs)]]
        (ApiGetPaginated (''/api/v1/leagues'' @
            buildQueryString [(''query'', undef_or Str query), (''limit'', Num lmt), (''offset'',
             Num ofs)]))"

definition useGetLeague :: "int option \<Rightarrow> query" where
  "useGetLeague ident =
     (use_query [Str ''leagues'', Str ''detail'', null_or Num ident]
        (ApiGet (''/api/v1/leagues/'' @ js_to_string (null_or Num ident))))
     \<lparr> q_enabled := ident \<noteq> None \<rparr>"

definition useCreateLeague :: "js mutation" where
  "useCreateLeague =
     use_mutation (\<lambda>body. ApiPost ''/api/v1/leagues'' body)
       (\<lambda>_ _. [Invalidate [Str ''leagues'']])"

definition useUpdateLeague :: "int \<Rightarrow> js mutation" where
  "useUpdateLeague ident =
     use_mutation (\<lambda>body. ApiPatch (''/api/v1/leagues/'' @ show_int ident) body)
       (\<lambda>_ _. [Invalidate [Str ''leagues'']])"

definition useDeleteLeague :: "int mutation" where
  "useDeleteLeague =
     use_mutation (\<lambda>ident. ApiDelete (''/api/v1/leagues/'' @ show_int ident))
       (\<lambda>_ _. [Invalidate [Str ''leagues'']])"

definition useUpdateLeagueStatus :: "int \<Rightarrow> string mutation" where
  "useUpdateLeagueStatus ident =
     use_mutation (\<lambda>stat. ApiPatch (''/api/v1/leagues/'' @ show_int ident @ ''/status'')
         (Obj [(''status'', Str stat)]))
       (\<lambda>_ _. [Invalidate [Str ''leagues'']])"

section \<open>Seasons\<close>

definition useListSeasons :: "int option \<Rightarrow> query" where
  "useListSeasons leagueId =
     (use_query [Str ''seasons'', Str ''list'', null_or Num leagueId]
        (ApiGet (''/api/v1/leagues/'' @ js_to_string (null_or Num leagueId) @ ''/seasons'')))
     \<lparr> q_enabled := leagueId \<noteq> None \<rparr>"

definition useGetSeason :: "int option \<Rightarrow> int option \<Rightarrow> query" where
  "useGetSeason leagueId seasonId =
     (use_query [Str ''seasons'', Str ''detail'', null_or Num leagueId, null_or Num seasonId]
        (ApiGet (''/api/v1/leagues/'' @ js_to_string (null_or Num leagueId) @ ''/seasons/'' @ js_to_string (null_or Num seasonId))))
     \<lparr> q_enabled := leagueId \<noteq> None \<and> seasonId \<noteq> None \<rparr>"

definition useCreateSeason :: "int \<Rightarrow> js mutation" where
  "useCreateSeason leagueId =
     use_mutation (\<lambda>body. ApiPost (''/api/v1/leagues/'' @ show_int leagueId @ ''/seasons'') body)
       (\<lambda>_ _. [Invalidate [Str ''seasons'']])"

definition useUpdateSeason :: "int \<Rightarrow> int \<Rightarrow> js mutation" where
  "useUpdateSeason leagueId seasonId =
     use_mutation (\<lambda>body. ApiPatch (''/api/v1/leagues/'' @ show_int leagueId @ ''/seasons/'' @ show_int seasonId) body)
       (\<lambda>_ _. [Invalidate [Str ''seasons'']])"

definition useDeleteSeason :: "int \<Rightarrow> int mutation" where
  "useDeleteSeason leagueId =
     use_mutation (\<lambda>seasonId. ApiDelete (''/api/v1/leagues/'' @ show_int leagueId @ ''/seasons/'' @ show_int seasonId))
       (\<lambda>_ _. [Invalidate [Str ''seasons'']])"

definition useUpdateSeasonStatus :: "int \<Rightarrow> int \<Rightarrow> string mutation" where
  "useUpdateSeasonStatus leagueId seasonId =
     use_mutation (\<lambda>stat. ApiPatch (''/api/v1/leagues/'' @ show_int leagueId @ ''/seasons/'' @ show_int seasonId @ ''/status'')
         (Obj [(''status'', Str stat)]))
       (\<lambda>_ _. [Invalidate [Str ''seasons'']])"

section \<open>Division templates\<close>

definition useListDivisionTemplates :: "int option \<Rightarrow> query" where
  "useListDivisionTemplates leagueId =
     (use_query [Str ''division-templates'', Str ''list'', null_or Num leagueId]
        (ApiGet (''/api/v1/leagues/'' @ js_to_string (null_or Num leagueId) @ ''/division-templates'')))
     \<lparr> q_enabled := leagueId \<noteq> None \<rparr>"

definition useCreateDivisionTemplate :: "int \<Rightarrow> js mutation" where
  "useCreateDivisionTemplate leagueId =
     use_mutation (\<lambda>body. ApiPost (''/api/v1/leagues/'' @ show_int leagueId @ ''/division-templates'') body)
       (\<lambda>_ _. [Invalidate [Str ''division-templates'']])"

definition useUpdateDivisionTemplate :: "int \<Rightarrow> int \<Rightarrow> js mutation" where
  "useUpdateDivisionTemplate leagueId templateId =
     use_mutation (\<lambda>body. ApiPatch (''/api/v1/leagues/'' @ show_int leagueId @ ''/division-templates/'' @ show_int templateId) body)
       (\<lambda>_ _. [Invalidate [Str ''division-templates'']])"

definition useDeleteDivisionTemplate :: "int \<Rightarrow> int mutation" where
  "useDeleteDivisionTemplate leagueId =
     use_mutation (\<lambda>templateId. ApiDelete (''/api/v1/leagues/'' @ show_int leagueId @ ''/division-templates/'' @ show_int templateId))
       (\<lambda>_ _. [Invalidate [Str ''division-templates'']])"

section \<open>League registrations\<close>

definition useListLeagueRegistrations :: "int option \<Rightarrow> query" where
  "useListLeagueRegistrations leagueId =
     (use_query [Str ''league-registrations'', Str ''list'', null_or Num leagueId]
        (ApiGet (''/api/v1/leagues/'' @ js_to_string (null_or Num leagueId) @ ''/registrations'')))
     \<lparr> q_enabled := leagueId \<noteq> None \<rparr>"

definition useCreateLeagueRegistration :: "int \<Rightarrow> (int \<times> string option) mutation" where
  "useCreateLeagueRegistration leagueId =
     use_mutation (\<lambda>(org_id, notes). ApiPost (''/api/v1/leagues/'' @ show_int leagueId @ ''/registrations'')
         (Obj [(''org_id'', Num org_id), (''notes'', undef_or Str notes)]))
       (\<lambda>_ _. [Invalidate [Str ''league-registrations'']])"

definition useUpdateLeagueRegistrationStatus :: "int \<Rightarrow> (int \<times> string) mutation" where
  "useUpdateLeagueRegistrationStatus leagueId =
     use_mutation (\<lambda>(registrationId, stat). ApiPatch (''/api/v1/leagues/'' @ show_int leagueId @ ''/registrations/'' @ show_int registrationId @ ''/status'')
         (Obj [(''status'', Str stat)]))
       (\<lambda>_ _. [Invalidate [Str ''league-registrations'']])"

section \<open>Season confirmations\<close>

definition useListSeasonConfirmations :: "int option \<Rightarrow> int option \<Rightarrow> query" where
  "useListSeasonConfirmations leagueId seasonId =
     (use_query [Str ''season-confirmations'', Str ''list'', null_or Num leagueId,
          null_or Num seasonId]
        (ApiGet (''/api/v1/leagues/'' @ js_to_string (null_or Num leagueId) @ ''/seasons/'' @ js_to_string (null_or Num seasonId) @ ''/confirmations'')))
     \<lparr> q_enabled := leagueId \<noteq> None \<and> seasonId \<noteq> None \<rparr>"

definition useConfirmSeason :: "int \<Rightarrow> int \<Rightarrow> (int \<times> int) mutation" where
  "useConfirmSeason leagueId seasonId =
     use_mutation (\<lambda>(team_id, division_id). ApiPost (''/api/v1/leagues/'' @ show_int leagueId @ ''/seasons/'' @ show_int seasonId @ ''/confirmations'')
         (Obj [(''team_id'', Num team_id), (''division_id'', Num division_id)]))
       (\<lambda>_ _. [Invalidate [Str ''season-confirmations'']])"

section \<open>Announcements\<close>

definition useListLeagueAnnouncements :: "int option \<Rightarrow> query" where
  "useListLeagueAnnouncements leagueId =
     (use_query [Str ''announcements'', Str ''league'', null_or Num leagueId]
        (ApiGet (''/api/v1/leagues/'' @ js_to_string (null_or Num leagueId) @ ''/announcements'')))
     \<lparr> q_enabled := leagueId \<noteq> None \<rparr>"

definition useCreateLeagueAnnouncement :: "int \<Rightarrow> js mutation" where
  "useCreateLeagueAnnouncement leagueId =
     use_mutation (\<lambda>body. ApiPost (''/api/v1/leagues/'' @ show_int leagueId @ ''/announcements'') body)
       (\<lambda>_ _. [Invalidate [Str ''announcements'']])"

section \<open>Standings and the tournaments of a season\<close>

definition useListStandingsBySeason :: "int option \<Rightarrow> query" where
  "useListStandingsBySeason seasonId =
     (use_query [Str ''standings'', Str ''season'', null_or Num seasonId]
        (ApiGet (''/api/v1/standings/seasons/'' @ js_to_string (null_or Num seasonId))))
     \<lparr> q_enabled := seasonId \<noteq> None \<rparr>"

definition useListStandingsByDivision :: "int \<Rightarrow> int \<Rightarrow> int \<Rightarrow> int \<Rightarrow> query" where
  "useListStandingsByDivision seasonId divisionId lmt ofs =
     (use_query [Str ''standings'', Str ''division'', Num seasonId, Num divisionId,
          Obj [(''limit'', Num lmt), (''offset'', Num ofs)]]
        (ApiGetPaginated (''/api/v1/standings/seasons/'' @ show_int seasonId @ ''/divisions/'' @ show_int divisionId @
            buildQueryString [(''limit'', Num lmt), (''offset'', Num ofs)])))
     \<lparr> q_enabled := 0 < seasonId \<and> 0 < divisionId \<rparr>"

definition useRecomputeStandings :: "int \<Rightarrow> int \<Rightarrow> unit mutation" where
  "useRecomputeStandings seasonId divisionId =
     use_mutation (\<lambda>_. ApiPost (''/api/v1/standings/seasons/'' @ show_int seasonId @ ''/divisions/'' @ show_int divisionId @ ''/recompute'')
         (Obj []))
       (\<lambda>_ _. [Invalidate [Str ''standings'']])"

definition useListTournamentsBySeason :: "int option \<Rightarrow> query" where
  "useListTournamentsBySeason seasonId =
     (use_query [Str ''tournaments'', Str ''by-season'', null_or Num seasonId]
        (ApiGetPaginated (''/api/v1/tournaments'' @
            buildQueryString [(''season_id'', null_or Num seasonId), (''limit'', Num 100),
             (''offset'', Num 0)])))
     \<lparr> q_enabled := seasonId \<noteq> None \<rparr>"

lemmas league_query_defs [key_simps] =
  useListLeagues_def useGetLeague_def useListSeasons_def useGetSeason_def
  useListDivisionTemplates_def useListLeagueRegistrations_def useListSeasonConfirmations_def
  useListLeagueAnnouncements_def useListStandingsBySeason_def useListStandingsByDivision_def
  useListTournamentsBySeason_def

lemmas league_mutation_defs [effect_simps] =
  useCreateLeague_def useUpdateLeague_def useDeleteLeague_def useUpdateLeagueStatus_def
  useCreateSeason_def useUpdateSeason_def useDeleteSeason_def useUpdateSeasonStatus_def
  useCreateDivisionTemplate_def useUpdateDivisionTemplate_def useDeleteDivisionTemplate_def
  useCreateLeagueRegistration_def useUpdateLeagueRegistrationStatus_def useConfirmSeason_def
  useCreateLeagueAnnouncement_def useRecomputeStandings_def

end
