(* ===== verification/Registry_Hooks.thy ===== *)
theory Registry_Hooks
  imports Query_Layer
begin

text \<open>
  The hooks of the registry, \<open>web/src/features/registry/\<close>: \<open>courts/hooks.ts\<close>,
  \<open>players/hooks.ts\<close>, \<open>teams/hooks.ts\<close>, \<open>organizations/hooks.ts\<close> and \<open>venues/hooks.ts\<close>.
\<close>

section \<open>Courts\<close>

definition useFloatingCourts :: "int \<Rightarrow> int \<Rightarrow> query" where
  "useFloatingCourts lmt ofs =
     (use_query [Str ''courts'', Str ''floating'',
          Obj [(''limit'', Num lmt), (''offset'', Num ofs)]]
        (ApiGetPaginated (''/api/v1/courts'' @
            buildQueryString [(''limit'', Num lmt), (''offset'', Num ofs)])))
     \<lparr> q_stale := 5 * 60 * 1000 \<rparr>"

definition useCourt :: "string \<Rightarrow> query" where
  "useCourt ident =
     (use_query [Str ''courts'', Str ident]
        (ApiGet (''/api/v1/courts/'' @ ident)))
     \<lparr> q_enabled := truthy (Str ident), q_stale := 2 * 60 * 1000 \<rparr>"

definition useCreateFloatingCourt :: "js mutation" where
  "useCreateFloatingCourt =
     use_mutation (\<lambda>body. ApiPost ''/api/v1/courts'' body)
       (\<lambda>_ _. [Invalidate [Str ''courts'']])"

definition useUpdateCourt :: "string \<Rightarrow> js mutation" where
  "useUpdateCourt ident =
     use_mutation (\<lambda>body. ApiPatch (''/api/v1/courts/'' @ ident) body)
       (\<lambda>_ _. [Invalidate [Str ''courts'']])"

definition useDeleteCourt :: "string \<Rightarrow> unit mutation" where
  "useDeleteCourt ident =
     use_mutation (\<lambda>_. ApiDelete (''/api/v1/courts/'' @ ident))
       (\<lambda>_ _. [Invalidate [Str ''courts'']])"

section \<open>Players\<close>

definition usePlayerSearch :: "string \<Rightarrow> int \<Rightarrow> int \<Rightarrow> query" where
  "usePlayerSearch query lmt ofs =
     (use_query [Str ''players'', Str ''search'',
          Obj [(''query'', Str query), (''limit'', Num lmt), (''offset'', Num ofs)]]
        (ApiGetPaginated (''/api/v1/players/search'' @
            buildQueryString [(''q'', Str query), (''limit'', Num lmt), (''offset'', Num ofs)])))
     \<lparr> q_stale := 5 * 60 * 1000 \<rparr>"

definition usePlayer :: "string \<Rightarrow> query" where
  "usePlayer ident =
     (use_query [Str ''players'', Str ident]
        (ApiGet (''/api/v1/players/'' @ ident)))
     \<lparr> q_enabled := truthy (Str ident), q_stale := 2 * 60 * 1000 \<rparr>"

definition useMyProfile :: "query" where
  "useMyProfile =
     (use_query [Str ''players'', Str ''me'']
        (ApiGet ''/api/v1/players/me''))
     \<lparr> q_stale := 2 * 60 * 1000 \<rparr>"

definition useUpdateProfile :: "js mutation" where
  "useUpdateProfile =
     use_mutation (\<lambda>body. ApiPatch ''/api/v1/players/me'' body)
       (\<lambda>_ _. [Invalidate [Str ''players'']])"

definition useAcceptWaiver :: "unit mutation" where
  "useAcceptWaiver =
     use_mutation (\<lambda>_. ApiPost ''/api/v1/players/me/waiver'' Undef)
       (\<lambda>_ _. [Invalidate [Str ''players'']])"

section \<open>Teams\<close>

definition useTeamSearch :: "string \<Rightarrow> int \<Rightarrow> int \<Rightarrow> query" where
  "useTeamSearch query lmt ofs =
     (use_query [Str ''teams'', Str ''search'',
          Obj [(''query'', Str query), (''limit'', Num lmt), (''offset'', Num ofs)]]
        (ApiGetPaginated (''/api/v1/teams/search'' @
            buildQueryString [(''q'', Str query), (''limit'', Num lmt), (''offset'', Num ofs)])))
     \<lparr> q_stale := 5 * 60 * 1000 \<rparr>"

definition useTeam :: "string \<Rightarrow> query" where
  "useTeam ident =
     (use_query [Str ''teams'', Str ident]
        (ApiGet (''/api/v1/teams/'' @ ident)))
     \<lparr> q_enabled := truthy (Str ident), q_stale := 2 * 60 * 1000 \<rparr>"

definition useCreateTeam :: "js mutation" where
  "useCreateTeam =
     use_mutation (\<lambda>body. ApiPost ''/api/v1/teams'' body)
       (\<lambda>_ _. [Invalidate [Str ''teams'']])"

definition useUpdateTeam :: "string \<Rightarrow> js mutation" where
  "useUpdateTeam ident =
     use_mutation (\<lambda>body. ApiPatch (''/api/v1/teams/'' @ ident) body)
       (\<lambda>_ _. [Invalidate [Str ''teams'']])"

definition useDeleteTeam :: "string \<Rightarrow> unit mutation" where
  "useDeleteTeam ident =
     use_mutation (\<lambda>_. ApiDelete (''/api/v1/teams/'' @ ident))
       (\<lambda>_ _. [Invalidate [Str ''teams'']])"

definition useTeamsByOrg :: "js \<Rightarrow> int \<Rightarrow> int \<Rightarrow> query" where
  "useTeamsByOrg orgId lmt ofs =
     (use_query [Str ''teams'', Str ''by-org'', orgId,
          Obj [(''limit'', Num lmt), (''offset'', Num ofs)]]
        (ApiGetPaginated (''/api/v1/organizations/'' @ js_to_string (orgId) @ ''/teams'' @
            buildQueryString [(''limit'', Num lmt), (''offset'', Num ofs)])))
     \<lparr> q_enabled := truthy (orgId), q_stale := 5 * 60 * 1000 \<rparr>"

definition useTeamRoster :: "string \<Rightarrow> query" where
  "useTeamRoster teamId =
     (use_query [Str ''teams'', Str teamId, Str ''roster'']
        (ApiGet (''/api/v1/teams/'' @ teamId @ ''/roster'')))
     \<lparr> q_enabled := truthy (Str teamId), q_stale := 5 * 60 * 1000 \<rparr>"

definition useAddPlayerToRoster :: "string \<Rightarrow> (int \<times> string option \<times> int option) mutation" where
  "useAddPlayerToRoster teamId =
     use_mutation (\<lambda>(player_id, role, jersey_number). ApiPost (''/api/v1/teams/'' @ teamId @ ''/roster'')
         (Obj [(''player_id'', Num player_id), (''role'', undef_or Str role), (''jersey_number'',
          undef_or Num jersey_number)]))
       (\<lambda>_ _. [Invalidate [Str ''teams'', Str teamId, Str ''roster'']])"

definition useRemovePlayerFromRoster :: "string \<Rightarrow> int mutation" where
  "useRemovePlayerFromRoster teamId =
     use_mutation (\<lambda>playerId. ApiDelete (''/api/v1/teams/'' @ teamId @ ''/roster/'' @ show_int playerId))
       (\<lambda>_ _. [Invalidate [Str ''teams'', Str teamId, Str ''roster'']])"

section \<open>Organizations\<close>

definition useOrgSearch :: "string \<Rightarrow> int \<Rightarrow> int \<Rightarrow> query" where
  "useOrgSearch query lmt ofs =
     (use_query [Str ''organizations'', Str ''search'',
          Obj [(''query'', Str query), (''limit'', Num lmt), (''offset'', Num ofs)]]
        (ApiGetPaginated (''/api/v1/organizations/search'' @
            buildQueryString [(''q'', Str query), (''limit'', Num lmt), (''offset'', Num ofs)])))
     \<lparr> q_stale := 5 * 60 * 1000 \<rparr>"

definition useOrg :: "string \<Rightarrow> query" where
  "useOrg ident =
     (use_query [Str ''organizations'', Str ident]
        (ApiGet (''/api/v1/organizations/'' @ ident)))
     \<lparr> q_enabled := truthy (Str ident), q_stale := 2 * 60 * 1000 \<rparr>"

definition useCreateOrg :: "js mutation" where
  "useCreateOrg =
     use_mutation (\<lambda>body. ApiPost ''/api/v1/organizations'' body)
       (\<lambda>_ _. [Invalidate [Str ''organizations'']])"

definition useUpdateOrg :: "string \<Rightarrow> js mutation" where
  "useUpdateOrg ident =
     use_mutation (\<lambda>body. ApiPatch (''/api/v1/organizations/'' @ ident) body)
       (\<lambda>_ _. [Invalidate [Str ''organizations'']])"

definition useDeleteOrg :: "string \<Rightarrow> unit mutation" where
  "useDeleteOrg ident =
     use_mutation (\<lambda>_. ApiDelete (''/api/v1/organizations/'' @ ident))
       (\<lambda>_ _. [Invalidate [Str ''organizations'']])"

definition useOrgMembers :: "string \<Rightarrow> query" where
  "useOrgMembers orgId =
     (use_query [Str ''organizations'', Str orgId, Str ''members'']
        (ApiGet (''/api/v1/organizations/'' @ orgId @ ''/members'')))
     \<lparr> q_enabled := truthy (Str orgId), q_stale := 5 * 60 * 1000 \<rparr>"

definition useAddMember :: "string \<Rightarrow> (int \<times> string option) mutation" where
  "useAddMember orgId =
     use_mutation (\<lambda>(player_id, role). ApiPost (''/api/v1/organizations/'' @ orgId @ ''/members'')
         (Obj [(''player_id'', Num player_id), (''role'', undef_or Str role)]))
       (\<lambda>_ _. [Invalidate [Str ''organizations'', Str orgId, Str ''members'']])"

definition useRemoveMember :: "string \<Rightarrow> int mutation" where
  "useRemoveMember orgId =
     use_mutation (\<lambda>userId. ApiDelete (''/api/v1/organizations/'' @ orgId @ ''/members/'' @ show_int userId))
       (\<lambda>_ _. [Invalidate [Str ''organizations'', Str orgId, Str ''members'']])"

definition useUpdateMemberRole :: "string \<Rightarrow> (int \<times> string) mutation" where
  "useUpdateMemberRole orgId =
     use_mutation (\<lambda>(userId, role). ApiPatch (''/api/v1/organizations/'' @ orgId @ ''/members/'' @ show_int userId @ ''/role'')
         (Obj [(''role'', Str role)]))
       (\<lambda>_ _. [Invalidate [Str ''organizations'', Str orgId, Str ''members'']])"

definition useLeaveOrg :: "string \<Rightarrow> unit mutation" where
  "useLeaveOrg orgId =
     use_mutation (\<lambda>_. ApiPost (''/api/v1/organizations/'' @ orgId @ ''/leave'') Undef)
       (\<lambda>_ _. [Invalidate [Str ''organizations'']])"

definition useOrgBlockStatus :: "string \<Rightarrow> query" where
  "useOrgBlockStatus orgId =
     (use_query [Str ''organizations'', Str orgId, Str ''block-status'']
        (ApiGet (''/api/v1/organizations/'' @ orgId @ ''/block'')))
     \<lparr> q_enabled := truthy (Str orgId), q_stale := 2 * 60 * 1000 \<rparr>"

definition useMyOrgRole :: "string \<Rightarrow> query" where
  "useMyOrgRole orgId =
     (use_query [Str ''organizations'', Str orgId, Str ''my-role'']
        (ApiGet (''/api/v1/organizations/'' @ orgId @ ''/my-role'')))
     \<lparr> q_enabled := truthy (Str orgId), q_stale := 2 * 60 * 1000 \<rparr>"

definition useBlockOrg :: "string \<Rightarrow> unit mutation" where
  "useBlockOrg orgId =
     use_mutation (\<lambda>_. ApiPost (''/api/v1/organizations/'' @ orgId @ ''/block'') Undef)
       (\<lambda>_ _. [Invalidate [Str ''organizations'']])"

definition useUnblockOrg :: "string \<Rightarrow> unit mutation" where
  "useUnblockOrg orgId =
     use_mutation (\<lambda>_. ApiDelete (''/api/v1/organizations/'' @ orgId @ ''/block''))
       (\<lambda>_ _. [Invalidate [Str ''organizations'']])"

section \<open>Venues\<close>

definition useVenueSearch :: "string \<Rightarrow> int \<Rightarrow> int \<Rightarrow> query" where
  "useVenueSearch query lmt ofs =
     (use_query [Str ''venues'', Str ''search'',
          Obj [(''query'', Str query), (''limit'', Num lmt), (''offset'', Num ofs)]]
        (ApiGetPaginated (''/api/v1/venues/search'' @
            buildQueryString [(''q'', Str query), (''limit'', Num lmt), (''offset'', Num ofs)])))
     \<lparr> q_stale := 5 * 60 * 1000 \<rparr>"

definition useVenue :: "string \<Rightarrow> query" where
  "useVenue ident =
     (use_query [Str ''venues'', Str ident]
        (ApiGet (''/api/v1/venues/'' @ ident)))
     \<lparr> q_enabled := truthy (Str ident), q_stale := 2 * 60 * 1000 \<rparr>"

definition useCreateVenue :: "js mutation" where
  "useCreateVenue =
     use_mutation (\<lambda>body. ApiPost ''/api/v1/venues'' body)
       (\<lambda>_ _. [Invalidate [Str ''venues'']])"

definition useUpdateVenue :: "string \<Rightarrow> js mutation" where
  "useUpdateVenue ident =
     use_mutation (\<lambda>body. ApiPatch (''/api/v1/venues/'' @ ident) body)
       (\<lambda>_ _. [Invalidate [Str ''venues'']])"

definition useDeleteVenue :: "string \<Rightarrow> unit mutation" where
  "useDeleteVenue ident =
     use_mutation (\<lambda>_. ApiDelete (''/api/v1/venues/'' @ ident))
       (\<lambda>_ _. [Invalidate [Str ''venues'']])"

definition useSubmitForReview :: "string \<Rightarrow> unit mutation" where
  "useSubmitForReview ident =
     use_mutation (\<lambda>_. ApiPost (''/api/v1/venues/'' @ ident @ ''/submit-for-review'') Undef)
       (\<lambda>_ _. [Invalidate [Str ''venues'']])"

definition useUpdateVenueStatus :: "string \<Rightarrow> string mutation" where
  "useUpdateVenueStatus ident =
     use_mutation (\<lambda>stat. ApiPatch (''/api/v1/admin/venues/'' @ ident @ ''/status'')
         (Obj [(''status'', Str stat)]))
       (\<lambda>_ _. [Invalidate [Str ''venues'']])"

definition useVenueCourts :: "string \<Rightarrow> query" where
  "useVenueCourts venueId =
     (use_query [Str ''venues'', Str venueId, Str ''courts'']
        (ApiGet (''/api/v1/venues/'' @ venueId @ ''/courts'')))
     \<lparr> q_enabled := truthy (Str venueId), q_stale := 5 * 60 * 1000 \<rparr>"

definition useCreateVenueCourt :: "string \<Rightarrow> js mutation" where
  "useCreateVenueCourt venueId =
     use_mutation (\<lambda>body. ApiPost (''/api/v1/venues/'' @ venueId @ ''/courts'') body)
       (\<lambda>_ _.
           [Invalidate [Str ''venues'', Str venueId, Str ''courts''], Invalidate [Str ''venues'',
            Str venueId]])"

definition useUpdateVenueCourt :: "string \<Rightarrow> int \<Rightarrow> js mutation" where
  "useUpdateVenueCourt venueId courtId =
     use_mutation (\<lambda>body. ApiPatch (''/api/v1/venues/'' @ venueId @ ''/courts/'' @ show_int courtId) body)
       (\<lambda>_ _. [Invalidate [Str ''venues'', Str venueId, Str ''courts'']])"

definition useDeleteVenueCourt :: "string \<Rightarrow> int \<Rightarrow> unit mutation" where
  "useDeleteVenueCourt venueId courtId =
     use_mutation (\<lambda>_. ApiDelete (''/api/v1/venues/'' @ venueId @ ''/courts/'' @ show_int courtId))
       (\<lambda>_ _.
           [Invalidate [Str ''venues'', Str venueId, Str ''courts''], Invalidate [Str ''venues'',
            Str venueId]])"

definition useCanManageVenue :: "string \<Rightarrow> query" where
  "useCanManageVenue venueId =
     (use_query [Str ''venues'', Str venueId, Str ''can-manage'']
        (ApiGet (''/api/v1/venues/'' @ venueId @ ''/can-manage'')))
     \<lparr> q_enabled := truthy (Str venueId), q_stale := 30 * 1000 \<rparr>"

definition useVenueManagers :: "string \<Rightarrow> query" where
  "useVenueManagers venueId =
     (use_query [Str ''venues'', Str venueId, Str ''managers'']
        (ApiGet (''/api/v1/venues/'' @ venueId @ ''/managers'')))
     \<lparr> q_enabled := truthy (Str venueId) \<rparr>"

definition useAddVenueManager :: "string \<Rightarrow> (int \<times> string option) mutation" where
  "useAddVenueManager venueId =
     use_mutation (\<lambda>(user_id, role). ApiPost (''/api/v1/venues/'' @ venueId @ ''/managers'')
         (Obj [(''user_id'', Num user_id), (''role'', undef_or Str role)]))
       (\<lambda>_ _. [Invalidate [Str ''venues'', Str venueId, Str ''managers'']])"

definition useRemoveVenueManager :: "string \<Rightarrow> int mutation" where
  "useRemoveVenueManager venueId =
     use_mutation (\<lambda>userId. ApiDelete (''/api/v1/venues/'' @ venueId @ ''/managers/'' @ show_int userId))
       (\<lambda>_ _. [Invalidate [Str ''venues'', Str venueId, Str ''managers'']])"

definition useUpdateVenueManagerRole :: "string \<Rightarrow> (int \<times> string) mutation" where
  "useUpdateVenueManagerRole venueId =
     use_mutation (\<lambda>(userId, role). ApiPatch (''/api/v1/venues/'' @ venueId @ ''/managers/'' @ show_int userId)
         (Obj [(''role'', Str role)]))
       (\<lambda>_ _. [Invalidate [Str ''venues'', Str venueId, Str ''managers'']])"

lemmas registry_query_defs [key_simps] =
  useFloatingCourts_def useCourt_def usePlayerSearch_def usePlayer_def useMyProfile_def
  useTeamSearch_def useTeam_def useTeamsByOrg_def useTeamRoster_def useOrgSearch_def useOrg_def
  useOrgMembers_def useOrgBlockStatus_def useMyOrgRole_def useVenueSearch_def useVenue_def
  useVenueCourts_def useCanManageVenue_def useVenueManagers_def

lemmas registry_mutation_defs [effect_simps] =
  useCreateFloatingCourt_def useUpdateCourt_def useDeleteCourt_def useUpdateProfile_def
  useAcceptWaiver_def useCreateTeam_def useUpdateTeam_def useDeleteTeam_def
  useAddPlayerToRoster_def useRemovePlayerFromRoster_def useCreateOrg_def useUpdateOrg_def
  useDeleteOrg_def useAddMember_def useRemoveMember_def useUpdateMemberRole_def useLeaveOrg_def
  useBlockOrg_def useUnblockOrg_def useCreateVenue_def useUpdateVenue_def useDeleteVenue_def
  useSubmitForReview_def useUpdateVenueStatus_def useCreateVenueCourt_def
  useUpdateVenueCourt_def useDeleteVenueCourt_def useAddVenueManager_def
  useRemoveVenueManager_def useUpdateVenueManagerRole_def

end
