(* ===== verification/Admin_Hooks.thy ===== *)
theory Admin_Hooks
  imports Query_Layer
begin

text \<open>
  \<open>web/src/features/admin/hooks.ts\<close> and \<open>web/src/features/admin/ad-hooks.ts\<close>. The venue status
  mutation of this file is named \<open>useUpdateVenueStatus_admin\<close>, since the registry has a
  hook of the same name.
\<close>

section \<open>Statistics and users\<close>

definition useAdminStats :: "query" where
  "useAdminStats =
     use_query [Str ''admin'', Str ''stats'']
        (ApiGet ''/api/v1/admin/stats'')"

definition useSearchUsers :: "string option \<Rightarrow> string option \<Rightarrow> string option \<Rightarrow> int option \<Rightarrow> int option \<Rightarrow> query" where
  "useSearchUsers query role stat lmt ofs =
     use_query [Str ''admin'', Str ''users'',
          Obj [(''query'', undef_or Str query), (''role'', undef_or Str role), (''status'',
          undef_or Str stat), (''limit'', undef_or Num lmt), (''offset'', undef_or Num ofs)]]
        (ApiGetPaginated (''/api/v1/admin/users'' @
            buildQueryString [(''query'', undef_or Str query), (''role'', undef_or Str role),
             (''status'', undef_or Str stat), (''limit'', undef_or Num lmt), (''offset'',
             undef_or Num ofs)]))"

definition useAdminUser :: "string \<Rightarrow> query" where
  "useAdminUser userId =
     (use_query [Str ''admin'', Str ''users'', Str userId]
        (ApiGet (''/api/v1/admin/users/'' @ userId)))
     \<lparr> q_enabled := truthy (Str userId) \<rparr>"

definition useUpdateUserRole :: "(string \<times> string) mutation" where
  "useUpdateUserRole =
     use_mutation (\<lambda>(userId, role). ApiPatch (''/api/v1/admin/users/'' @ userId @ ''/role'')
         (Obj [(''role'', Str role)]))
       (\<lambda>_ _. [Invalidate [Str ''admin'', Str ''users'']])"

definition useUpdateUserStatus :: "(string \<times> string \<times> string) mutation" where
  "useUpdateUserStatus =
     use_mutation (\<lambda>(userId, stat, reason). ApiPatch (''/api/v1/admin/users/'' @ userId @ ''/status'')
         (Obj [(''status'', Str stat), (''reason'', Str reason)]))
       (\<lambda>_ _. [Invalidate [Str ''admin'', Str ''users'']])"

section \<open>Venue approval, activity and API keys\<close>

definition usePendingVenues :: "int option \<Rightarrow> int option \<Rightarrow> query" where
  "usePendingVenues lmt ofs =
     use_query [Str ''admin'', Str ''venues'', Str ''pending'',
          Obj [(''limit'', undef_or Num lmt), (''offset'', undef_or Num ofs)]]
        (ApiGetPaginated (''/api/v1/admin/venues/pending'' @
            buildQueryString [(''limit'', undef_or Num lmt), (''offset'', undef_or Num ofs)]))"

definition useUpdateVenueStatus_admin :: "(int \<times> string \<times> string option) mutation" where
  "useUpdateVenueStatus_admin =
     use_mutation (\<lambda>(venueId, stat, feedback). ApiPatch (''/api/v1/admin/venues/'' @ show_int venueId @ ''/status'')
         (Obj [(''status'', Str stat), (''feedback'', undef_or Str feedback)]))
       (\<lambda>_ _. [Invalidate [Str ''admin'', Str ''venues'']])"

definition useActivityLogs :: "string option \<Rightarrow> string option \<Rightarrow> string option \<Rightarrow> int option \<Rightarrow> int option \<Rightarrow> query" where
  "useActivityLogs user_id entity_type action lmt ofs =
     use_query [Str ''admin'', Str ''activity'',
          Obj [(''user_id'', undef_or Str user_id), (''entity_type'', undef_or Str entity_type),
          (''action'', undef_or Str action), (''limit'', undef_or Num lmt), (''offset'',
          undef_or Num ofs)]]
        (ApiGetPaginated (''/api/v1/admin/activity-logs'' @
            buildQueryString [(''user_id'', undef_or Str user_id), (''entity_type'',
             undef_or Str entity_type), (''action'', undef_or Str action), (''limit'',
             undef_or Num lmt), (''offset'', undef_or Num ofs)]))"

definition useApiKeys :: "query" where
  "useApiKeys =
     use_query [Str ''admin'', Str ''api-keys'']
        (ApiGet ''/api/v1/admin/api-keys'')"

definition useCreateApiKey :: "(string \<times> js \<times> string option) mutation" where
  "useCreateApiKey =
     use_mutation (\<lambda>(nm, scopes, expires_at). ApiPost ''/api/v1/admin/api-keys''
         (Obj [(''name'', Str nm), (''scopes'', scopes), (''expires_at'',
          undef_or Str expires_at)]))
       (\<lambda>_ _. [Invalidate [Str ''admin'', Str ''api-keys'']])"

definition useRevokeApiKey :: "int mutation" where
  "useRevokeApiKey =
     use_mutation (\<lambda>keyId. ApiDelete (''/api/v1/admin/api-keys/'' @ show_int keyId))
       (\<lambda>_ _. [Invalidate [Str ''admin'', Str ''api-keys'']])"

section \<open>Uploads and impersonation\<close>

definition useMyUploads :: "query" where
  "useMyUploads =
     use_query [Str ''admin'', Str ''uploads'']
        (ApiGet ''/api/v1/uploads'')"

definition useDeleteUpload :: "int mutation" where
  "useDeleteUpload =
     use_mutation (\<lambda>uploadId. ApiDelete (''/api/v1/uploads/'' @ show_int uploadId))
       (\<lambda>_ _. [Invalidate [Str ''admin'', Str ''uploads'']])"

definition useStartImpersonation :: "int mutation" where
  "useStartImpersonation =
     use_mutation (\<lambda>userId. ApiPost (''/api/v1/admin/impersonate/'' @ show_int userId) Undef)
       (\<lambda>_ _. [Invalidate [Str ''auth'', Str ''me'']])"

definition useStopImpersonation :: "unit mutation" where
  "useStopImpersonation =
     use_mutation (\<lambda>_. ApiPost ''/api/v1/admin/stop-impersonation'' Undef)
       (\<lambda>_ _. [Invalidate [Str ''auth'', Str ''me'']])"

section \<open>Advertisements\<close>

definition useActiveAds :: "query" where
  "useActiveAds =
     (use_query [Str ''ads'', Str ''active'']
        (ApiGet ''/api/v1/ads''))
     \<lparr> q_stale := 60000 \<rparr>"

definition useAllAds :: "query" where
  "useAllAds =
     use_query [Str ''ads'', Str ''all'']
        (ApiGet ''/api/v1/admin/ads'')"

definition useCreateAd :: "js mutation" where
  "useCreateAd =
     use_mutation (\<lambda>body. ApiPost ''/api/v1/admin/ads'' body)
       (\<lambda>_ _. [Invalidate [Str ''ads'']])"

definition useUpdateAd :: "int \<Rightarrow> js mutation" where
  "useUpdateAd ident =
     use_mutation (\<lambda>body. ApiPut (''/api/v1/admin/ads/'' @ show_int ident) body)
       (\<lambda>_ _. [Invalidate [Str ''ads'']])"

definition useDeleteAd :: "int mutation" where
  "useDeleteAd =
     use_mutation (\<lambda>ident. ApiDelete (''/api/v1/admin/ads/'' @ show_int ident))
       (\<lambda>_ _. [Invalidate [Str ''ads'']])"

definition useToggleAd :: "(int \<times> js) mutation" where
  "useToggleAd =
     use_mutation (\<lambda>(ident, is_active). ApiPut (''/api/v1/admin/ads/'' @ show_int ident @ ''/toggle'')
         (Obj [(''is_active'', is_active)]))
       (\<lambda>_ _. [Invalidate [Str ''ads'']])"

lemmas admin_query_defs [key_simps] =
  useAdminStats_def useSearchUsers_def useAdminUser_def usePendingVenues_def useActivityLogs_def
  useApiKeys_def useMyUploads_def useActiveAds_def useAllAds_def

lemmas admin_mutation_defs [effect_simps] =
  useUpdateUserRole_def useUpdateUserStatus_def useUpdateVenueStatus_admin_def
  useCreateApiKey_def useRevokeApiKey_def useDeleteUpload_def useStartImpersonation_def
  useStopImpersonation_def useCreateAd_def useUpdateAd_def useDeleteAd_def useToggleAd_def

end
