(* ===== verification/Public_Hooks.thy ===== *)
theory Public_Hooks
  imports Query_Layer
begin

text \<open>
  The read-only pages: \<open>web/src/features/public/hooks.ts\<close>, \<open>web/src/features/manage/hooks.ts\<close>,
  \<open>web/src/features/dashboard/hooks.ts\<close> and the configuration query of
  \<open>web/src/hooks/useGhostConfig.ts\<close>. A \<open>params\<close> object is given field by field.
\<close>

section \<open>Directories\<close>

definition usePublicTournaments :: "int \<Rightarrow> int \<Rightarrow> string option \<Rightarrow> query" where
  "usePublicTournaments lmt ofs stat =
     (use_query [Str ''public-tournaments'',
          Obj [(''limit'', Num lmt), (''offset'', Num ofs), (''status'', undef_or Str stat)]]
        (ApiGetPaginated (''/api/v1/public/tournaments'' @
            buildQueryString [(''limit'', Num lmt), (''offset'', Num ofs), (''status'',
             undef_or Str stat)])))
     \<lparr> q_stale := 5 * 60 * 1000 \<rparr>"

definition usePublicTournamentBySlug :: "string \<Rightarrow> query" where
  "usePublicTournamentBySlug slug =
     (use_query [Str ''public-tournament'', Str slug]
        (ApiGet (''/api/v1/public/tournaments/'' @ slug)))
     \<lparr> q_enabled := truthy (Str slug), q_stale := 2 * 60 * 1000 \<rparr>"

definition usePublicLeagues :: "int \<Rightarrow> int \<Rightarrow> query" where
  "usePublicLeagues lmt ofs =
     (use_query [Str ''public-leagues'', Obj [(''limit'', Num lmt), (''offset'', Num ofs)]]
        (ApiGetPaginated (''/api/v1/public/leagues'' @
            buildQueryString [(''limit'', Num lmt), (''offset'', Num ofs)])))
     \<lparr> q_stale := 5 * 60 * 1000 \<rparr>"

definition usePublicLeagueBySlug :: "string \<Rightarrow> query" where
  "usePublicLeagueBySlug slug =
     (use_query [Str ''public-league'', Str slug]
        (ApiGet (''/api/v1/public/leagues/'' @ slug)))
     \<lparr> q_enabled := truthy (Str slug), q_stale := 2 * 60 * 1000 \<rparr>"

definition usePublicVenues :: "int \<Rightarrow> int \<Rightarrow> query" where
  "usePublicVenues lmt ofs =
     (use_query [Str ''public-venues'', Obj [(''limit'', Num lmt), (''offset'', Num ofs)]]
        (ApiGetPaginated (''/api/v1/public/venues'' @
            buildQueryString [(''limit'', Num lmt), (''offset'', Num ofs)])))
     \<lparr> q_stale := 5 * 60 * 1000 \<rparr>"

definition usePublicVenueBySlug :: "string \<Rightarrow> query" where
  "usePublicVenueBySlug slug =
     (use_query [Str ''public-venue'', Str slug]
        (ApiGet (''/api/v1/public/venues/'' @ slug)))
     \<lparr> q_enabled := truthy (Str slug), q_stale := 2 * 60 * 1000 \<rparr>"

section \<open>Live matches and sub-resources\<close>

definition useLiveMatches :: "int \<Rightarrow> int \<Rightarrow> query" where
  "useLiveMatches lmt ofs =
     (use_query [Str ''public-live-matches'', Obj [(''limit'', Num lmt), (''offset'', Num ofs)]]
        (ApiGetPaginated (''/api/v1/public/live'' @
            buildQueryString [(''limit'', Num lmt), (''offset'', Num ofs)])))
     \<lparr> q_stale := 15 * 1000, q_refetch := Some (30 * 1000) \<rparr>"

definition usePublicTournamentDivisions :: "string \<Rightarrow> query" where
  "usePublicTournamentDivisions slug =
     (use_query [Str ''public-tournament-divisions'', Str slug]
        (ApiGet (''/api/v1/public/tournaments/'' @ slug @ ''/divisions'')))
     \<lparr> q_enabled := truthy (Str slug), q_stale := 2 * 60 * 1000 \<rparr>"

definition usePublicTournamentMatches :: "string \<Rightarrow> int \<Rightarrow> int \<Rightarrow> query" where
  "usePublicTournamentMatches slug lmt ofs =
     (use_query [Str ''public-tournament-matches'', Str slug,
          Obj [(''limit'', Num lmt), (''offset'', Num ofs)]]
        (ApiGet (''/api/v1/public/tournaments/'' @ slug @ ''/matches'' @
            buildQueryString [(''limit'', Num lmt), (''offset'', Num ofs)])))
     \<lparr> q_enabled := truthy (Str slug), q_stale := 30 * 1000 \<rparr>"

definition usePublicTournamentCourts :: "string \<Rightarrow> query" where
  "usePublicTournamentCourts slug =
     (use_query [Str ''public-tournament-courts'', Str slug]
        (ApiGet (''/api/v1/public/tournaments/'' @ slug @ ''/courts'')))
     \<lparr> q_enabled := truthy (Str slug), q_stale := 30 * 1000 \<rparr>"

definition usePublicLeagueSeasons :: "string \<Rightarrow> int \<Rightarrow> int \<Rightarrow> query" where
  "usePublicLeagueSeasons slug lmt ofs =
     (use_query [Str ''public-league-seasons'', Str slug,
          Obj [(''limit'', Num lmt), (''offset'', Num ofs)]]
        (ApiGetPaginated (''/api/v1/public/leagues/'' @ slug @ ''/seasons'' @
            buildQueryString [(''limit'', Num lmt), (''offset'', Num ofs)])))
     \<lparr> q_enabled := truthy (Str slug), q_stale := 5 * 60 * 1000 \<rparr>"

definition usePublicLeagueTournaments :: "string \<Rightarrow> int \<Rightarrow> int \<Rightarrow> query" where
  "usePublicLeagueTournaments slug lmt ofs =
     (use_query [Str ''public-league-tournaments'', Str slug,
          Obj [(''limit'', Num lmt), (''offset'', Num ofs)]]
        (ApiGetPaginated (''/api/v1/public/leagues/'' @ slug @ ''/tournaments'' @
            buildQueryString [(''limit'', Num lmt), (''offset'', Num ofs)])))
     \<lparr> q_enabled := truthy (Str slug), q_stale := 5 * 60 * 1000 \<rparr>"

definition usePublicVenueCourts :: "string \<Rightarrow> query" where
  "usePublicVenueCourts slug =
     (use_query [Str ''public-venue-courts'', Str slug]
        (ApiGet (''/api/v1/public/venues/'' @ slug @ ''/courts'')))
     \<lparr> q_enabled := truthy (Str slug), q_stale := 30 * 1000 \<rparr>"

section \<open>The signed-in user\<close>

definition useMyVenues :: "query" where
  "useMyVenues =
     use_query [Str ''my-venues'']
        (ApiGet ''/api/v1/venues/my'')"

definition useMyTournaments :: "query" where
  "useMyTournaments =
     use_query [Str ''my-tournaments'']
        (ApiGetPaginated ''/api/v1/tournaments/my?limit=50&offset=0'')"

definition useMyLeagues :: "query" where
  "useMyLeagues =
     use_query [Str ''my-leagues'']
        (ApiGetPaginated ''/api/v1/leagues/my?limit=50&offset=0'')"

definition useMyOrgs :: "query" where
  "useMyOrgs =
     use_query [Str ''my-orgs'']
        (ApiGet ''/api/v1/organizations/my'')"

definition useDashboard :: "query" where
  "useDashboard =
     use_query [Str ''dashboard'']
        (ApiGet ''/api/v1/dashboard'')"

definition useGhostConfig :: "query" where
  "useGhostConfig =
     (use_query [Str ''ghost-config'']
        (ApiGet ''/api/v1/settings/ghost''))
     \<lparr> q_stale := 5 * 60 * 1000 \<rparr>"

lemmas public_query_defs [key_simps] =
  usePublicTournaments_def usePublicTournamentBySlug_def usePublicLeagues_def
  usePublicLeagueBySlug_def usePublicVenues_def usePublicVenueBySlug_def useLiveMatches_def
  usePublicTournamentDivisions_def usePublicTournamentMatches_def usePublicTournamentCourts_def
  usePublicLeagueSeasons_def usePublicLeagueTournaments_def usePublicVenueCourts_def
  useMyVenues_def useMyTournaments_def useMyLeagues_def useMyOrgs_def useDashboard_def
  useGhostConfig_def

end
