(* ===== verification/Overlay_Hooks.thy ===== *)
theory Overlay_Hooks
  imports Query_Layer
begin

text \<open>
  \<open>web/src/features/overlay/hooks.ts\<close>: the control plane of the broadcast overlay. Court and
  profile ids come as \<open>number | null | undefined\<close> and go into the keys as they are, so they
  are values of type \<open>js\<close>; the overlay's own \<open>useTheme\<close> is named \<open>useTheme_overlay\<close>.
\<close>

section \<open>Queries\<close>

definition useOverlayConfig :: "js \<Rightarrow> query" where
  "useOverlayConfig courtID =
     (use_query [Str ''overlay'', Str ''config'', courtID]
        (ApiGet (''/api/v1/overlay/court/'' @ js_to_string (courtID) @ ''/config'')))
     \<lparr> q_enabled := (case courtID of Num n \<Rightarrow> 0 < n | _ \<Rightarrow> False), q_stale := 2 * 60 * 1000 \<rparr>"

definition overlay_data_qs :: "string option \<Rightarrow> bool \<Rightarrow> string" where
  "overlay_data_qs token demo =
     url_search_params
       ((case token of Some t \<Rightarrow> if t \<noteq> [] then [(''token'', t)] else [] | None \<Rightarrow> []) @
        (if demo then [(''demo'', ''1'')] else []))"

definition useOverlayData :: "js \<Rightarrow> string option \<Rightarrow> bool \<Rightarrow> query" where
  "useOverlayData courtID token demo =
     (let qs = overlay_data_qs token demo in
      (use_query [Str ''overlay'', Str ''data'', courtID, null_or Str token, Bool demo]
         (ApiGet (''/api/v1/overlay/court/'' @ js_to_string courtID @ ''/data'' @
                  (if qs \<noteq> [] then ''?'' @ qs else []))))
      \<lparr> q_enabled := (case courtID of Num n \<Rightarrow> 0 < n | _ \<Rightarrow> False), q_stale := 0, q_retry := 1 \<rparr>)"

definition useOverlayResolve :: "string option \<Rightarrow> query" where
  "useOverlayResolve slug =
     (use_query [Str ''overlay'', Str ''resolve'', undef_or Str slug]
        (ApiGet (''/api/v1/overlay/court/'' @ js_to_string (undef_or Str slug) @ ''/resolve'')))
     \<lparr> q_enabled := truthy (undef_or Str slug), q_stale := 5 * 60 * 1000 \<rparr>"

text \<open>
  The second half of \<open>useOverlayDataBySlug\<close>: the resolved court id, \<open>null\<close> until the first query
  has an answer, feeds the data query.
\<close>

definition resolved_court :: "js \<Rightarrow> js" where
  "resolved_court data = js_coalesce (js_opt_get data ''court_id'') Null"

definition useOverlayDataBySlug :: "string option \<Rightarrow> string option \<Rightarrow> bool \<Rightarrow> js \<Rightarrow> query \<times> query" where
  "useOverlayDataBySlug slug token demo resolved =
     (useOverlayResolve slug, useOverlayData (resolved_court resolved) token demo)"

definition useThemes :: "query" where
  "useThemes =
     (use_query [Str ''overlay'', Str ''themes'']
        (ApiGet ''/api/v1/overlay/themes''))
     \<lparr> q_stale := 5 * 60 * 1000 \<rparr>"

definition useTheme_overlay :: "string option \<Rightarrow> query" where
  "useTheme_overlay themeID =
     (use_query [Str ''overlay'', Str ''theme'', null_or Str themeID]
        (ApiGet (''/api/v1/overlay/themes/'' @ js_to_string (null_or Str themeID))))
     \<lparr> q_enabled := truthy (null_or Str themeID), q_stale := 5 * 60 * 1000 \<rparr>"

definition useDemoData :: "query" where
  "useDemoData =
     (use_query [Str ''overlay'', Str ''demo'']
        (ApiGet ''/api/v1/overlay/demo-data''))
     \<lparr> q_stale := 60 * 1000 \<rparr>"

definition useSourceProfiles :: "query" where
  "useSourceProfiles =
     (use_query [Str ''source-profiles'']
        (ApiGet ''/api/v1/source-profiles''))
     \<lparr> q_stale := 5 * 60 * 1000 \<rparr>"

definition useSourceProfile :: "js \<Rightarrow> query" where
  "useSourceProfile profileID =
     (use_query [Str ''source-profiles'', profileID]
        (ApiGet (''/api/v1/source-profiles/'' @ js_to_string (profileID))))
     \<lparr> q_enabled := (case profileID of Num n \<Rightarrow> 0 < n | _ \<Rightarrow> False), q_stale := 2 * 60 * 1000 \<rparr>"

section \<open>Configuration mutations\<close>

definition useUpdateTheme :: "js \<Rightarrow> js mutation" where
  "useUpdateTheme courtID =
     use_mutation (\<lambda>input. ApiPut (''/api/v1/overlay/court/'' @ js_to_string (courtID) @ ''/config/theme'') input)
       (\<lambda>cfg _. [SetData [Str ''overlay'', Str ''config'', courtID] cfg])"

definition useUpdateElements :: "js \<Rightarrow> js mutation" where
  "useUpdateElements courtID =
     use_mutation (\<lambda>input. ApiPut (''/api/v1/overlay/court/'' @ js_to_string (courtID) @ ''/config/elements'') input)
       (\<lambda>cfg _. [SetData [Str ''overlay'', Str ''config'', courtID] cfg])"

definition useUpdateDataOverrides :: "js \<Rightarrow> js mutation" where
  "useUpdateDataOverrides courtID =
     use_mutation (\<lambda>input. ApiPut (''/api/v1/overlay/court/'' @ js_to_string (courtID) @ ''/config/data-overrides'') input)
       (\<lambda>cfg _. [SetData [Str ''overlay'', Str ''config'', courtID] cfg,
            Invalidate [Str ''overlay'', Str ''data'', courtID]])"

definition useClearDataOverrides :: "js \<Rightarrow> unit mutation" where
  "useClearDataOverrides courtID =
     use_mutation (\<lambda>_. ApiDelete (''/api/v1/overlay/court/'' @ js_to_string (courtID) @ ''/config/data-overrides''))
       (\<lambda>cfg _. [SetData [Str ''overlay'', Str ''config'', courtID] cfg,
            Invalidate [Str ''overlay'', Str ''data'', courtID]])"

definition useUpdateSourceProfileBinding :: "js \<Rightarrow> int option mutation" where
  "useUpdateSourceProfileBinding courtID =
     use_mutation (\<lambda>source_profile_id. ApiPut (''/api/v1/overlay/court/'' @ js_to_string (courtID) @ ''/config/source-profile'')
         (Obj [(''source_profile_id'', null_or Num source_profile_id)]))
       (\<lambda>cfg _. [SetData [Str ''overlay'', Str ''config'', courtID] cfg,
            Invalidate [Str ''overlay'', Str ''data'', courtID]])"

definition useGenerateOverlayToken :: "js \<Rightarrow> unit mutation" where
  "useGenerateOverlayToken courtID =
     use_mutation (\<lambda>_. ApiPost (''/api/v1/overlay/court/'' @ js_to_string (courtID) @ ''/config/token/generate'') Undef)
       (\<lambda>cfg _. [SetData [Str ''overlay'', Str ''config'', courtID] cfg])"

definition useRevokeOverlayToken :: "js \<Rightarrow> unit mutation" where
  "useRevokeOverlayToken courtID =
     use_mutation (\<lambda>_. ApiDelete (''/api/v1/overlay/court/'' @ js_to_string (courtID) @ ''/config/token''))
       (\<lambda>cfg _. [SetData [Str ''overlay'', Str ''config'', courtID] cfg])"

section \<open>Source profile mutations\<close>

text \<open>
  \<open>profile.id\<close> throws on an answer without a body, before the first call on the client.
\<close>

definition profile_saved :: "js \<Rightarrow> cache_op list" where
  "profile_saved profile =
     (case js_get profile ''id'' of
        None \<Rightarrow> []
      | Some i \<Rightarrow> [SetData [Str ''source-profiles'', i] profile, Invalidate [Str ''source-profiles'']])"

definition useCreateSourceProfile :: "js mutation" where
  "useCreateSourceProfile =
     use_mutation (\<lambda>input. ApiPost ''/api/v1/source-profiles'' input)
       (\<lambda>profile _. profile_saved profile)"

definition useUpdateSourceProfile :: "(int \<times> js) mutation" where
  "useUpdateSourceProfile =
     use_mutation (\<lambda>(ident, input). ApiPut (''/api/v1/source-profiles/'' @ show_int ident) input)
       (\<lambda>profile _. profile_saved profile)"

definition useDeactivateSourceProfile :: "int mutation" where
  "useDeactivateSourceProfile =
     use_mutation (\<lambda>ident. ApiPost (''/api/v1/source-profiles/'' @ show_int ident @ ''/deactivate'') Undef)
       (\<lambda>profile _. profile_saved profile)"

definition useDeleteSourceProfile :: "int mutation" where
  "useDeleteSourceProfile =
     use_mutation (\<lambda>ident. ApiDelete (''/api/v1/source-profiles/'' @ show_int ident))
       (\<lambda>_ ident. [RemoveQueries [Str ''source-profiles'', Num ident],
            Invalidate [Str ''source-profiles'']])"

definition useTestSourceProfileConnection :: "js mutation" where
  "useTestSourceProfileConnection =
     use_mutation (\<lambda>input. ApiPost ''/api/v1/source-profiles/test'' input)
       (\<lambda>_ _. [])"

lemmas overlay_query_defs [key_simps] =
  useOverlayConfig_def overlay_data_qs_def useOverlayData_def useOverlayResolve_def
  resolved_court_def useOverlayDataBySlug_def useThemes_def useTheme_overlay_def useDemoData_def
  useSourceProfiles_def useSourceProfile_def

lemmas overlay_mutation_defs [effect_simps] =
  useUpdateTheme_def useUpdateElements_def useUpdateDataOverrides_def useClearDataOverrides_def
  useUpdateSourceProfileBinding_def useGenerateOverlayToken_def useRevokeOverlayToken_def
  profile_saved_def useCreateSourceProfile_def useUpdateSourceProfile_def
  useDeactivateSourceProfile_def useDeleteSourceProfile_def useTestSourceProfileConnection_def

end
