(* ===== verification/Query_Catalogue.thy ===== *)
theory Query_Catalogue
  imports Scoring_Hooks Tournament_Hooks League_Hooks Registry_Hooks Admin_Hooks Public_Hooks
    Overlay_Hooks
begin

text \<open>
  All the queries of the application that go through the API client, one constructor per
  hook, and the reading of a cache key as the request it stands for. The cache is shared
  by all pages, so two hooks that built the same key from different requests would show
  one page the other page's data. \<open>key_request\<close> is the abstract specification of a key:
  the request that every query with this key makes. Not in the catalogue: \<open>useAuth\<close> and
  the blog posts, whose \<open>queryFn\<close> is not a call of the client.
\<close>

section \<open>The queries\<close>

text \<open>Tournaments, divisions, registrations, pods, brackets, presets and staff.\<close>

datatype tournament_query =
    QListTournaments "string option" "string option" "int option" "int option" "string option"
  | QGetTournament string
  | QListDivisions string
  | QGetDivision string string
  | QListRegistrations string "string option" "int option" "int option"
  | QListPods string
  | QListTournamentAnnouncements string "string option"
  | QListBracketMatches string
  | QListScoringPresets
  | QSearchLeagues string
  | QLeagueSeasons "int option"
  | QTournamentStaff int

fun tournament_query_of :: "tournament_query \<Rightarrow> query" where
  "tournament_query_of (QListTournaments x0 x1 x2 x3 x4) = useListTournaments x0 x1 x2 x3 x4"
| "tournament_query_of (QGetTournament x0) = useGetTournament x0"
| "tournament_query_of (QListDivisions x0) = useListDivisions x0"
| "tournament_query_of (QGetDivision x0 x1) = useGetDivision x0 x1"
| "tournament_query_of (QListRegistrations x0 x1 x2 x3) = useListRegistrations x0 x1 x2 x3"
| "tournament_query_of (QListPods x0) = useListPods x0"
| "tournament_query_of (QListTournamentAnnouncements x0 x1) = useListTournamentAnnouncements x0 x1"
| "tournament_query_of (QListBracketMatches x0) = useListBracketMatches x0"
| "tournament_query_of QListScoringPresets = useListScoringPresets"
| "tournament_query_of (QSearchLeagues x0) = useSearchLeagues x0"
| "tournament_query_of (QLeagueSeasons x0) = useLeagueSeasons x0"
| "tournament_query_of (QTournamentStaff x0) = useTournamentStaff x0"

text \<open>Leagues, seasons, templates, standings.\<close>

datatype league_query =
    QListLeagues "string option" int int
  | QGetLeague "int option"
  | QListSeasons "int option"
  | QGetSeason "int option" "int option"
  | QListDivisionTemplates "int option"
  | QListLeagueRegistrations "int option"
  | QListSeasonConfirmations "int option" "int option"
  | QListLeagueAnnouncements "int option"
  | QListStandingsBySeason "int option"
  | QListStandingsByDivision int int int int
  | QListTournamentsBySeason "int option"
  | QFloatingCourts int int

fun league_query_of :: "league_query \<Rightarrow> query" where
  "league_query_of (QListLeagues x0 x1 x2) = useListLeagues x0 x1 x2"
| "league_query_of (QGetLeague x0) = useGetLeague x0"
| "league_query_of (QListSeasons x0) = useListSeasons x0"
| "league_query_of (QGetSeason x0 x1) = useGetSeason x0 x1"
| "league_query_of (QListDivisionTemplates x0) = useListDivisionTemplates x0"
| "league_query_of (QListLeagueRegistrations x0) = useListLeagueRegistrations x0"
| "league_query_of (QListSeasonConfirmations x0 x1) = useListSeasonConfirmations x0 x1"
| "league_query_of (QListLeagueAnnouncements x0) = useListLeagueAnnouncements x0"
| "league_query_of (QListStandingsBySeason x0) = useListStandingsBySeason x0"
| "league_query_of (QListStandingsByDivision x0 x1 x2 x3) = useListStandingsByDivision x0 x1 x2 x3"
| "league_query_of (QListTournamentsBySeason x0) = useListTournamentsBySeason x0"
| "league_query_of (QFloatingCourts x0 x1) = useFloatingCourts x0 x1"

text \<open>Courts, players, teams, organizations and venues.\<close>

datatype registry_query =
    QCourt string
  | QPlayerSearch string int int
  | QPlayer string
  | QMyProfile
  | QTeamSearch string int int
  | QTeam string
  | QTeamsByOrg js int int
  | QTeamRoster string
  | QOrgSearch string int int
  | QOrg string
  | QOrgMembers string
  | QOrgBlockStatus string
  | QMyOrgRole string
  | QVenueSearch string int int
  | QVenue string
  | QVenueCourts string
  | QCanManageVenue string
  | QVenueManagers string

fun registry_query_of :: "registry_query \<Rightarrow> query" where
  "registry_query_of (QCourt x0) = useCourt x0"
| "registry_query_of (QPlayerSearch x0 x1 x2) = usePlayerSearch x0 x1 x2"
| "registry_query_of (QPlayer x0) = usePlayer x0"
| "registry_query_of QMyProfile = useMyProfile"
| "registry_query_of (QTeamSearch x0 x1 x2) = useTeamSearch x0 x1 x2"
| "registry_query_of (QTeam x0) = useTeam x0"
| "registry_query_of (QTeamsByOrg x0 x1 x2) = useTeamsByOrg x0 x1 x2"
| "registry_query_of (QTeamRoster x0) = useTeamRoster x0"
| "registry_query_of (QOrgSearch x0 x1 x2) = useOrgSearch x0 x1 x2"
| "registry_query_of (QOrg x0) = useOrg x0"
| "registry_query_of (QOrgMembers x0) = useOrgMembers x0"
| "registry_query_of (QOrgBlockStatus x0) = useOrgBlockStatus x0"
| "registry_query_of (QMyOrgRole x0) = useMyOrgRole x0"
| "registry_query_of (QVenueSearch x0 x1 x2) = useVenueSearch x0 x1 x2"
| "registry_query_of (QVenue x0) = useVenue x0"
| "registry_query_of (QVenueCourts x0) = useVenueCourts x0"
| "registry_query_of (QCanManageVenue x0) = useCanManageVenue x0"
| "registry_query_of (QVenueManagers x0) = useVenueManagers x0"

text \<open>The platform administration pages.\<close>

datatype admin_query =
    QAdminStats
  | QSearchUsers "string option" "string option" "string option" "int option" "int option"
  | QAdminUser string
  | QPendingVenues "int option" "int option"
  | QActivityLogs "string option" "string option" "string option" "int option" "int option"
  | QApiKeys
  | QMyUploads
  | QActiveAds
  | QAllAds

fun admin_query_of :: "admin_query \<Rightarrow> query" where
  "admin_query_of QAdminStats = useAdminStats"
| "admin_query_of (QSearchUsers x0 x1 x2 x3 x4) = useSearchUsers x0 x1 x2 x3 x4"
| "admin_query_of (QAdminUser x0) = useAdminUser x0"
| "admin_query_of (QPendingVenues x0 x1) = usePendingVenues x0 x1"
| "admin_query_of (QActivityLogs x0 x1 x2 x3 x4) = useActivityLogs x0 x1 x2 x3 x4"
| "admin_query_of QApiKeys = useApiKeys"
| "admin_query_of QMyUploads = useMyUploads"
| "admin_query_of QActiveAds = useActiveAds"
| "admin_query_of QAllAds = useAllAds"

text \<open>The public pages, the manage hub and the dashboard.\<close>

datatype public_query =
    QPublicTournaments int int "string option"
  | QPublicTournamentBySlug string
  | QPublicLeagues int int
  | QPublicLeagueBySlug string
  | QPublicVenues int int
  | QPublicVenueBySlug string
  | QLiveMatches int int
  | QPublicTournamentDivisions string
  | QPublicTournamentMatches string int int
  | QPublicTournamentCourts string
  | QPublicLeagueSeasons string int int
  | QPublicLeagueTournaments string int int
  | QPublicVenueCourts string
  | QMyVenues
  | QMyTournaments
  | QMyLeagues
  | QMyOrgs
  | QDashboard
  | QGhostConfig

fun public_query_of :: "public_query \<Rightarrow> query" where
  "public_query_of (QPublicTournaments x0 x1 x2) = usePublicTournaments x0 x1 x2"
| "public_query_of (QPublicTournamentBySlug x0) = usePublicTournamentBySlug x0"
| "public_query_of (QPublicLeagues x0 x1) = usePublicLeagues x0 x1"
| "public_query_of (QPublicLeagueBySlug x0) = usePublicLeagueBySlug x0"
| "public_query_of (QPublicVenues x0 x1) = usePublicVenues x0 x1"
| "public_query_of (QPublicVenueBySlug x0) = usePublicVenueBySlug x0"
| "public_query_of (QLiveMatches x0 x1) = useLiveMatches x0 x1"
| "public_query_of (QPublicTournamentDivisions x0) = usePublicTournamentDivisions x0"
| "public_query_of (QPublicTournamentMatches x0 x1 x2) = usePublicTournamentMatches x0 x1 x2"
| "public_query_of (QPublicTournamentCourts x0) = usePublicTournamentCourts x0"
| "public_query_of (QPublicLeagueSeasons x0 x1 x2) = usePublicLeagueSeasons x0 x1 x2"
| "public_query_of (QPublicLeagueTournaments x0 x1 x2) = usePublicLeagueTournaments x0 x1 x2"
| "public_query_of (QPublicVenueCourts x0) = usePublicVenueCourts x0"
| "public_query_of QMyVenues = useMyVenues"
| "public_query_of QMyTournaments = useMyTournaments"
| "public_query_of QMyLeagues = useMyLeagues"
| "public_query_of QMyOrgs = useMyOrgs"
| "public_query_of QDashboard = useDashboard"
| "public_query_of QGhostConfig = useGhostConfig"

text \<open>Overlay, themes and source profiles.\<close>

datatype overlay_query =
    QOverlayConfig js
  | QOverlayResolve "string option"
  | QThemes
  | QTheme_overlay "string option"
  | QDemoData
  | QSourceProfiles
  | QSourceProfile js
  | QOverlayData js "string option" bool

fun overlay_query_of :: "overlay_query \<Rightarrow> query" where
  "overlay_query_of (QOverlayConfig x0) = useOverlayConfig x0"
| "overlay_query_of (QOverlayResolve x0) = useOverlayResolve x0"
| "overlay_query_of QThemes = useThemes"
| "overlay_query_of (QTheme_overlay x0) = useTheme_overlay x0"
| "overlay_query_of QDemoData = useDemoData"
| "overlay_query_of QSourceProfiles = useSourceProfiles"
| "overlay_query_of (QSourceProfile x0) = useSourceProfile x0"
| "overlay_query_of (QOverlayData x0 x1 x2) = useOverlayData x0 x1 x2"

text \<open>Scoring, courts of a tournament, match series, quick matches.\<close>

datatype scoring_query =
    QMatch "string option"
  | QAllCourts
  | QMatchEvents "string option"
  | QCourtMatches "int option"
  | QCourtsForTournament "int option"
  | QMatchSeries "string option"
  | QMyTournamentAssignment
  | QMyQuickMatches

fun scoring_query_of :: "scoring_query \<Rightarrow> query" where
  "scoring_query_of (QMatch x0) = useMatch x0"
| "scoring_query_of QAllCourts = useAllCourts"
| "scoring_query_of (QMatchEvents x0) = useMatchEvents x0"
| "scoring_query_of (QCourtMatches x0) = useCourtMatches x0"
| "scoring_query_of (QCourtsForTournament x0) = useCourtsForTournament x0"
| "scoring_query_of (QMatchSeries x0) = useMatchSeries x0"
| "scoring_query_of QMyTournamentAssignment = useMyTournamentAssignment"
| "scoring_query_of QMyQuickMatches = useMyQuickMatches"

datatype app_query =
    TournamentQuery tournament_query
  | LeagueQuery league_query
  | RegistryQuery registry_query
  | AdminQuery admin_query
  | PublicQuery public_query
  | OverlayQuery overlay_query
  | ScoringQuery scoring_query

fun query_of :: "app_query \<Rightarrow> query" where
  "query_of (TournamentQuery q) = tournament_query_of q"
| "query_of (LeagueQuery q) = league_query_of q"
| "query_of (RegistryQuery q) = registry_query_of q"
| "query_of (AdminQuery q) = admin_query_of q"
| "query_of (PublicQuery q) = public_query_of q"
| "query_of (OverlayQuery q) = overlay_query_of q"
| "query_of (ScoringQuery q) = scoring_query_of q"

section \<open>What a key stands for\<close>

fun is_obj :: "js \<Rightarrow> bool" where
  "is_obj (Obj _) = True"
| "is_obj _ = False"

definition data_suffix :: "js \<Rightarrow> js \<Rightarrow> string" where
  "data_suffix token demo =
     (let qs = overlay_data_qs (case token of Str t \<Rightarrow> Some t | _ \<Rightarrow> None) (truthy demo) in
      if qs \<noteq> [] then ''?'' @ qs else [])"

definition key_request1 :: "js \<Rightarrow> api_call option" where
  "key_request1 e0 =
       (if e0 = Str ''dashboard''
        then Some (ApiGet ''/api/v1/dashboard'')
        else if e0 = Str ''ghost-config''
        then Some (ApiGet ''/api/v1/settings/ghost'')
        else if e0 = Str ''my-leagues''
        then Some (ApiGetPaginated ''/api/v1/leagues/my?limit=50&offset=0'')
        else if e0 = Str ''my-orgs''
        then Some (ApiGet ''/api/v1/organizations/my'')
        else if e0 = Str ''my-tournaments''
        then Some (ApiGetPaginated ''/api/v1/tournaments/my?limit=50&offset=0'')
        else if e0 = Str ''my-venues''
        then Some (ApiGet ''/api/v1/venues/my'')
        else if e0 = Str ''quick-matches''
        then Some (ApiGet ''/api/v1/quick-matches'')
        else if e0 = Str ''scoring-presets''
        then Some (ApiGet ''/api/v1/scoring-presets'')
        else if e0 = Str ''source-profiles''
        then Some (ApiGet ''/api/v1/source-profiles'')
        else None)"

definition key_request2 :: "js \<Rightarrow> js \<Rightarrow> api_call option" where
  "key_request2 e0 e1 =
       (if e0 = Str ''admin'' \<and> e1 = Str ''stats''
        then Some (ApiGet ''/api/v1/admin/stats'')
        else if e0 = Str ''admin'' \<and> e1 = Str ''api-keys''
        then Some (ApiGet ''/api/v1/admin/api-keys'')
        else if e0 = Str ''admin'' \<and> e1 = Str ''uploads''
        then Some (ApiGet ''/api/v1/uploads'')
        else if e0 = Str ''ads'' \<and> e1 = Str ''active''
        then Some (ApiGet ''/api/v1/ads'')
        else if e0 = Str ''ads'' \<and> e1 = Str ''all''
        then Some (ApiGet ''/api/v1/admin/ads'')
        else if e0 = Str ''auth'' \<and> e1 = Str ''tournament-staff''
        then Some (ApiGet ''/api/v1/auth/me/tournament-staff'')
        else if e0 = Str ''courts'' \<and> e1 = Str ''all''
        then Some (ApiGetPaginated ''/api/v1/courts?limit=200&offset=0'')
        else if e0 = Str ''courts''
        then Some (ApiGet (''/api/v1/courts/'' @ js_to_string e1))
        else if e0 = Str ''match-events''
        then Some (ApiGet (''/api/v1/matches/public/'' @ js_to_string e1 @ ''/events''))
        else if e0 = Str ''match-series''
        then Some (ApiGet (''/api/v1/match-series/public/'' @ js_to_string e1))
        else if e0 = Str ''matches''
        then Some (ApiGet (''/api/v1/matches/public/'' @ js_to_string e1))
        else if e0 = Str ''organizations''
        then Some (ApiGet (''/api/v1/organizations/'' @ js_to_string e1))
        else if e0 = Str ''overlay'' \<and> e1 = Str ''themes''
        then Some (ApiGet ''/api/v1/overlay/themes'')
        else if e0 = Str ''overlay'' \<and> e1 = Str ''demo''
        then Some (ApiGet ''/api/v1/overlay/demo-data'')
        else if e0 = Str ''players'' \<and> e1 = Str ''me''
        then Some (ApiGet ''/api/v1/players/me'')
        else if e0 = Str ''players''
        then Some (ApiGet (''/api/v1/players/'' @ js_to_string e1))
        else if e0 = Str ''public-league''
        then Some (ApiGet (''/api/v1/public/leagues/'' @ js_to_string e1))
        else if e0 = Str ''public-leagues''
        then Some (ApiGetPaginated (''/api/v1/public/leagues''
              @ buildQueryString [(''limit'', js_opt_get e1 ''limit''), (''offset'', js_opt_get e1 ''offset'')]))
        else if e0 = Str ''public-live-matches''
        then Some (ApiGetPaginated (''/api/v1/public/live''
              @ buildQueryString [(''limit'', js_opt_get e1 ''limit''), (''offset'', js_opt_get e1 ''offset'')]))
        else if e0 = Str ''public-tournament''
        then Some (ApiGet (''/api/v1/public/tournaments/'' @ js_to_string e1))
        else if e0 = Str ''public-tournament-courts''
        then Some (ApiGet (''/api/v1/public/tournaments/'' @ js_to_string e1 @ ''/courts''))
        else if e0 = Str ''public-tournament-divisions''
        then Some (ApiGet (''/api/v1/public/tournaments/'' @ js_to_string e1 @ ''/divisions''))
        else if e0 = Str ''public-tournaments''
        then Some (ApiGetPaginated (''/api/v1/public/tournaments''
              @ buildQueryString [(''limit'', js_opt_get e1 ''limit''), (''offset'', js_opt_get e1 ''offset''), (''status'', js_opt_get e1 ''status'')]))
        else if e0 = Str ''public-venue''
        then Some (ApiGet (''/api/v1/public/venues/'' @ js_to_string e1))
        else if e0 = Str ''public-venue-courts''
        then Some (ApiGet (''/api/v1/public/venues/'' @ js_to_string e1 @ ''/courts''))
        else if e0 = Str ''public-venues''
        then Some (ApiGetPaginated (''/api/v1/public/venues''
              @ buildQueryString [(''limit'', js_opt_get e1 ''limit''), (''offset'', js_opt_get e1 ''offset'')]))
        else if e0 = Str ''source-profiles''
        then Some (ApiGet (''/api/v1/source-profiles/'' @ js_to_string e1))
        else if e0 = Str ''teams''
        then Some (ApiGet (''/api/v1/teams/'' @ js_to_string e1))
        else if e0 = Str ''tournaments''
        then Some (ApiGet (''/api/v1/tournaments/'' @ js_to_string e1))
        else if e0 = Str ''venues''
        then Some (ApiGet (''/api/v1/venues/'' @ js_to_string e1))
        else None)"

definition key_request3 :: "js \<Rightarrow> js \<Rightarrow> js \<Rightarrow> api_call option" where
  "key_request3 e0 e1 e2 =
       (if e0 = Str ''admin'' \<and> e1 = Str ''users'' \<and> is_obj e2
        then Some (ApiGetPaginated (''/api/v1/admin/users''
              @ buildQueryString [(''query'', js_opt_get e2 ''query''), (''role'', js_opt_get e2 ''role''), (''status'', js_opt_get e2 ''status''), (''limit'', js_opt_get e2 ''limit''), (''offset'', js_opt_get e2 ''offset'')]))
        else if e0 = Str ''admin'' \<and> e1 = Str ''users''
        then Some (ApiGet (''/api/v1/admin/users/'' @ js_to_string e2))
        else if e0 = Str ''admin'' \<and> e1 = Str ''activity''
        then Some (ApiGetPaginated (''/api/v1/admin/activity-logs''
              @ buildQueryString [(''user_id'', js_opt_get e2 ''user_id''), (''entity_type'', js_opt_get e2 ''entity_type''), (''action'', js_opt_get e2 ''action''), (''limit'', js_opt_get e2 ''limit''), (''offset'', js_opt_get e2 ''offset'')]))
        else if e0 = Str ''announcements'' \<and> e1 = Str ''league''
        then Some (ApiGet (''/api/v1/leagues/'' @ js_to_string e2 @ ''/announcements''))
        else if e0 = Str ''courts'' \<and> e2 = Str ''matches''
        then Some (ApiGet (''/api/v1/courts/'' @ js_to_string e1 @ ''/matches''))
        else if e0 = Str ''courts'' \<and> e1 = Str ''floating''
        then Some (ApiGetPaginated (''/api/v1/courts''
              @ buildQueryString [(''limit'', js_opt_get e2 ''limit''), (''offset'', js_opt_get e2 ''offset'')]))
        else if e0 = Str ''division-templates'' \<and> e1 = Str ''list''
        then Some (ApiGet (''/api/v1/leagues/'' @ js_to_string e2 @ ''/division-templates''))
        else if e0 = Str ''divisions'' \<and> e2 = Str ''pods''
        then Some (ApiGet (''/api/v1/divisions/'' @ js_to_string e1 @ ''/pods''))
        else if e0 = Str ''divisions'' \<and> e2 = Str ''matches''
        then Some (ApiGet (''/api/v1/divisions/'' @ js_to_string e1 @ ''/matches''))
        else if e0 = Str ''league-registrations'' \<and> e1 = Str ''list''
        then Some (ApiGet (''/api/v1/leagues/'' @ js_to_string e2 @ ''/registrations''))
        else if e0 = Str ''leagues'' \<and> e1 = Str ''search''
        then Some (ApiGetPaginated (''/api/v1/leagues''
              @ buildQueryString [(''query'', e2), (''limit'', Num 20), (''offset'', Num 0)]))
        else if e0 = Str ''leagues'' \<and> e1 = Str ''list''
        then Some (ApiGetPaginated (''/api/v1/leagues''
              @ buildQueryString [(''query'', js_opt_get e2 ''query''), (''limit'', js_opt_get e2 ''limit''), (''offset'', js_opt_get e2 ''offset'')]))
        else if e0 = Str ''leagues'' \<and> e1 = Str ''detail''
        then Some (ApiGet (''/api/v1/leagues/'' @ js_to_string e2))
        else if e0 = Str ''leagues'' \<and> e2 = Str ''seasons''
        then Some (ApiGet (''/api/v1/leagues/'' @ js_to_string e1 @ ''/seasons''))
        else if e0 = Str ''organizations'' \<and> e2 = Str ''members''
        then Some (ApiGet (''/api/v1/organizations/'' @ js_to_string e1 @ ''/members''))
        else if e0 = Str ''organizations'' \<and> e2 = Str ''block-status''
        then Some (ApiGet (''/api/v1/organizations/'' @ js_to_string e1 @ ''/block''))
        else if e0 = Str ''organizations'' \<and> e2 = Str ''my-role''
        then Some (ApiGet (''/api/v1/organizations/'' @ js_to_string e1 @ ''/my-role''))
        else if e0 = Str ''organizations'' \<and> e1 = Str ''search''
        then Some (ApiGetPaginated (''/api/v1/organizations/search''
              @ buildQueryString [(''q'', js_opt_get e2 ''query''), (''limit'', js_opt_get e2 ''limit''), (''offset'', js_opt_get e2 ''offset'')]))
        else if e0 = Str ''overlay'' \<and> e1 = Str ''config''
        then Some (ApiGet (''/api/v1/overlay/court/'' @ js_to_string e2 @ ''/config''))
        else if e0 = Str ''overlay'' \<and> e1 = Str ''resolve''
        then Some (ApiGet (''/api/v1/overlay/court/'' @ js_to_string e2 @ ''/resolve''))
        else if e0 = Str ''overlay'' \<and> e1 = Str ''theme''
        then Some (ApiGet (''/api/v1/overlay/themes/'' @ js_to_string e2))
        else if e0 = Str ''players'' \<and> e1 = Str ''search''
        then Some (ApiGetPaginated (''/api/v1/players/search''
              @ buildQueryString [(''q'', js_opt_get e2 ''query''), (''limit'', js_opt_get e2 ''limit''), (''offset'', js_opt_get e2 ''offset'')]))
        else if e0 = Str ''public-league-seasons''
        then Some (ApiGetPaginated (''/api/v1/public/leagues/'' @ js_to_string e1 @ ''/seasons''
              @ buildQueryString [(''limit'', js_opt_get e2 ''limit''), (''offset'', js_opt_get e2 ''offset'')]))
        else if e0 = Str ''public-league-tournaments''
        then Some (ApiGetPaginated (''/api/v1/public/leagues/'' @ js_to_string e1 @ ''/tournaments''
              @ buildQueryString [(''limit'', js_opt_get e2 ''limit''), (''offset'', js_opt_get e2 ''offset'')]))
        else if e0 = Str ''public-tournament-matches''
        then Some (ApiGet (''/api/v1/public/tournaments/'' @ js_to_string e1 @ ''/matches''
              @ buildQueryString [(''limit'', js_opt_get e2 ''limit''), (''offset'', js_opt_get e2 ''offset'')]))
        else if e0 = Str ''seasons'' \<and> e1 = Str ''list''
        then Some (ApiGet (''/api/v1/leagues/'' @ js_to_string e2 @ ''/seasons''))
        else if e0 = Str ''standings'' \<and> e1 = Str ''season''
        then Some (ApiGet (''/api/v1/standings/seasons/'' @ js_to_string e2))
        else if e0 = Str ''teams'' \<and> e2 = Str ''roster''
        then Some (ApiGet (''/api/v1/teams/'' @ js_to_string e1 @ ''/roster''))
        else if e0 = Str ''teams'' \<and> e1 = Str ''search''
        then Some (ApiGetPaginated (''/api/v1/teams/search''
              @ buildQueryString [(''q'', js_opt_get e2 ''query''), (''limit'', js_opt_get e2 ''limit''), (''offset'', js_opt_get e2 ''offset'')]))
        else if e0 = Str ''tournaments'' \<and> e2 = Str ''divisions''
        then Some (ApiGet (''/api/v1/tournaments/'' @ js_to_string e1 @ ''/divisions''))
        else if e0 = Str ''tournaments'' \<and> e2 = Str ''staff''
        then Some (ApiGet (''/api/v1/tournaments/'' @ js_to_string e1 @ ''/staff''))
        else if e0 = Str ''tournaments'' \<and> e2 = Str ''courts''
        then Some (ApiGet (''/api/v1/tournaments/'' @ js_to_string e1 @ ''/courts''))
        else if e0 = Str ''tournaments'' \<and> e1 = Str ''list''
        then Some (ApiGetPaginated (''/api/v1/tournaments''
              @ buildQueryString [(''query'', js_opt_get e2 ''query''), (''status'', js_opt_get e2 ''status''), (''limit'', js_opt_get e2 ''limit''), (''offset'', js_opt_get e2 ''offset''), (''league_id'', js_opt_get e2 ''leagueId'')]))
        else if e0 = Str ''tournaments'' \<and> e1 = Str ''by-season''
        then Some (ApiGetPaginated (''/api/v1/tournaments''
              @ buildQueryString [(''season_id'', e2), (''limit'', Num 100), (''offset'', Num 0)]))
        else if e0 = Str ''venues'' \<and> e2 = Str ''courts''
        then Some (ApiGet (''/api/v1/venues/'' @ js_to_string e1 @ ''/courts''))
        else if e0 = Str ''venues'' \<and> e2 = Str ''can-manage''
        then Some (ApiGet (''/api/v1/venues/'' @ js_to_string e1 @ ''/can-manage''))
        else if e0 = Str ''venues'' \<and> e2 = Str ''managers''
        then Some (ApiGet (''/api/v1/venues/'' @ js_to_string e1 @ ''/managers''))
        else if e0 = Str ''venues'' \<and> e1 = Str ''search''
        then Some (ApiGetPaginated (''/api/v1/venues/search''
              @ buildQueryString [(''q'', js_opt_get e2 ''query''), (''limit'', js_opt_get e2 ''limit''), (''offset'', js_opt_get e2 ''offset'')]))
        else None)"

definition key_request4 :: "js \<Rightarrow> js \<Rightarrow> js \<Rightarrow> js \<Rightarrow> api_call option" where
  "key_request4 e0 e1 e2 e3 =
       (if e0 = Str ''admin'' \<and> e1 = Str ''venues'' \<and> e2 = Str ''pending''
        then Some (ApiGetPaginated (''/api/v1/admin/venues/pending''
              @ buildQueryString [(''limit'', js_opt_get e3 ''limit''), (''offset'', js_opt_get e3 ''offset'')]))
        else if e0 = Str ''divisions'' \<and> e2 = Str ''registrations''
        then Some (ApiGetPaginated (''/api/v1/divisions/'' @ js_to_string e1 @ ''/registrations''
              @ buildQueryString [(''status'', js_opt_get e3 ''status''), (''limit'', js_opt_get e3 ''limit''), (''offset'', js_opt_get e3 ''offset'')]))
        else if e0 = Str ''season-confirmations'' \<and> e1 = Str ''list''
        then Some (ApiGet (''/api/v1/leagues/'' @ js_to_string e2 @ ''/seasons/'' @ js_to_string e3 @ ''/confirmations''))
        else if e0 = Str ''seasons'' \<and> e1 = Str ''detail''
        then Some (ApiGet (''/api/v1/leagues/'' @ js_to_string e2 @ ''/seasons/'' @ js_to_string e3))
        else if e0 = Str ''teams'' \<and> e1 = Str ''by-org''
        then Some (ApiGetPaginated (''/api/v1/organizations/'' @ js_to_string e2 @ ''/teams''
              @ buildQueryString [(''limit'', js_opt_get e3 ''limit''), (''offset'', js_opt_get e3 ''offset'')]))
        else if e0 = Str ''tournaments'' \<and> e2 = Str ''divisions''
        then Some (ApiGet (''/api/v1/tournaments/'' @ js_to_string e1 @ ''/divisions/'' @ js_to_string e3))
        else if e0 = Str ''tournaments'' \<and> e2 = Str ''announcements''
        then Some (ApiGet (''/api/v1/tournaments/'' @ js_to_string e1 @ ''/announcements''
              @ buildQueryString [(''division_id'', js_opt_get e3 ''divisionId'')]))
        else None)"

definition key_request5 :: "js \<Rightarrow> js \<Rightarrow> js \<Rightarrow> js \<Rightarrow> js \<Rightarrow> api_call option" where
  "key_request5 e0 e1 e2 e3 e4 =
       (if e0 = Str ''standings'' \<and> e1 = Str ''division''
        then Some (ApiGetPaginated (''/api/v1/standings/seasons/'' @ js_to_string e2 @ ''/divisions/'' @ js_to_string e3
              @ buildQueryString [(''limit'', js_opt_get e4 ''limit''), (''offset'', js_opt_get e4 ''offset'')]))
        else if e0 = Str ''overlay'' \<and> e1 = Str ''data''
        then Some (ApiGet (''/api/v1/overlay/court/'' @ js_to_string e2 @ ''/data'' @ data_suffix e3 e4))
        else None)"

fun key_request :: "key \<Rightarrow> api_call option" where
  "key_request [e0] = key_request1 e0"
| "key_request [e0, e1] = key_request2 e0 e1"
| "key_request [e0, e1, e2] = key_request3 e0 e1 e2"
| "key_request [e0, e1, e2, e3] = key_request4 e0 e1 e2 e3"
| "key_request [e0, e1, e2, e3, e4] = key_request5 e0 e1 e2 e3 e4"
| "key_request _ = None"

lemmas key_request_parts =
  key_request1_def key_request2_def key_request3_def key_request4_def key_request5_def

text \<open>The one key with two meanings: a court whose id is the word \<open>all\<close>.\<close>

fun ambiguous :: "app_query \<Rightarrow> bool" where
  "ambiguous (RegistryQuery (QCourt ident)) = (ident = ''all'')"
| "ambiguous _ = False"

section \<open>Every hook agrees with the reading of its key\<close>

lemma tournament_key_request:
  "key_request (q_key (tournament_query_of q)) = Some (q_call (tournament_query_of q))"
  by (cases q) (simp_all add: key_simps key_request_parts js_opt_get_def data_suffix_def)

lemma league_key_request:
  "key_request (q_key (league_query_of q)) = Some (q_call (league_query_of q))"
  by (cases q) (simp_all add: key_simps key_request_parts js_opt_get_def data_suffix_def)

lemma registry_key_request:
  "\<not> ambiguous (RegistryQuery q) \<Longrightarrow>
   key_request (q_key (registry_query_of q)) = Some (q_call (registry_query_of q))"
  by (cases q) (simp_all add: key_simps key_request_parts js_opt_get_def data_suffix_def)

lemma admin_key_request:
  "key_request (q_key (admin_query_of q)) = Some (q_call (admin_query_of q))"
  by (cases q) (simp_all add: key_simps key_request_parts js_opt_get_def data_suffix_def)

lemma public_key_request:
  "key_request (q_key (public_query_of q)) = Some (q_call (public_query_of q))"
  by (cases q) (simp_all add: key_simps key_request_parts js_opt_get_def data_suffix_def)

lemma overlay_key_request:
  "key_request (q_key (overlay_query_of q)) = Some (q_call (overlay_query_of q))"
  by (cases q) (simp_all add: key_simps key_request_parts js_opt_get_def data_suffix_def Let_def split: option.splits)

lemma scoring_key_request:
  "key_request (q_key (scoring_query_of q)) = Some (q_call (scoring_query_of q))"
  by (cases q) (simp_all add: key_simps key_request_parts js_opt_get_def data_suffix_def)

lemma key_request_sound:
  "\<not> ambiguous q \<Longrightarrow> key_request (q_key (query_of q)) = Some (q_call (query_of q))"
  by (cases q)
    (simp_all add: tournament_key_request league_key_request registry_key_request admin_key_request public_key_request overlay_key_request scoring_key_request)

end
