(* ===== verification/Cache_Consistency.thy ===== *)
theory Cache_Consistency
  imports Query_Catalogue
begin

text \<open>
  What holds of the shared query cache across the pages: a cache key stands for one request,
  and which cached reads each write refreshes. The rule by which the query library selects
  entries is the parameter \<open>qm\<close> of \<open>Query_Layer\<close>.
\<close>

section \<open>Reads and writes of one resource\<close>

text \<open>A write refreshes all the given reads, or none of them.\<close>

definition refreshes_all :: "(key \<Rightarrow> key \<Rightarrow> bool) \<Rightarrow> cache_op list \<Rightarrow> query list \<Rightarrow> bool" where
  "refreshes_all qm ops qs \<longleftrightarrow> list_all (refreshes qm ops) qs"

definition refreshes_none :: "(key \<Rightarrow> key \<Rightarrow> bool) \<Rightarrow> cache_op list \<Rightarrow> query list \<Rightarrow> bool" where
  "refreshes_none qm ops qs \<longleftrightarrow> list_all (\<lambda>q. \<not> refreshes qm ops q) qs"

lemma refreshes_all_simps [simp]:
  "refreshes_all qm ops []"
  "refreshes_all qm ops (q # qs) \<longleftrightarrow> refreshes qm ops q \<and> refreshes_all qm ops qs"
  "refreshes_none qm ops []"
  "refreshes_none qm ops (q # qs) \<longleftrightarrow> \<not> refreshes qm ops q \<and> refreshes_none qm ops qs"
  by (simp_all add: refreshes_all_def refreshes_none_def)

text \<open>The writes below one division of a tournament, with any input and any answer.\<close>

definition division_writes :: "string \<Rightarrow> string \<Rightarrow> js \<Rightarrow> js \<Rightarrow> string \<Rightarrow> cache_op list list" where
  "division_writes t d data inp st =
     [m_success (useCreateDivision t) data inp, m_success (useUpdateDivision t d) data inp,
      m_success (useDeleteDivision t d) data (), m_success (useUpdateDivisionStatus t d) data st]"

definition registration_writes :: "string \<Rightarrow> string \<Rightarrow> js \<Rightarrow> js \<Rightarrow> string \<Rightarrow> int option \<Rightarrow> cache_op list list" where
  "registration_writes d r data inp st seed =
     [m_success (useCreateRegistration d) data inp,
      m_success (useUpdateRegistrationStatus d r) data st,
      m_success (useUpdateRegistrationSeed d r) data seed,
      m_success (useCheckInRegistration d r) data (),
      m_success (useBulkNoShow d) data inp,
      m_success (useWithdrawMidTournament d r) data (),
      m_success (useUpdateAdminNotes d r) data st]"

definition overlay_config_writes :: "js \<Rightarrow> js \<Rightarrow> js \<Rightarrow> int option \<Rightarrow> cache_op list list" where
  "overlay_config_writes c cfg inp n =
     [m_success (useUpdateTheme c) cfg inp, m_success (useUpdateElements c) cfg inp,
      m_success (useUpdateDataOverrides c) cfg inp, m_success (useClearDataOverrides c) cfg (),
      m_success (useUpdateSourceProfileBinding c) cfg n,
      m_success (useGenerateOverlayToken c) cfg (), m_success (useRevokeOverlayToken c) cfg ()]"

definition overlay_data_writes :: "js \<Rightarrow> js \<Rightarrow> js \<Rightarrow> int option \<Rightarrow> cache_op list list" where
  "overlay_data_writes c cfg inp n =
     [m_success (useUpdateDataOverrides c) cfg inp, m_success (useClearDataOverrides c) cfg (),
      m_success (useUpdateSourceProfileBinding c) cfg n]"

section \<open>Properties\<close>



text \<open>
  C16. Writes to a division refresh every read of the tournament's divisions and no
  tournament and no other tournament's divisions; writes to a registration refresh every page
  of the division's registrations and no other division's; writes to the tournament itself
  refresh its detail and every page of the list.
\<close>

theorem tournament_writes:
  assumes "key_filter qm" and "t' \<noteq> t" and "e' \<noteq> d"
  shows "list_all (\<lambda>ops. refreshes_all qm ops [useListDivisions t, useGetDivision t x] \<and>
       refreshes_none qm ops [useGetTournament t, useListDivisions t', useGetDivision t' x])
     (division_writes t d data inp st) \<and>
   list_all (\<lambda>ops. refreshes_all qm ops [useListRegistrations d f l o1] \<and>
       refreshes_none qm ops [useListRegistrations e' f l o1, useListPods d, useListBracketMatches d])
     (registration_writes d r data inp st seed) \<and>
   list_all (\<lambda>ops. refreshes_all qm ops [useGetTournament t, useListTournaments a b l o1 lg])
     [m_success (useUpdateTournament t) data inp, m_success (useDeleteTournament t) data (),
      m_success (useUpdateTournamentStatus t) data st, m_success useCreateTournament data inp]"
  using assms key_filter_prefix [OF assms(1)] key_filter_scalar [OF assms(1)]
  by (simp add: division_writes_def registration_writes_def key_simps effect_simps)

theorem tournament_writes_witness:
  "refreshes prefix (m_success (useUpdateDivision ''1'' ''5'') Null (Obj [])) (useListDivisions ''1'')"
  using tournament_writes [OF key_filter_of_prefix, of "''2''" "''1''" "''6''" "''5''"]
  by (simp add: division_writes_def)

text \<open>
  Every write to a court's overlay configuration replaces the cached configuration by the
  server's answer and touches no other court's; the writes that change what is shown also
  refresh the court's overlay data, whatever token or demo mode it was read with.
\<close>

theorem overlay_config_consistent:
  assumes "key_filter qm" and "scalar c" and "scalar c'" and "c' \<noteq> c"
  shows "list_all (\<lambda>ops. SetData (q_key (useOverlayConfig c)) cfg \<in> set ops \<and>
       refreshes_none qm ops [useOverlayConfig c', useOverlayData c' token demo])
     (overlay_config_writes c cfg inp n) \<and>
   list_all (\<lambda>ops. refreshes_all qm ops [useOverlayData c token demo]) (overlay_data_writes c cfg inp n)"
  using assms key_filter_prefix [OF assms(1)] key_filter_scalar [OF assms(1)]
  by (simp add: overlay_config_writes_def overlay_data_writes_def key_simps effect_simps Let_def)

theorem overlay_config_consistent_witness:
  "refreshes prefix (m_success (useClearDataOverrides (Num 7)) Null ()) (useOverlayData (Num 7) None False)"
  using overlay_config_consistent [OF key_filter_of_prefix, of "Num 7" "Num 8"]
  by (simp add: overlay_data_writes_def)

text \<open>
  C17. Four writes leave a cached read of the very thing they changed as it is: editing or
  deleting an announcement the league's announcements, creating a season the seasons offered
  by the tournament form, approving a venue in the administration the venue's page, and
  assigning a match to a court the court's match list.
\<close>

theorem stale_reads:
  assumes "key_filter qm"
  shows "\<not> refreshes qm (m_success (useUpdateAnnouncement a) data inp) (useListLeagueAnnouncements lg) \<and>
    \<not> refreshes qm (m_success (useDeleteAnnouncement a) data ()) (useListLeagueAnnouncements lg) \<and>
    \<not> refreshes qm (m_success (useCreateSeason k) data inp) (useLeagueSeasons (Some k)) \<and>
    \<not> refreshes qm (m_success useUpdateVenueStatus_admin data v) (useVenue ident) \<and>
    \<not> refreshes qm (m_success useAssignMatchToCourt data asg) (useCourtMatches (Some (ai_courtId asg)))"
  using assms key_filter_scalar [OF assms(1)]
  by (cases "ai_tournamentId asg") (simp_all add: key_simps effect_simps)

theorem stale_reads_witness:
  "\<not> refreshes prefix (m_success (useCreateSeason 4) Null (Obj [])) (useLeagueSeasons (Some 4))"
  using stale_reads [OF key_filter_of_prefix] by blast

end
