(* ===== verification/Browser.thy ===== *)
theory Browser
  imports Query_Layer
begin

text \<open>
  The browser side of the components that hold WebSockets and timers: the sockets and
  timers created so far, each with the closure its callbacks run in, as a value of
  \<open>world\<close>. A socket is numbered by the order of creation, as is a timer. Also the parts the
  two WebSocket hooks have in common: the three states, the base URL and the backoff table.
\<close>

named_theorems world_simps \<open>how the operations on the world change a socket's phase or a timer\<close>

section \<open>Sockets and timers\<close>

text \<open>The ready states of a \<open>WebSocket\<close>.\<close>

datatype phase = Connecting | Opened | Closing | Closed

record 'c world =
  w_socks :: "('c \<times> phase) list"
  w_timers :: "('c \<times> nat \<times> bool) list"

definition no_world :: "'c world" where
  "no_world = \<lparr> w_socks = [], w_timers = [] \<rparr>"

definition next_sock :: "'c world \<Rightarrow> nat" where
  "next_sock w = length (w_socks w)"

definition next_timer :: "'c world \<Rightarrow> nat" where
  "next_timer w = length (w_timers w)"

definition phase_of :: "'c world \<Rightarrow> nat \<Rightarrow> phase" where
  "phase_of w i = (if i < next_sock w then snd (w_socks w ! i) else Closed)"

definition closure_of :: "'c world \<Rightarrow> nat \<Rightarrow> 'c option" where
  "closure_of w i = (if i < next_sock w then Some (fst (w_socks w ! i)) else None)"

definition pending :: "'c world \<Rightarrow> nat \<Rightarrow> bool" where
  "pending w t = (t < next_timer w \<and> snd (snd (w_timers w ! t)))"

definition timer_closure :: "'c world \<Rightarrow> nat \<Rightarrow> 'c option" where
  "timer_closure w t = (if t < next_timer w then Some (fst (w_timers w ! t)) else None)"

definition timer_delay :: "'c world \<Rightarrow> nat \<Rightarrow> nat option" where
  "timer_delay w t = (if t < next_timer w then Some (fst (snd (w_timers w ! t))) else None)"

text \<open>\<open>new WebSocket(url)\<close>, \<open>ws.close()\<close>, and the changes the browser makes by itself.\<close>

definition new_socket :: "'c \<Rightarrow> 'c world \<Rightarrow> 'c world" where
  "new_socket c w = w\<lparr> w_socks := w_socks w @ [(c, Connecting)] \<rparr>"

definition set_phase :: "phase \<Rightarrow> nat \<Rightarrow> 'c world \<Rightarrow> 'c world" where
  "set_phase p i w =
     (if i < next_sock w then w\<lparr> w_socks := (w_socks w)[i := (fst (w_socks w ! i), p)] \<rparr> else w)"

definition close_socket :: "nat \<Rightarrow> 'c world \<Rightarrow> 'c world" where
  "close_socket i w = (if phase_of w i = Closed then w else set_phase Closing i w)"

text \<open>\<open>setTimeout\<close>, \<open>clearTimeout\<close>; a timer that fires is spent.\<close>

definition set_timeout :: "'c \<Rightarrow> nat \<Rightarrow> 'c world \<Rightarrow> 'c world" where
  "set_timeout c d w = w\<lparr> w_timers := w_timers w @ [(c, d, True)] \<rparr>"

definition clear_timeout :: "nat \<Rightarrow> 'c world \<Rightarrow> 'c world" where
  "clear_timeout t w =
     (if t < next_timer w
      then w\<lparr> w_timers := (w_timers w)[t := (fst (w_timers w ! t), fst (snd (w_timers w ! t)), False)] \<rparr>
      else w)"

lemma next_simps [simp, world_simps]:
  "next_sock (new_socket c w) = Suc (next_sock w)"
  "next_sock (set_phase p i w) = next_sock w"
  "next_sock (close_socket i w) = next_sock w"
  "next_sock (set_timeout c d w) = next_sock w"
  "next_sock (clear_timeout t w) = next_sock w"
  "next_timer (new_socket c w) = next_timer w"
  "next_timer (set_phase p i w) = next_timer w"
  "next_timer (close_socket i w) = next_timer w"
  "next_timer (set_timeout c d w) = Suc (next_timer w)"
  "next_timer (clear_timeout t w) = next_timer w"
  by (simp_all add: next_sock_def next_timer_def new_socket_def set_phase_def close_socket_def
      set_timeout_def clear_timeout_def)

lemma phase_simps [simp, world_simps]:
  "phase_of no_world i = Closed"
  "phase_of (new_socket c w) i = (if i = next_sock w then Connecting else phase_of w i)"
  "phase_of (set_phase p j w) i = (if i = j \<and> j < next_sock w then p else phase_of w i)"
  "phase_of (close_socket j w) i =
     (if i = j \<and> phase_of w i \<noteq> Closed then Closing else phase_of w i)"
  "phase_of (set_timeout c d w) i = phase_of w i"
  "phase_of (clear_timeout t w) i = phase_of w i"
  by (auto simp: phase_of_def next_sock_def no_world_def new_socket_def set_phase_def
      close_socket_def set_timeout_def clear_timeout_def nth_append less_Suc_eq)

lemma closure_simps [simp, world_simps]:
  "closure_of no_world i = None"
  "closure_of (new_socket c w) i = (if i = next_sock w then Some c else closure_of w i)"
  "closure_of (set_phase p j w) i = closure_of w i"
  "closure_of (close_socket j w) i = closure_of w i"
  "closure_of (set_timeout c d w) i = closure_of w i"
  "closure_of (clear_timeout t w) i = closure_of w i"
  by (auto simp: closure_of_def next_sock_def no_world_def new_socket_def set_phase_def
      close_socket_def set_timeout_def clear_timeout_def nth_append less_Suc_eq nth_list_update)

lemma pending_simps [simp, world_simps]:
  "\<not> pending no_world t"
  "pending (new_socket c w) t = pending w t"
  "pending (set_phase p j w) t = pending w t"
  "pending (close_socket j w) t = pending w t"
  "pending (set_timeout c d w) t = (t = next_timer w \<or> pending w t)"
  "pending (clear_timeout u w) t = (t \<noteq> u \<and> pending w t)"
  by (auto simp: pending_def next_timer_def no_world_def new_socket_def set_phase_def
      close_socket_def set_timeout_def clear_timeout_def nth_append less_Suc_eq nth_list_update)

lemma timer_simps [simp, world_simps]:
  "timer_closure no_world t = None"
  "timer_closure (new_socket c w) t = timer_closure w t"
  "timer_closure (set_phase p j w) t = timer_closure w t"
  "timer_closure (close_socket j w) t = timer_closure w t"
  "timer_closure (set_timeout c d w) t = (if t = next_timer w then Some c else timer_closure w t)"
  "timer_closure (clear_timeout u w) t = timer_closure w t"
  "timer_delay no_world t = None"
  "timer_delay (new_socket c w) t = timer_delay w t"
  "timer_delay (set_phase p j w) t = timer_delay w t"
  "timer_delay (close_socket j w) t = timer_delay w t"
  "timer_delay (set_timeout c d w) t = (if t = next_timer w then Some d else timer_delay w t)"
  "timer_delay (clear_timeout u w) t = timer_delay w t"
  by (auto simp: timer_closure_def timer_delay_def next_timer_def no_world_def new_socket_def
      set_phase_def close_socket_def set_timeout_def clear_timeout_def nth_append less_Suc_eq
      nth_list_update)

lemma phase_beyond: "next_sock w \<le> i \<Longrightarrow> phase_of w i = Closed"
  by (simp add: phase_of_def)

lemma phase_next [simp]: "phase_of w (next_sock w) = Closed"
  by (simp add: phase_beyond)

lemma pending_next [simp]: "\<not> pending w (next_timer w)"
  by (simp add: pending_def)

lemma open_in_range: "phase_of w i \<noteq> Closed \<Longrightarrow> i < next_sock w"
  by (auto simp: phase_of_def split: if_splits)

lemma open_closure: "phase_of w i \<noteq> Closed \<Longrightarrow> \<exists>c. closure_of w i = Some c"
  by (simp add: closure_of_def open_in_range)

lemma pending_closure: "pending w t \<Longrightarrow> \<exists>c. timer_closure w t = Some c"
  by (simp add: timer_closure_def pending_def)

lemma world_sizes [simp]: "next_sock no_world = 0" "next_timer no_world = 0"
  by (simp_all add: next_sock_def next_timer_def no_world_def)

text \<open>What still holds resources: sockets not closed or closing, and running timers.\<close>

definition live_socks :: "'c world \<Rightarrow> nat list" where
  "live_socks w = filter (\<lambda>i. phase_of w i \<in> {Connecting, Opened}) [0..<next_sock w]"

definition live_timers :: "'c world \<Rightarrow> nat list" where
  "live_timers w = filter (pending w) [0..<next_timer w]"

lemma filter_upt_eq: "filter (\<lambda>i. i = k) [0..<n] = (if k < n then [k] else [])"
  by (induction n) auto

lemma live_socks_Nil: "live_socks w = [] \<longleftrightarrow> (\<forall>i. phase_of w i \<notin> {Connecting, Opened})"
  using phase_beyond [of w] by (fastforce simp: live_socks_def filter_empty_conv not_less)

lemma live_timers_Nil: "live_timers w = [] \<longleftrightarrow> (\<forall>t. \<not> pending w t)"
  by (auto simp: live_timers_def filter_empty_conv pending_def)

lemma live_socks_one:
  assumes "\<forall>i. phase_of w i \<in> {Connecting, Opened} \<longleftrightarrow> i = k"
  shows "live_socks w = [k]"
proof -
  have "k < next_sock w" using spec [OF assms, of k] open_in_range [of w k] by auto
  then show ?thesis using assms by (simp add: live_socks_def filter_upt_eq)
qed

lemma live_timers_one:
  assumes "\<forall>t. pending w t \<longleftrightarrow> t = k"
  shows "live_timers w = [k]"
proof -
  have "k < next_timer w" using assms by (auto simp: pending_def)
  moreover have "live_timers w = filter (\<lambda>t. t = k) [0..<next_timer w]"
    unfolding live_timers_def using assms by (intro filter_cong) simp_all
  ultimately show ?thesis by (simp add: filter_upt_eq)
qed

section \<open>What the two WebSocket hooks share\<close>

datatype ws_state = WsConnecting | WsOpen | WsDisconnected

text \<open>The page's location and the build variable \<open>VITE_WS_URL\<close>; \<open>None\<close> when it is not set.\<close>

record page_env =
  has_window :: bool
  protocol :: string
  page_host :: string
  vite_ws_url :: "string option"

definition strip_slash :: "string \<Rightarrow> string" where
  "strip_slash s = (if s \<noteq> [] \<and> last s = CHR ''/'' then butlast s else s)"

locale backoff =
  fixes steps :: "nat list" and lo hi :: nat
  assumes steps_ne: "steps \<noteq> []"
    and steps_sorted: "sorted steps"
    and steps_lo: "hd steps = lo"
    and steps_hi: "last steps = hi"
begin

lemma delay_bounds: "lo \<le> steps ! min n (length steps - 1) \<and> steps ! min n (length steps - 1) \<le> hi"
proof -
  have "min n (length steps - 1) < length steps" using steps_ne by (cases steps) auto
  then show ?thesis
    using steps_ne steps_sorted steps_lo steps_hi
    by (auto simp: hd_conv_nth last_conv_nth intro!: sorted_nth_mono)
qed

lemma delay_mono:
  assumes "m \<le> n"
  shows "steps ! min m (length steps - 1) \<le> steps ! min n (length steps - 1)"
  using assms steps_ne steps_sorted by (intro sorted_nth_mono) (auto simp: min_def neq_Nil_conv)

lemma delay_final: "length steps - 1 \<le> n \<Longrightarrow> steps ! min n (length steps - 1) = hi"
  using steps_ne steps_hi by (simp add: last_conv_nth)

end

end
