(* ===== verification/Match_Socket.thy ===== *)
theory Match_Socket
  imports Browser Scoring_Hooks
begin

text \<open>
  \<open>web/src/features/scoring/useMatchWebSocket.ts\<close>: the live connection of one match. The
  hook's React state and refs are the fields of \<open>msock\<close>; the browser delivers the socket
  and timer callbacks in any order it is allowed to. A callback runs in the closure of the
  effect that created its socket, so it carries that effect's \<open>publicId\<close>.
\<close>

definition BACKOFF_STEPS_MS :: "nat list" where
  "BACKOFF_STEPS_MS = [1000, 2000, 4000, 8000, 16000, 30000]"

definition backoff_delay :: "nat \<Rightarrow> nat" where
  "backoff_delay n = BACKOFF_STEPS_MS ! min n (length BACKOFF_STEPS_MS - 1)"

definition buildWsUrl :: "page_env \<Rightarrow> string \<Rightarrow> string" where
  "buildWsUrl env publicId =
     (if \<not> has_window env then []
      else
        (let proto = (if protocol env = ''https:'' then ''wss:'' else ''ws:'');
             base = (case vite_ws_url env of None \<Rightarrow> [] | Some u \<Rightarrow> u) in
         if base \<noteq> [] then strip_slash base @ ''/ws/match/'' @ publicId
         else proto @ ''//'' @ page_host env @ ''/ws/match/'' @ publicId))"

section \<open>The hook\<close>

record msock =
  ms_effect :: "string option"      (* the running effect's match, when it has a cleanup *)
  ms_state :: ws_state
  ms_last :: js
  ms_attempt :: nat
  ms_attempts :: nat                (* attemptsRef *)
  ms_ws :: "nat option"             (* wsRef *)
  ms_timer :: "nat option"          (* reconnectTimerRef *)
  ms_closed :: bool                 (* closedByUnmountRef *)
  ms_world :: "string world"
  ms_cache :: "cache_op list"       (* calls on the query client, oldest first *)

definition msock_init :: msock where
  "msock_init =
     \<lparr> ms_effect = None, ms_state = WsConnecting, ms_last = Undef, ms_attempt = 0,
       ms_attempts = 0, ms_ws = None, ms_timer = None, ms_closed = False,
       ms_world = no_world, ms_cache = [] \<rparr>"

definition ms_connect :: "page_env \<Rightarrow> string \<Rightarrow> msock \<Rightarrow> msock" where
  "ms_connect env pid s =
     (if buildWsUrl env pid = [] then s
      else s\<lparr> ms_state := WsConnecting, ms_ws := Some (next_sock (ms_world s)),
              ms_world := new_socket pid (ms_world s) \<rparr>)"

definition ms_onopen :: "string \<Rightarrow> msock \<Rightarrow> msock" where
  "ms_onopen pid s =
     s\<lparr> ms_attempts := 0, ms_attempt := 0, ms_state := WsOpen,
        ms_cache := ms_cache s @
          [Invalidate [Str ''matches'', Str pid], Invalidate [Str ''match-events'', Str pid]] \<rparr>"

text \<open>The payload is \<open>None\<close> when \<open>JSON.parse\<close> throws; reading a field of \<open>null\<close> throws too.\<close>

definition ms_onmessage :: "string \<Rightarrow> js option \<Rightarrow> msock \<Rightarrow> msock" where
  "ms_onmessage pid payload s =
     (case payload of None \<Rightarrow> s
      | Some msg \<Rightarrow>
          (case js_get msg ''type'' of None \<Rightarrow> s
           | Some ty \<Rightarrow>
               (let d = js_opt_get msg ''data'' in
                if ty = Str ''match_update'' \<and> truthy d
                then s\<lparr> ms_cache := ms_cache s @
                          [SetData [Str ''matches'', Str pid] d,
                           Invalidate [Str ''match-events'', Str pid]],
                        ms_last := d \<rparr>
                else s)))"

definition ms_onclose :: "string \<Rightarrow> msock \<Rightarrow> msock" where
  "ms_onclose pid s =
     (let s = s\<lparr> ms_ws := None \<rparr> in
      if ms_closed s then s
      else s\<lparr> ms_state := WsDisconnected,
              ms_attempts := ms_attempts s + 1,
              ms_attempt := ms_attempts s + 1,
              ms_timer := Some (next_timer (ms_world s)),
              ms_world := set_timeout pid (backoff_delay (ms_attempts s)) (ms_world s) \<rparr>)"

definition ms_cleanup :: "msock \<Rightarrow> msock" where
  "ms_cleanup s =
     (let s = s\<lparr> ms_closed := True \<rparr>;
          s = (case ms_timer s of None \<Rightarrow> s
               | Some t \<Rightarrow> s\<lparr> ms_world := clear_timeout t (ms_world s), ms_timer := None \<rparr>) in
      case ms_ws s of None \<Rightarrow> s
      | Some i \<Rightarrow> s\<lparr> ms_world := close_socket i (ms_world s), ms_ws := None \<rparr>)"

definition ms_effect_body :: "page_env \<Rightarrow> string option \<Rightarrow> msock \<Rightarrow> msock" where
  "ms_effect_body env publicId s =
     (case publicId of None \<Rightarrow> s\<lparr> ms_effect := None \<rparr>
      | Some pid \<Rightarrow>
          if pid = [] then s\<lparr> ms_effect := None \<rparr>
          else ms_connect env pid (s\<lparr> ms_closed := False, ms_effect := Some pid \<rparr>))"

section \<open>Events\<close>

text \<open>
  \<open>RunEffect\<close> is a mount or a change of \<open>publicId\<close> (the previous effect is cleaned up
  first), \<open>Unmount\<close> the removal of the component. The others are the browser's: a socket
  opens only while connecting, receives only while open, and closes once.
\<close>

datatype browser_event =
    SockOpen nat
  | SockMessage nat "js option"
  | SockClose nat
  | TimerFire nat

datatype ms_event =
    RunEffect "string option"
  | Unmount
  | Browser browser_event

fun ms_browser :: "page_env \<Rightarrow> msock \<Rightarrow> browser_event \<Rightarrow> msock" where
  "ms_browser env s (SockOpen i) =
     (case closure_of (ms_world s) i of None \<Rightarrow> s
      | Some pid \<Rightarrow>
          if phase_of (ms_world s) i = Connecting
          then ms_onopen pid (s\<lparr> ms_world := set_phase Opened i (ms_world s) \<rparr>) else s)"
| "ms_browser env s (SockMessage i payload) =
     (case closure_of (ms_world s) i of None \<Rightarrow> s
      | Some pid \<Rightarrow>
          if phase_of (ms_world s) i = Opened then ms_onmessage pid payload s else s)"
| "ms_browser env s (SockClose i) =
     (case closure_of (ms_world s) i of None \<Rightarrow> s
      | Some pid \<Rightarrow>
          if phase_of (ms_world s) i \<noteq> Closed
          then ms_onclose pid (s\<lparr> ms_world := set_phase Closed i (ms_world s) \<rparr>) else s)"
| "ms_browser env s (TimerFire t) =
     (case timer_closure (ms_world s) t of None \<Rightarrow> s
      | Some pid \<Rightarrow>
          if pending (ms_world s) t
          then ms_connect env pid (s\<lparr> ms_world := clear_timeout t (ms_world s) \<rparr>) else s)"

definition ms_unwind :: "msock \<Rightarrow> msock" where
  "ms_unwind s = (if ms_effect s = None then s else ms_cleanup s)"

fun ms_step :: "page_env \<Rightarrow> msock \<Rightarrow> ms_event \<Rightarrow> msock" where
  "ms_step env s (RunEffect publicId) = ms_effect_body env publicId (ms_unwind s)"
| "ms_step env s Unmount = (ms_unwind s)\<lparr> ms_effect := None \<rparr>"
| "ms_step env s (Browser e) = ms_browser env s e"

section \<open>The backoff table\<close>

interpretation match_backoff: backoff BACKOFF_STEPS_MS 1000 30000
  by unfold_locales (simp_all add: BACKOFF_STEPS_MS_def)

lemma backoff_delay_bounds: "1000 \<le> backoff_delay n \<and> backoff_delay n \<le> 30000"
  unfolding backoff_delay_def by (rule match_backoff.delay_bounds)

lemma backoff_delay_mono: "m \<le> n \<Longrightarrow> backoff_delay m \<le> backoff_delay n"
  unfolding backoff_delay_def by (rule match_backoff.delay_mono)

lemma backoff_delay_final: "5 \<le> n \<Longrightarrow> backoff_delay n = 30000"
  using match_backoff.delay_final [of n] by (simp add: backoff_delay_def BACKOFF_STEPS_MS_def)

section \<open>One mount\<close>

text \<open>
  While one effect runs (no rerun, no unmount), exactly one of these holds: a live socket
  in \<open>wsRef\<close> whose phase the reported state shows, or a pending reconnect timer in
  \<open>reconnectTimerRef\<close>. Everything else the browser still knows is closed or spent.
\<close>

definition ms_inv :: "page_env \<Rightarrow> string \<Rightarrow> msock \<Rightarrow> bool" where
  "ms_inv env pid s \<longleftrightarrow>
     buildWsUrl env pid \<noteq> [] \<and> ms_effect s = Some pid \<and> \<not> ms_closed s \<and>
     ms_attempt s = ms_attempts s \<and>
     (case ms_ws s of
        Some i \<Rightarrow>
          (\<forall>j. phase_of (ms_world s) j \<noteq> Closed \<longleftrightarrow> j = i) \<and>
          phase_of (ms_world s) i \<in> {Connecting, Opened} \<and>
          closure_of (ms_world s) i = Some pid \<and>
          (\<forall>t. \<not> pending (ms_world s) t) \<and>
          ms_state s = (if phase_of (ms_world s) i = Opened then WsOpen else WsConnecting)
      | None \<Rightarrow>
          (\<forall>j. phase_of (ms_world s) j = Closed) \<and>
          (\<exists>t. ms_timer s = Some t \<and> (\<forall>u. pending (ms_world s) u \<longleftrightarrow> u = t) \<and>
               timer_closure (ms_world s) t = Some pid \<and>
               timer_delay (ms_world s) t = Some (backoff_delay (ms_attempts s - 1))) \<and>
          0 < ms_attempts s \<and> ms_state s = WsDisconnected)"

lemmas ms_handlers =
  ms_connect_def ms_onopen_def ms_onclose_def ms_cleanup_def ms_effect_body_def ms_unwind_def

lemma ms_onmessage_frame [simp]:
  "ms_effect (ms_onmessage pid payload s) = ms_effect s"
  "ms_state (ms_onmessage pid payload s) = ms_state s"
  "ms_attempt (ms_onmessage pid payload s) = ms_attempt s"
  "ms_attempts (ms_onmessage pid payload s) = ms_attempts s"
  "ms_ws (ms_onmessage pid payload s) = ms_ws s"
  "ms_timer (ms_onmessage pid payload s) = ms_timer s"
  "ms_closed (ms_onmessage pid payload s) = ms_closed s"
  "ms_world (ms_onmessage pid payload s) = ms_world s"
  by (simp_all add: ms_onmessage_def Let_def split: option.splits)

lemma ms_inv_onmessage [simp]: "ms_inv env pid (ms_onmessage p payload s) = ms_inv env pid s"
  by (simp add: ms_inv_def split: option.split)

lemma ms_inv_socket:
  assumes "ms_inv env pid s" and "phase_of (ms_world s) i \<noteq> Closed"
  shows "ms_ws s = Some i" and "i < next_sock (ms_world s)"
    and "closure_of (ms_world s) i = Some pid"
  using assms open_in_range [of "ms_world s" i] by (auto simp: ms_inv_def split: option.splits)

lemma ms_inv_timer:
  assumes "ms_inv env pid s" and "pending (ms_world s) t"
  shows "ms_ws s = None" and "ms_timer s = Some t" and "timer_closure (ms_world s) t = Some pid"
  using assms by (auto simp: ms_inv_def split: option.splits)

lemma ms_inv_browser:
  assumes inv: "ms_inv env pid s"
  shows "ms_inv env pid (ms_browser env s e)"
proof (cases e)
  case (SockOpen i)
  show ?thesis
  proof (cases "phase_of (ms_world s) i = Connecting")
    case True
    then show ?thesis using inv ms_inv_socket [OF inv, of i] SockOpen
      by (auto simp: ms_inv_def ms_onopen_def)
  qed (use inv SockOpen in \<open>simp split: option.split\<close>)
next
  case (SockMessage i payload)
  then show ?thesis using inv by (simp split: option.split)
next
  case (SockClose i)
  show ?thesis
  proof (cases "phase_of (ms_world s) i = Closed")
    case False
    then show ?thesis using inv ms_inv_socket [OF inv, of i] SockClose
      by (auto simp: ms_inv_def ms_onclose_def Let_def)
  qed (use inv SockClose in \<open>simp split: option.split\<close>)
next
  case (TimerFire t)
  show ?thesis
  proof (cases "pending (ms_world s) t")
    case True
    then show ?thesis using inv ms_inv_timer [OF inv, of t] TimerFire
      by (auto simp: ms_inv_def ms_connect_def)
  qed (use inv TimerFire in \<open>simp split: option.split\<close>)
qed

text \<open>
  An effect establishes the invariant when the previous one left nothing behind: the first
  effect, and any effect run once the old sockets have closed.
\<close>

definition ms_quiet :: "msock \<Rightarrow> bool" where
  "ms_quiet s \<longleftrightarrow>
     (\<forall>i. phase_of (ms_world s) i = Closed) \<and> (\<forall>t. \<not> pending (ms_world s) t) \<and>
     ms_attempt s = ms_attempts s"

lemma ms_quiet_init: "ms_quiet (ms_unwind msock_init)"
  by (simp add: ms_quiet_def ms_unwind_def msock_init_def)

lemma ms_inv_effect:
  assumes "ms_quiet (ms_unwind s)" and "buildWsUrl env pid \<noteq> []" and "pid \<noteq> []"
  shows "ms_inv env pid (ms_step env s (RunEffect (Some pid)))"
  using assms by (auto simp: ms_quiet_def ms_inv_def ms_effect_body_def ms_connect_def)

definition mounted :: "page_env \<Rightarrow> string \<Rightarrow> msock" where
  "mounted env pid = ms_step env msock_init (RunEffect (Some pid))"

lemma mounted_inv_effect:
  "buildWsUrl env pid \<noteq> [] \<Longrightarrow> pid \<noteq> [] \<Longrightarrow> ms_inv env pid (mounted env pid)"
  unfolding mounted_def by (rule ms_inv_effect [OF ms_quiet_init])

definition mountable :: "page_env \<Rightarrow> string \<Rightarrow> bool" where
  "mountable env pid \<longleftrightarrow> buildWsUrl env pid \<noteq> [] \<and> pid \<noteq> []"

interpretation match_mount:
  event_machine "ms_browser env" "\<lambda>s. mountable env pid \<and> s = mounted env pid" "ms_inv env pid"
  by unfold_locales
    (auto simp: mountable_def intro: mounted_inv_effect ms_inv_browser)

lemma mounted_inv: "mountable env pid \<Longrightarrow> ms_inv env pid (run (ms_browser env) (mounted env pid) es)"
  by (rule match_mount.reachable_inv) simp

lemma ms_inv_resources:
  assumes "ms_inv env pid s"
  shows "length (live_socks (ms_world s)) + length (live_timers (ms_world s)) = 1"
proof (cases "ms_ws s")
  case None
  then obtain t where "live_socks (ms_world s) = []" "live_timers (ms_world s) = [t]"
    using assms live_timers_one [of "ms_world s"] by (auto simp: ms_inv_def live_socks_Nil)
  then show ?thesis by simp
next
  case (Some i)
  have "\<forall>j. phase_of (ms_world s) j \<in> {Connecting, Opened} \<longleftrightarrow> j = i"
    using assms Some by (auto simp: ms_inv_def split: option.splits)
  then have "live_socks (ms_world s) = [i]" by (rule live_socks_one)
  moreover have "live_timers (ms_world s) = []"
    using assms Some by (simp add: ms_inv_def live_timers_Nil)
  ultimately show ?thesis by simp
qed

section \<open>After the unmount\<close>

definition ms_gone :: "nat \<Rightarrow> msock \<Rightarrow> bool" where
  "ms_gone n s \<longleftrightarrow>
     ms_closed s \<and> next_sock (ms_world s) = n \<and>
     (\<forall>i. phase_of (ms_world s) i \<notin> {Connecting, Opened}) \<and> (\<forall>t. \<not> pending (ms_world s) t)"

lemma ms_gone_unmount:
  assumes "ms_inv env pid s"
  shows "ms_gone (next_sock (ms_world s)) (ms_step env s Unmount)"
  using assms
  by (auto simp: ms_gone_def ms_inv_def ms_unwind_def ms_cleanup_def Let_def split: option.splits)

lemma ms_gone_browser: "ms_gone n s \<Longrightarrow> ms_gone n (ms_browser env s e)"
  by (cases e) (auto simp: ms_gone_def ms_onclose_def Let_def split: option.split)

interpretation match_gone: event_machine "ms_browser env" "ms_gone n" "ms_gone n"
  by unfold_locales (auto intro: ms_gone_browser)

lemma unmounted_gone:
  fixes es
  assumes "mountable env pid"
  defines "s \<equiv> run (ms_browser env) (mounted env pid) es"
  shows "ms_gone (next_sock (ms_world s)) (run (ms_browser env) (ms_step env s Unmount) es')"
  unfolding s_def by (rule match_gone.run_inv) (rule ms_gone_unmount [OF mounted_inv [OF assms(1)]])

section \<open>Failures in a row\<close>

fun failures :: "nat \<Rightarrow> browser_event list" where
  "failures 0 = []"
| "failures (Suc n) = failures n @ [SockClose n, TimerFire n]"

definition failed :: "string \<Rightarrow> nat \<Rightarrow> msock \<Rightarrow> bool" where
  "failed pid n s \<longleftrightarrow>
     next_sock (ms_world s) = Suc n \<and> next_timer (ms_world s) = n \<and>
     ms_ws s = Some n \<and> phase_of (ms_world s) n = Connecting \<and>
     closure_of (ms_world s) n = Some pid \<and> \<not> ms_closed s \<and>
     ms_attempts s = n \<and> ms_attempt s = n \<and>
     (\<forall>i<n. timer_delay (ms_world s) i = Some (backoff_delay i))"

lemma failed_step:
  assumes "failed pid n s" and "buildWsUrl env pid \<noteq> []"
  shows "failed pid (Suc n) (run (ms_browser env) s [SockClose n, TimerFire n])"
  using assms by (auto simp: failed_def ms_onclose_def ms_connect_def Let_def less_Suc_eq)

lemma failed_run:
  assumes "mountable env pid"
  shows "failed pid n (run (ms_browser env) (mounted env pid) (failures n))"
proof (induction n)
  case 0
  then show ?case using assms
    by (simp add: failed_def mountable_def mounted_def msock_init_def ms_unwind_def
        ms_effect_body_def ms_connect_def)
next
  case (Suc n)
  have "buildWsUrl env pid \<noteq> []" using assms by (simp add: mountable_def)
  from failed_step [OF Suc this] show ?case by (simp only: failures.simps run_append)
qed

lemma ms_inv_state:
  assumes "ms_inv env pid s"
  shows "ms_state s = WsOpen \<longleftrightarrow> (\<exists>i. phase_of (ms_world s) i = Opened)"
proof
  show "\<exists>i. phase_of (ms_world s) i = Opened" if "ms_state s = WsOpen"
    using assms that by (auto simp: ms_inv_def split: option.splits if_splits)
  assume "\<exists>i. phase_of (ms_world s) i = Opened"
  then obtain i where i: "phase_of (ms_world s) i = Opened" by blast
  then have "ms_ws s = Some i" using ms_inv_socket(1) [OF assms, of i] by simp
  then show "ms_state s = WsOpen" using assms i by (simp add: ms_inv_def)
qed

section \<open>Properties\<close>

definition sample_env :: page_env where
  "sample_env = \<lparr> has_window = True, protocol = ''https:'', page_host = ''cc.test'', vite_ws_url = None \<rparr>"

lemma sample_mountable: "mountable sample_env ''m1''"
  by (simp add: mountable_def sample_env_def buildWsUrl_def)

text \<open>
  C1. While one effect of \<open>useMatchWebSocket\<close> runs, whatever the browser delivers in
  whatever order, exactly one socket is live or one reconnect timer is pending, never both
  and never none, and the hook reports \<open>open\<close> exactly while a socket is open. Reconnection
  therefore never stops and never multiplies.
\<close>

theorem match_socket_single:
  assumes "mountable env pid"
  defines "s \<equiv> run (ms_browser env) (mounted env pid)"
  shows "length (live_socks (ms_world (s es))) + length (live_timers (ms_world (s es))) = 1 \<and>
    (ms_state (s es) = WsOpen \<longleftrightarrow> (\<exists>i. phase_of (ms_world (s es)) i = Opened))"
  unfolding s_def using mounted_inv [OF assms(1)] ms_inv_resources ms_inv_state by blast

theorem match_socket_single_witness:
  "length (live_socks (ms_world (run (ms_browser sample_env) (mounted sample_env ''m1'')
     [SockOpen 0, SockClose 0]))) +
   length (live_timers (ms_world (run (ms_browser sample_env) (mounted sample_env ''m1'')
     [SockOpen 0, SockClose 0]))) = 1"
  using match_socket_single [OF sample_mountable, of "[SockOpen 0, SockClose 0]"] by blast



text \<open>
  C3. After \<open>n\<close> connections that failed in a row the hook reports \<open>n\<close> attempts, it has
  waited \<open>backoff_delay i\<close> before attempt \<open>i + 1\<close>, and these waits never shrink, lie
  between one and thirty seconds and stay at thirty from the sixth on.
\<close>

theorem match_socket_backoff:
  fixes n
  assumes "mountable env pid"
  defines "s \<equiv> run (ms_browser env) (mounted env pid) (failures n)"
  shows "ms_attempt s = n \<and>
    (\<forall>i<n. timer_delay (ms_world s) i = Some (backoff_delay i)) \<and>
    (\<forall>i. 1000 \<le> backoff_delay i \<and> backoff_delay i \<le> backoff_delay (Suc i) \<and>
         backoff_delay i \<le> 30000) \<and>
    (\<forall>i\<ge>5. backoff_delay i = 30000)"
  using failed_run [OF assms(1), of n] backoff_delay_bounds backoff_delay_mono backoff_delay_final
  by (simp add: s_def failed_def)

theorem match_socket_backoff_witness:
  "ms_attempt (run (ms_browser sample_env) (mounted sample_env ''m1'') (failures 3)) = 3"
  using match_socket_backoff [OF sample_mountable, of 3] by blast

text \<open>
  C4. A change of \<open>publicId\<close> while a socket is open brings the old match's connection back:
  the shared \<open>closedByUnmountRef\<close> is false again when the old socket's close event arrives,
  so its handler drops the new socket from \<open>wsRef\<close> and reconnects to the old match, and the
  unmount closes only one of the two connections.
\<close>

theorem match_socket_stale_reconnect:
  assumes "mountable env old" and "mountable env new"
  defines "s \<equiv> run (ms_step env) msock_init
     [RunEffect (Some old), Browser (SockOpen 0), RunEffect (Some new), Browser (SockClose 0),
      Browser (TimerFire 0)]"
  shows "live_socks (ms_world s) = [1, 2] \<and> closure_of (ms_world s) 2 = Some old \<and>
    live_socks (ms_world (ms_step env s Unmount)) = [1]"
  using assms(1,2)
  by (simp add: s_def mountable_def msock_init_def ms_effect_body_def ms_connect_def ms_unwind_def
      ms_cleanup_def ms_onopen_def ms_onclose_def live_socks_def upt_rec)

theorem match_socket_stale_reconnect_witness:
  "live_socks (ms_world (ms_step sample_env (run (ms_step sample_env) msock_init
     [RunEffect (Some ''m1''), Browser (SockOpen 0), RunEffect (Some ''m2''),
      Browser (SockClose 0), Browser (TimerFire 0)]) Unmount)) = [1]"
proof -
  have "mountable sample_env ''m2''"
    by (simp add: mountable_def sample_env_def buildWsUrl_def)
  from match_socket_stale_reconnect [OF sample_mountable this] show ?thesis by blast
qed

text \<open>
  Each time its socket opens the hook refreshes the match and its event list, so what
  was missed while disconnected is fetched; a payload that does not parse or is no match
  update changes nothing at all.
\<close>

theorem match_socket_resync:
  assumes "key_filter qm" and "phase_of (ms_world s) i = Connecting"
    and "closure_of (ms_world s) i = Some pid"
  shows "\<exists>ops. ms_cache (ms_browser env s (SockOpen i)) = ms_cache s @ ops \<and>
    refreshes qm ops (useMatch (Some pid)) \<and> refreshes qm ops (useMatchEvents (Some pid)) \<and>
    ms_state (ms_browser env s (SockOpen i)) = WsOpen \<and>
    (\<forall>j payload. (\<forall>msg. payload = Some msg \<longrightarrow> js_opt_get msg ''type'' \<noteq> Str ''match_update'') \<longrightarrow>
       ms_browser env s (SockMessage j payload) = s)"
  using assms key_filter_prefix [OF assms(1)]
  by (auto simp: ms_onopen_def useMatch_def useMatchEvents_def ms_onmessage_def js_opt_get_def
      split: option.split)

theorem match_socket_resync_witness:
  "ms_state (ms_browser sample_env (mounted sample_env ''m1'') (SockOpen 0)) = WsOpen"
proof -
  have "phase_of (ms_world (mounted sample_env ''m1'')) 0 = Connecting"
    "closure_of (ms_world (mounted sample_env ''m1'')) 0 = Some ''m1''"
    by (simp_all add: mounted_def ms_effect_body_def ms_connect_def ms_unwind_def msock_init_def
        sample_env_def buildWsUrl_def)
  from match_socket_resync [OF key_filter_of_prefix this] show ?thesis by blast
qed

end
