(* ===== verification/Overlay_Socket.thy ===== *)
theory Overlay_Socket
  imports Browser Scoring_Hooks Overlay_Hooks
begin

text \<open>
  \<open>web/src/features/overlay/useOverlayWebSocket.ts\<close>: up to three channels of one court
  (overlay, court and optionally a match) behind one hook. The refs keyed by label are maps
  from \<open>channel\<close>; the closure of a callback holds the effect's court, its specs and the
  channel the callback serves.
\<close>

datatype channel = ChOverlay | ChCourt | ChMatch

definition overlay_BACKOFF_STEPS_MS :: "nat list" where
  "overlay_BACKOFF_STEPS_MS = [1000, 2000, 4000, 8000, 16000, 30000]"

definition overlay_delay :: "nat \<Rightarrow> nat" where
  "overlay_delay n = overlay_BACKOFF_STEPS_MS ! min n (length overlay_BACKOFF_STEPS_MS - 1)"

definition wsBaseUrl :: "page_env \<Rightarrow> string" where
  "wsBaseUrl env =
     (if \<not> has_window env then []
      else
        (let proto = (if protocol env = ''https:'' then ''wss:'' else ''ws:'');
             base = (case vite_ws_url env of None \<Rightarrow> [] | Some u \<Rightarrow> u) in
         if base \<noteq> [] then strip_slash base else proto @ ''//'' @ page_host env))"

record spec =
  sp_label :: channel
  sp_url :: string

definition overlay_specs :: "page_env \<Rightarrow> int \<Rightarrow> string option \<Rightarrow> spec list" where
  "overlay_specs env courtID matchPublicID =
     [\<lparr> sp_label = ChOverlay, sp_url = wsBaseUrl env @ ''/ws/overlay/'' @ show_int courtID \<rparr>,
      \<lparr> sp_label = ChCourt, sp_url = wsBaseUrl env @ ''/ws/court/'' @ show_int courtID \<rparr>] @
     (case matchPublicID of None \<Rightarrow> []
      | Some m \<Rightarrow>
          if m \<noteq> [] then [\<lparr> sp_label = ChMatch, sp_url = wsBaseUrl env @ ''/ws/match/'' @ m \<rparr>]
          else [])"

section \<open>Merging a message into the query cache\<close>

definition data_key :: "int \<Rightarrow> key" where
  "data_key courtID = [Str ''overlay'', Str ''data'', Num courtID]"

definition config_key :: "int \<Rightarrow> key" where
  "config_key courtID = [Str ''overlay'', Str ''config'', Num courtID]"

text \<open>\<open>None\<close> when reading \<open>msg.type\<close> throws.\<close>

definition applyMessage :: "int \<Rightarrow> js \<Rightarrow> cache_op list option" where
  "applyMessage courtID msg =
     (case js_get msg ''type'' of None \<Rightarrow> None
      | Some ty \<Rightarrow>
          (let d = js_opt_get msg ''data'' in
           if ty = Str ''overlay_data'' then
             Some [SetData (data_key courtID @ [Null, Bool False]) d, Invalidate (data_key courtID)]
           else if ty = Str ''config_update'' then
             Some [SetData (config_key courtID) d, Invalidate (data_key courtID)]
           else if ty = Str ''match_update'' then
             (let pid = js_opt_get d ''public_id'' in
              Some ((if truthy pid
                     then [SetData [Str ''matches'', pid] d, Invalidate [Str ''match-events'', pid]]
                     else []) @
                    [Invalidate (data_key courtID)]))
           else Some []))"

section \<open>The hook\<close>

record oclosure =
  oc_court :: int
  oc_specs :: "spec list"
  oc_spec :: spec

record osock =
  os_effect :: bool                        (* an effect with a cleanup is running *)
  os_state :: ws_state
  os_attempt :: nat
  os_last :: "int option"                  (* lastMessageAt *)
  os_states :: "channel \<Rightarrow> ws_state option"
  os_socks :: "channel \<Rightarrow> nat option"
  os_tries :: "channel \<Rightarrow> nat option"
  os_timers :: "channel \<Rightarrow> nat option"
  os_closed :: bool                        (* closedByUnmountRef *)
  os_world :: "oclosure world"
  os_cache :: "cache_op list"
  os_seen :: "js list"                     (* messages handed to onMessage *)

definition osock_init :: osock where
  "osock_init =
     \<lparr> os_effect = False, os_state = WsConnecting, os_attempt = 0, os_last = None,
       os_states = (\<lambda>_. None), os_socks = (\<lambda>_. None), os_tries = (\<lambda>_. None),
       os_timers = (\<lambda>_. None), os_closed = False, os_world = no_world, os_cache = [],
       os_seen = [] \<rparr>"

definition aggregate :: "ws_state list \<Rightarrow> ws_state" where
  "aggregate ss =
     (if list_ex (\<lambda>s. s = WsDisconnected) ss then WsDisconnected
      else if list_ex (\<lambda>s. s = WsConnecting) ss then WsConnecting else WsOpen)"

definition known :: "'a \<Rightarrow> 'a option \<Rightarrow> 'a" where
  "known d v = (case v of None \<Rightarrow> d | Some x \<Rightarrow> x)"

definition computeAggregate :: "spec list \<Rightarrow> osock \<Rightarrow> osock" where
  "computeAggregate specs s =
     s\<lparr> os_state := aggregate (map (\<lambda>sp. known WsConnecting (os_states s (sp_label sp))) specs),
        os_attempt := foldr max (map (\<lambda>sp. known 0 (os_tries s (sp_label sp))) specs) 0 \<rparr>"

definition os_connect :: "oclosure \<Rightarrow> osock \<Rightarrow> osock" where
  "os_connect c s =
     (let l = sp_label (oc_spec c);
          s = computeAggregate (oc_specs c) (s\<lparr> os_states := (os_states s)(l \<mapsto> WsConnecting) \<rparr>) in
      s\<lparr> os_socks := (os_socks s)(l \<mapsto> next_sock (os_world s)),
         os_world := new_socket c (os_world s) \<rparr>)"

definition os_onopen :: "oclosure \<Rightarrow> osock \<Rightarrow> osock" where
  "os_onopen c s =
     (let l = sp_label (oc_spec c);
          s = computeAggregate (oc_specs c)
                (s\<lparr> os_tries := (os_tries s)(l \<mapsto> 0), os_states := (os_states s)(l \<mapsto> WsOpen) \<rparr>) in
      if l = ChOverlay
      then s\<lparr> os_cache := os_cache s @
                [Invalidate (config_key (oc_court c)), Invalidate (data_key (oc_court c))] \<rparr>
      else s)"

definition os_onmessage :: "oclosure \<Rightarrow> js option \<Rightarrow> int \<Rightarrow> osock \<Rightarrow> osock" where
  "os_onmessage c payload now s =
     (case payload of None \<Rightarrow> s
      | Some msg \<Rightarrow>
          (case applyMessage (oc_court c) msg of None \<Rightarrow> s
           | Some ops \<Rightarrow> s\<lparr> os_cache := os_cache s @ ops, os_last := Some now,
                            os_seen := os_seen s @ [msg] \<rparr>))"

definition os_onclose :: "oclosure \<Rightarrow> osock \<Rightarrow> osock" where
  "os_onclose c s =
     (let l = sp_label (oc_spec c); s = s\<lparr> os_socks := (os_socks s)(l := None) \<rparr> in
      if os_closed s then s
      else
        (let s = computeAggregate (oc_specs c)
                   (s\<lparr> os_states := (os_states s)(l \<mapsto> WsDisconnected) \<rparr>);
             current = known 0 (os_tries s l) in
         s\<lparr> os_tries := (os_tries s)(l \<mapsto> current + 1),
            os_timers := (os_timers s)(l \<mapsto> next_timer (os_world s)),
            os_world := set_timeout c (overlay_delay current) (os_world s) \<rparr>))"

definition on_some :: "(nat \<Rightarrow> 'w \<Rightarrow> 'w) \<Rightarrow> nat option \<Rightarrow> 'w \<Rightarrow> 'w" where
  "on_some f v w = (case v of None \<Rightarrow> w | Some n \<Rightarrow> f n w)"

definition os_cleanup :: "osock \<Rightarrow> osock" where
  "os_cleanup s =
     s\<lparr> os_closed := True,
        os_timers := (\<lambda>_. None),
        os_socks := (\<lambda>_. None),
        os_world :=
          fold (\<lambda>l. on_some close_socket (os_socks s l)) [ChOverlay, ChCourt, ChMatch]
            (fold (\<lambda>l. on_some clear_timeout (os_timers s l)) [ChOverlay, ChCourt, ChMatch]
               (os_world s)) \<rparr>"

definition os_effect_body ::
    "page_env \<Rightarrow> bool \<Rightarrow> int option \<Rightarrow> string option \<Rightarrow> osock \<Rightarrow> osock" where
  "os_effect_body env enabled courtID matchPublicID s =
     (case courtID of
        Some c \<Rightarrow>
          if enabled \<and> 0 < c
          then
            (let specs = overlay_specs env c matchPublicID in
             fold (\<lambda>sp. os_connect \<lparr> oc_court = c, oc_specs = specs, oc_spec = sp \<rparr>) specs
               (s\<lparr> os_closed := False, os_effect := True \<rparr>))
          else s\<lparr> os_state := WsDisconnected, os_effect := False \<rparr>
      | None \<Rightarrow> s\<lparr> os_state := WsDisconnected, os_effect := False \<rparr>)"

datatype overlay_browser_event =
    OSockOpen nat
  | OSockMessage nat "js option" int
  | OSockClose nat
  | OTimerFire nat

datatype os_event =
    ORunEffect bool "int option" "string option"
  | OUnmount
  | OBrowser overlay_browser_event

fun os_browser :: "osock \<Rightarrow> overlay_browser_event \<Rightarrow> osock" where
  "os_browser s (OSockOpen i) =
     (case closure_of (os_world s) i of None \<Rightarrow> s
      | Some c \<Rightarrow>
          if phase_of (os_world s) i = Connecting
          then os_onopen c (s\<lparr> os_world := set_phase Opened i (os_world s) \<rparr>) else s)"
| "os_browser s (OSockMessage i payload now) =
     (case closure_of (os_world s) i of None \<Rightarrow> s
      | Some c \<Rightarrow>
          if phase_of (os_world s) i = Opened then os_onmessage c payload now s else s)"
| "os_browser s (OSockClose i) =
     (case closure_of (os_world s) i of None \<Rightarrow> s
      | Some c \<Rightarrow>
          if phase_of (os_world s) i \<noteq> Closed
          then os_onclose c (s\<lparr> os_world := set_phase Closed i (os_world s) \<rparr>) else s)"
| "os_browser s (OTimerFire t) =
     (case timer_closure (os_world s) t of None \<Rightarrow> s
      | Some c \<Rightarrow>
          if pending (os_world s) t
          then os_connect c (s\<lparr> os_world := clear_timeout t (os_world s) \<rparr>) else s)"

definition os_unwind :: "osock \<Rightarrow> osock" where
  "os_unwind s = (if os_effect s then os_cleanup s else s)"

fun os_step :: "page_env \<Rightarrow> osock \<Rightarrow> os_event \<Rightarrow> osock" where
  "os_step env s (ORunEffect enabled courtID matchPublicID) =
     os_effect_body env enabled courtID matchPublicID (os_unwind s)"
| "os_step env s OUnmount = (os_unwind s)\<lparr> os_effect := False \<rparr>"
| "os_step env s (OBrowser e) = os_browser s e"

interpretation overlay_backoff: backoff overlay_BACKOFF_STEPS_MS 1000 30000
  by unfold_locales (simp_all add: overlay_BACKOFF_STEPS_MS_def)

lemma overlay_delay_bounds: "1000 \<le> overlay_delay n \<and> overlay_delay n \<le> 30000"
  unfolding overlay_delay_def by (rule overlay_backoff.delay_bounds)

lemma aggregate_open: "aggregate ss = WsOpen \<longleftrightarrow> (\<forall>s\<in>set ss. s = WsOpen)"
  unfolding aggregate_def list_ex_iff by (auto split: if_splits) (metis ws_state.exhaust)

section \<open>One mount\<close>

text \<open>
  While one effect runs, every channel of its specs has exactly one of a live socket and a
  pending reconnect timer, the ref maps name it, and the reported state is the aggregate of
  the channels' own states.
\<close>

definition mk :: "int \<Rightarrow> spec list \<Rightarrow> spec \<Rightarrow> oclosure" where
  "mk c specs sp = \<lparr> oc_court = c, oc_specs = specs, oc_spec = sp \<rparr>"

lemma mk_sel [simp]: "oc_court (mk c specs sp) = c" "oc_specs (mk c specs sp) = specs"
  "oc_spec (mk c specs sp) = sp"
  by (simp_all add: mk_def)

definition chan_socket :: "osock \<Rightarrow> channel \<Rightarrow> oclosure \<Rightarrow> nat \<Rightarrow> bool" where
  "chan_socket s l c i \<longleftrightarrow>
     os_socks s l = Some i \<and> phase_of (os_world s) i \<in> {Connecting, Opened} \<and>
     closure_of (os_world s) i = Some c \<and>
     os_states s l = Some (if phase_of (os_world s) i = Opened then WsOpen else WsConnecting)"

definition chan_timer :: "osock \<Rightarrow> channel \<Rightarrow> oclosure \<Rightarrow> nat \<Rightarrow> bool" where
  "chan_timer s l c t \<longleftrightarrow>
     os_socks s l = None \<and> os_timers s l = Some t \<and> pending (os_world s) t \<and>
     timer_closure (os_world s) t = Some c \<and> os_states s l = Some WsDisconnected"

definition os_inv :: "int \<Rightarrow> spec list \<Rightarrow> osock \<Rightarrow> bool" where
  "os_inv c specs s \<longleftrightarrow>
     \<not> os_closed s \<and>
     (\<forall>sp\<in>set specs. (\<exists>i. chan_socket s (sp_label sp) (mk c specs sp) i) \<or>
                     (\<exists>t. chan_timer s (sp_label sp) (mk c specs sp) t)) \<and>
     (\<forall>i. phase_of (os_world s) i \<noteq> Closed \<longrightarrow>
        (\<exists>sp\<in>set specs. chan_socket s (sp_label sp) (mk c specs sp) i)) \<and>
     (\<forall>t. pending (os_world s) t \<longrightarrow>
        (\<exists>sp\<in>set specs. chan_timer s (sp_label sp) (mk c specs sp) t)) \<and>
     os_state s = aggregate (map (\<lambda>sp. known WsConnecting (os_states s (sp_label sp))) specs)"

lemma computeAggregate_frame [simp]:
  "os_states (computeAggregate specs s) = os_states s"
  "os_socks (computeAggregate specs s) = os_socks s"
  "os_tries (computeAggregate specs s) = os_tries s"
  "os_timers (computeAggregate specs s) = os_timers s"
  "os_closed (computeAggregate specs s) = os_closed s"
  "os_world (computeAggregate specs s) = os_world s"
  "os_cache (computeAggregate specs s) = os_cache s"
  "os_effect (computeAggregate specs s) = os_effect s"
  by (simp_all add: computeAggregate_def)

lemma computeAggregate_state [simp]:
  "os_state (computeAggregate specs s) =
     aggregate (map (\<lambda>sp. known WsConnecting (os_states s (sp_label sp))) specs)"
  by (simp add: computeAggregate_def)

lemma os_onmessage_frame [simp]:
  "os_states (os_onmessage c payload now s) = os_states s"
  "os_socks (os_onmessage c payload now s) = os_socks s"
  "os_timers (os_onmessage c payload now s) = os_timers s"
  "os_closed (os_onmessage c payload now s) = os_closed s"
  "os_world (os_onmessage c payload now s) = os_world s"
  "os_state (os_onmessage c payload now s) = os_state s"
  by (simp_all add: os_onmessage_def split: option.splits)

lemma os_inv_onmessage [simp]: "os_inv c specs (os_onmessage cl payload now s) = os_inv c specs s"
  by (simp add: os_inv_def chan_socket_def chan_timer_def)

lemma label_inj: "distinct (map sp_label specs) \<Longrightarrow> sp \<in> set specs \<Longrightarrow> sp' \<in> set specs \<Longrightarrow>
    sp_label sp = sp_label sp' \<Longrightarrow> sp = sp'"
  by (auto simp: distinct_map inj_on_def)

lemma chan_owner:
  assumes "os_inv c specs s" and "sp \<in> set specs"
  shows "os_socks s (sp_label sp) = Some j \<Longrightarrow> closure_of (os_world s) j = Some (mk c specs sp)"
    and "os_socks s (sp_label sp) = None \<Longrightarrow> os_timers s (sp_label sp) = Some u \<Longrightarrow>
      timer_closure (os_world s) u = Some (mk c specs sp)"
proof -
  have "(\<exists>i. chan_socket s (sp_label sp) (mk c specs sp) i) \<or>
      (\<exists>t. chan_timer s (sp_label sp) (mk c specs sp) t)"
    using assms unfolding os_inv_def by blast
  then show "os_socks s (sp_label sp) = Some j \<Longrightarrow> closure_of (os_world s) j = Some (mk c specs sp)"
    and "os_socks s (sp_label sp) = None \<Longrightarrow> os_timers s (sp_label sp) = Some u \<Longrightarrow>
      timer_closure (os_world s) u = Some (mk c specs sp)"
    by (auto simp: chan_socket_def chan_timer_def)
qed

text \<open>A change of one channel's entries leaves the other channels' entries as they are.\<close>

lemma os_inv_change:
  fixes s s' :: osock and sp :: spec
  defines "l \<equiv> sp_label sp"
  assumes inv: "os_inv c specs s" and dist: "distinct (map sp_label specs)"
    and sp: "sp \<in> set specs" and cl: "\<not> os_closed s'"
    and new: "(\<exists>i. chan_socket s' l (mk c specs sp) i) \<or> (\<exists>t. chan_timer s' l (mk c specs sp) t)"
    and st: "os_state s' =
      aggregate (map (\<lambda>sp. known WsConnecting (os_states s' (sp_label sp))) specs)"
    and other: "\<And>k. k \<noteq> l \<Longrightarrow>
      os_socks s' k = os_socks s k \<and> os_timers s' k = os_timers s k \<and> os_states s' k = os_states s k"
    and socks: "\<And>i. phase_of (os_world s') i \<noteq> Closed \<Longrightarrow> os_socks s' l \<noteq> Some i \<Longrightarrow>
      phase_of (os_world s) i \<noteq> Closed \<and> os_socks s l \<noteq> Some i"
    and same_socks: "\<And>i. phase_of (os_world s) i \<noteq> Closed \<Longrightarrow> os_socks s l \<noteq> Some i \<Longrightarrow>
      phase_of (os_world s') i = phase_of (os_world s) i \<and>
      closure_of (os_world s') i = closure_of (os_world s) i"
    and timers: "\<And>t. pending (os_world s') t \<Longrightarrow> \<not> (os_socks s' l = None \<and> os_timers s' l = Some t) \<Longrightarrow>
      pending (os_world s) t \<and> \<not> (os_socks s l = None \<and> os_timers s l = Some t)"
    and same_timers: "\<And>t. pending (os_world s) t \<Longrightarrow>
      \<not> (os_socks s l = None \<and> os_timers s l = Some t) \<Longrightarrow>
      pending (os_world s') t \<and> timer_closure (os_world s') t = timer_closure (os_world s) t"
  shows "os_inv c specs s'"
proof -
  have dec: "sp_label q \<noteq> l" if "q \<in> set specs" "q \<noteq> sp" for q
    using label_inj [OF dist] sp that unfolding l_def by blast
  have keep_sock: "chan_socket s' (sp_label q) (mk c specs q) i"
    if q: "sp_label q \<noteq> l" "chan_socket s (sp_label q) (mk c specs q) i" for q i
  proof -
    have "mk c specs q \<noteq> mk c specs sp" using q(1) by (auto simp: mk_def l_def)
    then have "os_socks s l \<noteq> Some i"
      using q(2) chan_owner(1) [OF inv sp, of i] by (auto simp: chan_socket_def l_def)
    moreover have "phase_of (os_world s) i \<noteq> Closed" using q(2) by (auto simp: chan_socket_def)
    ultimately show ?thesis
      using same_socks [of i] other [OF q(1)] q(2) by (auto simp: chan_socket_def)
  qed
  have keep_timer: "chan_timer s' (sp_label q) (mk c specs q) t"
    if q: "sp_label q \<noteq> l" "chan_timer s (sp_label q) (mk c specs q) t" for q t
  proof -
    have "mk c specs q \<noteq> mk c specs sp" using q(1) by (auto simp: mk_def l_def)
    then have "\<not> (os_socks s l = None \<and> os_timers s l = Some t)"
      using q(2) chan_owner(2) [OF inv sp, of t] by (auto simp: chan_timer_def l_def)
    moreover have "pending (os_world s) t" using q(2) by (auto simp: chan_timer_def)
    ultimately show ?thesis
      using same_timers [of t] other [OF q(1)] q(2) by (auto simp: chan_timer_def)
  qed
  have each: "(\<exists>i. chan_socket s' (sp_label q) (mk c specs q) i) \<or>
      (\<exists>t. chan_timer s' (sp_label q) (mk c specs q) t)" if "q \<in> set specs" for q
  proof (cases "q = sp")
    case True
    then show ?thesis using new by (simp add: l_def)
  next
    case False
    then have "sp_label q \<noteq> l" using dec that by blast
    moreover have "(\<exists>i. chan_socket s (sp_label q) (mk c specs q) i) \<or>
        (\<exists>t. chan_timer s (sp_label q) (mk c specs q) t)"
      using inv that unfolding os_inv_def by blast
    ultimately show ?thesis using keep_sock keep_timer by blast
  qed
  have active_sock: "\<exists>q\<in>set specs. chan_socket s' (sp_label q) (mk c specs q) i"
    if "phase_of (os_world s') i \<noteq> Closed" for i
  proof (cases "os_socks s' l = Some i")
    case True
    then have "chan_socket s' l (mk c specs sp) i"
      using new by (auto simp: chan_socket_def chan_timer_def)
    then show ?thesis using sp by (auto simp: l_def)
  next
    case False
    then have old: "phase_of (os_world s) i \<noteq> Closed" "os_socks s l \<noteq> Some i"
      using socks that by blast+
    then obtain q where q: "q \<in> set specs" "chan_socket s (sp_label q) (mk c specs q) i"
      using inv unfolding os_inv_def by blast
    then have "sp_label q \<noteq> l" using old(2) by (auto simp: chan_socket_def)
    then show ?thesis using keep_sock q by blast
  qed
  have active_timer: "\<exists>q\<in>set specs. chan_timer s' (sp_label q) (mk c specs q) t"
    if "pending (os_world s') t" for t
  proof (cases "os_socks s' l = None \<and> os_timers s' l = Some t")
    case True
    then have "chan_timer s' l (mk c specs sp) t"
      using new by (auto simp: chan_socket_def chan_timer_def)
    then show ?thesis using sp by (auto simp: l_def)
  next
    case False
    then have old: "pending (os_world s) t" "\<not> (os_socks s l = None \<and> os_timers s l = Some t)"
      using timers that by blast+
    then obtain q where q: "q \<in> set specs" "chan_timer s (sp_label q) (mk c specs q) t"
      using inv unfolding os_inv_def by blast
    then have "sp_label q \<noteq> l" using old(2) by (auto simp: chan_timer_def)
    then show ?thesis using keep_timer q by blast
  qed
  show ?thesis unfolding os_inv_def using cl each active_sock active_timer st by blast
qed

lemma os_inv_active:
  assumes "os_inv c specs s" and "phase_of (os_world s) i \<noteq> Closed"
  obtains sp where "sp \<in> set specs" "chan_socket s (sp_label sp) (mk c specs sp) i"
  using assms unfolding os_inv_def by blast

lemma os_inv_pending:
  assumes "os_inv c specs s" and "pending (os_world s) t"
  obtains sp where "sp \<in> set specs" "chan_timer s (sp_label sp) (mk c specs sp) t"
  using assms unfolding os_inv_def by blast

lemma os_inv_browser:
  assumes inv: "os_inv c specs s" and dist: "distinct (map sp_label specs)"
  shows "os_inv c specs (os_browser s e)"
proof (cases e)
  case (OSockOpen i)
  show ?thesis
  proof (cases "phase_of (os_world s) i = Connecting")
    case True
    then obtain sp where sp: "sp \<in> set specs" "chan_socket s (sp_label sp) (mk c specs sp) i"
      using os_inv_active [OF inv, of i] by auto
    have "i < next_sock (os_world s)" using True open_in_range [of "os_world s" i] by simp
    then show ?thesis
      using inv sp True OSockOpen
      by (intro os_inv_change [OF inv dist sp(1)])
        (auto simp: os_inv_def chan_socket_def os_onopen_def Let_def split: if_splits)
  qed (use inv OSockOpen in \<open>simp split: option.split\<close>)
next
  case (OSockMessage i payload)
  then show ?thesis using inv by (simp split: option.split)
next
  case (OSockClose i)
  show ?thesis
  proof (cases "phase_of (os_world s) i = Closed")
    case False
    then obtain sp where sp: "sp \<in> set specs" "chan_socket s (sp_label sp) (mk c specs sp) i"
      using os_inv_active [OF inv, of i] by auto
    have "i < next_sock (os_world s)" using False open_in_range by blast
    then show ?thesis
      using inv sp False OSockClose
      by (intro os_inv_change [OF inv dist sp(1)])
        (auto simp: os_inv_def chan_socket_def chan_timer_def os_onclose_def Let_def split: if_splits)
  qed (use inv OSockClose in \<open>simp split: option.split\<close>)
next
  case (OTimerFire t)
  show ?thesis
  proof (cases "pending (os_world s) t")
    case True
    then obtain sp where sp: "sp \<in> set specs" "chan_timer s (sp_label sp) (mk c specs sp) t"
      using os_inv_pending [OF inv, of t] by auto
    then show ?thesis
      using inv True OTimerFire
      by (intro os_inv_change [OF inv dist sp(1)])
        (auto simp: os_inv_def chan_socket_def chan_timer_def os_connect_def Let_def split: if_splits)
  qed (use inv OTimerFire in \<open>simp split: option.split\<close>)
qed

lemma specs_distinct: "distinct (map sp_label (overlay_specs env c m))"
  by (simp add: overlay_specs_def split: option.split)

definition os_quiet :: "osock \<Rightarrow> bool" where
  "os_quiet s \<longleftrightarrow>
     (\<forall>i. phase_of (os_world s) i = Closed) \<and> (\<forall>t. \<not> pending (os_world s) t)"

text \<open>The channels connected so far, while the effect goes through its specs.\<close>

definition os_part :: "int \<Rightarrow> spec list \<Rightarrow> spec set \<Rightarrow> osock \<Rightarrow> bool" where
  "os_part c specs dn s \<longleftrightarrow>
     \<not> os_closed s \<and> (\<forall>t. \<not> pending (os_world s) t) \<and>
     (\<forall>sp\<in>dn. \<exists>i. chan_socket s (sp_label sp) (mk c specs sp) i) \<and>
     (\<forall>i. phase_of (os_world s) i \<noteq> Closed \<longrightarrow>
        (\<exists>sp\<in>dn. chan_socket s (sp_label sp) (mk c specs sp) i)) \<and>
     (dn \<noteq> {} \<longrightarrow>
        os_state s = aggregate (map (\<lambda>sp. known WsConnecting (os_states s (sp_label sp))) specs))"

lemma chan_socket_connect_other:
  assumes "chan_socket s l c i" and "l \<noteq> sp_label (oc_spec c')"
  shows "chan_socket (os_connect c' s) l c i"
  using assms by (auto simp: chan_socket_def os_connect_def Let_def)

lemma chan_socket_connect_same:
  "chan_socket (os_connect c s) (sp_label (oc_spec c)) c (next_sock (os_world s))"
  by (simp add: chan_socket_def os_connect_def Let_def)

lemma os_part_connect:
  assumes part: "os_part c specs dn s" and new: "sp_label sp \<notin> sp_label ` dn"
  shows "os_part c specs (insert sp dn) (os_connect (mk c specs sp) s)"
proof -
  let ?s = "os_connect (mk c specs sp) s"
  have old: "chan_socket ?s (sp_label q) (mk c specs q) i"
    if "q \<in> dn" "chan_socket s (sp_label q) (mk c specs q) i" for q i
    using that new by (intro chan_socket_connect_other) (metis image_eqI mk_sel(3))+
  have this_one: "chan_socket ?s (sp_label sp) (mk c specs sp) (next_sock (os_world s))"
    using chan_socket_connect_same [of "mk c specs sp" s] by simp
  have "\<exists>q\<in>insert sp dn. chan_socket ?s (sp_label q) (mk c specs q) i"
    if "phase_of (os_world ?s) i \<noteq> Closed" for i
  proof (cases "i = next_sock (os_world s)")
    case False
    then have "phase_of (os_world s) i \<noteq> Closed" using that by (simp add: os_connect_def Let_def)
    then show ?thesis using part old unfolding os_part_def by blast
  qed (use this_one in blast)
  moreover have "\<exists>i. chan_socket ?s (sp_label q) (mk c specs q) i" if "q \<in> insert sp dn" for q
    using that part old this_one unfolding os_part_def by blast
  ultimately show ?thesis using part
    by (simp add: os_part_def) (simp add: os_connect_def Let_def)
qed

lemma os_part_fold:
  assumes "os_part c specs dn s" and "distinct (map sp_label ps)"
    and "sp_label ` dn \<inter> sp_label ` set ps = {}"
  shows "os_part c specs (dn \<union> set ps) (fold (\<lambda>sp. os_connect (mk c specs sp)) ps s)"
  using assms
proof (induction ps arbitrary: s "dn")
  case (Cons p ps)
  have "os_part c specs (insert p dn) (os_connect (mk c specs p) s)"
    using Cons.prems by (intro os_part_connect) auto
  then have "os_part c specs (insert p dn \<union> set ps)
      (fold (\<lambda>sp. os_connect (mk c specs sp)) ps (os_connect (mk c specs p) s))"
    using Cons.prems by (intro Cons.IH) auto
  then show ?case by simp
qed simp

lemma os_inv_effect:
  assumes "os_quiet (os_unwind s)" and "0 < c"
  shows "os_inv c (overlay_specs env c m) (os_step env s (ORunEffect True (Some c) m))"
proof -
  let ?specs = "overlay_specs env c m"
  have "os_part c ?specs ({} \<union> set ?specs)
      (fold (\<lambda>sp. os_connect (mk c ?specs sp)) ?specs
        ((os_unwind s)\<lparr> os_closed := False, os_effect := True \<rparr>))"
    using assms(1) specs_distinct by (intro os_part_fold) (auto simp: os_part_def os_quiet_def)
  moreover have "set ?specs \<noteq> {}" by (simp add: overlay_specs_def)
  ultimately show ?thesis using assms(2)
    by (simp add: os_part_def os_inv_def os_effect_body_def Let_def mk_def)
qed

definition os_mounted :: "page_env \<Rightarrow> int \<Rightarrow> string option \<Rightarrow> osock" where
  "os_mounted env c m = os_step env osock_init (ORunEffect True (Some c) m)"

lemma os_mounted_inv_effect: "0 < c \<Longrightarrow> os_inv c (overlay_specs env c m) (os_mounted env c m)"
  unfolding os_mounted_def
  by (rule os_inv_effect) (simp_all add: os_quiet_def os_unwind_def osock_init_def)

interpretation overlay_mount:
  event_machine os_browser "\<lambda>s. 0 < c \<and> s = os_mounted env c m" "os_inv c (overlay_specs env c m)"
  by unfold_locales (auto intro: os_mounted_inv_effect os_inv_browser specs_distinct)

lemma os_mounted_inv:
  "0 < c \<Longrightarrow> os_inv c (overlay_specs env c m) (run os_browser (os_mounted env c m) es)"
  by (rule overlay_mount.reachable_inv) simp

text \<open>The sockets and timers that serve one channel.\<close>

definition serves :: "oclosure option \<Rightarrow> channel \<Rightarrow> bool" where
  "serves c l = (case c of None \<Rightarrow> False | Some c \<Rightarrow> sp_label (oc_spec c) = l)"

definition channel_resources :: "osock \<Rightarrow> channel \<Rightarrow> nat" where
  "channel_resources s l =
     length (filter (\<lambda>i. serves (closure_of (os_world s) i) l) (live_socks (os_world s))) +
     length (filter (\<lambda>t. serves (timer_closure (os_world s) t) l) (live_timers (os_world s)))"

lemma filter_one:
  assumes "\<And>i. P i \<longleftrightarrow> i = k" and "k < n"
  shows "filter P [0..<n] = [k]"
proof -
  have "P = (\<lambda>i. i = k)" using assms(1) by blast
  then show ?thesis using assms(2) by (simp add: filter_upt_eq)
qed

lemma os_inv_channel:
  assumes inv: "os_inv c specs s" and dist: "distinct (map sp_label specs)"
    and sp: "sp \<in> set specs"
  shows "channel_resources s (sp_label sp) = 1"
proof -
  let ?w = "os_world s" and ?l = "sp_label sp"
  have here: "(\<exists>i. chan_socket s ?l (mk c specs sp) i) \<or> (\<exists>t. chan_timer s ?l (mk c specs sp) t)"
    using inv sp unfolding os_inv_def by blast
  have sock: "phase_of ?w i \<in> {Connecting, Opened} \<and> serves (closure_of ?w i) ?l \<longleftrightarrow>
      os_socks s ?l = Some i" for i
  proof
    assume "phase_of ?w i \<in> {Connecting, Opened} \<and> serves (closure_of ?w i) ?l"
    moreover from this obtain q where "chan_socket s (sp_label q) (mk c specs q) i"
      using os_inv_active [OF inv, of i] by (metis insertE phase.distinct(5) phase.distinct(9) singletonD)
    ultimately show "os_socks s ?l = Some i" by (auto simp: chan_socket_def serves_def)
  qed (use here in \<open>auto simp: chan_socket_def chan_timer_def serves_def\<close>)
  have timer: "pending ?w t \<and> serves (timer_closure ?w t) ?l \<longleftrightarrow>
      os_socks s ?l = None \<and> os_timers s ?l = Some t" for t
  proof
    assume "pending ?w t \<and> serves (timer_closure ?w t) ?l"
    moreover from this obtain q where "chan_timer s (sp_label q) (mk c specs q) t"
      using os_inv_pending [OF inv, of t] by metis
    ultimately show "os_socks s ?l = None \<and> os_timers s ?l = Some t"
      by (auto simp: chan_timer_def serves_def)
  qed (use here in \<open>auto simp: chan_socket_def chan_timer_def serves_def\<close>)
  have count: "channel_resources s ?l =
      length (filter (\<lambda>i. os_socks s ?l = Some i) [0..<next_sock ?w]) +
      length (filter (\<lambda>t. os_socks s ?l = None \<and> os_timers s ?l = Some t) [0..<next_timer ?w])"
    by (simp only: channel_resources_def live_socks_def live_timers_def filter_filter sock timer)
  show ?thesis
  proof (cases "os_socks s ?l")
    case (Some i)
    have "i < next_sock ?w"
      using here Some open_in_range [of ?w i] by (auto simp: chan_socket_def chan_timer_def)
    then have "filter (\<lambda>j. i = j) [0..<next_sock ?w] = [i]" by (intro filter_one) auto
    then show ?thesis using Some by (simp add: count)
  next
    case None
    then obtain t where t: "os_timers s ?l = Some t" "t < next_timer ?w"
      using here by (auto simp: chan_socket_def chan_timer_def pending_def)
    then have "filter (\<lambda>u. t = u) [0..<next_timer ?w] = [t]" by (intro filter_one) auto
    then show ?thesis using None t(1) by (simp add: count)
  qed
qed

section \<open>After the unmount\<close>

definition os_gone :: "nat \<Rightarrow> osock \<Rightarrow> bool" where
  "os_gone n s \<longleftrightarrow>
     os_closed s \<and> next_sock (os_world s) = n \<and>
     (\<forall>i. phase_of (os_world s) i \<notin> {Connecting, Opened}) \<and> (\<forall>t. \<not> pending (os_world s) t)"

lemma on_some_simps [simp]:
  "next_sock (on_some close_socket v w) = next_sock w"
  "next_sock (on_some clear_timeout v w) = next_sock w"
  "phase_of (on_some clear_timeout v w) i = phase_of w i"
  "phase_of (on_some close_socket v w) i =
     (if v = Some i \<and> phase_of w i \<noteq> Closed then Closing else phase_of w i)"
  "pending (on_some close_socket v w) t = pending w t"
  "pending (on_some clear_timeout v w) t = (v \<noteq> Some t \<and> pending w t)"
  by (auto simp: on_some_def split: option.splits)

lemma channel_cases: "(\<exists>l. P l) \<longleftrightarrow> P ChOverlay \<or> P ChCourt \<or> P ChMatch"
  by (metis channel.exhaust)

lemma phase_kept: "phase_of w i = Closed \<or> P \<Longrightarrow> phase_of w i = Connecting \<Longrightarrow> P"
  "phase_of w i = Closed \<or> P \<Longrightarrow> phase_of w i = Opened \<Longrightarrow> P"
  by simp_all

lemma os_gone_unmount:
  assumes inv: "os_inv c specs s" and "os_effect s"
  shows "os_gone (next_sock (os_world s)) (os_step env s OUnmount)"
proof -
  have "phase_of (os_world s) i = Closed \<or> (\<exists>l. os_socks s l = Some i)" for i
    using os_inv_active [OF inv, of i] by (auto simp: chan_socket_def)
  then have socks: "phase_of (os_world s) i = Closed \<or> os_socks s ChOverlay = Some i \<or>
      os_socks s ChCourt = Some i \<or> os_socks s ChMatch = Some i" for i
    by (simp only: channel_cases)
  have "\<not> pending (os_world s) t \<or> (\<exists>l. os_timers s l = Some t)" for t
    using os_inv_pending [OF inv, of t] by (auto simp: chan_timer_def)
  then have timers: "\<not> pending (os_world s) t \<or> os_timers s ChOverlay = Some t \<or>
      os_timers s ChCourt = Some t \<or> os_timers s ChMatch = Some t" for t
    by (simp only: channel_cases)
  show ?thesis using assms(2) timers
    by (auto simp: os_gone_def os_unwind_def os_cleanup_def split: if_splits dest: phase_kept [OF socks])
qed

lemma os_gone_browser: "os_gone n s \<Longrightarrow> os_gone n (os_browser s e)"
  by (cases e) (auto simp: os_gone_def os_onclose_def Let_def split: option.split)

interpretation overlay_gone: event_machine os_browser "os_gone n" "os_gone n"
  by unfold_locales (auto intro: os_gone_browser)

lemma os_effect_browser [simp]: "os_effect (os_browser s e) = os_effect s"
  by (cases e) (simp_all add: os_onopen_def os_onmessage_def os_onclose_def os_connect_def
      computeAggregate_def Let_def split: option.split)

lemma os_effect_run: "os_effect (run os_browser s es) = os_effect s"
  by (rule overlay_gone.run_frame) simp

lemma os_effect_connects:
  "os_effect (fold (\<lambda>sp. os_connect (f sp)) ps s) = os_effect s"
  by (induction ps arbitrary: s) (simp_all add: os_connect_def Let_def)

lemma os_mounted_effect: "0 < c \<Longrightarrow> os_effect (os_mounted env c m)"
  by (simp add: os_mounted_def os_effect_body_def Let_def os_effect_connects)

section \<open>Properties\<close>

definition sample_page :: page_env where
  "sample_page = \<lparr> has_window = True, protocol = ''http:'', page_host = ''cc.test'', vite_ws_url = None \<rparr>"

text \<open>
  C5. While one effect of \<open>useOverlayWebSocket\<close> runs, every channel it subscribes to has
  exactly one of a live socket and a pending reconnect timer, and the hook reports \<open>open\<close>
  exactly when all its channels are open.
\<close>

theorem overlay_socket_channels:
  fixes es env m
  assumes "0 < c"
  defines "s \<equiv> run os_browser (os_mounted env c m) es"
  shows "(\<forall>sp\<in>set (overlay_specs env c m). channel_resources s (sp_label sp) = 1) \<and>
    (os_state s = WsOpen \<longleftrightarrow>
       (\<forall>sp\<in>set (overlay_specs env c m). \<exists>i. os_socks s (sp_label sp) = Some i \<and>
          phase_of (os_world s) i = Opened))"
proof -
  have inv: "os_inv c (overlay_specs env c m) s" unfolding s_def by (rule os_mounted_inv [OF assms(1)])
  have "known WsConnecting (os_states s (sp_label sp)) = WsOpen \<longleftrightarrow>
      (\<exists>i. os_socks s (sp_label sp) = Some i \<and> phase_of (os_world s) i = Opened)"
    if "sp \<in> set (overlay_specs env c m)" for sp
    using inv that by (auto simp: os_inv_def chan_socket_def chan_timer_def known_def)
  then show ?thesis
    using inv os_inv_channel [OF inv specs_distinct] aggregate_open
    by (auto simp: os_inv_def)
qed

theorem overlay_socket_channels_witness:
  "channel_resources (run os_browser (os_mounted sample_page 7 (Some ''m1''))
     [OSockOpen 0, OSockClose 2]) ChMatch = 1"
  using overlay_socket_channels [of 7 sample_page "Some ''m1''" "[OSockOpen 0, OSockClose 2]"]
  by (simp add: overlay_specs_def)

text \<open>
  After the unmount of the overlay no socket of any channel is left connecting or open,
  no reconnect timer runs, and no later callback creates a socket.
\<close>

theorem overlay_socket_unmount:
  fixes es es' env m
  assumes "0 < c"
  defines "s \<equiv> run os_browser (os_mounted env c m) es"
  defines "w \<equiv> os_world (run os_browser (os_step env s OUnmount) es')"
  shows "live_socks w = [] \<and> live_timers w = [] \<and> next_sock w = next_sock (os_world s)"
proof -
  have "os_gone (next_sock (os_world s)) (os_step env s OUnmount)"
    unfolding s_def
    by (rule os_gone_unmount [OF os_mounted_inv [OF assms(1)]])
      (simp only: os_effect_run os_mounted_effect [OF assms(1)])
  then have "os_gone (next_sock (os_world s)) (run os_browser (os_step env s OUnmount) es')"
    by (rule overlay_gone.run_inv)
  then show ?thesis by (simp add: w_def os_gone_def live_socks_Nil live_timers_Nil)
qed

theorem overlay_socket_unmount_witness:
  "live_socks (os_world (run os_browser
     (os_step sample_page (run os_browser (os_mounted sample_page 7 None) [OSockClose 1]) OUnmount)
     [OTimerFire 0])) = []"
  using overlay_socket_unmount [of 7 sample_page None "[OSockClose 1]" "[OTimerFire 0]"] by simp



text \<open>
  When the followed match changes while the sockets are open, the old match's channel
  comes back: its late close event finds the unmount flag cleared, forgets the new match's
  socket and reconnects to the old match, and the final unmount leaves the new match's
  socket open.
\<close>

theorem overlay_socket_stale_reconnect:
  fixes env
  assumes "0 < c" and "old \<noteq> []" and "new \<noteq> []"
  defines "s \<equiv> run (os_step env) osock_init
     [ORunEffect True (Some c) (Some old), OBrowser (OSockOpen 2),
      ORunEffect True (Some c) (Some new), OBrowser (OSockClose 2), OBrowser (OTimerFire 0)]"
  shows "map_option (sp_url \<circ> oc_spec) (closure_of (os_world s) 6) =
      Some (wsBaseUrl env @ ''/ws/match/'' @ old) \<and>
    live_socks (os_world s) = [3, 4, 5, 6] \<and>
    live_socks (os_world (os_step env s OUnmount)) = [5]"
  using assms(1-3)
  by (simp add: s_def osock_init_def os_effect_body_def overlay_specs_def os_connect_def
      os_unwind_def os_cleanup_def on_some_def os_onopen_def os_onclose_def computeAggregate_def
      Let_def live_socks_def upt_rec)

theorem overlay_socket_stale_reconnect_witness:
  "live_socks (os_world (os_step sample_page (run (os_step sample_page) osock_init
     [ORunEffect True (Some 7) (Some ''m1''), OBrowser (OSockOpen 2),
      ORunEffect True (Some 7) (Some ''m2''), OBrowser (OSockClose 2), OBrowser (OTimerFire 0)])
     OUnmount)) = [5]"
  using overlay_socket_stale_reconnect [of 7 "''m1''" "''m2''" sample_page] by simp

end
