(* ===== verification/JS_Number.thy ===== *)
theory JS_Number
  imports CC_Prelude
begin

text \<open>
  JavaScript numbers where the program computes with fractions or tests for finiteness:
  exact rationals and the three special values. Rounding to binary floating point is not
  modelled.
\<close>

datatype number = NaN | PosInf | NegInf | Fin rat

fun is_finite :: "number \<Rightarrow> bool" where
  "is_finite (Fin q) = True"
| "is_finite _ = False"

text \<open>The comparison \<open>a < b\<close>; every comparison with \<open>NaN\<close> is false.\<close>

fun num_less :: "number \<Rightarrow> number \<Rightarrow> bool" where
  "num_less (Fin a) (Fin b) = (a < b)"
| "num_less NegInf (Fin b) = True"
| "num_less NegInf PosInf = True"
| "num_less (Fin a) PosInf = True"
| "num_less _ _ = False"

text \<open>\<open>Math.min\<close> and \<open>Math.max\<close> of two numbers.\<close>

definition num_min :: "number \<Rightarrow> number \<Rightarrow> number" where
  "num_min a b = (if a = NaN \<or> b = NaN then NaN else if num_less b a then b else a)"

definition num_max :: "number \<Rightarrow> number \<Rightarrow> number" where
  "num_max a b = (if a = NaN \<or> b = NaN then NaN else if num_less a b then b else a)"

fun num_floor :: "number \<Rightarrow> number" where
  "num_floor (Fin q) = Fin (of_int \<lfloor>q\<rfloor>)"
| "num_floor v = v"

end
