(* ===== verification/Slide_Rotation.thy ===== *)
theory Slide_Rotation
  imports JS_Number
begin

text \<open>
  \<open>web/src/features/overlay/tv/useSlideRotation.ts\<close>: the rotation of the kiosk's slides. A
  step is one state change followed by the effects React runs after it: the index is made
  valid for a new count, then the timer is set anew when index, count, interval or pause
  changed. The helpers handed to the caller are memoized on index and count only, so
  \<open>reset\<close> runs with the pause flag and the interval of the render that made it.
\<close>

definition clampIndex :: "number \<Rightarrow> int \<Rightarrow> int" where
  "clampIndex v count =
     (if count = 0 then 0
      else
        (case num_floor v of
           Fin q \<Rightarrow>
             (let n = \<lfloor>q\<rfloor> in if n < 0 then 0 else if count \<le> n then count - 1 else n)
         | _ \<Rightarrow> 0))"

text \<open>A pending timeout has the delay and the count of the render that set it.\<close>

record rotation =
  sl_index :: int
  sl_count :: int
  sl_interval :: int
  sl_paused :: bool
  sl_timer :: "(int \<times> int) option"
  sl_api :: "int \<times> int \<times> bool"       (* count, interval, paused in the memoized helpers *)

definition safeCount :: "int \<Rightarrow> int" where
  "safeCount count = max 0 count"

definition safeInterval :: "int \<Rightarrow> int" where
  "safeInterval ms = max 1000 ms"

definition scheduleNext :: "int \<times> int \<times> bool \<Rightarrow> (int \<times> int) option" where
  "scheduleNext closure =
     (case closure of (count, interval, paused) \<Rightarrow>
        if paused \<or> count \<le> 1 then None else Some (interval, count))"

definition keep_valid :: "int \<Rightarrow> int \<Rightarrow> int" where
  "keep_valid count prev =
     (if count = 0 then 0 else if count \<le> prev then 0 else if prev < 0 then 0 else prev)"

text \<open>The effects after a render in which the given fields changed.\<close>

definition settle :: "rotation \<Rightarrow> rotation \<Rightarrow> rotation" where
  "settle old new =
     (let i = (if sl_count new \<noteq> sl_count old then keep_valid (sl_count new) (sl_index new)
               else sl_index new);
          new = new\<lparr> sl_index := i \<rparr>;
          now = (sl_count new, sl_interval new, sl_paused new);
          api = (if i \<noteq> sl_index old \<or> sl_count new \<noteq> sl_count old then now else sl_api old);
          timer = (if i \<noteq> sl_index old \<or> sl_count new \<noteq> sl_count old \<or>
                      sl_interval new \<noteq> sl_interval old \<or> sl_paused new \<noteq> sl_paused old
                   then scheduleNext now else sl_timer new) in
      new\<lparr> sl_timer := timer, sl_api := api \<rparr>)"

definition useSlideRotation :: "int \<Rightarrow> int \<Rightarrow> bool \<Rightarrow> number \<Rightarrow> rotation" where
  "useSlideRotation count intervalMs paused startIndex =
     (let c = safeCount count; iv = safeInterval intervalMs in
      \<lparr> sl_index = keep_valid c (clampIndex startIndex c), sl_count = c, sl_interval = iv,
        sl_paused = paused, sl_timer = scheduleNext (c, iv, paused),
        sl_api = (c, iv, paused) \<rparr>)"

datatype slide_event =
    Rerender int int bool
  | Next
  | Prev
  | GoTo number
  | Reset
  | Timeout

fun slide_step :: "rotation \<Rightarrow> slide_event \<Rightarrow> rotation" where
  "slide_step s (Rerender count intervalMs paused) =
     settle s (s\<lparr> sl_count := safeCount count, sl_interval := safeInterval intervalMs,
                  sl_paused := paused \<rparr>)"
| "slide_step s Next =
     settle s (s\<lparr> sl_index := if sl_count s = 0 then 0 else (sl_index s + 1) mod sl_count s \<rparr>)"
| "slide_step s Prev =
     settle s (s\<lparr> sl_index :=
       if sl_count s = 0 then 0 else (sl_index s - 1 + sl_count s) mod sl_count s \<rparr>)"
| "slide_step s (GoTo i) = settle s (s\<lparr> sl_index := clampIndex i (sl_count s) \<rparr>)"
| "slide_step s Reset = s\<lparr> sl_timer := scheduleNext (sl_api s) \<rparr>"
| "slide_step s Timeout =
     (case sl_timer s of None \<Rightarrow> s
      | Some (delay, count) \<Rightarrow>
          settle s (s\<lparr> sl_timer := None, sl_index := (sl_index s + 1) mod count \<rparr>))"

section \<open>Invariants\<close>

definition index_ok :: "rotation \<Rightarrow> bool" where
  "index_ok s \<longleftrightarrow>
     0 \<le> sl_count s \<and> 0 \<le> sl_index s \<and> (if sl_count s = 0 then sl_index s = 0
                                          else sl_index s < sl_count s) \<and>
     fst (sl_api s) = sl_count s \<and>
     (\<forall>d c. sl_timer s = Some (d, c) \<longrightarrow> c = sl_count s \<and> 1 < c \<and> 1000 \<le> d) \<and>
     1000 \<le> sl_interval s \<and> 1000 \<le> fst (snd (sl_api s))"

lemma clampIndex_bounds:
  "0 \<le> count \<Longrightarrow>
    0 \<le> clampIndex v count \<and> (if count = 0 then clampIndex v count = 0 else clampIndex v count < count)"
  by (auto simp: clampIndex_def Let_def split: number.split)

definition in_range :: "int \<Rightarrow> int \<Rightarrow> bool" where
  "in_range i count \<longleftrightarrow> 0 \<le> i \<and> (if count = 0 then i = 0 else i < count)"

definition timer_ok :: "int \<Rightarrow> (int \<times> int) option \<Rightarrow> bool" where
  "timer_ok count t \<longleftrightarrow> (\<forall>d c. t = Some (d, c) \<longrightarrow> c = count \<and> 1 < c \<and> 1000 \<le> d)"

lemma index_ok_alt:
  "index_ok s \<longleftrightarrow> 0 \<le> sl_count s \<and> in_range (sl_index s) (sl_count s) \<and>
     timer_ok (sl_count s) (sl_timer s) \<and> 1000 \<le> sl_interval s \<and>
     fst (sl_api s) = sl_count s \<and> 1000 \<le> fst (snd (sl_api s))"
  unfolding index_ok_def in_range_def timer_ok_def by blast

lemma schedule_ok: "1000 \<le> iv \<Longrightarrow> timer_ok c (scheduleNext (c, iv, paused))"
  by (simp add: timer_ok_def scheduleNext_def)

lemma keep_valid_in_range: "0 \<le> c \<Longrightarrow> in_range (keep_valid c i) c"
  by (simp add: in_range_def keep_valid_def)

lemma timer_ok_None: "timer_ok c None"
  by (simp add: timer_ok_def)

lemma settle_ok:
  assumes ok: "index_ok s" and "0 \<le> sl_count n" and "1000 \<le> sl_interval n"
    and "sl_count n = sl_count s \<Longrightarrow> in_range (sl_index n) (sl_count n)"
    and "sl_timer n = sl_timer s \<or> sl_timer n = None" and "sl_api n = sl_api s"
  shows "index_ok (settle s n)"
proof (cases "sl_count n = sl_count s")
  case True
  then have "in_range (sl_index n) (sl_count n)" by (rule assms(4))
  moreover have "timer_ok (sl_count n) (sl_timer n)"
    using True assms(5) ok by (auto simp: index_ok_alt timer_ok_None)
  ultimately show ?thesis using True assms
    by (simp add: index_ok_alt settle_def Let_def schedule_ok)
next
  case False
  then show ?thesis using assms
    by (simp add: index_ok_alt settle_def Let_def schedule_ok keep_valid_in_range)
qed

lemma index_ok_init: "index_ok (useSlideRotation count ms paused start)"
proof -
  define c where "c = safeCount count"
  define iv where "iv = safeInterval ms"
  define i where "i = clampIndex start c"
  have c: "0 \<le> c" and iv: "1000 \<le> iv"
    by (simp_all add: c_def iv_def safeCount_def safeInterval_def)
  have i: "0 \<le> i" "if c = 0 then i = 0 else i < c"
    using clampIndex_bounds [OF c, of start] by (auto simp: i_def)
  show ?thesis
    unfolding useSlideRotation_def Let_def c_def [symmetric] iv_def [symmetric] i_def [symmetric]
    using c iv i by (cases "c = 0") (auto simp: index_ok_def keep_valid_def scheduleNext_def)
qed

lemma index_ok_step:
  assumes ok: "index_ok s"
  shows "index_ok (slide_step s e)"
proof (cases e)
  case (Rerender count ms paused)
  have "index_ok (settle s (s\<lparr> sl_count := safeCount count, sl_interval := safeInterval ms,
      sl_paused := paused \<rparr>))"
    using ok by (intro settle_ok [OF ok]) (simp_all add: index_ok_def in_range_def safeCount_def safeInterval_def)
  then show ?thesis using Rerender by simp
next
  case Reset
  then show ?thesis using ok by (cases "sl_api s") (auto simp: index_ok_def scheduleNext_def)
next
  case Timeout
  show ?thesis
  proof (cases "sl_timer s")
    case (Some p)
    then obtain d where p: "sl_timer s = Some (d, sl_count s)" "1 < sl_count s"
      using ok by (cases p) (auto simp: index_ok_def)
    have "index_ok (settle s (s\<lparr> sl_timer := None, sl_index := (sl_index s + 1) mod sl_count s \<rparr>))"
      using ok p(2) by (intro settle_ok [OF ok]) (simp_all add: index_ok_def in_range_def)
    then show ?thesis using p(1) Timeout by simp
  qed (use ok Timeout in simp)
next
  case (GoTo i)
  have "index_ok (settle s (s\<lparr> sl_index := clampIndex i (sl_count s) \<rparr>))"
    using ok clampIndex_bounds [of "sl_count s" i]
    by (intro settle_ok [OF ok]) (auto simp: index_ok_def in_range_def)
  then show ?thesis using GoTo by simp
next
  case Next
  have "index_ok (settle s (s\<lparr> sl_index := if sl_count s = 0 then 0
      else (sl_index s + 1) mod sl_count s \<rparr>))"
    using ok by (intro settle_ok [OF ok]) (simp_all add: index_ok_def in_range_def)
  then show ?thesis using Next by simp
next
  case Prev
  have "index_ok (settle s (s\<lparr> sl_index := if sl_count s = 0 then 0
      else (sl_index s - 1 + sl_count s) mod sl_count s \<rparr>))"
    using ok by (intro settle_ok [OF ok]) (simp_all add: index_ok_def in_range_def)
  then show ?thesis using Prev by simp
qed

interpretation slides: event_machine slide_step
    "\<lambda>s. \<exists>count ms paused start. s = useSlideRotation count ms paused start" index_ok
  by unfold_locales (auto intro: index_ok_init index_ok_step)

lemma index_ok_run: "index_ok (run slide_step (useSlideRotation count ms paused start) es)"
  by (rule slides.reachable_inv) blast

text \<open>The timer is armed exactly when it should be, as long as \<open>reset\<close> is not called.\<close>

definition armed_ok :: "rotation \<Rightarrow> bool" where
  "armed_ok s \<longleftrightarrow> sl_timer s = scheduleNext (sl_count s, sl_interval s, sl_paused s)"

lemma armed_ok_settle:
  assumes "armed_ok s" and "sl_timer n = sl_timer s \<or> sl_index (settle s n) \<noteq> sl_index s"
  shows "armed_ok (settle s n)"
  using assms by (auto simp: armed_ok_def settle_def Let_def split: if_splits)

lemma mod_succ_ne: "1 < c \<Longrightarrow> 0 \<le> i \<Longrightarrow> i < c \<Longrightarrow> (i + 1) mod c \<noteq> (i :: int)"
proof (cases "i + 1 < c")
  case False
  assume "1 < c" "0 \<le> i" "i < c"
  with False have "i + 1 = c" by simp
  with \<open>1 < c\<close> show ?thesis by auto
qed simp

lemma armed_ok_step:
  assumes ok: "index_ok s" and armed: "armed_ok s" and "e \<noteq> Reset"
  shows "armed_ok (slide_step s e)"
proof (cases e)
  case Timeout
  show ?thesis
  proof (cases "sl_timer s")
    case (Some p)
    then obtain d where p: "sl_timer s = Some (d, sl_count s)" "1 < sl_count s"
      using ok by (cases p) (auto simp: index_ok_def)
    then have "(sl_index s + 1) mod sl_count s \<noteq> sl_index s"
      using ok by (intro mod_succ_ne) (auto simp: index_ok_def)
    then show ?thesis using armed Timeout p
      by (auto intro!: armed_ok_settle) (simp add: settle_def Let_def)
  qed (use armed Timeout in simp)
qed (use assms in \<open>auto intro!: armed_ok_settle\<close>)

definition rotating :: "rotation \<Rightarrow> bool" where
  "rotating s \<longleftrightarrow> index_ok s \<and> armed_ok s"

lemma rotating_run:
  "rotating s \<Longrightarrow> Reset \<notin> set es \<Longrightarrow> rotating (run slide_step s es)"
  by (induction es arbitrary: s) (auto simp: rotating_def index_ok_step armed_ok_step)

lemma rotating_init: "rotating (useSlideRotation count ms paused start)"
  using index_ok_init [of count ms paused start]
  by (simp add: rotating_def) (simp add: armed_ok_def useSlideRotation_def Let_def)

lemma timeout_index:
  assumes "rotating s" and "\<not> sl_paused s" and "1 < sl_count s"
  shows "sl_index (slide_step s Timeout) = (sl_index s + 1) mod sl_count s \<and>
    sl_count (slide_step s Timeout) = sl_count s \<and> \<not> sl_paused (slide_step s Timeout)"
  using assms by (auto simp: rotating_def armed_ok_def scheduleNext_def settle_def Let_def)

lemma timeouts_index:
  assumes "rotating s" and "\<not> sl_paused s" and "1 < sl_count s"
  shows "sl_index (run slide_step s (replicate k Timeout)) = (sl_index s + int k) mod sl_count s"
  using assms
proof (induction k arbitrary: s)
  case 0
  then show ?case by (simp add: rotating_def index_ok_def)
next
  case (Suc k)
  let ?s = "slide_step s Timeout"
  have t: "sl_index ?s = (sl_index s + 1) mod sl_count s" "sl_count ?s = sl_count s" "\<not> sl_paused ?s"
    using timeout_index [OF Suc.prems] by auto
  have r: "rotating ?s" using rotating_run [OF Suc.prems(1), of "[Timeout]"] by simp
  have "sl_index (run slide_step ?s (replicate k Timeout)) =
      ((sl_index s + 1) mod sl_count s + int k) mod sl_count s"
    using Suc.IH [OF r t(3)] t Suc.prems(3) by simp
  then show ?case by (simp add: mod_simps algebra_simps del: slide_step.simps)
qed

section \<open>Properties\<close>

text \<open>
  The rotation's index is always a slide of the current list (0 for an empty one),
  through every change of the list, jump, pause, reset and timeout.
\<close>

theorem slide_index_valid:
  fixes count ms paused start es
  defines "s \<equiv> run slide_step (useSlideRotation count ms paused start) es"
  shows "0 \<le> sl_index s \<and> (if sl_count s = 0 then sl_index s = 0 else sl_index s < sl_count s)"
  using index_ok_run [of count ms paused start es] unfolding s_def index_ok_def by blast

text \<open>
  C21. While at least two slides are shown and the rotation is not paused, it never stops
  (as long as \<open>reset\<close> is not called): a timeout is pending, and \<open>k\<close> timeouts advance the
  index by \<open>k\<close> modulo the count, so every slide gets its turn.
\<close>

theorem slide_rotation_live:
  fixes count ms paused start es
  assumes "Reset \<notin> set es"
  defines "s \<equiv> run slide_step (useSlideRotation count ms paused start) es"
  assumes "\<not> sl_paused s" and "1 < sl_count s"
  shows "sl_timer s = Some (sl_interval s, sl_count s) \<and>
    (\<forall>k. sl_index (run slide_step s (replicate k Timeout)) = (sl_index s + int k) mod sl_count s)"
proof -
  have r: "rotating s" unfolding s_def by (rule rotating_run [OF rotating_init assms(1)])
  then show ?thesis
    using timeouts_index [OF r assms(3,4)] assms(3,4)
    by (auto simp: rotating_def armed_ok_def scheduleNext_def)
qed

theorem slide_rotation_live_witness:
  "sl_index (run slide_step (run slide_step (useSlideRotation 3 20000 False (Fin 0)) [Next, Next])
     (replicate 2 Timeout)) = 1"
proof -
  let ?s = "run slide_step (useSlideRotation 3 20000 False (Fin 0)) [Next, Next]"
  have s: "\<not> sl_paused ?s" "sl_count ?s = 3" "sl_index ?s = 2"
    by (simp_all add: useSlideRotation_def settle_def Let_def safeCount_def clampIndex_def keep_valid_def)
  then show ?thesis
    using slide_rotation_live [of "[Next, Next]" 3 20000 False "Fin 0"]
    by (simp del: slide_step.simps replicate.simps run_Cons)
qed

text \<open>
  \<open>reset\<close> uses the pause flag of an older render: after a pause it starts the timer
  again and the slides move while paused, and after the pause ends it stops the timer of a
  rotation that should run.
\<close>

theorem slide_reset_stale:
  assumes "1 < count"
  shows "(let s = run slide_step (useSlideRotation count ms False (Fin 0))
                  [Rerender count ms True, Reset, Timeout] in sl_paused s \<and> sl_index s = 1) \<and>
    (let s = run slide_step (useSlideRotation count ms True (Fin 0))
             [Rerender count ms False, Reset] in \<not> sl_paused s \<and> sl_timer s = None)"
  using assms
  by (simp add: useSlideRotation_def settle_def Let_def safeCount_def clampIndex_def keep_valid_def
      scheduleNext_def)

theorem slide_reset_stale_witness:
  "sl_index (run slide_step (useSlideRotation 3 20000 False (Fin 0))
     [Rerender 3 20000 True, Reset, Timeout]) = 1"
  using slide_reset_stale [of 3 20000] by (simp only: Let_def)

end
