(* ===== verification/Overlay_Contract.thy ===== *)
theory Overlay_Contract
  imports JS_Number
begin

text \<open>
  \<open>web/src/features/overlay/contract.ts\<close> and \<open>types.ts\<close>: the names the overlay's wire format
  uses, the data the renderer gets, and the readers of the nullable wire values.
  \<open>licensing.ts\<close> is the licence check of the renderer.
\<close>

section \<open>Names\<close>

definition OVERLAY_FIELD :: "string list" where
  "OVERLAY_FIELD =
     [''match_status'', ''team_1'', ''team_2'', ''serving_team'', ''server_number'', ''current_game'',
      ''completed_games'', ''timeouts_remaining_1'', ''timeouts_remaining_2'', ''division_name'',
      ''tournament_name'', ''league_name'', ''round_label'', ''match_info'', ''sponsor_logos'',
      ''tournament_logo_url'', ''league_logo_url'', ''is_paused'', ''series_score'', ''next_match'',
      ''court_name'']"

definition OVERRIDE_KEY :: "string list" where
  "OVERRIDE_KEY =
     [''team_1_name'', ''team_1_short_name'', ''team_1_score'', ''team_1_color'', ''team_1_logo_url'',
      ''team_1_game_wins'', ''team_1_player_1_name'', ''team_1_player_2_name'',
      ''team_2_name'', ''team_2_short_name'', ''team_2_score'', ''team_2_color'', ''team_2_logo_url'',
      ''team_2_game_wins'', ''team_2_player_1_name'', ''team_2_player_2_name'',
      ''division_name'', ''tournament_name'', ''league_name'', ''round_label'', ''match_info'',
      ''court_name'', ''tournament_logo_url'', ''league_logo_url'', ''match_status'',
      ''serving_team'', ''server_number'', ''current_game'']"

definition OVERRIDE_KEY_GROUPS :: "(string \<times> string list) list" where
  "OVERRIDE_KEY_GROUPS =
     [(''Team 1'', [''team_1_name'', ''team_1_short_name'', ''team_1_score'', ''team_1_color'',
         ''team_1_logo_url'', ''team_1_game_wins'']),
      (''Team 1 roster'', [''team_1_player_1_name'', ''team_1_player_2_name'']),
      (''Team 2'', [''team_2_name'', ''team_2_short_name'', ''team_2_score'', ''team_2_color'',
         ''team_2_logo_url'', ''team_2_game_wins'']),
      (''Team 2 roster'', [''team_2_player_1_name'', ''team_2_player_2_name'']),
      (''Match context'', [''division_name'', ''tournament_name'', ''league_name'', ''round_label'',
         ''match_info'', ''court_name'']),
      (''Branding'', [''tournament_logo_url'', ''league_logo_url'']),
      (''Match state'', [''match_status'', ''serving_team'', ''server_number'', ''current_game''])]"

definition NUMERIC_OVERRIDE_KEYS :: "string list" where
  "NUMERIC_OVERRIDE_KEYS =
     [''team_1_score'', ''team_1_game_wins'', ''team_2_score'', ''team_2_game_wins'',
      ''serving_team'', ''server_number'', ''current_game'']"

definition ELEMENT_KEY :: "string list" where
  "ELEMENT_KEY =
     [''scoreboard'', ''lower_third'', ''player_card'', ''team_card'', ''sponsor_bug'',
      ''tournament_bug'', ''coming_up_next'', ''match_result'', ''custom_text'',
      ''bracket_snapshot'', ''pool_standings'', ''series_score'']"

definition ALL_ELEMENT_KEYS :: "string list" where
  "ALL_ELEMENT_KEYS =
     [''scoreboard'', ''lower_third'', ''player_card'', ''team_card'', ''sponsor_bug'',
      ''tournament_bug'', ''coming_up_next'', ''match_result'', ''custom_text'',
      ''bracket_snapshot'', ''pool_standings'', ''series_score'']"

definition MATCH_STATUS :: "string list" where
  "MATCH_STATUS =
     [''scheduled'', ''in_progress'', ''completed'', ''bye'', ''forfeit'', ''cancelled'', ''idle'']"

definition SOURCE_TYPE :: "string list" where
  "SOURCE_TYPE = [''court_command'', ''rest_api'', ''webhook'']"

definition AUTH_TYPE :: "string list" where
  "AUTH_TYPE = [''none'', ''api_key'', ''bearer'', ''basic'']"

definition IDLE_DISPLAY :: "string list" where
  "IDLE_DISPLAY = [''court_name'', ''branding'', ''none'']"

definition SPONSOR_TIER :: "string list" where
  "SPONSOR_TIER = [''title'', ''presenting'', ''gold'', ''silver'', ''bronze'', ''standard'']"

definition OVERLAY_WS_EVENT :: "string list" where
  "OVERLAY_WS_EVENT = [''overlay_data'', ''config_update'']"

section \<open>The data the renderer shows\<close>

record team_data =
  td_name :: string
  td_short_name :: string
  td_score :: int
  td_color :: string
  td_logo_url :: string
  td_players :: "string list"        (* the name of each player brief *)
  td_game_wins :: int

record game_result =
  gr_game_num :: int
  gr_score_team_1 :: int
  gr_score_team_2 :: int
  gr_winner :: int

record sponsor_logo =
  sl_name :: string
  sl_logo_url :: string
  sl_link_url :: string
  sl_tier :: string

record series_data =
  sd_team_1_wins :: int
  sd_team_2_wins :: int
  sd_best_of :: int

record next_match_data =
  nm_team_1_name :: string
  nm_team_2_name :: string
  nm_division_name :: string
  nm_round_label :: string

record bracket_match =
  bm_match_number :: int
  bm_team_1_name :: string
  bm_team_2_name :: string
  bm_team_1_score :: int
  bm_team_2_score :: int
  bm_winner :: int
  bm_status :: string

record bracket_round =
  br_round_num :: int
  br_round_name :: string
  br_matches :: "bracket_match list"

record bracket_data =
  bd_division_name :: string
  bd_bracket_format :: string
  bd_rounds :: "bracket_round list"

record pool_team_entry =
  pe_rank :: int
  pe_team_name :: string
  pe_wins :: int
  pe_losses :: int
  pe_point_differential :: int

record pool_data =
  pd_division_name :: string
  pd_pool_name :: string
  pd_standings :: "pool_team_entry list"

record overlay_data =
  od_match_status :: string
  od_team_1 :: team_data
  od_team_2 :: team_data
  od_serving_team :: int
  od_server_number :: int
  od_current_game :: int
  od_completed_games :: "game_result list"
  od_timeouts_remaining_1 :: int
  od_timeouts_remaining_2 :: int
  od_division_name :: string
  od_tournament_name :: string
  od_league_name :: string
  od_round_label :: string
  od_match_info :: string
  od_sponsor_logos :: "sponsor_logo list"
  od_tournament_logo_url :: string
  od_league_logo_url :: string
  od_is_paused :: bool
  od_series_score :: "series_data option"
  od_next_match :: "next_match_data option"
  od_court_name :: string
  od_bracket :: "bracket_data option"
  od_pool :: "pool_data option"

text \<open>The member names of the interface \emph{OverlayData}, in its order.\<close>

definition overlay_data_fields :: "string list" where
  "overlay_data_fields =
     [''match_status'', ''team_1'', ''team_2'', ''serving_team'', ''server_number'', ''current_game'',
      ''completed_games'', ''timeouts_remaining_1'', ''timeouts_remaining_2'', ''division_name'',
      ''tournament_name'', ''league_name'', ''round_label'', ''match_info'', ''sponsor_logos'',
      ''tournament_logo_url'', ''league_logo_url'', ''is_paused'', ''series_score'', ''next_match'',
      ''court_name'', ''bracket'', ''pool'']"

section \<open>Nullable wire values\<close>

text \<open>
  A nullable database column arrives as the plain value, as \<open>null\<close>, or as the driver's
  wrapper object with a value member and \<open>Valid\<close>.
\<close>

datatype 'a wire =
    Missing
  | Plain 'a
  | Wrapped 'a bool

fun normalizeSourceProfileID :: "int wire \<Rightarrow> int option" where
  "normalizeSourceProfileID Missing = None"
| "normalizeSourceProfileID (Plain n) = Some n"
| "normalizeSourceProfileID (Wrapped n valid) = (if valid then Some n else None)"

fun normalizePollInterval :: "int wire \<Rightarrow> int option" where
  "normalizePollInterval Missing = None"
| "normalizePollInterval (Plain n) = Some n"
| "normalizePollInterval (Wrapped n valid) = (if valid then Some n else None)"

fun normalizeTimestamptz :: "string wire \<Rightarrow> string option" where
  "normalizeTimestamptz Missing = None"
| "normalizeTimestamptz (Plain s) = Some s"
| "normalizeTimestamptz (Wrapped s valid) = (if valid then Some s else None)"

text \<open>What a reader of nullable wire values owes its callers.\<close>

locale wire_reader =
  fixes norm :: "'a wire \<Rightarrow> 'a option"
  assumes norm_missing: "norm Missing = None"
    and norm_plain: "norm (Plain x) = Some x"
    and norm_wrapped: "norm (Wrapped x valid) = (if valid then Some x else None)"
begin

text \<open>Both encodings of a stored value read the same, whichever the server sends.\<close>

lemma encodings_agree:
  "norm (case v of None \<Rightarrow> Missing | Some x \<Rightarrow> Plain x) = v"
  "norm (case v of None \<Rightarrow> Wrapped d False | Some x \<Rightarrow> Wrapped x True) = v"
  by (cases v; simp add: norm_missing norm_plain norm_wrapped)+

lemma norm_Some_iff: "norm w = Some x \<longleftrightarrow> w = Plain x \<or> w = Wrapped x True"
  by (cases w) (auto simp: norm_missing norm_plain norm_wrapped)

end

interpretation source_profile_id: wire_reader normalizeSourceProfileID
  by unfold_locales simp_all

interpretation poll_interval: wire_reader normalizePollInterval
  by unfold_locales simp_all

interpretation timestamptz: wire_reader normalizeTimestamptz
  by unfold_locales simp_all

section \<open>Clamps\<close>

definition SCALE_MIN :: rat where "SCALE_MIN = 1 / 2"
definition SCALE_MAX :: rat where "SCALE_MAX = 5"
definition SCALE_DEFAULT :: rat where "SCALE_DEFAULT = 1"
definition OFFSET_MIN :: rat where "OFFSET_MIN = - 120"
definition OFFSET_MAX :: rat where "OFFSET_MAX = 120"
definition OFFSET_DEFAULT :: rat where "OFFSET_DEFAULT = 0"
definition ELEMENT_SCALE_MIN :: rat where "ELEMENT_SCALE_MIN = 1 / 4"
definition ELEMENT_SCALE_MAX :: rat where "ELEMENT_SCALE_MAX = 3"
definition ELEMENT_SCALE_DEFAULT :: rat where "ELEMENT_SCALE_DEFAULT = 1"

text \<open>The argument is \<open>None\<close> when it is no number at all.\<close>

definition clampScale :: "number option \<Rightarrow> number" where
  "clampScale value =
     (case value of None \<Rightarrow> Fin SCALE_DEFAULT
      | Some v \<Rightarrow>
          if \<not> is_finite v then Fin SCALE_DEFAULT
          else num_max (Fin SCALE_MIN) (num_min (Fin SCALE_MAX) v))"

definition clampOffset :: "number option \<Rightarrow> number" where
  "clampOffset value =
     (case value of None \<Rightarrow> Fin OFFSET_DEFAULT
      | Some v \<Rightarrow>
          if \<not> is_finite v then Fin OFFSET_DEFAULT
          else num_max (Fin OFFSET_MIN) (num_min (Fin OFFSET_MAX) v))"

definition clampElementScale :: "number option \<Rightarrow> number" where
  "clampElementScale value =
     (case value of None \<Rightarrow> Fin ELEMENT_SCALE_DEFAULT
      | Some v \<Rightarrow>
          if \<not> is_finite v then Fin ELEMENT_SCALE_DEFAULT
          else num_max (Fin ELEMENT_SCALE_MIN) (num_min (Fin ELEMENT_SCALE_MAX) v))"

text \<open>A clamp: its range, its default, and what the callers rely on.\<close>

locale clamp =
  fixes f :: "number option \<Rightarrow> number" and lo hi dflt :: rat
  assumes clamp_none: "f None = Fin dflt"
    and clamp_some: "f (Some v) =
      (if \<not> is_finite v then Fin dflt else num_max (Fin lo) (num_min (Fin hi) v))"
    and clamp_range: "lo \<le> dflt" "dflt \<le> hi"
begin

lemma clamp_fin: "f (Some (Fin q)) = Fin (max lo (min hi q))"
  using clamp_range by (auto simp: clamp_some num_max_def num_min_def max_def min_def)

lemma clamp_bounds: "\<exists>q. f v = Fin q \<and> lo \<le> q \<and> q \<le> hi"
proof (cases v)
  case (Some n)
  then show ?thesis using clamp_range
    by (cases n) (auto simp: clamp_fin, auto simp: clamp_some)
qed (use clamp_range clamp_none in auto)

lemma clamp_id: "lo \<le> q \<Longrightarrow> q \<le> hi \<Longrightarrow> f (Some (Fin q)) = Fin q"
  by (simp add: clamp_fin)

lemma clamp_idem: "f (Some (f v)) = f v"
  using clamp_bounds [of v] clamp_id by auto

lemma clamp_mono: "p \<le> q \<Longrightarrow> \<exists>a b. f (Some (Fin p)) = Fin a \<and> f (Some (Fin q)) = Fin b \<and> a \<le> b"
  by (auto simp: clamp_fin max_def min_def)

end

lemmas clamp_consts =
  SCALE_MIN_def SCALE_MAX_def SCALE_DEFAULT_def OFFSET_MIN_def OFFSET_MAX_def OFFSET_DEFAULT_def
  ELEMENT_SCALE_MIN_def ELEMENT_SCALE_MAX_def ELEMENT_SCALE_DEFAULT_def

interpretation scale: clamp clampScale "1 / 2" 5 1
  by unfold_locales (simp_all add: clampScale_def clamp_consts)

interpretation ofs: clamp clampOffset "- 120" 120 0
  by unfold_locales (simp_all add: clampOffset_def clamp_consts)

interpretation element_scale: clamp clampElementScale "1 / 4" 3 1
  by unfold_locales (simp_all add: clampElementScale_def clamp_consts)

text \<open>The style fragment: \<open>None\<close> for the identity scale.\<close>

definition elementScaleStyle :: "number option \<Rightarrow> string \<Rightarrow> (number \<times> string) option" where
  "elementScaleStyle scale_cfg origin =
     (let scale = clampElementScale scale_cfg in
      if scale = Fin ELEMENT_SCALE_DEFAULT then None else Some (scale, origin))"

section \<open>Anchors\<close>

definition POSITION_OPTIONS :: "(string \<times> string) list" where
  "POSITION_OPTIONS =
     [(''top-left'', ''Top left''), (''top-center'', ''Top center''), (''top-right'', ''Top right''),
      (''middle-left'', ''Middle left''), (''middle-center'', ''Middle center''),
      (''middle-right'', ''Middle right''), (''bottom-left'', ''Bottom left''),
      (''bottom-center'', ''Bottom center''), (''bottom-right'', ''Bottom right'')]"

definition positionClasses :: "string \<Rightarrow> string" where
  "positionClasses position =
     (case map_of
        [(''top-left'', ''absolute top-8 left-8''),
         (''top-center'', ''absolute top-8 left-1/2 -translate-x-1/2''),
         (''top-right'', ''absolute top-8 right-8''),
         (''middle-left'', ''absolute top-1/2 left-8 -translate-y-1/2''),
         (''middle-center'', ''absolute top-1/2 left-1/2 -translate-x-1/2 -translate-y-1/2''),
         (''middle-right'', ''absolute top-1/2 right-8 -translate-y-1/2''),
         (''bottom-left'', ''absolute bottom-8 left-8''),
         (''bottom-right'', ''absolute bottom-8 right-8'')] position
      of Some c \<Rightarrow> c | None \<Rightarrow> ''absolute bottom-8 left-1/2 -translate-x-1/2'')"

definition originForPosition :: "string \<Rightarrow> string" where
  "originForPosition position =
     (case map_of
        [(''top-left'', ''top left''), (''top-center'', ''top center''), (''top-right'', ''top right''),
         (''middle-left'', ''center left''), (''middle-right'', ''center right''),
         (''bottom-left'', ''bottom left''), (''bottom-right'', ''bottom right''),
         (''bottom-center'', ''bottom center'')] position
      of Some c \<Rightarrow> c | None \<Rightarrow> ''center center'')"

section \<open>Licensing\<close>

definition getIsLicensed :: "'config option \<Rightarrow> bool" where
  "getIsLicensed config = False"

section \<open>Properties\<close>

text \<open>
  The groups of the override editor hold every override key exactly once, the numeric
  keys are override keys, and the ordered element list names every element exactly once.
\<close>

theorem contract_complete:
  "distinct (concat (map snd OVERRIDE_KEY_GROUPS)) \<and>
   set (concat (map snd OVERRIDE_KEY_GROUPS)) = set OVERRIDE_KEY \<and>
   distinct OVERRIDE_KEY \<and> length OVERRIDE_KEY = 28 \<and> length OVERRIDE_KEY_GROUPS = 7 \<and>
   set NUMERIC_OVERRIDE_KEYS \<subseteq> set OVERRIDE_KEY \<and>
   set ALL_ELEMENT_KEYS = set ELEMENT_KEY \<and> distinct ALL_ELEMENT_KEYS"
  by (simp add: OVERRIDE_KEY_GROUPS_def OVERRIDE_KEY_def NUMERIC_OVERRIDE_KEYS_def
      ALL_ELEMENT_KEYS_def ELEMENT_KEY_def)

text \<open>
  The three clamps always return a finite number inside their range, clip every finite
  number to that range, are idempotent, and map everything that is no finite number to their
  default.
\<close>

theorem clamps_correct:
  "(\<exists>q. clampScale v = Fin q \<and> 1 / 2 \<le> q \<and> q \<le> 5) \<and>
   (\<exists>q. clampOffset v = Fin q \<and> - 120 \<le> q \<and> q \<le> 120) \<and>
   (\<exists>q. clampElementScale v = Fin q \<and> 1 / 4 \<le> q \<and> q \<le> 3) \<and>
   clampScale (Some (clampScale v)) = clampScale v \<and>
   clampOffset (Some (clampOffset v)) = clampOffset v \<and>
   clampElementScale (Some (clampElementScale v)) = clampElementScale v \<and>
   map clampScale [None, Some NaN, Some PosInf, Some NegInf] = replicate 4 (Fin 1) \<and>
   map clampOffset [None, Some NaN, Some PosInf, Some NegInf] = replicate 4 (Fin 0) \<and>
   map clampElementScale [None, Some NaN, Some PosInf, Some NegInf] = replicate 4 (Fin 1) \<and>
   clampScale (Some (Fin q)) = Fin (max (1 / 2) (min 5 q)) \<and>
   clampOffset (Some (Fin q)) = Fin (max (- 120) (min 120 q)) \<and>
   clampElementScale (Some (Fin q)) = Fin (max (1 / 4) (min 3 q))"
  by (intro conjI scale.clamp_bounds ofs.clamp_bounds element_scale.clamp_bounds
      scale.clamp_idem ofs.clamp_idem element_scale.clamp_idem scale.clamp_fin ofs.clamp_fin
      element_scale.clamp_fin)
    (simp_all add: clampScale_def clampOffset_def clampElementScale_def clamp_consts numeral_eq_Suc)

text \<open>
  Plain and wrapped encodings of a nullable column read the same: any optional value
  written either way comes back.
\<close>

theorem wire_roundtrip:
  "normalizeSourceProfileID (case v of None \<Rightarrow> Missing | Some x \<Rightarrow> Plain x) = v \<and>
   normalizeSourceProfileID (case v of None \<Rightarrow> Wrapped d False | Some x \<Rightarrow> Wrapped x True) = v \<and>
   normalizePollInterval (case v of None \<Rightarrow> Missing | Some x \<Rightarrow> Plain x) = v \<and>
   normalizePollInterval (case v of None \<Rightarrow> Wrapped d False | Some x \<Rightarrow> Wrapped x True) = v \<and>
   normalizeTimestamptz (case t of None \<Rightarrow> Missing | Some x \<Rightarrow> Plain x) = t \<and>
   normalizeTimestamptz (case t of None \<Rightarrow> Wrapped e False | Some x \<Rightarrow> Wrapped x True) = t"
  by (intro conjI source_profile_id.encodings_agree poll_interval.encodings_agree
      timestamptz.encodings_agree)

text \<open>
  The anchors of the position picker are distinct places with distinct origins, and the two
  look-ups disagree on an anchor that is none of the nine: it is placed at the bottom centre
  and scaled from the middle.
\<close>

lemma positions_distinct:
  "distinct (map (positionClasses \<circ> fst) POSITION_OPTIONS) \<and>
   distinct (map (originForPosition \<circ> fst) POSITION_OPTIONS) \<and>
   positionClasses ''elsewhere'' = positionClasses ''bottom-center'' \<and>
   originForPosition ''elsewhere'' \<noteq> originForPosition ''bottom-center''"
  by (simp add: POSITION_OPTIONS_def positionClasses_def originForPosition_def)

text \<open>The declared field names leave out two members of the data they name.\<close>

lemma overlay_fields_missing:
  "filter (\<lambda>f. f \<notin> set OVERLAY_FIELD) overlay_data_fields = [''bracket'', ''pool'']"
  by (simp add: overlay_data_fields_def OVERLAY_FIELD_def)

end
