(* ===== verification/Fade_Mount.thy ===== *)
theory Fade_Mount
  imports CC_Prelude
begin

text \<open>
  \<open>web/src/features/overlay/renderer/FadeMount.tsx\<close>: when an overlay element is in the page
  and how opaque it is, as its visibility is toggled. The callbacks the hook has asked the
  browser for (the hide timer and the two animation frames) are kept with the handle the
  browser returned; the browser may run any of them at any time.
\<close>

definition FADE_DURATION_MS :: nat where
  "FADE_DURATION_MS = 300"

datatype callback = HideTimer | FrameA | FrameB

record fade =
  fm_visible :: bool
  fm_mounted :: bool
  fm_opacity :: nat
  fm_hide :: "nat option"        (* hideTimerRef *)
  fm_rafA :: "nat option"        (* showRafARef *)
  fm_rafB :: "nat option"        (* showRafBRef *)
  fm_pending :: "(nat \<times> callback) list"
  fm_next :: nat

definition cancel :: "nat option \<Rightarrow> (nat \<times> callback) list \<Rightarrow> (nat \<times> callback) list" where
  "cancel ref p = (case ref of None \<Rightarrow> p | Some i \<Rightarrow> filter (\<lambda>(j, c). j \<noteq> i) p)"

definition request :: "callback \<Rightarrow> fade \<Rightarrow> fade" where
  "request c s = s\<lparr> fm_pending := fm_pending s @ [(fm_next s, c)], fm_next := fm_next s + 1 \<rparr>"

definition cancel_all :: "fade \<Rightarrow> fade" where
  "cancel_all s =
     s\<lparr> fm_pending := cancel (fm_rafB s) (cancel (fm_rafA s) (cancel (fm_hide s) (fm_pending s))),
        fm_hide := None, fm_rafA := None, fm_rafB := None \<rparr>"

definition fade_effect :: "bool \<Rightarrow> fade \<Rightarrow> fade" where
  "fade_effect visible s =
     (let s = cancel_all s in
      if visible
      then request FrameA (s\<lparr> fm_mounted := True, fm_opacity := 0, fm_rafA := Some (fm_next s) \<rparr>)
      else request HideTimer (s\<lparr> fm_opacity := 0, fm_hide := Some (fm_next s) \<rparr>))"

text \<open>The first render, before its effect runs, and the hook after the first effect.\<close>

definition fade_first :: "bool \<Rightarrow> fade" where
  "fade_first visible =
     \<lparr> fm_visible = visible, fm_mounted = visible, fm_opacity = (if visible then 1 else 0),
       fm_hide = None, fm_rafA = None, fm_rafB = None, fm_pending = [], fm_next = 1 \<rparr>"

definition useFadeMount :: "bool \<Rightarrow> fade" where
  "useFadeMount visible = fade_effect visible (fade_first visible)"

datatype fade_event =
    SetVisible bool
  | Run nat
  | Unmounted

definition run_callback :: "nat \<Rightarrow> callback \<Rightarrow> fade \<Rightarrow> fade" where
  "run_callback i c s =
     (let s = s\<lparr> fm_pending := filter (\<lambda>(j, d). j \<noteq> i) (fm_pending s) \<rparr> in
      case c of
        HideTimer \<Rightarrow> s\<lparr> fm_mounted := False, fm_hide := None \<rparr>
      | FrameA \<Rightarrow> request FrameB (s\<lparr> fm_rafB := Some (fm_next s) \<rparr>)
      | FrameB \<Rightarrow> s\<lparr> fm_opacity := 1, fm_rafA := None, fm_rafB := None \<rparr>)"

fun fade_step :: "fade \<Rightarrow> fade_event \<Rightarrow> fade" where
  "fade_step s (SetVisible v) =
     (if v = fm_visible s then s else fade_effect v (s\<lparr> fm_visible := v \<rparr>))"
| "fade_step s (Run i) =
     (case map_of (fm_pending s) i of None \<Rightarrow> s | Some c \<Rightarrow> run_callback i c s)"
| "fade_step s Unmounted =
     s\<lparr> fm_pending := cancel (fm_rafB s) (cancel (fm_rafA s) (cancel (fm_hide s) (fm_pending s))) \<rparr>"

text \<open>
  While visible, the element is mounted and either opaque or on its way through exactly one
  frame request; while hidden it is transparent and either gone or held by exactly one timer.
\<close>

definition fade_inv :: "fade \<Rightarrow> bool" where
  "fade_inv s \<longleftrightarrow>
     (if fm_visible s
      then fm_mounted s \<and>
        (fm_pending s = [] \<and> fm_opacity s = 1 \<or>
         (\<exists>i. fm_pending s = [(i, FrameA)] \<and> fm_rafA s = Some i \<and> fm_opacity s = 0) \<or>
         (\<exists>i. fm_pending s = [(i, FrameB)] \<and> fm_rafB s = Some i \<and> fm_opacity s = 0))
      else fm_opacity s = 0 \<and>
        (fm_pending s = [] \<and> \<not> fm_mounted s \<or>
         (\<exists>i. fm_pending s = [(i, HideTimer)] \<and> fm_hide s = Some i)))"

lemma cancel_Nil [simp]: "cancel ref [] = []"
  by (simp add: cancel_def split: option.split)

lemma cancel_single: "cancel ref [(i, c)] = (if ref = Some i then [] else [(i, c)])"
  by (simp add: cancel_def split: option.split)

lemma fade_inv_cancel: "fade_inv s \<Longrightarrow> fm_pending (cancel_all s) = []"
  by (auto simp: fade_inv_def cancel_all_def cancel_single split: if_splits)

lemma fade_inv_effect:
  assumes "fm_pending (cancel_all s) = []" and "fm_visible s = v"
  shows "fade_inv (fade_effect v s)"
  using assms
  by (auto simp: fade_inv_def fade_effect_def request_def Let_def) (simp_all add: cancel_all_def)

lemma cancel_all_visible [simp]:
  "fm_pending (cancel_all (s\<lparr> fm_visible := v \<rparr>)) = fm_pending (cancel_all s)"
  by (simp add: cancel_all_def)

fun stays :: "fade_event \<Rightarrow> bool" where
  "stays Unmounted = False"
| "stays _ = True"

lemma fade_inv_step: "fade_inv s \<Longrightarrow> stays e \<Longrightarrow> fade_inv (fade_step s e)"
proof (cases e)
  case (SetVisible v)
  assume "fade_inv s"
  then show ?thesis using SetVisible by (simp add: fade_inv_cancel fade_inv_effect)
next
  case (Run i)
  assume "fade_inv s"
  then show ?thesis using Run
    by (auto simp: fade_inv_def run_callback_def request_def Let_def split: if_splits)
qed simp

lemma fade_inv_init: "fade_inv (useFadeMount v)"
  unfolding useFadeMount_def
  by (rule fade_inv_effect) (simp_all add: fade_first_def cancel_all_def)

text \<open>The machine of a mounted element: every event but the unmount.\<close>

definition fade_live_step :: "fade \<Rightarrow> fade_event \<Rightarrow> fade" where
  "fade_live_step s e = (if stays e then fade_step s e else s)"

interpretation fade_machine: event_machine fade_live_step "\<lambda>s. \<exists>v. s = useFadeMount v" fade_inv
  by unfold_locales (auto simp: fade_live_step_def intro: fade_inv_init fade_inv_step)

text \<open>Running whatever is pending, as often as needed, settles the element in three steps.\<close>

definition pump :: "fade \<Rightarrow> fade" where
  "pump s = (case fm_pending s of [] \<Rightarrow> s | (i, c) # _ \<Rightarrow> fade_step s (Run i))"

lemma pump_settles:
  assumes "fade_inv s"
  shows "fm_pending (pump (pump s)) = [] \<and> fm_visible (pump (pump s)) = fm_visible s \<and>
    fade_inv (pump (pump s))"
proof -
  have inv: "fade_inv (pump t)" if "fade_inv t" for t
    using that by (auto simp: pump_def simp del: fade_step.simps intro: fade_inv_step split: list.split)
  have "fm_pending (pump (pump s)) = [] \<and> fm_visible (pump (pump s)) = fm_visible s"
    using assms
    by (auto simp: fade_inv_def pump_def run_callback_def request_def Let_def split: if_splits)
  then show ?thesis using inv [OF inv [OF assms]] by blast
qed

section \<open>Properties\<close>

text \<open>
  C22. However visibility is toggled and whenever the browser runs the callbacks, a visible
  element is never unmounted and a hidden one never opaque, at most one callback is
  pending, and once nothing is pending the element is mounted and opaque exactly when it
  should be visible. Two callbacks are enough to get there.
\<close>

theorem fade_mount_settles:
  fixes v es
  defines "s \<equiv> run fade_live_step (useFadeMount v) es"
  shows "(fm_visible s \<longrightarrow> fm_mounted s) \<and> (\<not> fm_visible s \<longrightarrow> fm_opacity s = 0) \<and>
    length (fm_pending s) \<le> 1 \<and>
    fm_mounted (pump (pump s)) = fm_visible s \<and>
    fm_opacity (pump (pump s)) = (if fm_visible s then 1 else 0)"
proof -
  have inv: "fade_inv s" unfolding s_def by (rule fade_machine.reachable_inv) blast
  show ?thesis using inv pump_settles [OF inv] by (auto simp: fade_inv_def split: if_splits)
qed

text \<open>The witness toggles twice while the first frame request is pending.\<close>

theorem fade_mount_settles_witness:
  "fm_mounted (pump (pump (run fade_live_step (useFadeMount True)
     [SetVisible False, SetVisible True, Run 1]))) = True"
  using fade_mount_settles [of True "[SetVisible False, SetVisible True, Run 1]"]
  by (simp add: fade_live_step_def useFadeMount_def fade_first_def fade_effect_def cancel_all_def
      cancel_def request_def Let_def)

text \<open>
  An element that is visible from its first render starts opaque, is then made
  transparent by its first effect and fades in after that: the first frame shows it at full
  opacity, where the comment promises opacity 0 during mount-in.
\<close>

lemma fade_first_flash:
  "fm_opacity (fade_first True) = 1 \<and> fm_mounted (fade_first True) \<and>
   fm_opacity (useFadeMount True) = 0 \<and> fm_opacity (pump (pump (useFadeMount True))) = 1"
  by (simp add: fade_first_def useFadeMount_def fade_effect_def cancel_all_def request_def Let_def
      pump_def run_callback_def)

end
