(* ===== verification/Trigger_Queue.thy ===== *)
theory Trigger_Queue
  imports CC_Prelude Formatters
begin

text \<open>
  \<open>web/src/features/overlay/useTriggerQueue.ts\<close>, the queue of one-shot overlay events, with
  its two users: the Triggers tab of the Control Panel (\<open>controls/TriggersTab.tsx\<close>) and the
  renderer's choice of one trigger per kind (\<open>OverlayRenderer.tsx\<close>). Times are integers in
  milliseconds; \<open>Date.now()\<close> and the identifiers drawn by \<open>newId\<close> are inputs of the events.
\<close>

datatype trigger_kind = PlayerCard | TeamCard | MatchResult | CustomText

datatype dismiss_mode = Manual | Auto int

record trigger =
  tr_id :: string
  tr_kind :: trigger_kind
  tr_started :: int
  tr_dismiss :: dismiss_mode
  tr_payload :: js

record trigger_input =
  ti_kind :: trigger_kind
  ti_dismiss :: dismiss_mode
  ti_payload :: js

fun kind_name :: "trigger_kind \<Rightarrow> string" where
  "kind_name PlayerCard = ''player_card''"
| "kind_name TeamCard = ''team_card''"
| "kind_name MatchResult = ''match_result''"
| "kind_name CustomText = ''custom_text''"

fun is_auto :: "dismiss_mode \<Rightarrow> bool" where
  "is_auto Manual = False"
| "is_auto (Auto d) = True"

section \<open>The queue\<close>

text \<open>What the sweeper and the reload keep.\<close>

definition alive :: "int \<Rightarrow> trigger \<Rightarrow> bool" where
  "alive now t = (case tr_dismiss t of Manual \<Rightarrow> True | Auto d \<Rightarrow> now - tr_started t < d)"

definition storage_key :: "int option \<Rightarrow> string" where
  "storage_key courtID =
     (case courtID of Some c \<Rightarrow> ''cc:overlay:trigger-queue:'' @ show_int c
      | None \<Rightarrow> ''cc:overlay:trigger-queue'')"

definition fire :: "string \<Rightarrow> int \<Rightarrow> trigger_input \<Rightarrow> trigger list \<Rightarrow> trigger list" where
  "fire newId now inp prev =
     \<lparr> tr_id = newId, tr_kind = ti_kind inp, tr_started = now, tr_dismiss = ti_dismiss inp,
       tr_payload = ti_payload inp \<rparr> # prev"

definition dismiss :: "string \<Rightarrow> trigger list \<Rightarrow> trigger list" where
  "dismiss ident prev = filter (\<lambda>t. tr_id t \<noteq> ident) prev"

definition dismissAll :: "trigger_kind option \<Rightarrow> trigger list \<Rightarrow> trigger list" where
  "dismissAll kind prev =
     (case kind of None \<Rightarrow> [] | Some k \<Rightarrow> filter (\<lambda>t. tr_kind t \<noteq> k) prev)"

definition sweep :: "int \<Rightarrow> trigger list \<Rightarrow> trigger list" where
  "sweep now prev =
     (let next = filter (alive now) prev in if length next = length prev then prev else next)"

definition needsSweep :: "trigger list \<Rightarrow> bool" where
  "needsSweep ts = list_ex (\<lambda>t. is_auto (tr_dismiss t)) ts"

lemma sweep_filter: "sweep now ts = filter (alive now) ts"
  by (simp add: sweep_def Let_def filter_length_same_iff)

section \<open>What a page load finds in the session storage\<close>

definition trigger_js :: "trigger \<Rightarrow> js" where
  "trigger_js t = Obj
     [(''id'', Str (tr_id t)), (''kind'', Str (kind_name (tr_kind t))),
      (''startedAt'', Num (tr_started t)),
      (''dismiss'', case tr_dismiss t of Manual \<Rightarrow> Obj [(''kind'', Str ''manual'')]
         | Auto d \<Rightarrow> Obj [(''kind'', Str ''auto''), (''durationMs'', Num d)]),
      (''payload'', tr_payload t)]"

text \<open>
  The filter of \<open>loadTriggers\<close> on one parsed element. \<open>None\<close> is a throw: the whole load
  then yields the empty list. A comparison with a field that is no number is false.
\<close>

fun elapsed_ok :: "int \<Rightarrow> js \<Rightarrow> js \<Rightarrow> bool" where
  "elapsed_ok now (Num st) (Num d) = (now - st < d)"
| "elapsed_ok now _ _ = False"

fun keep_loaded :: "int \<Rightarrow> js \<Rightarrow> bool" where
  "keep_loaded now (Obj kvs) =
     (let t = Obj kvs; d = js_opt_get t ''dismiss'' in
      if js_opt_get d ''kind'' \<noteq> Str ''auto'' then True
      else elapsed_ok now (js_opt_get t ''startedAt'') (js_opt_get d ''durationMs''))"
| "keep_loaded now (Arr xs) = True"
| "keep_loaded now _ = False"

definition loadTriggers :: "js option \<Rightarrow> int \<Rightarrow> js list" where
  "loadTriggers parsed now =
     (case parsed of Some (Arr ts) \<Rightarrow> filter (keep_loaded now) ts | _ \<Rightarrow> [])"

lemma keep_loaded_trigger: "keep_loaded now (json_wire (trigger_js t)) = alive now t"
  by (cases "tr_dismiss t"; cases "tr_payload t = Undef")
    (simp_all add: trigger_js_def alive_def js_opt_get_def Let_def)

lemma trigger_js_defined: "trigger_js t \<noteq> Undef"
  by (simp add: trigger_js_def)

section \<open>The hook in a browser tab\<close>

text \<open>
  Each use of the hook is an instance with its own list. The tab's session storage is
  shared; an instance reads it only when it mounts and writes it when it gets a new list or
  a new key. A sweep that drops nothing returns the same list, so it writes nothing.
  \<open>q_sweeping\<close> is whether the instance's interval runs.
\<close>

record tqueue =
  q_court :: "int option"
  q_triggers :: "trigger list"
  q_sweeping :: bool

record tab =
  tb_store :: "string \<Rightarrow> trigger list option"
  tb_queues :: "nat \<Rightarrow> tqueue option"

definition load_stored :: "trigger list option \<Rightarrow> int \<Rightarrow> trigger list" where
  "load_stored stored now = (case stored of None \<Rightarrow> [] | Some ts \<Rightarrow> filter (alive now) ts)"

definition commit :: "nat \<Rightarrow> tqueue \<Rightarrow> tab \<Rightarrow> tab" where
  "commit n q tb =
     tb\<lparr> tb_store := (tb_store tb)(storage_key (q_court q) \<mapsto> q_triggers q),
         tb_queues := (tb_queues tb)(n \<mapsto> q\<lparr> q_sweeping := needsSweep (q_triggers q) \<rparr>) \<rparr>"

datatype queue_event =
    Fire string int trigger_input
  | Dismiss string
  | DismissAll "trigger_kind option"
  | Tick int

fun queue_step :: "bool \<Rightarrow> trigger list \<Rightarrow> queue_event \<Rightarrow> trigger list" where
  "queue_step sweeping ts (Fire newId now inp) = fire newId now inp ts"
| "queue_step sweeping ts (Dismiss ident) = dismiss ident ts"
| "queue_step sweeping ts (DismissAll kind) = dismissAll kind ts"
| "queue_step sweeping ts (Tick now) = (if sweeping then sweep now ts else ts)"

fun same_list :: "trigger list \<Rightarrow> trigger list \<Rightarrow> queue_event \<Rightarrow> bool" where
  "same_list prev next (Tick now) = (length next = length prev)"
| "same_list prev next e = False"

datatype tab_event =
    Mount nat "int option" int
  | SetCourt nat "int option"
  | Queue nat queue_event

fun tab_step :: "tab \<Rightarrow> tab_event \<Rightarrow> tab" where
  "tab_step tb (Mount n courtID now) =
     commit n \<lparr> q_court = courtID,
                q_triggers = load_stored (tb_store tb (storage_key courtID)) now,
                q_sweeping = False \<rparr> tb"
| "tab_step tb (SetCourt n courtID) =
     (case tb_queues tb n of None \<Rightarrow> tb
      | Some q \<Rightarrow>
          if storage_key courtID = storage_key (q_court q)
          then tb\<lparr> tb_queues := (tb_queues tb)(n \<mapsto> q\<lparr> q_court := courtID \<rparr>) \<rparr>
          else commit n (q\<lparr> q_court := courtID \<rparr>) tb)"
| "tab_step tb (Queue n e) =
     (case tb_queues tb n of None \<Rightarrow> tb
      | Some q \<Rightarrow>
          (let ts = queue_step (q_sweeping q) (q_triggers q) e in
           if same_list (q_triggers q) ts e then tb else commit n (q\<lparr> q_triggers := ts \<rparr>) tb))"

definition empty_tab :: tab where
  "empty_tab = \<lparr> tb_store = (\<lambda>_. None), tb_queues = (\<lambda>_. None) \<rparr>"

text \<open>One instance alone: its list along the events it gets.\<close>

definition solo_step :: "trigger list \<Rightarrow> queue_event \<Rightarrow> trigger list" where
  "solo_step ts e = queue_step (needsSweep ts) ts e"

lemma sweep_idle: "\<not> needsSweep ts \<Longrightarrow> sweep now ts = ts"
  by (simp add: sweep_filter needsSweep_def list_ex_iff filter_id_conv alive_def
      split: dismiss_mode.split) force

lemma solo_tick: "solo_step ts (Tick now) = filter (alive now) ts"
  by (simp add: solo_step_def sweep_filter [symmetric] sweep_idle)

text \<open>
  The specification of the queue: the triggers fired, newest first, less those a later
  event removes.
\<close>

fun survives :: "trigger \<Rightarrow> queue_event \<Rightarrow> bool" where
  "survives t (Fire newId now inp) = True"
| "survives t (Dismiss ident) = (tr_id t \<noteq> ident)"
| "survives t (DismissAll kind) = (case kind of None \<Rightarrow> False | Some k \<Rightarrow> tr_kind t \<noteq> k)"
| "survives t (Tick now) = alive now t"

fun on_air :: "queue_event list \<Rightarrow> trigger list" where
  "on_air [] = []"
| "on_air (Fire newId now inp # es) =
     on_air es @ filter (\<lambda>t. list_all (survives t) es) (fire newId now inp [])"
| "on_air (_ # es) = on_air es"

lemma solo_run:
  "run solo_step ts es = on_air es @ filter (\<lambda>t. list_all (survives t) es) ts"
proof (induction es arbitrary: ts)
  case Nil
  then show ?case by simp
next
  case (Cons e es)
  show ?case
  proof (cases e)
    case (Fire newId now inp)
    then show ?thesis using Cons by (simp add: solo_step_def fire_def)
  next
    case (Dismiss ident)
    then show ?thesis using Cons by (simp add: solo_step_def dismiss_def conj_commute)
  next
    case (DismissAll kind)
    then show ?thesis using Cons
      by (cases kind) (simp_all add: solo_step_def dismissAll_def conj_commute)
  next
    case (Tick now)
    then show ?thesis using Cons by (simp add: solo_tick conj_commute)
  qed
qed

section \<open>The Triggers tab\<close>

fun summarizeTrigger :: "trigger \<Rightarrow> string option" where
  "summarizeTrigger t =
     (let p = tr_payload t;
          str = (\<lambda>k pre post. case js_opt_get p k of Str s \<Rightarrow> Some (pre @ s @ post) | _ \<Rightarrow> None) in
      if \<not> truthy p then None
      else
        (case tr_kind t of
           CustomText \<Rightarrow>
             str ''text'' (map char_of [226, 128, 156 :: nat]) (map char_of [226, 128, 157 :: nat])
         | PlayerCard \<Rightarrow> str ''player_id'' ''Player #'' []
         | TeamCard \<Rightarrow> str ''team_id'' ''Team #'' []
         | MatchResult \<Rightarrow> None))"

definition useRemainingMs :: "int \<Rightarrow> trigger \<Rightarrow> int option" where
  "useRemainingMs now t =
     (case tr_dismiss t of Manual \<Rightarrow> None | Auto d \<Rightarrow> Some (max 0 (d - (now - tr_started t))))"

text \<open>The readout of a row: \emph{manual}, or seconds left rounded up, or \emph{expiring}.\<close>

datatype readout = ReadManual | ReadSeconds int | ReadExpiring

definition row_readout :: "int \<Rightarrow> trigger \<Rightarrow> readout" where
  "row_readout now t =
     (if is_auto (tr_dismiss t)
      then (case useRemainingMs now t of Some r \<Rightarrow> ReadSeconds ((r + 999) div 1000)
            | None \<Rightarrow> ReadExpiring)
      else ReadManual)"

definition DISMISS_OPTIONS :: "dismiss_mode list" where
  "DISMISS_OPTIONS = [Manual, Auto 5000, Auto 10000, Auto 30000]"

record drawer =
  dr_kind :: trigger_kind
  dr_dismiss :: nat
  dr_text :: string
  dr_player :: string
  dr_team :: string
  dr_zone :: string

definition drawer_open :: "trigger_kind \<Rightarrow> drawer" where
  "drawer_open kind =
     \<lparr> dr_kind = kind, dr_dismiss = 0, dr_text = [], dr_player = [], dr_team = [],
       dr_zone = ''center'' \<rparr>"

definition canFire :: "drawer \<Rightarrow> bool" where
  "canFire d \<longleftrightarrow> dr_kind d \<noteq> CustomText \<or> 0 < length (trim (dr_text d))"

definition drawer_payload :: "drawer \<Rightarrow> js" where
  "drawer_payload d =
     (case dr_kind d of
        CustomText \<Rightarrow> Obj [(''text'', Str (trim (dr_text d))), (''zone'', Str (dr_zone d))]
      | PlayerCard \<Rightarrow>
          if trim (dr_player d) \<noteq> [] then Obj [(''player_id'', Str (trim (dr_player d)))] else Undef
      | TeamCard \<Rightarrow>
          if trim (dr_team d) \<noteq> [] then Obj [(''team_id'', Str (trim (dr_team d)))] else Undef
      | MatchResult \<Rightarrow> Undef)"

definition handleFire :: "drawer \<Rightarrow> trigger_input option" where
  "handleFire d =
     (if canFire d \<and> dr_dismiss d < length DISMISS_OPTIONS
      then Some \<lparr> ti_kind = dr_kind d, ti_dismiss = DISMISS_OPTIONS ! dr_dismiss d,
                  ti_payload = drawer_payload d \<rparr>
      else None)"

section \<open>The renderer's choice\<close>

definition pick :: "trigger list \<Rightarrow> trigger_kind \<Rightarrow> trigger option" where
  "pick ts kind = find (\<lambda>t. tr_kind t = kind) ts"

section \<open>One instance of the tab\<close>

definition holds_queue :: "nat \<Rightarrow> int option \<Rightarrow> trigger list \<Rightarrow> tab \<Rightarrow> bool" where
  "holds_queue n c ts tb \<longleftrightarrow>
     tb_queues tb n = Some \<lparr> q_court = c, q_triggers = ts, q_sweeping = needsSweep ts \<rparr>"

lemma holds_mount:
  "holds_queue n c (load_stored (tb_store tb (storage_key c)) now) (tab_step tb (Mount n c now))"
  by (simp add: holds_queue_def commit_def)

lemma queue_step_same:
  "same_list ts (queue_step b ts e) e \<Longrightarrow> queue_step b ts e = ts"
  by (cases e) (auto simp: sweep_filter filter_length_same_iff split: if_splits)

lemma holds_step:
  assumes "holds_queue n c ts tb"
  shows "holds_queue n c (solo_step ts e) (tab_step tb (Queue n e))"
  using assms queue_step_same [of ts "needsSweep ts" e]
  by (auto simp: holds_queue_def commit_def solo_step_def Let_def)

lemma holds_run:
  "holds_queue n c ts tb \<Longrightarrow>
    holds_queue n c (run solo_step ts es) (run tab_step tb (map (Queue n) es))"
  by (induction es arbitrary: ts tb) (simp_all add: holds_step del: tab_step.simps)

lemma store_step:
  assumes "holds_queue n c ts tb" and "tb_store tb (storage_key c) = Some ts"
  shows "tb_store (tab_step tb (Queue n e)) (storage_key c) = Some (solo_step ts e)"
  using assms queue_step_same [of ts "needsSweep ts" e]
  by (auto simp: holds_queue_def commit_def solo_step_def Let_def)

lemma store_run:
  "holds_queue n c ts tb \<Longrightarrow> tb_store tb (storage_key c) = Some ts \<Longrightarrow>
    tb_store (run tab_step tb (map (Queue n) es)) (storage_key c) = Some (run solo_step ts es)"
  by (induction es arbitrary: ts tb) (simp_all add: holds_step store_step del: tab_step.simps)

fun touches :: "nat \<Rightarrow> tab_event \<Rightarrow> bool" where
  "touches n (Mount m c now) = (m = n)"
| "touches n (SetCourt m c) = (m = n)"
| "touches n (Queue m e) = (m = n)"

lemma untouched_step: "\<not> touches n e \<Longrightarrow> tb_queues (tab_step tb e) n = tb_queues tb n"
  by (cases e) (auto simp: commit_def Let_def split: option.split)

lemma untouched_run:
  "list_all (\<lambda>e. \<not> touches n e) es \<Longrightarrow> tb_queues (run tab_step tb es) n = tb_queues tb n"
  by (induction es arbitrary: tb) (simp_all add: untouched_step del: tab_step.simps)

section \<open>Age order\<close>

fun event_time :: "queue_event \<Rightarrow> int option" where
  "event_time (Fire newId now inp) = Some now"
| "event_time _ = None"

definition clock_ok :: "queue_event list \<Rightarrow> bool" where
  "clock_ok es \<longleftrightarrow> sorted (List.map_filter event_time es)"

lemma on_air_times:
  "t \<in> set (on_air es) \<Longrightarrow> tr_started t \<in> set (List.map_filter event_time es)"
  by (induction es rule: on_air.induct) (auto simp: map_filter_simps fire_def split: if_splits)

lemma on_air_sorted:
  "clock_ok es \<Longrightarrow> sorted_wrt (\<lambda>a b. tr_started b \<le> tr_started a) (on_air es)"
  unfolding clock_ok_def
  by (induction es rule: on_air.induct)
    (auto simp: map_filter_simps sorted_wrt_append fire_def dest: on_air_times split: if_splits)

lemma find_first:
  "find P xs = Some x \<Longrightarrow> sorted_wrt R xs \<Longrightarrow> y \<in> set xs \<Longrightarrow> P y \<Longrightarrow> y = x \<or> R x y"
  by (induction xs) (auto split: if_splits)

section \<open>Properties\<close>


text \<open>
  A reload keeps the queue: an instance mounted on the same court at \<open>later\<close> starts with
  the stored triggers whose time has not passed, and reading the stored JSON back gives them.
\<close>

theorem trigger_queue_reload:
  fixes n m c now later es
  defines "tb \<equiv> run tab_step empty_tab (Mount n c now # map (Queue n) es @ [Mount m c later])"
  shows "map_option q_triggers (tb_queues tb m) = Some (filter (alive later) (on_air es)) \<and>
    loadTriggers (Some (json_wire (Arr (map trigger_js (on_air es))))) later =
      map (json_wire \<circ> trigger_js) (filter (alive later) (on_air es))"
proof -
  let ?tb = "tab_step empty_tab (Mount n c now)"
  have h: "holds_queue n c [] ?tb" "tb_store ?tb (storage_key c) = Some []"
    using holds_mount [of n c empty_tab now]
    by (simp_all add: load_stored_def empty_tab_def commit_def)
  have "map_option q_triggers (tb_queues tb m) = Some (filter (alive later) (on_air es))"
    using store_run [OF h, of es] by (simp add: tb_def commit_def load_stored_def solo_run)
  moreover have "filter (keep_loaded later) (map (json_wire \<circ> trigger_js) ts) =
      map (json_wire \<circ> trigger_js) (filter (alive later) ts)" for ts
    by (induction ts) (simp_all add: keep_loaded_trigger)
  moreover have "json_wire (Arr (map trigger_js ts)) = Arr (map (json_wire \<circ> trigger_js) ts)" for ts
    by (simp add: trigger_js_defined)
  ultimately show ?thesis by (simp add: loadTriggers_def del: json_wire.simps)
qed



text \<open>
  When the court of a mounted instance changes, its list follows it: the triggers of
  the old court overwrite what was stored for the new one.
\<close>

theorem trigger_queue_court_switch:
  assumes "holds_queue n (Some old) ts tb" and "storage_key (Some new) \<noteq> storage_key (Some old)"
  shows "tb_store (tab_step tb (SetCourt n (Some new))) (storage_key (Some new)) = Some ts \<and>
    map_option q_triggers (tb_queues (tab_step tb (SetCourt n (Some new))) n) = Some ts"
  using assms by (simp add: holds_queue_def commit_def)

theorem trigger_queue_court_switch_witness:
  "tb_store (tab_step (tab_step (tab_step empty_tab (Mount 0 (Some 7) 0)) (Queue 0 (Fire ''a'' 6
      \<lparr> ti_kind = MatchResult, ti_dismiss = Manual, ti_payload = Undef \<rparr>)))
      (SetCourt 0 (Some 8))) (storage_key (Some 8)) =
   Some [\<lparr> tr_id = ''a'', tr_kind = MatchResult, tr_started = 6, tr_dismiss = Manual,
           tr_payload = Undef \<rparr>]"
proof -
  let ?e = "Fire ''a'' 6 \<lparr> ti_kind = MatchResult, ti_dismiss = Manual, ti_payload = Undef \<rparr>"
  have "holds_queue 0 (Some 7) [] (tab_step empty_tab (Mount 0 (Some 7) 0))"
    using holds_mount [of 0 "Some 7" empty_tab 0] by (simp add: load_stored_def empty_tab_def)
  from holds_step [OF this, of ?e] have "holds_queue 0 (Some 7) (solo_step [] ?e)
    (tab_step (tab_step empty_tab (Mount 0 (Some 7) 0)) (Queue 0 ?e))" .
  moreover have "storage_key (Some 8) \<noteq> storage_key (Some 7)"
    by (simp add: storage_key_def show_int_def show_nat.simps)
  ultimately show ?thesis
    using trigger_queue_court_switch [of 0 7 "solo_step [] ?e"
        "tab_step (tab_step empty_tab (Mount 0 (Some 7) 0)) (Queue 0 ?e)" 8]
    by (simp add: solo_step_def fire_def)
qed

text \<open>
  The renderer shows the newest live trigger of a kind: while the clock does not run
  backwards, no other trigger of that kind in the queue started later than the picked one,
  and one is picked whenever there is any.
\<close>

theorem pick_newest:
  assumes "clock_ok es"
  shows "(\<forall>t. pick (on_air es) k = Some t \<longrightarrow>
       t \<in> set (on_air es) \<and> tr_kind t = k \<and>
       (\<forall>t'\<in>set (on_air es). tr_kind t' = k \<longrightarrow> tr_started t' \<le> tr_started t)) \<and>
    (pick (on_air es) k = None \<longleftrightarrow> (\<forall>t\<in>set (on_air es). tr_kind t \<noteq> k))"
proof (intro conjI allI impI ballI)
  fix t
  assume p: "pick (on_air es) k = Some t"
  then show "t \<in> set (on_air es)" "tr_kind t = k" using find_in unfolding pick_def by fast+
  show "tr_started t' \<le> tr_started t" if "t' \<in> set (on_air es)" "tr_kind t' = k" for t'
    using find_first [OF p [unfolded pick_def] on_air_sorted [OF assms] that] by auto
qed (simp add: pick_def find_out)

theorem pick_newest_witness:
  "tr_started (the (pick (on_air [Fire ''a'' 1 \<lparr> ti_kind = TeamCard, ti_dismiss = Manual,
     ti_payload = Undef \<rparr>, Fire ''b'' 2 \<lparr> ti_kind = TeamCard, ti_dismiss = Auto 5000,
     ti_payload = Undef \<rparr>, Tick 100]) TeamCard)) \<ge> 1"
proof -
  let ?es = "[Fire ''a'' 1 \<lparr> ti_kind = TeamCard, ti_dismiss = Manual, ti_payload = Undef \<rparr>,
    Fire ''b'' 2 \<lparr> ti_kind = TeamCard, ti_dismiss = Auto 5000, ti_payload = Undef \<rparr>, Tick 100]"
  have "clock_ok ?es" by (simp add: clock_ok_def map_filter_simps)
  from pick_newest [OF this, of TeamCard] show ?thesis by (simp add: pick_def fire_def alive_def)
qed

text \<open>
  The drawer never fires a custom text that is blank, offers exactly one manual and
  three automatic dismissals, and a row never shows the \emph{expiring} readout the code
  provides for: an automatic trigger always has a number of seconds left to show.
\<close>

theorem drawer_and_row:
  "(\<forall>d inp. handleFire d = Some inp \<longrightarrow>
      ti_kind inp = dr_kind d \<and> ti_dismiss inp \<in> set DISMISS_OPTIONS \<and>
      (dr_kind d = CustomText \<longrightarrow>
         (\<exists>s. s \<noteq> [] \<and> js_opt_get (ti_payload inp) ''text'' = Str s))) \<and>
   (\<forall>now t. row_readout now t \<noteq> ReadExpiring) \<and>
   (\<forall>now t n. row_readout now t = ReadSeconds n \<longrightarrow> 0 \<le> n)"
proof (intro conjI allI impI)
  fix d inp
  assume "handleFire d = Some inp"
  then have c: "canFire d" "dr_dismiss d < length DISMISS_OPTIONS"
    "inp = \<lparr> ti_kind = dr_kind d, ti_dismiss = DISMISS_OPTIONS ! dr_dismiss d,
             ti_payload = drawer_payload d \<rparr>"
    by (auto simp: handleFire_def split: if_splits)
  then show "ti_kind inp = dr_kind d" "ti_dismiss inp \<in> set DISMISS_OPTIONS" by simp_all
  assume "dr_kind d = CustomText"
  then show "\<exists>s. s \<noteq> [] \<and> js_opt_get (ti_payload inp) ''text'' = Str s"
    using c by (auto simp: canFire_def drawer_payload_def js_opt_get_def)
next
  show "row_readout now t \<noteq> ReadExpiring" for now t
    by (cases "tr_dismiss t") (simp_all add: row_readout_def useRemainingMs_def)
next
  show "0 \<le> n" if "row_readout now t = ReadSeconds n" for now t n
    using that by (cases "tr_dismiss t") (auto simp: row_readout_def useRemainingMs_def)
qed

theorem drawer_and_row_witness:
  "handleFire (drawer_open CustomText) = None \<and>
   row_readout 0 \<lparr> tr_id = [], tr_kind = TeamCard, tr_started = 0, tr_dismiss = Auto 5000,
     tr_payload = Undef \<rparr> \<noteq> ReadExpiring"
  using drawer_and_row by (simp add: handleFire_def canFire_def drawer_open_def trim_def)

end
