(* ===== verification/Overlay_Elements.thy ===== *)
theory Overlay_Elements
  imports Overlay_Contract Fade_Mount Trigger_Queue
begin

text \<open>
  The twelve elements of the broadcast overlay, \<open>web/src/features/overlay/renderer/elements/\<close>:
  for each one the visibility it hands to the fade hook, what it shows once mounted, and
  where. \<open>None\<close> is an element that renders nothing. Colours, fonts and class names are left
  out; texts are the ones shown. \<open>mounted\<close> is the answer of the fade hook.
\<close>

definition mid_dot :: string where
  "mid_dot = '' '' @ map char_of [194 :: nat, 183] @ '' ''"

fun join_with :: "string \<Rightarrow> string list \<Rightarrow> string" where
  "join_with sep [] = []"
| "join_with sep [x] = x"
| "join_with sep (x # y # ys) = x @ sep @ join_with sep (y # ys)"

text \<open>\<open>a || b\<close> on strings, and \<open>xs.filter(Boolean).join(sep)\<close>.\<close>

definition str_or :: "string \<Rightarrow> string \<Rightarrow> string" where
  "str_or a b = (if a \<noteq> [] then a else b)"

definition join_present :: "string \<Rightarrow> string list \<Rightarrow> string" where
  "join_present sep xs = join_with sep (filter (\<lambda>s. s \<noteq> []) xs)"

record element_config =
  ec_visible :: bool
  ec_scale :: "number option"
  ec_position :: "string option"

definition place :: "string \<Rightarrow> element_config \<Rightarrow> string \<times> string \<times> number" where
  "place dflt cfg =
     (let p = (case ec_position cfg of Some p \<Rightarrow> p | None \<Rightarrow> dflt) in
      (positionClasses p, originForPosition p, clampElementScale (ec_scale cfg)))"

section \<open>Banners\<close>

record lower_third_view =
  lt_title :: string
  lt_matchup :: string
  lt_subtitle :: "string option"

definition LowerThird :: "overlay_data \<Rightarrow> bool \<Rightarrow> lower_third_view option" where
  "LowerThird data mounted =
     (if \<not> mounted then None
      else
        (let subtitle = join_present mid_dot [od_round_label data, od_match_info data] in
         Some \<lparr> lt_title = str_or (od_division_name data)
                  (str_or (od_tournament_name data) (od_court_name data)),
                lt_matchup = td_name (od_team_1 data) @ '' vs '' @ td_name (od_team_2 data),
                lt_subtitle = (if subtitle \<noteq> [] then Some subtitle else None) \<rparr>))"

definition ComingUpNext_visible :: "element_config \<Rightarrow> overlay_data \<Rightarrow> bool" where
  "ComingUpNext_visible cfg data \<longleftrightarrow> ec_visible cfg \<and> od_next_match data \<noteq> None"

record next_view =
  nv_team_1 :: string
  nv_team_2 :: string
  nv_subtitle :: "string option"
  nv_place :: "string \<times> string \<times> number"

definition ComingUpNext :: "element_config \<Rightarrow> overlay_data \<Rightarrow> bool \<Rightarrow> next_view option" where
  "ComingUpNext cfg data mounted =
     (case od_next_match data of None \<Rightarrow> None
      | Some nm \<Rightarrow>
          if \<not> mounted then None
          else
            (let subtitle = join_present mid_dot [nm_division_name nm, nm_round_label nm] in
             Some \<lparr> nv_team_1 = nm_team_1_name nm, nv_team_2 = nm_team_2_name nm,
                    nv_subtitle = (if subtitle \<noteq> [] then Some subtitle else None),
                    nv_place = place ''top-center'' cfg \<rparr>))"

text \<open>The tournament badge: its logo and its name; nothing when it has neither.\<close>

definition TournamentBug :: "overlay_data \<Rightarrow> bool \<Rightarrow> (string option \<times> string option) option" where
  "TournamentBug data mounted =
     (if \<not> mounted then None
      else
        (let logo = str_or (od_tournament_logo_url data) (od_league_logo_url data);
             nm = str_or (od_tournament_name data) (od_league_name data) in
         if logo = [] \<and> nm = [] then None
         else Some (if logo \<noteq> [] then Some logo else None, if nm \<noteq> [] then Some nm else None)))"

section \<open>Tables\<close>

record pool_row =
  pr_rank :: int
  pr_team :: string
  pr_wins :: int
  pr_losses :: int
  pr_diff :: string
  pr_bold :: bool

definition pool_row_of :: "pool_team_entry \<Rightarrow> pool_row" where
  "pool_row_of e =
     \<lparr> pr_rank = pe_rank e, pr_team = pe_team_name e, pr_wins = pe_wins e,
       pr_losses = pe_losses e,
       pr_diff = (if 0 < pe_point_differential e then ''+'' else []) @
                 show_int (pe_point_differential e),
       pr_bold = (pe_rank e = 1) \<rparr>"

text \<open>The heading and the rows; no rows is the \emph{No standings data} notice.\<close>

definition PoolStandings :: "overlay_data \<Rightarrow> bool \<Rightarrow> (string \<times> pool_row list) option" where
  "PoolStandings data mounted =
     (if \<not> mounted then None
      else
        (case od_pool data of
           None \<Rightarrow>
             Some (''Pool Standings'' @ mid_dot @ str_or (od_division_name data) ''Division'', [])
         | Some pool \<Rightarrow>
             Some (str_or (pd_pool_name pool) ''Pool'' @ '' Standings'' @ mid_dot @
                     str_or (pd_division_name pool) (str_or (od_division_name data) ''Division''),
                   map pool_row_of (pd_standings pool))))"

record bracket_side =
  bs_name :: string
  bs_score :: int
  bs_dim :: bool
  bs_bold :: bool

record bracket_card =
  bc_side_1 :: bracket_side
  bc_side_2 :: bracket_side
  bc_active :: bool

definition bracket_card_of :: "bracket_match \<Rightarrow> bracket_card" where
  "bracket_card_of m =
     (let isActive = (bm_status m = ''in_progress''); isComplete = (bm_status m = ''completed'') in
      \<lparr> bc_side_1 = \<lparr> bs_name = str_or (bm_team_1_name m) ''TBD'', bs_score = bm_team_1_score m,
                      bs_dim = (isComplete \<and> bm_winner m = 2),
                      bs_bold = (isComplete \<and> bm_winner m = 1) \<rparr>,
        bc_side_2 = \<lparr> bs_name = str_or (bm_team_2_name m) ''TBD'', bs_score = bm_team_2_score m,
                      bs_dim = (isComplete \<and> bm_winner m = 1),
                      bs_bold = (isComplete \<and> bm_winner m = 2) \<rparr>,
        bc_active = isActive \<rparr>)"

definition BracketSnapshot ::
    "overlay_data \<Rightarrow> bool \<Rightarrow> (string \<times> (string \<times> bracket_card list) list) option" where
  "BracketSnapshot data mounted =
     (if \<not> mounted then None
      else
        (let division = (case od_bracket data of None \<Rightarrow> [] | Some b \<Rightarrow> bd_division_name b);
             rounds = (case od_bracket data of None \<Rightarrow> [] | Some b \<Rightarrow> bd_rounds b) in
         Some (''Bracket'' @ mid_dot @
                 str_or division (str_or (od_division_name data)
                   (str_or (od_tournament_name data) ''Tournament'')),
               map (\<lambda>r. (br_round_name r, map bracket_card_of (br_matches r))) rounds)))"

section \<open>The series score\<close>

record series_state =
  se_pulse :: "int option"
  se_prev :: "(int \<times> int) option"
  se_timer :: bool

definition series_init :: series_state where
  "series_init = \<lparr> se_pulse = None, se_prev = None, se_timer = False \<rparr>"

datatype series_event =
    SeriesData "series_data option"
  | PulseOver

text \<open>The effect clears the running timer first (the cleanup of the effect that set it).\<close>

fun series_step :: "series_state \<Rightarrow> series_event \<Rightarrow> series_state" where
  "series_step s (SeriesData None) = s\<lparr> se_timer := False, se_prev := None \<rparr>"
| "series_step s (SeriesData (Some d)) =
     (let s = s\<lparr> se_timer := False \<rparr>; t1 = sd_team_1_wins d; t2 = sd_team_2_wins d in
      (case se_prev s of
         Some (p1, p2) \<Rightarrow>
           if p1 < t1 then s\<lparr> se_pulse := Some 1, se_timer := True, se_prev := Some (t1, t2) \<rparr>
           else if p2 < t2
           then s\<lparr> se_pulse := Some 2, se_timer := True, se_prev := Some (t1, t2) \<rparr>
           else s\<lparr> se_prev := Some (t1, t2) \<rparr>
       | None \<Rightarrow> s\<lparr> se_prev := Some (t1, t2) \<rparr>))"
| "series_step s PulseOver =
     (if se_timer s then s\<lparr> se_timer := False, se_pulse := None \<rparr> else s)"

definition SeriesScore_visible :: "element_config \<Rightarrow> overlay_data \<Rightarrow> bool" where
  "SeriesScore_visible cfg data \<longleftrightarrow> ec_visible cfg \<and> od_series_score data \<noteq> None"

text \<open>One row of dots: won or not, and whether the dot is enlarged.\<close>

definition DotRow :: "int \<Rightarrow> int \<Rightarrow> bool \<Rightarrow> (bool \<times> bool) list" where
  "DotRow wins total_cells pulse =
     map (\<lambda>i. (i < wins, pulse \<and> i < wins \<and> i = wins - 1)) (map int [0..<nat total_cells])"

definition row_cells :: "int \<Rightarrow> int" where
  "row_cells best_of = max (- ((- best_of) div 2)) 1"

definition SeriesScore ::
    "overlay_data \<Rightarrow> series_state \<Rightarrow> bool \<Rightarrow> ((bool \<times> bool) list \<times> (bool \<times> bool) list) option" where
  "SeriesScore data st mounted =
     (case od_series_score data of None \<Rightarrow> None
      | Some d \<Rightarrow>
          if \<not> mounted then None
          else Some (DotRow (sd_team_1_wins d) (row_cells (sd_best_of d)) (se_pulse st = Some 1),
                     DotRow (sd_team_2_wins d) (row_cells (sd_best_of d)) (se_pulse st = Some 2)))"

section \<open>The sponsor rotation\<close>

record sponsor_state =
  sp_active :: int
  sp_interval :: "nat option"      (* the number of logos the running interval was set for *)

definition sponsor_logos :: "sponsor_logo list option \<Rightarrow> overlay_data \<Rightarrow> sponsor_logo list" where
  "sponsor_logos configured data =
     (case configured of Some ls \<Rightarrow> if 0 < length ls then ls else od_sponsor_logos data
      | None \<Rightarrow> od_sponsor_logos data)"

definition rotationMs :: "int option \<Rightarrow> int" where
  "rotationMs rotation_seconds =
     max 1000 ((case rotation_seconds of Some s \<Rightarrow> s | None \<Rightarrow> 8) * 1000)"

datatype sponsor_event =
    SponsorRender bool nat
  | SponsorTick

text \<open>
  A render with the visibility and the number of logos runs both effects: the interval is
  on when visible with two logos or more, and an index past the end goes back to the first.
\<close>

fun sponsor_step :: "sponsor_state \<Rightarrow> sponsor_event \<Rightarrow> sponsor_state" where
  "sponsor_step s (SponsorRender visible n) =
     s\<lparr> sp_interval := (if visible \<and> 2 \<le> n then Some n else None),
        sp_active := (if int n \<le> sp_active s \<and> 0 < n then 0 else sp_active s) \<rparr>"
| "sponsor_step s SponsorTick =
     (case sp_interval s of None \<Rightarrow> s
      | Some n \<Rightarrow> s\<lparr> sp_active := (sp_active s + 1) mod int n \<rparr>)"

datatype sponsor_view = NoSponsor | SponsorPlaceholder | SponsorLogo string string

definition SponsorBug :: "sponsor_logo list \<Rightarrow> int \<Rightarrow> bool \<Rightarrow> sponsor_view" where
  "SponsorBug logos activeIndex mounted =
     (if \<not> mounted then NoSponsor
      else if logos = [] then SponsorPlaceholder
      else if 0 \<le> activeIndex \<and> nat activeIndex < length logos
      then (let a = logos ! nat activeIndex in SponsorLogo (str_or (sl_name a) ''Sponsor'') (sl_logo_url a))
      else NoSponsor)"

section \<open>Cards\<close>

definition card_visible :: "trigger option \<Rightarrow> bool \<Rightarrow> bool" where
  "card_visible trig visible \<longleftrightarrow> trig \<noteq> None \<or> visible"

text \<open>A field of the trigger's payload when it is a string.\<close>

definition payload_str :: "trigger option \<Rightarrow> string \<Rightarrow> string option" where
  "payload_str trig k =
     (case trig of None \<Rightarrow> None
      | Some t \<Rightarrow> (case js_opt_get (tr_payload t) k of Str s \<Rightarrow> Some s | _ \<Rightarrow> None))"

definition to_lower :: "char \<Rightarrow> char" where
  "to_lower c = (let n = of_char c :: nat in if 65 \<le> n \<and> n \<le> 90 then char_of (n + 32) else c)"

definition name_matches :: "string \<Rightarrow> string \<Rightarrow> bool" where
  "name_matches playerId nm \<longleftrightarrow>
     nm = playerId \<or> sublist (map to_lower playerId) (map to_lower nm)"

definition nth_opt :: "'a list \<Rightarrow> nat \<Rightarrow> 'a option" where
  "nth_opt xs n = (if n < length xs then Some (xs ! n) else None)"

definition slot_pick :: "overlay_data \<Rightarrow> string \<Rightarrow> (string \<times> team_data) option" where
  "slot_pick data slot =
     (let team = (if prefix ''team_1'' slot then od_team_1 data else od_team_2 data);
          idx = (if suffix ''player_2'' slot then 1 else 0) in
      map_option (\<lambda>p. (p, team)) (nth_opt (td_players team) idx))"

definition server_pick :: "overlay_data \<Rightarrow> string option \<times> team_data" where
  "server_pick data =
     (let team = (if od_serving_team data = 2 then od_team_2 data else od_team_1 data);
          idx = nat (max 0 (od_server_number data - 1)) in
      (case nth_opt (td_players team) idx of
         Some p \<Rightarrow> (Some p, team)
       | None \<Rightarrow> (nth_opt (td_players team) 0, team)))"

definition resolvePlayer ::
    "overlay_data \<Rightarrow> string option \<Rightarrow> string option \<Rightarrow> string option \<times> team_data" where
  "resolvePlayer data playerId slot =
     (let find_in = (\<lambda>team. map_option (\<lambda>p. (p, team))
            (case playerId of None \<Rightarrow> None
             | Some pid \<Rightarrow> if pid = [] then None else find (name_matches pid) (td_players team)));
          by_slot = (case slot of None \<Rightarrow> None | Some sl \<Rightarrow> if sl = [] then None else slot_pick data sl) in
      (case find_in (od_team_1 data) of
         Some (p, team) \<Rightarrow> (Some p, team)
       | None \<Rightarrow>
           (case find_in (od_team_2 data) of
              Some (p, team) \<Rightarrow> (Some p, team)
            | None \<Rightarrow>
                (case by_slot of Some (p, team) \<Rightarrow> (Some p, team) | None \<Rightarrow> server_pick data))))"

definition ws_words :: "string \<Rightarrow> string list" where
  "ws_words s =
     (if trim s = [] then [[]]
      else filter (\<lambda>w. w \<noteq> [])
        (split_on CHR '' '' (map (\<lambda>c. if is_space c then CHR '' '' else c) (trim s))))"

definition initialsOf :: "string \<Rightarrow> string" where
  "initialsOf name =
     (if name = [] then ''?''
      else concat (map (\<lambda>w. case w of [] \<Rightarrow> [] | c # _ \<Rightarrow> [to_upper c]) (take 2 (ws_words name))))"

definition PlayerCard_view ::
    "overlay_data \<Rightarrow> trigger option \<Rightarrow> string option \<Rightarrow> bool \<Rightarrow> (string \<times> string \<times> string) option" where
  "PlayerCard_view data trig selected mounted =
     (if \<not> mounted then None
      else
        (case resolvePlayer data (payload_str trig ''player_id'') selected of
           (None, _) \<Rightarrow> None
         | (Some p, team) \<Rightarrow> Some (initialsOf p, td_name team, p)))"

text \<open>The team card shows one team or both.\<close>

definition TeamCard_view ::
    "overlay_data \<Rightarrow> trigger option \<Rightarrow> string option \<Rightarrow> bool \<Rightarrow> team_data list" where
  "TeamCard_view data trig selected mounted =
     (let raw = (case trig of None \<Rightarrow> Undef | Some t \<Rightarrow> js_opt_get (tr_payload t) ''team_id'');
          by_trigger = (if raw = Str ''1'' \<or> raw = Num 1 then Some (od_team_1 data)
                        else if raw = Str ''2'' \<or> raw = Num 2 then Some (od_team_2 data) else None);
          by_config = (if selected = Some ''team_1'' then Some (od_team_1 data)
                       else if selected = Some ''team_2'' then Some (od_team_2 data) else None) in
      if \<not> mounted then []
      else
        (case by_trigger of Some t \<Rightarrow> [t]
         | None \<Rightarrow> (case by_config of Some t \<Rightarrow> [t] | None \<Rightarrow> [od_team_1 data, od_team_2 data])))"

section \<open>Custom text\<close>

definition zoneToPosition :: "string option \<Rightarrow> string option" where
  "zoneToPosition zone =
     (case zone of None \<Rightarrow> None
      | Some z \<Rightarrow> map_of
          [(''top'', ''top-center''), (''bottom'', ''bottom-center''), (''center'', ''middle-center''),
           (''top-left'', ''top-left''), (''top-right'', ''top-right''),
           (''bottom-left'', ''bottom-left''), (''bottom-right'', ''bottom-right'')] z)"

definition ALLOWED_POSITIONS :: "string list" where
  "ALLOWED_POSITIONS =
     [''top-left'', ''top-center'', ''top-right'', ''middle-left'', ''middle-center'',
      ''middle-right'', ''bottom-left'', ''bottom-center'', ''bottom-right'']"

definition resolvePosition :: "string option \<Rightarrow> string option \<Rightarrow> string" where
  "resolvePosition position legacyZone =
     (case position of
        Some p \<Rightarrow>
          if p \<in> set ALLOWED_POSITIONS then p
          else (case zoneToPosition legacyZone of Some q \<Rightarrow> q | None \<Rightarrow> ''middle-center'')
      | None \<Rightarrow> (case zoneToPosition legacyZone of Some q \<Rightarrow> q | None \<Rightarrow> ''middle-center''))"

definition resolveFontFamily :: "string option \<Rightarrow> string" where
  "resolveFontFamily value =
     (case value of None \<Rightarrow> ''var(--overlay-font-family)''
      | Some v \<Rightarrow> if v = [] \<or> v = ''system'' then ''var(--overlay-font-family)'' else v)"

record custom_text_config =
  ct_visible :: bool
  ct_text :: "string option"
  ct_position :: "string option"
  ct_zone :: "string option"

definition or_else :: "'a option \<Rightarrow> 'a option \<Rightarrow> 'a option" where
  "or_else a b = (case a of Some x \<Rightarrow> Some x | None \<Rightarrow> b)"

definition custom_text :: "custom_text_config \<Rightarrow> trigger option \<Rightarrow> string" where
  "custom_text cfg trig =
     trim (case or_else (payload_str trig ''text'') (ct_text cfg) of Some s \<Rightarrow> s | None \<Rightarrow> [])"

definition CustomText_visible :: "custom_text_config \<Rightarrow> trigger option \<Rightarrow> bool" where
  "CustomText_visible cfg trig \<longleftrightarrow>
     card_visible trig (ct_visible cfg) \<and> 0 < length (custom_text cfg trig)"

text \<open>The text and its anchor.\<close>

definition CustomText_view ::
    "custom_text_config \<Rightarrow> trigger option \<Rightarrow> bool \<Rightarrow> (string \<times> string) option" where
  "CustomText_view cfg trig mounted =
     (if \<not> mounted \<or> custom_text cfg trig = [] then None
      else Some (custom_text cfg trig,
        resolvePosition (or_else (payload_str trig ''position'') (ct_position cfg))
          (or_else (payload_str trig ''zone'') (ct_zone cfg))))"

section \<open>The match result banner\<close>

datatype result_phase = Idle | Entering | Shown | Leaving

datatype result_callback = EnterTimer | ShowFrame | DismissTimer | LeaveTimer

record result_state =
  mr_phase :: result_phase
  mr_pending :: "result_callback list"

definition result_active :: "trigger option \<Rightarrow> bool \<Rightarrow> string \<Rightarrow> bool" where
  "result_active trig visible match_status \<longleftrightarrow>
     trig \<noteq> None \<or> (visible \<and> match_status = ''completed'')"

definition dismissMs :: "int option \<Rightarrow> int" where
  "dismissMs auto_dismiss_seconds =
     (case auto_dismiss_seconds of None \<Rightarrow> 30000 | Some s \<Rightarrow> max 0 (s * 1000))"

definition result_init :: result_state where
  "result_init = \<lparr> mr_phase = Idle, mr_pending = [] \<rparr>"

datatype result_event =
    Activate bool int
  | RunResult result_callback

text \<open>
  \<open>Activate\<close> is a change of the effect's dependencies; its cleanup cancels what is pending.
  The browser runs a pending callback; the dismissal is due after the entry.
\<close>

fun result_step :: "result_state \<Rightarrow> result_event \<Rightarrow> result_state" where
  "result_step s (Activate isActive dms) =
     (if \<not> isActive then \<lparr> mr_phase = Idle, mr_pending = [] \<rparr>
      else s\<lparr> mr_pending := EnterTimer # (if 0 < dms then [DismissTimer] else []) \<rparr>)"
| "result_step s (RunResult c) =
     (if c \<notin> set (mr_pending s) \<or> (c = DismissTimer \<and> EnterTimer \<in> set (mr_pending s)) then s
      else
        (let rest = filter (\<lambda>d. d \<noteq> c) (mr_pending s) in
         case c of
           EnterTimer \<Rightarrow> \<lparr> mr_phase = Entering, mr_pending = rest @ [ShowFrame] \<rparr>
         | ShowFrame \<Rightarrow> \<lparr> mr_phase = Shown, mr_pending = rest \<rparr>
         | DismissTimer \<Rightarrow> \<lparr> mr_phase = Leaving, mr_pending = rest @ [LeaveTimer] \<rparr>
         | LeaveTimer \<Rightarrow> \<lparr> mr_phase = Idle, mr_pending = rest \<rparr>))"

text \<open>The banner: winner, loser and their wins, and whether it is opaque.\<close>

definition result_winner :: "overlay_data \<Rightarrow> (team_data \<times> team_data) option" where
  "result_winner data =
     (let a = od_team_1 data; b = od_team_2 data in
      if td_game_wins b < td_game_wins a then Some (a, b)
      else if td_game_wins a < td_game_wins b then Some (b, a) else None)"

definition MatchResult_view :: "overlay_data \<Rightarrow> result_state \<Rightarrow> (string \<times> string \<times> int \<times> int \<times> bool) option" where
  "MatchResult_view data s =
     (if mr_phase s = Idle then None
      else map_option (\<lambda>(w, l). (td_name w, td_name l, td_game_wins (od_team_1 data),
             td_game_wins (od_team_2 data), mr_phase s = Shown)) (result_winner data))"

section \<open>Lemmas\<close>

lemma nth_opt_in: "nth_opt xs n = Some x \<Longrightarrow> x \<in> set xs"
  by (auto simp: nth_opt_def split: if_splits)

lemma nth_opt_0: "nth_opt xs 0 = None \<longleftrightarrow> xs = []"
  by (simp add: nth_opt_def)

lemma server_pick_team:
  "server_pick data = (p, team) \<Longrightarrow> team \<in> {od_team_1 data, od_team_2 data} \<and>
    (\<forall>x. p = Some x \<longrightarrow> x \<in> set (td_players team)) \<and> (p = None \<longleftrightarrow> td_players team = [])"
  by (auto simp: server_pick_def Let_def nth_opt_def split: if_splits option.splits)

lemma slot_pick_team:
  "slot_pick data slot = Some (p, team) \<Longrightarrow>
    team \<in> {od_team_1 data, od_team_2 data} \<and> p \<in> set (td_players team)"
  by (auto simp: slot_pick_def Let_def dest: nth_opt_in split: if_splits)

lemma resolvePlayer_team:
  assumes "resolvePlayer data pid slot = (p, team)"
  shows "team \<in> {od_team_1 data, od_team_2 data} \<and> (\<forall>x. p = Some x \<longrightarrow> x \<in> set (td_players team))"
  using assms server_pick_team slot_pick_team
  by (fastforce simp: resolvePlayer_def Let_def dest: find_in split: option.splits if_splits)

lemma resolvePosition_allowed: "resolvePosition p z \<in> set ALLOWED_POSITIONS"
  by (auto simp: resolvePosition_def zoneToPosition_def ALLOWED_POSITIONS_def
      split: option.splits if_splits)

text \<open>The banner's callbacks: which may be pending in which phase.\<close>

definition result_inv :: "result_state \<Rightarrow> bool" where
  "result_inv s \<longleftrightarrow> distinct (mr_pending s) \<and>
     (DismissTimer \<in> set (mr_pending s) \<longrightarrow> LeaveTimer \<notin> set (mr_pending s)) \<and>
     (LeaveTimer \<in> set (mr_pending s) \<longrightarrow> EnterTimer \<notin> set (mr_pending s)) \<and>
     (EnterTimer \<in> set (mr_pending s) \<longrightarrow> ShowFrame \<notin> set (mr_pending s)) \<and>
     (mr_phase s = Entering \<and> EnterTimer \<notin> set (mr_pending s) \<longrightarrow> ShowFrame \<in> set (mr_pending s)) \<and>
     (mr_phase s = Leaving \<and> EnterTimer \<notin> set (mr_pending s) \<longrightarrow> LeaveTimer \<in> set (mr_pending s))"

lemma result_inv_step: "result_inv s \<Longrightarrow> result_inv (result_step s e)"
proof (cases e)
  case (RunResult c)
  assume "result_inv s"
  then show ?thesis using RunResult by (cases c) (auto simp: result_inv_def Let_def)
qed (auto simp: result_inv_def)

interpretation banner: event_machine result_step "\<lambda>s. s = result_init" result_inv
  by unfold_locales (auto simp: result_inv_step, simp add: result_inv_def result_init_def)

text \<open>Running the callbacks in the order of their times.\<close>

definition result_timeline :: "result_event list" where
  "result_timeline = [RunResult EnterTimer, RunResult ShowFrame, RunResult DismissTimer, RunResult LeaveTimer]"

lemma result_dead: "mr_pending s = [] \<Longrightarrow> run result_step s (map RunResult cs) = s"
  by (induction cs) simp_all

lemma dots_won:
  "0 \<le> wins \<Longrightarrow> length (filter fst (DotRow wins cells pulse)) = nat (min wins (max cells 0))"
proof -
  assume "0 \<le> wins"
  then obtain w where w: "wins = int w" by (metis nonneg_int_cases)
  have "length (filter (\<lambda>i. int i < int w) [0..<n]) = min w n" for n
    by (induction n) (auto simp: min_def)
  then show ?thesis unfolding w DotRow_def by (auto simp: filter_map comp_def min_def max_def)
qed

lemma payload_str_text: "0 < length s \<longleftrightarrow> s \<noteq> []"
  by simp

definition sponsor_ok :: "sponsor_state \<Rightarrow> bool" where
  "sponsor_ok s \<longleftrightarrow> 0 \<le> sp_active s \<and> (\<forall>n. sp_interval s = Some n \<longrightarrow> 2 \<le> n)"

lemma sponsor_ok_step: "sponsor_ok s \<Longrightarrow> sponsor_ok (sponsor_step s e)"
  by (cases e) (auto simp: sponsor_ok_def split: option.split)

interpretation sponsor: event_machine sponsor_step "\<lambda>s. sp_active s = 0 \<and> sp_interval s = None" sponsor_ok
  by unfold_locales (auto intro: sponsor_ok_step, simp add: sponsor_ok_def)

lemma sponsor_valid:
  assumes "sponsor_ok s" and "logos \<noteq> []"
  defines "a \<equiv> \<lambda>v. sp_active (sponsor_step s (SponsorRender v (length logos)))"
  shows "0 \<le> a v \<and> nat (a v) < length logos"
  using assms(1,2) by (auto simp: a_def sponsor_ok_def nat_less_iff)

section \<open>Properties\<close>

text \<open>
  The player card always pairs a player with the team on whose roster the player is,
  one of the two playing. A trigger's player wins over the configured slot, the slot over
  the current server, and without either the server of the serving team is shown, or its
  first player when the server's place is empty.
\<close>

theorem player_card_selection:
  "(\<forall>p team. resolvePlayer data pid slot = (Some p, team) \<longrightarrow>
      team \<in> {od_team_1 data, od_team_2 data} \<and> p \<in> set (td_players team)) \<and>
   (\<forall>s. pid = Some s \<and> s \<in> set (td_players (od_team_1 data)) \<and> s \<noteq> [] \<longrightarrow>
      (\<exists>p. resolvePlayer data pid slot = (Some p, od_team_1 data) \<and> name_matches s p)) \<and>
   (\<forall>sl p team. pid = None \<and> slot = Some sl \<and> sl \<noteq> [] \<and> slot_pick data sl = Some (p, team) \<longrightarrow>
      resolvePlayer data pid slot = (Some p, team)) \<and>
   (pid = None \<and> slot = None \<longrightarrow> resolvePlayer data pid slot = server_pick data)"
proof (intro conjI allI impI)
  fix s
  assume s: "pid = Some s \<and> s \<in> set (td_players (od_team_1 data)) \<and> s \<noteq> []"
  then have "find (name_matches s) (td_players (od_team_1 data)) \<noteq> None"
    by (auto simp: find_out name_matches_def)
  then obtain p where "find (name_matches s) (td_players (od_team_1 data)) = Some p" by blast
  then show "\<exists>p. resolvePlayer data pid slot = (Some p, od_team_1 data) \<and> name_matches s p"
    using s find_in by (fastforce simp: resolvePlayer_def)
next
  fix p team
  assume r: "resolvePlayer data pid slot = (Some p, team)"
  show "team \<in> {od_team_1 data, od_team_2 data}" using resolvePlayer_team [OF r] by blast
  show "p \<in> set (td_players team)" using resolvePlayer_team [OF r] by blast
qed (auto simp: resolvePlayer_def)

definition sample_team :: "string \<Rightarrow> string list \<Rightarrow> int \<Rightarrow> team_data" where
  "sample_team nm ps wins =
     \<lparr> td_name = nm, td_short_name = nm, td_score = 0, td_color = [], td_logo_url = [],
       td_players = ps, td_game_wins = wins \<rparr>"

definition sample_data :: overlay_data where
  "sample_data =
     \<lparr> od_match_status = ''completed'', od_team_1 = sample_team ''Aces'' [''Ann'', ''Bo''] 2,
       od_team_2 = sample_team ''Kings'' [''Cy''] 1, od_serving_team = 2, od_server_number = 2,
       od_current_game = 3, od_completed_games = [], od_timeouts_remaining_1 = 0,
       od_timeouts_remaining_2 = 0, od_division_name = [], od_tournament_name = ''Open'',
       od_league_name = [], od_round_label = [], od_match_info = [], od_sponsor_logos = [],
       od_tournament_logo_url = [], od_league_logo_url = [], od_is_paused = False,
       od_series_score = None, od_next_match = None, od_court_name = ''Court 1'',
       od_bracket = None, od_pool = None \<rparr>"

text \<open>The server's place is empty on a one-player roster, so the first player is shown.\<close>

theorem player_card_selection_witness:
  "resolvePlayer sample_data None None = (Some ''Cy'', sample_team ''Kings'' [''Cy''] 1)"
proof -
  have "resolvePlayer sample_data None None = server_pick sample_data"
    using player_card_selection [of sample_data None None] by blast
  then show ?thesis by (simp add: server_pick_def sample_data_def sample_team_def nth_opt_def)
qed

text \<open>
  The result banner leaves nothing behind: when it is deactivated it is idle with no
  callback pending, whatever happened before. Run in the order of their times its callbacks
  show it and, with a dismissal time, end idle; without one it stays. It names the team
  with strictly more game wins and is not shown on a tie.
\<close>

theorem match_result_banner:
  fixes es dms
  defines "s \<equiv> run result_step result_init es"
  shows "result_step s (Activate False dms) = result_init \<and>
    mr_phase (run result_step s (Activate True dms # take 2 result_timeline)) = Shown \<and>
    run result_step s (Activate True dms # result_timeline) =
      \<lparr> mr_phase = (if 0 < dms then Idle else Shown), mr_pending = [] \<rparr> \<and>
    (\<forall>w l. result_winner data = Some (w, l) \<longrightarrow> td_game_wins l < td_game_wins w) \<and>
    (td_game_wins (od_team_1 data) = td_game_wins (od_team_2 data) \<longrightarrow> MatchResult_view data s = None)"
  by (auto simp: result_init_def result_timeline_def MatchResult_view_def result_winner_def Let_def
      split: if_splits)

theorem match_result_banner_witness:
  "td_game_wins (snd (the (result_winner sample_data))) < td_game_wins (fst (the (result_winner sample_data)))"
proof -
  have "result_winner sample_data =
      Some (sample_team ''Aces'' [''Ann'', ''Bo''] 2, sample_team ''Kings'' [''Cy''] 1)"
    by (simp add: result_winner_def sample_data_def sample_team_def)
  then show ?thesis using match_result_banner [where data = sample_data] by fastforce
qed

text \<open>
  The frame request of the entry is not cancelled by the dismissal. In a page that
  paints no frames for the whole display time (a hidden tab) it is still pending when the
  banner has gone, and the next painted frame shows the banner with nothing left to remove
  it.
\<close>

theorem match_result_late_frame:
  assumes "0 < dms"
  defines "s \<equiv> run result_step result_init
     [Activate True dms, RunResult EnterTimer, RunResult DismissTimer, RunResult LeaveTimer]"
  shows "mr_phase s = Idle \<and> mr_phase (result_step s (RunResult ShowFrame)) = Shown \<and>
    (\<forall>cs. run result_step (result_step s (RunResult ShowFrame)) (map RunResult cs) =
       result_step s (RunResult ShowFrame))"
proof -
  have "s = \<lparr> mr_phase = Idle, mr_pending = [ShowFrame] \<rparr>"
    using assms(1) by (simp add: s_def result_init_def)
  then show ?thesis by (simp add: result_dead del: run_Cons)
qed

theorem match_result_late_frame_witness:
  "mr_phase (run result_step result_init [Activate True 30000, RunResult EnterTimer,
     RunResult DismissTimer, RunResult LeaveTimer, RunResult ShowFrame]) = Shown"
  using match_result_late_frame [of 30000] by (simp only: run_Cons run_Nil)

text \<open>
  The series row shows as many won dots as the team has wins, within the cells a
  best-of series needs. A win starts the pulse and the timer that ends it; when the next
  update arrives before the timer without a further win, the timer is cancelled and the
  pulse stays until some later win.
\<close>

theorem series_pulse_stuck:
  fixes bo
  assumes "0 \<le> wins" and "p1 < t1" and "se_prev s = Some (p1, p2)"
  defines "won \<equiv> series_step s (SeriesData (Some \<lparr> sd_team_1_wins = t1, sd_team_2_wins = p2, sd_best_of = bo \<rparr>))"
  defines "stuck \<equiv> series_step won (SeriesData (Some \<lparr> sd_team_1_wins = t1, sd_team_2_wins = p2, sd_best_of = bo \<rparr>))"
  shows "length (filter fst (DotRow wins (row_cells bo) pulse)) = nat (min wins (row_cells bo)) \<and>
    se_pulse won = Some 1 \<and> se_pulse (series_step won PulseOver) = None \<and>
    se_pulse (series_step stuck PulseOver) = Some 1"
  using assms(1-3) dots_won [of wins "row_cells bo" pulse]
  by (simp add: won_def stuck_def row_cells_def)

theorem series_pulse_stuck_witness:
  "length (filter fst (DotRow 1 (row_cells 3) True)) = 1"
  using series_pulse_stuck [of 1 0 1 "\<lparr> se_pulse = None, se_prev = Some (0, 0), se_timer = False \<rparr>"
      0 3 True]
  by (simp add: row_cells_def)

text \<open>
  Whenever the custom text asks to be shown it has a text to show, at one of the nine
  anchors; after every render with logos the sponsor rotation points at one of them; and the
  next-match banner asks to be shown only when there is a next match.
\<close>

theorem silent_elements:
  "(CustomText_visible cfg trig \<longrightarrow>
      (\<exists>txt pos. CustomText_view cfg trig True = Some (txt, pos) \<and> txt \<noteq> [] \<and>
         pos \<in> set ALLOWED_POSITIONS)) \<and>
   (sponsor_ok s \<and> logos \<noteq> [] \<longrightarrow>
      (\<exists>nm url. SponsorBug logos (sp_active (sponsor_step
          (run sponsor_step s es) (SponsorRender visible (length logos)))) True = SponsorLogo nm url)) \<and>
   (ComingUpNext_visible ec data \<longrightarrow> ComingUpNext ec data True \<noteq> None)"
proof -
  have "\<exists>nm url. SponsorBug logos (sp_active (sponsor_step (run sponsor_step s es)
      (SponsorRender visible (length logos)))) True = SponsorLogo nm url"
    if "sponsor_ok s" "logos \<noteq> []"
    using sponsor_valid [OF sponsor.run_inv [OF that(1)] that(2)]
    by (simp add: SponsorBug_def Let_def that(2) del: sponsor_step.simps)
  then show ?thesis
    by (auto simp: CustomText_visible_def CustomText_view_def resolvePosition_allowed
        ComingUpNext_visible_def ComingUpNext_def Let_def simp del: sponsor_step.simps)
qed

theorem silent_elements_witness:
  "\<exists>nm url. SponsorBug [\<lparr> sl_name = ''Acme'', sl_logo_url = [], sl_link_url = [], sl_tier = ''gold'' \<rparr>]
     (sp_active (sponsor_step (run sponsor_step \<lparr> sp_active = 4, sp_interval = Some 5 \<rparr> [SponsorTick])
        (SponsorRender True 1))) True = SponsorLogo nm url"
  using silent_elements [of _ _ "\<lparr> sp_active = 4, sp_interval = Some 5 \<rparr>"
      "[\<lparr> sl_name = ''Acme'', sl_logo_url = [], sl_link_url = [], sl_tier = ''gold'' \<rparr>]"
      "[SponsorTick]" True]
  by (simp add: sponsor_ok_def del: sponsor_step.simps run_Cons)

end
