(* ===== verification/Theme_Presets.thy ===== *)
theory Theme_Presets
  imports CC_Prelude "HOL-Library.Multiset"
begin

text \<open>
  \<open>web/src/lib/themes.ts\<close> and \<open>web/src/hooks/useTheme.ts\<close>: the colour presets and the hook
  that keeps the page's dark class, its inline colour properties and the browser's local
  storage in step with the chosen mode and preset.
\<close>

section \<open>Presets\<close>

record theme_preset =
  tp_id :: string
  tp_name :: string
  tp_group :: string
  tp_light :: "(string \<times> string) list"
  tp_dark :: "(string \<times> string) list"

definition preset_default :: theme_preset where
  "preset_default =
     \<lparr> tp_id = ''default'', tp_name = ''Court Command'', tp_group = ''Default'',
       tp_light =
       [(''--color-bg-primary'', ''#ffffff''), (''--color-bg-secondary'', ''#f8fafc''),
        (''--color-bg-sidebar'', ''#f1f5f9''), (''--color-text-primary'', ''#0f172a''),
        (''--color-text-secondary'', ''#64748b''), (''--color-text-accent'', ''#22d3ee''),
        (''--color-border'', ''#e2e8f0''), (''--color-success'', ''#22c55e''),
        (''--color-warning'', ''#f59e0b''), (''--color-error'', ''#ef4444''),
        (''--color-bg-input'', ''#ffffff''), (''--color-bg-hover'', ''#f1f5f9'')],
       tp_dark =
       [(''--color-bg-primary'', ''#0f172a''), (''--color-bg-secondary'', ''#1e293b''),
        (''--color-bg-sidebar'', ''#1e293b''), (''--color-text-primary'', ''#f8fafc''),
        (''--color-text-secondary'', ''#94a3b8''), (''--color-text-accent'', ''#22d3ee''),
        (''--color-border'', ''#334155''), (''--color-success'', ''#22c55e''),
        (''--color-warning'', ''#f59e0b''), (''--color-error'', ''#ef4444''),
        (''--color-bg-input'', ''#1e293b''), (''--color-bg-hover'', ''#334155'')] \<rparr>"

definition preset_catppuccin_latte :: theme_preset where
  "preset_catppuccin_latte =
     \<lparr> tp_id = ''catppuccin-latte'', tp_name = ''Catppuccin Latte'', tp_group = ''Catppuccin'',
       tp_light =
       [(''--color-bg-primary'', ''#eff1f5''), (''--color-bg-secondary'', ''#e6e9ef''),
        (''--color-bg-sidebar'', ''#dce0e8''), (''--color-text-primary'', ''#4c4f69''),
        (''--color-text-secondary'', ''#6c6f85''), (''--color-text-accent'', ''#1e66f5''),
        (''--color-border'', ''#ccd0da''), (''--color-success'', ''#40a02b''),
        (''--color-warning'', ''#df8e1d''), (''--color-error'', ''#d20f39''),
        (''--color-bg-input'', ''#eff1f5''), (''--color-bg-hover'', ''#e6e9ef'')],
       tp_dark =
       [(''--color-bg-primary'', ''#eff1f5''), (''--color-bg-secondary'', ''#e6e9ef''),
        (''--color-bg-sidebar'', ''#dce0e8''), (''--color-text-primary'', ''#4c4f69''),
        (''--color-text-secondary'', ''#6c6f85''), (''--color-text-accent'', ''#1e66f5''),
        (''--color-border'', ''#ccd0da''), (''--color-success'', ''#40a02b''),
        (''--color-warning'', ''#df8e1d''), (''--color-error'', ''#d20f39''),
        (''--color-bg-input'', ''#eff1f5''), (''--color-bg-hover'', ''#e6e9ef'')] \<rparr>"

definition preset_catppuccin_frappe :: theme_preset where
  "preset_catppuccin_frappe =
     \<lparr> tp_id = ''catppuccin-frappe'', tp_name = ''Catppuccin Frappe'', tp_group = ''Catppuccin'',
       tp_light =
       [(''--color-bg-primary'', ''#f2f0eb''), (''--color-bg-secondary'', ''#e8e5df''),
        (''--color-bg-sidebar'', ''#dedad3''), (''--color-text-primary'', ''#51576d''),
        (''--color-text-secondary'', ''#737994''), (''--color-text-accent'', ''#8caaee''),
        (''--color-border'', ''#d0ccbf''), (''--color-success'', ''#a6d189''),
        (''--color-warning'', ''#e5c890''), (''--color-error'', ''#e78284''),
        (''--color-bg-input'', ''#f2f0eb''), (''--color-bg-hover'', ''#e8e5df'')],
       tp_dark =
       [(''--color-bg-primary'', ''#303446''), (''--color-bg-secondary'', ''#292c3c''),
        (''--color-bg-sidebar'', ''#232634''), (''--color-text-primary'', ''#c6d0f5''),
        (''--color-text-secondary'', ''#a5adce''), (''--color-text-accent'', ''#8caaee''),
        (''--color-border'', ''#414559''), (''--color-success'', ''#a6d189''),
        (''--color-warning'', ''#e5c890''), (''--color-error'', ''#e78284''),
        (''--color-bg-input'', ''#292c3c''), (''--color-bg-hover'', ''#414559'')] \<rparr>"

definition preset_catppuccin_macchiato :: theme_preset where
  "preset_catppuccin_macchiato =
     \<lparr> tp_id = ''catppuccin-macchiato'', tp_name = ''Catppuccin Macchiato'', tp_group = ''Catppuccin'',
       tp_light =
       [(''--color-bg-primary'', ''#f0edea''), (''--color-bg-secondary'', ''#e6e2de''),
        (''--color-bg-sidebar'', ''#dcd7d2''), (''--color-text-primary'', ''#494d64''),
        (''--color-text-secondary'', ''#6e738d''), (''--color-text-accent'', ''#8aadf4''),
        (''--color-border'', ''#cec9c3''), (''--color-success'', ''#a6da95''),
        (''--color-warning'', ''#eed49f''), (''--color-error'', ''#ed8796''),
        (''--color-bg-input'', ''#f0edea''), (''--color-bg-hover'', ''#e6e2de'')],
       tp_dark =
       [(''--color-bg-primary'', ''#24273a''), (''--color-bg-secondary'', ''#1e2030''),
        (''--color-bg-sidebar'', ''#181926''), (''--color-text-primary'', ''#cad3f5''),
        (''--color-text-secondary'', ''#a5adcb''), (''--color-text-accent'', ''#8aadf4''),
        (''--color-border'', ''#363a4f''), (''--color-success'', ''#a6da95''),
        (''--color-warning'', ''#eed49f''), (''--color-error'', ''#ed8796''),
        (''--color-bg-input'', ''#1e2030''), (''--color-bg-hover'', ''#363a4f'')] \<rparr>"

definition preset_catppuccin_mocha :: theme_preset where
  "preset_catppuccin_mocha =
     \<lparr> tp_id = ''catppuccin-mocha'', tp_name = ''Catppuccin Mocha'', tp_group = ''Catppuccin'',
       tp_light =
       [(''--color-bg-primary'', ''#efece8''), (''--color-bg-secondary'', ''#e5e1dc''),
        (''--color-bg-sidebar'', ''#dbd6d0''), (''--color-text-primary'', ''#45475a''),
        (''--color-text-secondary'', ''#6c7086''), (''--color-text-accent'', ''#89b4fa''),
        (''--color-border'', ''#cdc7c0''), (''--color-success'', ''#a6e3a1''),
        (''--color-warning'', ''#f9e2af''), (''--color-error'', ''#f38ba8''),
        (''--color-bg-input'', ''#efece8''), (''--color-bg-hover'', ''#e5e1dc'')],
       tp_dark =
       [(''--color-bg-primary'', ''#1e1e2e''), (''--color-bg-secondary'', ''#181825''),
        (''--color-bg-sidebar'', ''#11111b''), (''--color-text-primary'', ''#cdd6f4''),
        (''--color-text-secondary'', ''#a6adc8''), (''--color-text-accent'', ''#89b4fa''),
        (''--color-border'', ''#313244''), (''--color-success'', ''#a6e3a1''),
        (''--color-warning'', ''#f9e2af''), (''--color-error'', ''#f38ba8''),
        (''--color-bg-input'', ''#181825''), (''--color-bg-hover'', ''#313244'')] \<rparr>"

definition preset_dracula :: theme_preset where
  "preset_dracula =
     \<lparr> tp_id = ''dracula'', tp_name = ''Dracula'', tp_group = ''Community'',
       tp_light =
       [(''--color-bg-primary'', ''#f8f8f2''), (''--color-bg-secondary'', ''#eeeee8''),
        (''--color-bg-sidebar'', ''#e4e4de''), (''--color-text-primary'', ''#282a36''),
        (''--color-text-secondary'', ''#44475a''), (''--color-text-accent'', ''#bd93f9''),
        (''--color-border'', ''#d6d6d0''), (''--color-success'', ''#50fa7b''),
        (''--color-warning'', ''#f1fa8c''), (''--color-error'', ''#ff5555''),
        (''--color-bg-input'', ''#f8f8f2''), (''--color-bg-hover'', ''#eeeee8'')],
       tp_dark =
       [(''--color-bg-primary'', ''#282a36''), (''--color-bg-secondary'', ''#21222c''),
        (''--color-bg-sidebar'', ''#191a21''), (''--color-text-primary'', ''#f8f8f2''),
        (''--color-text-secondary'', ''#6272a4''), (''--color-text-accent'', ''#bd93f9''),
        (''--color-border'', ''#44475a''), (''--color-success'', ''#50fa7b''),
        (''--color-warning'', ''#f1fa8c''), (''--color-error'', ''#ff5555''),
        (''--color-bg-input'', ''#21222c''), (''--color-bg-hover'', ''#44475a'')] \<rparr>"

definition preset_nord :: theme_preset where
  "preset_nord =
     \<lparr> tp_id = ''nord'', tp_name = ''Nord'', tp_group = ''Community'',
       tp_light =
       [(''--color-bg-primary'', ''#eceff4''), (''--color-bg-secondary'', ''#e5e9f0''),
        (''--color-bg-sidebar'', ''#d8dee9''), (''--color-text-primary'', ''#2e3440''),
        (''--color-text-secondary'', ''#4c566a''), (''--color-text-accent'', ''#5e81ac''),
        (''--color-border'', ''#d8dee9''), (''--color-success'', ''#a3be8c''),
        (''--color-warning'', ''#ebcb8b''), (''--color-error'', ''#bf616a''),
        (''--color-bg-input'', ''#eceff4''), (''--color-bg-hover'', ''#e5e9f0'')],
       tp_dark =
       [(''--color-bg-primary'', ''#2e3440''), (''--color-bg-secondary'', ''#3b4252''),
        (''--color-bg-sidebar'', ''#2e3440''), (''--color-text-primary'', ''#eceff4''),
        (''--color-text-secondary'', ''#d8dee9''), (''--color-text-accent'', ''#88c0d0''),
        (''--color-border'', ''#434c5e''), (''--color-success'', ''#a3be8c''),
        (''--color-warning'', ''#ebcb8b''), (''--color-error'', ''#bf616a''),
        (''--color-bg-input'', ''#3b4252''), (''--color-bg-hover'', ''#434c5e'')] \<rparr>"

definition preset_gruvbox :: theme_preset where
  "preset_gruvbox =
     \<lparr> tp_id = ''gruvbox'', tp_name = ''Gruvbox'', tp_group = ''Community'',
       tp_light =
       [(''--color-bg-primary'', ''#fbf1c7''), (''--color-bg-secondary'', ''#f2e5bc''),
        (''--color-bg-sidebar'', ''#ebdbb2''), (''--color-text-primary'', ''#3c3836''),
        (''--color-text-secondary'', ''#665c54''), (''--color-text-accent'', ''#458588''),
        (''--color-border'', ''#d5c4a1''), (''--color-success'', ''#98971a''),
        (''--color-warning'', ''#d79921''), (''--color-error'', ''#cc241d''),
        (''--color-bg-input'', ''#fbf1c7''), (''--color-bg-hover'', ''#f2e5bc'')],
       tp_dark =
       [(''--color-bg-primary'', ''#282828''), (''--color-bg-secondary'', ''#3c3836''),
        (''--color-bg-sidebar'', ''#1d2021''), (''--color-text-primary'', ''#ebdbb2''),
        (''--color-text-secondary'', ''#a89984''), (''--color-text-accent'', ''#83a598''),
        (''--color-border'', ''#504945''), (''--color-success'', ''#b8bb26''),
        (''--color-warning'', ''#fabd2f''), (''--color-error'', ''#fb4934''),
        (''--color-bg-input'', ''#3c3836''), (''--color-bg-hover'', ''#504945'')] \<rparr>"

definition preset_tokyo_night :: theme_preset where
  "preset_tokyo_night =
     \<lparr> tp_id = ''tokyo-night'', tp_name = ''Tokyo Night'', tp_group = ''Community'',
       tp_light =
       [(''--color-bg-primary'', ''#d5d6db''), (''--color-bg-secondary'', ''#cbccd1''),
        (''--color-bg-sidebar'', ''#c1c2c7''), (''--color-text-primary'', ''#343b58''),
        (''--color-text-secondary'', ''#565a6e''), (''--color-text-accent'', ''#34548a''),
        (''--color-border'', ''#b7b8bd''), (''--color-success'', ''#587539''),
        (''--color-warning'', ''#8f5e15''), (''--color-error'', ''#8c4351''),
        (''--color-bg-input'', ''#d5d6db''), (''--color-bg-hover'', ''#cbccd1'')],
       tp_dark =
       [(''--color-bg-primary'', ''#1a1b26''), (''--color-bg-secondary'', ''#16161e''),
        (''--color-bg-sidebar'', ''#13131a''), (''--color-text-primary'', ''#c0caf5''),
        (''--color-text-secondary'', ''#a9b1d6''), (''--color-text-accent'', ''#7aa2f7''),
        (''--color-border'', ''#292e42''), (''--color-success'', ''#9ece6a''),
        (''--color-warning'', ''#e0af68''), (''--color-error'', ''#f7768e''),
        (''--color-bg-input'', ''#16161e''), (''--color-bg-hover'', ''#292e42'')] \<rparr>"

definition preset_one_dark :: theme_preset where
  "preset_one_dark =
     \<lparr> tp_id = ''one-dark'', tp_name = ''One Dark'', tp_group = ''Community'',
       tp_light =
       [(''--color-bg-primary'', ''#fafafa''), (''--color-bg-secondary'', ''#f0f0f0''),
        (''--color-bg-sidebar'', ''#e5e5e6''), (''--color-text-primary'', ''#383a42''),
        (''--color-text-secondary'', ''#696c77''), (''--color-text-accent'', ''#4078f2''),
        (''--color-border'', ''#d3d3d4''), (''--color-success'', ''#50a14f''),
        (''--color-warning'', ''#c18401''), (''--color-error'', ''#e45649''),
        (''--color-bg-input'', ''#fafafa''), (''--color-bg-hover'', ''#f0f0f0'')],
       tp_dark =
       [(''--color-bg-primary'', ''#282c34''), (''--color-bg-secondary'', ''#21252b''),
        (''--color-bg-sidebar'', ''#1b1f27''), (''--color-text-primary'', ''#abb2bf''),
        (''--color-text-secondary'', ''#5c6370''), (''--color-text-accent'', ''#61afef''),
        (''--color-border'', ''#3e4452''), (''--color-success'', ''#98c379''),
        (''--color-warning'', ''#e5c07b''), (''--color-error'', ''#e06c75''),
        (''--color-bg-input'', ''#21252b''), (''--color-bg-hover'', ''#3e4452'')] \<rparr>"

definition preset_solarized :: theme_preset where
  "preset_solarized =
     \<lparr> tp_id = ''solarized'', tp_name = ''Solarized'', tp_group = ''Community'',
       tp_light =
       [(''--color-bg-primary'', ''#fdf6e3''), (''--color-bg-secondary'', ''#eee8d5''),
        (''--color-bg-sidebar'', ''#eee8d5''), (''--color-text-primary'', ''#657b83''),
        (''--color-text-secondary'', ''#93a1a1''), (''--color-text-accent'', ''#268bd2''),
        (''--color-border'', ''#eee8d5''), (''--color-success'', ''#859900''),
        (''--color-warning'', ''#b58900''), (''--color-error'', ''#dc322f''),
        (''--color-bg-input'', ''#fdf6e3''), (''--color-bg-hover'', ''#eee8d5'')],
       tp_dark =
       [(''--color-bg-primary'', ''#002b36''), (''--color-bg-secondary'', ''#073642''),
        (''--color-bg-sidebar'', ''#002028''), (''--color-text-primary'', ''#839496''),
        (''--color-text-secondary'', ''#586e75''), (''--color-text-accent'', ''#268bd2''),
        (''--color-border'', ''#073642''), (''--color-success'', ''#859900''),
        (''--color-warning'', ''#b58900''), (''--color-error'', ''#dc322f''),
        (''--color-bg-input'', ''#073642''), (''--color-bg-hover'', ''#073642'')] \<rparr>"

definition themePresets :: "theme_preset list" where
  "themePresets =
     [preset_default, preset_catppuccin_latte, preset_catppuccin_frappe, preset_catppuccin_macchiato, preset_catppuccin_mocha, preset_dracula, preset_nord, preset_gruvbox, preset_tokyo_night, preset_one_dark, preset_solarized]"

lemmas preset_defs = preset_default_def preset_catppuccin_latte_def preset_catppuccin_frappe_def preset_catppuccin_macchiato_def preset_catppuccin_mocha_def preset_dracula_def preset_nord_def preset_gruvbox_def preset_tokyo_night_def preset_one_dark_def preset_solarized_def

definition getPresetById :: "string \<Rightarrow> theme_preset option" where
  "getPresetById ident = find (\<lambda>t. tp_id t = ident) themePresets"

text \<open>A \<open>Map\<close> keeps its keys in the order of their first insertion.\<close>

fun add_to_group :: "theme_preset \<Rightarrow> (string \<times> theme_preset list) list \<Rightarrow> (string \<times> theme_preset list) list" where
  "add_to_group p [] = [(tp_group p, [p])]"
| "add_to_group p ((g, ps) # rest) =
     (if g = tp_group p then (g, ps @ [p]) # rest else (g, ps) # add_to_group p rest)"

definition getPresetGroups :: "(string \<times> theme_preset list) list" where
  "getPresetGroups = fold add_to_group themePresets []"

section \<open>The page's inline colours\<close>

type_synonym style = "string \<Rightarrow> string option"

definition applyPresetColors :: "theme_preset \<Rightarrow> bool \<Rightarrow> style \<Rightarrow> style" where
  "applyPresetColors preset dark st =
     fold (\<lambda>(k, v) st. st(k \<mapsto> v)) (if dark then tp_dark preset else tp_light preset) st"

definition clear_props :: "string list" where
  "clear_props =
     [''--color-bg-primary'', ''--color-bg-secondary'', ''--color-bg-sidebar'',
      ''--color-text-primary'', ''--color-text-secondary'', ''--color-text-accent'',
      ''--color-border'', ''--color-success'', ''--color-warning'', ''--color-error'',
      ''--color-bg-input'', ''--color-bg-hover'']"

definition clearPresetColors :: "style \<Rightarrow> style" where
  "clearPresetColors st = fold (\<lambda>k st. st(k := None)) clear_props st"

section \<open>The hook\<close>

text \<open>
  \<open>th_dark_os\<close> is the operating system's preference. The stored mode is used as it is
  found, so it is a string; every word but \<open>system\<close> stands for itself.
\<close>

record theme_state =
  th_mode :: string
  th_preset :: string
  th_stored_mode :: "string option"
  th_stored_preset :: "string option"
  th_dark_class :: bool
  th_style :: style
  th_dark_os :: bool

definition resolves_dark :: "bool \<Rightarrow> string \<Rightarrow> bool" where
  "resolves_dark dark_os mode = (if mode = ''system'' then dark_os else mode = ''dark'')"

definition applyMode :: "theme_state \<Rightarrow> theme_state" where
  "applyMode s = s\<lparr> th_dark_class := resolves_dark (th_dark_os s) (th_mode s) \<rparr>"

text \<open>Apply the chosen preset unless it is unknown or the default one.\<close>

definition paint :: "theme_state \<Rightarrow> theme_state" where
  "paint s =
     (case getPresetById (th_preset s) of None \<Rightarrow> s
      | Some p \<Rightarrow>
          if tp_id p = ''default'' then s
          else s\<lparr> th_style := applyPresetColors p (resolves_dark (th_dark_os s) (th_mode s)) (th_style s) \<rparr>)"

definition theme_effect :: "theme_state \<Rightarrow> theme_state" where
  "theme_effect s = paint (applyMode s)"

definition useTheme :: "bool \<Rightarrow> string option \<Rightarrow> string option \<Rightarrow> theme_state" where
  "useTheme dark_os stored_mode stored_preset =
     theme_effect
       \<lparr> th_mode = (case stored_mode of Some m \<Rightarrow> if m \<noteq> [] then m else ''system'' | None \<Rightarrow> ''system''),
         th_preset = (case stored_preset of Some p \<Rightarrow> if p \<noteq> [] then p else ''default'' | None \<Rightarrow> ''default''),
         th_stored_mode = stored_mode, th_stored_preset = stored_preset,
         th_dark_class = False, th_style = (\<lambda>_. None), th_dark_os = dark_os \<rparr>"

datatype theme_event =
    SetMode string
  | SetPreset string
  | OsChange bool

text \<open>A setter runs its body; React then runs the effect for the new mode and preset.\<close>

fun theme_step :: "theme_state \<Rightarrow> theme_event \<Rightarrow> theme_state" where
  "theme_step s (SetMode m) =
     theme_effect (paint (applyMode (s\<lparr> th_mode := m, th_stored_mode := Some m \<rparr>)))"
| "theme_step s (SetPreset ident) =
     (let s = s\<lparr> th_preset := ident, th_stored_preset := Some ident \<rparr>;
          s = (case getPresetById ident of
                 Some p \<Rightarrow> if tp_id p \<noteq> ''default'' then paint s
                          else s\<lparr> th_style := clearPresetColors (th_style s) \<rparr>
               | None \<Rightarrow> s\<lparr> th_style := clearPresetColors (th_style s) \<rparr>) in
      theme_effect s)"
| "theme_step s (OsChange dark) =
     (let s = s\<lparr> th_dark_os := dark \<rparr> in
      if th_mode s = ''system'' then paint (applyMode s) else s)"

section \<open>What the page should look like\<close>

definition active_preset :: "string \<Rightarrow> theme_preset option" where
  "active_preset ident =
     (case getPresetById ident of None \<Rightarrow> None
      | Some p \<Rightarrow> if tp_id p = ''default'' then None else Some p)"

definition expected_style :: "string \<Rightarrow> bool \<Rightarrow> style" where
  "expected_style ident dark =
     (case active_preset ident of None \<Rightarrow> (\<lambda>_. None)
      | Some p \<Rightarrow> map_of (if dark then tp_dark p else tp_light p))"

definition in_step :: "theme_state \<Rightarrow> bool" where
  "in_step s \<longleftrightarrow>
     th_dark_class s = resolves_dark (th_dark_os s) (th_mode s) \<and>
     th_style s = expected_style (th_preset s) (th_dark_class s)"

lemma preset_keys:
  "p \<in> set themePresets \<Longrightarrow>
    map fst (tp_light p) = clear_props \<and> map fst (tp_dark p) = clear_props"
  unfolding themePresets_def
  by (auto simp: preset_defs clear_props_def)

lemma preset_ids: "distinct (map tp_id themePresets)"
  by (simp add: themePresets_def preset_defs)

lemma clear_props_distinct: "distinct clear_props"
  by (simp add: clear_props_def)

lemma fold_upd_distinct:
  "distinct (map fst kvs) \<Longrightarrow>
    fold (\<lambda>(k, v) st. st(k \<mapsto> v)) kvs st x = (if x \<in> fst ` set kvs then map_of kvs x else st x)"
proof (induction kvs arbitrary: st)
  case (Cons kv kvs)
  then show ?case by (cases kv) (auto simp: rev_image_eqI)
qed simp

lemma fold_clear: "fold (\<lambda>k st. st(k := None)) ks st x = (if x \<in> set ks then None else st x)"
  by (induction ks arbitrary: st) auto

lemma apply_covers:
  assumes p: "p \<in> set themePresets" and dom: "\<forall>x. st x \<noteq> None \<longrightarrow> x \<in> set clear_props"
  shows "applyPresetColors p dark st = map_of (if dark then tp_dark p else tp_light p)"
proof
  fix x
  let ?cs = "if dark then tp_dark p else tp_light p"
  have keys: "map fst ?cs = clear_props" using preset_keys [OF p] by simp
  then have "fst ` set ?cs = set clear_props" by (metis list.set_map)
  then show "applyPresetColors p dark st x = map_of ?cs x"
    unfolding applyPresetColors_def using keys clear_props_distinct dom
    by (subst fold_upd_distinct) (auto simp: map_of_eq_None_iff [THEN iffD2])
qed

lemma get_member: "getPresetById ident = Some p \<Longrightarrow> p \<in> set themePresets \<and> tp_id p = ident"
  unfolding getPresetById_def using find_in by fast

lemma expected_domain: "expected_style ident dark x \<noteq> None \<Longrightarrow> x \<in> set clear_props"
proof -
  assume "expected_style ident dark x \<noteq> None"
  then obtain p where p: "getPresetById ident = Some p"
    "map_of (if dark then tp_dark p else tp_light p) x \<noteq> None"
    by (auto simp: expected_style_def active_preset_def split: option.splits if_splits)
  then have "x \<in> set (map fst (if dark then tp_dark p else tp_light p))"
    by (simp add: map_of_eq_None_iff split: if_splits)
  moreover have "map fst (if dark then tp_dark p else tp_light p) = clear_props"
    using preset_keys get_member [OF p(1)] by auto
  ultimately show ?thesis by simp
qed

definition tidy :: "style \<Rightarrow> bool" where
  "tidy st \<longleftrightarrow> (\<forall>x. st x \<noteq> None \<longrightarrow> x \<in> set clear_props)"

lemma tidy_cleared: "tidy st \<Longrightarrow> clearPresetColors st = (\<lambda>_. None)"
  unfolding clearPresetColors_def by (rule ext) (auto simp: fold_clear tidy_def)

lemma paint_frame [simp]:
  "th_mode (paint s) = th_mode s" "th_preset (paint s) = th_preset s"
  "th_stored_mode (paint s) = th_stored_mode s" "th_stored_preset (paint s) = th_stored_preset s"
  "th_dark_class (paint s) = th_dark_class s" "th_dark_os (paint s) = th_dark_os s"
  by (simp_all add: paint_def split: option.split)

text \<open>Painting gives the expected colours from the old ones, or leaves none.\<close>

lemma paint_style:
  assumes "tidy (th_style s)" and "active_preset (th_preset s) = None \<longrightarrow> th_style s = (\<lambda>_. None)"
  shows "th_style (paint s) = expected_style (th_preset s) (resolves_dark (th_dark_os s) (th_mode s))"
  using assms get_member apply_covers
  by (auto simp: paint_def expected_style_def active_preset_def tidy_def split: option.splits if_splits)

lemma tidy_expected: "tidy (expected_style ident dark)"
  by (simp add: tidy_def expected_domain)

lemma in_step_tidy: "in_step s \<Longrightarrow> tidy (th_style s)"
  by (simp add: in_step_def tidy_expected)

lemma expected_none: "active_preset ident = None \<Longrightarrow> expected_style ident dark = (\<lambda>_. None)"
  by (simp add: expected_style_def)

lemma effect_in_step:
  assumes "tidy (th_style s)" and "active_preset (th_preset s) = None \<longrightarrow> th_style s = (\<lambda>_. None)"
  shows "in_step (theme_effect s)"
  using paint_style [of "applyMode s"] assms
  by (simp add: theme_effect_def in_step_def applyMode_def)

lemma in_step_init: "in_step (useTheme dark_os m p)"
  unfolding useTheme_def by (rule effect_in_step) (simp_all add: tidy_def)

lemma in_step_step: "in_step s \<Longrightarrow> in_step (theme_step s e)"
proof -
  assume s: "in_step s"
  note t = in_step_tidy [OF s]
  have none: "active_preset (th_preset s) = None \<longrightarrow> th_style s = (\<lambda>_. None)"
    using s by (simp add: in_step_def expected_none)
  show ?thesis
  proof (cases e)
    case (SetMode m)
    let ?s = "applyMode (s\<lparr> th_mode := m, th_stored_mode := Some m \<rparr>)"
    have st: "th_style (paint ?s) = expected_style (th_preset ?s) (resolves_dark (th_dark_os ?s) (th_mode ?s))"
      using t none by (intro paint_style) (simp_all add: applyMode_def)
    have "in_step (theme_effect (paint ?s))"
      by (rule effect_in_step) (simp_all add: st tidy_expected expected_none)
    then show ?thesis using SetMode by simp
  next
    case (OsChange dark)
    show ?thesis
    proof (cases "th_mode s = ''system''")
      case True
      have "in_step (theme_effect (s\<lparr> th_dark_os := dark \<rparr>))"
        using t none by (intro effect_in_step) simp_all
      then show ?thesis using OsChange True by (simp add: theme_effect_def)
    next
      case False
      then show ?thesis using s OsChange by (simp add: in_step_def resolves_dark_def)
    qed
  next
    case (SetPreset ident)
    let ?s = "s\<lparr> th_preset := ident, th_stored_preset := Some ident \<rparr>"
    show ?thesis
    proof (cases "active_preset ident")
      case None
      have "in_step (theme_effect (?s\<lparr> th_style := clearPresetColors (th_style s) \<rparr>))"
        using tidy_cleared [OF t] by (intro effect_in_step) (simp_all add: tidy_def)
      then show ?thesis using SetPreset None
        by (auto simp: Let_def active_preset_def split: option.splits if_splits)
    next
      case (Some p)
      have "th_style (paint ?s) = expected_style ident (resolves_dark (th_dark_os s) (th_mode s))"
        using paint_style [of ?s] t Some by simp
      then have "in_step (theme_effect (paint ?s))"
        using Some by (intro effect_in_step) (simp_all add: tidy_expected)
      then show ?thesis using SetPreset Some
        by (auto simp: Let_def active_preset_def split: option.splits if_splits)
    qed
  qed
qed

interpretation theme_machine: event_machine theme_step "\<lambda>s. \<exists>d m p. s = useTheme d m p" in_step
  by unfold_locales (auto intro: in_step_init in_step_step)

lemma fold_groups:
  "mset (concat (map snd (add_to_group p gs))) = mset (concat (map snd gs)) + {#p#}"
  by (induction gs) auto

lemma groups_mset:
  "mset (concat (map snd (fold add_to_group ps gs))) = mset (concat (map snd gs)) + mset ps"
  by (induction ps arbitrary: gs) (simp_all add: fold_groups)

definition well_grouped :: "(string \<times> theme_preset list) list \<Rightarrow> bool" where
  "well_grouped gs \<longleftrightarrow>
     distinct (map fst gs) \<and> list_all (\<lambda>(g, ps). ps \<noteq> [] \<and> list_all (\<lambda>p. tp_group p = g) ps) gs"

lemma add_to_group_names: "set (map fst (add_to_group p gs)) = insert (tp_group p) (set (map fst gs))"
proof (induction gs)
  case (Cons g gs)
  then show ?case by (cases g) (simp add: insert_commute)
qed simp

lemma well_grouped_add: "well_grouped gs \<Longrightarrow> well_grouped (add_to_group p gs)"
proof (induction gs)
  case (Cons g gs)
  then show ?case using add_to_group_names [of p gs]
    by (cases g) (auto simp: well_grouped_def)
qed (simp add: well_grouped_def)

lemma well_grouped_fold: "well_grouped gs \<Longrightarrow> well_grouped (fold add_to_group ps gs)"
  by (induction ps arbitrary: gs) (simp_all add: well_grouped_add)

section \<open>Properties\<close>

text \<open>
  C24. Whatever modes and presets are chosen, known or not, and however the system's
  preference changes, the page's dark class is the resolved mode and its inline colours are
  exactly those of the chosen preset in that mode, or none at all for the default or an
  unknown preset.
\<close>

theorem theme_in_step:
  fixes dark m p es
  defines "s \<equiv> run theme_step (useTheme dark m p) es"
  shows "th_dark_class s = resolves_dark (th_dark_os s) (th_mode s) \<and>
    th_style s = expected_style (th_preset s) (th_dark_class s)"
proof -
  have "in_step s" unfolding s_def by (rule theme_machine.reachable_inv) blast
  then show ?thesis by (simp add: in_step_def)
qed

text \<open>
  Every preset defines exactly the twelve properties that \<open>clearPresetColors\<close> removes,
  in both modes, so clearing undoes any preset; the identifiers are unique, and the groups
  of the picker partition the presets.
\<close>

theorem presets_complete:
  "(\<forall>p\<in>set themePresets. map fst (tp_light p) = clear_props \<and> map fst (tp_dark p) = clear_props) \<and>
   (\<forall>p\<in>set themePresets. \<forall>dark. clearPresetColors (applyPresetColors p dark (\<lambda>_. None)) = (\<lambda>_. None)) \<and>
   distinct (map tp_id themePresets) \<and> length themePresets = 11 \<and>
   mset (concat (map snd getPresetGroups)) = mset themePresets \<and> well_grouped getPresetGroups"
proof (intro conjI ballI allI)
  fix p dark
  assume p: "p \<in> set themePresets"
  show "map fst (tp_light p) = clear_props" "map fst (tp_dark p) = clear_props"
    using preset_keys [OF p] by simp_all
  have "tidy (applyPresetColors p dark (\<lambda>_. None))"
  proof -
    have "map fst (if dark then tp_dark p else tp_light p) = clear_props"
      using preset_keys [OF p] by simp
    moreover have "applyPresetColors p dark (\<lambda>_. None) = map_of (if dark then tp_dark p else tp_light p)"
      by (rule apply_covers [OF p]) simp
    ultimately show ?thesis by (metis map_of_eq_None_iff list.set_map tidy_def)
  qed
  then show "clearPresetColors (applyPresetColors p dark (\<lambda>_. None)) = (\<lambda>_. None)" by (rule tidy_cleared)
next
  show "distinct (map tp_id themePresets)" by (rule preset_ids)
  show "length themePresets = 11" by (simp add: themePresets_def)
  show "mset (concat (map snd getPresetGroups)) = mset themePresets"
    by (simp add: getPresetGroups_def groups_mset)
  show "well_grouped getPresetGroups"
    unfolding getPresetGroups_def by (rule well_grouped_fold) (simp add: well_grouped_def)
qed

theorem presets_complete_witness:
  "clearPresetColors (applyPresetColors preset_nord True (\<lambda>_. None)) = (\<lambda>_. None)"
proof -
  have "preset_nord \<in> set themePresets" by (simp add: themePresets_def)
  then show ?thesis using presets_complete by blast
qed

end
