(* ===== verification/Scoring_Types.thy ===== *)
theory Scoring_Types
  imports Scoring_Hooks
begin

text \<open>
  \<open>web/src/features/scoring/types.ts\<close>: matches, events and courts as the scoring screens read
  them. A member the source declares \<open>T | null\<close> or optional is an \<open>option\<close>; the two members
  whose \<open>null\<close> and \<open>undefined\<close> the source tells apart (the winner of a match and the payload
  of an event) are JavaScript values. Numbers are integers.
\<close>

datatype match_status =
    Scheduled | Warmup | InProgress | Paused | Completed | Cancelled | Forfeited

datatype match_type = TypeTournament | TypeQuick | TypePickup | TypePractice | TypeLeague

datatype win_reason = ByScore | ByForfeit | ByRetirement | ByDq | ByBye

datatype scoring_type = SideOutScoring | RallyScoring

datatype event_type =
    match_started | match_paused | match_resumed | match_complete | match_reset | match_configured
  | point_team1 | point_team2 | point_removed | side_out | undo_event | game_complete
  | confirm_game_over | confirm_match_over | timeout | timeout_ended | end_change | substitution
  | score_override | forfeit_declared

text \<open>The type \<open>1 | 2\<close> of teams and servers.\<close>

datatype side = One | Two

fun side_num :: "side \<Rightarrow> int" where
  "side_num One = 1"
| "side_num Two = 2"

definition side_js :: "side option \<Rightarrow> js" where
  "side_js s = null_or (Num \<circ> side_num) s"

lemma side_num_inject [simp]: "side_num a = side_num b \<longleftrightarrow> a = b"
  by (cases a; cases b) simp_all

lemma side_js_simps [simp]:
  "side_js None = Null" "side_js (Some One) = Num 1" "side_js (Some Two) = Num 2"
  by (simp_all add: side_js_def)

record player =
  pl_id :: int
  pl_public_id :: string
  pl_display_name :: string

record match_team =
  mt_id :: int
  mt_name :: string
  mt_short_name :: "string option"
  mt_primary_color :: "string option"
  mt_logo_url :: "string option"
  mt_players :: "player list option"

record completed_game =
  game_num :: int
  team_one_score :: int
  team_two_score :: int
  cg_winner :: side

record match =
  m_id :: int
  m_public_id :: string
  m_status :: match_status
  m_scoring_type :: scoring_type
  points_to_win :: int
  win_by :: int
  best_of :: int
  current_game :: int
  team_1 :: "match_team option"
  team_2 :: "match_team option"
  team_1_score :: int
  team_2_score :: int
  team_1_games_won :: int
  team_2_games_won :: int
  serving_team :: "side option"
  server_number :: "side option"
  serving_player_id :: "int option"
  timeouts_per_game :: int
  team_1_timeouts_used :: int
  team_2_timeouts_used :: int
  set_scores :: "completed_game list option"
  is_paused :: bool
  is_quick_match :: bool
  m_match_type :: "match_type option"
  m_division_id :: "int option"
  division_name :: "string option"
  m_tournament_id :: "int option"
  tournament_name :: "string option"
  m_court_id :: "int option"
  court_name :: "string option"
  match_series_id :: "int option"
  scheduled_at :: "string option"
  started_at :: "string option"
  completed_at :: "string option"
  winner_team_id :: js
  loser_team_id :: js
  m_expires_at :: "string option"
  m_created_at :: string
  m_updated_at :: string

record score_snapshot =
  ss_team_1_score :: int
  ss_team_2_score :: int
  ss_current_set :: int
  ss_current_game :: int
  ss_serving_team :: "int option"
  ss_server_number :: "int option"
  ss_set_scores :: "completed_game list"

record match_event =
  me_id :: int
  me_match_id :: int
  sequence_id :: int
  me_event_type :: event_type
  me_timestamp :: string
  me_payload :: js
  me_score_snapshot :: score_snapshot
  me_created_by :: "int option"

record action_result =
  ar_match :: match
  game_over_detected :: bool
  match_over_detected :: bool
  end_change_detected :: bool

record court_summary =
  ct_id :: int
  ct_name :: string
  ct_slug :: string
  ct_venue_id :: "int option"
  venue_name :: "string option"
  is_show_court :: bool
  stream_url :: "string option"
  active_match :: "match option"
  on_deck_match :: "match option"

text \<open>A match and a team for the concrete inputs of the witnesses.\<close>

definition team_of :: "int \<Rightarrow> string \<Rightarrow> match_team" where
  "team_of i n =
     \<lparr> mt_id = i, mt_name = n, mt_short_name = None, mt_primary_color = None, mt_logo_url = None,
       mt_players = None \<rparr>"

definition sample_match :: match where
  "sample_match =
     \<lparr> m_id = 7, m_public_id = ''m7'', m_status = InProgress, m_scoring_type = SideOutScoring,
       points_to_win = 11, win_by = 2, best_of = 3, current_game = 1,
       team_1 = Some (team_of 1 ''Aces''), team_2 = Some (team_of 2 ''Dinks''),
       team_1_score = 10, team_2_score = 9, team_1_games_won = 0, team_2_games_won = 0,
       serving_team = Some One, server_number = Some Two, serving_player_id = None,
       timeouts_per_game = 2, team_1_timeouts_used = 0, team_2_timeouts_used = 1,
       set_scores = None, is_paused = False, is_quick_match = False, m_match_type = None,
       m_division_id = None, division_name = None, m_tournament_id = None, tournament_name = None,
       m_court_id = Some 3, court_name = None, match_series_id = None, scheduled_at = None,
       started_at = None, completed_at = None, winner_team_id = Null, loser_team_id = Null,
       m_expires_at = None, m_created_at = [], m_updated_at = [] \<rparr>"

end
