(* ===== verification/Score_Views.thy ===== *)
theory Score_Views
  imports Scoring_Types "HOL-Library.Multiset"
begin

text \<open>
  What the scoring screens show of a match (\<open>web/src/features/scoring\<close>: \<open>ScoreCall\<close>,
  \<open>MatchScoreboard\<close>, \<open>ServeIndicator\<close>, \<open>TimeoutBadge\<close>, \<open>GameHistoryBar\<close>,
  \<open>MatchCompleteBanner\<close>, \<open>DisconnectBanner\<close>, \<open>EventsTimeline\<close>) and what the court lists make
  of several matches (\<open>CourtMonitorCard\<close>, \<open>CourtGrid\<close>, \<open>RefCourtView\<close>, \<open>RefHome\<close>). Only the
  content is modelled, not the markup.
\<close>

section \<open>The score call\<close>

text \<open>The numbers of the call in the order they are read out.\<close>

definition ScoreCall :: "match \<Rightarrow> int list" where
  "ScoreCall m =
     (case (m_scoring_type m, serving_team m) of
        (SideOutScoring, Some s) \<Rightarrow>
          [if s = One then team_1_score m else team_2_score m,
           if s = One then team_2_score m else team_1_score m,
           case server_number m of Some n \<Rightarrow> side_num n | None \<Rightarrow> 1]
      | _ \<Rightarrow> [team_1_score m, team_2_score m])"

section \<open>Team rows\<close>

record serve_indicator =
  si_active :: bool
  si_number :: "int option"
  si_label :: string

definition ServeIndicator :: "bool \<Rightarrow> int option \<Rightarrow> string option \<Rightarrow> serve_indicator" where
  "ServeIndicator active n label =
     \<lparr> si_active = active, si_number = (if active then n else None),
       si_label = (case label of Some l \<Rightarrow> l | None \<Rightarrow> if active then ''Serving'' else ''Not serving'') \<rparr>"

record timeout_badge =
  tb_remaining :: int
  tb_total :: int
  tb_warning :: bool

definition TimeoutBadge :: "int \<Rightarrow> int \<Rightarrow> bool \<Rightarrow> timeout_badge" where
  "TimeoutBadge used tot warningWhenZero =
     (let remaining = max 0 (tot - used)
      in \<lparr> tb_remaining = remaining, tb_total = tot, tb_warning = (remaining = 0 \<and> warningWhenZero) \<rparr>)"

record team_row =
  tr_name :: string
  tr_score :: int
  tr_serving :: serve_indicator
  tr_timeouts :: timeout_badge

definition TeamRow :: "match \<Rightarrow> side \<Rightarrow> bool \<Rightarrow> team_row" where
  "TeamRow m team serving =
     (let n = (case server_number m of Some k \<Rightarrow> side_num k | None \<Rightarrow> 1)
      in \<lparr> tr_name = (case (if team = One then team_1 m else team_2 m) of
                        Some t \<Rightarrow> mt_name t | None \<Rightarrow> ''Team '' @ show_int (side_num team)),
           tr_score = (if team = One then team_1_score m else team_2_score m),
           tr_serving = ServeIndicator serving (if serving then Some n else None)
             (Some (if serving then ''Serving, server '' @ show_int n else ''Not serving'')),
           tr_timeouts = TimeoutBadge
             (if team = One then team_1_timeouts_used m else team_2_timeouts_used m)
             (timeouts_per_game m) True \<rparr>)"

definition board_rows :: "match \<Rightarrow> team_row list" where
  "board_rows m =
     [TeamRow m One (serving_team m = Some One), TeamRow m Two (serving_team m = Some Two)]"

text \<open>The chips of the game history: number, scores, and which of the two scores is bold.\<close>

definition GameHistoryBar :: "completed_game list \<Rightarrow> (int \<times> int \<times> int \<times> bool \<times> bool) list" where
  "GameHistoryBar games =
     map (\<lambda>g. (game_num g, team_one_score g, team_two_score g, cg_winner g = One, cg_winner g = Two))
       games"

section \<open>The completed match\<close>

definition opt_team_id :: "match_team option \<Rightarrow> js" where
  "opt_team_id t = (case t of None \<Rightarrow> Undef | Some u \<Rightarrow> Num (mt_id u))"

datatype complete_line = Wins string | FinalScore int int

definition MatchCompleteBanner :: "match \<Rightarrow> complete_line \<times> int \<times> int" where
  "MatchCompleteBanner m =
     (let winnerName =
            (if winner_team_id m = opt_team_id (team_1 m) then map_option mt_name (team_1 m)
             else if winner_team_id m = opt_team_id (team_2 m) then map_option mt_name (team_2 m)
             else None)
      in ((case winnerName of
             Some n \<Rightarrow> if n \<noteq> [] then Wins n else FinalScore (team_1_score m) (team_2_score m)
           | None \<Rightarrow> FinalScore (team_1_score m) (team_2_score m)),
          team_1_games_won m, team_2_games_won m))"

section \<open>The events timeline\<close>

datatype order = Newest | Oldest

record timeline =
  tl_order :: order
  tl_compact :: bool
  tl_filter :: "event_type list"
  tl_expanded :: "int list"

definition timeline_init :: "order \<Rightarrow> bool \<Rightarrow> timeline" where
  "timeline_init o0 c0 = \<lparr> tl_order = o0, tl_compact = c0, tl_filter = [], tl_expanded = [] \<rparr>"

text \<open>A \<open>Set\<close> of the source: a list without repetitions, in insertion order.\<close>

definition toggle :: "'a \<Rightarrow> 'a list \<Rightarrow> 'a list" where
  "toggle x xs = (if x \<in> set xs then filter (\<lambda>y. y \<noteq> x) xs else xs @ [x])"

datatype timeline_event =
    FlipOrder | FlipCompact | ToggleType event_type | ClearFilter | ToggleRow int

fun timeline_step :: "timeline \<Rightarrow> timeline_event \<Rightarrow> timeline" where
  "timeline_step s FlipOrder =
     s\<lparr> tl_order := (if tl_order s = Newest then Oldest else Newest) \<rparr>"
| "timeline_step s FlipCompact = s\<lparr> tl_compact := \<not> tl_compact s \<rparr>"
| "timeline_step s (ToggleType t) = s\<lparr> tl_filter := toggle t (tl_filter s) \<rparr>"
| "timeline_step s ClearFilter = s\<lparr> tl_filter := [] \<rparr>"
| "timeline_step s (ToggleRow i) =
     (if tl_compact s then s else s\<lparr> tl_expanded := toggle i (tl_expanded s) \<rparr>)"

definition sort_events :: "order \<Rightarrow> match_event list \<Rightarrow> match_event list" where
  "sort_events ord events =
     sort_key (\<lambda>e. if ord = Newest then - sequence_id e else sequence_id e) events"

definition EventsTimeline_rows :: "timeline \<Rightarrow> match_event list \<Rightarrow> match_event list" where
  "EventsTimeline_rows s events =
     (let sorted = sort_events (tl_order s) events
      in if tl_filter s = [] then sorted
         else filter (\<lambda>e. me_event_type e \<in> set (tl_filter s)) sorted)"


text \<open>Label, colour token and left border of an event's row.\<close>

fun EVENT_META :: "event_type \<Rightarrow> string \<times> string" where
  "EVENT_META match_started = (''Match started'', ''text-(--color-accent)'')"
| "EVENT_META match_paused = (''Match paused'', ''text-(--color-warning)'')"
| "EVENT_META match_resumed = (''Match resumed'', ''text-(--color-text-secondary)'')"
| "EVENT_META match_complete = (''Match complete'', ''text-(--color-accent)'')"
| "EVENT_META match_reset = (''Match reset'', ''text-(--color-warning)'')"
| "EVENT_META match_configured = (''Match configured'', ''text-(--color-text-secondary)'')"
| "EVENT_META point_team1 = (''Point '' @ em_dash @ '' Team 1'', ''text-(--color-success)'')"
| "EVENT_META point_team2 = (''Point '' @ em_dash @ '' Team 2'', ''text-(--color-success)'')"
| "EVENT_META point_removed = (''Point removed'', ''text-(--color-warning)'')"
| "EVENT_META side_out = (''Side out'', ''text-(--color-text-secondary)'')"
| "EVENT_META undo_event = (''Undo'', ''text-(--color-warning)'')"
| "EVENT_META game_complete = (''Game complete'', ''text-(--color-accent)'')"
| "EVENT_META confirm_game_over = (''Game confirmed'', ''text-(--color-accent)'')"
| "EVENT_META confirm_match_over = (''Match confirmed'', ''text-(--color-accent)'')"
| "EVENT_META timeout = (''Timeout called'', ''text-(--color-warning)'')"
| "EVENT_META timeout_ended = (''Timeout ended'', ''text-(--color-text-secondary)'')"
| "EVENT_META end_change = (''End change'', ''text-(--color-text-secondary)'')"
| "EVENT_META substitution = (''Substitution'', ''text-(--color-text-secondary)'')"
| "EVENT_META score_override = (''Score override'', ''text-(--color-warning)'')"
| "EVENT_META forfeit_declared = (''Forfeit declared'', ''text-(--color-error)'')"

definition BORDER_FROM_COLOR :: "(string \<times> string) list" where
  "BORDER_FROM_COLOR =
     [(''text-(--color-success)'', ''border-l-(--color-success)''),
      (''text-(--color-warning)'', ''border-l-(--color-warning)''),
      (''text-(--color-error)'', ''border-l-(--color-error)''),
      (''text-(--color-accent)'', ''border-l-(--color-accent)''),
      (''text-(--color-text-secondary)'', ''border-l-(--color-border)'')]"

definition borderClass :: "match_event \<Rightarrow> string" where
  "borderClass e =
     (case map_of BORDER_FROM_COLOR (snd (EVENT_META (me_event_type e))) of
        Some b \<Rightarrow> b | None \<Rightarrow> ''border-l-(--color-border)'')"

text \<open>
  The second line of a row. The payload is read as an object: a \<open>null\<close> payload of an event
  that looks into it throws (\<open>None\<close>).
\<close>

definition payload_text :: "js \<Rightarrow> string \<Rightarrow> (js \<Rightarrow> string) \<Rightarrow> string \<Rightarrow> string option" where
  "payload_text p k f otherwise =
     map_option (\<lambda>v. if truthy v then f v else otherwise) (js_get p k)"

definition summarizeEvent :: "match_event \<Rightarrow> string option" where
  "summarizeEvent e =
     (let p = me_payload e in
      case me_event_type e of
        point_team1 \<Rightarrow> Some ''Point to team 1''
      | point_team2 \<Rightarrow> Some ''Point to team 2''
      | point_removed \<Rightarrow>
          payload_text p ''team'' (\<lambda>v. ''Point removed from team '' @ js_to_string v) ''Point removed''
      | timeout \<Rightarrow>
          payload_text p ''team'' (\<lambda>v. ''Team '' @ js_to_string v @ '' timeout'') ''Timeout''
      | score_override \<Rightarrow>
          payload_text p ''reason'' (\<lambda>v. ''Override: '' @ js_to_string v) ''Score override''
      | forfeit_declared \<Rightarrow>
          payload_text p ''forfeiting_team'' (\<lambda>v. ''Team '' @ js_to_string v @ '' forfeit'') ''Forfeit''
      | _ \<Rightarrow> Some [])"

text \<open>One chip per type that occurs, in order of first occurrence; none for a single type.\<close>

definition filter_chips :: "timeline \<Rightarrow> match_event list \<Rightarrow> (string \<times> bool) list" where
  "filter_chips s events =
     (let allTypes = rev (remdups (rev (map me_event_type events)))
      in if 1 < length allTypes
         then map (\<lambda>t. (fst (EVENT_META t), t \<in> set (tl_filter s))) allTypes else [])"

section \<open>Properties of the timeline\<close>

lemma sort_events_perm: "mset (sort_events ord es) = mset es"
  by (simp add: sort_events_def)

lemma sort_events_sorted:
  "sorted (map (\<lambda>e. if ord = Newest then - sequence_id e else sequence_id e) (sort_events ord es))"
  by (simp add: sort_events_def)

lemma toggle_member: "x \<in> set (toggle t xs) \<longleftrightarrow> (if x = t then t \<notin> set xs else x \<in> set xs)"
  by (auto simp: toggle_def)

lemma toggle_distinct: "distinct xs \<Longrightarrow> distinct (toggle t xs)"
  by (simp add: toggle_def)

definition timeline_ok :: "timeline \<Rightarrow> bool" where
  "timeline_ok s \<longleftrightarrow> distinct (tl_filter s) \<and> distinct (tl_expanded s)"

interpretation timeline: event_machine timeline_step "\<lambda>s. s = timeline_init ord0 c0" timeline_ok
proof unfold_locales
  show "s = timeline_init ord0 c0 \<Longrightarrow> timeline_ok s" for s
    by (simp add: timeline_init_def timeline_ok_def)
  show "timeline_ok s \<Longrightarrow> timeline_ok (timeline_step s e)" for s e
    by (cases e) (simp_all add: timeline_ok_def toggle_distinct)
qed

lemma border_listed: "snd (EVENT_META t) \<in> fst ` set BORDER_FROM_COLOR"
  by (cases t) (simp_all add: BORDER_FROM_COLOR_def)

lemma rows_of_filter:
  "mset (EventsTimeline_rows s es) =
     filter_mset (\<lambda>e. tl_filter s = [] \<or> me_event_type e \<in> set (tl_filter s)) (mset es)"
  by (cases "tl_filter s = []") (simp_all add: EventsTimeline_rows_def Let_def sort_events_perm)

lemma rows_sorted:
  "sorted (map (\<lambda>e. if tl_order s = Newest then - sequence_id e else sequence_id e)
     (EventsTimeline_rows s es))"
  using sort_events_sorted [of "tl_order s" es]
  by (auto simp: EventsTimeline_rows_def Let_def intro: sorted_filter)

end
