(* ===== verification/Court_Views.thy ===== *)
theory Court_Views
  imports Score_Views Browser
begin

text \<open>
  The court lists: the Producer Monitor's card of a court
  (\<open>web/src/features/overlay/monitor/CourtMonitorCard.tsx\<close>) and the referee's and
  scorekeeper's home screens (\<open>web/src/features/referee\<close>, \<open>web/src/features/scorekeeper\<close>).
\<close>

definition or_text :: "string option \<Rightarrow> string option \<Rightarrow> string option" where
  "or_text a b = (case a of Some s \<Rightarrow> if s \<noteq> [] then a else b | None \<Rightarrow> b)"

definition team_name_or :: "match_team option \<Rightarrow> string \<Rightarrow> string" where
  "team_name_or t d = (case t of Some u \<Rightarrow> mt_name u | None \<Rightarrow> d)"

section \<open>The Producer Monitor\<close>

datatype heat = MatchPoint | Deuce | Close | NoHeat

definition classifyHeat :: "match option \<Rightarrow> heat" where
  "classifyHeat mo =
     (case mo of
        None \<Rightarrow> NoHeat
      | Some m \<Rightarrow>
          if m_status m \<noteq> InProgress \<and> m_status m \<noteq> Paused then NoHeat
          else
            let a = team_1_score m; b = team_2_score m; mx = max a b; diff = abs (a - b);
                pointsToWin = points_to_win m; winBy = win_by m
            in if mx \<ge> pointsToWin - 1 \<and> diff \<ge> winBy then MatchPoint
               else if a = b \<and> a \<ge> pointsToWin - 1 then Deuce
               else if diff \<le> 2 \<and> mx \<ge> max 1 (pointsToWin - 5) then Close
               else NoHeat)"

fun HeatBadge :: "heat \<Rightarrow> (string \<times> string) option" where
  "HeatBadge NoHeat = None"
| "HeatBadge MatchPoint = Some (''MATCH POINT'', ''error'')"
| "HeatBadge Deuce = Some (''DEUCE'', ''warning'')"
| "HeatBadge Close = Some (''CLOSE'', ''info'')"

definition formatAge :: "int \<Rightarrow> string" where
  "formatAge ms =
     (if ms < 2000 then ''Live''
      else if ms < 60000 then show_int (ms div 1000) @ ''s''
      else if ms < 3600000 then show_int (ms div 60000) @ ''m''
      else show_int (ms div 3600000) @ ''h'')"

text \<open>A time of 0 is falsy, like no message at all.\<close>

definition LiveIndicator :: "ws_state \<Rightarrow> int option \<Rightarrow> int \<Rightarrow> string" where
  "LiveIndicator st lastMessageAt now =
     (case st of
        WsDisconnected \<Rightarrow> ''Offline''
      | WsConnecting \<Rightarrow> ''Connecting''
      | WsOpen \<Rightarrow>
          (case lastMessageAt of
             Some t \<Rightarrow> if t \<noteq> 0 then formatAge (now - t) else ''Live''
           | None \<Rightarrow> ''Live''))"

record monitor_row =
  mr_name :: string
  mr_score :: int
  mr_games :: "string option"
  mr_serving :: bool

definition monitor_TeamRow :: "string \<Rightarrow> int \<Rightarrow> int \<Rightarrow> bool \<Rightarrow> monitor_row" where
  "monitor_TeamRow name score games serving =
     \<lparr> mr_name = name, mr_score = score,
       mr_games = (if games > 0 then Some (show_int games @ '' pts'') else None),
       mr_serving = serving \<rparr>"

definition match_heading :: "match \<Rightarrow> string" where
  "match_heading m =
     (case or_text (tournament_name m) (or_text (division_name m) (Some ''Standalone match'')) of
        Some s \<Rightarrow> s | None \<Rightarrow> [])"

datatype card_body =
    ActiveBlock string string "monitor_row list" string "(string \<times> string) option" string
  | OnDeck string string string
  | NoActiveMatch

definition ActiveMatchBlock :: "match \<Rightarrow> heat \<Rightarrow> card_body" where
  "ActiveMatchBlock m h =
     ActiveBlock (match_heading m)
       (''G'' @ show_int (current_game m) @
          (if best_of m > 1 then '' / '' @ show_int (best_of m) else []))
       [monitor_TeamRow (team_name_or (team_1 m) ''Team 1'') (team_1_score m) (team_1_games_won m)
          (serving_team m = Some One),
        monitor_TeamRow (team_name_or (team_2 m) ''Team 2'') (team_2_score m) (team_2_games_won m)
          (serving_team m = Some Two)]
       (if m_status m = Paused then ''Paused'' else ''Live'') (HeatBadge h)
       (if m_scoring_type m = RallyScoring then ''Rally'' else ''Side-out'')"

definition IdleBlock :: "match option \<Rightarrow> card_body" where
  "IdleBlock onDeck =
     (case onDeck of
        None \<Rightarrow> NoActiveMatch
      | Some m \<Rightarrow> OnDeck (team_name_or (team_1 m) ''Team 1'') (team_name_or (team_2 m) ''Team 2'')
          (match_heading m))"

text \<open>What the card passes to \<open>useOverlayWebSocket\<close>: the court and the followed match.\<close>

definition card_socket :: "court_summary \<Rightarrow> int \<times> string option" where
  "card_socket c = (ct_id c, map_option m_public_id (active_match c))"

definition CourtMonitorCard :: "court_summary \<Rightarrow> card_body" where
  "CourtMonitorCard c =
     (case active_match c of
        Some m \<Rightarrow> ActiveMatchBlock m (classifyHeat (active_match c))
      | None \<Rightarrow> IdleBlock (on_deck_match c))"

section \<open>Court cards and their links\<close>

datatype console_mode = RefMode | ScorekeeperMode | PublicMode

definition court_link :: "console_mode \<Rightarrow> court_summary \<Rightarrow> string \<times> string" where
  "court_link mode c =
     (if mode = PublicMode then (''/courts/$courtId'', show_int (ct_id c))
      else case active_match c of
             Some m \<Rightarrow>
               if mode = RefMode then (''/ref/matches/$publicId'', m_public_id m)
               else (''/scorekeeper/matches/$publicId'', m_public_id m)
           | None \<Rightarrow> (''/ref/courts/$courtId'', show_int (ct_id c)))"

record court_card =
  cc_name :: string
  cc_show :: bool
  cc_live :: bool
  cc_link :: "string \<times> string"
  cc_match :: "(string \<times> string \<times> int \<times> int \<times> int) option"

definition CourtCard :: "console_mode \<Rightarrow> court_summary \<Rightarrow> court_card" where
  "CourtCard mode c =
     \<lparr> cc_name = ct_name c, cc_show = is_show_court c,
       cc_live = (case active_match c of Some m \<Rightarrow> m_status m = InProgress | None \<Rightarrow> False),
       cc_link = court_link mode c,
       cc_match = map_option
         (\<lambda>m. (team_name_or (team_1 m) ''Team 1'', team_name_or (team_2 m) ''Team 2'',
               team_1_score m, team_2_score m, current_game m)) (active_match c) \<rparr>"

text \<open>\<open>None\<close>: the message that there are no courts.\<close>

definition CourtGrid :: "console_mode \<Rightarrow> court_summary list \<Rightarrow> court_card list option" where
  "CourtGrid mode courts = (if courts = [] then None else Some (map (CourtCard mode) courts))"

section \<open>The matches of one court\<close>

definition groupByStatus :: "match list \<Rightarrow> match list \<times> match list \<times> match list" where
  "groupByStatus ms =
     foldl
       (\<lambda>(p, s, c) m.
          if m_status m = InProgress then (p @ [m], s, c)
          else if m_status m = Scheduled then (p, s @ [m], c)
          else if m_status m = Completed then (p, s, c @ [m])
          else (p, s, c))
       ([], [], []) ms"

datatype court_page =
    PageLoading
  | PageError
  | PageEmpty
  | PageSections "(string \<times> match list) list"

text \<open>\<open>matches.data\<close> is \<open>None\<close> while it is undefined.\<close>

definition RefCourtView :: "bool \<Rightarrow> bool \<Rightarrow> match list option \<Rightarrow> court_page" where
  "RefCourtView loading err data =
     (if loading then PageLoading
      else if err then PageError
      else
        let ms = (case data of Some l \<Rightarrow> l | None \<Rightarrow> []);
            (p, s, c) = groupByStatus ms
        in if ms = [] then PageEmpty
           else PageSections (filter (\<lambda>(_, l). l \<noteq> [])
                  [(''In Progress'', p), (''Scheduled'', s), (''Recently Completed'', c)]))"

section \<open>Courts by venue\<close>

definition floating_key :: string where
  "floating_key = ''__floating__''"

definition venue_key :: "court_summary \<Rightarrow> string" where
  "venue_key c = (case venue_name c of Some v \<Rightarrow> v | None \<Rightarrow> floating_key)"

text \<open>A \<open>Map\<close> keeps its keys in the order of their first insertion.\<close>

fun add_court :: "(string \<times> court_summary list) list \<Rightarrow> court_summary \<Rightarrow>
    (string \<times> court_summary list) list" where
  "add_court [] c = [(venue_key c, [c])]"
| "add_court ((k, cs) # rest) c =
     (if k = venue_key c then (k, cs @ [c]) # rest else (k, cs) # add_court rest c)"

definition venue_map :: "court_summary list \<Rightarrow> (string \<times> court_summary list) list" where
  "venue_map courts = foldl add_court [] courts"

text \<open>
  \<open>Array.prototype.sort\<close> with a comparison function is stable; where the function is
  consistent, every stable sort gives this list. \<open>lc\<close> is \<open>localeCompare\<close>, which depends on
  the browser's language.
\<close>

fun sort_insert :: "('a \<Rightarrow> 'a \<Rightarrow> int) \<Rightarrow> 'a \<Rightarrow> 'a list \<Rightarrow> 'a list" where
  "sort_insert cmp x [] = [x]"
| "sort_insert cmp x (y # ys) = (if cmp x y \<le> 0 then x # y # ys else y # sort_insert cmp x ys)"

definition js_sort :: "('a \<Rightarrow> 'a \<Rightarrow> int) \<Rightarrow> 'a list \<Rightarrow> 'a list" where
  "js_sort cmp xs = foldr (sort_insert cmp) xs []"

definition venue_compare :: "(string \<Rightarrow> string \<Rightarrow> int) \<Rightarrow> string \<Rightarrow> string \<Rightarrow> int" where
  "venue_compare lc a b =
     (if a = floating_key then 1 else if b = floating_key then - 1 else lc a b)"

definition groupCourtsByVenue ::
    "(string \<Rightarrow> string \<Rightarrow> int) \<Rightarrow> court_summary list \<Rightarrow> (string \<times> court_summary list) list" where
  "groupCourtsByVenue lc courts =
     map (\<lambda>k. (if k = floating_key then ''Floating Courts'' else k,
               case map_of (venue_map courts) k of Some cs \<Rightarrow> cs | None \<Rightarrow> []))
       (js_sort (venue_compare lc) (map fst (venue_map courts)))"

section \<open>The home screens\<close>

record staff_query =
  sq_loading :: bool
  sq_assignment :: "(int \<times> string) option"

record court_query =
  cq_loading :: bool
  cq_error :: bool
  cq_data :: "court_summary list option"

datatype home_page =
    HomeLoading
  | HomeError
  | HomeEmpty
  | HomeGrid "court_card list option"
  | HomeGroups "(string \<times> court_card list option) list"

definition is_staff :: "string option \<Rightarrow> bool" where
  "is_staff role = (role = Some ''referee'' \<or> role = Some ''scorekeeper'')"

text \<open>The tournament \<open>RefHome\<close> asks the courts of; \<open>None\<close> leaves that query disabled.\<close>

definition staff_tournament :: "string option \<Rightarrow> staff_query \<Rightarrow> int option" where
  "staff_tournament role a = (if is_staff role then map_option fst (sq_assignment a) else None)"

definition RefHome ::
    "(string \<Rightarrow> string \<Rightarrow> int) \<Rightarrow> string option \<Rightarrow> staff_query \<Rightarrow> court_query \<Rightarrow> court_query \<Rightarrow> home_page" where
  "RefHome lc role a courts tournamentCourts =
     (let active = (if is_staff role \<and> sq_assignment a \<noteq> None then tournamentCourts else courts);
          groups = groupCourtsByVenue lc (case cq_data active of Some cs \<Rightarrow> cs | None \<Rightarrow> [])
      in if cq_loading active \<or> (is_staff role \<and> sq_loading a) then HomeLoading
         else if cq_error active then HomeError
         else case groups of
                [] \<Rightarrow> HomeEmpty
              | [g] \<Rightarrow> HomeGrid (CourtGrid RefMode (snd g))
              | gs \<Rightarrow> HomeGroups (map (\<lambda>(v, cs). (v, CourtGrid RefMode cs)) gs))"

definition ScorekeeperHome :: "court_query \<Rightarrow> home_page" where
  "ScorekeeperHome courts =
     (if cq_loading courts then HomeLoading
      else if cq_error courts then HomeError
      else HomeGrid (CourtGrid ScorekeeperMode (case cq_data courts of Some cs \<Rightarrow> cs | None \<Rightarrow> [])))"

definition handleJump :: "string \<Rightarrow> string \<Rightarrow> (string \<times> string) option" where
  "handleJump route jumpId = (if trim jumpId = [] then None else Some (route, trim jumpId))"

section \<open>Lemmas\<close>

lemma groupByStatus_filter:
  "groupByStatus ms =
     (filter (\<lambda>m. m_status m = InProgress) ms, filter (\<lambda>m. m_status m = Scheduled) ms,
      filter (\<lambda>m. m_status m = Completed) ms)"
proof -
  have "foldl (\<lambda>(p, s, c) m.
          if m_status m = InProgress then (p @ [m], s, c)
          else if m_status m = Scheduled then (p, s @ [m], c)
          else if m_status m = Completed then (p, s, c @ [m])
          else (p, s, c)) (p, s, c) ms =
      (p @ filter (\<lambda>m. m_status m = InProgress) ms, s @ filter (\<lambda>m. m_status m = Scheduled) ms,
       c @ filter (\<lambda>m. m_status m = Completed) ms)" for p s c
    by (induction ms arbitrary: p s c) simp_all
  then show ?thesis by (simp add: groupByStatus_def)
qed

lemma mset_sort_insert: "mset (sort_insert cmp x ys) = add_mset x (mset ys)"
  by (induction ys) simp_all

lemma mset_js_sort: "mset (js_sort cmp xs) = mset xs"
  by (induction xs) (simp_all add: js_sort_def mset_sort_insert)

lemma set_js_sort [simp]: "set (js_sort cmp xs) = set xs"
  by (rule mset_eq_setD) (rule mset_js_sort)

lemma distinct_js_sort [simp]: "distinct (js_sort cmp xs) = distinct xs"
  using mset_js_sort [of cmp xs] by (metis mset_eq_imp_distinct_iff)

lemma sort_insert_floating:
  "sort_insert (venue_compare lc) floating_key ys = ys @ [floating_key]"
  by (induction ys) (simp_all add: venue_compare_def)

lemma sort_insert_before_floating:
  "x \<noteq> floating_key \<Longrightarrow> \<exists>zs. sort_insert (venue_compare lc) x (ys @ [floating_key]) = zs @ [floating_key]"
proof (induction ys)
  case Nil
  then show ?case by (simp add: venue_compare_def)
next
  case (Cons y ys)
  then obtain zs where "sort_insert (venue_compare lc) x (ys @ [floating_key]) = zs @ [floating_key]"
    by blast
  then show ?case by (cases "venue_compare lc x y \<le> 0") auto
qed

lemma floating_last:
  "floating_key \<in> set ks \<Longrightarrow> \<exists>zs. js_sort (venue_compare lc) ks = zs @ [floating_key]"
proof (induction ks)
  case Nil
  then show ?case by simp
next
  case (Cons k ks)
  show ?case
  proof (cases "k = floating_key")
    case True
    then show ?thesis by (simp add: js_sort_def sort_insert_floating)
  next
    case False
    with Cons obtain zs where "js_sort (venue_compare lc) ks = zs @ [floating_key]" by auto
    then show ?thesis using False sort_insert_before_floating by (simp add: js_sort_def)
  qed
qed

text \<open>The map holds every court under its own key, in the order of the list.\<close>

lemma keys_add_court:
  "fst ` set (add_court m c) = insert (venue_key c) (fst ` set m)"
  by (induction m c rule: add_court.induct) auto

lemma distinct_add_court:
  "distinct (map fst m) \<Longrightarrow> distinct (map fst (add_court m c))"
proof (induction m c rule: add_court.induct)
  case (2 k cs rest c)
  then show ?case using keys_add_court [of rest c] by (auto simp flip: set_map)
qed simp

lemma map_of_add_court:
  "map_of (add_court m c) k =
     (if k = venue_key c then Some ((case map_of m k of Some cs \<Rightarrow> cs | None \<Rightarrow> []) @ [c])
      else map_of m k)"
  by (induction m c rule: add_court.induct) auto

lemma map_of_venue_map:
  "map_of (venue_map courts) k =
     (let cs = filter (\<lambda>c. venue_key c = k) courts in if cs = [] then None else Some cs)"
  by (induction courts rule: rev_induct)
    (auto simp: venue_map_def map_of_add_court Let_def)

lemma distinct_venue_map: "distinct (map fst (venue_map courts))"
  by (induction courts rule: rev_induct) (simp_all add: venue_map_def distinct_add_court)

lemma keys_venue_map: "fst ` set (venue_map courts) = venue_key ` set courts"
  by (induction courts rule: rev_induct) (simp_all add: venue_map_def keys_add_court)

lemma group_of_key:
  "(case map_of (venue_map courts) k of Some cs \<Rightarrow> cs | None \<Rightarrow> []) =
     filter (\<lambda>c. venue_key c = k) courts"
  by (simp add: map_of_venue_map Let_def)

lemma groups_eq:
  "groupCourtsByVenue lc courts =
     map (\<lambda>k. (if k = floating_key then ''Floating Courts'' else k,
               filter (\<lambda>c. venue_key c = k) courts))
       (js_sort (venue_compare lc) (map fst (venue_map courts)))"
  by (simp add: groupCourtsByVenue_def group_of_key)

lemma mset_concat_partition:
  assumes "distinct ks" "f ` set xs \<subseteq> set ks"
  shows "mset (concat (map (\<lambda>k. filter (\<lambda>x. f x = k) xs) ks)) = mset xs"
  using assms
proof (induction ks arbitrary: xs)
  case Nil
  then show ?case by simp
next
  case (Cons k ks)
  let ?rest = "filter (\<lambda>x. f x \<noteq> k) xs"
  have "map (\<lambda>j. filter (\<lambda>x. f x = j) ?rest) ks = map (\<lambda>j. filter (\<lambda>x. f x = j) xs) ks"
    using Cons.prems(1) by (auto intro!: filter_cong)
  moreover have "mset (concat (map (\<lambda>j. filter (\<lambda>x. f x = j) ?rest) ks)) = mset ?rest"
    using Cons.prems by (intro Cons.IH) auto
  ultimately have "mset (concat (map (\<lambda>j. filter (\<lambda>x. f x = j) xs) ks)) = mset ?rest"
    by metis
  then show ?case by (simp add: multiset_partition [of "mset xs" "\<lambda>x. f x = k", symmetric])
qed


lemma group_titles:
  assumes "g \<in> set (groupCourtsByVenue lc courts)"
  shows "\<exists>k. snd g = filter (\<lambda>c. venue_key c = k) courts \<and> snd g \<noteq> [] \<and>
    fst g = (if k = floating_key then ''Floating Courts'' else k)"
proof -
  obtain k where k: "k \<in> venue_key ` set courts"
    "g = (if k = floating_key then ''Floating Courts'' else k, filter (\<lambda>c. venue_key c = k) courts)"
    using assms keys_venue_map [of courts] by (auto simp: groups_eq)
  then have "filter (\<lambda>c. venue_key c = k) courts \<noteq> []" by (auto simp: filter_empty_conv)
  with k(2) show ?thesis by auto
qed

lemma court_page:
  "RefCourtView False False (Some ms) =
     (if ms = [] then PageEmpty
      else PageSections (filter (\<lambda>x. snd x \<noteq> [])
             [(''In Progress'', filter (\<lambda>m. m_status m = InProgress) ms),
              (''Scheduled'', filter (\<lambda>m. m_status m = Scheduled) ms),
              (''Recently Completed'', filter (\<lambda>m. m_status m = Completed) ms)]))"
  by (simp add: RefCourtView_def groupByStatus_filter Let_def case_prod_beta)

lemma concat_sections: "concat (map snd [(a, xs), (b, ys), (c, zs)]) = xs @ ys @ zs"
  by simp

lemma concat_nonempty: "concat (map snd (filter (\<lambda>x. snd x \<noteq> []) l)) = concat (map snd l)"
  by (induction l) simp_all

section \<open>Properties\<close>

text \<open>What the badge is about: one more point for the leading side ends the game.\<close>

definition next_point_wins :: "match \<Rightarrow> bool" where
  "next_point_wins m =
     (max (team_1_score m) (team_2_score m) + 1 \<ge> points_to_win m \<and>
      abs (team_1_score m - team_2_score m) + 1 \<ge> win_by m)"

text \<open>
  The match-point badge of the Producer Monitor is right when it shows, but it stays away
  from the usual game points: it appears exactly when the leader's next point ends the game and
  the lead is already \<open>win_by\<close>, so never at a lead of \<open>win_by - 1\<close> such as 10-9.
\<close>

theorem heat_match_point:
  assumes "m_status m = InProgress \<or> m_status m = Paused"
  shows "classifyHeat (Some m) = MatchPoint \<longleftrightarrow>
     next_point_wins m \<and> abs (team_1_score m - team_2_score m) \<noteq> win_by m - 1"
  using assms by (auto simp: classifyHeat_def next_point_wins_def Let_def)

theorem heat_match_point_witness:
  "next_point_wins sample_match \<and> classifyHeat (Some sample_match) \<noteq> MatchPoint \<and>
   classifyHeat (Some sample_match) = Close"
proof -
  have "m_status sample_match = InProgress \<or> m_status sample_match = Paused"
    by (simp add: sample_match_def)
  then have "classifyHeat (Some sample_match) = MatchPoint \<longleftrightarrow>
     next_point_wins sample_match \<and>
     abs (team_1_score sample_match - team_2_score sample_match) \<noteq> win_by sample_match - 1"
    by (rule heat_match_point)
  moreover have "next_point_wins sample_match"
    "abs (team_1_score sample_match - team_2_score sample_match) = win_by sample_match - 1"
    "classifyHeat (Some sample_match) = Close"
    by (simp_all add: sample_match_def next_point_wins_def classifyHeat_def)
  ultimately show ?thesis by simp
qed

lemma court_groups_parts:
  fixes lc :: "string \<Rightarrow> string \<Rightarrow> int"
  shows "mset (concat (map snd (groupCourtsByVenue lc courts))) = mset courts"
    and "distinct (map fst (venue_map courts)) \<and>
         (\<forall>g \<in> set (groupCourtsByVenue lc courts). \<exists>k.
            snd g = filter (\<lambda>c. venue_key c = k) courts \<and> snd g \<noteq> [] \<and>
            fst g = (if k = floating_key then ''Floating Courts'' else k))"
    and "filter (\<lambda>c. venue_name c = None) courts \<noteq> [] \<Longrightarrow>
         fst (last (groupCourtsByVenue lc courts)) = ''Floating Courts''"
proof -
  let ?ks = "js_sort (venue_compare lc) (map fst (venue_map courts))"
  have "map snd (groupCourtsByVenue lc courts) = map (\<lambda>k. filter (\<lambda>c. venue_key c = k) courts) ?ks"
    by (simp add: groups_eq)
  moreover have "mset (concat (map (\<lambda>k. filter (\<lambda>c. venue_key c = k) courts) ?ks)) = mset courts"
    by (rule mset_concat_partition) (simp_all add: distinct_venue_map keys_venue_map)
  ultimately show "mset (concat (map snd (groupCourtsByVenue lc courts))) = mset courts" by simp
  show "distinct (map fst (venue_map courts)) \<and>
         (\<forall>g \<in> set (groupCourtsByVenue lc courts). \<exists>k.
            snd g = filter (\<lambda>c. venue_key c = k) courts \<and> snd g \<noteq> [] \<and>
            fst g = (if k = floating_key then ''Floating Courts'' else k))"
    using distinct_venue_map group_titles by blast
  assume "filter (\<lambda>c. venue_name c = None) courts \<noteq> []"
  then obtain c where "c \<in> set courts" "venue_name c = None" by (auto simp: filter_empty_conv)
  then have "floating_key \<in> set (map fst (venue_map courts))"
    using keys_venue_map [of courts] by (auto simp: venue_key_def intro!: rev_image_eqI)
  then obtain zs where "?ks = zs @ [floating_key]" using floating_last by blast
  then show "fst (last (groupCourtsByVenue lc courts)) = ''Floating Courts''" by (simp add: groups_eq)
qed

text \<open>
  Grouping the courts by venue loses and repeats none, keeps the courts of one venue in
  their order, and puts the courts without a venue last, whatever the browser's collation.
\<close>

theorem court_groups:
  fixes lc :: "string \<Rightarrow> string \<Rightarrow> int"
  shows "mset (concat (map snd (groupCourtsByVenue lc courts))) = mset courts \<and>
    distinct (map fst (venue_map courts)) \<and>
    (\<forall>g \<in> set (groupCourtsByVenue lc courts). \<exists>k.
       snd g = filter (\<lambda>c. venue_key c = k) courts \<and> snd g \<noteq> [] \<and>
       fst g = (if k = floating_key then ''Floating Courts'' else k)) \<and>
    (filter (\<lambda>c. venue_name c = None) courts \<noteq> [] \<longrightarrow>
       fst (last (groupCourtsByVenue lc courts)) = ''Floating Courts'')"
  using court_groups_parts [where lc = lc and courts = courts] by blast

definition sample_court :: "int \<Rightarrow> string option \<Rightarrow> match option \<Rightarrow> court_summary" where
  "sample_court i v m =
     \<lparr> ct_id = i, ct_name = ''Court'', ct_slug = ''court'', ct_venue_id = None, venue_name = v,
       is_show_court = False, stream_url = None, active_match = m, on_deck_match = None \<rparr>"

theorem court_groups_witness:
  "fst (last (groupCourtsByVenue (\<lambda>a b. 0) [sample_court 1 None None, sample_court 2 (Some ''A'') None]))
     = ''Floating Courts''"
  by (rule court_groups [THEN conjunct2, THEN conjunct2, THEN conjunct2, rule_format]) (simp add: sample_court_def)

text \<open>
  The referee's page of a court shows the matches in progress, scheduled and completed, each
  once and in order, and no other match: a court whose only match is paused, warming up,
  cancelled or forfeited gets a page with neither a section nor the notice that it is empty.
\<close>

theorem court_page_sections:
  assumes "RefCourtView False False (Some ms) = page"
  shows "page = PageEmpty \<longleftrightarrow> ms = []"
    and "page = PageSections sections \<Longrightarrow>
      concat (map snd sections) =
        filter (\<lambda>m. m_status m = InProgress) ms @ filter (\<lambda>m. m_status m = Scheduled) ms @
        filter (\<lambda>m. m_status m = Completed) ms"
    and "page = PageSections [] \<longleftrightarrow>
      ms \<noteq> [] \<and> (\<forall>m \<in> set ms. m_status m \<in> {Warmup, Paused, Cancelled, Forfeited})"
proof -
  note page = assms [symmetric, unfolded court_page]
  show "page = PageEmpty \<longleftrightarrow> ms = []"
    by (simp add: page)
  show "concat (map snd sections) =
        filter (\<lambda>m. m_status m = InProgress) ms @ filter (\<lambda>m. m_status m = Scheduled) ms @
        filter (\<lambda>m. m_status m = Completed) ms" if "page = PageSections sections"
  proof -
    have "ms \<noteq> []" using that by (auto simp: page)
    have "sections = filter (\<lambda>x. snd x \<noteq> [])
        [(''In Progress'', filter (\<lambda>m. m_status m = InProgress) ms),
         (''Scheduled'', filter (\<lambda>m. m_status m = Scheduled) ms),
         (''Recently Completed'', filter (\<lambda>m. m_status m = Completed) ms)]"
      using that page \<open>ms \<noteq> []\<close> by (simp only: if_False court_page.inject)
    then show ?thesis by (simp only: concat_nonempty concat_sections)
  qed
  have other: "(st \<in> {Warmup, Paused, Cancelled, Forfeited}) =
      (st \<noteq> InProgress \<and> st \<noteq> Scheduled \<and> st \<noteq> Completed)" for st
    by (cases st) simp_all
  show "page = PageSections [] \<longleftrightarrow>
      ms \<noteq> [] \<and> (\<forall>m \<in> set ms. m_status m \<in> {Warmup, Paused, Cancelled, Forfeited})"
    unfolding other by (auto simp: page filter_empty_conv)
qed

theorem court_page_sections_witness:
  "RefCourtView False False (Some [sample_match\<lparr> m_status := Paused \<rparr>]) = PageSections []"
  using court_page_sections(3) [OF refl, of "[sample_match\<lparr> m_status := Paused \<rparr>]"] by simp

end
