(* ===== verification/Console_Parts.thy ===== *)
theory Console_Parts
  imports Scoring_Types Browser
begin

text \<open>
  The parts both scoring consoles share: keyboard shortcuts (\<open>useKeyboardShortcuts.ts\<close>),
  preferences (\<open>useScoringPrefs.ts\<close>), sounds (\<open>feedback.ts\<close>) and the connection banner
  (\<open>DisconnectBanner.tsx\<close>), all in \<open>web/src/features/scoring\<close>.
\<close>

section \<open>Keyboard shortcuts\<close>

text \<open>\<open>NoElement\<close> is a target that is no \<open>HTMLElement\<close>; otherwise its tag and editability.\<close>

datatype key_target = NoElement | Element string bool

fun isFromInput :: "key_target \<Rightarrow> bool" where
  "isFromInput NoElement = False"
| "isFromInput (Element tag editable) =
     (tag = ''INPUT'' \<or> tag = ''TEXTAREA'' \<or> tag = ''SELECT'' \<or> editable)"

record key_press =
  alt_key :: bool
  ctrl_key :: bool
  meta_key :: bool
  kp_key :: string
  kp_target :: key_target

datatype shortcut = KPointTeam1 | KPointTeam2 | KSideOut | KUndo | KTimeout | KEscape

definition shortcut_of :: "string \<Rightarrow> shortcut option" where
  "shortcut_of k =
     (if k = ''1'' then Some KPointTeam1
      else if k = ''2'' then Some KPointTeam2
      else if k = ''s'' \<or> k = ''S'' then Some KSideOut
      else if k = ''z'' \<or> k = ''Z'' then Some KUndo
      else if k = ''t'' \<or> k = ''T'' then Some KTimeout
      else if k = ''Escape'' then Some KEscape
      else None)"

text \<open>
  The listener: the shortcut to run, if any; the browser's default action is prevented
  exactly when there is one. \<open>None\<close> when the hook is not enabled, as no listener is
  installed then.
\<close>

definition onKey :: "bool \<Rightarrow> key_press \<Rightarrow> shortcut option" where
  "onKey enabled e =
     (if \<not> enabled \<or> alt_key e \<or> ctrl_key e \<or> meta_key e \<or> isFromInput (kp_target e) then None
      else shortcut_of (kp_key e))"

definition plain_key :: "string \<Rightarrow> key_press" where
  "plain_key k =
     \<lparr> alt_key = False, ctrl_key = False, meta_key = False, kp_key = k, kp_target = NoElement \<rparr>"

lemma onKey_plain [simp]: "onKey True (plain_key k) = shortcut_of k"
  by (simp add: onKey_def plain_key_def)

section \<open>Preferences\<close>

record prefs =
  pf_keyboard :: bool
  pf_haptic :: bool
  pf_sound :: bool

definition DEFAULT_PREFS :: prefs where
  "DEFAULT_PREFS = \<lparr> pf_keyboard = True, pf_haptic = True, pf_sound = True \<rparr>"

fun bool_or :: "js \<Rightarrow> bool \<Rightarrow> bool" where
  "bool_or (Bool b) d = b"
| "bool_or _ d = d"

text \<open>
  The stored text as parsed: \<open>None\<close> when nothing, the empty string or text that is not JSON
  is stored. Reading a member of \<open>null\<close> throws, which gives the defaults as well.
\<close>

definition readPrefs :: "js option \<Rightarrow> prefs" where
  "readPrefs stored =
     (case stored of
        None \<Rightarrow> DEFAULT_PREFS
      | Some v \<Rightarrow>
          if nullish v then DEFAULT_PREFS
          else \<lparr> pf_keyboard = bool_or (js_opt_get v ''keyboard'') (pf_keyboard DEFAULT_PREFS),
                 pf_haptic = bool_or (js_opt_get v ''haptic'') (pf_haptic DEFAULT_PREFS),
                 pf_sound = bool_or (js_opt_get v ''sound'') (pf_sound DEFAULT_PREFS) \<rparr>)"

definition prefs_js :: "prefs \<Rightarrow> js" where
  "prefs_js p = Obj [(''keyboard'', Bool (pf_keyboard p)), (''haptic'', Bool (pf_haptic p)),
                     (''sound'', Bool (pf_sound p))]"

text \<open>
  The storage shared by the tabs and the preferences each use of the hook shows. A full or
  disabled storage (\<open>storable\<close> false) keeps what it has.
\<close>

record prefs_world =
  pw_store :: "js option"
  pw_views :: "nat \<Rightarrow> prefs option"

datatype pref = Keyboard | Haptic | Sound

fun set_pref :: "pref \<Rightarrow> bool \<Rightarrow> prefs \<Rightarrow> prefs" where
  "set_pref Keyboard v p = p\<lparr> pf_keyboard := v \<rparr>"
| "set_pref Haptic v p = p\<lparr> pf_haptic := v \<rparr>"
| "set_pref Sound v p = p\<lparr> pf_sound := v \<rparr>"

fun get_pref :: "pref \<Rightarrow> prefs \<Rightarrow> bool" where
  "get_pref Keyboard p = pf_keyboard p"
| "get_pref Haptic p = pf_haptic p"
| "get_pref Sound p = pf_sound p"

definition writePrefs :: "bool \<Rightarrow> prefs \<Rightarrow> js option \<Rightarrow> js option" where
  "writePrefs storable p stored = (if storable then Some (prefs_js p) else stored)"

datatype prefs_event =
    MountPrefs nat
  | SetPref nat pref bool bool
  | TogglePref nat pref bool
  | StorageEvent nat bool

definition update_prefs :: "nat \<Rightarrow> pref \<Rightarrow> bool \<Rightarrow> bool \<Rightarrow> prefs_world \<Rightarrow> prefs_world" where
  "update_prefs n f v storable w =
     (case pw_views w n of
        None \<Rightarrow> w
      | Some p \<Rightarrow>
          let next = set_pref f v p
          in \<lparr> pw_store = writePrefs storable next (pw_store w), pw_views = (pw_views w)(n \<mapsto> next) \<rparr>)"

text \<open>The last argument of a storage event is whether it is about the key of the hook.\<close>

fun prefs_step :: "prefs_world \<Rightarrow> prefs_event \<Rightarrow> prefs_world" where
  "prefs_step w (MountPrefs n) = w\<lparr> pw_views := (pw_views w)(n \<mapsto> readPrefs (pw_store w)) \<rparr>"
| "prefs_step w (SetPref n f v storable) = update_prefs n f v storable w"
| "prefs_step w (TogglePref n f storable) =
     (case pw_views w n of
        None \<Rightarrow> w
      | Some p \<Rightarrow> update_prefs n f (\<not> get_pref f p) storable w)"
| "prefs_step w (StorageEvent n ours) =
     (case pw_views w n of
        None \<Rightarrow> w
      | Some p \<Rightarrow> if ours then w\<lparr> pw_views := (pw_views w)(n \<mapsto> readPrefs (pw_store w)) \<rparr> else w)"

lemma readPrefs_prefs_js [simp]: "readPrefs (Some (prefs_js p)) = p"
  by (simp add: readPrefs_def prefs_js_def js_opt_get_def)

lemma readPrefs_nullish: "nullish v \<Longrightarrow> readPrefs (Some v) = DEFAULT_PREFS"
  by (simp add: readPrefs_def)

text \<open>After a change, every use of the hook that gets the storage event or mounts shows it.\<close>

lemma prefs_reach_other_tabs:
  assumes "pw_views w n = Some p" "pw_views w k = Some q" "k \<noteq> n"
  shows "pw_views (run prefs_step w [SetPref n f v True, StorageEvent k True]) k = Some (set_pref f v p)"
    and "pw_views (run prefs_step w [SetPref n f v True, MountPrefs k]) k = Some (set_pref f v p)"
  using assms by (simp_all add: update_prefs_def writePrefs_def Let_def)

section \<open>Feedback\<close>

datatype tick = TickPoint | TickSideOut | TickUndo | TickError

fun playTick_freq :: "tick \<Rightarrow> nat" where
  "playTick_freq TickPoint = 880"
| "playTick_freq TickSideOut = 660"
| "playTick_freq TickUndo = 440"
| "playTick_freq TickError = 220"

section \<open>The connection banner\<close>

text \<open>
  \<open>bn_deps\<close> are the dependencies the effect ran with last, \<open>bn_timer\<close> whether its 2 s timer
  is pending. A render whose dependencies differ clears the timer and runs the effect; the
  state it sets may cause one more render.
\<close>

record banner =
  bn_state :: ws_state
  bn_flash :: bool
  bn_was :: bool
  bn_timer :: bool
  bn_deps :: "(ws_state \<times> bool) option"

definition banner_effect :: "banner \<Rightarrow> banner" where
  "banner_effect b =
     (if bn_deps b = Some (bn_state b, bn_was b) then b
      else if bn_state b = WsDisconnected
      then b\<lparr> bn_deps := Some (bn_state b, bn_was b), bn_timer := False, bn_was := True \<rparr>
      else if bn_state b = WsOpen \<and> bn_was b
      then b\<lparr> bn_deps := Some (bn_state b, bn_was b), bn_timer := True, bn_flash := True \<rparr>
      else b\<lparr> bn_deps := Some (bn_state b, bn_was b), bn_timer := False \<rparr>)"

definition banner_settle :: "banner \<Rightarrow> banner" where
  "banner_settle b = banner_effect (banner_effect b)"

datatype banner_event = BannerState ws_state | BannerTimer

fun banner_step :: "banner \<Rightarrow> banner_event \<Rightarrow> banner" where
  "banner_step b (BannerState st) = banner_settle (b\<lparr> bn_state := st \<rparr>)"
| "banner_step b BannerTimer =
     (if bn_timer b
      then banner_settle (b\<lparr> bn_timer := False, bn_flash := False, bn_was := False \<rparr>)
      else b)"

definition banner_init :: "ws_state \<Rightarrow> banner" where
  "banner_init st = banner_settle
     \<lparr> bn_state = st, bn_flash = False, bn_was = False, bn_timer = False, bn_deps = None \<rparr>"

datatype banner_view = ConnectionLost "nat option" | Reconnected

definition DisconnectBanner :: "banner \<Rightarrow> nat \<Rightarrow> banner_view option" where
  "DisconnectBanner b attempt =
     (if bn_state b = WsDisconnected
      then Some (ConnectionLost (if attempt > 1 then Some attempt else None))
      else if bn_flash b then Some Reconnected
      else None)"

text \<open>Two passes are enough: the effect has nothing more to do.\<close>

lemma banner_settled: "banner_effect (banner_settle b) = banner_settle b"
  by (cases "bn_state b") (auto simp: banner_settle_def banner_effect_def)

text \<open>A pending timer means the banner is open and flashing, and the flash needs a disconnect.\<close>

definition banner_ok :: "banner \<Rightarrow> bool" where
  "banner_ok b \<longleftrightarrow> (bn_timer b \<longrightarrow> bn_state b = WsOpen \<and> bn_flash b) \<and> (bn_flash b \<longrightarrow> bn_was b) \<and>
     (bn_state b = WsOpen \<and> bn_was b \<longrightarrow> bn_timer b) \<and> bn_deps b = Some (bn_state b, bn_was b)"

lemma banner_ok_settle:
  assumes "banner_ok b"
  shows "banner_ok (banner_settle (b\<lparr> bn_state := st \<rparr>))"
  using assms by (cases st; cases "bn_state b") (auto simp: banner_ok_def banner_settle_def banner_effect_def)

interpretation banner: event_machine banner_step "\<lambda>b. b = banner_init st0" banner_ok
proof unfold_locales
  show "b = banner_init st0 \<Longrightarrow> banner_ok b" for b
    by (cases st0) (simp_all add: banner_init_def banner_ok_def banner_settle_def banner_effect_def)
  show "banner_ok b \<Longrightarrow> banner_ok (banner_step b e)" for b e
    by (cases e) (auto simp: banner_ok_settle,
      auto simp: banner_ok_def banner_settle_def banner_effect_def)
qed

lemma banner_reachable_ok: "banner_ok (run banner_step (banner_init st0) es)"
  by (rule banner.reachable_inv) simp

text \<open>One cycle of a connection that keeps failing.\<close>

definition retry :: "banner_event list" where
  "retry = [BannerState WsDisconnected, BannerState WsConnecting]"

text \<open>What the banner has become once such a cycle followed a cut-off flash.\<close>

definition stuck :: "banner \<Rightarrow> bool" where
  "stuck b \<longleftrightarrow> bn_state b = WsConnecting \<and> bn_flash b \<and> bn_was b \<and> \<not> bn_timer b \<and>
     bn_deps b = Some (WsConnecting, True)"

lemma stuck_retry: "stuck b \<Longrightarrow> stuck (run banner_step b retry)"
  by (auto simp: stuck_def retry_def banner_settle_def banner_effect_def)

lemma stuck_retries: "stuck b \<Longrightarrow> stuck (run banner_step b (concat (replicate n retry)))"
  by (induction n arbitrary: b) (auto simp: stuck_retry)

lemma disconnect_banner_parts:
  fixes st0 :: ws_state and es :: "banner_event list"
  defines "b \<equiv> run banner_step (banner_init st0) es"
  shows "(\<exists>a. DisconnectBanner b attempt = Some (ConnectionLost a)) \<longleftrightarrow> bn_state b = WsDisconnected"
    and "bn_state b = WsOpen \<Longrightarrow> DisconnectBanner b attempt = Some Reconnected \<Longrightarrow>
      bn_timer b \<and> DisconnectBanner (banner_step b BannerTimer) attempt = None"
    and "let b' = run banner_step (banner_init st0)
             ([BannerState WsDisconnected, BannerState WsConnecting, BannerState WsOpen] @
              retry @ concat (replicate n retry))
         in bn_state b' = WsConnecting \<and> DisconnectBanner b' attempt = Some Reconnected \<and>
            banner_step b' BannerTimer = b'"
proof -
  have ok: "banner_ok b" unfolding b_def by (rule banner_reachable_ok)
  show "(\<exists>a. DisconnectBanner b attempt = Some (ConnectionLost a)) \<longleftrightarrow> bn_state b = WsDisconnected"
    by (simp add: DisconnectBanner_def)
  show "bn_timer b \<and> DisconnectBanner (banner_step b BannerTimer) attempt = None"
    if "bn_state b = WsOpen" "DisconnectBanner b attempt = Some Reconnected"
    using that ok
    by (auto simp: DisconnectBanner_def banner_ok_def banner_settle_def banner_effect_def
        split: if_splits)
  have "stuck (run banner_step (banner_init st0)
      ([BannerState WsDisconnected, BannerState WsConnecting, BannerState WsOpen] @ retry))"
    by (cases st0) (simp_all add: stuck_def retry_def banner_init_def banner_settle_def banner_effect_def)
  then have "stuck (run banner_step (run banner_step (banner_init st0)
      ([BannerState WsDisconnected, BannerState WsConnecting, BannerState WsOpen] @ retry))
      (concat (replicate n retry)))"
    by (rule stuck_retries)
  then show "let b' = run banner_step (banner_init st0)
             ([BannerState WsDisconnected, BannerState WsConnecting, BannerState WsOpen] @
              retry @ concat (replicate n retry))
         in bn_state b' = WsConnecting \<and> DisconnectBanner b' attempt = Some Reconnected \<and>
            banner_step b' BannerTimer = b'"
    unfolding Let_def append_assoc [symmetric] run_append
    by (simp add: stuck_def DisconnectBanner_def)
qed

text \<open>
  The red banner shows exactly while the socket is disconnected, and the green flash on an
  open connection always has its timer running, which ends it; but a connection lost again
  within those two seconds cancels the timer, and from then on the banner says \<open>Reconnected\<close>
  each time the hook merely tries to connect, however many attempts fail.
\<close>

theorem disconnect_banner:
  fixes st0 :: ws_state and es :: "banner_event list"
  defines "b \<equiv> run banner_step (banner_init st0) es"
  shows "((\<exists>a. DisconnectBanner b attempt = Some (ConnectionLost a)) \<longleftrightarrow> bn_state b = WsDisconnected) \<and>
    (bn_state b = WsOpen \<and> DisconnectBanner b attempt = Some Reconnected \<longrightarrow>
      bn_timer b \<and> DisconnectBanner (banner_step b BannerTimer) attempt = None) \<and>
    (let b' = run banner_step (banner_init st0)
             ([BannerState WsDisconnected, BannerState WsConnecting, BannerState WsOpen] @
              retry @ concat (replicate n retry))
     in bn_state b' = WsConnecting \<and> DisconnectBanner b' attempt = Some Reconnected \<and>
        banner_step b' BannerTimer = b')"
  unfolding b_def using disconnect_banner_parts [of st0] by blast

theorem disconnect_banner_witness:
  "DisconnectBanner (banner_step (run banner_step (banner_init WsConnecting)
     [BannerState WsDisconnected, BannerState WsConnecting, BannerState WsOpen]) BannerTimer) 0 = None"
proof -
  let ?es = "[BannerState WsDisconnected, BannerState WsConnecting, BannerState WsOpen]"
  have "bn_state (run banner_step (banner_init WsConnecting) ?es) = WsOpen"
    "DisconnectBanner (run banner_step (banner_init WsConnecting) ?es) 0 = Some Reconnected"
    by (simp_all add: banner_init_def banner_settle_def banner_effect_def DisconnectBanner_def)
  then show ?thesis using disconnect_banner [of WsConnecting ?es 0 0] by blast
qed

end
