(* ===== verification/Scoring_Dialogs.thy ===== *)
theory Scoring_Dialogs
  imports Scoring_Types
begin

text \<open>
  The dialogs of the scoring screens, in \<open>web/src/features/scoring\<close>: the prompt at the end of a
  game or match (\<open>GameOverConfirmModal.tsx\<close>), the score override (\<open>ScoreOverrideModal.tsx\<close>)
  and the setup of a scheduled match (\<open>MatchSetup.tsx\<close>).
\<close>

section \<open>The end of a game or match\<close>

datatype over_kind = GameOver | MatchOver

record over_prompt =
  op_title :: string
  op_confirm :: string
  op_continue :: string
  op_body :: "(string \<times> int \<times> int \<times> string) option"

definition GameOverConfirmModal :: "over_kind \<Rightarrow> match option \<Rightarrow> over_prompt" where
  "GameOverConfirmModal kind mo =
     \<lparr> op_title = (if kind = MatchOver then ''Match Over?'' else ''Game Over?''),
       op_confirm = (if kind = MatchOver then ''End Match'' else ''End Game''),
       op_continue = (if kind = MatchOver then ''Keep Scoring'' else ''Continue Scoring''),
       op_body = (case mo of
         None \<Rightarrow> None
       | Some m \<Rightarrow>
           let t1 = team_1_score m; t2 = team_2_score m;
               winner = (if t1 > t2 then One else Two);
               winnerName = (case (if winner = One then team_1 m else team_2 m) of
                   Some t \<Rightarrow> mt_name t | None \<Rightarrow> ''Team '' @ show_int (side_num winner));
               threshold =
                 (if kind = MatchOver
                  then ''Best-of-'' @ show_int (best_of m) @ '' decided after game '' @
                    show_int (current_game m) @ ''.''
                  else ''Game '' @ show_int (current_game m) @ '' threshold reached.'')
           in Some (threshold, t1, t2, winnerName)) \<rparr>"

section \<open>The score override\<close>

record game_row =
  gr_number :: int
  gr_score1 :: int
  gr_score2 :: int
  gr_winner :: "side option"

definition buildInitialRows :: "match \<Rightarrow> game_row list" where
  "buildInitialRows m =
     (let completed = (case set_scores m of Some gs \<Rightarrow> gs | None \<Rightarrow> []);
          rows = map (\<lambda>g. \<lparr> gr_number = game_num g, gr_score1 = team_one_score g,
                            gr_score2 = team_two_score g, gr_winner = Some (cg_winner g) \<rparr>) completed
      in if m_status m = InProgress \<and> list_all (\<lambda>r. gr_number r \<noteq> current_game m) rows
         then rows @ [\<lparr> gr_number = current_game m, gr_score1 = team_1_score m,
                        gr_score2 = team_2_score m, gr_winner = None \<rparr>]
         else rows)"

text \<open>The edit of one field; the scores arrive after \<open>Number(...) || 0\<close>.\<close>

datatype row_edit = Score1 int | Score2 int | Winner "side option"

fun apply_partial :: "row_edit \<Rightarrow> game_row \<Rightarrow> game_row" where
  "apply_partial (Score1 n) r = r\<lparr> gr_score1 := n \<rparr>"
| "apply_partial (Score2 n) r = r\<lparr> gr_score2 := n \<rparr>"
| "apply_partial (Winner w) r = r\<lparr> gr_winner := w \<rparr>"

definition updateRow :: "nat \<Rightarrow> row_edit \<Rightarrow> game_row list \<Rightarrow> game_row list" where
  "updateRow idx partial rows =
     map (\<lambda>(i, r). if i = idx then apply_partial partial r else r) (enumerate 0 rows)"

record override_state =
  ov_match :: match
  ov_open :: bool
  ov_rows :: "game_row list"
  ov_reason :: string
  ov_error :: bool
  ov_deps :: "(bool \<times> string) option"

definition override_reset :: "override_state \<Rightarrow> override_state" where
  "override_reset s =
     (if ov_deps s = Some (ov_open s, m_public_id (ov_match s)) then s
      else if ov_open s
      then s\<lparr> ov_deps := Some (ov_open s, m_public_id (ov_match s)),
              ov_rows := buildInitialRows (ov_match s), ov_reason := [], ov_error := False \<rparr>
      else s\<lparr> ov_deps := Some (ov_open s, m_public_id (ov_match s)) \<rparr>)"

definition override_mount :: "bool \<Rightarrow> match \<Rightarrow> override_state" where
  "override_mount op m = override_reset
     \<lparr> ov_match = m, ov_open = op, ov_rows = buildInitialRows m, ov_reason = [], ov_error = False,
       ov_deps = None \<rparr>"

datatype override_event =
    OvProps bool match
  | OvRow nat row_edit
  | OvReason string
  | OvSubmit
  | OvReply "string option + action_result"

datatype override_effect =
    OvPost override_input
  | OvToast string string
  | OvClose

definition override_post :: "override_state \<Rightarrow> override_input" where
  "override_post s =
     \<lparr> oi_publicId = m_public_id (ov_match s),
       oi_games = map (\<lambda>r. \<lparr> og_game_number = gr_number r, og_team_1_score = gr_score1 r,
                             og_team_2_score = gr_score2 r,
                             og_winner = map_option side_num (gr_winner r) \<rparr>) (ov_rows s),
       oi_reason = trim (ov_reason s) \<rparr>"

text \<open>A failure carries the message of the error, \<open>None\<close> when it is no \<open>Error\<close>.\<close>

definition err_text :: "string \<Rightarrow> string option \<Rightarrow> string" where
  "err_text d e = (case e of Some t \<Rightarrow> t | None \<Rightarrow> d)"

fun override_step :: "override_state \<Rightarrow> override_event \<Rightarrow> override_state \<times> override_effect list" where
  "override_step s (OvProps op m) = (override_reset (s\<lparr> ov_open := op, ov_match := m \<rparr>), [])"
| "override_step s (OvRow i p) = (s\<lparr> ov_rows := updateRow i p (ov_rows s) \<rparr>, [])"
| "override_step s (OvReason t) = (s\<lparr> ov_reason := t \<rparr>, [])"
| "override_step s OvSubmit =
     (if length (trim (ov_reason s)) < 10 then (s\<lparr> ov_error := True \<rparr>, [])
      else (s, [OvPost (override_post s)]))"
| "override_step s (OvReply (Inr r)) = (s, [OvToast ''success'' ''Score override applied'', OvClose])"
| "override_step s (OvReply (Inl e)) = (s, [OvToast ''error'' (err_text ''Override failed'' e)])"

text \<open>The edits made since, in order, and what they make of the rows of the opening.\<close>

fun edit_of :: "override_event \<Rightarrow> (nat \<times> row_edit) list" where
  "edit_of (OvRow i p) = [(i, p)]"
| "edit_of _ = []"

fun last_reason :: "string \<Rightarrow> override_event \<Rightarrow> string" where
  "last_reason t (OvReason t') = t'"
| "last_reason t _ = t"

text \<open>The modal stays open on one match: every render passes the same public id.\<close>

fun same_opening :: "string \<Rightarrow> override_event \<Rightarrow> bool" where
  "same_opening pid (OvProps op m) = (op \<and> m_public_id m = pid)"
| "same_opening pid _ = True"

definition override_next :: "override_state \<Rightarrow> override_event \<Rightarrow> override_state" where
  "override_next s e = fst (override_step s e)"

section \<open>The setup of a match\<close>

record setup_state =
  su_team :: side
  su_scored_by :: string
  su_player :: "int option"
  su_assigned :: bool

text \<open>\<open>!match.court_id\<close> holds for 0 as well.\<close>

definition has_court :: "match \<Rightarrow> bool" where
  "has_court m = truthy (null_or Num (m_court_id m))"

definition needsCourt :: "match \<Rightarrow> bool" where
  "needsCourt m = (\<not> has_court m \<and> \<not> is_quick_match m)"

definition setup_init :: "match \<Rightarrow> setup_state" where
  "setup_init m = \<lparr> su_team = One, su_scored_by = [], su_player = None, su_assigned = has_court m \<rparr>"

definition canBegin :: "match \<Rightarrow> setup_state \<Rightarrow> bool" where
  "canBegin m s = (\<not> needsCourt m \<or> su_assigned s)"

text \<open>The tournament whose courts are fetched; \<open>None\<close> leaves the query disabled.\<close>

definition setup_tournament :: "(int \<times> string) list option \<Rightarrow> match \<Rightarrow> int option" where
  "setup_tournament availableCourts m =
     (if availableCourts = None \<and> truthy (null_or Num (m_tournament_id m))
      then m_tournament_id m else None)"

definition setup_courts ::
    "(int \<times> string) list option \<Rightarrow> court_summary list option \<Rightarrow> (int \<times> string) list" where
  "setup_courts availableCourts fetched =
     (case availableCourts of
        Some cs \<Rightarrow> cs
      | None \<Rightarrow> map (\<lambda>c. (ct_id c, ct_name c)) (case fetched of Some l \<Rightarrow> l | None \<Rightarrow> []))"

definition roster :: "match_team option \<Rightarrow> player list" where
  "roster t = (case t of None \<Rightarrow> [] | Some u \<Rightarrow> case mt_players u of None \<Rightarrow> [] | Some ps \<Rightarrow> ps)"

definition eligiblePlayers :: "match \<Rightarrow> setup_state \<Rightarrow> player list" where
  "eligiblePlayers m s = roster (if su_team s = One then team_1 m else team_2 m)"

text \<open>What the form hands to \<open>onBegin\<close>; the console adds the match's public id.\<close>

record begin_input =
  bi_scored_by_name :: "string option"
  bi_first_serving_team :: side
  bi_first_serving_player_id :: "int option"

text \<open>
  The events of the form. A player is chosen among the options shown (\<open>None\<close> is the empty
  option); a court likewise, while no assignment is pending; \<open>AssignDone\<close> and \<open>AssignFailed\<close>
  settle the assignment.
\<close>

datatype setup_event =
    ChangeTeam side
  | ChoosePlayer "int option"
  | ScoredBy string
  | ChooseCourt int
  | AssignDone
  | AssignFailed string
  | BeginMatch

datatype setup_effect =
    AssignCourt assign_input
  | SetupToast string string
  | OnBegin begin_input

definition changeTeam :: "side \<Rightarrow> setup_state \<Rightarrow> setup_state" where
  "changeTeam team s = s\<lparr> su_team := team, su_player := None \<rparr>"

definition begin_values :: "setup_state \<Rightarrow> begin_input" where
  "begin_values s =
     \<lparr> bi_scored_by_name = (if trim (su_scored_by s) = [] then None else Some (trim (su_scored_by s))),
       bi_first_serving_team = su_team s, bi_first_serving_player_id = su_player s \<rparr>"

fun setup_step ::
    "match \<Rightarrow> (int \<times> string) list \<Rightarrow> bool \<Rightarrow> setup_state \<Rightarrow> setup_event \<Rightarrow> setup_state \<times> setup_effect list"
where
  "setup_step m courts pending s (ChangeTeam t) = (changeTeam t s, [])"
| "setup_step m courts pending s (ChoosePlayer p) =
     (if p = None \<or> p \<in> Some ` pl_id ` set (eligiblePlayers m s) then (s\<lparr> su_player := p \<rparr>, [])
      else (s, []))"
| "setup_step m courts pending s (ScoredBy t) = (s\<lparr> su_scored_by := t \<rparr>, [])"
| "setup_step m courts pending s (ChooseCourt c) =
     (if needsCourt m \<and> \<not> su_assigned s \<and> c \<in> fst ` set courts \<and> c > 0
      then (s, [AssignCourt \<lparr> ai_matchId = m_id m, ai_courtId = c, ai_tournamentId = m_tournament_id m \<rparr>])
      else (s, []))"
| "setup_step m courts pending s AssignDone =
     (s\<lparr> su_assigned := True \<rparr>, [SetupToast ''success'' ''Court assigned''])"
| "setup_step m courts pending s (AssignFailed t) = (s, [SetupToast ''error'' t])"
| "setup_step m courts pending s BeginMatch =
     (if canBegin m s \<and> \<not> pending then (s, [OnBegin (begin_values s)]) else (s, []))"

definition setup_next ::
    "match \<Rightarrow> (int \<times> string) list \<Rightarrow> setup_state \<Rightarrow> bool \<times> setup_event \<Rightarrow> setup_state" where
  "setup_next m courts s = (\<lambda>(pending, e). fst (setup_step m courts pending s e))"

section \<open>Lemmas\<close>

lemma updateRow_nth:
  "i < length rows \<Longrightarrow>
     updateRow k p rows ! i = (if i = k then apply_partial p (rows ! i) else rows ! i)"
  by (simp add: updateRow_def nth_enumerate_eq)

lemma updateRow_numbers: "map gr_number (updateRow k p rows) = map gr_number rows"
  by (rule nth_equalityI; cases p) (simp_all add: updateRow_def nth_enumerate_eq)

lemma updateRow_length [simp]: "length (updateRow k p rows) = length rows"
  by (simp add: updateRow_def)

lemma buildInitialRows_numbers:
  assumes "distinct (map game_num (case set_scores m of Some gs \<Rightarrow> gs | None \<Rightarrow> []))"
  shows "distinct (map gr_number (buildInitialRows m))"
  using assms
  by (auto simp: buildInitialRows_def Let_def list_all_iff comp_def split: option.splits)

text \<open>The player chosen is on the roster of the team that serves first, and keeps being so.\<close>

definition setup_ok :: "match \<Rightarrow> setup_state \<Rightarrow> bool" where
  "setup_ok m s \<longleftrightarrow>
     (\<forall>p. su_player s = Some p \<longrightarrow> p \<in> pl_id ` set (eligiblePlayers m s))"

lemma eligible_frame:
  "su_team s' = su_team s \<Longrightarrow> eligiblePlayers m s' = eligiblePlayers m s"
  by (simp add: eligiblePlayers_def)

interpretation form: event_machine "setup_next m courts" "\<lambda>s. s = setup_init m" "setup_ok m"
proof unfold_locales
  show "s = setup_init m \<Longrightarrow> setup_ok m s" for s
    by (simp add: setup_init_def setup_ok_def)
  show "setup_ok m s \<Longrightarrow> setup_ok m (setup_next m courts s e)" for s e
  proof (cases e)
    case (Pair pending ev)
    assume "setup_ok m s"
    with Pair show ?thesis
      by (cases ev) (auto simp: setup_next_def setup_ok_def changeTeam_def eligiblePlayers_def)
  qed
qed

text \<open>Without a court, a quick match or a finished assignment the match cannot begin.\<close>

lemma setup_unassigned:
  assumes "needsCourt m" "\<forall>pe \<in> set es. snd pe \<noteq> AssignDone" "\<not> su_assigned s"
  shows "\<not> su_assigned (run (setup_next m courts) s es)"
  using assms(2, 3)
proof (induction es arbitrary: s)
  case (Cons e es)
  have "\<not> su_assigned (setup_next m courts s e)"
    using Cons.prems by (cases e; cases "snd e") (auto simp: setup_next_def changeTeam_def)
  then show ?case using Cons by simp
qed simp


lemma override_kept:
  assumes "list_all (same_opening pid) es" "ov_open s" "m_public_id (ov_match s) = pid"
    "ov_deps s = Some (True, pid)"
  shows "ov_rows (run override_next s es) =
      foldl (\<lambda>rows (i, p). updateRow i p rows) (ov_rows s) (concat (map edit_of es))"
    and "ov_reason (run override_next s es) = foldl last_reason (ov_reason s) es"
    and "m_public_id (ov_match (run override_next s es)) = pid"
proof -
  have step: "same_opening pid e \<Longrightarrow> ov_open t \<Longrightarrow> m_public_id (ov_match t) = pid \<Longrightarrow>
      ov_deps t = Some (True, pid) \<Longrightarrow>
      ov_open (override_next t e) \<and> m_public_id (ov_match (override_next t e)) = pid \<and>
      ov_deps (override_next t e) = Some (True, pid) \<and>
      ov_rows (override_next t e) = foldl (\<lambda>rows (i, p). updateRow i p rows) (ov_rows t) (edit_of e) \<and>
      ov_reason (override_next t e) = last_reason (ov_reason t) e" for t e
  proof (cases e)
    case (OvReply r)
    then show "same_opening pid e \<Longrightarrow> ov_open t \<Longrightarrow> m_public_id (ov_match t) = pid \<Longrightarrow>
      ov_deps t = Some (True, pid) \<Longrightarrow> ?thesis"
      by (cases r) (simp_all add: override_next_def)
  qed (simp_all add: override_next_def override_reset_def)
  have "ov_rows (run override_next s es) =
      foldl (\<lambda>rows (i, p). updateRow i p rows) (ov_rows s) (concat (map edit_of es)) \<and>
    ov_reason (run override_next s es) = foldl last_reason (ov_reason s) es \<and>
    m_public_id (ov_match (run override_next s es)) = pid"
    using assms by (induction es arbitrary: s) (simp_all add: step)
  then show "ov_rows (run override_next s es) =
      foldl (\<lambda>rows (i, p). updateRow i p rows) (ov_rows s) (concat (map edit_of es))"
    and "ov_reason (run override_next s es) = foldl last_reason (ov_reason s) es"
    and "m_public_id (ov_match (run override_next s es)) = pid"
    by simp_all
qed

section \<open>Properties\<close>

lemma override_edits_survive_parts:
  assumes "list_all (same_opening (m_public_id m)) es"
  defines "s \<equiv> run override_next (override_mount True m) es"
  defines "reason \<equiv> foldl last_reason [] es"
  shows "ov_rows s = foldl (\<lambda>rows (i, p). updateRow i p rows) (buildInitialRows m)
           (concat (map edit_of es))"
    and "length (trim reason) < 10 \<Longrightarrow> snd (override_step s OvSubmit) = []"
    and "10 \<le> length (trim reason) \<Longrightarrow> \<exists>v. snd (override_step s OvSubmit) = [OvPost v] \<and>
      oi_publicId v = m_public_id m \<and> oi_reason v = trim reason \<and>
      map og_game_number (oi_games v) = map gr_number (buildInitialRows m)"
proof -
  let ?s0 = "override_mount True m"
  have s0: "ov_open ?s0" "m_public_id (ov_match ?s0) = m_public_id m"
    "ov_deps ?s0 = Some (True, m_public_id m)" "ov_rows ?s0 = buildInitialRows m" "ov_reason ?s0 = []"
    by (simp_all add: override_mount_def override_reset_def)
  note kept = override_kept [OF assms(1) s0(1-3), folded s_def, unfolded s0(4,5), folded reason_def]
  show rows: "ov_rows s = foldl (\<lambda>rows (i, p). updateRow i p rows) (buildInitialRows m)
           (concat (map edit_of es))"
    by (rule kept(1))
  show "length (trim reason) < 10 \<Longrightarrow> snd (override_step s OvSubmit) = []"
    by (simp add: kept(2))
  have "map gr_number (foldl (\<lambda>rows (i, p). updateRow i p rows) rs ps) = map gr_number rs" for rs ps
    by (induction ps arbitrary: rs) (auto simp: updateRow_numbers)
  then have "map gr_number (ov_rows s) = map gr_number (buildInitialRows m)" by (simp add: rows)
  then show "10 \<le> length (trim reason) \<Longrightarrow> \<exists>v. snd (override_step s OvSubmit) = [OvPost v] \<and>
      oi_publicId v = m_public_id m \<and> oi_reason v = trim reason \<and>
      map og_game_number (oi_games v) = map gr_number (buildInitialRows m)"
    by (simp add: kept(2,3) override_post_def comp_def)
qed

text \<open>
  C14. The edits of an open score override survive every update of the match: what is submitted
  is the rows of the opening with the edits applied in order, under the match's public id and
  with the trimmed reason; a reason shorter than ten characters sends nothing.
\<close>

theorem override_edits_survive:
  assumes "list_all (same_opening (m_public_id m)) es"
  defines "s \<equiv> run override_next (override_mount True m) es"
  defines "reason \<equiv> foldl last_reason [] es"
  shows "ov_rows s = foldl (\<lambda>rows (i, p). updateRow i p rows) (buildInitialRows m)
           (concat (map edit_of es)) \<and>
    (length (trim reason) < 10 \<longrightarrow> snd (override_step s OvSubmit) = []) \<and>
    (10 \<le> length (trim reason) \<longrightarrow> (\<exists>v. snd (override_step s OvSubmit) = [OvPost v] \<and>
      oi_publicId v = m_public_id m \<and> oi_reason v = trim reason \<and>
      map og_game_number (oi_games v) = map gr_number (buildInitialRows m)))"
  unfolding s_def reason_def using override_edits_survive_parts [OF assms(1)] by blast

theorem override_edits_survive_witness:
  "ov_rows (run override_next (override_mount True sample_match)
     [OvRow 0 (Score1 8), OvProps True (sample_match\<lparr> team_1_score := 11 \<rparr>), OvReason ''wrong call'']) =
   [\<lparr> gr_number = 1, gr_score1 = 8, gr_score2 = 9, gr_winner = None \<rparr>]"
proof -
  let ?es = "[OvRow 0 (Score1 8), OvProps True (sample_match\<lparr> team_1_score := 11 \<rparr>),
     OvReason ''wrong call'']"
  have "list_all (same_opening (m_public_id sample_match)) ?es" by (simp add: sample_match_def)
  then have "ov_rows (run override_next (override_mount True sample_match) ?es) =
      foldl (\<lambda>rows (i, p). updateRow i p rows) (buildInitialRows sample_match) (concat (map edit_of ?es))"
    by (rule override_edits_survive [THEN conjunct1])
  also have "\<dots> = [\<lparr> gr_number = 1, gr_score1 = 8, gr_score2 = 9, gr_winner = None \<rparr>]"
    by (simp add: buildInitialRows_def sample_match_def updateRow_def)
  finally show ?thesis .
qed

lemma match_setup_begins_parts:
  assumes "snd (setup_step m courts pending (run (setup_next m courts) (setup_init m) es) BeginMatch)
     = [OnBegin v]"
  shows "has_court m \<or> is_quick_match m \<or> (\<exists>pe \<in> set es. snd pe = AssignDone)"
    and "bi_first_serving_player_id v = Some i \<Longrightarrow>
      i \<in> pl_id ` set (roster (if bi_first_serving_team v = One then team_1 m else team_2 m))"
proof -
  let ?s = "run (setup_next m courts) (setup_init m) es"
  have v: "canBegin m ?s" "v = begin_values ?s" using assms by (simp_all split: if_splits)
  show "has_court m \<or> is_quick_match m \<or> (\<exists>pe \<in> set es. snd pe = AssignDone)"
  proof (rule ccontr)
    assume none: "\<not> (has_court m \<or> is_quick_match m \<or> (\<exists>pe \<in> set es. snd pe = AssignDone))"
    then have "needsCourt m" "\<forall>pe \<in> set es. snd pe \<noteq> AssignDone" "\<not> su_assigned (setup_init m)"
      by (auto simp: needsCourt_def setup_init_def)
    then have "\<not> su_assigned ?s" by (rule setup_unassigned)
    with v(1) \<open>needsCourt m\<close> show False by (simp add: canBegin_def)
  qed
  have "setup_ok m ?s" by (rule form.reachable_inv) simp
  with v(2) show "bi_first_serving_player_id v = Some i \<Longrightarrow>
      i \<in> pl_id ` set (roster (if bi_first_serving_team v = One then team_1 m else team_2 m))"
    by (simp add: begin_values_def setup_ok_def eligiblePlayers_def)
qed

text \<open>
  A match begins from the setup screen only with a court, as a quick match, or after a
  court assignment succeeded, and the first server it sends is nobody or a player of the team
  that serves first.
\<close>

theorem match_setup_begins:
  assumes "snd (setup_step m courts pending (run (setup_next m courts) (setup_init m) es) BeginMatch)
     = [OnBegin v]"
  shows "(has_court m \<or> is_quick_match m \<or> (\<exists>pe \<in> set es. snd pe = AssignDone)) \<and>
    (\<forall>i. bi_first_serving_player_id v = Some i \<longrightarrow>
      i \<in> pl_id ` set (roster (if bi_first_serving_team v = One then team_1 m else team_2 m)))"
  using match_setup_begins_parts [OF assms] by blast

theorem match_setup_begins_witness:
  "has_court sample_match \<or> is_quick_match sample_match \<or>
   (\<exists>pe \<in> set [(False, ChangeTeam Two)]. snd pe = AssignDone)"
  by (rule match_setup_begins [THEN conjunct1, of _ "[]" False])
    (simp add: canBegin_def needsCourt_def has_court_def sample_match_def setup_next_def)

end
