(* ===== verification/Scoring_Consoles.thy ===== *)
theory Scoring_Consoles
  imports Console_Parts Scoring_Dialogs
begin

text \<open>
  The referee's console (\<open>web/src/features/referee/RefMatchConsole.tsx\<close>) and the
  scorekeeper's (\<open>web/src/features/scorekeeper/ScorekeeperMatchConsole.tsx\<close>), with the controls
  of \<open>MatchScoreboard\<close> and \<open>ScoringButtons\<close>. A console reacts to key presses, clicks on
  controls that are rendered and enabled, and the outcomes of its mutations; each reaction is a
  new state and a list of effects. The state of the queries, the socket, the preferences and
  the user reach it as properties that may differ at every event.
\<close>

section \<open>Calls and effects\<close>

datatype action =
    StartMatch begin_input
  | ScorePoint js
  | SideOutCall
  | UndoCall
  | CallTimeout side
  | PauseMatch
  | ResumeMatch
  | ConfirmGame
  | ConfirmMatch

text \<open>
  A call of \<open>mutate\<close>: the match, the action and the preferences its callbacks closed over.
  \<open>call_request\<close> is what the mutation hook sends for it, \<open>call_success\<close> what the hook does
  with the query cache when it succeeds.
\<close>

record call =
  cl_publicId :: string
  cl_action :: action
  cl_prefs :: prefs

definition start_values :: "string \<Rightarrow> begin_input \<Rightarrow> start_input" where
  "start_values pid v =
     \<lparr> si_publicId = pid, si_scored_by_name = bi_scored_by_name v,
       si_first_serving_team = Some (side_num (bi_first_serving_team v)),
       si_first_serving_player_id = null_or Num (bi_first_serving_player_id v) \<rparr>"

fun call_request :: "string \<Rightarrow> action \<Rightarrow> api_call" where
  "call_request pid (StartMatch v) = m_call useStartMatch (start_values pid v)"
| "call_request pid (ScorePoint team) = m_call useScorePoint (pid, team)"
| "call_request pid SideOutCall = m_call useSideOut pid"
| "call_request pid UndoCall = m_call useUndo pid"
| "call_request pid (CallTimeout team) = m_call useCallTimeout (pid, side_num team)"
| "call_request pid PauseMatch = m_call usePauseMatch pid"
| "call_request pid ResumeMatch = m_call useResumeMatch pid"
| "call_request pid ConfirmGame = m_call useConfirmGameOver pid"
| "call_request pid ConfirmMatch = m_call useConfirmMatchOver pid"

fun call_success :: "string \<Rightarrow> action \<Rightarrow> js \<Rightarrow> cache_op list" where
  "call_success pid (StartMatch v) data = m_success useStartMatch data (start_values pid v)"
| "call_success pid (ScorePoint team) data = m_success useScorePoint data (pid, team)"
| "call_success pid SideOutCall data = m_success useSideOut data pid"
| "call_success pid UndoCall data = m_success useUndo data pid"
| "call_success pid (CallTimeout team) data = m_success useCallTimeout data (pid, side_num team)"
| "call_success pid PauseMatch data = m_success usePauseMatch data pid"
| "call_success pid ResumeMatch data = m_success useResumeMatch data pid"
| "call_success pid ConfirmGame data = m_success useConfirmGameOver data pid"
| "call_success pid ConfirmMatch data = m_success useConfirmMatchOver data pid"

datatype effect =
    Mutate call
  | Toast string string
  | Vibrate nat
  | PlayTick nat
  | Navigate string
  | Refetch

text \<open>The outcome of a call: the result, or an error with its message if it is an \<open>Error\<close>.\<close>

datatype reply = Done action_result | Failed "string option"

definition feedback :: "prefs \<Rightarrow> tick \<Rightarrow> effect list" where
  "feedback p v =
     (if pf_haptic p then [Vibrate 50] else []) @
     (if pf_sound p then [PlayTick (playTick_freq v)] else [])"

fun failure_text :: "action \<Rightarrow> string" where
  "failure_text (StartMatch v) = ''Failed to start match''"
| "failure_text (ScorePoint t) = ''Failed to score point''"
| "failure_text SideOutCall = ''Failed to side out''"
| "failure_text UndoCall = ''Failed to undo''"
| "failure_text (CallTimeout t) = ''Failed to call timeout''"
| "failure_text PauseMatch = ''Failed to pause match''"
| "failure_text ResumeMatch = ''Failed to resume match''"
| "failure_text ConfirmGame = ''Failed to end game''"
| "failure_text ConfirmMatch = ''Failed to end match''"

section \<open>What a console is given\<close>

record console_props =
  cp_publicId :: string
  cp_loading :: bool
  cp_error :: bool
  cp_match :: "match option"
  cp_ws :: ws_state
  cp_prefs :: prefs
  cp_role :: "string option"
  cp_pending :: bool
  cp_game_confirming :: bool
  cp_match_confirming :: bool
  cp_pausing :: bool
  cp_setup_ready :: bool

text \<open>
  \<open>cp_pending\<close>: one of the scoring mutations is pending; \<open>cp_game_confirming\<close> and
  \<open>cp_match_confirming\<close>: the two confirmations are; \<open>cp_pausing\<close>: pausing or resuming is;
  \<open>cp_setup_ready\<close>: the setup form lets the match begin (see \<open>Scoring_Dialogs\<close>).
\<close>

definition disabled :: "console_props \<Rightarrow> bool" where
  "disabled p = (cp_ws p \<noteq> WsOpen)"

definition keys_enabled :: "console_props \<Rightarrow> bool" where
  "keys_enabled p =
     (pf_keyboard (cp_prefs p) \<and> map_option m_status (cp_match p) = Some InProgress \<and> \<not> disabled p)"

definition call_of :: "console_props \<Rightarrow> action \<Rightarrow> effect" where
  "call_of p a = Mutate \<lparr> cl_publicId = cp_publicId p, cl_action = a, cl_prefs = cp_prefs p \<rparr>"

section \<open>The controls of the scoreboard\<close>

datatype control =
    PointTeam side
  | PointServing
  | SideOutButton
  | UndoButton
  | TimeoutButton
  | MenuButton
  | MenuBackdrop
  | MenuOverride
  | MenuPause
  | MenuSettings
  | GameEnd
  | GameContinue
  | GameDismiss
  | MatchEnd
  | MatchContinue
  | MatchDismiss
  | BeginButton begin_input
  | CancelButton
  | BackToCourts
  | RetryButton

text \<open>The controls of \<open>ScoringButtons\<close> that are not disabled.\<close>

definition ScoringButtons :: "match \<Rightarrow> bool \<Rightarrow> bool \<Rightarrow> control list" where
  "ScoringButtons m dis busy =
     (if m_scoring_type m = RallyScoring
      then (if dis \<or> busy then [] else [PointTeam One, PointTeam Two])
      else (if dis \<or> serving_team m = None \<or> busy then [] else [PointServing]) @
           (if dis \<or> serving_team m = None then [] else [SideOutButton]))"

definition MatchScoreboard :: "match \<Rightarrow> bool \<Rightarrow> bool \<Rightarrow> bool \<Rightarrow> control list" where
  "MatchScoreboard m dis busy menu =
     (if menu then [MenuButton] else []) @ ScoringButtons m dis busy @
     (if dis then [] else [UndoButton]) @
     (if dis \<or> serving_team m = None then [] else [TimeoutButton])"

section \<open>The referee's console\<close>

definition PRIVILEGED_ROLES :: "string list" where
  "PRIVILEGED_ROLES = [''platform_admin'', ''tournament_director'', ''head_referee'']"

definition canOverride :: "console_props \<Rightarrow> bool" where
  "canOverride p = (case cp_role p of None \<Rightarrow> False | Some r \<Rightarrow> r \<in> set PRIVILEGED_ROLES)"

record ref_state =
  gameOverPrompt :: bool
  matchOverPrompt :: bool
  overrideOpen :: bool
  menuOpen :: bool

definition ref_init :: ref_state where
  "ref_init = \<lparr> gameOverPrompt = False, matchOverPrompt = False, overrideOpen = False,
                menuOpen = False \<rparr>"

datatype screen = Loading | LoadFailed | Setup | Complete | Scoreboard

definition ref_screen :: "console_props \<Rightarrow> screen" where
  "ref_screen p =
     (if cp_loading p then Loading
      else case cp_match p of
             None \<Rightarrow> LoadFailed
           | Some m \<Rightarrow>
               if cp_error p then LoadFailed
               else if m_status m = Scheduled then Setup
               else if m_status m = Completed then Complete
               else Scoreboard)"

definition ref_menu :: "console_props \<Rightarrow> ref_state \<Rightarrow> control list" where
  "ref_menu p s =
     (if \<not> menuOpen s then []
      else [MenuBackdrop] @ (if canOverride p then [MenuOverride] else []) @
           (if cp_pausing p then [] else [MenuPause]) @ [MenuSettings])"

definition prompt_controls :: "bool \<Rightarrow> bool \<Rightarrow> control \<Rightarrow> control \<Rightarrow> control \<Rightarrow> control list" where
  "prompt_controls op confirming end continue dismiss =
     (if \<not> op then [] else [dismiss] @ (if confirming then [] else [continue, end]))"

definition ref_controls :: "console_props \<Rightarrow> ref_state \<Rightarrow> control list" where
  "ref_controls p s =
     (case (ref_screen p, cp_match p) of
        (Loading, _) \<Rightarrow> []
      | (LoadFailed, _) \<Rightarrow> [RetryButton]
      | (_, None) \<Rightarrow> []
      | (sc, Some m) \<Rightarrow>
          (case sc of
             Setup \<Rightarrow> [CancelButton]
           | Complete \<Rightarrow> [BackToCourts]
           | _ \<Rightarrow> MatchScoreboard m (disabled p) (cp_pending p) True) @
          ref_menu p s @
          prompt_controls (gameOverPrompt s) (cp_game_confirming p) GameEnd GameContinue GameDismiss @
          prompt_controls (matchOverPrompt s) (cp_match_confirming p) MatchEnd MatchContinue MatchDismiss)"

text \<open>The button that begins the match carries the input of the setup form.\<close>

definition ref_clickable :: "console_props \<Rightarrow> ref_state \<Rightarrow> control \<Rightarrow> bool" where
  "ref_clickable p s c =
     (case c of
        BeginButton v \<Rightarrow> ref_screen p = Setup \<and> cp_setup_ready p
      | _ \<Rightarrow> c \<in> set (ref_controls p s))"

text \<open>The override dialog: its \<open>open\<close> and \<open>match\<close>, or \<open>None\<close> when it is not rendered.\<close>

definition ref_override :: "console_props \<Rightarrow> ref_state \<Rightarrow> (bool \<times> match) option" where
  "ref_override p s =
     (if ref_screen p \<in> {Setup, Complete, Scoreboard} \<and> canOverride p
      then map_option (\<lambda>m. (overrideOpen s, m)) (cp_match p) else None)"

text \<open>The handlers. Each returns at once when there is no match.\<close>

definition with_match :: "console_props \<Rightarrow> (match \<Rightarrow> effect list) \<Rightarrow> effect list" where
  "with_match p f = (case cp_match p of None \<Rightarrow> [] | Some m \<Rightarrow> f m)"

definition ref_handlePoint :: "console_props \<Rightarrow> js \<Rightarrow> effect list" where
  "ref_handlePoint p team = with_match p (\<lambda>m. [call_of p (ScorePoint team)])"

definition ref_handleSideOut :: "console_props \<Rightarrow> effect list" where
  "ref_handleSideOut p = with_match p (\<lambda>m. [call_of p SideOutCall])"

definition ref_handleUndo :: "console_props \<Rightarrow> effect list" where
  "ref_handleUndo p = with_match p (\<lambda>m. [call_of p UndoCall])"

definition ref_handleTimeout :: "console_props \<Rightarrow> side \<Rightarrow> effect list" where
  "ref_handleTimeout p team = with_match p (\<lambda>m. [call_of p (CallTimeout team)])"

definition ref_handlePauseToggle :: "console_props \<Rightarrow> effect list" where
  "ref_handlePauseToggle p =
     with_match p (\<lambda>m. [call_of p (if is_paused m then ResumeMatch else PauseMatch)])"

definition handleResult :: "action_result \<Rightarrow> ref_state \<Rightarrow> ref_state" where
  "handleResult r s =
     (if match_over_detected r then s\<lparr> matchOverPrompt := True \<rparr>
      else if game_over_detected r then s\<lparr> gameOverPrompt := True \<rparr>
      else s)"

definition ref_shortcut :: "console_props \<Rightarrow> ref_state \<Rightarrow> shortcut \<Rightarrow> ref_state \<times> effect list" where
  "ref_shortcut p s k =
     (case k of
        KPointTeam1 \<Rightarrow>
          (s, with_match p (\<lambda>m. ref_handlePoint p
             (if m_scoring_type m = RallyScoring then Num 1 else side_js (serving_team m))))
      | KPointTeam2 \<Rightarrow>
          (s, with_match p (\<lambda>m. if m_scoring_type m = RallyScoring then ref_handlePoint p (Num 2) else []))
      | KSideOut \<Rightarrow>
          (s, with_match p (\<lambda>m. if m_scoring_type m = SideOutScoring then ref_handleSideOut p else []))
      | KUndo \<Rightarrow> (s, ref_handleUndo p)
      | KTimeout \<Rightarrow>
          (s, with_match p (\<lambda>m. case serving_team m of None \<Rightarrow> [] | Some t \<Rightarrow> ref_handleTimeout p t))
      | KEscape \<Rightarrow> (s\<lparr> gameOverPrompt := False, matchOverPrompt := False, menuOpen := False \<rparr>, []))"

definition ref_click :: "console_props \<Rightarrow> ref_state \<Rightarrow> control \<Rightarrow> ref_state \<times> effect list" where
  "ref_click p s c =
     (case c of
        PointTeam t \<Rightarrow> (s, ref_handlePoint p (side_js (Some t)))
      | PointServing \<Rightarrow> (s, with_match p (\<lambda>m. ref_handlePoint p (side_js (serving_team m))))
      | SideOutButton \<Rightarrow> (s, ref_handleSideOut p)
      | UndoButton \<Rightarrow> (s, ref_handleUndo p)
      | TimeoutButton \<Rightarrow>
          (s, with_match p (\<lambda>m. ref_handleTimeout p (case serving_team m of None \<Rightarrow> One | Some t \<Rightarrow> t)))
      | MenuButton \<Rightarrow> (s\<lparr> menuOpen := \<not> menuOpen s \<rparr>, [])
      | MenuBackdrop \<Rightarrow> (s\<lparr> menuOpen := False \<rparr>, [])
      | MenuOverride \<Rightarrow> (s\<lparr> menuOpen := False, overrideOpen := True \<rparr>, [])
      | MenuPause \<Rightarrow> (s\<lparr> menuOpen := False \<rparr>, ref_handlePauseToggle p)
      | MenuSettings \<Rightarrow> (s\<lparr> menuOpen := False \<rparr>, [Navigate ''/settings/scoring''])
      | GameEnd \<Rightarrow> (s, [call_of p ConfirmGame])
      | GameContinue \<Rightarrow> (s\<lparr> gameOverPrompt := False \<rparr>, [])
      | GameDismiss \<Rightarrow> (s\<lparr> gameOverPrompt := False \<rparr>, [])
      | MatchEnd \<Rightarrow> (s, [call_of p ConfirmMatch])
      | MatchContinue \<Rightarrow> (s\<lparr> matchOverPrompt := False \<rparr>, [])
      | MatchDismiss \<Rightarrow> (s\<lparr> matchOverPrompt := False \<rparr>, [])
      | BeginButton v \<Rightarrow> (s, [call_of p (StartMatch v)])
      | CancelButton \<Rightarrow> (s, [Navigate ''/ref''])
      | BackToCourts \<Rightarrow> (s, [Navigate ''/ref''])
      | RetryButton \<Rightarrow> (s, [Refetch]))"

definition timeout_text :: "side \<Rightarrow> string" where
  "timeout_text t = ''Timeout for Team '' @ show_int (side_num t)"

fun ref_done :: "call \<Rightarrow> action_result \<Rightarrow> ref_state \<Rightarrow> ref_state \<times> effect list" where
  "ref_done c r s =
     (case cl_action c of
        StartMatch v \<Rightarrow> (s, [Toast ''success'' ''Match started''])
      | ScorePoint t \<Rightarrow> (handleResult r s, feedback (cl_prefs c) TickPoint)
      | SideOutCall \<Rightarrow> (handleResult r s, feedback (cl_prefs c) TickSideOut)
      | UndoCall \<Rightarrow> (s, feedback (cl_prefs c) TickUndo)
      | CallTimeout t \<Rightarrow> (s, [Toast ''info'' (timeout_text t)])
      | PauseMatch \<Rightarrow> (s, [Toast ''success'' ''Match paused''])
      | ResumeMatch \<Rightarrow> (s, [Toast ''success'' ''Match resumed''])
      | ConfirmGame \<Rightarrow> (s\<lparr> gameOverPrompt := False \<rparr>, [Toast ''success'' ''Game ended''])
      | ConfirmMatch \<Rightarrow> (s\<lparr> matchOverPrompt := False \<rparr>, [Toast ''success'' ''Match completed'']))"

datatype console_event =
    KeyDown key_press
  | Click control
  | CloseOverride
  | Reply call reply

fun ref_step :: "ref_state \<Rightarrow> console_props \<times> console_event \<Rightarrow> ref_state \<times> effect list" where
  "ref_step s (p, KeyDown e) =
     (case onKey (keys_enabled p) e of None \<Rightarrow> (s, []) | Some k \<Rightarrow> ref_shortcut p s k)"
| "ref_step s (p, Click c) = (if ref_clickable p s c then ref_click p s c else (s, []))"
| "ref_step s (p, CloseOverride) = (s\<lparr> overrideOpen := False \<rparr>, [])"
| "ref_step s (p, Reply c (Done r)) = ref_done c r s"
| "ref_step s (p, Reply c (Failed e)) =
     (s, [Toast ''error'' (err_text (failure_text (cl_action c)) e)])"

definition ref_next :: "ref_state \<Rightarrow> console_props \<times> console_event \<Rightarrow> ref_state" where
  "ref_next s pe = fst (ref_step s pe)"

section \<open>The scorekeeper's console\<close>

definition sk_screen :: "console_props \<Rightarrow> screen" where
  "sk_screen p =
     (if cp_loading p then Loading
      else case cp_match p of
             None \<Rightarrow> LoadFailed
           | Some m \<Rightarrow>
               if cp_error p then LoadFailed
               else if m_status m = Scheduled then Setup else Scoreboard)"

definition sk_controls :: "console_props \<Rightarrow> control list" where
  "sk_controls p =
     (case (sk_screen p, cp_match p) of
        (LoadFailed, _) \<Rightarrow> [RetryButton]
      | (Setup, Some m) \<Rightarrow> [CancelButton]
      | (Scoreboard, Some m) \<Rightarrow> MatchScoreboard m (disabled p) (cp_pending p) False
      | _ \<Rightarrow> [])"

definition sk_clickable :: "console_props \<Rightarrow> control \<Rightarrow> bool" where
  "sk_clickable p c =
     (case c of
        BeginButton v \<Rightarrow> sk_screen p = Setup \<and> cp_setup_ready p
      | _ \<Rightarrow> c \<in> set (sk_controls p))"

text \<open>The calls of \<open>autoConfirm\<close> are made with the public id its closure has.\<close>

definition autoConfirm :: "call \<Rightarrow> action_result \<Rightarrow> effect list" where
  "autoConfirm c r =
     (if match_over_detected r then [Mutate (c\<lparr> cl_action := ConfirmMatch \<rparr>)]
      else if game_over_detected r then [Mutate (c\<lparr> cl_action := ConfirmGame \<rparr>)]
      else [])"

definition sk_shortcut :: "console_props \<Rightarrow> shortcut \<Rightarrow> effect list" where
  "sk_shortcut p k =
     (case k of
        KPointTeam1 \<Rightarrow> with_match p (\<lambda>m. [call_of p (ScorePoint
           (if m_scoring_type m = RallyScoring then Num 1 else side_js (serving_team m)))])
      | KPointTeam2 \<Rightarrow> with_match p (\<lambda>m.
           if m_scoring_type m = RallyScoring then [call_of p (ScorePoint (Num 2))] else [])
      | KSideOut \<Rightarrow> with_match p (\<lambda>m.
           if m_scoring_type m = SideOutScoring then [call_of p SideOutCall] else [])
      | KUndo \<Rightarrow> [call_of p UndoCall]
      | KTimeout \<Rightarrow> []
      | KEscape \<Rightarrow> [])"

definition sk_click :: "console_props \<Rightarrow> control \<Rightarrow> effect list" where
  "sk_click p c =
     (case c of
        PointTeam t \<Rightarrow> [call_of p (ScorePoint (side_js (Some t)))]
      | PointServing \<Rightarrow> with_match p (\<lambda>m. [call_of p (ScorePoint (side_js (serving_team m)))])
      | SideOutButton \<Rightarrow> [call_of p SideOutCall]
      | UndoButton \<Rightarrow> [call_of p UndoCall]
      | BeginButton v \<Rightarrow> [call_of p (StartMatch v)]
      | CancelButton \<Rightarrow> [Navigate ''/scorekeeper'']
      | RetryButton \<Rightarrow> [Refetch]
      | _ \<Rightarrow> [])"

definition sk_done :: "call \<Rightarrow> action_result \<Rightarrow> effect list" where
  "sk_done c r =
     (case cl_action c of
        StartMatch v \<Rightarrow> [Toast ''success'' ''Match started'']
      | ScorePoint t \<Rightarrow> feedback (cl_prefs c) TickPoint @ autoConfirm c r
      | SideOutCall \<Rightarrow> feedback (cl_prefs c) TickSideOut @ autoConfirm c r
      | UndoCall \<Rightarrow> feedback (cl_prefs c) TickUndo
      | _ \<Rightarrow> [])"

fun sk_step :: "console_props \<times> console_event \<Rightarrow> effect list" where
  "sk_step (p, KeyDown e) =
     (case onKey (keys_enabled p) e of None \<Rightarrow> [] | Some k \<Rightarrow> sk_shortcut p k)"
| "sk_step (p, Click c) = (if sk_clickable p c then sk_click p c else [])"
| "sk_step (p, CloseOverride) = []"
| "sk_step (p, Reply c (Done r)) = sk_done c r"
| "sk_step (p, Reply c (Failed e)) =
     [Toast ''error'' (err_text (failure_text (cl_action c)) e)]"


section \<open>Which controls are there\<close>

lemma set_MatchScoreboard:
  "c \<in> set (MatchScoreboard m dis busy menu) \<longleftrightarrow>
     (case c of
        MenuButton \<Rightarrow> menu
      | PointTeam t \<Rightarrow> m_scoring_type m = RallyScoring \<and> \<not> dis \<and> \<not> busy
      | PointServing \<Rightarrow>
          m_scoring_type m = SideOutScoring \<and> \<not> dis \<and> \<not> busy \<and> serving_team m \<noteq> None
      | SideOutButton \<Rightarrow> m_scoring_type m = SideOutScoring \<and> \<not> dis \<and> serving_team m \<noteq> None
      | UndoButton \<Rightarrow> \<not> dis
      | TimeoutButton \<Rightarrow> \<not> dis \<and> serving_team m \<noteq> None
      | _ \<Rightarrow> False)"
proof (cases c)
  case (PointTeam t)
  then show ?thesis by (cases t) (auto simp: MatchScoreboard_def ScoringButtons_def)
qed (cases "m_scoring_type m"; auto simp: MatchScoreboard_def ScoringButtons_def)+

lemma set_ref_menu:
  "c \<in> set (ref_menu p s) \<longleftrightarrow> menuOpen s \<and>
     (c = MenuBackdrop \<or> c = MenuOverride \<and> canOverride p \<or> c = MenuPause \<and> \<not> cp_pausing p \<or>
      c = MenuSettings)"
  by (simp add: ref_menu_def) blast

lemma set_prompt_controls:
  "c \<in> set (prompt_controls op confirming e con d) \<longleftrightarrow>
     op \<and> (c = d \<or> \<not> confirming \<and> (c = con \<or> c = e))"
  by (auto simp: prompt_controls_def)

text \<open>Every control of the referee's console, by the condition under which it can be clicked.\<close>

lemma ref_clickable_prompt:
  "ref_clickable p s MatchEnd \<Longrightarrow> matchOverPrompt s"
  "ref_clickable p s GameEnd \<Longrightarrow> gameOverPrompt s"
  by (auto simp: ref_clickable_def ref_controls_def ref_menu_def prompt_controls_def
      set_MatchScoreboard split: screen.splits option.splits if_splits)

lemma ref_clickable_board:
  assumes "ref_clickable p s c" "c \<in> {PointTeam One, PointTeam Two, PointServing, SideOutButton,
    UndoButton, TimeoutButton}"
  shows "\<exists>m. cp_match p = Some m \<and> c \<in> set (MatchScoreboard m (disabled p) (cp_pending p) True)"
proof -
  have "c \<in> set (ref_controls p s)" using assms by (auto simp: ref_clickable_def)
  moreover have "c \<notin> set (ref_menu p s)"
    "c \<notin> set (prompt_controls (gameOverPrompt s) g GameEnd GameContinue GameDismiss)"
    "c \<notin> set (prompt_controls (matchOverPrompt s) g MatchEnd MatchContinue MatchDismiss)" for g
    using assms(2) by (auto simp: ref_menu_def prompt_controls_def)
  ultimately show ?thesis using assms(2)
    by (cases "cp_match p"; cases "ref_screen p") (auto simp: ref_controls_def)
qed

lemma sk_clickable_board:
  assumes "sk_clickable p c" "c \<in> {PointTeam One, PointTeam Two, PointServing, SideOutButton,
    UndoButton, TimeoutButton}"
  shows "\<exists>m. cp_match p = Some m \<and> c \<in> set (MatchScoreboard m (disabled p) (cp_pending p) False)"
proof -
  have "c \<in> set (sk_controls p)" using assms by (auto simp: sk_clickable_def)
  then show ?thesis using assms(2)
    by (cases "cp_match p"; cases "sk_screen p") (auto simp: sk_controls_def)
qed

lemma board_disabled: "c \<in> set (MatchScoreboard m True busy menu) \<Longrightarrow> c = MenuButton"
  by (cases c) (simp_all add: set_MatchScoreboard)

section \<open>Scoring needs a connection\<close>

fun is_scoring :: "action \<Rightarrow> bool" where
  "is_scoring (ScorePoint t) = True"
| "is_scoring SideOutCall = True"
| "is_scoring UndoCall = True"
| "is_scoring (CallTimeout t) = True"
| "is_scoring _ = False"

definition scores :: "effect list \<Rightarrow> bool" where
  "scores es \<longleftrightarrow> (\<exists>c. Mutate c \<in> set es \<and> is_scoring (cl_action c))"

lemma scores_simps [simp]:
  "\<not> scores []" "scores (Toast k t # es) = scores es" "scores (Navigate u # es) = scores es"
  "scores (Refetch # es) = scores es" "scores (call_of p a # es) = (is_scoring a \<or> scores es)"
  "scores (Mutate c # es) = (is_scoring (cl_action c) \<or> scores es)"
  "scores (es @ fs) = (scores es \<or> scores fs)"
  by (auto simp: scores_def call_of_def)

lemma scores_feedback [simp]: "\<not> scores (feedback p v)"
  by (simp add: feedback_def scores_def)

lemma ref_click_scores:
  assumes "scores (snd (ref_click p s c))"
  shows "c \<in> {PointTeam One, PointTeam Two, PointServing, SideOutButton, UndoButton, TimeoutButton}"
proof (cases c)
  case (PointTeam t)
  then show ?thesis by (cases t) simp_all
next
  case MenuPause
  then show ?thesis using assms
    by (auto simp: ref_click_def ref_handlePauseToggle_def with_match_def split: option.splits if_splits)
qed (use assms in \<open>simp_all add: ref_click_def\<close>)

lemma sk_click_scores:
  assumes "scores (sk_click p c)"
  shows "c \<in> {PointTeam One, PointTeam Two, PointServing, SideOutButton, UndoButton, TimeoutButton}"
proof (cases c)
  case (PointTeam t)
  then show ?thesis by (cases t) simp_all
qed (use assms in \<open>simp_all add: sk_click_def\<close>)

lemma ref_done_scores: "\<not> scores (snd (ref_done c r s))"
  by (cases "cl_action c") simp_all

lemma sk_done_scores: "\<not> scores (sk_done c r)"
  by (cases "cl_action c") (simp_all add: sk_done_def autoConfirm_def)

lemma keys_disabled: "disabled p \<Longrightarrow> onKey (keys_enabled p) e = None"
  by (simp add: keys_enabled_def onKey_def)

lemma scoring_needs_connection_parts:
  assumes "cp_ws p \<noteq> WsOpen"
  shows "\<not> scores (snd (ref_step s (p, e)))" and "\<not> scores (sk_step (p, e))"
proof -
  have dis: "disabled p" using assms by (simp add: disabled_def)
  have ref: "\<not> (ref_clickable p s c \<and> scores (snd (ref_click p s c)))" for c
    using ref_click_scores [of p s c] ref_clickable_board [of p s c] dis by (auto dest: board_disabled)
  have sk: "\<not> (sk_clickable p c \<and> scores (sk_click p c))" for c
    using sk_click_scores [of p c] sk_clickable_board [of p c] dis by (auto dest: board_disabled)
  show "\<not> scores (snd (ref_step s (p, e)))"
  proof (cases e)
    case (Reply c r)
    then show ?thesis by (cases r) (simp_all add: ref_done_scores del: ref_done.simps)
  qed (use ref in \<open>auto simp: keys_disabled [OF dis]\<close>)
  show "\<not> scores (sk_step (p, e))"
  proof (cases e)
    case (Reply c r)
    then show ?thesis by (cases r) (simp_all add: sk_done_scores)
  qed (use sk in \<open>auto simp: keys_disabled [OF dis]\<close>)
qed

text \<open>
  C11. While the match's socket is not open neither console scores: no key, click or answer makes
  it send a point, a side-out, an undo or a timeout.
\<close>

theorem scoring_needs_connection:
  assumes "cp_ws p \<noteq> WsOpen"
  shows "\<not> scores (snd (ref_step s (p, e))) \<and> \<not> scores (sk_step (p, e))"
  using scoring_needs_connection_parts [OF assms] by blast

definition sample_props :: "ws_state \<Rightarrow> match \<Rightarrow> console_props" where
  "sample_props ws m =
     \<lparr> cp_publicId = m_public_id m, cp_loading = False, cp_error = False, cp_match = Some m,
       cp_ws = ws, cp_prefs = DEFAULT_PREFS, cp_role = Some ''platform_admin'', cp_pending = False,
       cp_game_confirming = False, cp_match_confirming = False, cp_pausing = False,
       cp_setup_ready = True \<rparr>"

theorem scoring_needs_connection_witness:
  "\<not> scores (snd (ref_step ref_init (sample_props WsDisconnected sample_match, KeyDown (plain_key ''1''))))
   \<and> \<not> scores (sk_step (sample_props WsDisconnected sample_match, Click UndoButton))"
proof -
  have "cp_ws (sample_props WsDisconnected sample_match) \<noteq> WsOpen" by (simp add: sample_props_def)
  from scoring_needs_connection [OF this]
  show ?thesis by blast
qed

section \<open>No game or match ends unless the server says it is over\<close>

definition confirms :: "action \<Rightarrow> effect list \<Rightarrow> bool" where
  "confirms a es \<longleftrightarrow> (\<exists>c. Mutate c \<in> set es \<and> cl_action c = a)"

lemma confirms_simps [simp]:
  "\<not> confirms a []" "confirms a (Toast k t # es) = confirms a es"
  "confirms a (Navigate u # es) = confirms a es" "confirms a (Refetch # es) = confirms a es"
  "confirms a (call_of p b # es) = (a = b \<or> confirms a es)"
  "confirms a (Mutate c # es) = (cl_action c = a \<or> confirms a es)"
  "confirms a (es @ fs) = (confirms a es \<or> confirms a fs)"
  by (auto simp: confirms_def call_of_def)

lemma confirms_feedback [simp]: "\<not> confirms a (feedback p v)"
  by (simp add: feedback_def confirms_def)

text \<open>What the server reported on a point or a side-out, before some moment of a run.\<close>

definition detected :: "(action_result \<Rightarrow> bool) \<Rightarrow> (console_props \<times> console_event) list \<Rightarrow> bool" where
  "detected Q es \<longleftrightarrow>
     (\<exists>p c r. (p, Reply c (Done r)) \<in> set es \<and> Q r \<and>
        (cl_action c = SideOutCall \<or> (\<exists>t. cl_action c = ScorePoint t)))"

lemma detected_snoc:
  "detected Q (es @ [e]) \<longleftrightarrow> detected Q es \<or> detected Q [e]"
  by (auto simp: detected_def)

lemma ref_prompt_step:
  "matchOverPrompt (ref_next s e) \<Longrightarrow> matchOverPrompt s \<or> detected match_over_detected [e]"
  "gameOverPrompt (ref_next s e) \<Longrightarrow>
     gameOverPrompt s \<or> detected (\<lambda>r. game_over_detected r \<and> \<not> match_over_detected r) [e]"
proof -
  obtain p ev where e: "e = (p, ev)" by (cases e)
  have short: "matchOverPrompt (fst (ref_shortcut p s k)) \<Longrightarrow> matchOverPrompt s"
    "gameOverPrompt (fst (ref_shortcut p s k)) \<Longrightarrow> gameOverPrompt s" for k
    by (cases k; simp add: ref_shortcut_def)+
  have click: "matchOverPrompt (fst (ref_click p s c)) \<Longrightarrow> matchOverPrompt s"
    "gameOverPrompt (fst (ref_click p s c)) \<Longrightarrow> gameOverPrompt s" for c
    by (cases c; simp add: ref_click_def)+
  have reply: "matchOverPrompt (fst (ref_done c r s)) \<Longrightarrow>
      matchOverPrompt s \<or> detected match_over_detected [(p, Reply c (Done r))]"
    "gameOverPrompt (fst (ref_done c r s)) \<Longrightarrow> gameOverPrompt s \<or>
      detected (\<lambda>r. game_over_detected r \<and> \<not> match_over_detected r) [(p, Reply c (Done r))]" for c r
    by (cases "cl_action c"; force simp: handleResult_def detected_def split: if_splits)+
  show "matchOverPrompt s \<or> detected match_over_detected [e]" if "matchOverPrompt (ref_next s e)"
  proof (cases ev)
    case (Reply c r)
    with that e reply show ?thesis by (cases r) (auto simp: ref_next_def simp del: ref_done.simps)
  qed (use that e short click in \<open>auto simp: ref_next_def split: option.splits if_splits\<close>)
  show "gameOverPrompt s \<or> detected (\<lambda>r. game_over_detected r \<and> \<not> match_over_detected r) [e]"
    if "gameOverPrompt (ref_next s e)"
  proof (cases ev)
    case (Reply c r)
    with that e reply show ?thesis by (cases r) (auto simp: ref_next_def simp del: ref_done.simps)
  qed (use that e short click in \<open>auto simp: ref_next_def split: option.splits if_splits\<close>)
qed

lemma ref_prompt_run:
  "matchOverPrompt (run ref_next ref_init es) \<Longrightarrow> detected match_over_detected es"
  "gameOverPrompt (run ref_next ref_init es) \<Longrightarrow>
     detected (\<lambda>r. game_over_detected r \<and> \<not> match_over_detected r) es"
proof (induction es rule: rev_induct)
  case Nil
  { case 1 then show ?case by (simp add: ref_init_def) }
  { case 2 then show ?case by (simp add: ref_init_def) }
next
  case (snoc e es)
  { case 1 then show ?case using snoc(1) ref_prompt_step(1) [of _ e] by (simp add: detected_snoc) blast }
  { case 2 then show ?case using snoc(2) ref_prompt_step(2) [of _ e] by (simp add: detected_snoc) blast }
qed

lemma ref_confirm_click:
  assumes "confirms a (snd (ref_step s (p, e)))" "a = ConfirmMatch \<or> a = ConfirmGame"
  shows "a = ConfirmMatch \<and> matchOverPrompt s \<or> a = ConfirmGame \<and> gameOverPrompt s"
proof (cases e)
  case (KeyDown k)
  have "\<not> confirms a (snd (ref_shortcut p s sc))" for sc
    using assms(2) by (cases sc) (auto simp: ref_shortcut_def with_match_def ref_handlePoint_def
        ref_handleSideOut_def ref_handleUndo_def ref_handleTimeout_def split: option.splits)
  with KeyDown assms show ?thesis by (auto split: option.splits)
next
  case (Click c)
  with assms(1) have c: "ref_clickable p s c" "confirms a (snd (ref_click p s c))"
    by (auto split: if_splits)
  then have "c = MatchEnd \<and> a = ConfirmMatch \<or> c = GameEnd \<and> a = ConfirmGame"
    using assms(2) by (cases c) (auto simp: ref_click_def with_match_def ref_handlePoint_def
        ref_handleSideOut_def ref_handleUndo_def ref_handleTimeout_def ref_handlePauseToggle_def
        split: option.splits if_splits)
  then show ?thesis using c(1) ref_clickable_prompt by blast
next
  case (Reply c r)
  then show ?thesis using assms by (cases r; cases "cl_action c") auto
qed (use assms in simp)

lemma sk_confirm_reply:
  assumes "confirms a (sk_step (p, e))" "a = ConfirmMatch \<or> a = ConfirmGame"
  shows "a = ConfirmMatch \<and> detected match_over_detected [(p, e)] \<or>
    a = ConfirmGame \<and> detected (\<lambda>r. game_over_detected r \<and> \<not> match_over_detected r) [(p, e)]"
proof (cases e)
  case (KeyDown k)
  have "\<not> confirms a (sk_shortcut p sc)" for sc
    using assms(2) by (cases sc) (auto simp: sk_shortcut_def with_match_def split: option.splits)
  with KeyDown assms show ?thesis by (auto split: option.splits)
next
  case (Click c)
  have "\<not> confirms a (sk_click p c)"
    using assms(2) by (cases c) (auto simp: sk_click_def with_match_def split: option.splits)
  with Click assms show ?thesis by (auto split: if_splits)
next
  case (Reply c r)
  show ?thesis
  proof (cases r)
    case (Done d)
    with Reply assms(1) have "confirms a (sk_done c d)" by simp
    then have "(cl_action c = SideOutCall \<or> (\<exists>t. cl_action c = ScorePoint t)) \<and>
        confirms a (autoConfirm c d)"
      by (cases "cl_action c") (simp_all add: sk_done_def)
    with Reply Done show ?thesis
      by (auto simp: detected_def autoConfirm_def split: if_splits)
  qed (use Reply assms in simp)
qed (use assms in simp)

lemma confirm_needs_detection_parts:
  fixes es :: "(console_props \<times> console_event) list"
  defines "s \<equiv> run ref_next ref_init es"
  shows "confirms ConfirmMatch (snd (ref_step s (p, e))) \<Longrightarrow> detected match_over_detected es"
    and "confirms ConfirmGame (snd (ref_step s (p, e))) \<Longrightarrow>
      detected (\<lambda>r. game_over_detected r \<and> \<not> match_over_detected r) es"
    and "confirms ConfirmMatch (sk_step (p, e)) \<Longrightarrow> detected match_over_detected [(p, e)]"
    and "confirms ConfirmGame (sk_step (p, e)) \<Longrightarrow>
      detected (\<lambda>r. game_over_detected r \<and> \<not> match_over_detected r) [(p, e)]"
proof -
  show "detected match_over_detected es" if "confirms ConfirmMatch (snd (ref_step s (p, e)))"
    using ref_confirm_click [OF that] ref_prompt_run(1) by (simp add: s_def)
  show "detected (\<lambda>r. game_over_detected r \<and> \<not> match_over_detected r) es"
    if "confirms ConfirmGame (snd (ref_step s (p, e)))"
    using ref_confirm_click [OF that] ref_prompt_run(2) by (simp add: s_def)
  show "detected match_over_detected [(p, e)]" if "confirms ConfirmMatch (sk_step (p, e))"
    using sk_confirm_reply [OF that] by simp
  show "detected (\<lambda>r. game_over_detected r \<and> \<not> match_over_detected r) [(p, e)]"
    if "confirms ConfirmGame (sk_step (p, e))"
    using sk_confirm_reply [OF that] by simp
qed

text \<open>
  C10. No console ends a match unless the server reported, on a point or side-out, that the match
  is over, nor a game unless it reported the end of a game and not of the match: the referee's
  console after its prompt was opened by such a report earlier in the run, the scorekeeper's as
  the immediate reaction to it.
\<close>

theorem confirm_needs_detection:
  fixes es :: "(console_props \<times> console_event) list"
  defines "s \<equiv> run ref_next ref_init es"
  shows "(confirms ConfirmMatch (snd (ref_step s (p, e))) \<longrightarrow> detected match_over_detected es) \<and>
    (confirms ConfirmGame (snd (ref_step s (p, e))) \<longrightarrow>
       detected (\<lambda>r. game_over_detected r \<and> \<not> match_over_detected r) es) \<and>
    (confirms ConfirmMatch (sk_step (p, e)) \<longrightarrow> detected match_over_detected [(p, e)]) \<and>
    (confirms ConfirmGame (sk_step (p, e)) \<longrightarrow>
       detected (\<lambda>r. game_over_detected r \<and> \<not> match_over_detected r) [(p, e)])"
  unfolding s_def by (intro conjI impI) (rule confirm_needs_detection_parts, assumption)+

definition sample_result :: "bool \<Rightarrow> bool \<Rightarrow> action_result" where
  "sample_result g m =
     \<lparr> ar_match = sample_match, game_over_detected = g, match_over_detected = m,
       end_change_detected = False \<rparr>"

definition sample_call :: "action \<Rightarrow> call" where
  "sample_call a = \<lparr> cl_publicId = ''m7'', cl_action = a, cl_prefs = DEFAULT_PREFS \<rparr>"

theorem confirm_needs_detection_witness:
  "detected match_over_detected
     [(sample_props WsOpen sample_match,
       Reply (sample_call (ScorePoint (Num 1))) (Done (sample_result True True)))]"
proof (rule confirm_needs_detection [THEN conjunct1, rule_format])
  let ?p = "sample_props WsOpen sample_match"
  let ?e = "(?p, Reply (sample_call (ScorePoint (Num 1))) (Done (sample_result True True)))"
  have "run ref_next ref_init [?e] = ref_init\<lparr> matchOverPrompt := True \<rparr>"
    by (simp add: ref_next_def sample_call_def handleResult_def sample_result_def)
  then show "confirms ConfirmMatch (snd (ref_step (run ref_next ref_init [?e]) (?p, Click MatchEnd)))"
    by (simp add: ref_clickable_def ref_controls_def ref_screen_def sample_props_def sample_match_def
        prompt_controls_def ref_click_def)
qed

section \<open>Keyboard and buttons\<close>

lemma shortcut_is_button_parts:
  assumes "keys_enabled p" "ref_screen p = Scoreboard" "sk_screen p = Scoreboard"
  shows "ref_clickable p s (PointTeam One) \<Longrightarrow>
      ref_step s (p, KeyDown (plain_key ''1'')) = ref_step s (p, Click (PointTeam One))"
    and "ref_clickable p s (PointTeam Two) \<Longrightarrow>
      ref_step s (p, KeyDown (plain_key ''2'')) = ref_step s (p, Click (PointTeam Two))"
    and "ref_clickable p s PointServing \<Longrightarrow>
      ref_step s (p, KeyDown (plain_key ''1'')) = ref_step s (p, Click PointServing)"
    and "ref_clickable p s SideOutButton \<Longrightarrow>
      ref_step s (p, KeyDown (plain_key ''s'')) = ref_step s (p, Click SideOutButton)"
    and "ref_clickable p s TimeoutButton \<Longrightarrow>
      ref_step s (p, KeyDown (plain_key ''t'')) = ref_step s (p, Click TimeoutButton)"
    and "ref_step s (p, KeyDown (plain_key ''z'')) = ref_step s (p, Click UndoButton)"
    and "c \<in> {PointTeam One, PointTeam Two, PointServing, SideOutButton, UndoButton} \<Longrightarrow>
      ref_clickable p s c \<Longrightarrow> sk_step (p, Click c) = snd (ref_step s (p, Click c))"
    and "k \<noteq> ''t'' \<Longrightarrow> k \<noteq> ''T'' \<Longrightarrow>
      sk_step (p, KeyDown (plain_key k)) = snd (ref_step s (p, KeyDown (plain_key k)))"
proof -
  obtain m where m: "cp_match p = Some m" "disabled p = False"
    using assms(1) by (auto simp: keys_enabled_def)
  have board: "ref_clickable p s c \<longleftrightarrow> c \<in> set (MatchScoreboard m False (cp_pending p) True)"
    if "c \<in> {PointTeam One, PointTeam Two, PointServing, SideOutButton, UndoButton, TimeoutButton}" for c
    using that assms(2) m
    by (auto simp: ref_clickable_def ref_controls_def set_ref_menu set_prompt_controls)
  have sk_board: "sk_clickable p c \<longleftrightarrow> c \<in> set (MatchScoreboard m False (cp_pending p) False)"
    if "c \<in> {PointTeam One, PointTeam Two, PointServing, SideOutButton, UndoButton}" for c
    using that assms(3) m by (auto simp: sk_clickable_def sk_controls_def)
  note defs = ref_shortcut_def ref_click_def with_match_def ref_handlePoint_def ref_handleSideOut_def
    ref_handleUndo_def ref_handleTimeout_def shortcut_of_def
  show "ref_clickable p s (PointTeam One) \<Longrightarrow>
      ref_step s (p, KeyDown (plain_key ''1'')) = ref_step s (p, Click (PointTeam One))"
    using assms(1) m board by (simp add: defs set_MatchScoreboard)
  show "ref_clickable p s (PointTeam Two) \<Longrightarrow>
      ref_step s (p, KeyDown (plain_key ''2'')) = ref_step s (p, Click (PointTeam Two))"
    using assms(1) m board by (simp add: defs set_MatchScoreboard)
  show "ref_clickable p s PointServing \<Longrightarrow>
      ref_step s (p, KeyDown (plain_key ''1'')) = ref_step s (p, Click PointServing)"
    using assms(1) m board by (simp add: defs set_MatchScoreboard)
  show "ref_clickable p s SideOutButton \<Longrightarrow>
      ref_step s (p, KeyDown (plain_key ''s'')) = ref_step s (p, Click SideOutButton)"
    using assms(1) m board by (simp add: defs set_MatchScoreboard)
  show "ref_step s (p, KeyDown (plain_key ''t'')) = ref_step s (p, Click TimeoutButton)"
    if click: "ref_clickable p s TimeoutButton"
  proof -
    obtain t where "serving_team m = Some t"
      using click board [of TimeoutButton] by (auto simp: set_MatchScoreboard)
    then show ?thesis using assms(1) m click by (simp add: defs)
  qed
  show "ref_step s (p, KeyDown (plain_key ''z'')) = ref_step s (p, Click UndoButton)"
    using assms(1) m board by (simp add: defs set_MatchScoreboard)
  show "sk_step (p, Click c) = snd (ref_step s (p, Click c))"
    if "c \<in> {PointTeam One, PointTeam Two, PointServing, SideOutButton, UndoButton}"
      "ref_clickable p s c"
  proof -
    have "sk_clickable p c" using that board [of c] sk_board [of c] by (auto simp: set_MatchScoreboard)
    with that show ?thesis using m by (auto simp: sk_click_def defs)
  qed
  show "sk_step (p, KeyDown (plain_key k)) = snd (ref_step s (p, KeyDown (plain_key k)))"
    if "k \<noteq> ''t''" "k \<noteq> ''T''"
    using that assms(1) m by (simp add: defs sk_shortcut_def)
qed

text \<open>
  C13. With the preferences on, an open socket and a match in progress, the shortcuts send exactly
  what a click on the scoreboard sends, in both consoles, as long as the corresponding button is
  enabled.
\<close>

theorem shortcut_is_button:
  assumes "keys_enabled p" "ref_screen p = Scoreboard" "sk_screen p = Scoreboard"
  shows "(ref_clickable p s (PointTeam One) \<longrightarrow>
      ref_step s (p, KeyDown (plain_key ''1'')) = ref_step s (p, Click (PointTeam One))) \<and>
    (ref_clickable p s (PointTeam Two) \<longrightarrow>
      ref_step s (p, KeyDown (plain_key ''2'')) = ref_step s (p, Click (PointTeam Two))) \<and>
    (ref_clickable p s PointServing \<longrightarrow>
      ref_step s (p, KeyDown (plain_key ''1'')) = ref_step s (p, Click PointServing)) \<and>
    (ref_clickable p s SideOutButton \<longrightarrow>
      ref_step s (p, KeyDown (plain_key ''s'')) = ref_step s (p, Click SideOutButton)) \<and>
    (ref_clickable p s TimeoutButton \<longrightarrow>
      ref_step s (p, KeyDown (plain_key ''t'')) = ref_step s (p, Click TimeoutButton)) \<and>
    ref_step s (p, KeyDown (plain_key ''z'')) = ref_step s (p, Click UndoButton) \<and>
    (c \<in> {PointTeam One, PointTeam Two, PointServing, SideOutButton, UndoButton} \<and>
      ref_clickable p s c \<longrightarrow> sk_step (p, Click c) = snd (ref_step s (p, Click c))) \<and>
    (k \<notin> {''t'', ''T''} \<longrightarrow>
      sk_step (p, KeyDown (plain_key k)) = snd (ref_step s (p, KeyDown (plain_key k))))"
  using shortcut_is_button_parts [OF assms] by blast

theorem shortcut_is_button_witness:
  "ref_step ref_init (sample_props WsOpen sample_match, KeyDown (plain_key ''1'')) =
   ref_step ref_init (sample_props WsOpen sample_match, Click PointServing)"
proof (rule shortcut_is_button [THEN conjunct2, THEN conjunct2, THEN conjunct1, rule_format])
  show "keys_enabled (sample_props WsOpen sample_match)"
    "ref_screen (sample_props WsOpen sample_match) = Scoreboard"
    "sk_screen (sample_props WsOpen sample_match) = Scoreboard"
    "ref_clickable (sample_props WsOpen sample_match) ref_init PointServing"
    by (simp_all add: keys_enabled_def sample_props_def DEFAULT_PREFS_def sample_match_def disabled_def
        ref_screen_def sk_screen_def ref_clickable_def ref_controls_def MatchScoreboard_def
        ScoringButtons_def)
qed

lemma shortcut_bypasses_guards_parts:
  assumes "keys_enabled p" "cp_match p = Some m"
  shows "m_scoring_type m = SideOutScoring \<Longrightarrow> serving_team m = None \<Longrightarrow>
      snd (ref_step s (p, KeyDown (plain_key ''1''))) = [call_of p (ScorePoint Null)] \<and>
      sk_step (p, KeyDown (plain_key ''1'')) = [call_of p (ScorePoint Null)] \<and>
      call_request pid (ScorePoint Null) = ApiPost (api_match pid ''/point'') (Obj [(''team'', Null)]) \<and>
      \<not> ref_clickable p s PointServing \<and> \<not> sk_clickable p PointServing"
    and "cp_pending p \<Longrightarrow> c \<in> {PointTeam One, PointTeam Two, PointServing} \<Longrightarrow>
      \<not> ref_clickable p s c \<and> \<not> sk_clickable p c \<and>
      scores (snd (ref_step s (p, KeyDown (plain_key ''1'')))) \<and>
      scores (sk_step (p, KeyDown (plain_key ''1'')))"
proof -
  have ref: "ref_clickable p s c \<Longrightarrow> c \<in> set (MatchScoreboard m (disabled p) (cp_pending p) True)"
    if "c \<in> {PointTeam One, PointTeam Two, PointServing}" for c
    using ref_clickable_board [of p s c] that assms(2) by auto
  have sk: "sk_clickable p c \<Longrightarrow> c \<in> set (MatchScoreboard m (disabled p) (cp_pending p) False)"
    if "c \<in> {PointTeam One, PointTeam Two, PointServing}" for c
    using sk_clickable_board [of p c] that assms(2) by auto
  note defs = ref_shortcut_def sk_shortcut_def with_match_def ref_handlePoint_def shortcut_of_def
  show "snd (ref_step s (p, KeyDown (plain_key ''1''))) = [call_of p (ScorePoint Null)] \<and>
      sk_step (p, KeyDown (plain_key ''1'')) = [call_of p (ScorePoint Null)] \<and>
      call_request pid (ScorePoint Null) = ApiPost (api_match pid ''/point'') (Obj [(''team'', Null)]) \<and>
      \<not> ref_clickable p s PointServing \<and> \<not> sk_clickable p PointServing"
    if "m_scoring_type m = SideOutScoring" "serving_team m = None"
    using that assms ref [of PointServing] sk [of PointServing]
    by (auto simp: defs set_MatchScoreboard useScorePoint_def)
  show "\<not> ref_clickable p s c \<and> \<not> sk_clickable p c \<and>
      scores (snd (ref_step s (p, KeyDown (plain_key ''1'')))) \<and>
      scores (sk_step (p, KeyDown (plain_key ''1'')))"
    if "cp_pending p" "c \<in> {PointTeam One, PointTeam Two, PointServing}"
    using that assms ref [of c] sk [of c]
    by (auto simp: defs set_MatchScoreboard)
qed

text \<open>
  The shortcuts lack the guards of the buttons: in a side-out match without a serving team
  the key 1 posts a point for the team \<open>null\<close> while no point button is enabled, and while a point
  is still being sent a second one can be sent by the key though the button is disabled, also
  behind an open prompt.
\<close>

theorem shortcut_bypasses_guards:
  assumes "keys_enabled p" "cp_match p = Some m"
  shows "(m_scoring_type m = SideOutScoring \<and> serving_team m = None \<longrightarrow>
      snd (ref_step s (p, KeyDown (plain_key ''1''))) = [call_of p (ScorePoint Null)] \<and>
      sk_step (p, KeyDown (plain_key ''1'')) = [call_of p (ScorePoint Null)] \<and>
      call_request pid (ScorePoint Null) = ApiPost (api_match pid ''/point'') (Obj [(''team'', Null)]) \<and>
      \<not> ref_clickable p s PointServing \<and> \<not> sk_clickable p PointServing) \<and>
    (cp_pending p \<longrightarrow> (\<forall>c \<in> {PointTeam One, PointTeam Two, PointServing}.
        \<not> ref_clickable p s c \<and> \<not> sk_clickable p c) \<and>
      scores (snd (ref_step s (p, KeyDown (plain_key ''1'')))) \<and>
      scores (sk_step (p, KeyDown (plain_key ''1''))))"
  using shortcut_bypasses_guards_parts [OF assms] by blast

theorem shortcut_bypasses_guards_witness:
  "sk_step (sample_props WsOpen (sample_match\<lparr> serving_team := None \<rparr>), KeyDown (plain_key ''1'')) =
     [call_of (sample_props WsOpen (sample_match\<lparr> serving_team := None \<rparr>)) (ScorePoint Null)]"
proof -
  let ?m = "sample_match\<lparr> serving_team := None \<rparr>"
  have "keys_enabled (sample_props WsOpen ?m)" "cp_match (sample_props WsOpen ?m) = Some ?m"
    "m_scoring_type ?m = SideOutScoring \<and> serving_team ?m = None"
    by (simp_all add: keys_enabled_def sample_props_def DEFAULT_PREFS_def sample_match_def disabled_def)
  with shortcut_bypasses_guards [OF this(1,2)] show ?thesis by blast
qed

lemma finished_match_scorable_parts:
  assumes "\<not> cp_loading p" "\<not> cp_error p" "cp_match p = Some m" "cp_ws p = WsOpen"
    "serving_team m = Some t" "\<not> cp_pending p" "m_scoring_type m = SideOutScoring"
  shows "m_status m \<in> {Cancelled, Forfeited} \<Longrightarrow>
      scores (snd (ref_step s (p, Click PointServing))) \<and> scores (sk_step (p, Click PointServing))"
    and "m_status m = Completed \<Longrightarrow>
      \<not> scores (snd (ref_step s (p, Click PointServing))) \<and> scores (sk_step (p, Click PointServing))"
    and "m_status m \<noteq> Scheduled \<Longrightarrow>
      sk_clickable p TimeoutButton \<and> sk_step (p, Click TimeoutButton) = []"
  using assms
  by (auto simp: ref_clickable_def ref_controls_def ref_screen_def sk_clickable_def sk_controls_def
      sk_screen_def disabled_def set_MatchScoreboard ref_click_def sk_click_def with_match_def
      ref_handlePoint_def set_ref_menu set_prompt_controls)

text \<open>
  A match that is over can still be scored from the screen: a cancelled or forfeited match
  shows the scoreboard with its point buttons in both consoles, and the scorekeeper's shows it for
  a completed match too. The scorekeeper's timeout button, which the console says it does not
  have, is there and does nothing.
\<close>

theorem finished_match_scorable:
  assumes "\<not> cp_loading p" "\<not> cp_error p" "cp_match p = Some m" "cp_ws p = WsOpen"
    "serving_team m = Some t" "\<not> cp_pending p" "m_scoring_type m = SideOutScoring"
  shows "(m_status m \<in> {Cancelled, Forfeited} \<longrightarrow>
      scores (snd (ref_step s (p, Click PointServing))) \<and> scores (sk_step (p, Click PointServing))) \<and>
    (m_status m = Completed \<longrightarrow>
      \<not> scores (snd (ref_step s (p, Click PointServing))) \<and> scores (sk_step (p, Click PointServing))) \<and>
    (m_status m \<noteq> Scheduled \<longrightarrow>
      sk_clickable p TimeoutButton \<and> sk_step (p, Click TimeoutButton) = [])"
  using finished_match_scorable_parts [OF assms] by blast

theorem finished_match_scorable_witness:
  "scores (sk_step (sample_props WsOpen (sample_match\<lparr> m_status := Completed \<rparr>), Click PointServing))"
  by (rule finished_match_scorable [THEN conjunct2, THEN conjunct1, rule_format, THEN conjunct2,
        of _ "sample_match\<lparr> m_status := Completed \<rparr>" One])
    (simp_all add: sample_props_def sample_match_def)


section \<open>Whose match a console acts on\<close>

lemma call_success_applyResult: "call_success pid a data = applyResult pid data"
  by (cases a) (simp_all add: start.success point.success sideout.success undo.success
    call_timeout.success pause.success resume.success confirm_game.success confirm_match.success
    start_values_def)

lemma call_request_posts:
  "\<exists>rest body. call_request pid a = ApiPost (api_match pid rest) body \<and> truthy body"
  by (cases a) (auto simp: useStartMatch_def useScorePoint_def useSideOut_def useUndo_def
    useCallTimeout_def usePauseMatch_def useResumeMatch_def useConfirmGameOver_def
    useConfirmMatchOver_def start_values_def)

text \<open>The public id of the calls in a list of effects.\<close>

definition calls_for :: "string \<Rightarrow> effect list \<Rightarrow> bool" where
  "calls_for pid es \<longleftrightarrow> (\<forall>c. Mutate c \<in> set es \<longrightarrow> cl_publicId c = pid)"

lemma calls_for_simps [simp]:
  "calls_for pid []" "calls_for pid (Toast k t # es) = calls_for pid es"
  "calls_for pid (Navigate u # es) = calls_for pid es"
  "calls_for pid (Refetch # es) = calls_for pid es"
  "calls_for pid (call_of p a # es) = (cp_publicId p = pid \<and> calls_for pid es)"
  "calls_for pid (Mutate c # es) = (cl_publicId c = pid \<and> calls_for pid es)"
  "calls_for pid (es @ fs) = (calls_for pid es \<and> calls_for pid fs)"
  by (auto simp: calls_for_def call_of_def)

lemma calls_for_feedback [simp]: "calls_for pid (feedback p v)"
  by (simp add: feedback_def calls_for_def)

lemma ref_calls_for:
  "calls_for (cp_publicId p) (snd (ref_shortcut p s k))"
  "calls_for (cp_publicId p) (snd (ref_click p s c))"
  by (cases k; simp add: ref_shortcut_def with_match_def ref_handlePoint_def ref_handleSideOut_def
      ref_handleUndo_def ref_handleTimeout_def split: option.splits)
    (cases c; simp add: ref_click_def with_match_def ref_handlePoint_def ref_handleSideOut_def
      ref_handleUndo_def ref_handleTimeout_def ref_handlePauseToggle_def split: option.splits)

lemma sk_calls_for:
  "calls_for (cp_publicId p) (sk_shortcut p k)" "calls_for (cp_publicId p) (sk_click p c)"
  by (cases k; simp add: sk_shortcut_def with_match_def split: option.splits)
    (cases c; simp add: sk_click_def with_match_def split: option.splits)

lemma done_calls_for:
  "calls_for (cl_publicId c) (snd (ref_done c r s))" "calls_for (cl_publicId c) (sk_done c r)"
  by (cases "cl_action c"; simp)
    (cases "cl_action c"; simp add: sk_done_def autoConfirm_def)

fun event_match :: "console_props \<times> console_event \<Rightarrow> string" where
  "event_match (p, Reply c r) = cl_publicId c"
| "event_match (p, e) = cp_publicId p"

lemma step_calls_for:
  "calls_for (event_match pe) (snd (ref_step s pe))" "calls_for (event_match pe) (sk_step pe)"
proof -
  obtain p e where pe: "pe = (p, e)" by (cases pe)
  show "calls_for (event_match pe) (snd (ref_step s pe))"
  proof (cases e)
    case (Reply c r)
    then show ?thesis using pe done_calls_for by (cases r) (simp_all del: ref_done.simps)
  qed (use pe ref_calls_for in \<open>auto split: option.splits\<close>)
  show "calls_for (event_match pe) (sk_step pe)"
  proof (cases e)
    case (Reply c r)
    then show ?thesis using pe done_calls_for by (cases r) simp_all
  qed (use pe sk_calls_for in \<open>auto split: option.splits\<close>)
qed

end
