(* ===== verification/Form_Inputs.thy ===== *)
theory Form_Inputs
  imports JS_Number Formatters
begin

text \<open>
  What the forms of the program share: the numbers a text or number input yields
  (\<open>parseInt\<close>, \<open>Number\<close>), the values a range input can take, the delayed calls of a
  debounced form, and the hook of \<open>web/src/hooks/useDebounce.ts\<close>.
\<close>

section \<open>Numbers typed by the user\<close>

definition is_digit :: "char \<Rightarrow> bool" where
  "is_digit c \<longleftrightarrow> 48 \<le> (of_char c :: nat) \<and> (of_char c :: nat) \<le> 57"

definition digits_value :: "string \<Rightarrow> int" where
  "digits_value ds = foldl (\<lambda>n c. 10 * n + (int (of_char c) - 48)) 0 ds"

text \<open>\<open>parseInt(s, 10)\<close>: \<open>None\<close> for \<open>NaN\<close>. What follows the digits is ignored.\<close>

definition parse_unsigned :: "string \<Rightarrow> int option" where
  "parse_unsigned s =
     (let ds = takeWhile is_digit s in if ds = [] then None else Some (digits_value ds))"

definition parseInt :: "string \<Rightarrow> int option" where
  "parseInt s =
     (case dropWhile is_space s of
        [] \<Rightarrow> None
      | c # r \<Rightarrow>
          if c = CHR ''-'' then map_option uminus (parse_unsigned r)
          else if c = CHR ''+'' then parse_unsigned r
          else parse_unsigned (c # r))"

text \<open>\<open>parseInt(s, 10) || d\<close>: 0 counts as missing.\<close>

definition parseInt_or :: "string \<Rightarrow> int \<Rightarrow> int" where
  "parseInt_or s d = (case parseInt s of None \<Rightarrow> d | Some n \<Rightarrow> if n = 0 then d else n)"

lemma digits_value_nonneg: "list_all is_digit ds \<Longrightarrow> 0 \<le> digits_value ds"
proof -
  have "0 \<le> n \<Longrightarrow> list_all is_digit ds \<Longrightarrow>
      0 \<le> foldl (\<lambda>n c. 10 * n + (int (of_char c) - 48)) n ds" for n
    by (induction ds arbitrary: n) (auto simp: is_digit_def)
  then show "list_all is_digit ds \<Longrightarrow> 0 \<le> digits_value ds" by (simp add: digits_value_def)
qed

lemma parse_unsigned_nonneg: "parse_unsigned s = Some n \<Longrightarrow> 0 \<le> n"
  by (auto simp: parse_unsigned_def Let_def list_all_iff dest: set_takeWhileD
      intro!: digits_value_nonneg split: if_splits)

lemma digits_value_snoc:
  "digits_value (ds @ [c]) = 10 * digits_value ds + (int (of_char c) - 48)"
  by (simp add: digits_value_def)

lemma digits_value_show:
  "digits_value (show_nat n) = int n \<and> list_all is_digit (show_nat n) \<and> show_nat n \<noteq> []"
proof (induction n rule: less_induct)
  case (less n)
  have d: "is_digit (char_of (48 + k))" "of_char (char_of (48 + k) :: char) = 48 + k" if "k < 10" for k :: nat
    using that by (simp_all add: is_digit_def of_char_of)
  show ?case
  proof (cases "n < 10")
    case True
    then show ?thesis by (simp add: show_nat.simps [of n] digits_value_def d)
  next
    case False
    then have IH: "digits_value (show_nat (n div 10)) = int (n div 10)"
        "list_all is_digit (show_nat (n div 10))" using less.IH [of "n div 10"] by simp_all
    have s: "show_nat n = show_nat (n div 10) @ [char_of (48 + n mod 10)]"
      using False by (simp add: show_nat.simps [of n])
    have m: "n mod 10 < 10" by simp
    have n: "int n = 10 * int (n div 10) + int (n mod 10)"
      using mult_div_mod_eq [of 10 n] by (metis of_nat_add of_nat_mult of_nat_numeral)
    have "digits_value (show_nat n) = 10 * int (n div 10) + (int (48 + n mod 10) - 48)"
      unfolding s digits_value_snoc IH d(2) [OF m] ..
    also have "\<dots> = int n" using n by linarith
    finally have "digits_value (show_nat n) = int n" .
    moreover have "list_all is_digit (show_nat n)" unfolding s using IH(2) d(1) [OF m] by simp
    ultimately show ?thesis unfolding s by simp
  qed
qed

text \<open>Decimal notation is injective: \<open>parseInt\<close> reads back what was written.\<close>

lemma parseInt_show: "parseInt (show_int i) = Some i"
proof -
  obtain c r where c: "show_nat (nat \<bar>i\<bar>) = c # r" "is_digit c"
    using digits_value_show [of "nat \<bar>i\<bar>"] by (cases "show_nat (nat \<bar>i\<bar>)") auto
  have all: "takeWhile is_digit (show_nat (nat \<bar>i\<bar>)) = show_nat (nat \<bar>i\<bar>)"
    using digits_value_show [of "nat \<bar>i\<bar>"] by (simp add: takeWhile_eq_all_conv list_all_iff)
  have p: "parse_unsigned (show_nat (nat \<bar>i\<bar>)) = Some \<bar>i\<bar>"
    unfolding parse_unsigned_def all using digits_value_show [of "nat \<bar>i\<bar>"] by simp
  have nc: "\<not> is_space c" "c \<noteq> CHR ''-''" "c \<noteq> CHR ''+''"
    using c(2) by (auto simp: is_space_def is_digit_def)
  show ?thesis
  proof (cases "i < 0")
    case True
    then have "show_int i = CHR ''-'' # show_nat (nat \<bar>i\<bar>)" by (simp add: show_int_def)
    then show ?thesis using p True by (simp add: parseInt_def is_space_def)
  next
    case False
    then have "show_int i = show_nat (nat \<bar>i\<bar>)" by (simp add: show_int_def)
    then show ?thesis using p False nc c(1) by (simp add: parseInt_def)
  qed
qed

lemma show_int_inject [simp]: "show_int i = show_int j \<longleftrightarrow> i = j"
  by (metis parseInt_show option.inject)

text \<open>
  The value of a number input: the typed text if it is a floating-point number of HTML,
  otherwise the empty string; as a number, \<open>Number(value)\<close>. \<open>None\<close> is the empty value.
\<close>

definition scale_dec :: "rat \<Rightarrow> int \<Rightarrow> rat" where
  "scale_dec q e = (if 0 \<le> e then q * 10 ^ nat e else q / 10 ^ nat (- e))"

definition parse_exponent :: "string \<Rightarrow> int option" where
  "parse_exponent s =
     (case s of
        [] \<Rightarrow> Some 0
      | c # r \<Rightarrow>
          if c \<noteq> CHR ''e'' \<and> c \<noteq> CHR ''E'' then None
          else case r of
              [] \<Rightarrow> None
            | d # t \<Rightarrow>
                (let ds = (if d = CHR ''-'' \<or> d = CHR ''+'' then t else r) in
                 if ds = [] \<or> \<not> list_all is_digit ds then None
                 else Some (if d = CHR ''-'' then - digits_value ds else digits_value ds)))"

definition parse_magnitude :: "string \<Rightarrow> rat option" where
  "parse_magnitude s =
     (let ip = takeWhile is_digit s; r = dropWhile is_digit s in
      case r of
        [] \<Rightarrow> if ip = [] then None else Some (of_int (digits_value ip))
      | c # t \<Rightarrow>
          if c = CHR ''.''
          then (let fp = takeWhile is_digit t in
                if fp = [] then None
                else map_option
                  (scale_dec (scale_dec (of_int (digits_value (ip @ fp))) (- int (length fp))))
                  (parse_exponent (dropWhile is_digit t)))
          else if ip = [] then None
          else map_option (scale_dec (of_int (digits_value ip))) (parse_exponent r))"

definition number_field :: "string \<Rightarrow> rat option" where
  "number_field s =
     (case s of
        [] \<Rightarrow> None
      | c # r \<Rightarrow> if c = CHR ''-'' then map_option uminus (parse_magnitude r) else parse_magnitude s)"

lemma trim_trim [simp]: "trim (trim t) = trim t"
proof -
  define u where "u = dropWhile is_space t"
  define w where "w = rev (dropWhile is_space (rev u))"
  have u: "u = w @ rev (takeWhile is_space (rev u))"
    unfolding w_def by (metis rev_append rev_rev_ident takeWhile_dropWhile_id)
  have "dropWhile is_space w = w"
  proof (cases "w = []")
    case False
    then have "hd w = hd u" by (metis hd_append2 u)
    moreover have "\<not> is_space (hd u)"
      using False u unfolding u_def by (metis Nil_is_append_conv hd_dropWhile)
    ultimately show ?thesis using False by (cases w) simp_all
  qed simp
  then show ?thesis by (simp add: trim_def u_def [symmetric]) (simp add: w_def dropWhile_idem)
qed

text \<open>\<open>/^#[0-9a-fA-F]{6}$/\<close>.\<close>

definition is_hex :: "char \<Rightarrow> bool" where
  "is_hex c \<longleftrightarrow> is_digit c \<or> c \<in> {CHR ''a'', CHR ''b'', CHR ''c'', CHR ''d'', CHR ''e'', CHR ''f'',
     CHR ''A'', CHR ''B'', CHR ''C'', CHR ''D'', CHR ''E'', CHR ''F''}"

definition looksHex :: "string \<Rightarrow> bool" where
  "looksHex v = (case v of [] \<Rightarrow> False
     | c # r \<Rightarrow> c = CHR ''#'' \<and> length r = 6 \<and> list_all is_hex r)"

section \<open>Range inputs\<close>

text \<open>
  The browser keeps the value of a range input between \<open>min\<close> and the largest step from
  \<open>min\<close> that does not pass \<open>max\<close>, and on a step: it takes the nearest one, the upper one of
  two equally near.
\<close>

definition range_value :: "int \<Rightarrow> int \<Rightarrow> int \<Rightarrow> rat \<Rightarrow> int" where
  "range_value lo hi stp v =
     (let top = (hi - lo) div stp;
          k = \<lfloor>(v - of_int lo) / of_int stp + 1 / 2\<rfloor>
      in lo + stp * max 0 (min top k))"

lemma range_value_bounds:
  assumes "0 < stp" "lo \<le> hi"
  shows "lo \<le> range_value lo hi stp v" and "range_value lo hi stp v \<le> hi"
    and "(range_value lo hi stp v - lo) mod stp = 0"
proof -
  define top where "top = (hi - lo) div stp"
  define k where "k = max 0 (min top \<lfloor>(v - of_int lo) / of_int stp + 1 / 2\<rfloor>)"
  have rv: "range_value lo hi stp v = lo + stp * k"
    by (simp add: range_value_def Let_def k_def top_def)
  have top0: "0 \<le> top" using assms by (simp add: top_def pos_imp_zdiv_nonneg_iff)
  have k: "0 \<le> k" "k \<le> top" using top0 by (auto simp: k_def)
  have "stp * k \<le> stp * top" using k assms by simp
  also have "stp * top \<le> hi - lo"
    using mult_div_mod_eq [of stp "hi - lo"] pos_mod_sign [OF assms(1), of "hi - lo"]
    unfolding top_def by linarith
  finally show "range_value lo hi stp v \<le> hi" by (simp add: rv)
  show "lo \<le> range_value lo hi stp v" using k assms by (simp add: rv)
  show "(range_value lo hi stp v - lo) mod stp = 0" by (simp add: rv)
qed

section \<open>Delayed calls\<close>

text \<open>
  A form that saves with a delay keeps one timer: \<open>Some r\<close> when it fires in \<open>r\<close> milliseconds.
  Passing time either brings it nearer or fires it.
\<close>

type_synonym countdown = "nat option"

fun due :: "nat \<Rightarrow> countdown \<Rightarrow> bool" where
  "due n None = False"
| "due n (Some r) = (r \<le> n)"

fun elapse :: "nat \<Rightarrow> countdown \<Rightarrow> countdown" where
  "elapse n None = None"
| "elapse n (Some r) = (if r \<le> n then None else Some (r - n))"

lemma elapse_due: "due n t \<Longrightarrow> elapse n t = None"
  by (cases t) simp_all

lemma elapse_add: "elapse n (elapse m t) = elapse (m + n) t"
  by (cases t) auto

lemma due_add: "due n (elapse m t) \<or> due m t \<longleftrightarrow> due (m + n) t"
  by (cases t) auto

text \<open>
  The contract of a debounced form: time passes without any other effect until the timer
  fires, which sends what \<open>send\<close> reads off the state; leaving the page drops the timer, and no
  other event touches it except to set it to the full delay or to drop it.
\<close>

locale debounced =
  fixes nxt :: "'s \<Rightarrow> 'e \<Rightarrow> 's"
    and out :: "'s \<Rightarrow> 'e \<Rightarrow> 'o list"
    and timer :: "'s \<Rightarrow> countdown"
    and wait :: "nat \<Rightarrow> 'e"
    and leave :: 'e
    and delay :: nat
    and send :: "'s \<Rightarrow> 'o list"
  assumes wait_timer: "timer (nxt s (wait n)) = elapse n (timer s)"
    and wait_out: "out s (wait n) = (if due n (timer s) then send s else [])"
    and wait_send: "\<not> due n (timer s) \<Longrightarrow> send (nxt s (wait n)) = send s"
    and leave_timer: "timer (nxt s leave) = None"
    and arms: "timer (nxt s e) = timer s \<or> timer (nxt s e) = None \<or> timer (nxt s e) = Some delay
      \<or> (\<exists>n. e = wait n)"
begin

fun outs :: "'s \<Rightarrow> 'e list \<Rightarrow> 'o list" where
  "outs s [] = []"
| "outs s (e # es) = out s e @ outs (nxt s e) es"

lemma outs_append: "outs s (es @ es') = outs s es @ outs (run nxt s es) es'"
  by (induction es arbitrary: s) simp_all

lemma idle_silent: "timer s = None \<Longrightarrow> outs s (map wait ns) = []"
  by (induction ns arbitrary: s) (simp_all add: wait_out wait_timer)

text \<open>While nothing happens but time passing, exactly one call is sent, when the timer is due.\<close>

lemma quiet_outs:
  "outs s (map wait ns) = (case timer s of None \<Rightarrow> [] | Some r \<Rightarrow> if ns \<noteq> [] \<and> r \<le> sum_list ns then send s else [])"
proof (induction ns arbitrary: s)
  case (Cons n ns)
  show ?case
  proof (cases "due n (timer s)")
    case True
    then have "timer (nxt s (wait n)) = None" by (simp add: wait_timer elapse_due)
    then have "outs (nxt s (wait n)) (map wait ns) = []" by (rule idle_silent)
    with True show ?thesis by (cases "timer s") (auto simp: wait_out)
  next
    case False
    then have "send (nxt s (wait n)) = send s" by (rule wait_send)
    with False Cons.IH [of "nxt s (wait n)"] show ?thesis
      by (cases "timer s"; cases ns) (auto simp: wait_out wait_timer)
  qed
qed (simp split: option.split)

lemma leave_silent: "outs (nxt s leave) (map wait ns) = []"
  by (rule idle_silent) (rule leave_timer)

lemma timer_bound:
  "(\<forall>r. timer s = Some r \<longrightarrow> r \<le> delay) \<Longrightarrow> \<forall>r. timer (run nxt s es) = Some r \<longrightarrow> r \<le> delay"
proof (induction es arbitrary: s)
  case (Cons e es)
  have "\<forall>r. timer (nxt s e) = Some r \<longrightarrow> r \<le> delay"
  proof (intro allI impI)
    fix r assume r: "timer (nxt s e) = Some r"
    consider "timer (nxt s e) = timer s" | "timer (nxt s e) = Some delay" | n where "e = wait n"
      using arms [of s e] r by auto
    then show "r \<le> delay"
    proof cases
      case 3
      then show ?thesis using r Cons.prems
        by (cases "timer s") (auto simp: wait_timer split: if_splits)
    qed (use r Cons.prems in auto)
  qed
  then show ?case using Cons.IH by simp
qed simp

text \<open>So after any events at all, waiting for the delay leaves nothing unsent.\<close>

lemma settles:
  assumes "\<forall>r. timer s = Some r \<longrightarrow> r \<le> delay" and "delay \<le> n"
  shows "timer (nxt (run nxt s es) (wait n)) = None"
  using timer_bound [OF assms(1), of es] assms(2)
  by (cases "timer (run nxt s es)") (auto simp: wait_timer)

end

section \<open>useDebounce\<close>

text \<open>
  The hook returns the value it last settled on. A render with another value or another
  delay runs the effect again, which drops the timer and starts a new one for the new
  value; the timer's callback holds the value of its render.
\<close>

record 'a debounce =
  db_value :: 'a
  db_delay :: nat
  db_debounced :: 'a
  db_timer :: countdown

datatype 'a debounce_event =
    DbRender 'a nat
  | DbWait nat
  | DbUnmount

definition useDebounce :: "'a \<Rightarrow> nat \<Rightarrow> 'a debounce" where
  "useDebounce v d = \<lparr> db_value = v, db_delay = d, db_debounced = v, db_timer = Some d \<rparr>"

fun debounce_step :: "'a debounce \<Rightarrow> 'a debounce_event \<Rightarrow> 'a debounce" where
  "debounce_step s (DbRender v d) =
     (if v = db_value s \<and> d = db_delay s then s
      else s\<lparr> db_value := v, db_delay := d, db_timer := Some d \<rparr>)"
| "debounce_step s (DbWait n) =
     s\<lparr> db_debounced := (if due n (db_timer s) then db_value s else db_debounced s),
        db_timer := elapse n (db_timer s) \<rparr>"
| "debounce_step s DbUnmount = s\<lparr> db_timer := None \<rparr>"

definition debounce_ok :: "'a debounce \<Rightarrow> bool" where
  "debounce_ok s \<longleftrightarrow> (case db_timer s of None \<Rightarrow> db_debounced s = db_value s
     | Some r \<Rightarrow> r \<le> db_delay s)"

fun db_stays :: "'a debounce_event \<Rightarrow> bool" where
  "db_stays DbUnmount = False"
| "db_stays _ = True"

definition debounce_live :: "'a debounce \<Rightarrow> 'a debounce_event \<Rightarrow> 'a debounce" where
  "debounce_live s e = (if db_stays e then debounce_step s e else s)"

lemma debounce_ok_step: "debounce_ok s \<Longrightarrow> debounce_ok (debounce_live s e)"
  by (cases e; cases "db_timer s") (auto simp: debounce_ok_def debounce_live_def)

lemma debounce_ok_init: "debounce_ok (useDebounce v d)"
  by (simp add: useDebounce_def debounce_ok_def)

interpretation debounce_machine:
    event_machine debounce_live "\<lambda>s. \<exists>v d. s = useDebounce v d" debounce_ok
  by unfold_locales (auto simp: debounce_ok_init debounce_ok_step)

text \<open>The values rendered so far, newest last.\<close>

fun rendered :: "'a debounce_event \<Rightarrow> 'a list" where
  "rendered (DbRender v d) = [v]"
| "rendered _ = []"

lemma debounce_known_step:
  assumes "db_debounced s \<in> V" "db_value s \<in> V"
  shows "db_debounced (debounce_live s e) \<in> V \<union> set (rendered e)"
    and "db_value (debounce_live s e) \<in> V \<union> set (rendered e)"
  using assms by (cases e; auto simp: debounce_live_def)+

lemma debounce_known:
  "db_debounced s \<in> V \<Longrightarrow> db_value s \<in> V \<Longrightarrow>
     db_debounced (run debounce_live s es) \<in> V \<union> set (concat (map rendered es))"
proof (induction es arbitrary: s V)
  case (Cons e es)
  have "db_debounced (run debounce_live (debounce_live s e) es)
      \<in> (V \<union> set (rendered e)) \<union> set (concat (map rendered es))"
    by (rule Cons.IH) (rule debounce_known_step [OF Cons.prems])+
  then show ?case by (simp add: Un_assoc)
qed simp

text \<open>
  The debounced value is always one the caller rendered; it does not move while the caller
  renders changing values less than the delay apart, and after any history it equals the
  current value once the delay has passed quietly, and stays it.
\<close>

theorem debounce_settles:
  fixes v :: 'a and d :: nat
  defines "s \<equiv> \<lambda>es. run debounce_live (useDebounce v d) es"
  shows "db_debounced (s es) \<in> insert v (set (concat (map rendered es))) \<and>
    (db_delay (s es) \<le> n \<longrightarrow>
       db_debounced (debounce_step (s es) (DbWait n)) = db_value (s es) \<and>
       db_timer (debounce_step (s es) (DbWait n)) = None) \<and>
    (w \<noteq> db_value (s es) \<and> m < e \<longrightarrow>
       db_debounced (s (es @ [DbRender w e, DbWait m])) = db_debounced (s es))"
proof (intro conjI impI)
  show "db_debounced (s es) \<in> insert v (set (concat (map rendered es)))"
    using debounce_known [of "useDebounce v d" "{v}" es] by (simp add: s_def useDebounce_def)
next
  have ok: "debounce_ok (s es)" unfolding s_def by (rule debounce_machine.reachable_inv) blast
  assume "db_delay (s es) \<le> n"
  then show "db_debounced (debounce_step (s es) (DbWait n)) = db_value (s es)"
    and "db_timer (debounce_step (s es) (DbWait n)) = None"
    using ok by (cases "db_timer (s es)"; simp add: debounce_ok_def)+
next
  assume "w \<noteq> db_value (s es) \<and> m < e"
  then show "db_debounced (s (es @ [DbRender w e, DbWait m])) = db_debounced (s es)"
    by (simp add: s_def debounce_live_def)
qed

theorem debounce_settles_witness:
  "db_debounced (run debounce_live (useDebounce ''a'' 300)
     [DbRender ''ab'' 300, DbWait 200, DbRender ''abc'' 300]) = ''a'' \<and>
   db_debounced (debounce_step (run debounce_live (useDebounce ''a'' 300)
     [DbRender ''ab'' 300, DbWait 200, DbRender ''abc'' 300]) (DbWait 300)) = ''abc''"
  using debounce_settles [of "''a''" 300 "[DbRender ''ab'' 300, DbWait 200, DbRender ''abc'' 300]" 300
    "''z''" 0 1]
  by (simp add: debounce_live_def useDebounce_def)

end
