(* ===== verification/Theme_Tab.thy ===== *)
theory Theme_Tab
  imports Form_Inputs "HOL-Library.AList"
begin

text \<open>
  The Theme tab of the overlay control panel,
  \<open>web/src/features/overlay/controls/ThemeTab.tsx\<close>, and the provider that turns the theme into
  style properties, \<open>ThemeProvider.tsx\<close>. Colour overrides are the members of their object, in
  the order they were added.
\<close>

section \<open>The tab\<close>

definition COLOR_DEBOUNCE_MS :: nat where
  "COLOR_DEBOUNCE_MS = 300"

type_synonym colors = "(string \<times> string) list"

record tconfig =
  tc_theme_id :: "string option"
  tc_colors :: "colors option"       (* color_overrides *)

record theme_tab =
  tt_config :: "tconfig option"
  tt_overrides :: colors
  tt_timer :: countdown
  tt_pendingOverrides :: "colors option"
  tt_pendingTheme :: "string option"

definition config_theme :: "theme_tab \<Rightarrow> string option" where
  "config_theme s = Option.bind (tt_config s) tc_theme_id"

definition config_colors :: "tconfig option \<Rightarrow> colors option" where
  "config_colors c = Option.bind c tc_colors"

text \<open>\<open>config?.theme_id ?? 'classic'\<close>, which is also the theme the gallery marks.\<close>

definition activeThemeId :: "theme_tab \<Rightarrow> string" where
  "activeThemeId s = (case config_theme s of Some t \<Rightarrow> t | None \<Rightarrow> ''classic'')"

text \<open>The effect on the colours of the configuration.\<close>

definition theme_hydrate :: "tconfig option \<Rightarrow> theme_tab \<Rightarrow> theme_tab" where
  "theme_hydrate c s =
     (case config_colors c of None \<Rightarrow> s | Some d \<Rightarrow> s\<lparr> tt_overrides := d \<rparr>)"

definition ThemeTab_init :: "tconfig option \<Rightarrow> theme_tab" where
  "ThemeTab_init c = theme_hydrate c
     \<lparr> tt_config = c, tt_overrides = [], tt_timer = None, tt_pendingOverrides = None,
       tt_pendingTheme = None \<rparr>"

definition commitWithDebounce :: "string \<Rightarrow> colors \<Rightarrow> theme_tab \<Rightarrow> theme_tab" where
  "commitWithDebounce t d s =
     s\<lparr> tt_pendingTheme := Some t, tt_pendingOverrides := Some d, tt_timer := Some COLOR_DEBOUNCE_MS \<rparr>"

definition color_draft :: "string \<Rightarrow> string option \<Rightarrow> colors \<Rightarrow> colors" where
  "color_draft k v d =
     (case v of None \<Rightarrow> AList.delete k d
      | Some x \<Rightarrow> if x = [] then AList.delete k d else AList.update k x d)"

definition theme_setOverride :: "string \<Rightarrow> string option \<Rightarrow> theme_tab \<Rightarrow> theme_tab" where
  "theme_setOverride k v s =
     (let d = color_draft k v (tt_overrides s) in
      commitWithDebounce (activeThemeId s) d (s\<lparr> tt_overrides := d \<rparr>))"

definition selectTheme :: "string \<Rightarrow> theme_tab \<Rightarrow> theme_tab" where
  "selectTheme t s = s\<lparr> tt_pendingTheme := Some t, tt_timer := None \<rparr>"

definition resetOverrides :: "theme_tab \<Rightarrow> theme_tab" where
  "resetOverrides s =
     s\<lparr> tt_overrides := [], tt_pendingOverrides := Some [], tt_pendingTheme := Some (activeThemeId s),
        tt_timer := None \<rparr>"

datatype theme_call = SaveCall | SwitchCall | ResetCall

fun call_failed :: "theme_call \<Rightarrow> string" where
  "call_failed SaveCall = ''Could not save theme''"
| "call_failed SwitchCall = ''Could not switch theme''"
| "call_failed ResetCall = ''Could not reset colors''"

text \<open>
  The events: a render with a configuration, a click on a theme, a colour handed on by an
  input, a click on the reset button (shown while there are overrides), the settlement of a
  call, time, and the unmount.
\<close>

datatype theme_event =
    TtConfig "tconfig option"
  | TtSelect string
  | TtColor string "string option"
  | TtReset
  | TtResetDone
  | TtFailed theme_call string
  | TtWait nat
  | TtLeave

datatype theme_effect =
    TtPut string colors
  | TtToast string string

text \<open>\<open>flush\<close>: an empty theme id sends nothing.\<close>

definition theme_flush :: "theme_tab \<Rightarrow> theme_effect list" where
  "theme_flush s =
     (case (case tt_pendingTheme s of Some t \<Rightarrow> Some t | None \<Rightarrow> config_theme s) of
        None \<Rightarrow> []
      | Some t \<Rightarrow>
          if t = [] then []
          else [TtPut t (case tt_pendingOverrides s of Some d \<Rightarrow> d | None \<Rightarrow> tt_overrides s)])"

fun theme_next :: "theme_tab \<Rightarrow> theme_event \<Rightarrow> theme_tab" where
  "theme_next s (TtConfig c) =
     (if config_colors c = config_colors (tt_config s) then s\<lparr> tt_config := c \<rparr>
      else theme_hydrate c (s\<lparr> tt_config := c \<rparr>))"
| "theme_next s (TtSelect t) = selectTheme t s"
| "theme_next s (TtColor k v) = theme_setOverride k v s"
| "theme_next s TtReset = (if tt_overrides s = [] then s else resetOverrides s)"
| "theme_next s TtResetDone = s"
| "theme_next s (TtFailed c t) = s"
| "theme_next s (TtWait n) = s\<lparr> tt_timer := elapse n (tt_timer s) \<rparr>"
| "theme_next s TtLeave = s\<lparr> tt_timer := None \<rparr>"

fun theme_out :: "theme_tab \<Rightarrow> theme_event \<Rightarrow> theme_effect list" where
  "theme_out s (TtSelect t) = [TtPut t (tt_overrides s)]"
| "theme_out s TtReset = (if tt_overrides s = [] then [] else [TtPut (activeThemeId s) []])"
| "theme_out s TtResetDone = [TtToast ''success'' ''Reset to theme defaults'']"
| "theme_out s (TtFailed c t) = [TtToast ''error'' (if t \<noteq> [] then t else call_failed c)]"
| "theme_out s (TtWait n) = (if due n (tt_timer s) then theme_flush s else [])"
| "theme_out s _ = []"

lemma theme_timer_simps [simp]:
  "tt_timer (theme_hydrate c s) = tt_timer s"
  "tt_timer (theme_setOverride k v s) = Some COLOR_DEBOUNCE_MS"
  "tt_timer (selectTheme t s) = None" "tt_timer (resetOverrides s) = None"
  by (simp_all add: theme_hydrate_def theme_setOverride_def commitWithDebounce_def selectTheme_def
      resetOverrides_def Let_def split: option.split)

lemma theme_flush_timer [simp]: "theme_flush (s\<lparr> tt_timer := x \<rparr>) = theme_flush s"
  by (cases "tt_pendingTheme s"; cases "tt_pendingOverrides s")
    (simp_all add: theme_flush_def config_theme_def split: option.split)

interpretation theme_form: debounced theme_next theme_out tt_timer TtWait TtLeave COLOR_DEBOUNCE_MS
    theme_flush
proof
  fix s e
  show "tt_timer (theme_next s e) = tt_timer s \<or> tt_timer (theme_next s e) = None \<or>
      tt_timer (theme_next s e) = Some COLOR_DEBOUNCE_MS \<or> (\<exists>n. e = TtWait n)"
    by (cases e) auto
qed simp_all

section \<open>The colour inputs\<close>

record color_view =
  cv_picker :: string
  cv_text :: string
  cv_placeholder :: string
  cv_default_note :: bool

definition ColorOverrideInput :: "string option \<Rightarrow> string option \<Rightarrow> color_view" where
  "ColorOverrideInput value fallback =
     (let effective = (case value of Some v \<Rightarrow> v
            | None \<Rightarrow> (case fallback of Some f \<Rightarrow> f | None \<Rightarrow> ''#000000''))
      in \<lparr> cv_picker = (if looksHex effective then effective else ''#000000''),
           cv_text = (case value of Some v \<Rightarrow> v | None \<Rightarrow> []),
           cv_placeholder = (case fallback of Some f \<Rightarrow> f | None \<Rightarrow> em_dash),
           cv_default_note = (value = None \<and> fallback \<noteq> None \<and> fallback \<noteq> Some []) \<rparr>)"

text \<open>What the text input hands on: the trimmed text, \<open>undefined\<close> when nothing is left.\<close>

definition color_typed :: "string \<Rightarrow> string option" where
  "color_typed t = (if trim t = [] then None else Some (trim t))"

section \<open>The provider\<close>

record theme_defaults =
  tp_primary :: string
  tp_secondary :: string
  tp_accent :: string
  tp_background :: string
  tp_text :: string
  tp_font_family :: string
  tp_border_radius :: string
  tp_animation_style :: string

record otheme =
  th_id :: string
  th_name :: string
  th_description :: string
  th_defaults :: theme_defaults

definition FALLBACK_THEME :: otheme where
  "FALLBACK_THEME =
     \<lparr> th_id = ''classic'', th_name = ''Classic'',
       th_description = ''Traditional broadcast look with clean lines and solid backgrounds'',
       th_defaults = \<lparr> tp_primary = ''#1e3a5f'', tp_secondary = ''#ffffff'', tp_accent = ''#e63946'',
         tp_background = ''#0a0a0a'', tp_text = ''#ffffff'',
         tp_font_family = [CHR 0x27] @ ''Inter'' @ [CHR 0x27] @ '', sans-serif'',
         tp_border_radius = ''4px'', tp_animation_style = ''slide'' \<rparr> \<rparr>"

definition override_or :: "colors option \<Rightarrow> string \<Rightarrow> string \<Rightarrow> string" where
  "override_or ov k d =
     (case ov of None \<Rightarrow> d | Some m \<Rightarrow> (case map_of m k of None \<Rightarrow> d | Some v \<Rightarrow> v))"

definition resolve_theme :: "otheme \<Rightarrow> colors option \<Rightarrow> theme_defaults" where
  "resolve_theme theme ov =
     (let d = th_defaults theme in
      \<lparr> tp_primary = override_or ov ''primary'' (tp_primary d),
        tp_secondary = override_or ov ''secondary'' (tp_secondary d),
        tp_accent = override_or ov ''accent'' (tp_accent d),
        tp_background = override_or ov ''background'' (tp_background d),
        tp_text = override_or ov ''text'' (tp_text d),
        tp_font_family = override_or ov ''font_family'' (tp_font_family d),
        tp_border_radius = override_or ov ''border_radius'' (tp_border_radius d),
        tp_animation_style = override_or ov ''animation_style'' (tp_animation_style d) \<rparr>)"

definition provider_style :: "theme_defaults \<Rightarrow> bool \<Rightarrow> (string \<times> string) list" where
  "provider_style r fullscreen =
     [(''--overlay-primary'', tp_primary r), (''--overlay-secondary'', tp_secondary r),
      (''--overlay-accent'', tp_accent r), (''--overlay-bg'', tp_background r),
      (''--overlay-text'', tp_text r), (''--overlay-font-family'', tp_font_family r),
      (''--overlay-radius'', tp_border_radius r),
      (''--overlay-animation-style'', tp_animation_style r),
      (''fontFamily'', tp_font_family r), (''color'', tp_text r),
      (''backgroundColor'', ''transparent'')] @
     (if fullscreen
      then [(''position'', ''fixed''), (''inset'', ''0''), (''width'', ''100vw''),
            (''height'', ''100vh''), (''overflow'', ''hidden'')]
      else [(''position'', ''relative''), (''width'', ''100%''), (''height'', ''100%'')])"

text \<open>
  The provider: the theme it asks for, and, given the answer, the value its children read and
  the style of its wrapper with the data attributes.
\<close>

definition provider_theme_id :: "string option \<Rightarrow> string" where
  "provider_theme_id themeId = (case themeId of Some t \<Rightarrow> if t = [] then ''classic'' else t
     | None \<Rightarrow> ''classic'')"

record provided =
  pv_theme :: otheme
  pv_resolved :: theme_defaults
  pv_style :: "(string \<times> string) list"
  pv_data_theme :: string
  pv_data_animation :: string

definition OverlayThemeProvider :: "otheme option \<Rightarrow> colors option \<Rightarrow> bool \<Rightarrow> provided" where
  "OverlayThemeProvider answer ov fullscreen =
     (let theme = (case answer of Some t \<Rightarrow> t | None \<Rightarrow> FALLBACK_THEME);
          r = resolve_theme theme ov
      in \<lparr> pv_theme = theme, pv_resolved = r, pv_style = provider_style r fullscreen,
           pv_data_theme = th_id theme, pv_data_animation = tp_animation_style r \<rparr>)"

text \<open>Outside a provider the hook throws.\<close>

definition useOverlayTheme :: "provided option \<Rightarrow> string + provided" where
  "useOverlayTheme ctx =
     (case ctx of
        None \<Rightarrow> Inl ''useOverlayTheme must be used within an <OverlayThemeProvider>''
      | Some p \<Rightarrow> Inr p)"

section \<open>Lemmas\<close>

lemma color_draft_map:
  "map_of (color_draft k v d) k' =
     (if k' = k then (case v of None \<Rightarrow> None | Some x \<Rightarrow> if x = [] then None else Some x)
      else map_of d k')"
  by (simp add: color_draft_def delete_conv' update_conv' split: option.split)

text \<open>What a timer under way will send: the colours on screen, unless a configuration arrived.\<close>

definition theme_ok :: "theme_tab \<Rightarrow> bool" where
  "theme_ok s \<longleftrightarrow> (tt_timer s \<noteq> None \<longrightarrow>
     tt_pendingOverrides s = Some (tt_overrides s) \<and> tt_pendingTheme s = Some (activeThemeId s))"

fun no_config :: "theme_event \<Rightarrow> bool" where
  "no_config (TtConfig c) = False"
| "no_config _ = True"

definition theme_local :: "theme_tab \<Rightarrow> theme_event \<Rightarrow> theme_tab" where
  "theme_local s e = (if no_config e then theme_next s e else s)"

lemma theme_setOverride_simps [simp]:
  "tt_overrides (theme_setOverride k v s) = color_draft k v (tt_overrides s)"
  "tt_pendingOverrides (theme_setOverride k v s) = Some (color_draft k v (tt_overrides s))"
  "tt_pendingTheme (theme_setOverride k v s) = Some (activeThemeId s)"
  "tt_config (theme_setOverride k v s) = tt_config s"
  by (simp_all add: theme_setOverride_def commitWithDebounce_def Let_def)

lemma theme_other_simps [simp]:
  "tt_config (selectTheme t s) = tt_config s" "tt_config (resetOverrides s) = tt_config s"
  "tt_overrides (selectTheme t s) = tt_overrides s" "tt_overrides (resetOverrides s) = []"
  "tt_pendingTheme (selectTheme t s) = Some t"
  "tt_config (theme_hydrate c s) = tt_config s"
  by (simp_all add: selectTheme_def resetOverrides_def theme_hydrate_def split: option.split)

lemma activeThemeId_cong: "tt_config s = tt_config s' \<Longrightarrow> activeThemeId s = activeThemeId s'"
  by (simp add: activeThemeId_def config_theme_def)

lemma theme_local_config: "tt_config (theme_local s e) = tt_config s"
  by (cases e) (simp_all add: theme_local_def)

lemma theme_ok_step: "theme_ok s \<Longrightarrow> theme_ok (theme_local s e)"
  using activeThemeId_cong [OF theme_local_config [of s e]]
  by (cases e; cases "tt_timer s") (auto simp: theme_ok_def theme_local_def)

interpretation theme_machine: event_machine theme_local "\<lambda>s. \<exists>c. s = ThemeTab_init c" theme_ok
proof
  fix s assume "\<exists>c. s = ThemeTab_init c"
  then show "theme_ok s" by (auto simp: ThemeTab_init_def theme_ok_def)
qed (rule theme_ok_step)

lemma theme_local_active:
  "activeThemeId (run theme_local s es) = activeThemeId s"
  by (rule activeThemeId_cong) (rule theme_machine.run_frame, rule theme_local_config)

section \<open>Properties\<close>

text \<open>
  As long as no new configuration arrives, every PUT of the tab carries the colours on the
  screen, and its theme is the one clicked or the one of the configuration. A configuration
  that arrives while a colour is waiting replaces the colours shown but not those sent.
\<close>

theorem theme_puts_screen:
  assumes "list_all no_config es" and "no_config e"
    and "TtPut t d \<in> set (theme_out (run theme_next (ThemeTab_init c) es) e)"
  shows "(e \<noteq> TtReset \<longrightarrow> d = tt_overrides (run theme_next (ThemeTab_init c) es)) \<and>
    d = tt_overrides (run theme_next (ThemeTab_init c) (es @ [e])) \<and>
    (t = activeThemeId (ThemeTab_init c) \<or> e = TtSelect t)"
proof -
  let ?s = "run theme_next (ThemeTab_init c) es"
  have eq: "run theme_local s es = run theme_next s es" for s
    using assms(1) by (induction es arbitrary: s) (simp_all add: theme_local_def)
  have ok: "theme_ok ?s" using theme_machine.reachable_inv [of "ThemeTab_init c" es] eq by auto
  have act: "activeThemeId ?s = activeThemeId (ThemeTab_init c)"
    using theme_local_active [of "ThemeTab_init c" es] by (simp add: eq)
  show ?thesis
  proof (cases e)
    case (TtWait n)
    then have "due n (tt_timer ?s)" "TtPut t d \<in> set (theme_flush ?s)"
      using assms(3) by (auto split: if_splits)
    moreover from this(1) have "tt_timer ?s \<noteq> None" by (cases "tt_timer ?s") simp_all
    ultimately show ?thesis using ok act TtWait
      by (auto simp: theme_ok_def theme_flush_def split: if_splits)
  qed (use assms act in \<open>auto split: if_splits\<close>)
qed

text \<open>The witness picks a colour, waits, and looks at the PUT.\<close>

theorem theme_puts_screen_witness:
  "[(''primary'', ''#ff0000'')] = tt_overrides (run theme_next (ThemeTab_init None)
     ([TtColor ''primary'' (Some ''#ff0000'')] @ [TtWait 300]))"
  using theme_puts_screen [of "[TtColor ''primary'' (Some ''#ff0000'')]" "TtWait 300" "''classic''"
      "[(''primary'', ''#ff0000'')]" None]
  by (simp add: ThemeTab_init_def theme_hydrate_def config_colors_def COLOR_DEBOUNCE_MS_def
      theme_flush_def activeThemeId_def config_theme_def color_draft_def)

text \<open>
  A colour picked after a click on a theme, before the configuration shows that theme, undoes
  the click: the PUT that follows names the old theme. Only a configuration that arrives in
  between prevents it.
\<close>

theorem theme_switch_undone:
  assumes "tc_theme_id c = Some t" and "t \<noteq> []" and "COLOR_DEBOUNCE_MS \<le> n"
  shows "theme_form.outs (ThemeTab_init (Some c)) [TtSelect t', TtColor k v, TtWait n] =
      [TtPut t' (tt_overrides (ThemeTab_init (Some c))),
       TtPut t (color_draft k v (tt_overrides (ThemeTab_init (Some c))))] \<and>
    (t' \<noteq> [] \<longrightarrow> theme_form.outs (ThemeTab_init (Some c))
        [TtSelect t', TtConfig (Some (c\<lparr> tc_theme_id := Some t' \<rparr>)), TtColor k v, TtWait n] =
      [TtPut t' (tt_overrides (ThemeTab_init (Some c))),
       TtPut t' (color_draft k v (tt_overrides (ThemeTab_init (Some c))))])"
proof -
  let ?s = "ThemeTab_init (Some c)"
  have cfg: "tt_config ?s = Some c" by (simp add: ThemeTab_init_def)
  have act: "activeThemeId (selectTheme t' ?s) = t"
    by (simp add: activeThemeId_def config_theme_def cfg assms(1))
  have cc: "config_colors (Some (c\<lparr> tc_theme_id := Some t' \<rparr>)) = config_colors (Some c)"
    by (simp add: config_colors_def)
  show ?thesis
    using assms(2,3) act
    by (simp add: theme_flush_def cfg cc) (simp add: activeThemeId_def config_theme_def)
qed

theorem theme_switch_undone_witness:
  "theme_form.outs (ThemeTab_init (Some \<lparr> tc_theme_id = Some ''classic'', tc_colors = None \<rparr>))
     [TtSelect ''neon'', TtColor ''accent'' (Some ''#00ff00''), TtWait 300] =
   [TtPut ''neon'' [], TtPut ''classic'' [(''accent'', ''#00ff00'')]]"
proof -
  have "tt_overrides (ThemeTab_init (Some \<lparr> tc_theme_id = Some ''classic'', tc_colors = None \<rparr>)) = []"
    by (simp add: ThemeTab_init_def theme_hydrate_def config_colors_def)
  then show ?thesis
    using theme_switch_undone [of "\<lparr> tc_theme_id = Some ''classic'', tc_colors = None \<rparr>" "''classic''" 300
        "''neon''" "''accent''" "Some ''#00ff00''"]
    by (simp only: COLOR_DEBOUNCE_MS_def) (simp add: color_draft_def)
qed

text \<open>A configuration whose colours were reset elsewhere leaves the old colours on the screen.\<close>

lemma theme_reset_not_shown:
  "tt_overrides (theme_next s (TtConfig (Some (c\<lparr> tc_colors := None \<rparr>)))) = tt_overrides s"
  by (simp add: theme_hydrate_def config_colors_def)

text \<open>
  Every colour the overlay shows is the override of its key if there is one and the theme's
  own otherwise, with the fallback theme until the theme has loaded; the wrapper itself never
  paints a background, and a style property occurs once.
\<close>

theorem theme_resolution:
  "resolve_theme theme None = th_defaults theme \<and> resolve_theme theme (Some []) = th_defaults theme \<and>
   tp_primary (resolve_theme theme (Some (color_draft ''primary'' (Some (x # xs)) d))) = x # xs \<and>
   tp_primary (resolve_theme theme (Some (color_draft ''primary'' None d))) = tp_primary (th_defaults theme) \<and>
   tp_accent (resolve_theme theme (Some (color_draft ''primary'' v d))) =
     tp_accent (resolve_theme theme (Some d)) \<and>
   pv_theme (OverlayThemeProvider None ov fs) = FALLBACK_THEME \<and>
   map_of (pv_style (OverlayThemeProvider answer ov fs)) ''backgroundColor'' = Some ''transparent'' \<and>
   distinct (map fst (pv_style (OverlayThemeProvider answer ov fs)))"
  by (simp add: resolve_theme_def override_or_def color_draft_map OverlayThemeProvider_def
      provider_style_def Let_def)

end
