(* ===== verification/Stored_Choice.thy ===== *)
theory Stored_Choice
  imports Form_Inputs
begin

text \<open>
  Choices of the operator that live in the session storage of the page under a key of their
  own. Two patterns occur: a choice written by an effect on the key and the value, read once
  when the component mounts; and one written by the handler that changes it. The storage maps
  keys to texts.
\<close>

type_synonym storage = "string \<rightharpoonup> string"

record ('k, 'v) choice =
  ch_key :: 'k
  ch_value :: 'v
  ch_store :: storage

section \<open>Written by an effect\<close>

text \<open>
  \<open>key\<close> names the item, \<open>enc\<close> and \<open>dec\<close> turn a value into its text and back. Mounting reads
  the item and then writes it; a new value or a new key writes it again. The value is not
  read again when the key changes.
\<close>

definition effect_write ::
    "('k \<Rightarrow> string) \<Rightarrow> ('v \<Rightarrow> string) \<Rightarrow> ('k, 'v) choice \<Rightarrow> ('k, 'v) choice" where
  "effect_write key enc s = s\<lparr> ch_store := (ch_store s)(key (ch_key s) \<mapsto> enc (ch_value s)) \<rparr>"

definition effect_mount ::
    "('k \<Rightarrow> string) \<Rightarrow> ('v \<Rightarrow> string) \<Rightarrow> (string option \<Rightarrow> 'v) \<Rightarrow> 'k \<Rightarrow> storage \<Rightarrow> ('k, 'v) choice" where
  "effect_mount key enc dec k st =
     effect_write key enc \<lparr> ch_key = k, ch_value = dec (st (key k)), ch_store = st \<rparr>"

datatype ('k, 'v) choice_event =
    ChSet 'v
  | ChKey 'k

fun effect_step ::
    "('k \<Rightarrow> string) \<Rightarrow> ('v \<Rightarrow> string) \<Rightarrow> ('k, 'v) choice \<Rightarrow> ('k, 'v) choice_event \<Rightarrow> ('k, 'v) choice" where
  "effect_step key enc s (ChSet v) = effect_write key enc (s\<lparr> ch_value := v \<rparr>)"
| "effect_step key enc s (ChKey k) =
     (if k = ch_key s then s else effect_write key enc (s\<lparr> ch_key := k \<rparr>))"

section \<open>Written by the handler\<close>

text \<open>A change of the key lets \<open>reload\<close> see the item stored there.\<close>

definition handler_mount ::
    "('k \<Rightarrow> string) \<Rightarrow> (string option \<Rightarrow> 'v) \<Rightarrow> 'k \<Rightarrow> storage \<Rightarrow> ('k, 'v) choice" where
  "handler_mount key dec k st = \<lparr> ch_key = k, ch_value = dec (st (key k)), ch_store = st \<rparr>"

fun handler_step ::
    "('k \<Rightarrow> string) \<Rightarrow> ('v \<Rightarrow> string) \<Rightarrow> (string option \<Rightarrow> 'v \<Rightarrow> 'v) \<Rightarrow>
     ('k, 'v) choice \<Rightarrow> ('k, 'v) choice_event \<Rightarrow> ('k, 'v) choice" where
  "handler_step key enc reload s (ChSet v) =
     s\<lparr> ch_value := v, ch_store := (ch_store s)(key (ch_key s) \<mapsto> enc v) \<rparr>"
| "handler_step key enc reload s (ChKey k) =
     (if k = ch_key s then s
      else s\<lparr> ch_key := k, ch_value := reload (ch_store s (key k)) (ch_value s) \<rparr>)"

section \<open>What the component relies on\<close>

fun same_key :: "('k, 'v) choice_event \<Rightarrow> bool" where
  "same_key (ChSet v) = True"
| "same_key (ChKey k) = False"

text \<open>
  Reading an item back gives the value it was written for, and items of different keys are
  different.
\<close>

locale stored_choice =
  fixes key :: "'k \<Rightarrow> string"
    and enc :: "'v \<Rightarrow> string"
    and dec :: "string option \<Rightarrow> 'v"
  assumes dec_enc: "dec (Some (enc v)) = v"
    and key_inj: "key k = key k' \<Longrightarrow> k = k'"
begin

lemma effect_stored:
  "ch_store (run (effect_step key enc) (effect_mount key enc dec k st) es)
     (key (ch_key (run (effect_step key enc) (effect_mount key enc dec k st) es))) =
   Some (enc (ch_value (run (effect_step key enc) (effect_mount key enc dec k st) es)))"
proof -
  have "ch_store s (key (ch_key s)) = Some (enc (ch_value s)) \<Longrightarrow>
      ch_store (effect_step key enc s e) (key (ch_key (effect_step key enc s e))) =
      Some (enc (ch_value (effect_step key enc s e)))" for s :: "('k, 'v) choice" and e
    by (cases e) (simp_all add: effect_write_def)
  then have "ch_store s (key (ch_key s)) = Some (enc (ch_value s)) \<Longrightarrow>
      ch_store (run (effect_step key enc) s es) (key (ch_key (run (effect_step key enc) s es))) =
      Some (enc (ch_value (run (effect_step key enc) s es)))" for s :: "('k, 'v) choice"
    by (induction es arbitrary: s) simp_all
  then show ?thesis by (simp add: effect_mount_def effect_write_def)
qed

text \<open>Mounting again under the same key finds the choice as it was left.\<close>

lemma effect_remount:
  assumes "s = run (effect_step key enc) (effect_mount key enc dec k st) es"
  shows "ch_value (effect_mount key enc dec (ch_key s) (ch_store s)) = ch_value s"
  using effect_stored [of k st es] assms by (simp add: effect_mount_def effect_write_def dec_enc)

text \<open>As long as the key stays, the items of other keys are not touched.\<close>

lemma effect_other:
  assumes "list_all same_key es" "k' \<noteq> k"
  shows "ch_store (run (effect_step key enc) (effect_mount key enc dec k st) es) (key k') = st (key k')"
proof -
  have "list_all same_key es \<Longrightarrow> ch_key s = k \<Longrightarrow>
      ch_store (run (effect_step key enc) s es) (key k') = ch_store s (key k')"
    for s :: "('k, 'v) choice"
  proof (induction es arbitrary: s)
    case (Cons e es)
    then show ?case using assms(2) key_inj by (cases e) (auto simp: effect_write_def)
  qed simp
  then show ?thesis using assms key_inj by (auto simp: effect_mount_def effect_write_def)
qed

text \<open>A change of the key takes the choice along and overwrites the one stored there.\<close>

lemma effect_leaks:
  "k' \<noteq> ch_key s \<Longrightarrow>
     ch_value (effect_step key enc s (ChKey k')) = ch_value s \<and>
     ch_store (effect_step key enc s (ChKey k')) (key k') = Some (enc (ch_value s))"
  by (simp add: effect_write_def)

lemma handler_remount:
  "ch_value (handler_mount key dec (ch_key s) (ch_store (handler_step key enc reload s (ChSet v)))) = v"
  by (simp add: handler_mount_def dec_enc)

lemma handler_other:
  "k' \<noteq> ch_key s \<Longrightarrow>
     ch_store (handler_step key enc reload s (ChSet v)) (key k') = ch_store s (key k')"
  using key_inj [of k' "ch_key s"] by auto

end

section \<open>Flags\<close>

text \<open>The text of a flag, and the three ways a stored flag is read.\<close>

definition flag_enc :: "bool \<Rightarrow> string" where
  "flag_enc b = (if b then ''1'' else ''0'')"

definition flag_dec :: "string option \<Rightarrow> bool" where
  "flag_dec t = (t = Some ''1'')"

definition flag_dec_or :: "bool \<Rightarrow> string option \<Rightarrow> bool" where
  "flag_dec_or dflt t = (if t = Some ''1'' then True else if t = Some ''0'' then False else dflt)"

definition flag_raise :: "string option \<Rightarrow> bool \<Rightarrow> bool" where
  "flag_raise t b = (t = Some ''1'' \<or> b)"

lemma flag_dec_enc [simp]:
  "flag_dec (Some (flag_enc b)) = b" "flag_dec_or d (Some (flag_enc b)) = b"
  by (simp_all add: flag_dec_def flag_dec_or_def flag_enc_def)

end
