(* ===== verification/Elements_Tab.thy ===== *)
theory Elements_Tab
  imports Overlay_Elements Form_Inputs
begin

text \<open>
  The Elements tab of the overlay control panel,
  \<open>web/src/features/overlay/controls/ElementsTab.tsx\<close>: the draft of the configuration with
  its delayed PUT, the visibility grid, and the controls of each element as functions from
  what the operator does to the patch they hand to the tab. A control that calls nothing
  answers \<open>None\<close>. An element's configuration maps member names to values; a member that was
  set to \<open>undefined\<close> is \<open>KUndef\<close>.
\<close>

datatype knob =
    KUndef
  | KBool bool
  | KStr string
  | KNum number
  | KOther js

type_synonym element_obj = "string \<rightharpoonup> knob"
type_synonym elements = "string \<Rightarrow> element_obj"

text \<open>\<open>config.k ?? dflt\<close>; \<open>null\<close> is left out, the server omits the members it has not.\<close>

definition knob_or :: "element_obj \<Rightarrow> string \<Rightarrow> knob \<Rightarrow> knob" where
  "knob_or cfg k dflt = (case cfg k of None \<Rightarrow> dflt | Some KUndef \<Rightarrow> dflt | Some v \<Rightarrow> v)"

text \<open>What \<open>JSON.stringify\<close> keeps of an element's configuration.\<close>

definition element_wire :: "element_obj \<Rightarrow> element_obj" where
  "element_wire cfg = (\<lambda>k. if cfg k = Some KUndef then None else cfg k)"

section \<open>Tables\<close>

definition ELEMENT_GROUPS :: "(string \<times> string list) list" where
  "ELEMENT_GROUPS =
     [(''Core'', [''scoreboard'', ''series_score'']),
      (''Branding'', [''sponsor_bug'', ''tournament_bug'', ''lower_third'']),
      (''Cards & callouts'', [''player_card'', ''team_card'', ''match_result'', ''custom_text'']),
      (''Tournament context'', [''coming_up_next'', ''bracket_snapshot'', ''pool_standings''])]"

definition ELEMENT_LABELS :: "(string \<times> string) list" where
  "ELEMENT_LABELS =
     [(''scoreboard'', ''Scoreboard''), (''lower_third'', ''Lower third''),
      (''player_card'', ''Player card''), (''team_card'', ''Team card''),
      (''sponsor_bug'', ''Sponsor bug''), (''tournament_bug'', ''Tournament bug''),
      (''coming_up_next'', ''Coming up next''), (''match_result'', ''Match result''),
      (''custom_text'', ''Custom text''), (''bracket_snapshot'', ''Bracket snapshot''),
      (''pool_standings'', ''Pool standings''), (''series_score'', ''Series score'')]"

definition ALL_KEYS_FLAT :: "string list" where
  "ALL_KEYS_FLAT = concat (map snd ELEMENT_GROUPS)"

definition dismiss_options :: "(string \<times> string) list" where
  "dismiss_options =
     [(''0'', ''Manual (stay until dismissed)''), (''5'', ''Auto dismiss after 5s''),
      (''10'', ''Auto dismiss after 10s''), (''30'', ''Auto dismiss after 30s''),
      (''60'', ''Auto dismiss after 60s'')]"

definition SCOREBOARD_LAYOUT_OPTIONS :: "(string \<times> string \<times> string) list" where
  "SCOREBOARD_LAYOUT_OPTIONS =
     [(''classic'', ''Classic'',
       ''Bottom-left stacked card with team rows, game history, and timeouts.''),
      (''banner'', ''Banner'',
       ''Wide bottom-center broadcast banner with top + bottom context strips and a dark score inset.'')]"

definition CUSTOM_TEXT_FONT_OPTIONS :: "(string \<times> string) list" where
  "CUSTOM_TEXT_FONT_OPTIONS =
     [(''system'', ''Theme default''), (''system-ui'', ''System UI (native)''),
      (''Arial, sans-serif'', ''Arial''), (''Helvetica, Arial, sans-serif'', ''Helvetica''),
      (''\"Arial Black\", Gadget, sans-serif'', ''Arial Black''),
      (''Verdana, Geneva, sans-serif'', ''Verdana''), (''Tahoma, Geneva, sans-serif'', ''Tahoma''),
      (''\"Trebuchet MS\", \"Lucida Grande\", sans-serif'', ''Trebuchet MS''),
      (''Impact, Charcoal, sans-serif'', ''Impact''),
      (''\"Times New Roman\", Times, serif'', ''Times New Roman''),
      (''Georgia, serif'', ''Georgia''), (''Garamond, \"Apple Garamond\", serif'', ''Garamond''),
      (''\"Palatino Linotype\", \"Book Antiqua\", Palatino, serif'', ''Palatino''),
      (''\"Courier New\", Courier, monospace'', ''Courier New''),
      (''\"Lucida Console\", Monaco, monospace'', ''Lucida Console''),
      (''\"Comic Sans MS\", \"Chalkboard SE\", cursive'', ''Comic Sans''),
      (''\"Brush Script MT\", \"Brush Script Std\", cursive'', ''Brush Script'')]"

text \<open>The steps of the sliders; the ranges are those of the clamps.\<close>

definition SCALE_STEP :: rat where "SCALE_STEP = 1 / 10"
definition OFFSET_STEP :: rat where "OFFSET_STEP = 4"
definition ELEMENT_SCALE_STEP :: rat where "ELEMENT_SCALE_STEP = 1 / 10"

section \<open>The tab\<close>

definition COMMIT_DEBOUNCE_MS :: nat where
  "COMMIT_DEBOUNCE_MS = 400"

record elements_tab =
  et_config :: "elements option"
  et_draft :: "elements option"
  et_pending :: "elements option"
  et_timer :: countdown

definition elements_config :: "elements option \<Rightarrow> elements_tab \<Rightarrow> elements_tab" where
  "elements_config c s =
     s\<lparr> et_config := c, et_draft := (case c of Some d \<Rightarrow> Some d | None \<Rightarrow> et_draft s) \<rparr>"

definition ElementsTab_init :: "elements option \<Rightarrow> elements_tab" where
  "ElementsTab_init c = elements_config c
     \<lparr> et_config = None, et_draft = None, et_pending = None, et_timer = None \<rparr>"

text \<open>\<open>commit\<close> and \<open>patch\<close>.\<close>

definition elements_commit :: "elements \<Rightarrow> elements_tab \<Rightarrow> elements_tab" where
  "elements_commit d s = s\<lparr> et_pending := Some d, et_timer := Some COMMIT_DEBOUNCE_MS \<rparr>"

definition patched :: "string \<Rightarrow> element_obj \<Rightarrow> elements \<Rightarrow> elements" where
  "patched key p d = d(key := d key ++ p)"

definition elements_patch :: "string \<Rightarrow> element_obj \<Rightarrow> elements_tab \<Rightarrow> elements_tab" where
  "elements_patch key p s =
     (case et_draft s of
        None \<Rightarrow> s
      | Some d \<Rightarrow> elements_commit (patched key p d) (s\<lparr> et_draft := Some (patched key p d) \<rparr>))"

text \<open>
  The events of the mounted tab: a render with a configuration, a patch of one control, the
  failure of a PUT, milliseconds that pass, and the unmount.
\<close>

datatype elements_event =
    ElConfig "elements option"
  | ElPatch string element_obj
  | ElFailed string
  | ElWait nat
  | ElLeave

datatype elements_effect =
    ElPut elements
  | ElToast string

definition elements_send :: "elements_tab \<Rightarrow> elements_effect list" where
  "elements_send s = (case et_pending s of None \<Rightarrow> [] | Some d \<Rightarrow> [ElPut d])"

fun elements_next :: "elements_tab \<Rightarrow> elements_event \<Rightarrow> elements_tab" where
  "elements_next s (ElConfig c) = (if c = et_config s then s else elements_config c s)"
| "elements_next s (ElPatch k p) = elements_patch k p s"
| "elements_next s (ElFailed t) = s"
| "elements_next s (ElWait n) = s\<lparr> et_timer := elapse n (et_timer s) \<rparr>"
| "elements_next s ElLeave = s\<lparr> et_timer := None \<rparr>"

fun elements_out :: "elements_tab \<Rightarrow> elements_event \<Rightarrow> elements_effect list" where
  "elements_out s (ElFailed t) = [ElToast (str_or t ''Could not save element settings'')]"
| "elements_out s (ElWait n) = (if due n (et_timer s) then elements_send s else [])"
| "elements_out s _ = []"

interpretation elements_form: debounced elements_next elements_out et_timer ElWait ElLeave
    COMMIT_DEBOUNCE_MS elements_send
proof
  fix s e
  show "et_timer (elements_next s e) = et_timer s \<or> et_timer (elements_next s e) = None \<or>
      et_timer (elements_next s e) = Some COMMIT_DEBOUNCE_MS \<or> (\<exists>n. e = ElWait n)"
    by (cases e)
      (auto simp: elements_config_def elements_patch_def elements_commit_def split: option.split)
qed (simp_all add: elements_send_def)

section \<open>The visibility grid\<close>

definition elements_storage_key :: "int \<Rightarrow> string" where
  "elements_storage_key courtID = ''cc:overlay:elements-visibility-collapsed:'' @ show_int courtID"

text \<open>
  The stored choice: \<open>None\<close> when the item is missing; \<open>store = None\<close> when the session storage
  throws. The result of a run of clicks is the choice and what is stored.
\<close>

definition visibility_start :: "(string \<rightharpoonup> string) option \<Rightarrow> int \<Rightarrow> bool" where
  "visibility_start store courtID =
     (case store of None \<Rightarrow> False | Some m \<Rightarrow> m (elements_storage_key courtID) = Some ''1'')"

definition visibility_store ::
    "(string \<rightharpoonup> string) option \<Rightarrow> int \<Rightarrow> bool \<Rightarrow> (string \<rightharpoonup> string) option" where
  "visibility_store store courtID collapsed =
     map_option (\<lambda>m. m(elements_storage_key courtID \<mapsto> if collapsed then ''1'' else ''0'')) store"

definition visible_of :: "element_obj \<Rightarrow> bool" where
  "visible_of cfg = (cfg ''visible'' = Some (KBool True))"

definition VisibilitySection :: "bool \<Rightarrow> elements \<Rightarrow> (string \<times> (string \<times> bool) list) list" where
  "VisibilitySection collapsed d =
     (if collapsed then []
      else map (\<lambda>(label, keys). (label, map (\<lambda>k. (k, visible_of (d k))) keys)) ELEMENT_GROUPS)"

text \<open>\<open>ToggleCell\<close> with its \<open>Toggle\<close>: a click hands on the opposite of what is shown.\<close>

definition ToggleCell :: "element_obj \<Rightarrow> element_obj" where
  "ToggleCell cfg = [''visible'' \<mapsto> KBool (\<not> visible_of cfg)]"

section \<open>Shared controls\<close>

definition settingsHint :: "string \<Rightarrow> string" where
  "settingsHint key =
     (case map_of
        [(''scoreboard'', ''Layout (Classic / Banner)''),
         (''sponsor_bug'', ''Rotation cadence'' @ mid_dot @ ''auto-animate''),
         (''player_card'', ''Selected player'' @ mid_dot @ ''auto-dismiss timer''),
         (''team_card'', ''Selected team'' @ mid_dot @ ''auto-dismiss timer''),
         (''match_result'', ''Show delay'' @ mid_dot @ ''dismiss timer''),
         (''custom_text'', ''Text'' @ mid_dot @ ''font'' @ mid_dot @ ''colors'' @ mid_dot @
            ''position'' @ mid_dot @ ''dismiss'')] key
      of Some h \<Rightarrow> h | None \<Rightarrow> ''Size'')"

definition elementHasKnobs :: "string \<Rightarrow> bool" where
  "elementHasKnobs key = True"

text \<open>A select input fires with the value of one of its options.\<close>

definition select_one :: "string list \<Rightarrow> (string \<Rightarrow> element_obj) \<Rightarrow> string \<Rightarrow> element_obj option" where
  "select_one options patch v = (if v \<in> set options then Some (patch v) else None)"

definition ElementPositionField :: "string \<Rightarrow> element_obj option" where
  "ElementPositionField = select_one ([] # map fst POSITION_OPTIONS)
     (\<lambda>v. [''position'' \<mapsto> if v = [] then KUndef else KStr v])"

definition position_shown :: "element_obj \<Rightarrow> knob" where
  "position_shown cfg = knob_or cfg ''position'' (KStr [])"

text \<open>
  A slider: the member clamped as a percentage, and the value of the browser's range input
  for a place \<open>v\<close> the operator drags it to.
\<close>

definition num_of :: "knob \<Rightarrow> number option" where
  "num_of k = (case k of KNum v \<Rightarrow> Some v | _ \<Rightarrow> None)"

definition percent :: "rat \<Rightarrow> int" where
  "percent q = \<lfloor>q * 100 + 1 / 2\<rfloor>"

definition number_percent :: "number \<Rightarrow> int" where
  "number_percent n = (case n of Fin q \<Rightarrow> percent q | _ \<Rightarrow> 0)"

definition size_shown :: "element_obj \<Rightarrow> int" where
  "size_shown cfg =
     number_percent (clampElementScale (num_of (knob_or cfg ''element_scale'' (KNum (Fin 1)))))"

definition ElementSizeSlider :: "rat \<Rightarrow> element_obj option" where
  "ElementSizeSlider v = Some [''element_scale'' \<mapsto> KNum (Fin (of_int
     (range_value (percent ELEMENT_SCALE_MIN) (percent ELEMENT_SCALE_MAX)
        (percent ELEMENT_SCALE_STEP) v) / 100))]"

section \<open>The scoreboard\<close>

text \<open>\<open>LogoScaleSlider\<close> and \<open>LogoOffsetSlider\<close>: the value handed on, and the readout.\<close>

definition LogoScaleSlider :: "rat \<Rightarrow> number" where
  "LogoScaleSlider v = Fin (of_int
     (range_value (percent SCALE_MIN) (percent SCALE_MAX) (percent SCALE_STEP) v) / 100)"

definition LogoScaleSlider_shown :: "number \<Rightarrow> int" where
  "LogoScaleSlider_shown value = number_percent (clampScale (Some value))"

definition LogoOffsetSlider :: "rat \<Rightarrow> number" where
  "LogoOffsetSlider v = Fin (of_int (range_value \<lfloor>OFFSET_MIN\<rfloor> \<lfloor>OFFSET_MAX\<rfloor> \<lfloor>OFFSET_STEP\<rfloor> v))"

definition LogoOffsetSlider_shown :: "number \<Rightarrow> number \<times> bool" where
  "LogoOffsetSlider_shown value =
     (let clamped = clampOffset (Some value) in (clamped, num_less (Fin 0) clamped))"

datatype logo = TournamentLogo | Team1Logo | Team2Logo

fun logo_prefix :: "logo \<Rightarrow> string" where
  "logo_prefix TournamentLogo = ''tournament_logo''"
| "logo_prefix Team1Logo = ''team_1_logo''"
| "logo_prefix Team2Logo = ''team_2_logo''"

datatype logo_input = LogoScale rat | LogoX rat | LogoY rat

fun LogoKnobGroup :: "logo \<Rightarrow> logo_input \<Rightarrow> element_obj" where
  "LogoKnobGroup l (LogoScale v) = [logo_prefix l @ ''_scale'' \<mapsto> KNum (LogoScaleSlider v)]"
| "LogoKnobGroup l (LogoX v) = [logo_prefix l @ ''_offset_x'' \<mapsto> KNum (LogoOffsetSlider v)]"
| "LogoKnobGroup l (LogoY v) = [logo_prefix l @ ''_offset_y'' \<mapsto> KNum (LogoOffsetSlider v)]"

text \<open>What the operator does on a settings row.\<close>

datatype knob_input =
    Position string
  | Size rat
  | Layout string
  | LogoInput logo logo_input
  | Rotation string
  | AutoAnimate
  | TransparentBackground
  | SelectPlayer string
  | SelectTeam string
  | Dismiss string
  | ShowDelay string
  | Text string
  | FontFamily string
  | FontColorText string
  | FontColorPicker string
  | BackgroundText string
  | BackgroundPicker string

fun ScoreboardKnobs :: "knob_input \<Rightarrow> element_obj option" where
  "ScoreboardKnobs (Layout v) =
     select_one (map fst SCOREBOARD_LAYOUT_OPTIONS) (\<lambda>v. [''layout'' \<mapsto> KStr v]) v"
| "ScoreboardKnobs (Position v) =
     select_one (map fst POSITION_OPTIONS) (\<lambda>v. [''position'' \<mapsto> KStr v]) v"
| "ScoreboardKnobs (LogoInput l i) = Some (LogoKnobGroup l i)"
| "ScoreboardKnobs _ = None"

text \<open>The layout and position the two selects show, and the description of the layout.\<close>

definition ScoreboardKnobs_shown :: "element_obj \<Rightarrow> knob \<times> knob \<times> string" where
  "ScoreboardKnobs_shown cfg =
     (let current = knob_or cfg ''layout'' (KStr ''classic'');
          defaultPosition = (if current = KStr ''banner'' then ''bottom-center'' else ''bottom-left'');
          active = (case find (\<lambda>(v, _). KStr v = current) SCOREBOARD_LAYOUT_OPTIONS of
            Some opt \<Rightarrow> opt | None \<Rightarrow> hd SCOREBOARD_LAYOUT_OPTIONS)
      in (current, knob_or cfg ''position'' (KStr defaultPosition), snd (snd active)))"

section \<open>The sponsor bug\<close>

definition rotation_patch :: "string \<Rightarrow> element_obj option" where
  "rotation_patch t =
     (case parseInt t of
        None \<Rightarrow> None
      | Some v \<Rightarrow> if v \<le> 0 then None else Some [''rotation_seconds'' \<mapsto> KNum (Fin (of_int v))])"

text \<open>\<open>onChange(!checked)\<close> of a toggle whose value is \<open>config.k ?? dflt\<close>.\<close>

definition toggled :: "element_obj \<Rightarrow> string \<Rightarrow> bool \<Rightarrow> element_obj" where
  "toggled cfg k dflt = [k \<mapsto> KBool (knob_or cfg k (KBool dflt) \<noteq> KBool True)]"

fun SponsorBugKnobs :: "element_obj \<Rightarrow> knob_input \<Rightarrow> element_obj option" where
  "SponsorBugKnobs cfg (Rotation t) = rotation_patch t"
| "SponsorBugKnobs cfg AutoAnimate = Some (toggled cfg ''auto_animate'' True)"
| "SponsorBugKnobs cfg TransparentBackground = Some (toggled cfg ''transparent_background'' False)"
| "SponsorBugKnobs cfg _ = None"

section \<open>The cards\<close>

text \<open>\<open>parseInt(value, 10) || 0\<close> of a dismiss option.\<close>

definition dismiss_patch :: "string \<Rightarrow> element_obj option" where
  "dismiss_patch = select_one (map fst dismiss_options)
     (\<lambda>v. [''auto_dismiss_seconds'' \<mapsto> KNum (Fin (of_int (parseInt_or v 0)))])"

text \<open>The team's label: its name, else its short name, else \<open>Team n\<close>.\<close>

definition team_label :: "overlay_data option \<Rightarrow> (overlay_data \<Rightarrow> team_data) \<Rightarrow> string \<Rightarrow> string" where
  "team_label data team dflt =
     (case data of None \<Rightarrow> dflt
      | Some d \<Rightarrow> str_or (td_name (team d)) (str_or (td_short_name (team d)) dflt))"

definition player_slot ::
    "overlay_data option \<Rightarrow> (overlay_data \<Rightarrow> team_data) \<Rightarrow> nat \<Rightarrow> string \<Rightarrow> string \<Rightarrow> string \<times> string \<times> bool"
where
  "player_slot data team idx slotValue teamLabel =
     (let name = (case data of None \<Rightarrow> []
            | Some d \<Rightarrow> (case nth_opt (td_players (team d)) idx of None \<Rightarrow> [] | Some n \<Rightarrow> trim n))
      in (slotValue,
          teamLabel @ '' '' @ em_dash @ '' '' @
            (if name \<noteq> [] then name else ''Player '' @ show_nat (idx + 1)),
          name = []))"

definition player_options :: "overlay_data option \<Rightarrow> (string \<times> string \<times> bool) list" where
  "player_options data =
     (let t1 = team_label data od_team_1 ''Team 1''; t2 = team_label data od_team_2 ''Team 2'' in
      [player_slot data od_team_1 0 ''team_1_player_1'' t1,
       player_slot data od_team_1 1 ''team_1_player_2'' t1,
       player_slot data od_team_2 0 ''team_2_player_1'' t2,
       player_slot data od_team_2 1 ''team_2_player_2'' t2])"

text \<open>The select is disabled when every slot is; a disabled option cannot be chosen.\<close>

definition all_disabled :: "(string \<times> string \<times> bool) list \<Rightarrow> bool" where
  "all_disabled options = list_all (\<lambda>(v, l, dis). dis) options"

definition player_choices :: "overlay_data option \<Rightarrow> string list" where
  "player_choices data =
     (let options = player_options data in
      if all_disabled options then []
      else [] # map fst (filter (\<lambda>(v, l, dis). \<not> dis) options))"

fun PlayerCardKnobs :: "overlay_data option \<Rightarrow> knob_input \<Rightarrow> element_obj option" where
  "PlayerCardKnobs data (SelectPlayer v) = select_one (player_choices data)
     (\<lambda>v. [''selected_player'' \<mapsto> if v = [] then KUndef else KStr v]) v"
| "PlayerCardKnobs data (Dismiss v) = dismiss_patch v"
| "PlayerCardKnobs data _ = None"

definition team_options :: "overlay_data option \<Rightarrow> (string \<times> string) list" where
  "team_options data =
     [(''both'', ''Both teams side-by-side''),
      (''team_1'', ''Team 1 '' @ em_dash @ '' '' @ team_label data od_team_1 ''Team 1''),
      (''team_2'', ''Team 2 '' @ em_dash @ '' '' @ team_label data od_team_2 ''Team 2'')]"

fun TeamCardKnobs :: "overlay_data option \<Rightarrow> knob_input \<Rightarrow> element_obj option" where
  "TeamCardKnobs data (SelectTeam v) =
     select_one (map fst (team_options data)) (\<lambda>v. [''selected_team'' \<mapsto> KStr v]) v"
| "TeamCardKnobs data (Dismiss v) = dismiss_patch v"
| "TeamCardKnobs data _ = None"

fun MatchResultKnobs :: "knob_input \<Rightarrow> element_obj option" where
  "MatchResultKnobs (ShowDelay t) =
     Some [''auto_show_delay_seconds'' \<mapsto> KNum (Fin (of_int (max 0 (parseInt_or t 0))))]"
| "MatchResultKnobs (Dismiss t) =
     Some [''auto_dismiss_seconds'' \<mapsto> KNum (Fin (of_int (max 1 (parseInt_or t 30))))]"
| "MatchResultKnobs _ = None"

section \<open>The custom text\<close>

definition picker_shown :: "string \<Rightarrow> string" where
  "picker_shown value = (if looksHex value then value else ''#000000'')"

text \<open>The text field hands on the trimmed text, the swatch one of its values.\<close>

definition ColorPickerField_text :: "bool \<Rightarrow> string \<Rightarrow> string option" where
  "ColorPickerField_text dis t = (if dis then None else Some (trim t))"

definition ColorPickerField_picker :: "bool \<Rightarrow> string \<Rightarrow> string option" where
  "ColorPickerField_picker dis v = (if \<not> dis \<and> looksHex v then Some v else None)"

text \<open>\<open>v || undefined\<close>.\<close>

definition color_patch :: "string \<Rightarrow> string \<Rightarrow> element_obj" where
  "color_patch k v = [k \<mapsto> if v = [] then KUndef else KStr v]"

definition bg_disabled :: "element_obj \<Rightarrow> bool" where
  "bg_disabled cfg = (knob_or cfg ''transparent_background'' (KBool False) = KBool True)"

fun CustomTextKnobs :: "element_obj \<Rightarrow> knob_input \<Rightarrow> element_obj option" where
  "CustomTextKnobs cfg (Text t) = Some [''text'' \<mapsto> KStr t]"
| "CustomTextKnobs cfg (FontFamily v) =
     select_one (map fst CUSTOM_TEXT_FONT_OPTIONS) (\<lambda>v. [''font_family'' \<mapsto> KStr v]) v"
| "CustomTextKnobs cfg (Dismiss v) = dismiss_patch v"
| "CustomTextKnobs cfg (FontColorText t) =
     map_option (color_patch ''font_color'') (ColorPickerField_text False t)"
| "CustomTextKnobs cfg (FontColorPicker v) =
     map_option (color_patch ''font_color'') (ColorPickerField_picker False v)"
| "CustomTextKnobs cfg (BackgroundText t) =
     map_option (color_patch ''background_color'') (ColorPickerField_text (bg_disabled cfg) t)"
| "CustomTextKnobs cfg (BackgroundPicker v) =
     map_option (color_patch ''background_color'') (ColorPickerField_picker (bg_disabled cfg) v)"
| "CustomTextKnobs cfg TransparentBackground = Some (toggled cfg ''transparent_background'' False)"
| "CustomTextKnobs cfg _ = None"

text \<open>
  The text input shows a local copy: typing sets it, and a change of the configured text
  replaces it unless the input has the focus or both agree.
\<close>

record text_copy =
  tx_config :: "string option"
  tx_local :: string

definition opt_text :: "string option \<Rightarrow> string" where
  "opt_text t = (case t of None \<Rightarrow> [] | Some v \<Rightarrow> v)"

definition text_copy_init :: "string option \<Rightarrow> text_copy" where
  "text_copy_init t = \<lparr> tx_config = t, tx_local = opt_text t \<rparr>"

definition text_typed :: "string \<Rightarrow> text_copy \<Rightarrow> text_copy" where
  "text_typed t s = s\<lparr> tx_local := t \<rparr>"

definition text_config :: "bool \<Rightarrow> string option \<Rightarrow> text_copy \<Rightarrow> text_copy" where
  "text_config focused t s =
     (if t = tx_config s then s
      else if t \<noteq> Some (tx_local s) \<and> \<not> focused then s\<lparr> tx_config := t, tx_local := opt_text t \<rparr>
      else s\<lparr> tx_config := t \<rparr>)"

section \<open>All controls of an element\<close>

definition renderSpecificKnobs ::
    "string \<Rightarrow> element_obj \<Rightarrow> overlay_data option \<Rightarrow> knob_input \<Rightarrow> element_obj option" where
  "renderSpecificKnobs key cfg data i =
     (if key = ''scoreboard'' then ScoreboardKnobs i
      else if key = ''sponsor_bug'' then SponsorBugKnobs cfg i
      else if key = ''player_card'' then PlayerCardKnobs data i
      else if key = ''team_card'' then TeamCardKnobs data i
      else if key = ''match_result'' then MatchResultKnobs i
      else if key = ''custom_text'' then CustomTextKnobs cfg i
      else None)"

definition showPosition :: "string \<Rightarrow> bool" where
  "showPosition key \<longleftrightarrow> key \<noteq> ''lower_third'' \<and> key \<noteq> ''scoreboard''"

fun generic_knobs :: "string \<Rightarrow> knob_input \<Rightarrow> element_obj option" where
  "generic_knobs key (Position v) = (if showPosition key then ElementPositionField v else None)"
| "generic_knobs key (Size v) = ElementSizeSlider v"
| "generic_knobs key _ = None"

definition ElementKnobs ::
    "string \<Rightarrow> element_obj \<Rightarrow> overlay_data option \<Rightarrow> knob_input \<Rightarrow> element_obj option" where
  "ElementKnobs key cfg data i =
     (case renderSpecificKnobs key cfg data i of Some p \<Rightarrow> Some p | None \<Rightarrow> generic_knobs key i)"

text \<open>What one act on the tab makes of the draft: a click in the grid or a control of a row.\<close>

datatype tab_input = Grid string | Row string knob_input

definition input_patch :: "overlay_data option \<Rightarrow> elements \<Rightarrow> tab_input \<Rightarrow> (string \<times> element_obj) option" where
  "input_patch data d i =
     (case i of
        Grid k \<Rightarrow> if k \<in> set ALL_KEYS_FLAT then Some (k, ToggleCell (d k)) else None
      | Row k x \<Rightarrow> if k \<in> set (filter elementHasKnobs ALL_KEYS_FLAT)
          then map_option (Pair k) (ElementKnobs k (d k) data x) else None)"

definition input_event :: "overlay_data option \<Rightarrow> elements_tab \<Rightarrow> tab_input \<Rightarrow> elements_event list" where
  "input_event data s i =
     (case et_draft s of None \<Rightarrow> []
      | Some d \<Rightarrow> (case input_patch data d i of None \<Rightarrow> [] | Some (k, p) \<Rightarrow> [ElPatch k p]))"

section \<open>Types of the members\<close>

text \<open>
  What each member of an element's configuration may hold, as \<open>types.ts\<close> and the clamps of the
  renderer state it; members not listed are not written by the tab.
\<close>

fun bool_knob :: "knob \<Rightarrow> bool" where
  "bool_knob (KBool b) = True"
| "bool_knob _ = False"

fun opt_str_knob :: "(string \<Rightarrow> bool) \<Rightarrow> knob \<Rightarrow> bool" where
  "opt_str_knob P (KStr v) = P v"
| "opt_str_knob P k = (k = KUndef)"

fun str_knob :: "(string \<Rightarrow> bool) \<Rightarrow> knob \<Rightarrow> bool" where
  "str_knob P (KStr v) = P v"
| "str_knob P _ = False"

fun rat_knob :: "(rat \<Rightarrow> bool) \<Rightarrow> knob \<Rightarrow> bool" where
  "rat_knob P (KNum (Fin q)) = P q"
| "rat_knob P _ = False"

definition whole_from :: "rat \<Rightarrow> rat \<Rightarrow> bool" where
  "whole_from lo q \<longleftrightarrow> lo \<le> q \<and> of_int \<lfloor>q\<rfloor> = q"

definition base_types :: "(string \<times> (knob \<Rightarrow> bool)) list" where
  "base_types =
     [(''visible'', bool_knob), (''element_scale'', rat_knob (\<lambda>q. 1 / 4 \<le> q \<and> q \<le> 3)),
      (''position'', opt_str_knob (\<lambda>v. v \<in> fst ` set POSITION_OPTIONS))]"

definition logo_types :: "logo \<Rightarrow> (string \<times> (knob \<Rightarrow> bool)) list" where
  "logo_types l =
     [(logo_prefix l @ ''_scale'', rat_knob (\<lambda>q. 1 / 2 \<le> q \<and> q \<le> 5)),
      (logo_prefix l @ ''_offset_x'', rat_knob (\<lambda>q. - 120 \<le> q \<and> q \<le> 120)),
      (logo_prefix l @ ''_offset_y'', rat_knob (\<lambda>q. - 120 \<le> q \<and> q \<le> 120))]"

definition dismiss_type :: "rat \<Rightarrow> (string \<times> (knob \<Rightarrow> bool)) list" where
  "dismiss_type lo = [(''auto_dismiss_seconds'', rat_knob (whole_from lo))]"

definition field_types :: "string \<Rightarrow> (string \<times> (knob \<Rightarrow> bool)) list" where
  "field_types key =
     (if key = ''scoreboard''
      then (''layout'', str_knob (\<lambda>v. v \<in> {''classic'', ''banner''})) #
        logo_types TournamentLogo @ logo_types Team1Logo @ logo_types Team2Logo
      else if key = ''sponsor_bug''
      then [(''rotation_seconds'', rat_knob (whole_from 1)), (''auto_animate'', bool_knob),
            (''transparent_background'', bool_knob)]
      else if key = ''player_card''
      then (''selected_player'', opt_str_knob (\<lambda>v. v \<in> {''team_1_player_1'', ''team_1_player_2'',
              ''team_2_player_1'', ''team_2_player_2''})) # dismiss_type 0
      else if key = ''team_card''
      then (''selected_team'', str_knob (\<lambda>v. v \<in> {''both'', ''team_1'', ''team_2''})) # dismiss_type 0
      else if key = ''match_result''
      then (''auto_show_delay_seconds'', rat_knob (whole_from 0)) # dismiss_type 1
      else if key = ''custom_text''
      then [(''text'', str_knob (\<lambda>v. True)),
            (''font_family'', str_knob (\<lambda>v. v \<in> fst ` set CUSTOM_TEXT_FONT_OPTIONS)),
            (''font_color'', opt_str_knob (\<lambda>v. v \<noteq> [] \<and> trim v = v)),
            (''background_color'', opt_str_knob (\<lambda>v. v \<noteq> [] \<and> trim v = v)),
            (''transparent_background'', bool_knob)] @ dismiss_type 0
      else [])"

definition member_ok :: "element_obj \<Rightarrow> string \<times> (knob \<Rightarrow> bool) \<Rightarrow> bool" where
  "member_ok cfg = (\<lambda>(f, chk). case cfg f of None \<Rightarrow> True | Some v \<Rightarrow> chk v)"

definition element_ok :: "string \<Rightarrow> element_obj \<Rightarrow> bool" where
  "element_ok key cfg = list_all (member_ok cfg) (base_types @ field_types key)"

definition elements_ok :: "elements \<Rightarrow> bool" where
  "elements_ok d = list_all (\<lambda>k. element_ok k (d k)) ALL_KEYS_FLAT"

lemma member_ok_add: "member_ok cfg t \<Longrightarrow> member_ok p t \<Longrightarrow> member_ok (cfg ++ p) t"
  by (cases t) (auto simp: member_ok_def map_add_def split: option.splits)

lemma element_ok_add: "element_ok key cfg \<Longrightarrow> element_ok key p \<Longrightarrow> element_ok key (cfg ++ p)"
  by (simp add: element_ok_def list_all_iff member_ok_add)

lemma elements_ok_patched:
  assumes "elements_ok d" "element_ok k p"
  shows "elements_ok (patched k p d)"
  using assms by (auto simp: elements_ok_def list_all_iff patched_def element_ok_add)

lemma select_one_Some:
  "select_one opts f v = Some p \<longleftrightarrow> v \<in> set opts \<and> p = f v"
  by (auto simp: select_one_def)

lemma percent_consts [simp]:
  "percent ELEMENT_SCALE_MIN = 25" "percent ELEMENT_SCALE_MAX = 300" "percent ELEMENT_SCALE_STEP = 10"
  "percent SCALE_MIN = 50" "percent SCALE_MAX = 500" "percent SCALE_STEP = 10"
  "\<lfloor>OFFSET_MIN\<rfloor> = - 120" "\<lfloor>OFFSET_MAX\<rfloor> = 120" "\<lfloor>OFFSET_STEP\<rfloor> = 4"
  by (simp_all add: percent_def clamp_consts ELEMENT_SCALE_STEP_def SCALE_STEP_def OFFSET_STEP_def
      floor_eq_iff)

lemma size_slider_range:
  obtains q where "ElementSizeSlider v = Some [''element_scale'' \<mapsto> KNum (Fin q)]"
    "1 / 4 \<le> q" "q \<le> 3" "\<exists>k. q = of_int (25 + 10 * k) / 100 \<and> 0 \<le> k"
proof
  let ?n = "range_value 25 300 10 v"
  have b: "25 \<le> ?n" "?n \<le> 300" "(?n - 25) mod 10 = 0" by (rule range_value_bounds; simp)+
  show "ElementSizeSlider v = Some [''element_scale'' \<mapsto> KNum (Fin (of_int ?n / 100))]"
    by (simp add: ElementSizeSlider_def)
  have r: "25 \<le> (of_int ?n :: rat)" "(of_int ?n :: rat) \<le> 300"
    using b(1,2) by (metis of_int_le_iff of_int_numeral)+
  then show "1 / 4 \<le> (of_int ?n :: rat) / 100" "(of_int ?n :: rat) / 100 \<le> 3" by simp_all
  have "?n = 25 + 10 * ((?n - 25) div 10)" using b(3) by presburger
  moreover have "0 \<le> (?n - 25) div 10" using b(1) by (simp add: pos_imp_zdiv_nonneg_iff)
  ultimately show "\<exists>k. of_int ?n / 100 = (of_int (25 + 10 * k) / 100 :: rat) \<and> 0 \<le> k" by metis
qed

lemma logo_scale_range: obtains q where "LogoScaleSlider v = Fin q" "1 / 2 \<le> q" "q \<le> 5"
proof
  let ?n = "range_value 50 500 10 v"
  have b: "50 \<le> ?n" "?n \<le> 500" by (rule range_value_bounds; simp)+
  show "LogoScaleSlider v = Fin (of_int ?n / 100)" by (simp add: LogoScaleSlider_def)
  have r: "50 \<le> (of_int ?n :: rat)" "(of_int ?n :: rat) \<le> 500"
    using b by (metis of_int_le_iff of_int_numeral)+
  then show "1 / 2 \<le> (of_int ?n :: rat) / 100" "(of_int ?n :: rat) / 100 \<le> 5" by simp_all
qed

lemma logo_offset_range: obtains q where "LogoOffsetSlider v = Fin q" "- 120 \<le> q" "q \<le> 120"
proof
  let ?n = "range_value (- 120) 120 4 v"
  have b: "- 120 \<le> ?n" "?n \<le> 120" by (rule range_value_bounds; simp)+
  show "LogoOffsetSlider v = Fin (of_int ?n)" by (simp add: LogoOffsetSlider_def)
  show "- 120 \<le> (of_int ?n :: rat)" "(of_int ?n :: rat) \<le> 120"
    using b by (metis of_int_le_iff of_int_neg_numeral of_int_numeral)+
qed

text \<open>Every control hands on a well-typed patch.\<close>

lemmas type_tables = base_types_def field_types_def logo_types_def dismiss_type_def

lemma element_ok_single:
  "element_ok key [f \<mapsto> v] \<longleftrightarrow> list_all (\<lambda>(g, chk). g = f \<longrightarrow> chk v) (base_types @ field_types key)"
  by (auto simp: element_ok_def list_all_iff member_ok_def split: prod.splits option.splits)

lemma whole_from_max [simp]: "whole_from (of_int lo) (of_int (max lo n))"
  by (simp add: whole_from_def)

lemma whole_from_0 [simp]: "whole_from 0 (of_int n) \<longleftrightarrow> 0 \<le> n"
  by (simp add: whole_from_def)

lemma whole_from_1 [simp]: "whole_from 1 (of_int n) \<longleftrightarrow> 1 \<le> n"
  by (simp add: whole_from_def)

lemma ToggleCell_ok: "element_ok key (ToggleCell cfg)"
  by (auto simp: ToggleCell_def element_ok_single type_tables)

lemma ElementPositionField_ok:
  "ElementPositionField v = Some p \<Longrightarrow> element_ok key p"
  by (auto simp: ElementPositionField_def select_one_Some element_ok_single type_tables)

lemma ElementSizeSlider_ok: "ElementSizeSlider v = Some p \<Longrightarrow> element_ok key p"
  by (rule size_slider_range [of v]) (auto simp: element_ok_single type_tables)

lemma LogoKnobGroup_ok: "element_ok ''scoreboard'' (LogoKnobGroup l i)"
proof (cases i)
  case (LogoScale v)
  obtain q where "LogoScaleSlider v = Fin q" "1 / 2 \<le> q" "q \<le> 5" by (rule logo_scale_range)
  then show ?thesis by (cases l) (simp_all add: LogoScale element_ok_single type_tables)
next
  case (LogoX v)
  obtain q where "LogoOffsetSlider v = Fin q" "- 120 \<le> q" "q \<le> 120" by (rule logo_offset_range)
  then show ?thesis by (cases l) (simp_all add: LogoX element_ok_single type_tables)
next
  case (LogoY v)
  obtain q where "LogoOffsetSlider v = Fin q" "- 120 \<le> q" "q \<le> 120" by (rule logo_offset_range)
  then show ?thesis by (cases l) (simp_all add: LogoY element_ok_single type_tables)
qed

lemma ScoreboardKnobs_ok: "ScoreboardKnobs i = Some p \<Longrightarrow> element_ok ''scoreboard'' p"
  by (cases i)
    (auto simp: select_one_Some LogoKnobGroup_ok element_ok_single type_tables
      SCOREBOARD_LAYOUT_OPTIONS_def)

lemma rotation_patch_ok: "rotation_patch t = Some p \<Longrightarrow> element_ok ''sponsor_bug'' p"
  by (auto simp: rotation_patch_def element_ok_single type_tables split: option.splits if_splits)

lemma SponsorBugKnobs_ok: "SponsorBugKnobs cfg i = Some p \<Longrightarrow> element_ok ''sponsor_bug'' p"
  by (cases i) (auto simp: rotation_patch_ok toggled_def element_ok_single type_tables)

lemma parseInt_or_dismiss: "v \<in> fst ` set dismiss_options \<Longrightarrow> 0 \<le> parseInt_or v 0"
  by (auto simp: dismiss_options_def parseInt_or_def parseInt_def parse_unsigned_def is_space_def
      is_digit_def digits_value_def Let_def)

lemma dismiss_patch_ok:
  "dismiss_patch v = Some p \<Longrightarrow> key \<in> {''player_card'', ''team_card'', ''custom_text''} \<Longrightarrow> element_ok key p"
  using parseInt_or_dismiss [of v]
  by (auto simp: dismiss_patch_def select_one_Some element_ok_single type_tables)

lemma player_choices_slots:
  "set (player_choices data) \<subseteq> {[], ''team_1_player_1'', ''team_1_player_2'', ''team_2_player_1'',
     ''team_2_player_2''}"
  by (auto simp: player_choices_def player_options_def player_slot_def Let_def split: if_splits)

lemma PlayerCardKnobs_ok: "PlayerCardKnobs data i = Some p \<Longrightarrow> element_ok ''player_card'' p"
proof (cases i)
  case (SelectPlayer v)
  assume "PlayerCardKnobs data i = Some p"
  then show ?thesis using SelectPlayer player_choices_slots [of data]
    by (auto simp: select_one_Some element_ok_single type_tables)
qed (simp_all add: dismiss_patch_ok)

lemma TeamCardKnobs_ok: "TeamCardKnobs data i = Some p \<Longrightarrow> element_ok ''team_card'' p"
  by (cases i)
    (auto simp: dismiss_patch_ok select_one_Some team_options_def element_ok_single type_tables)

lemma MatchResultKnobs_ok: "MatchResultKnobs i = Some p \<Longrightarrow> element_ok ''match_result'' p"
  by (cases i) (auto simp: element_ok_single type_tables simp del: of_int_max)

lemma color_patch_ok:
  "key = ''font_color'' \<or> key = ''background_color'' \<Longrightarrow> trim v = v \<Longrightarrow> element_ok ''custom_text'' (color_patch key v)"
  by (auto simp: color_patch_def element_ok_single type_tables)

lemma picked_trim: "looksHex v \<Longrightarrow> trim v = v \<and> v \<noteq> []"
proof -
  assume v: "looksHex v"
  then obtain r where r: "v = CHR ''#'' # r" "length r = 6" "list_all is_hex r"
    by (auto simp: looksHex_def split: list.splits if_splits)
  have hex: "\<not> is_space c" if "is_hex c" for c
    using that by (auto simp: is_hex_def is_space_def is_digit_def)
  have "r \<noteq> []" using r(2) by auto
  then have l: "\<not> is_space (last r)" using r(3) hex by (simp add: list_all_iff)
  have "dropWhile is_space v = v" using r(1) by (simp add: is_space_def)
  moreover have "dropWhile is_space (rev v) = rev v"
    using r(1) \<open>r \<noteq> []\<close> l by (cases "rev r") (auto simp: hd_rev [symmetric])
  ultimately show "trim v = v \<and> v \<noteq> []" using r(1) by (simp add: trim_def)
qed

lemma ColorPickerField_ok:
  "ColorPickerField_text dis t = Some v \<Longrightarrow> trim v = v"
  "ColorPickerField_picker dis t = Some v \<Longrightarrow> trim v = v"
  by (auto simp: ColorPickerField_text_def ColorPickerField_picker_def picked_trim split: if_splits)

lemma CustomTextKnobs_ok: "CustomTextKnobs cfg i = Some p \<Longrightarrow> element_ok ''custom_text'' p"
proof (cases i)
  case (FontFamily v)
  assume "CustomTextKnobs cfg i = Some p"
  then show ?thesis using FontFamily by (auto simp: select_one_Some element_ok_single type_tables)
qed (auto simp: dismiss_patch_ok color_patch_ok ColorPickerField_ok toggled_def element_ok_single
    type_tables)

lemma renderSpecificKnobs_ok:
  "renderSpecificKnobs key cfg data i = Some p \<Longrightarrow> element_ok key p"
  using ScoreboardKnobs_ok SponsorBugKnobs_ok PlayerCardKnobs_ok TeamCardKnobs_ok
    MatchResultKnobs_ok CustomTextKnobs_ok
  by (simp add: renderSpecificKnobs_def split: if_splits)

lemma generic_knobs_ok: "generic_knobs key i = Some p \<Longrightarrow> element_ok key p"
  by (cases i) (auto simp: ElementPositionField_ok ElementSizeSlider_ok split: if_splits)

lemma input_patch_ok: "input_patch data d i = Some (k, p) \<Longrightarrow> element_ok k p"
  by (cases i)
    (auto simp: input_patch_def ToggleCell_ok ElementKnobs_def renderSpecificKnobs_ok
      generic_knobs_ok split: if_splits option.splits)

section \<open>The tab as a machine\<close>

text \<open>
  The tab with its controls: what the operator does reaches the machine as the patch the
  control hands on.
\<close>

datatype session_event =
    Input "overlay_data option" tab_input
  | Render "elements option"
  | Failure string
  | Pass nat
  | Leave

fun session_events :: "elements_tab \<Rightarrow> session_event \<Rightarrow> elements_event list" where
  "session_events s (Input data i) = input_event data s i"
| "session_events s (Render c) = [ElConfig c]"
| "session_events s (Failure t) = [ElFailed t]"
| "session_events s (Pass n) = [ElWait n]"
| "session_events s Leave = [ElLeave]"

definition session_step :: "elements_tab \<Rightarrow> session_event \<Rightarrow> elements_tab" where
  "session_step s e = run elements_next s (session_events s e)"

definition session_out :: "elements_tab \<Rightarrow> session_event \<Rightarrow> elements_effect list" where
  "session_out s e = elements_form.outs s (session_events s e)"

definition opt_ok :: "elements option \<Rightarrow> bool" where
  "opt_ok c = (case c of None \<Rightarrow> True | Some d \<Rightarrow> elements_ok d)"

definition tab_ok :: "elements_tab \<Rightarrow> bool" where
  "tab_ok s \<longleftrightarrow> opt_ok (et_config s) \<and> opt_ok (et_draft s) \<and> opt_ok (et_pending s)"

fun loaded_ok :: "session_event \<Rightarrow> bool" where
  "loaded_ok (Render c) = opt_ok c"
| "loaded_ok _ = True"

lemma elements_config_ok: "tab_ok s \<Longrightarrow> opt_ok c \<Longrightarrow> tab_ok (elements_config c s)"
  by (cases c) (simp_all add: tab_ok_def elements_config_def)

lemma tab_ok_patch:
  assumes "tab_ok s" "element_ok k p"
  shows "tab_ok (elements_patch k p s)"
  using assms
  by (auto simp: tab_ok_def elements_patch_def elements_commit_def opt_ok_def elements_ok_patched
      split: option.splits)

lemma tab_ok_step: "tab_ok s \<Longrightarrow> loaded_ok e \<Longrightarrow> tab_ok (session_step s e)"
proof (cases e)
  case (Input data i)
  assume "tab_ok s"
  then show ?thesis using Input
    by (auto simp: session_step_def input_event_def tab_ok_patch input_patch_ok
        split: option.splits)
next
  case (Render c)
  assume "tab_ok s" "loaded_ok e"
  then show ?thesis using Render by (simp add: session_step_def elements_config_ok)
qed (simp_all add: session_step_def tab_ok_def)

lemma tab_ok_init: "opt_ok c \<Longrightarrow> tab_ok (ElementsTab_init c)"
  by (cases c) (simp_all add: ElementsTab_init_def tab_ok_def elements_config_def opt_ok_def)

text \<open>A render with an ill-typed configuration is no event of this machine.\<close>

definition typed_step :: "elements_tab \<Rightarrow> session_event \<Rightarrow> elements_tab" where
  "typed_step s e = (if loaded_ok e then session_step s e else s)"

interpretation elements_typing:
    event_machine typed_step "\<lambda>s. \<exists>c. opt_ok c \<and> s = ElementsTab_init c" tab_ok
  by unfold_locales (auto simp: typed_step_def tab_ok_init tab_ok_step)

lemma session_puts_ok:
  "tab_ok s \<Longrightarrow> ElPut d \<in> set (session_out s e) \<Longrightarrow> elements_ok d"
  by (cases e)
    (auto simp: session_out_def input_event_def elements_send_def tab_ok_def opt_ok_def
      split: option.splits if_splits)

lemma typed_run: "list_all loaded_ok es \<Longrightarrow> run typed_step s es = run session_step s es"
  by (induction es arbitrary: s) (simp_all add: typed_step_def)

section \<open>Properties\<close>

text \<open>
  C26. Whatever the operator does in the visibility grid and on the controls, with any text typed
  into the number fields and any colour, in any order with renders, failures and time, every
  configuration the tab PUTs is well typed, if the configurations it loads are: scales and
  offsets in the ranges of the renderer's clamps, seconds whole and not negative, anchors,
  layouts, fonts, players and teams among the ones the renderer knows.
\<close>

theorem elements_put_typed:
  assumes "opt_ok c" and "list_all loaded_ok es"
    and "ElPut d \<in> set (session_out (run session_step (ElementsTab_init c) es) e)"
  shows "elements_ok d"
proof -
  have "tab_ok (run typed_step (ElementsTab_init c) es)"
    using assms(1) by (intro elements_typing.reachable_inv) blast
  then show ?thesis using assms(2,3) by (simp add: typed_run session_puts_ok)
qed

definition sample_elements :: elements where
  "sample_elements =
     (\<lambda>k. if k = ''sponsor_bug''
          then [''visible'' \<mapsto> KBool True, ''rotation_seconds'' \<mapsto> KNum (Fin 8)]
          else [''visible'' \<mapsto> KBool False])"

lemma sample_elements_ok: "elements_ok sample_elements"
  by (simp add: elements_ok_def ALL_KEYS_FLAT_def ELEMENT_GROUPS_def element_ok_def member_ok_def
      type_tables sample_elements_def whole_from_def)

theorem elements_put_typed_witness:
  "elements_ok (patched ''sponsor_bug'' [''rotation_seconds'' \<mapsto> KNum (Fin 12)] sample_elements)"
proof (rule elements_put_typed [of "Some sample_elements"
      "[Input None (Row ''sponsor_bug'' (Rotation ''-3'')),
        Input None (Row ''sponsor_bug'' (Rotation ''12.7s''))]" _ "Pass 400"])
  show "opt_ok (Some sample_elements)" by (simp add: opt_ok_def sample_elements_ok)
qed (simp_all add: session_out_def session_step_def input_event_def input_patch_def
    ElementsTab_init_def elements_config_def ALL_KEYS_FLAT_def ELEMENT_GROUPS_def elementHasKnobs_def
    ElementKnobs_def renderSpecificKnobs_def rotation_patch_def parseInt_def parse_unsigned_def
    digits_value_def is_digit_def is_space_def elements_patch_def elements_commit_def
    COMMIT_DEBOUNCE_MS_def elements_send_def)

text \<open>A burst of edits: each one a patch and the time before the next.\<close>

definition burst :: "(string \<times> element_obj \<times> nat) list \<Rightarrow> elements_event list" where
  "burst xs = concat (map (\<lambda>(k, p, n). [ElPatch k p, ElWait n]) xs)"

definition all_patched :: "elements \<Rightarrow> (string \<times> element_obj \<times> nat) list \<Rightarrow> elements" where
  "all_patched d xs = foldl (\<lambda>d (k, p, n). patched k p d) d xs"

lemma burst_run:
  assumes "list_all (\<lambda>(k, p, n). n < COMMIT_DEBOUNCE_MS) xs" "et_draft s = Some d"
  shows "elements_form.outs s (burst xs) = [] \<and>
    et_draft (run elements_next s (burst xs)) = Some (all_patched d xs) \<and>
    (xs \<noteq> [] \<longrightarrow> et_pending (run elements_next s (burst xs)) = Some (all_patched d xs) \<and>
       et_timer (run elements_next s (burst xs)) = Some (COMMIT_DEBOUNCE_MS - snd (snd (last xs))))"
  using assms
proof (induction xs arbitrary: s d)
  case (Cons x xs)
  obtain k p n where x: "x = (k, p, n)" by (cases x) auto
  define s' where "s' = elements_next (elements_next s (ElPatch k p)) (ElWait n)"
  have n: "n < COMMIT_DEBOUNCE_MS" using Cons.prems(1) x by simp
  have s': "et_draft s' = Some (patched k p d)" "et_pending s' = Some (patched k p d)"
      "et_timer s' = Some (COMMIT_DEBOUNCE_MS - n)"
    using Cons.prems(2) n
    by (simp_all add: s'_def elements_patch_def elements_commit_def)
  have IH: "elements_form.outs s' (burst xs) = [] \<and>
    et_draft (run elements_next s' (burst xs)) = Some (all_patched (patched k p d) xs) \<and>
    (xs \<noteq> [] \<longrightarrow> et_pending (run elements_next s' (burst xs)) = Some (all_patched (patched k p d) xs) \<and>
       et_timer (run elements_next s' (burst xs)) = Some (COMMIT_DEBOUNCE_MS - snd (snd (last xs))))"
    using Cons.prems(1) s' by (intro Cons.IH) auto
  have b: "burst (x # xs) = [ElPatch k p, ElWait n] @ burst xs" by (simp add: burst_def x)
  have o: "elements_form.outs s [ElPatch k p, ElWait n] = []"
    using Cons.prems(2) n by (simp add: elements_patch_def elements_commit_def)
  have a: "all_patched d (x # xs) = all_patched (patched k p d) xs" by (simp add: all_patched_def x)
  have r: "run elements_next s [ElPatch k p, ElWait n] = s'" by (simp add: s'_def)
  show ?case
  proof (cases "xs = []")
    case True
    then show ?thesis using s' o r by (simp add: b x burst_def all_patched_def s'_def)
  next
    case False
    then show ?thesis
      unfolding b elements_form.outs_append run_append o r a using IH by simp
  qed
qed (simp add: burst_def all_patched_def)

text \<open>
  However many edits the operator makes, each less than the delay after the one before, the
  tab sends nothing while they go on and, once the delay has passed, exactly one PUT. Its body
  is what the screen shows: the loaded configuration with all the edits applied in order.
\<close>

theorem elements_one_put:
  assumes "list_all (\<lambda>(k, p, n). n < COMMIT_DEBOUNCE_MS) xs" and "xs \<noteq> []"
    and "COMMIT_DEBOUNCE_MS \<le> sum_list ns"
  shows "elements_form.outs (ElementsTab_init (Some d)) (burst xs) = [] \<and>
    elements_form.outs (ElementsTab_init (Some d)) (burst xs @ map ElWait ns) =
      [ElPut (all_patched d xs)] \<and>
    et_draft (run elements_next (ElementsTab_init (Some d)) (burst xs @ map ElWait ns)) =
      Some (all_patched d xs)"
proof -
  let ?s = "run elements_next (ElementsTab_init (Some d)) (burst xs)"
  have b: "elements_form.outs (ElementsTab_init (Some d)) (burst xs) = []"
      "et_draft ?s = Some (all_patched d xs)" "et_pending ?s = Some (all_patched d xs)"
      "et_timer ?s = Some (COMMIT_DEBOUNCE_MS - snd (snd (last xs)))"
    using burst_run [OF assms(1), of "ElementsTab_init (Some d)" d] assms(2)
    by (simp_all add: ElementsTab_init_def elements_config_def)
  have ne: "ns \<noteq> []" using assms(3) by (auto simp: COMMIT_DEBOUNCE_MS_def)
  have draft: "et_draft (run elements_next s (map ElWait ns)) = et_draft s" for s
    by (induction ns arbitrary: s) simp_all
  show ?thesis
    using b ne assms(3)
    by (simp add: elements_form.outs_append elements_form.quiet_outs elements_send_def draft)
qed

theorem elements_one_put_witness:
  "elements_form.outs (ElementsTab_init (Some sample_elements))
     (burst [(''scoreboard'', [''visible'' \<mapsto> KBool True], 100),
             (''custom_text'', [''text'' \<mapsto> KStr ''Final''], 399)] @ map ElWait [300, 150]) =
   [ElPut (all_patched sample_elements
     [(''scoreboard'', [''visible'' \<mapsto> KBool True], 100),
      (''custom_text'', [''text'' \<mapsto> KStr ''Final''], 399)])]"
  using elements_one_put [of "[(''scoreboard'', [''visible'' \<mapsto> KBool True], 100),
      (''custom_text'', [''text'' \<mapsto> KStr ''Final''], 399)]" "[300, 150]" sample_elements]
  by (simp add: COMMIT_DEBOUNCE_MS_def)

text \<open>
  Edits are lost in two ways. Leaving the tab within the delay drops the timer: nothing is
  sent, however long one waits. And a configuration that arrives between two edits (the answer
  of an earlier PUT, or another operator's change) replaces the draft: the PUT then carries
  that configuration with the second edit only, without the first.
\<close>

theorem elements_edits_lost:
  assumes "m < COMMIT_DEBOUNCE_MS" and "COMMIT_DEBOUNCE_MS \<le> n" and "c \<noteq> d"
  shows "elements_form.outs (ElementsTab_init (Some d))
      ([ElPatch k p, ElWait m, ElLeave] @ map ElWait ns) = [] \<and>
    elements_form.outs (ElementsTab_init (Some d))
      [ElPatch k p, ElWait m, ElConfig (Some c), ElPatch k' p', ElWait n] = [ElPut (patched k' p' c)]"
proof
  let ?s = "ElementsTab_init (Some d)"
  let ?t = "elements_next (elements_next ?s (ElPatch k p)) (ElWait m)"
  have "elements_form.outs ?s [ElPatch k p, ElWait m] = []"
    using assms(1)
    by (simp add: ElementsTab_init_def elements_config_def elements_patch_def elements_commit_def)
  moreover have "elements_form.outs ?t (ElLeave # map ElWait ns) = []"
    using elements_form.leave_silent [of ?t ns] by simp
  ultimately show "elements_form.outs ?s ([ElPatch k p, ElWait m, ElLeave] @ map ElWait ns) = []"
    by simp
  show "elements_form.outs ?s
      [ElPatch k p, ElWait m, ElConfig (Some c), ElPatch k' p', ElWait n] = [ElPut (patched k' p' c)]"
    using assms
    by (simp add: ElementsTab_init_def elements_config_def elements_patch_def elements_commit_def
        elements_send_def)
qed

theorem elements_edits_lost_witness:
  "elements_form.outs (ElementsTab_init (Some sample_elements))
     [ElPatch ''scoreboard'' [''visible'' \<mapsto> KBool True], ElWait 200,
      ElConfig (Some (sample_elements(''custom_text'' := [''text'' \<mapsto> KStr ''A'']))),
      ElPatch ''sponsor_bug'' [''visible'' \<mapsto> KBool False], ElWait 400] =
   [ElPut (patched ''sponsor_bug'' [''visible'' \<mapsto> KBool False]
     (sample_elements(''custom_text'' := [''text'' \<mapsto> KStr ''A''])))]"
proof -
  have ne: "sample_elements(''custom_text'' := [''text'' \<mapsto> KStr ''A'']) \<noteq> sample_elements"
  proof
    assume "sample_elements(''custom_text'' := [''text'' \<mapsto> KStr ''A'']) = sample_elements"
    then have "(sample_elements(''custom_text'' := [''text'' \<mapsto> KStr ''A''])) ''custom_text'' ''text'' =
        sample_elements ''custom_text'' ''text''" by simp
    then show False by (simp add: sample_elements_def)
  qed
  show ?thesis
    by (rule elements_edits_lost [THEN conjunct2]) (use ne in \<open>simp_all add: COMMIT_DEBOUNCE_MS_def\<close>)
qed

text \<open>
  The size slider steps by ten from 25 percent, so the sizes it can set are 25, 35, up to
  295 percent: neither the default of 100 percent nor the promised maximum of 300 can be chosen
  again once the slider has moved. The sliders of the logos, which start at 50, reach both.
\<close>

theorem size_slider_grid:
  "(\<exists>q. ElementSizeSlider v = Some [''element_scale'' \<mapsto> KNum (Fin q)] \<and>
     1 / 4 \<le> q \<and> q < 3 \<and> q \<noteq> 1) \<and>
   (\<forall>k \<le> 27. ElementSizeSlider (of_nat (25 + 10 * k)) =
     Some [''element_scale'' \<mapsto> KNum (Fin (of_nat (25 + 10 * k) / 100))]) \<and>
   size_shown Map.empty = 100 \<and> LogoScaleSlider 100 = Fin 1 \<and> LogoScaleSlider 500 = Fin 5"
proof (intro conjI)
  obtain q k where q: "ElementSizeSlider v = Some [''element_scale'' \<mapsto> KNum (Fin q)]"
      "1 / 4 \<le> q" "q \<le> 3" "q = of_int (25 + 10 * k) / 100"
    by (rule size_slider_range [of v]) blast
  have "q \<noteq> 1"
  proof
    assume "q = 1"
    then have "(of_int (25 + 10 * k) :: rat) = of_int 100" using q(4) by simp
    then have "25 + 10 * k = 100" by (simp only: of_int_eq_iff)
    then show False by presburger
  qed
  moreover have "q \<noteq> 3"
  proof
    assume "q = 3"
    then have "(of_int (25 + 10 * k) :: rat) = of_int 300" using q(4) by simp
    then have "25 + 10 * k = 300" by (simp only: of_int_eq_iff)
    then show False by presburger
  qed
  ultimately show "\<exists>q. ElementSizeSlider v = Some [''element_scale'' \<mapsto> KNum (Fin q)] \<and>
      1 / 4 \<le> q \<and> q < 3 \<and> q \<noteq> 1"
    using q by (intro exI [of _ q]) auto
next
  show "\<forall>k \<le> 27. ElementSizeSlider (of_nat (25 + 10 * k)) =
     Some [''element_scale'' \<mapsto> KNum (Fin (of_nat (25 + 10 * k) / 100))]"
  proof (intro allI impI)
    fix k :: nat assume "k \<le> 27"
    have "\<lfloor>((of_nat (25 + 10 * k) :: rat) - of_int 25) / of_int 10 + 1 / 2\<rfloor> = int k"
      by (simp add: floor_eq_iff)
    then have "range_value 25 300 10 (of_nat (25 + 10 * k)) = 25 + 10 * int k"
      using \<open>k \<le> 27\<close> by (simp add: range_value_def Let_def)
    then show "ElementSizeSlider (of_nat (25 + 10 * k)) =
        Some [''element_scale'' \<mapsto> KNum (Fin (of_nat (25 + 10 * k) / 100))]"
      by (simp add: ElementSizeSlider_def)
  qed
next
  show "size_shown Map.empty = 100"
    by (simp add: size_shown_def knob_or_def num_of_def clampElementScale_def clamp_consts
        num_max_def num_min_def number_percent_def percent_def floor_eq_iff)
qed (simp_all add: LogoScaleSlider_def range_value_def Let_def floor_eq_iff)

text \<open>The witness drags the slider to 100 percent and gets 105.\<close>

theorem size_slider_grid_witness:
  "ElementSizeSlider (of_nat (25 + 10 * 8)) = Some [''element_scale'' \<mapsto> KNum (Fin (105 / 100))] \<and>
   ElementSizeSlider 100 = Some [''element_scale'' \<mapsto> KNum (Fin (105 / 100))]"
proof
  show "ElementSizeSlider (of_nat (25 + 10 * 8)) = Some [''element_scale'' \<mapsto> KNum (Fin (105 / 100))]"
    using size_slider_grid [THEN conjunct2, THEN conjunct1, rule_format, of 8] by simp
  have "\<lfloor>17 / 2 :: rat\<rfloor> = 8" by (simp add: floor_eq_iff)
  then show "ElementSizeSlider 100 = Some [''element_scale'' \<mapsto> KNum (Fin (105 / 100))]"
    by (simp add: ElementSizeSlider_def range_value_def Let_def)
qed

text \<open>The grid shows every element once, and every element has a label.\<close>

lemma grid_complete:
  "distinct ALL_KEYS_FLAT \<and> set ALL_KEYS_FLAT = set ELEMENT_KEY \<and>
   set (map fst ELEMENT_LABELS) = set ELEMENT_KEY \<and> distinct (map fst ELEMENT_LABELS)"
  by (simp add: ALL_KEYS_FLAT_def ELEMENT_GROUPS_def ELEMENT_KEY_def ELEMENT_LABELS_def insert_commute)

text \<open>Choosing the default placement takes the member out of the body of the PUT.\<close>

lemma default_placement:
  "ElementPositionField [] = Some p \<Longrightarrow> element_wire (cfg ++ p) ''position'' = None"
  by (auto simp: ElementPositionField_def select_one_Some element_wire_def)

text \<open>
  Text typed while the input has the focus is kept; without the focus a configured text that
  changes is shown.
\<close>

lemma text_typed_kept:
  "tx_local (text_config True t (text_typed v s)) = v"
  "tx_local (text_config False (Some u) s) = (if Some u = tx_config s then tx_local s else u)"
  by (simp_all add: text_config_def text_typed_def opt_text_def)

end
