(* ===== verification/Overlay_Renderer.thy ===== *)
theory Overlay_Renderer
  imports Theme_Tab Stored_Choice Elements_Tab
begin

text \<open>
  What the broadcast page and its previews render: \<open>OverlayRenderer.tsx\<close> (the page OBS loads),
  \<open>OverlayDemo.tsx\<close> (the public demo) and \<open>PreviewPane.tsx\<close> (the renderer inside the control
  panel), in \<open>web/src/features/overlay\<close>. A query is what the component reads off it.
\<close>

record 'a query_view =
  qv_loading :: bool
  qv_error :: bool
  qv_data :: "'a option"

section \<open>The background of the page\<close>

text \<open>
  The inline backgrounds of \<open>body\<close> and \<open>html\<close>, and what the running effect will restore.
\<close>

record page_background =
  pb_body :: string
  pb_html :: string
  pb_saved :: "(string \<times> string) option"

definition background_cleanup :: "page_background \<Rightarrow> page_background" where
  "background_cleanup p =
     (case pb_saved p of None \<Rightarrow> p
      | Some (b, h) \<Rightarrow> \<lparr> pb_body = b, pb_html = h, pb_saved = None \<rparr>)"

definition background_effect :: "bool \<Rightarrow> page_background \<Rightarrow> page_background" where
  "background_effect fullscreen p =
     (if \<not> fullscreen then p
      else \<lparr> pb_body = ''transparent'', pb_html = ''transparent'',
             pb_saved = Some (pb_body p, pb_html p) \<rparr>)"

text \<open>A render with another \<open>fullscreen\<close>, and the unmount.\<close>

datatype background_event = Fullscreen bool | Gone

fun background_step :: "bool \<times> page_background \<Rightarrow> background_event \<Rightarrow> bool \<times> page_background" where
  "background_step (f, p) (Fullscreen f') =
     (if f' = f then (f, p) else (f', background_effect f' (background_cleanup p)))"
| "background_step (f, p) Gone = (f, background_cleanup p)"

section \<open>The renderer\<close>

record court_config =
  co_theme_id :: "string option"
  co_colors :: "colors option"
  co_elements :: elements

text \<open>An element with the configuration and the trigger it is given.\<close>

record placed =
  pl_key :: string
  pl_config :: element_obj
  pl_trigger :: "trigger option"

definition plain :: "elements \<Rightarrow> string \<Rightarrow> placed" where
  "plain els k = \<lparr> pl_key = k, pl_config = els k, pl_trigger = None \<rparr>"

definition with_trigger :: "elements \<Rightarrow> string \<Rightarrow> trigger option \<Rightarrow> placed" where
  "with_trigger els k t = \<lparr> pl_key = k, pl_config = els k, pl_trigger = t \<rparr>"

definition RenderedOverlay :: "trigger list \<Rightarrow> elements \<Rightarrow> placed list" where
  "RenderedOverlay ts els =
     [plain els ''scoreboard'', plain els ''lower_third'', plain els ''sponsor_bug'',
      plain els ''tournament_bug'', plain els ''coming_up_next'', plain els ''series_score'',
      with_trigger els ''player_card'' (pick ts PlayerCard),
      with_trigger els ''team_card'' (pick ts TeamCard),
      plain els ''bracket_snapshot'', plain els ''pool_standings'',
      with_trigger els ''match_result'' (pick ts MatchResult),
      with_trigger els ''custom_text'' (pick ts CustomText)]"

record overlay_page =
  pg_theme_id :: "string option"
  pg_colors :: "colors option"
  pg_fullscreen :: bool
  pg_elements :: "placed list"
  pg_data :: overlay_data
  pg_watermark :: bool

definition OverlayRenderer ::
    "'c query_view \<Rightarrow> int option \<Rightarrow> overlay_data query_view \<Rightarrow> court_config query_view \<Rightarrow>
     trigger list \<Rightarrow> bool \<Rightarrow> overlay_page option" where
  "OverlayRenderer courts courtID overlay config ts fullscreen =
     (if qv_loading courts then None
      else if qv_error courts \<or> courtID = None then None
      else if qv_loading overlay \<or> qv_loading config then None
      else if qv_error overlay then None
      else (case (qv_data overlay, qv_data config) of
          (Some d, Some c) \<Rightarrow>
            Some \<lparr> pg_theme_id = co_theme_id c, pg_colors = co_colors c, pg_fullscreen = fullscreen,
                   pg_elements = RenderedOverlay ts (co_elements c), pg_data = d,
                   pg_watermark = (\<not> getIsLicensed (Some c)) \<rparr>
        | _ \<Rightarrow> None))"

section \<open>The demo\<close>

definition DEMO_ELEMENTS :: elements where
  "DEMO_ELEMENTS k =
     (if k = ''scoreboard'' then [''visible'' \<mapsto> KBool True, ''auto_animate'' \<mapsto> KBool True]
      else if k = ''sponsor_bug'' then [''visible'' \<mapsto> KBool True, ''rotation_seconds'' \<mapsto> KNum (Fin 8)]
      else if k \<in> {''tournament_bug'', ''coming_up_next'', ''series_score''}
      then [''visible'' \<mapsto> KBool True]
      else if k \<in> set ELEMENT_KEY then [''visible'' \<mapsto> KBool False]
      else Map.empty)"

definition OverlayDemo :: "string \<Rightarrow> overlay_data query_view \<Rightarrow> bool \<Rightarrow> overlay_page option" where
  "OverlayDemo themeId q fullscreen =
     (if qv_loading q then None
      else if qv_error q then None
      else (case qv_data q of None \<Rightarrow> None
        | Some d \<Rightarrow> Some \<lparr> pg_theme_id = Some themeId, pg_colors = None, pg_fullscreen = fullscreen,
            pg_elements = RenderedOverlay [] DEMO_ELEMENTS, pg_data = d, pg_watermark = True \<rparr>))"

section \<open>The preview\<close>

datatype backdrop = Transparent | Black | White

fun backdrop_name :: "backdrop \<Rightarrow> string" where
  "backdrop_name Transparent = ''transparent''"
| "backdrop_name Black = ''black''"
| "backdrop_name White = ''white''"

fun BACKDROP_LABEL :: "backdrop \<Rightarrow> string" where
  "BACKDROP_LABEL Transparent = ''Transparent''"
| "BACKDROP_LABEL Black = ''Black''"
| "BACKDROP_LABEL White = ''White''"

definition BACKDROP_ORDER :: "backdrop list" where
  "BACKDROP_ORDER = [Transparent, Black, White]"

fun index_of :: "'a \<Rightarrow> 'a list \<Rightarrow> nat" where
  "index_of x [] = 0"
| "index_of x (y # ys) = (if x = y then 0 else Suc (index_of x ys))"

definition cycleBackdrop :: "backdrop \<Rightarrow> backdrop" where
  "cycleBackdrop b =
     BACKDROP_ORDER ! ((index_of b BACKDROP_ORDER + 1) mod length BACKDROP_ORDER)"

fun backdropStyle :: "backdrop \<Rightarrow> (string \<times> string) list" where
  "backdropStyle Black = [(''backgroundColor'', ''#000000''), (''backgroundImage'', ''none'')]"
| "backdropStyle White = [(''backgroundColor'', ''#ffffff''), (''backgroundImage'', ''none'')]"
| "backdropStyle Transparent = []"

definition backdrop_dec :: "string option \<Rightarrow> backdrop" where
  "backdrop_dec raw =
     (if raw = Some ''black'' then Black else if raw = Some ''white'' then White else Transparent)"

text \<open>The two stored choices of the pane, per slug.\<close>

definition backdrop_key :: "string \<Rightarrow> string" where
  "backdrop_key slug = ''cc:overlay:preview-backdrop:'' @ slug"

definition demo_key :: "string \<Rightarrow> string" where
  "demo_key slug = ''cc:overlay:preview-demo:'' @ slug"

definition useBackdrop :: "string \<Rightarrow> storage \<Rightarrow> (string, backdrop) choice" where
  "useBackdrop = effect_mount backdrop_key backdrop_name backdrop_dec"

definition useBackdrop_step ::
    "(string, backdrop) choice \<Rightarrow> (string, backdrop) choice_event \<Rightarrow> (string, backdrop) choice" where
  "useBackdrop_step = effect_step backdrop_key backdrop_name"

definition useDemoMode :: "bool \<Rightarrow> string \<Rightarrow> storage \<Rightarrow> (string, bool) choice" where
  "useDemoMode fallback = effect_mount demo_key flag_enc (flag_dec_or fallback)"

definition useDemoMode_step ::
    "(string, bool) choice \<Rightarrow> (string, bool) choice_event \<Rightarrow> (string, bool) choice" where
  "useDemoMode_step = effect_step demo_key flag_enc"

interpretation backdrop_choice: stored_choice backdrop_key backdrop_name backdrop_dec
proof
  show "backdrop_dec (Some (backdrop_name v)) = v" for v by (cases v) (simp_all add: backdrop_dec_def)
qed (simp add: backdrop_key_def)

interpretation demo_choice: stored_choice demo_key flag_enc "flag_dec_or fallback" for fallback
  by unfold_locales (simp_all add: demo_key_def)

interpretation visibility_choice: stored_choice elements_storage_key flag_enc flag_dec
  by unfold_locales (simp_all add: elements_storage_key_def)

text \<open>The scale of the 1920 by 1080 canvas; a frame without area leaves it as it is.\<close>

definition recompute_scale :: "int \<Rightarrow> int \<Rightarrow> rat \<Rightarrow> rat" where
  "recompute_scale w h scale =
     (if w \<le> 0 \<or> h \<le> 0 then scale
      else max (1 / 20) (min (of_int w / 1920) (of_int h / 1080)))"

record preview_view =
  pr_backdrop :: string
  pr_checkered :: bool
  pr_style :: "(string \<times> string) list"
  pr_demo_label :: string
  pr_backdrop_label :: string
  pr_percent :: int

definition PreviewPane :: "backdrop \<Rightarrow> bool \<Rightarrow> rat \<Rightarrow> preview_view" where
  "PreviewPane b demo scale =
     \<lparr> pr_backdrop = backdrop_name b, pr_checkered = (b = Transparent), pr_style = backdropStyle b,
       pr_demo_label = (if demo then ''Demo'' else ''Live''), pr_backdrop_label = BACKDROP_LABEL b,
       pr_percent = percent scale \<rparr>"

text \<open>The readout of the scale is hidden two seconds after the pane mounts.\<close>

definition ScaleReadout_hidden :: "nat list \<Rightarrow> bool" where
  "ScaleReadout_hidden waits \<longleftrightarrow> 2000 \<le> sum_list waits"

section \<open>Properties\<close>


text \<open>A failed refetch takes the overlay off the air even while data are in the cache.\<close>

lemma renderer_error_hides:
  "qv_error overlay \<Longrightarrow> OverlayRenderer courts courtID overlay config ts fs = None"
  by (simp add: OverlayRenderer_def)

text \<open>
  However often \<open>fullscreen\<close> changes, leaving restores the page's own backgrounds, and while
  the renderer is not full screen the page keeps them: a preview never changes the control
  panel's background.
\<close>

theorem background_restored:
  fixes p f0 es
  defines "s \<equiv> run background_step (f0, background_effect f0 p) (map Fullscreen es)"
  assumes "pb_saved p = None"
  shows "snd (background_step s Gone) = p \<and> (\<not> fst s \<longrightarrow> snd s = p) \<and>
    (fst s \<longrightarrow> pb_body (snd s) = ''transparent'' \<and> pb_html (snd s) = ''transparent'')"
proof -
  have clean: "background_cleanup (background_effect f p) = p" for f
    using assms(2) by (cases p) (simp add: background_effect_def background_cleanup_def)
  have "snd t = background_effect (fst t) p \<Longrightarrow>
      snd (run background_step t (map Fullscreen es)) =
        background_effect (fst (run background_step t (map Fullscreen es))) p" for t
  proof (induction es arbitrary: t)
    case (Cons e es)
    have "snd (background_step t (Fullscreen e)) = background_effect (fst (background_step t (Fullscreen e))) p"
      using Cons.prems clean by (cases t) auto
    then show ?case using Cons.IH by simp
  qed simp
  then have s: "snd s = background_effect (fst s) p" unfolding s_def by simp
  then show ?thesis
    using clean by (cases s) (simp add: background_effect_def)
qed

theorem background_restored_witness:
  "snd (background_step (run background_step
       (True, background_effect True \<lparr> pb_body = ''navy'', pb_html = [], pb_saved = None \<rparr>)
       (map Fullscreen [False, True])) Gone) = \<lparr> pb_body = ''navy'', pb_html = [], pb_saved = None \<rparr>"
  using background_restored [of "\<lparr> pb_body = ''navy'', pb_html = [], pb_saved = None \<rparr>" True "[False, True]"]
  by simp

text \<open>
  The backdrop, the demo switch and the visibility grid are remembered: mounting again finds
  the choice as it was left, and choices for one court do not touch those of another. But when
  the pane goes to another court without being mounted again, it takes its choices along and
  overwrites the ones stored for that court.
\<close>

theorem preview_choice_leaks:
  assumes "k' \<noteq> k" and "list_all same_key es"
  shows "ch_value (useBackdrop k (ch_store (run useBackdrop_step (useBackdrop k st) es))) =
      ch_value (run useBackdrop_step (useBackdrop k st) es) \<and>
    ch_store (run useBackdrop_step (useBackdrop k st) es) (backdrop_key k') = st (backdrop_key k') \<and>
    ch_store (run useBackdrop_step (useBackdrop k st) (es @ [ChKey k'])) (backdrop_key k') =
      Some (backdrop_name (ch_value (run useBackdrop_step (useBackdrop k st) es)))"
proof -
  let ?s = "run useBackdrop_step (useBackdrop k st) es"
  have key: "ch_key (run (effect_step key enc) t es) = ch_key t"
    for key enc and t :: "(string, backdrop) choice"
    using assms(2)
  proof (induction es arbitrary: t)
    case (Cons e es)
    then show ?case by (cases e) (auto simp: effect_write_def)
  qed simp
  have k: "ch_key ?s = k"
    by (simp add: useBackdrop_step_def useBackdrop_def key effect_mount_def effect_write_def)
  have r: "ch_value (useBackdrop (ch_key ?s) (ch_store ?s)) = ch_value ?s"
    unfolding useBackdrop_def useBackdrop_step_def
    by (rule backdrop_choice.effect_remount [OF refl])
  have o: "ch_store ?s (backdrop_key k') = st (backdrop_key k')"
    unfolding useBackdrop_def useBackdrop_step_def
    by (rule backdrop_choice.effect_other [OF assms(2) assms(1)])
  have l: "ch_store (useBackdrop_step ?s (ChKey k')) (backdrop_key k') = Some (backdrop_name (ch_value ?s))"
    using backdrop_choice.effect_leaks [of k' ?s] assms(1) k by (simp add: useBackdrop_step_def)
  show ?thesis using r o l k by simp
qed

theorem preview_choice_leaks_witness:
  "ch_store (run useBackdrop_step (useBackdrop ''a'' [backdrop_key ''b'' \<mapsto> ''white''])
      ([ChSet Black] @ [ChKey ''b''])) (backdrop_key ''b'') = Some ''black''"
  using preview_choice_leaks [of "''b''" "''a''" "[ChSet Black]" "[backdrop_key ''b'' \<mapsto> ''white'']"]
  by (simp add: useBackdrop_step_def effect_write_def)

text \<open>The whole canvas fits the frame, unless the frame is smaller than a twentieth of it.\<close>

lemma preview_fits:
  assumes "96 \<le> w" "54 \<le> h"
  shows "recompute_scale w h s * 1920 \<le> of_int w \<and> recompute_scale w h s * 1080 \<le> of_int h"
proof -
  have "(96 :: rat) \<le> of_int w" "(54 :: rat) \<le> of_int h"
    using assms by (metis of_int_le_iff of_int_numeral)+
  then show ?thesis using assms by (auto simp: recompute_scale_def min_def max_def)
qed

lemma backdrop_cycles: "cycleBackdrop (cycleBackdrop (cycleBackdrop b)) = b"
  by (cases b) (simp_all add: cycleBackdrop_def BACKDROP_ORDER_def)

text \<open>The demo shows the broadcast furniture only, whatever the operator has triggered.\<close>

lemma demo_elements:
  "filter (\<lambda>k. visible_of (DEMO_ELEMENTS k)) ELEMENT_KEY =
     [''scoreboard'', ''sponsor_bug'', ''tournament_bug'', ''coming_up_next'', ''series_score'']"
  by (simp add: visible_of_def DEMO_ELEMENTS_def ELEMENT_KEY_def)

end
