(* ===== verification/Overrides_Tab.thy ===== *)
theory Overrides_Tab
  imports Overlay_Elements Form_Inputs "HOL-Library.AList"
begin

text \<open>
  The Overrides tab of the overlay control panel,
  \<open>web/src/features/overlay/controls/OverridesTab.tsx\<close>: the draft of the overridden fields
  with its delayed PUT, the button that clears them all, and the row of each field, from what
  the operator does to the value it hands to the tab. An object is the list of its members
  in the order they were added.
\<close>

datatype oval = OStr string | ONum rat

type_synonym overrides = "(string \<times> oval) list"

text \<open>The configuration: the overrides the server has stored, and the rest of the object.\<close>

record oconfig =
  oc_overrides :: "overrides option"
  oc_rest :: js

definition server_overrides :: "oconfig option \<Rightarrow> overrides" where
  "server_overrides c = (case c of None \<Rightarrow> [] | Some cfg \<Rightarrow>
     (case oc_overrides cfg of None \<Rightarrow> [] | Some d \<Rightarrow> d))"

section \<open>Tables\<close>

definition KEY_LABELS :: "(string \<times> string) list" where
  "KEY_LABELS =
     [(''team_1_name'', ''Team 1 name''), (''team_1_short_name'', ''Team 1 short name''),
      (''team_1_score'', ''Team 1 score''), (''team_1_color'', ''Team 1 color''),
      (''team_1_logo_url'', ''Team 1 logo URL''), (''team_1_game_wins'', ''Team 1 game wins''),
      (''team_1_player_1_name'', ''Team 1 '' @ em_dash @ '' Player 1 name''),
      (''team_1_player_2_name'', ''Team 1 '' @ em_dash @ '' Player 2 name''),
      (''team_2_name'', ''Team 2 name''), (''team_2_short_name'', ''Team 2 short name''),
      (''team_2_score'', ''Team 2 score''), (''team_2_color'', ''Team 2 color''),
      (''team_2_logo_url'', ''Team 2 logo URL''), (''team_2_game_wins'', ''Team 2 game wins''),
      (''team_2_player_1_name'', ''Team 2 '' @ em_dash @ '' Player 1 name''),
      (''team_2_player_2_name'', ''Team 2 '' @ em_dash @ '' Player 2 name''),
      (''division_name'', ''Division''), (''tournament_name'', ''Tournament''),
      (''league_name'', ''League''), (''round_label'', ''Round label''),
      (''match_info'', ''Match info''), (''court_name'', ''Court name''),
      (''tournament_logo_url'', ''Tournament logo URL''), (''league_logo_url'', ''League logo URL''),
      (''match_status'', ''Match status''), (''serving_team'', ''Serving team''),
      (''server_number'', ''Server number''), (''current_game'', ''Current game'')]"

definition MATCH_STATUS_OPTIONS :: "(string \<times> string) list" where
  "MATCH_STATUS_OPTIONS =
     [(''Scheduled'', ''scheduled''), (''In progress'', ''in_progress''), (''Completed'', ''completed''),
      (''Bye'', ''bye''), (''Forfeit'', ''forfeit''), (''Cancelled'', ''cancelled''), (''Idle'', ''idle'')]"

section \<open>The tab\<close>

definition OVERRIDE_DEBOUNCE_MS :: nat where
  "OVERRIDE_DEBOUNCE_MS = 400"

record overrides_tab =
  ot_config :: "oconfig option"
  ot_draft :: overrides
  ot_pending :: "overrides option"
  ot_timer :: countdown
  ot_confirm :: bool        (* confirmClearOpen *)
  ot_clearing :: bool       (* clear.isPending *)

definition overrides_sync :: "overrides_tab \<Rightarrow> overrides_tab" where
  "overrides_sync s =
     (if ot_config s \<noteq> None \<and> ot_pending s = None
      then s\<lparr> ot_draft := server_overrides (ot_config s) \<rparr> else s)"

definition OverridesTab_init :: "oconfig option \<Rightarrow> overrides_tab" where
  "OverridesTab_init c = overrides_sync
     \<lparr> ot_config = c, ot_draft = server_overrides c, ot_pending = None, ot_timer = None,
       ot_confirm = False, ot_clearing = False \<rparr>"

definition scheduleCommit :: "overrides \<Rightarrow> overrides_tab \<Rightarrow> overrides_tab" where
  "scheduleCommit d s = s\<lparr> ot_pending := Some d, ot_timer := Some OVERRIDE_DEBOUNCE_MS \<rparr>"

definition override_draft :: "string \<Rightarrow> oval option \<Rightarrow> overrides \<Rightarrow> overrides" where
  "override_draft key v d =
     (case v of None \<Rightarrow> AList.delete key d | Some x \<Rightarrow> AList.update key x d)"

definition setOverride :: "string \<Rightarrow> oval option \<Rightarrow> overrides_tab \<Rightarrow> overrides_tab" where
  "setOverride key v s =
     (let d = override_draft key v (ot_draft s) in scheduleCommit d (s\<lparr> ot_draft := d \<rparr>))"

definition activeCount :: "overrides_tab \<Rightarrow> nat" where
  "activeCount s = length (ot_draft s)"

text \<open>
  The events: a render with a configuration, a value a row hands over, the dialog of the clear
  button with the settlement of the DELETE, the failure of a PUT, time, and the unmount.
\<close>

datatype overrides_event =
    OtConfig "oconfig option"
  | OtSet string "oval option"
  | OtAskClear
  | OtCancelClear
  | OtClearAll
  | OtCleared
  | OtClearFailed string
  | OtFailed string
  | OtWait nat
  | OtLeave

datatype overrides_effect =
    OtPut overrides
  | OtDelete
  | OtToast string string

definition overrides_send :: "overrides_tab \<Rightarrow> overrides_effect list" where
  "overrides_send s = (case ot_pending s of None \<Rightarrow> [] | Some d \<Rightarrow> [OtPut d])"

definition can_clear :: "overrides_tab \<Rightarrow> bool" where
  "can_clear s \<longleftrightarrow> ot_confirm s \<and> \<not> ot_clearing s"

fun overrides_next :: "overrides_tab \<Rightarrow> overrides_event \<Rightarrow> overrides_tab" where
  "overrides_next s (OtConfig c) =
     (if c = ot_config s then s else overrides_sync (s\<lparr> ot_config := c \<rparr>))"
| "overrides_next s (OtSet k v) = setOverride k v s"
| "overrides_next s OtAskClear =
     (if 0 < activeCount s \<and> \<not> ot_clearing s then s\<lparr> ot_confirm := True \<rparr> else s)"
| "overrides_next s OtCancelClear = s\<lparr> ot_confirm := False \<rparr>"
| "overrides_next s OtClearAll =
     (if can_clear s then s\<lparr> ot_pending := None, ot_timer := None, ot_clearing := True \<rparr> else s)"
| "overrides_next s OtCleared = s\<lparr> ot_draft := [], ot_confirm := False, ot_clearing := False \<rparr>"
| "overrides_next s (OtClearFailed t) = s\<lparr> ot_clearing := False \<rparr>"
| "overrides_next s (OtFailed t) = s"
| "overrides_next s (OtWait n) =
     s\<lparr> ot_pending := (if due n (ot_timer s) then None else ot_pending s),
        ot_timer := elapse n (ot_timer s) \<rparr>"
| "overrides_next s OtLeave = s\<lparr> ot_timer := None \<rparr>"

fun overrides_out :: "overrides_tab \<Rightarrow> overrides_event \<Rightarrow> overrides_effect list" where
  "overrides_out s OtClearAll = (if can_clear s then [OtDelete] else [])"
| "overrides_out s OtCleared = [OtToast ''success'' ''Cleared all overrides'']"
| "overrides_out s (OtClearFailed t) = [OtToast ''error'' (''Failed to clear overrides: '' @ t)]"
| "overrides_out s (OtFailed t) = [OtToast ''error'' (''Failed to save override: '' @ t)]"
| "overrides_out s (OtWait n) = (if due n (ot_timer s) then overrides_send s else [])"
| "overrides_out s _ = []"

lemma overrides_sync_simps [simp]:
  "ot_timer (overrides_sync s) = ot_timer s" "ot_pending (overrides_sync s) = ot_pending s"
  "ot_config (overrides_sync s) = ot_config s"
  by (simp_all add: overrides_sync_def)

lemma setOverride_simps [simp]:
  "ot_draft (setOverride k v s) = override_draft k v (ot_draft s)"
  "ot_pending (setOverride k v s) = Some (override_draft k v (ot_draft s))"
  "ot_timer (setOverride k v s) = Some OVERRIDE_DEBOUNCE_MS"
  "ot_config (setOverride k v s) = ot_config s"
  by (simp_all add: setOverride_def scheduleCommit_def Let_def)

interpretation overrides_form: debounced overrides_next overrides_out ot_timer OtWait OtLeave
    OVERRIDE_DEBOUNCE_MS overrides_send
proof
  fix s e
  show "ot_timer (overrides_next s e) = ot_timer s \<or> ot_timer (overrides_next s e) = None \<or>
      ot_timer (overrides_next s e) = Some OVERRIDE_DEBOUNCE_MS \<or> (\<exists>n. e = OtWait n)"
    by (cases e) auto
qed (simp_all add: overrides_send_def)

section \<open>The rows\<close>

text \<open>\<open>readLiveValue\<close>; \<open>None\<close> is \<open>null\<close>.\<close>

definition player_name :: "team_data \<Rightarrow> nat \<Rightarrow> oval option" where
  "player_name t i = map_option OStr (nth_opt (td_players t) i)"

definition onum :: "int \<Rightarrow> oval option" where
  "onum n = Some (ONum (of_int n))"

definition live_values :: "overlay_data \<Rightarrow> (string \<times> oval option) list" where
  "live_values d =
     [(''team_1_name'', Some (OStr (td_name (od_team_1 d)))),
      (''team_1_short_name'', Some (OStr (td_short_name (od_team_1 d)))),
      (''team_1_score'', onum (td_score (od_team_1 d))),
      (''team_1_color'', Some (OStr (td_color (od_team_1 d)))),
      (''team_1_logo_url'', Some (OStr (td_logo_url (od_team_1 d)))),
      (''team_1_game_wins'', onum (td_game_wins (od_team_1 d))),
      (''team_1_player_1_name'', player_name (od_team_1 d) 0),
      (''team_1_player_2_name'', player_name (od_team_1 d) 1),
      (''team_2_name'', Some (OStr (td_name (od_team_2 d)))),
      (''team_2_short_name'', Some (OStr (td_short_name (od_team_2 d)))),
      (''team_2_score'', onum (td_score (od_team_2 d))),
      (''team_2_color'', Some (OStr (td_color (od_team_2 d)))),
      (''team_2_logo_url'', Some (OStr (td_logo_url (od_team_2 d)))),
      (''team_2_game_wins'', onum (td_game_wins (od_team_2 d))),
      (''team_2_player_1_name'', player_name (od_team_2 d) 0),
      (''team_2_player_2_name'', player_name (od_team_2 d) 1),
      (''division_name'', Some (OStr (od_division_name d))),
      (''tournament_name'', Some (OStr (od_tournament_name d))),
      (''league_name'', Some (OStr (od_league_name d))),
      (''round_label'', Some (OStr (od_round_label d))),
      (''match_info'', Some (OStr (od_match_info d))),
      (''court_name'', Some (OStr (od_court_name d))),
      (''tournament_logo_url'', Some (OStr (od_tournament_logo_url d))),
      (''league_logo_url'', Some (OStr (od_league_logo_url d))),
      (''match_status'', Some (OStr (od_match_status d))),
      (''serving_team'', onum (od_serving_team d)),
      (''server_number'', onum (od_server_number d)),
      (''current_game'', onum (od_current_game d))]"

definition readLiveValue :: "string \<Rightarrow> overlay_data option \<Rightarrow> oval option" where
  "readLiveValue key data =
     (case data of None \<Rightarrow> None
      | Some d \<Rightarrow> (case map_of (live_values d) key of None \<Rightarrow> None | Some v \<Rightarrow> v))"

definition isNumeric :: "string \<Rightarrow> bool" where
  "isNumeric key \<longleftrightarrow> key \<in> set NUMERIC_OVERRIDE_KEYS"

definition isColor :: "string \<Rightarrow> bool" where
  "isColor key \<longleftrightarrow> drop (length key - 6) key = ''_color''"

definition show_oval :: "(rat \<Rightarrow> string) \<Rightarrow> oval \<Rightarrow> string" where
  "show_oval shown v = (case v of OStr t \<Rightarrow> t | ONum q \<Rightarrow> shown q)"

text \<open>
  The check box. \<open>shown\<close> is how the language writes a number; it matters only for keys that are
  not numeric.
\<close>

definition live_blank :: "oval option \<Rightarrow> bool" where
  "live_blank v \<longleftrightarrow> v = None \<or> v = Some (OStr [])"

definition live_number :: "oval \<Rightarrow> rat" where
  "live_number v = (case v of ONum q \<Rightarrow> q
     | OStr t \<Rightarrow> (case number_field (trim t) of Some q \<Rightarrow> q | None \<Rightarrow> 0))"

definition override_seed :: "(rat \<Rightarrow> string) \<Rightarrow> string \<Rightarrow> oval option \<Rightarrow> oval" where
  "override_seed shown key live =
     (case live of
        None \<Rightarrow> if isNumeric key then ONum 0 else OStr []
      | Some v \<Rightarrow>
          if v = OStr [] then if isNumeric key then ONum 0 else OStr []
          else if isNumeric key then ONum (live_number v)
          else OStr (show_oval shown v))"

definition handleToggle ::
    "(rat \<Rightarrow> string) \<Rightarrow> string \<Rightarrow> overrides \<Rightarrow> overlay_data option \<Rightarrow> oval option" where
  "handleToggle shown key d data =
     (if key \<in> fst ` set d then None
      else Some (override_seed shown key (readLiveValue key data)))"

text \<open>
  The value input of an overridden field: \<open>None\<close> when the input hands nothing on. A select
  only fires with one of its options; a colour swatch with a colour.
\<close>

definition is_swatch :: "string \<Rightarrow> bool" where
  "is_swatch v \<longleftrightarrow> length v = 7 \<and> hd v = CHR ''#''"

datatype value_input = Typed string | Swatch string

fun OverrideValueInput :: "string \<Rightarrow> value_input \<Rightarrow> oval option" where
  "OverrideValueInput key (Typed t) =
     (if key = ''match_status''
      then (if t \<in> set ([] # map snd MATCH_STATUS_OPTIONS) then Some (OStr t) else None)
      else if key = ''serving_team'' \<or> key = ''server_number''
      then (if t = ''1'' then Some (ONum 1) else if t = ''2'' then Some (ONum 2) else None)
      else if isColor key then Some (OStr t)
      else if isNumeric key
      then Some (ONum (case number_field t of None \<Rightarrow> 0 | Some q \<Rightarrow> q))
      else Some (OStr t))"
| "OverrideValueInput key (Swatch v) =
     (if isColor key \<and> is_swatch v then Some (OStr v) else None)"

definition color_input_shown :: "oval option \<Rightarrow> string \<times> string" where
  "color_input_shown v =
     (let str = (case v of Some (OStr t) \<Rightarrow> t | _ \<Rightarrow> ''#000000'') in
      (if take 1 str = ''#'' then str else ''#000000'', str))"

definition placeholderFor :: "string \<Rightarrow> bool" where
  "placeholderFor key \<longleftrightarrow> drop (length key - 9) key = ''_logo_url''"

datatype row_input = Toggle | Revert | Value value_input

text \<open>What a row hands to \<open>setOverride\<close>; revert and value inputs exist while overridden.\<close>

definition OverrideRow ::
    "(rat \<Rightarrow> string) \<Rightarrow> string \<Rightarrow> overrides \<Rightarrow> overlay_data option \<Rightarrow> row_input \<Rightarrow> oval option option" where
  "OverrideRow shown key d data i =
     (case i of
        Toggle \<Rightarrow> Some (handleToggle shown key d data)
      | Revert \<Rightarrow> if key \<in> fst ` set d then Some None else None
      | Value x \<Rightarrow> if key \<in> fst ` set d then map_option Some (OverrideValueInput key x) else None)"

definition row_keys :: "string list" where
  "row_keys = concat (map snd OVERRIDE_KEY_GROUPS)"

definition row_event ::
    "(rat \<Rightarrow> string) \<Rightarrow> overrides_tab \<Rightarrow> overlay_data option \<Rightarrow> string \<Rightarrow> row_input \<Rightarrow> overrides_event list"
where
  "row_event shown s data key i =
     (if key \<in> set row_keys
      then (case OverrideRow shown key (ot_draft s) data i of None \<Rightarrow> [] | Some v \<Rightarrow> [OtSet key v])
      else [])"

section \<open>Types of the overrides\<close>

fun oval_ok :: "string \<times> oval \<Rightarrow> bool" where
  "oval_ok (k, ONum q) = isNumeric k"
| "oval_ok (k, OStr t) = (\<not> isNumeric k)"

definition overrides_ok :: "overrides \<Rightarrow> bool" where
  "overrides_ok d \<longleftrightarrow> list_all oval_ok d \<and> distinct (map fst d)"

lemma overrides_ok_draft:
  assumes "overrides_ok d" "case v of None \<Rightarrow> True | Some x \<Rightarrow> oval_ok (k, x)"
  shows "overrides_ok (override_draft k v d)"
proof (cases v)
  case None
  have "set (AList.delete k d) \<subseteq> set d" by (auto simp: AList.delete_eq)
  then show ?thesis using assms(1) None
    by (auto simp: overrides_ok_def override_draft_def list_all_iff distinct_delete)
next
  case (Some x)
  have "set (AList.update k x d) \<subseteq> insert (k, x) (set d)"
    by (induction d) auto
  then show ?thesis using assms Some
    by (auto simp: overrides_ok_def override_draft_def list_all_iff distinct_update)
qed

lemma numeric_not_text:
  assumes "isNumeric key"
  shows "key \<noteq> ''match_status''" "\<not> isColor key"
  using assms by (auto simp: isNumeric_def NUMERIC_OVERRIDE_KEYS_def isColor_def)

lemma select_keys_numeric: "isNumeric ''serving_team''" "isNumeric ''server_number''"
  by (simp_all add: isNumeric_def NUMERIC_OVERRIDE_KEYS_def)

lemma OverrideValueInput_ok:
  assumes "OverrideValueInput key x = Some v"
  shows "oval_ok (key, v)"
proof (cases x)
  case (Swatch t)
  then have "isColor key" "v = OStr t" using assms by (simp_all split: if_split_asm)
  then show ?thesis using numeric_not_text(2) [of key] by auto
next
  case (Typed t)
  consider "key = ''match_status''" | "key = ''serving_team'' \<or> key = ''server_number''"
    | "key \<noteq> ''match_status''" "\<not> (key = ''serving_team'' \<or> key = ''server_number'')" by blast
  then show ?thesis
  proof cases
    case 1
    then have "v = OStr t" using assms Typed by (simp split: if_split_asm)
    then show ?thesis using 1 numeric_not_text(1) [of key] by auto
  next
    case 2
    then have "key \<noteq> ''match_status''" by auto
    then have "v = ONum 1 \<or> v = ONum 2" using 2 assms Typed by (simp split: if_split_asm)
    then show ?thesis using 2 select_keys_numeric by auto
  next
    case 3
    then have "v = (if \<not> isColor key \<and> isNumeric key
        then ONum (case number_field t of None \<Rightarrow> 0 | Some q \<Rightarrow> q) else OStr t)"
      using assms Typed by (simp split: if_split_asm)
    then show ?thesis using numeric_not_text(2) [of key] by auto
  qed
qed

lemma override_seed_ok: "oval_ok (key, override_seed shown key live)"
  by (simp add: override_seed_def split: option.split)

lemma OverrideRow_ok: "OverrideRow shown k d data i = Some (Some x) \<Longrightarrow> oval_ok (k, x)"
proof (cases i)
  case Toggle
  assume "OverrideRow shown k d data i = Some (Some x)"
  then have "x = override_seed shown k (readLiveValue k data)"
    using Toggle by (simp add: OverrideRow_def handleToggle_def split: if_split_asm)
  then show ?thesis by (simp add: override_seed_ok)
next
  case Revert
  assume "OverrideRow shown k d data i = Some (Some x)"
  then show ?thesis using Revert by (simp add: OverrideRow_def split: if_split_asm)
next
  case (Value y)
  assume "OverrideRow shown k d data i = Some (Some x)"
  then have "OverrideValueInput k y = Some x"
    using Value by (auto simp: OverrideRow_def split: if_split_asm)
  then show ?thesis by (rule OverrideValueInput_ok)
qed

lemma row_event_set:
  assumes "OtSet k v \<in> set (row_event shown s data key i)"
  shows "k = key \<and> OverrideRow shown key (ot_draft s) data i = Some v"
proof (cases "key \<in> set row_keys")
  case True
  show ?thesis
  proof (cases "OverrideRow shown key (ot_draft s) data i")
    case None
    then show ?thesis using assms True by (simp add: row_event_def)
  next
    case (Some w)
    then show ?thesis using assms True by (simp add: row_event_def)
  qed
next
  case False
  then show ?thesis using assms by (simp add: row_event_def)
qed

lemma row_event_ok:
  assumes "OtSet k v \<in> set (row_event shown s data key i)"
  shows "case v of None \<Rightarrow> True | Some x \<Rightarrow> oval_ok (k, x)"
  using row_event_set [OF assms] OverrideRow_ok [of shown key "ot_draft s" data i]
  by (simp split: option.split)

text \<open>
  The tab with its rows: an act on a row reaches the machine as the value it hands on, every
  other event as it is.
\<close>

datatype panel_event =
    RowInput "overlay_data option" string row_input
  | Other overrides_event

fun is_set :: "overrides_event \<Rightarrow> bool" where
  "is_set (OtSet k v) = True"
| "is_set _ = False"

fun panel_events :: "(rat \<Rightarrow> string) \<Rightarrow> overrides_tab \<Rightarrow> panel_event \<Rightarrow> overrides_event list" where
  "panel_events shown s (RowInput data k i) = row_event shown s data k i"
| "panel_events shown s (Other e) = (if is_set e then [] else [e])"

definition panel_step :: "(rat \<Rightarrow> string) \<Rightarrow> overrides_tab \<Rightarrow> panel_event \<Rightarrow> overrides_tab" where
  "panel_step shown s e = run overrides_next s (panel_events shown s e)"

definition panel_out :: "(rat \<Rightarrow> string) \<Rightarrow> overrides_tab \<Rightarrow> panel_event \<Rightarrow> overrides_effect list" where
  "panel_out shown s e = overrides_form.outs s (panel_events shown s e)"

definition opt_overrides_ok :: "overrides option \<Rightarrow> bool" where
  "opt_overrides_ok d = (case d of None \<Rightarrow> True | Some x \<Rightarrow> overrides_ok x)"

definition panel_ok :: "overrides_tab \<Rightarrow> bool" where
  "panel_ok s \<longleftrightarrow> overrides_ok (ot_draft s) \<and> opt_overrides_ok (ot_pending s)"

fun stored_ok :: "panel_event \<Rightarrow> bool" where
  "stored_ok (Other (OtConfig c)) = overrides_ok (server_overrides c)"
| "stored_ok _ = True"

lemma overrides_ok_Nil [simp]: "overrides_ok []"
  by (simp add: overrides_ok_def)

lemma panel_ok_sync:
  "panel_ok s \<Longrightarrow> overrides_ok (server_overrides (ot_config s)) \<Longrightarrow> panel_ok (overrides_sync s)"
  by (auto simp: overrides_sync_def panel_ok_def)

lemma panel_ok_set:
  "panel_ok s \<Longrightarrow> (case v of None \<Rightarrow> True | Some x \<Rightarrow> oval_ok (k, x)) \<Longrightarrow> panel_ok (setOverride k v s)"
  by (simp add: panel_ok_def opt_overrides_ok_def overrides_ok_draft)

lemma row_event_cases:
  obtains "row_event shown s data k i = []" | v where "row_event shown s data k i = [OtSet k v]"
  by (cases "k \<in> set row_keys"; cases "OverrideRow shown k (ot_draft s) data i")
    (simp_all add: row_event_def)

lemma panel_ok_step: "panel_ok s \<Longrightarrow> stored_ok e \<Longrightarrow> panel_ok (panel_step shown s e)"
proof (cases e)
  case (RowInput data k i)
  assume ok: "panel_ok s"
  show ?thesis
  proof (cases rule: row_event_cases [of shown s data k i])
    case 1
    then show ?thesis using ok RowInput by (simp add: panel_step_def)
  next
    case (2 v)
    then have "case v of None \<Rightarrow> True | Some x \<Rightarrow> oval_ok (k, x)"
      using row_event_ok [of k v shown s data k i] by simp
    then show ?thesis using ok RowInput 2 by (simp add: panel_step_def panel_ok_set)
  qed
next
  case (Other x)
  assume ok: "panel_ok s" "stored_ok e"
  show ?thesis
  proof (cases x)
    case (OtConfig c)
    have "panel_ok (s\<lparr> ot_config := c \<rparr>)" using ok(1) by (simp add: panel_ok_def)
    then show ?thesis using ok OtConfig Other by (auto simp: panel_step_def intro: panel_ok_sync)
  qed (use ok Other in \<open>auto simp: panel_step_def panel_ok_def opt_overrides_ok_def\<close>)
qed

lemma panel_ok_init: "overrides_ok (server_overrides c) \<Longrightarrow> panel_ok (OverridesTab_init c)"
  unfolding OverridesTab_init_def
  by (rule panel_ok_sync) (simp_all add: panel_ok_def opt_overrides_ok_def)

definition typed_panel :: "(rat \<Rightarrow> string) \<Rightarrow> overrides_tab \<Rightarrow> panel_event \<Rightarrow> overrides_tab" where
  "typed_panel shown s e = (if stored_ok e then panel_step shown s e else s)"

interpretation overrides_typing: event_machine "typed_panel shown"
    "\<lambda>s. \<exists>c. overrides_ok (server_overrides c) \<and> s = OverridesTab_init c" panel_ok for shown
  by unfold_locales (auto simp: typed_panel_def panel_ok_init panel_ok_step)

lemma typed_panel_run:
  "list_all stored_ok es \<Longrightarrow> run (typed_panel shown) s es = run (panel_step shown) s es"
  by (induction es arbitrary: s) (simp_all add: typed_panel_def)

lemma overrides_out_put: "OtPut d \<in> set (overrides_out s x) \<Longrightarrow> ot_pending s = Some d"
  by (cases x) (auto simp: overrides_send_def split: option.splits if_splits)

lemma panel_puts_ok: "panel_ok s \<Longrightarrow> OtPut d \<in> set (panel_out shown s e) \<Longrightarrow> overrides_ok d"
proof (cases e)
  case (RowInput data k i)
  assume "OtPut d \<in> set (panel_out shown s e)"
  then show ?thesis
    by (cases rule: row_event_cases [of shown s data k i]) (simp_all add: RowInput panel_out_def)
next
  case (Other x)
  assume "panel_ok s" "OtPut d \<in> set (panel_out shown s e)"
  then show ?thesis using overrides_out_put [of d s x]
    by (simp add: Other panel_out_def panel_ok_def opt_overrides_ok_def split: if_splits)
qed

section \<open>Properties\<close>

text \<open>
  Whatever the operator toggles, types and picks, in any order with renders, clears and time,
  every object the tab PUTs holds each key once, a number under each numeric key and a string
  under every other key, if the overrides the server has stored are of that shape.
\<close>

theorem overrides_put_typed:
  assumes "overrides_ok (server_overrides c)" and "list_all stored_ok es"
    and "OtPut d \<in> set (panel_out shown (run (panel_step shown) (OverridesTab_init c) es) e)"
  shows "distinct (map fst d) \<and>
    (\<forall>(k, v) \<in> set d. case v of ONum q \<Rightarrow> k \<in> set NUMERIC_OVERRIDE_KEYS
       | OStr t \<Rightarrow> k \<notin> set NUMERIC_OVERRIDE_KEYS)"
proof -
  have "panel_ok (run (typed_panel shown) (OverridesTab_init c) es)"
    using assms(1) by (intro overrides_typing.reachable_inv) blast
  then have "overrides_ok d" using assms(2,3) by (simp add: typed_panel_run panel_puts_ok)
  then show ?thesis
    by (force simp: overrides_ok_def list_all_iff isNumeric_def split: oval.split)
qed

text \<open>The witness overrides a score with a typed number, then the status, and waits.\<close>

definition typing_session :: "panel_event list" where
  "typing_session =
     [RowInput None ''team_1_score'' Toggle, RowInput None ''team_1_score'' (Value (Typed ''-1.5e1'')),
      RowInput None ''match_status'' Toggle, RowInput None ''match_status'' (Value (Typed ''bye''))]"

theorem overrides_put_typed_witness:
  "distinct (map fst [(''team_1_score'', ONum (- 15)), (''match_status'', OStr ''bye'')]) \<and>
   ''team_1_score'' \<in> set NUMERIC_OVERRIDE_KEYS \<and> ''match_status'' \<notin> set NUMERIC_OVERRIDE_KEYS"
proof -
  let ?d = "[(''team_1_score'', ONum (- 15)), (''match_status'', OStr ''bye'')]"
  have "distinct (map fst ?d) \<and>
    (\<forall>(k, v) \<in> set ?d. case v of ONum q \<Rightarrow> k \<in> set NUMERIC_OVERRIDE_KEYS
       | OStr t \<Rightarrow> k \<notin> set NUMERIC_OVERRIDE_KEYS)"
    by (rule overrides_put_typed [of None typing_session _ "\<lambda>q. []" "Other (OtWait 400)"])
      (simp_all add: typing_session_def panel_out_def panel_step_def row_event_def OverrideRow_def
        handleToggle_def override_seed_def readLiveValue_def row_keys_def OVERRIDE_KEY_GROUPS_def
        isNumeric_def isColor_def NUMERIC_OVERRIDE_KEYS_def MATCH_STATUS_OPTIONS_def
        OverridesTab_init_def overrides_sync_def server_overrides_def setOverride_def scheduleCommit_def
        override_draft_def overrides_send_def OVERRIDE_DEBOUNCE_MS_def number_field_def
        parse_magnitude_def parse_exponent_def is_digit_def digits_value_def scale_dec_def Let_def)
  then show ?thesis by (simp only: list.set ball_simps prod.case oval.case list.map) simp
qed

text \<open>
  Turning an override on seeds it with what the overlay shows, so the broadcast does not
  change: a number under a numeric key, the text under another. Turning it off again, or
  reverting it, takes the key out and leaves every other override as it was.
\<close>

theorem override_toggle_roundtrip:
  assumes "k \<notin> fst ` set d" and "data = Some live"
  shows "(readLiveValue k data = Some (OStr t) \<and> \<not> isNumeric k \<longrightarrow>
      handleToggle shown k d data = Some (OStr t)) \<and>
    (readLiveValue k data = Some (ONum q) \<and> isNumeric k \<longrightarrow>
      handleToggle shown k d data = Some (ONum q)) \<and>
    (let on = override_draft k (handleToggle shown k d data) d in
       map_of on k = handleToggle shown k d data \<and> k \<in> fst ` set on \<and>
       override_draft k (handleToggle shown k on data) on = d \<and>
       OverrideRow shown k on data Revert = Some None)"
proof (intro conjI impI)
  show "handleToggle shown k d data = Some (OStr t)"
    if "readLiveValue k data = Some (OStr t) \<and> \<not> isNumeric k"
    using that assms(1) by (auto simp: handleToggle_def override_seed_def show_oval_def)
  show "handleToggle shown k d data = Some (ONum q)"
    if "readLiveValue k data = Some (ONum q) \<and> isNumeric k"
    using that assms(1) by (auto simp: handleToggle_def override_seed_def live_number_def)
  obtain x where x: "handleToggle shown k d data = Some x"
    using assms(1) by (simp add: handleToggle_def)
  have del: "AList.delete k (AList.update k x d) = d"
    using assms(1) by (simp add: delete_update_same)
  have on: "override_draft k (handleToggle shown k d data) d = AList.update k x d"
    by (simp add: x override_draft_def)
  have mem: "k \<in> fst ` set (AList.update k x d)" by (simp add: dom_update)
  show "let on = override_draft k (handleToggle shown k d data) d in
      map_of on k = handleToggle shown k d data \<and> k \<in> fst ` set on \<and>
      override_draft k (handleToggle shown k on data) on = d \<and>
      OverrideRow shown k on data Revert = Some None"
    unfolding on Let_def x using mem
    by (simp add: update_conv' handleToggle_def OverrideRow_def override_draft_def del)
qed

theorem override_toggle_roundtrip_witness:
  "handleToggle (\<lambda>q. []) ''team_1_name'' [(''court_name'', OStr ''Court 9'')] (Some sample_data) =
     Some (OStr (td_name (od_team_1 sample_data))) \<and>
   override_draft ''team_1_name'' None
     (override_draft ''team_1_name'' (Some (OStr (td_name (od_team_1 sample_data))))
        [(''court_name'', OStr ''Court 9'')]) = [(''court_name'', OStr ''Court 9'')]"
  using override_toggle_roundtrip [of "''team_1_name''" "[(''court_name'', OStr ''Court 9'')]"
      "Some sample_data" sample_data "td_name (od_team_1 sample_data)" "\<lambda>q. []" 0]
  by (simp add: readLiveValue_def live_values_def isNumeric_def NUMERIC_OVERRIDE_KEYS_def Let_def
      handleToggle_def override_draft_def)

text \<open>
  A burst of edits: the value a row hands on, the configurations that arrive after it, and the
  time before the next edit.
\<close>

type_synonym edit = "string \<times> oval option \<times> oconfig option list \<times> nat"

definition edits :: "edit list \<Rightarrow> overrides_event list" where
  "edits xs = concat (map (\<lambda>(k, v, cs, n). OtSet k v # map OtConfig cs @ [OtWait n]) xs)"

definition all_set :: "overrides \<Rightarrow> edit list \<Rightarrow> overrides" where
  "all_set d xs = foldl (\<lambda>d (k, v, cs, n). override_draft k v d) d xs"

lemma configs_kept:
  "ot_pending s \<noteq> None \<Longrightarrow>
     ot_draft (run overrides_next s (map OtConfig cs)) = ot_draft s \<and>
     ot_pending (run overrides_next s (map OtConfig cs)) = ot_pending s \<and>
     ot_timer (run overrides_next s (map OtConfig cs)) = ot_timer s \<and>
     overrides_form.outs s (map OtConfig cs) = []"
  by (induction cs arbitrary: s) (auto simp: overrides_sync_def)

lemma edit_step:
  fixes k v cs
  assumes "n < OVERRIDE_DEBOUNCE_MS"
  defines "es \<equiv> OtSet k v # map OtConfig cs @ [OtWait n]"
  shows "overrides_form.outs s es = []"
    and "ot_draft (run overrides_next s es) = override_draft k v (ot_draft s)"
    and "ot_pending (run overrides_next s es) = Some (override_draft k v (ot_draft s))"
    and "ot_timer (run overrides_next s es) = Some (OVERRIDE_DEBOUNCE_MS - n)"
  using assms configs_kept [of "setOverride k v s" cs]
  by (simp_all add: overrides_form.outs_append)

lemma edits_run:
  assumes "list_all (\<lambda>(k, v, cs, n). n < OVERRIDE_DEBOUNCE_MS) xs"
  shows "overrides_form.outs s (edits xs) = [] \<and>
    ot_draft (run overrides_next s (edits xs)) = all_set (ot_draft s) xs \<and>
    (xs \<noteq> [] \<longrightarrow>
       ot_pending (run overrides_next s (edits xs)) = Some (all_set (ot_draft s) xs) \<and>
       (\<exists>r. ot_timer (run overrides_next s (edits xs)) = Some r \<and> r \<le> OVERRIDE_DEBOUNCE_MS))"
  using assms
proof (induction xs arbitrary: s)
  case (Cons x xs)
  obtain k v cs n where x: "x = (k, v, cs, n)" by (cases x) auto
  let ?es = "OtSet k v # map OtConfig cs @ [OtWait n]"
  have n: "n < OVERRIDE_DEBOUNCE_MS" using Cons.prems x by simp
  have e: "edits (x # xs) = ?es @ edits xs" by (simp add: edits_def x)
  have a: "all_set d (x # xs) = all_set (override_draft k v d) xs" for d
    by (simp add: all_set_def x)
  have IH: "overrides_form.outs (run overrides_next s ?es) (edits xs) = [] \<and>
    ot_draft (run overrides_next (run overrides_next s ?es) (edits xs)) = all_set (ot_draft s) (x # xs) \<and>
    (xs \<noteq> [] \<longrightarrow>
       ot_pending (run overrides_next (run overrides_next s ?es) (edits xs)) =
         Some (all_set (ot_draft s) (x # xs)) \<and>
       (\<exists>r. ot_timer (run overrides_next (run overrides_next s ?es) (edits xs)) = Some r \<and>
          r \<le> OVERRIDE_DEBOUNCE_MS))"
    using Cons.IH [of "run overrides_next s ?es"] Cons.prems
    unfolding edit_step(2) [OF n] a by simp
  show ?case
  proof (cases "xs = []")
    case True
    then show ?thesis
      unfolding e overrides_form.outs_append run_append edit_step(1) [OF n]
      using IH edit_step(3,4) [OF n, of s k v cs] by (simp add: edits_def all_set_def x)
  next
    case False
    then show ?thesis
      unfolding e overrides_form.outs_append run_append edit_step(1) [OF n] using IH by simp
  qed
qed (simp add: edits_def all_set_def)

lemma init_draft [simp]: "ot_draft (OverridesTab_init c) = server_overrides c"
  by (simp add: OverridesTab_init_def overrides_sync_def)

text \<open>
  However many edits the operator makes, each less than the delay after the one before, and
  whatever configurations arrive meanwhile, the tab sends nothing while they go on and exactly
  one PUT once the delay has passed. Its body is the stored overrides with all the edits, in
  order: what arrives does not disturb edits that wait to be sent.
\<close>

theorem overrides_one_put:
  assumes "list_all (\<lambda>(k, v, cs, n). n < OVERRIDE_DEBOUNCE_MS) xs" and "xs \<noteq> []"
    and "OVERRIDE_DEBOUNCE_MS \<le> sum_list ns"
  shows "overrides_form.outs (OverridesTab_init c) (edits xs) = [] \<and>
    overrides_form.outs (OverridesTab_init c) (edits xs @ map OtWait ns) =
      [OtPut (all_set (server_overrides c) xs)] \<and>
    ot_draft (run overrides_next (OverridesTab_init c) (edits xs)) = all_set (server_overrides c) xs"
proof -
  let ?s = "run overrides_next (OverridesTab_init c) (edits xs)"
  obtain r where b: "overrides_form.outs (OverridesTab_init c) (edits xs) = []"
      "ot_draft ?s = all_set (server_overrides c) xs"
      "ot_pending ?s = Some (all_set (server_overrides c) xs)"
      "ot_timer ?s = Some r" "r \<le> OVERRIDE_DEBOUNCE_MS"
    using edits_run [OF assms(1), of "OverridesTab_init c"] assms(2) by auto
  have "ns \<noteq> []" using assms(3) by (auto simp: OVERRIDE_DEBOUNCE_MS_def)
  then show ?thesis
    using b assms(3)
    by (simp add: overrides_form.outs_append overrides_form.quiet_outs overrides_send_def)
qed

text \<open>The witness types two fields while a configuration without overrides arrives.\<close>

theorem overrides_one_put_witness:
  "overrides_form.outs (OverridesTab_init None)
     (edits [(''round_label'', Some (OStr ''Final''), [Some \<lparr> oc_overrides = None, oc_rest = Null \<rparr>], 50),
             (''team_1_score'', Some (ONum 7), [], 399)] @ map OtWait [400]) =
   [OtPut [(''round_label'', OStr ''Final''), (''team_1_score'', ONum 7)]]"
  using overrides_one_put [of "[(''round_label'', Some (OStr ''Final''),
      [Some \<lparr> oc_overrides = None, oc_rest = Null \<rparr>], 50), (''team_1_score'', Some (ONum 7), [], 399)]"
      "[400]" None]
  by (simp add: OVERRIDE_DEBOUNCE_MS_def all_set_def override_draft_def server_overrides_def)

text \<open>
  Once a PUT has left the tab its edits are protected no longer. A configuration that arrives
  before the answer and still has the old overrides (another tab changed the theme, say) resets
  the draft, and the PUT of the next edit takes the first one back. Leaving the tab within the
  delay loses the edit altogether.
\<close>

theorem overrides_inflight_lost:
  assumes "OVERRIDE_DEBOUNCE_MS \<le> n" and "OVERRIDE_DEBOUNCE_MS \<le> n'" and "r \<noteq> oc_rest cfg"
    and "m < OVERRIDE_DEBOUNCE_MS"
  shows "overrides_form.outs (OverridesTab_init (Some cfg))
      [OtSet k v, OtWait n, OtConfig (Some (cfg\<lparr> oc_rest := r \<rparr>)), OtSet k' v', OtWait n'] =
    [OtPut (override_draft k v (server_overrides (Some cfg))),
     OtPut (override_draft k' v' (server_overrides (Some cfg)))] \<and>
    overrides_form.outs (OverridesTab_init (Some cfg))
      ([OtSet k v, OtWait m, OtLeave] @ map OtWait ns) = []"
proof
  let ?s = "OverridesTab_init (Some cfg)"
  have ne: "Some (cfg\<lparr> oc_rest := r \<rparr>) \<noteq> Some cfg"
  proof
    assume "Some (cfg\<lparr> oc_rest := r \<rparr>) = Some cfg"
    then have "oc_rest (cfg\<lparr> oc_rest := r \<rparr>) = oc_rest cfg" by simp
    then show False using assms(3) by simp
  qed
  have so: "server_overrides (Some (cfg\<lparr> oc_rest := r \<rparr>)) = server_overrides (Some cfg)"
    by (simp add: server_overrides_def)
  have c: "ot_config (OverridesTab_init (Some cfg)) = Some cfg" by (simp add: OverridesTab_init_def)
  show "overrides_form.outs ?s
      [OtSet k v, OtWait n, OtConfig (Some (cfg\<lparr> oc_rest := r \<rparr>)), OtSet k' v', OtWait n'] =
    [OtPut (override_draft k v (server_overrides (Some cfg))),
     OtPut (override_draft k' v' (server_overrides (Some cfg)))]"
    using assms ne by (simp add: overrides_send_def c overrides_sync_def so)
  have "overrides_form.outs ?s [OtSet k v, OtWait m] = []" using assms(4) by simp
  moreover have "overrides_form.outs t (OtLeave # map OtWait ns) = []" for t
    using overrides_form.leave_silent [of t ns] by simp
  ultimately show "overrides_form.outs ?s ([OtSet k v, OtWait m, OtLeave] @ map OtWait ns) = []"
    by simp
qed

theorem overrides_inflight_lost_witness:
  "overrides_form.outs (OverridesTab_init (Some \<lparr> oc_overrides = None, oc_rest = Null \<rparr>))
     [OtSet ''round_label'' (Some (OStr ''Final'')), OtWait 400,
      OtConfig (Some \<lparr> oc_overrides = None, oc_rest = Str ''dark'' \<rparr>),
      OtSet ''court_name'' (Some (OStr ''A'')), OtWait 400] =
   [OtPut [(''round_label'', OStr ''Final'')], OtPut [(''court_name'', OStr ''A'')]]"
  using overrides_inflight_lost [of 400 400 "Str ''dark''" "\<lparr> oc_overrides = None, oc_rest = Null \<rparr>"
      0 "''round_label''" "Some (OStr ''Final'')" "''court_name''" "Some (OStr ''A'')" "[]"]
  by (simp add: OVERRIDE_DEBOUNCE_MS_def override_draft_def server_overrides_def)

text \<open>
  While the DELETE of the clear button is under way the draft still shows the old overrides; an
  edit made then (the dialog can be dismissed) sends them all again.
\<close>

lemma clear_resurrects:
  assumes "server_overrides c \<noteq> []"
  shows "overrides_form.outs (OverridesTab_init c)
      [OtAskClear, OtClearAll, OtCancelClear, OtSet k v, OtCleared, OtWait OVERRIDE_DEBOUNCE_MS] =
    [OtDelete, OtToast ''success'' ''Cleared all overrides'',
     OtPut (override_draft k v (server_overrides c))]"
  using assms
  by (cases c; simp add: overrides_send_def activeCount_def can_clear_def OverridesTab_init_def
      overrides_sync_def setOverride_def scheduleCommit_def Let_def)

lemma labels_complete:
  "map fst KEY_LABELS = OVERRIDE_KEY \<and> set (map snd MATCH_STATUS_OPTIONS) = set MATCH_STATUS"
  by (simp add: KEY_LABELS_def OVERRIDE_KEY_def MATCH_STATUS_OPTIONS_def MATCH_STATUS_def)

text \<open>Every key has a live value to show, of the type of the key.\<close>

lemma readLiveValue_ok:
  "readLiveValue k data = Some v \<Longrightarrow> k \<in> set OVERRIDE_KEY \<and> oval_ok (k, v)"
  by (auto simp: readLiveValue_def live_values_def onum_def player_name_def OVERRIDE_KEY_def
      isNumeric_def NUMERIC_OVERRIDE_KEYS_def split: option.splits if_splits)

end
