(* ===== verification/Source_Tabs.thy ===== *)
theory Source_Tabs
  imports Overlay_Contract Form_Inputs Scoring_Types Overlay_Hooks
begin

text \<open>
  Two tabs of the overlay control panel, in \<open>web/src/features/overlay/controls\<close>:
  \<open>SourceTab.tsx\<close> (where the overlay's data come from) and \<open>ObsUrlTab.tsx\<close> (the address for OBS
  and its token). Dates and their formatting are the browser's.
\<close>

section \<open>The source tab\<close>

datatype source_mode = Internal | External

definition ACTIVE_MATCH_STATUSES :: "match_status list" where
  "ACTIVE_MATCH_STATUSES = [Warmup, InProgress, Paused]"

definition active_status :: "match \<Rightarrow> bool" where
  "active_status m \<longleftrightarrow> m_status m \<in> set ACTIVE_MATCH_STATUSES"

text \<open>The readers of the nullable columns.\<close>

fun normalizeProfileID :: "int wire \<Rightarrow> int option" where
  "normalizeProfileID Missing = None"
| "normalizeProfileID (Plain n) = Some n"
| "normalizeProfileID (Wrapped n valid) = (if valid then Some n else None)"

fun normalizePollInterval_tab :: "int wire \<Rightarrow> int option" where
  "normalizePollInterval_tab Missing = None"
| "normalizePollInterval_tab (Plain n) = Some n"
| "normalizePollInterval_tab (Wrapped n valid) = (if valid then Some n else None)"

fun normalizeTimestamp :: "string wire \<Rightarrow> string option" where
  "normalizeTimestamp Missing = None"
| "normalizeTimestamp (Plain s) = Some s"
| "normalizeTimestamp (Wrapped s valid) = (if valid then Some s else None)"

interpretation tab_profile_id: wire_reader normalizeProfileID
  by unfold_locales simp_all

interpretation tab_poll_interval: wire_reader normalizePollInterval_tab
  by unfold_locales simp_all

interpretation tab_timestamp: wire_reader normalizeTimestamp
  by unfold_locales simp_all

record source_profile =
  sp_id :: int
  sp_name :: string
  sp_source_type :: string
  sp_api_url :: "string option"
  sp_poll :: "int wire"
  sp_active :: bool
  sp_last_poll_at :: "string wire"
  sp_last_poll_status :: "string option"

definition source_mode_of :: "int wire \<Rightarrow> source_mode" where
  "source_mode_of bound = (if normalizeProfileID bound = None then Internal else External)"

definition matchOptions :: "match list option \<Rightarrow> match list" where
  "matchOptions data =
     take 20 (filter (\<lambda>m. active_status m \<or> m_status m = Scheduled)
       (case data of None \<Rightarrow> [] | Some ms \<Rightarrow> ms))"

definition activeMatch :: "match list \<Rightarrow> match option" where
  "activeMatch opts =
     (case find active_status opts of Some m \<Rightarrow> Some m
      | None \<Rightarrow> (case opts of [] \<Rightarrow> None | m # _ \<Rightarrow> Some m))"

definition otherMatches :: "match list \<Rightarrow> match list" where
  "otherMatches opts =
     filter (\<lambda>m. Some (m_id m) \<noteq> map_option m_id (activeMatch opts)) opts"

definition activeProfile :: "source_profile list option \<Rightarrow> int option \<Rightarrow> source_profile option" where
  "activeProfile profiles bound =
     (case bound of None \<Rightarrow> None
      | Some b \<Rightarrow> (case profiles of None \<Rightarrow> None | Some ps \<Rightarrow> find (\<lambda>p. sp_id p = b) ps))"

text \<open>
  The two handlers: the binding they PUT, with the text of the toast when it succeeds and when
  it fails without a message, or a toast at once.
\<close>

datatype source_effect =
    Bind "int option" string string
  | SourceToast string string

definition left_quote :: string where
  "left_quote = [CHR 0xE2, CHR 0x80, CHR 0x9C]"

definition right_quote :: string where
  "right_quote = [CHR 0xE2, CHR 0x80, CHR 0x9D]"

definition handleModeChange ::
    "source_mode \<Rightarrow> source_profile list option \<Rightarrow> source_mode \<Rightarrow> source_effect list" where
  "handleModeChange mode profiles nxt =
     (if nxt = mode then []
      else if nxt = Internal
      then [Bind None ''Switched to Court Command match data'' ''Failed to clear source profile'']
      else (case find sp_active (case profiles of None \<Rightarrow> [] | Some ps \<Rightarrow> ps) of
          None \<Rightarrow> [SourceToast ''warning''
            ''No active source profiles. Create one under Source Profiles first.'']
        | Some p \<Rightarrow> [Bind (Some (sp_id p))
            (''Bound to source profile '' @ left_quote @ sp_name p @ right_quote)
            ''Failed to bind source profile'']))"

text \<open>The select's value, and the handler it calls; 0 and the empty value clear the binding's text.\<close>

definition handleProfileChange :: "int option \<Rightarrow> source_effect" where
  "handleProfileChange nextID =
     Bind nextID
       (if truthy (null_or Num nextID) then ''Source profile updated'' else ''Source profile cleared'')
       ''Failed to update source profile''"

definition profile_options :: "source_profile list \<Rightarrow> (int \<times> string) list" where
  "profile_options ps =
     map (\<lambda>p. (sp_id p, sp_name p @ (if sp_active p then [] else '' (inactive)''))) ps"

definition profile_select :: "source_profile list \<Rightarrow> bool \<Rightarrow> int \<Rightarrow> source_effect list" where
  "profile_select ps pending v =
     (if \<not> pending \<and> v \<in> sp_id ` set ps then [handleProfileChange (Some v)] else [])"

definition bind_settled :: "source_effect \<Rightarrow> string option \<Rightarrow> (string \<times> string) option" where
  "bind_settled e failed =
     (case e of
        Bind v ok err \<Rightarrow> Some (case failed of None \<Rightarrow> (''success'', ok)
          | Some t \<Rightarrow> (''error'', if t \<noteq> [] then t else err))
      | SourceToast k t \<Rightarrow> None)"

text \<open>What the tab shows in each mode.\<close>

datatype source_panel =
    Loading
  | NoMatches
  | ActiveMatch "match option" "match list"
  | ProfilesLoading
  | NoProfiles
  | ProfileChoice "(int \<times> string) list" "int option" "source_profile option"

definition SourceTab ::
    "int wire option \<Rightarrow> bool \<Rightarrow> bool \<Rightarrow> match list option \<Rightarrow> bool \<Rightarrow> source_profile list option \<Rightarrow> source_panel"
where
  "SourceTab config matchesLoading loading matches profilesLoading profiles =
     (case config of
        None \<Rightarrow> Loading
      | Some bound \<Rightarrow>
          if loading then Loading
          else if source_mode_of bound = Internal then
            (if matchesLoading then Loading
             else if matchOptions matches = [] then NoMatches
             else ActiveMatch (activeMatch (matchOptions matches)) (otherMatches (matchOptions matches)))
          else if profilesLoading then ProfilesLoading
          else if (case profiles of None \<Rightarrow> [] | Some ps \<Rightarrow> ps) = [] then NoProfiles
          else ProfileChoice (profile_options (case profiles of None \<Rightarrow> [] | Some ps \<Rightarrow> ps))
            (normalizeProfileID bound) (activeProfile profiles (normalizeProfileID bound)))"

definition ActiveMatchSummary :: "match option \<Rightarrow> (string \<times> string \<times> int \<times> int \<times> int) option" where
  "ActiveMatchSummary mo =
     (case mo of None \<Rightarrow> None
      | Some m \<Rightarrow> Some
          ((case team_1 m of Some t \<Rightarrow> mt_name t | None \<Rightarrow> ''Team 1''),
           (case team_2 m of Some t \<Rightarrow> mt_name t | None \<Rightarrow> ''Team 2''),
           current_game m, team_1_score m, team_2_score m))"

text \<open>The age in milliseconds, as text; a day and more is left to the browser's formatting.\<close>

definition formatRelativeTime :: "string \<Rightarrow> int \<Rightarrow> string" where
  "formatRelativeTime localeString diff =
     (let s = diff div 1000 in
      if s < 60 then show_int s @ ''s ago''
      else let m = s div 60 in
        if m < 60 then show_int m @ ''m ago''
        else let h = m div 60 in
          if h < 24 then show_int h @ ''h ago'' else localeString)"

datatype live_status = LiveLoading | LiveError | LiveNone | LiveAgo int bool

definition LiveDataStatus :: "bool \<Rightarrow> bool \<Rightarrow> int \<Rightarrow> int \<Rightarrow> live_status" where
  "LiveDataStatus loading err updatedAt now =
     (if loading then LiveLoading
      else if err then LiveError
      else if updatedAt = 0 then LiveNone
      else let ago = max 0 ((now - updatedAt) div 1000) in LiveAgo ago (ago < 10))"

definition ProfileDetails ::
    "(string \<Rightarrow> string) \<Rightarrow> source_profile \<Rightarrow> string option \<times> int option \<times> string \<times> string option" where
  "ProfileDetails relative p =
     ((case sp_api_url p of Some u \<Rightarrow> if u \<noteq> [] then Some u else None | None \<Rightarrow> None),
      normalizePollInterval_tab (sp_poll p),
      (case normalizeTimestamp (sp_last_poll_at p) of Some t \<Rightarrow> relative t | None \<Rightarrow> ''Never''),
      (case sp_last_poll_status p of Some t \<Rightarrow> if t \<noteq> [] then Some t else None | None \<Rightarrow> None))"

section \<open>The OBS tab\<close>

text \<open>\<open>encodeURIComponent\<close> on the bytes of the text.\<close>

definition uri_safe :: "char \<Rightarrow> bool" where
  "uri_safe c \<longleftrightarrow>
     (let n = of_char c :: nat in
      48 \<le> n \<and> n \<le> 57 \<or> 65 \<le> n \<and> n \<le> 90 \<or> 97 \<le> n \<and> n \<le> 122 \<or>
      n \<in> {33, 39, 40, 41, 42, 45, 46, 95, 126})"

definition uri_encode_char :: "char \<Rightarrow> string" where
  "uri_encode_char c =
     (if uri_safe c then [c]
      else let n = of_char c :: nat in [CHR ''%'', hex_digit (n div 16), hex_digit (n mod 16)])"

definition encodeURIComponent :: "string \<Rightarrow> string" where
  "encodeURIComponent s = concat (map uri_encode_char s)"

definition obs_baseUrl :: "string \<Rightarrow> string \<Rightarrow> string" where
  "obs_baseUrl origin slug = origin @ ''/overlay/court/'' @ slug"

definition obs_fullUrl :: "string \<Rightarrow> string \<Rightarrow> string option \<Rightarrow> string" where
  "obs_fullUrl origin slug token =
     (case token of
        None \<Rightarrow> obs_baseUrl origin slug
      | Some t \<Rightarrow> if t = [] then obs_baseUrl origin slug
          else obs_baseUrl origin slug @ ''?token='' @ encodeURIComponent t)"

definition bullet :: string where
  "bullet = [CHR 0xE2, CHR 0x80, CHR 0xA2]"

definition maskToken :: "string \<Rightarrow> string" where
  "maskToken token =
     (if length token \<le> 8 then concat (replicate (length token) bullet)
      else take 4 token @ concat (replicate (max 4 (length token - 8)) bullet) @
        drop (length token - 4) token)"

text \<open>
  The state of the tab: the shown token, the revoke dialog, the note that the address was
  copied with the timers that will take it away, and the calls under way.
\<close>

record obs_tab =
  ob_token :: "string option"
  ob_show :: bool
  ob_confirm :: bool
  ob_copied :: bool
  ob_timers :: "nat list"
  ob_generating :: bool
  ob_revoking :: bool

definition ObsUrlTab_init :: "string option \<Rightarrow> obs_tab" where
  "ObsUrlTab_init token =
     \<lparr> ob_token = token, ob_show = False, ob_confirm = False, ob_copied = False, ob_timers = [],
       ob_generating = False, ob_revoking = False \<rparr>"

datatype obs_event =
    ObToken "string option"
  | ObCopied
  | ObCopyFailed
  | ObToggleShow
  | ObGenerate
  | ObGenerated
  | ObGenerateFailed string
  | ObAskRevoke
  | ObCancelRevoke
  | ObRevoke
  | ObRevoked
  | ObRevokeFailed string
  | ObWait nat

datatype obs_effect = ObPost | ObDelete | ObToast string string

definition has_token :: "obs_tab \<Rightarrow> bool" where
  "has_token s \<longleftrightarrow> (case ob_token s of None \<Rightarrow> False | Some t \<Rightarrow> t \<noteq> [])"

fun obs_next :: "obs_tab \<Rightarrow> obs_event \<Rightarrow> obs_tab" where
  "obs_next s (ObToken t) = s\<lparr> ob_token := t \<rparr>"
| "obs_next s ObCopied = s\<lparr> ob_copied := True, ob_timers := 2000 # ob_timers s \<rparr>"
| "obs_next s ObCopyFailed = s"
| "obs_next s ObToggleShow = (if has_token s then s\<lparr> ob_show := \<not> ob_show s \<rparr> else s)"
| "obs_next s ObGenerate = (if ob_generating s then s else s\<lparr> ob_generating := True \<rparr>)"
| "obs_next s ObGenerated = s\<lparr> ob_generating := False \<rparr>"
| "obs_next s (ObGenerateFailed t) = s\<lparr> ob_generating := False \<rparr>"
| "obs_next s ObAskRevoke = (if has_token s \<and> \<not> ob_revoking s then s\<lparr> ob_confirm := True \<rparr> else s)"
| "obs_next s ObCancelRevoke = s\<lparr> ob_confirm := False \<rparr>"
| "obs_next s ObRevoke =
     (if ob_confirm s \<and> \<not> ob_revoking s then s\<lparr> ob_revoking := True \<rparr> else s)"
| "obs_next s ObRevoked = s\<lparr> ob_revoking := False, ob_confirm := False \<rparr>"
| "obs_next s (ObRevokeFailed t) = s\<lparr> ob_revoking := False \<rparr>"
| "obs_next s (ObWait n) =
     s\<lparr> ob_copied := (ob_copied s \<and> list_all (\<lambda>r. n < r) (ob_timers s)),
        ob_timers := map (\<lambda>r. r - n) (filter (\<lambda>r. n < r) (ob_timers s)) \<rparr>"

fun obs_out :: "obs_tab \<Rightarrow> obs_event \<Rightarrow> obs_effect list" where
  "obs_out s ObCopied = [ObToast ''success'' ''URL copied to clipboard'']"
| "obs_out s ObCopyFailed = [ObToast ''error'' ''Could not copy to clipboard'']"
| "obs_out s ObGenerate = (if ob_generating s then [] else [ObPost])"
| "obs_out s ObGenerated = [ObToast ''success'' ''New overlay token generated'']"
| "obs_out s (ObGenerateFailed t) =
     [ObToast ''error'' (if t \<noteq> [] then t else ''Failed to generate token'')]"
| "obs_out s ObRevoke = (if ob_confirm s \<and> \<not> ob_revoking s then [ObDelete] else [])"
| "obs_out s ObRevoked = [ObToast ''success'' ''Overlay token revoked'']"
| "obs_out s (ObRevokeFailed t) =
     [ObToast ''error'' (if t \<noteq> [] then t else ''Failed to revoke token'')]"
| "obs_out s _ = []"

text \<open>The code shown for the token.\<close>

definition token_shown :: "obs_tab \<Rightarrow> string option" where
  "token_shown s =
     (case ob_token s of None \<Rightarrow> None
      | Some t \<Rightarrow> if t = [] then None else Some (if ob_show s then t else maskToken t))"

section \<open>Lemmas\<close>

lemma uri_decode_char: "form_decode (uri_encode_char c @ s) = c # form_decode s"
proof (cases "uri_safe c")
  case True
  then have "c \<noteq> CHR ''+''" "c \<noteq> CHR ''%''" by (auto simp: uri_safe_def)
  then show ?thesis using True by (simp add: uri_encode_char_def)
next
  case False
  have "16 * unhex (hex_digit (of_char c div 16)) + unhex (hex_digit (of_char c mod 16)) = of_char c"
    using of_char_div_16 [of c] by (simp add: unhex_hex_digit)
  then show ?thesis using False by (simp add: uri_encode_char_def Let_def)
qed

lemma uri_decode: "form_decode (encodeURIComponent s) = s"
  by (induction s) (simp_all add: encodeURIComponent_def uri_decode_char)

lemma uri_plain: "c \<in> set (encodeURIComponent s) \<Longrightarrow> c \<noteq> CHR ''&'' \<and> c \<noteq> CHR ''=''"
proof -
  have "c \<in> set (uri_encode_char d) \<Longrightarrow> c \<noteq> CHR ''&'' \<and> c \<noteq> CHR ''=''" for d
    using of_char_div_16 [of d] hex_digit_plain [of "of_char d div 16"]
      hex_digit_plain [of "of_char d mod 16"]
    by (auto simp: uri_encode_char_def uri_safe_def Let_def split: if_splits)
  then show "c \<in> set (encodeURIComponent s) \<Longrightarrow> c \<noteq> CHR ''&'' \<and> c \<noteq> CHR ''=''"
    by (auto simp: encodeURIComponent_def)
qed

lemma find_head:
  "find P xs = Some x \<Longrightarrow> \<exists>us vs. xs = us @ x # vs \<and> P x \<and> list_all (\<lambda>u. \<not> P u) us"
proof (induction xs)
  case (Cons y ys)
  show ?case
  proof (cases "P y")
    case True
    then show ?thesis using Cons.prems by (intro exI [of _ "[]"] exI [of _ ys]) auto
  next
    case False
    then obtain us vs where "ys = us @ x # vs" "P x" "list_all (\<lambda>u. \<not> P u) us"
      using Cons by auto
    then show ?thesis using False by (intro exI [of _ "y # us"] exI [of _ vs]) simp
  qed
qed simp

section \<open>Properties\<close>

text \<open>
  The address handed to OBS carries the token intact: whatever bytes the token has, the query
  string after the question mark reads back as the one pair of the name and the token; without
  a token there is no query string.
\<close>

theorem obs_url_roundtrip:
  "(t \<noteq> [] \<longrightarrow> obs_fullUrl origin slug (Some t) = obs_baseUrl origin slug @ ''?token='' @ encodeURIComponent t \<and>
      parse_query (''?token='' @ encodeURIComponent t) = [(''token'', t)]) \<and>
   obs_fullUrl origin slug None = obs_baseUrl origin slug \<and>
   obs_fullUrl origin slug (Some []) = obs_baseUrl origin slug"
proof -
  have plain: "\<forall>c \<in> set (encodeURIComponent t). c \<noteq> CHR ''&'' \<and> c \<noteq> CHR ''=''"
    using uri_plain by blast
  have "split_on CHR ''&'' (''token='' @ encodeURIComponent t) = [''token='' @ encodeURIComponent t]"
    by (rule split_on_free) (use plain in auto)
  then have "parse_query (''?token='' @ encodeURIComponent t) = [(''token'', t)]"
    by (simp add: parse_query_def parse_pair_def uri_decode)
  then show ?thesis by (simp add: obs_fullUrl_def)
qed

theorem obs_url_roundtrip_witness:
  "parse_query (''?token='' @ encodeURIComponent ''a&b=c +'') = [(''token'', ''a&b=c +'')]"
  using obs_url_roundtrip [of "''a&b=c +''" "[]" "[]"] by blast

text \<open>A masked token shows nothing of a short token and eight characters of a longer one.\<close>

lemma maskToken_hides:
  "length token \<le> 8 \<Longrightarrow> maskToken token = concat (replicate (length token) bullet)"
  "8 < length token \<Longrightarrow> \<exists>n \<ge> 4. maskToken token =
     take 4 token @ concat (replicate n bullet) @ drop (length token - 4) token"
  by (auto simp: maskToken_def intro: exI [of _ "max 4 (length token - 8)"])

text \<open>
  Copying again while the note is shown does not restart its time: the timer of the first copy
  takes the note of the second one away.
\<close>

lemma copied_cut_short:
  "ob_copied (run obs_next (ObsUrlTab_init t) [ObCopied, ObWait 1500, ObCopied, ObWait 600]) = False \<and>
   ob_copied (run obs_next (ObsUrlTab_init t) [ObCopied, ObWait 1999]) = True"
  by (simp add: ObsUrlTab_init_def)

text \<open>The token on the screen is masked until asked for, but a new token inherits the choice.\<close>

lemma token_shown_simps:
  "token_shown (ObsUrlTab_init (Some (c # cs))) = Some (maskToken (c # cs))"
  "token_shown (run obs_next (ObsUrlTab_init (Some (c # cs))) [ObToggleShow, ObToken (Some (d # ds))]) =
     Some (d # ds)"
  by (simp_all add: token_shown_def ObsUrlTab_init_def has_token_def)

text \<open>
  Choosing the external source binds the first active profile and nothing when there is none;
  choosing the internal source clears the binding; choosing the current one does nothing. The
  select rebinds to profiles of the list only, and not while a binding is being saved. After a
  successful save with the chosen profile the tab is in the mode that was asked for.
\<close>

theorem source_mode_change:
  "(\<forall>v ok err. Bind v ok err \<in> set (handleModeChange mode (Some ps) nxt) \<longrightarrow>
      nxt \<noteq> mode \<and>
      (nxt = Internal \<longrightarrow> v = None) \<and>
      (nxt = External \<longrightarrow> (\<exists>us p vs. ps = us @ p # vs \<and> v = Some (sp_id p) \<and> sp_active p \<and>
         list_all (\<lambda>u. \<not> sp_active u) us)) \<and>
      source_mode_of (case v of None \<Rightarrow> Missing | Some n \<Rightarrow> Plain n) = nxt) \<and>
   (nxt \<noteq> mode \<and> nxt = External \<and> list_all (\<lambda>p. \<not> sp_active p) ps \<longrightarrow>
      (\<exists>t. handleModeChange mode (Some ps) nxt = [SourceToast ''warning'' t])) \<and>
   handleModeChange mode profiles mode = [] \<and>
   profile_select ps True n = [] \<and>
   (profile_select ps False n \<noteq> [] \<longleftrightarrow> n \<in> sp_id ` set ps)"
proof (intro conjI allI impI)
  show "\<exists>t. handleModeChange mode (Some ps) nxt = [SourceToast ''warning'' t]"
    if "nxt \<noteq> mode \<and> nxt = External \<and> list_all (\<lambda>p. \<not> sp_active p) ps"
  proof -
    have "find sp_active ps = None" using that by (auto simp: find_out list_all_iff)
    then show ?thesis using that by (auto simp: handleModeChange_def)
  qed
next
  fix v ok err
  assume b: "Bind v ok err \<in> set (handleModeChange mode (Some ps) nxt)"
  show "nxt \<noteq> mode" using b by (auto simp: handleModeChange_def)
  show "v = None" if "nxt = Internal" using b that by (auto simp: handleModeChange_def split: if_splits)
  show "\<exists>us p vs. ps = us @ p # vs \<and> v = Some (sp_id p) \<and> sp_active p \<and> list_all (\<lambda>u. \<not> sp_active u) us"
    if "nxt = External"
    using b that
    by (auto simp: handleModeChange_def split: if_splits option.splits dest!: find_head)
  show "source_mode_of (case v of None \<Rightarrow> Missing | Some n \<Rightarrow> Plain n) = nxt"
    using b
    by (cases nxt) (auto simp: handleModeChange_def source_mode_of_def split: if_splits option.splits)
qed (simp_all add: handleModeChange_def profile_select_def)

definition sample_profile :: "int \<Rightarrow> bool \<Rightarrow> source_profile" where
  "sample_profile n active =
     \<lparr> sp_id = n, sp_name = ''Feed'', sp_source_type = ''rest_api'', sp_api_url = None, sp_poll = Missing,
       sp_active = active, sp_last_poll_at = Missing, sp_last_poll_status = None \<rparr>"

theorem source_mode_change_witness:
  "\<exists>ok err. handleModeChange Internal (Some [sample_profile 1 False, sample_profile 2 True]) External =
     [Bind (Some 2) ok err] \<and>
   source_mode_of (case Some (2 :: int) of None \<Rightarrow> Missing | Some n \<Rightarrow> Plain n) = External"
proof -
  let ?ps = "[sample_profile 1 False, sample_profile 2 True]"
  obtain ok err where b: "handleModeChange Internal (Some ?ps) External = [Bind (Some 2) ok err]"
    by (simp add: handleModeChange_def sample_profile_def)
  then have "source_mode_of (case Some (2 :: int) of None \<Rightarrow> Missing | Some n \<Rightarrow> Plain n) = External"
    using source_mode_change [of Internal ?ps External None 0, THEN conjunct1, rule_format, of "Some 2" ok err]
    by (simp only: b) simp
  then show ?thesis using b by blast
qed

text \<open>The tab's readers agree with those of \<open>types.ts\<close>.\<close>

lemma tab_readers_agree:
  "normalizeProfileID = normalizeSourceProfileID"
  "normalizePollInterval_tab = normalizePollInterval"
  "normalizeTimestamp = normalizeTimestamptz"
  by (rule ext, rename_tac w, case_tac w; simp)+

text \<open>
  The match shown as active is an active one if one of the options is; an active match beyond
  the first twenty options is not seen.
\<close>

lemma activeMatch_active:
  "list_ex active_status opts \<Longrightarrow> \<exists>m. activeMatch opts = Some m \<and> active_status m \<and> m \<in> set opts"
proof -
  assume "list_ex active_status opts"
  then obtain m where "find active_status opts = Some m"
    by (cases "find active_status opts") (auto simp: find_out list_ex_iff)
  then show ?thesis using find_in [of active_status opts m] by (simp add: activeMatch_def)
qed

lemma activeMatch_listed: "activeMatch opts = None \<longleftrightarrow> opts = []"
  by (cases opts) (simp_all add: activeMatch_def split: option.split)

text \<open>A profile polled by a server whose clock runs ahead is shown with a negative age.\<close>

lemma negative_age: "formatRelativeTime locale (- 4500) = show_int (- 5) @ ''s ago''"
  by (simp add: formatRelativeTime_def Let_def)

end
