(* ===== verification/Control_Panel.thy ===== *)
theory Control_Panel
  imports Overlay_Renderer Overrides_Tab Source_Tabs
begin

text \<open>
  The page of the overlay control panel, \<open>web/src/routes/overlay/court.$slug.settings.tsx\<close>: who
  may open it, its stored choices, and how the tabs come and go. The tabs themselves are in
  \<open>Elements_Tab\<close>, \<open>Theme_Tab\<close>, \<open>Overrides_Tab\<close> and \<open>Source_Tabs\<close>.
\<close>

section \<open>Who may open it\<close>

definition ROLE_ALLOWLIST :: "string list" where
  "ROLE_ALLOWLIST =
     [''broadcast_operator'', ''tournament_director'', ''head_referee'', ''platform_admin'']"

datatype tab_id = ElementsT | ThemeT | SourceT | TriggersT | OverridesT | ObsT

definition panel_tabs :: "(tab_id \<times> string) list" where
  "panel_tabs =
     [(ElementsT, ''Elements''), (ThemeT, ''Theme''), (SourceT, ''Source''), (TriggersT, ''Triggers''),
      (OverridesT, ''Overrides''), (ObsT, ''OBS URL'')]"

datatype settings_page =
    Spinner string
  | ToLogin string
  | Denied string
  | ErrorCard string
  | Panel int

text \<open>The role of the user who is logged in, if one is.\<close>

definition OverlaySettingsPage ::
    "string \<Rightarrow> bool \<Rightarrow> bool \<Rightarrow> string option \<Rightarrow> bool \<Rightarrow> bool \<Rightarrow> int option \<Rightarrow> settings_page" where
  "OverlaySettingsPage slug authLoading isAuthenticated role courtsLoading courtsError courtID =
     (if authLoading then Spinner ''Checking access''
      else if \<not> isAuthenticated \<or> role = None
      then ToLogin (''/overlay/court/'' @ slug @ ''/settings'')
      else if the role \<notin> set ROLE_ALLOWLIST then Denied (the role)
      else if courtsLoading then Spinner ''Loading court''
      else if courtsError then ErrorCard ''Could not resolve court''
      else (case courtID of None \<Rightarrow> ErrorCard ''Court not found'' | Some c \<Rightarrow> Panel c))"

section \<open>Stored choices of the page\<close>

datatype layout_mode = LayoutAuto | LayoutTop | LayoutSide

fun layout_name :: "layout_mode \<Rightarrow> string" where
  "layout_name LayoutAuto = ''auto''"
| "layout_name LayoutTop = ''top''"
| "layout_name LayoutSide = ''side''"

definition LAYOUT_MODE_VALUES :: "layout_mode list" where
  "LAYOUT_MODE_VALUES = [LayoutAuto, LayoutTop, LayoutSide]"

definition layout_key :: "int \<Rightarrow> string" where
  "layout_key courtID = ''cc:overlay:layout-mode:'' @ show_int courtID"

definition layout_dec :: "string option \<Rightarrow> layout_mode" where
  "layout_dec stored =
     (case stored of None \<Rightarrow> LayoutAuto
      | Some t \<Rightarrow> (case find (\<lambda>m. layout_name m = t) LAYOUT_MODE_VALUES of Some m \<Rightarrow> m
          | None \<Rightarrow> LayoutAuto))"

definition useLayoutMode :: "int \<Rightarrow> storage \<Rightarrow> (int, layout_mode) choice" where
  "useLayoutMode = handler_mount layout_key layout_dec"

definition useLayoutMode_step ::
    "(int, layout_mode) choice \<Rightarrow> (int, layout_mode) choice_event \<Rightarrow> (int, layout_mode) choice" where
  "useLayoutMode_step = handler_step layout_key layout_name (\<lambda>stored mode. mode)"

definition preview_key :: "int \<Rightarrow> string" where
  "preview_key courtID = ''cc:overlay:preview-collapsed:'' @ show_int courtID"

definition PreviewSection :: "int \<Rightarrow> storage \<Rightarrow> (int, bool) choice" where
  "PreviewSection = handler_mount preview_key (\<lambda>t. flag_raise t False)"

definition PreviewSection_step ::
    "(int, bool) choice \<Rightarrow> (int, bool) choice_event \<Rightarrow> (int, bool) choice" where
  "PreviewSection_step = handler_step preview_key flag_enc flag_raise"

interpretation layout_choice: stored_choice layout_key layout_name layout_dec
proof
  show "layout_dec (Some (layout_name v)) = v" for v
    by (cases v) (simp_all add: layout_dec_def LAYOUT_MODE_VALUES_def)
qed (simp add: layout_key_def)

interpretation preview_choice: stored_choice preview_key flag_enc "\<lambda>t. flag_raise t False"
  by unfold_locales (simp_all add: preview_key_def flag_raise_def flag_enc_def)

definition bodyGridClass :: "layout_mode \<Rightarrow> string" where
  "bodyGridClass mode =
     (if mode = LayoutSide
      then ''grid grid-cols-[minmax(0,40%)_minmax(0,1fr)] gap-3 items-start''
      else if mode = LayoutTop then ''flex flex-col gap-2''
      else ''flex flex-col gap-2 lg:grid lg:grid-cols-[minmax(0,40%)_minmax(0,1fr)] lg:gap-3 lg:items-start'')"

definition previewColumnClass :: "layout_mode \<Rightarrow> string" where
  "previewColumnClass mode =
     (if mode = LayoutSide then ''sticky top-2 self-start''
      else if mode = LayoutTop then ''sticky top-2 z-10 bg-(--color-bg-primary)''
      else ''lg:sticky lg:top-2 lg:self-start'')"

text \<open>The banner that offers the set-up wizard.\<close>

definition visibleCount :: "elements \<Rightarrow> nat" where
  "visibleCount els = length (filter (\<lambda>k. visible_of (els k)) ELEMENT_KEY)"

definition needsSetup :: "string option \<Rightarrow> elements \<Rightarrow> bool" where
  "needsSetup theme els \<longleftrightarrow> (theme = None \<or> theme = Some []) \<or> visibleCount els = 0"

definition first_run_key :: "int \<Rightarrow> string" where
  "first_run_key courtID = ''cc:overlay:first-run-dismissed:'' @ show_int courtID"

definition FirstRunBanner :: "bool \<Rightarrow> (string option \<times> elements) option \<Rightarrow> bool" where
  "FirstRunBanner dismissed config =
     (\<not> dismissed \<and> (case config of None \<Rightarrow> False | Some (theme, els) \<Rightarrow> needsSetup theme els))"

definition first_run_mount :: "int \<Rightarrow> storage \<Rightarrow> (int, bool) choice" where
  "first_run_mount = handler_mount first_run_key (\<lambda>t. flag_raise t False)"

text \<open>\<open>handleDismiss\<close> sets the flag; another court's flag is read when the court changes.\<close>

definition first_run_dismiss :: "(int, bool) choice \<Rightarrow> (int, bool) choice" where
  "first_run_dismiss s = handler_step first_run_key flag_enc flag_raise s (ChSet True)"

definition first_run_court :: "int \<Rightarrow> (int, bool) choice \<Rightarrow> (int, bool) choice" where
  "first_run_court k s = handler_step first_run_key flag_enc flag_raise s (ChKey k)"

section \<open>Tabs that come and go\<close>

text \<open>
  The page with the tabs that save with a delay. Only the active tab is mounted: choosing
  another one unmounts it, with whatever it has not sent, and mounts the other one on the
  configuration as the page has it. Time passes for the mounted tab.
\<close>

record panel =
  pn_elements_config :: "elements option"
  pn_theme_config :: "tconfig option"
  pn_overrides_config :: "oconfig option"
  pn_tab :: tab_id
  pn_elements :: "elements_tab option"
  pn_theme :: "theme_tab option"
  pn_overrides :: "overrides_tab option"

definition mount_tab :: "tab_id \<Rightarrow> panel \<Rightarrow> panel" where
  "mount_tab t p =
     p\<lparr> pn_tab := t,
        pn_elements := (if t = ElementsT then Some (ElementsTab_init (pn_elements_config p)) else None),
        pn_theme := (if t = ThemeT then Some (ThemeTab_init (pn_theme_config p)) else None),
        pn_overrides := (if t = OverridesT then Some (OverridesTab_init (pn_overrides_config p)) else None) \<rparr>"

definition panel_init :: "elements option \<Rightarrow> tconfig option \<Rightarrow> oconfig option \<Rightarrow> panel" where
  "panel_init e t ov = mount_tab ElementsT
     \<lparr> pn_elements_config = e, pn_theme_config = t, pn_overrides_config = ov, pn_tab = ElementsT,
       pn_elements = None, pn_theme = None, pn_overrides = None \<rparr>"

datatype panel_action =
    Choose tab_id
  | EditElement string element_obj
  | EditColor string "string option"
  | EditOverride string "oval option"
  | Config "elements option" "tconfig option" "oconfig option"
  | Tick nat

datatype panel_put =
    PutElements elements
  | PutTheme string colors
  | PutOverrides overrides

fun elements_puts :: "elements_effect \<Rightarrow> panel_put list" where
  "elements_puts (ElPut d) = [PutElements d]"
| "elements_puts _ = []"

fun theme_puts :: "theme_effect \<Rightarrow> panel_put list" where
  "theme_puts (TtPut t d) = [PutTheme t d]"
| "theme_puts _ = []"

fun overrides_puts :: "overrides_effect \<Rightarrow> panel_put list" where
  "overrides_puts (OtPut d) = [PutOverrides d]"
| "overrides_puts _ = []"

fun panel_next :: "panel \<Rightarrow> panel_action \<Rightarrow> panel" where
  "panel_next p (Choose t) = (if t = pn_tab p then p else mount_tab t p)"
| "panel_next p (EditElement k x) =
     p\<lparr> pn_elements := map_option (\<lambda>s. elements_next s (ElPatch k x)) (pn_elements p) \<rparr>"
| "panel_next p (EditColor k v) =
     p\<lparr> pn_theme := map_option (\<lambda>s. theme_next s (TtColor k v)) (pn_theme p) \<rparr>"
| "panel_next p (EditOverride k v) =
     p\<lparr> pn_overrides := map_option (\<lambda>s. overrides_next s (OtSet k v)) (pn_overrides p) \<rparr>"
| "panel_next p (Config e t ov) =
     p\<lparr> pn_elements_config := e, pn_theme_config := t, pn_overrides_config := ov,
        pn_elements := map_option (\<lambda>s. elements_next s (ElConfig e)) (pn_elements p),
        pn_theme := map_option (\<lambda>s. theme_next s (TtConfig t)) (pn_theme p),
        pn_overrides := map_option (\<lambda>s. overrides_next s (OtConfig ov)) (pn_overrides p) \<rparr>"
| "panel_next p (Tick n) =
     p\<lparr> pn_elements := map_option (\<lambda>s. elements_next s (ElWait n)) (pn_elements p),
        pn_theme := map_option (\<lambda>s. theme_next s (TtWait n)) (pn_theme p),
        pn_overrides := map_option (\<lambda>s. overrides_next s (OtWait n)) (pn_overrides p) \<rparr>"

definition opt_out :: "('s \<Rightarrow> 'e list) \<Rightarrow> ('e \<Rightarrow> panel_put list) \<Rightarrow> 's option \<Rightarrow> panel_put list" where
  "opt_out out puts s = (case s of None \<Rightarrow> [] | Some x \<Rightarrow> concat (map puts (out x)))"

fun panel_send :: "panel \<Rightarrow> panel_action \<Rightarrow> panel_put list" where
  "panel_send p (Tick n) =
     opt_out (\<lambda>s. elements_out s (ElWait n)) elements_puts (pn_elements p) @
     opt_out (\<lambda>s. theme_out s (TtWait n)) theme_puts (pn_theme p) @
     opt_out (\<lambda>s. overrides_out s (OtWait n)) overrides_puts (pn_overrides p)"
| "panel_send p _ = []"

fun panel_sent :: "panel \<Rightarrow> panel_action list \<Rightarrow> panel_put list" where
  "panel_sent p [] = []"
| "panel_sent p (e # es) = panel_send p e @ panel_sent (panel_next p e) es"

section \<open>Lemmas\<close>

text \<open>No tab has anything to send.\<close>

definition panel_quiet :: "panel \<Rightarrow> bool" where
  "panel_quiet p \<longleftrightarrow>
     (\<forall>s. pn_elements p = Some s \<longrightarrow> et_timer s = None) \<and>
     (\<forall>s. pn_theme p = Some s \<longrightarrow> tt_timer s = None) \<and>
     (\<forall>s. pn_overrides p = Some s \<longrightarrow> ot_timer s = None)"

lemma init_timers [simp]:
  "et_timer (ElementsTab_init c) = None" "tt_timer (ThemeTab_init t) = None"
  "ot_timer (OverridesTab_init ov) = None"
  by (simp_all add: ElementsTab_init_def elements_config_def ThemeTab_init_def OverridesTab_init_def)

lemma mount_quiet: "panel_quiet (mount_tab t p)"
  by (simp add: panel_quiet_def mount_tab_def)

text \<open>What happens without an edit: time, other tabs, configurations.\<close>

fun no_edit :: "panel_action \<Rightarrow> bool" where
  "no_edit (EditElement k x) = False"
| "no_edit (EditColor k v) = False"
| "no_edit (EditOverride k v) = False"
| "no_edit _ = True"

lemma quiet_step: "panel_quiet p \<Longrightarrow> no_edit e \<Longrightarrow> panel_send p e = [] \<and> panel_quiet (panel_next p e)"
proof (cases e)
  case (Choose t)
  assume "panel_quiet p"
  then show ?thesis using Choose mount_quiet by simp
next
  case (Tick n)
  assume "panel_quiet p"
  then show ?thesis using Tick
    by (auto simp: panel_quiet_def opt_out_def split: option.splits)
next
  case (Config e' t ov)
  assume "panel_quiet p"
  then show ?thesis using Config
    by (auto simp: panel_quiet_def elements_config_def)
qed simp_all

lemma quiet_sent: "panel_quiet p \<Longrightarrow> list_all no_edit es \<Longrightarrow> panel_sent p es = []"
  by (induction es arbitrary: p) (simp_all add: quiet_step)

lemma panel_sent_append: "panel_sent p (es @ es') = panel_sent p es @ panel_sent (run panel_next p es) es'"
  by (induction es arbitrary: p) simp_all

section \<open>Properties\<close>

text \<open>
  Choosing another tab drops whatever the active one has not sent: after it, no time, no
  further choice of tabs and no configuration makes the page send anything until the next
  edit. So an edit made less than the delay before the choice never reaches the server, in any
  of the three tabs, and the tab shows the old configuration when it comes back.
\<close>

theorem tab_switch_drops_edits:
  assumes "t \<noteq> pn_tab (run panel_next (panel_init e th ov) es)" and "list_all no_edit es'"
  shows "panel_sent (run panel_next (panel_init e th ov) (es @ [Choose t])) es' = [] \<and>
    (n < COMMIT_DEBOUNCE_MS \<longrightarrow>
       panel_sent (panel_init (Some d) th ov) ([EditElement k x, Tick n, Choose SourceT] @ es') = []) \<and>
    map_option et_draft (pn_elements (run panel_next (panel_init (Some d) th ov)
      [EditElement k x, Choose SourceT, Choose ElementsT])) = Some (Some d)"
proof (intro conjI impI)
  show "panel_sent (run panel_next (panel_init e th ov) (es @ [Choose t])) es' = []"
    using assms by (simp add: quiet_sent mount_quiet)
next
  assume n: "n < COMMIT_DEBOUNCE_MS"
  let ?p = "panel_init (Some d) th ov"
  have "panel_sent ?p [EditElement k x, Tick n, Choose SourceT] = []"
    using n
    by (simp add: panel_init_def mount_tab_def opt_out_def ElementsTab_init_def elements_config_def
        elements_patch_def elements_commit_def)
  moreover have "panel_quiet (run panel_next ?p [EditElement k x, Tick n, Choose SourceT])"
    by (simp add: mount_quiet panel_init_def) (simp add: mount_tab_def panel_quiet_def)
  ultimately show "panel_sent ?p ([EditElement k x, Tick n, Choose SourceT] @ es') = []"
    using quiet_sent assms(2) by (simp only: panel_sent_append append_Nil)
next
  show "map_option et_draft (pn_elements (run panel_next (panel_init (Some d) th ov)
      [EditElement k x, Choose SourceT, Choose ElementsT])) = Some (Some d)"
    by (simp add: panel_init_def mount_tab_def ElementsTab_init_def elements_config_def)
qed

text \<open>The witness hides the scoreboard and goes to the Source tab 300 milliseconds later.\<close>

theorem tab_switch_drops_edits_witness:
  "panel_sent (panel_init (Some sample_elements) None None)
     ([EditElement ''scoreboard'' [''visible'' \<mapsto> KBool False], Tick 300, Choose SourceT] @
      [Tick 1000, Choose ElementsT, Tick 1000]) = [] \<and>
   panel_sent (panel_init (Some sample_elements) None None)
     [EditElement ''scoreboard'' [''visible'' \<mapsto> KBool False], Tick 300, Tick 100] \<noteq> []"
proof
  show "panel_sent (panel_init (Some sample_elements) None None)
     ([EditElement ''scoreboard'' [''visible'' \<mapsto> KBool False], Tick 300, Choose SourceT] @
      [Tick 1000, Choose ElementsT, Tick 1000]) = []"
    by (rule tab_switch_drops_edits [of ThemeT None None None "[]", THEN conjunct2, THEN conjunct1, rule_format])
      (simp_all add: COMMIT_DEBOUNCE_MS_def panel_init_def mount_tab_def)
  show "panel_sent (panel_init (Some sample_elements) None None)
     [EditElement ''scoreboard'' [''visible'' \<mapsto> KBool False], Tick 300, Tick 100] \<noteq> []"
    by (simp add: panel_init_def mount_tab_def opt_out_def ElementsTab_init_def elements_config_def
        elements_patch_def elements_commit_def elements_send_def COMMIT_DEBOUNCE_MS_def)
qed

text \<open>
  The panel is shown to operators only: with a role of the list, when nobody's access is
  being checked and the court is known; anyone who is not logged in goes to the login page
  with the way back.
\<close>

theorem panel_gate:
  "(OverlaySettingsPage slug al auth role cl ce court = Panel c \<longleftrightarrow>
     \<not> al \<and> auth \<and> (\<exists>r. role = Some r \<and> r \<in> set ROLE_ALLOWLIST) \<and> \<not> cl \<and> \<not> ce \<and> court = Some c) \<and>
   (\<not> al \<and> \<not> auth \<longrightarrow> OverlaySettingsPage slug al auth role cl ce court =
      ToLogin (''/overlay/court/'' @ slug @ ''/settings'')) \<and>
   OverlaySettingsPage slug False True (Some ''player'') cl ce court = Denied ''player''"
  by (auto simp: OverlaySettingsPage_def ROLE_ALLOWLIST_def split: option.splits if_splits)

theorem panel_gate_witness:
  "OverlaySettingsPage ''center'' False False None False False None =
     ToLogin ''/overlay/court/center/settings''"
  using panel_gate [of "''center''" False False None False False None 0] by simp

text \<open>
  The layout and the collapsed preview of one court are taken to the next when the page stays
  mounted, although the comments say they do not bleed across courts; the stored items do not
  change.
\<close>

lemma choices_bleed:
  assumes "k' \<noteq> ch_key s" "k' \<noteq> ch_key s'"
  shows "ch_value (useLayoutMode_step s (ChKey k')) = ch_value s"
    and "ch_value s' \<Longrightarrow> ch_value (PreviewSection_step s' (ChKey k'))"
    and "ch_store (PreviewSection_step s' (ChKey k')) = ch_store s'"
  using assms by (simp_all add: useLayoutMode_step_def PreviewSection_step_def flag_raise_def)

lemma layout_remembered:
  "ch_value (useLayoutMode (ch_key s) (ch_store (useLayoutMode_step s (ChSet m)))) = m"
  unfolding useLayoutMode_def useLayoutMode_step_def by (rule layout_choice.handler_remount)

end
