(* ===== verification/App_Shell.thy ===== *)
theory App_Shell
  imports Source_Tabs Overlay_Elements
begin

text \<open>
  The frame of the application: the session (\<open>web/src/features/auth\<close>), the root layout that
  decides what needs one (\<open>web/src/routes/__root.tsx\<close>), the login and registration pages, the
  sidebar, the search (\<open>web/src/features/search\<close>), and the small hooks on browser events
  (\<open>web/src/hooks\<close>).
\<close>

section \<open>The session\<close>

text \<open>The query function of \<open>useAuth\<close>: a 401 is no error, but no user.\<close>

definition auth_query :: "fetch \<Rightarrow> string \<Rightarrow> api_error + js" where
  "auth_query fetch base =
     (case apiGet fetch base ''/api/v1/auth/me'' of
        Inr u \<Rightarrow> Inr u
      | Inl e \<Rightarrow> (case e of ApiRequestError st code msg \<Rightarrow> if st = 401 then Inr Null else Inl e
          | _ \<Rightarrow> Inl e))"

definition auth_key :: key where
  "auth_key = [Str ''auth'', Str ''me'']"

record auth_view =
  av_user :: js
  av_loading :: bool
  av_authenticated :: bool
  av_impersonating :: bool

text \<open>\<open>data\<close> is \<open>undefined\<close> until the query has an answer.\<close>

definition useAuth :: "js \<Rightarrow> bool \<Rightarrow> auth_view" where
  "useAuth data loading =
     \<lparr> av_user = js_coalesce data Null, av_loading = loading, av_authenticated = truthy data,
       av_impersonating = truthy (js_opt_get (js_opt_get data ''impersonation'') ''active'') \<rparr>"

definition useLogin :: "js mutation" where
  "useLogin = use_mutation (ApiPost ''/api/v1/auth/login'') (\<lambda>user _. [SetData auth_key user])"

definition useRegister :: "js mutation" where
  "useRegister = use_mutation (ApiPost ''/api/v1/auth/register'') (\<lambda>user _. [SetData auth_key user])"

text \<open>\<open>useLogout\<close> also navigates to the home page.\<close>

definition useLogout :: "unit mutation" where
  "useLogout = use_mutation (\<lambda>_. ApiPost ''/api/v1/auth/logout'' Undef) (\<lambda>_ _. [ClearCache])"

section \<open>The root layout\<close>

text \<open>
  The patterns of the routes, on the segments between the slashes: a literal segment, or any
  segment that is not empty; a \<open>Prefix\<close> pattern allows more segments after it.
\<close>

datatype seg = Lit string | Any

datatype route_pattern = Exactly "seg list" | Prefix "seg list"

fun seg_matches :: "seg \<Rightarrow> string \<Rightarrow> bool" where
  "seg_matches (Lit t) s = (s = t)"
| "seg_matches Any s = (s \<noteq> [])"

fun segs_match :: "bool \<Rightarrow> seg list \<Rightarrow> string list \<Rightarrow> bool" where
  "segs_match tail_ok [] ss = (tail_ok \<or> ss = [])"
| "segs_match tail_ok (p # ps) [] = False"
| "segs_match tail_ok (p # ps) (s # ss) = (seg_matches p s \<and> segs_match tail_ok ps ss)"

fun pattern_matches :: "string list \<Rightarrow> route_pattern \<Rightarrow> bool" where
  "pattern_matches ss (Exactly ps) = segs_match False ps ss"
| "pattern_matches ss (Prefix ps) = segs_match True ps ss"

definition path_segments :: "string \<Rightarrow> string list option" where
  "path_segments path =
     (case path of [] \<Rightarrow> None
      | c # r \<Rightarrow> if c = CHR ''/'' then Some (split_on CHR ''/'' r) else None)"

definition path_matches :: "string \<Rightarrow> route_pattern \<Rightarrow> bool" where
  "path_matches path p =
     (case path_segments path of None \<Rightarrow> False | Some ss \<Rightarrow> pattern_matches ss p)"

definition NO_SHELL_ROUTES :: "string list" where
  "NO_SHELL_ROUTES = [''/login'', ''/register'']"

definition PUBLIC_ROUTE_PATTERNS :: "route_pattern list" where
  "PUBLIC_ROUTE_PATTERNS =
     [Exactly [Lit []], Prefix [Lit ''public''], Exactly [Lit ''matches'', Any],
      Exactly [Lit ''match-series'', Any], Exactly [Lit ''live''], Exactly [Lit ''events'']]"

definition NO_SHELL_PATTERNS :: "route_pattern list" where
  "NO_SHELL_PATTERNS =
     [Exactly [Lit ''matches'', Any, Lit ''scoreboard''],
      Exactly [Lit ''overlay'', Lit ''court'', Any], Exactly [Lit ''overlay'', Lit ''demo'', Any],
      Exactly [Lit ''tv'', Lit ''tournaments'', Any], Exactly [Lit ''tv'', Lit ''courts'', Any]]"

datatype layout = BareLayout | PublicLayout | GuardedLayout

definition RootLayout :: "string \<Rightarrow> layout" where
  "RootLayout path =
     (if path \<in> set NO_SHELL_ROUTES \<or> list_ex (path_matches path) NO_SHELL_PATTERNS then BareLayout
      else if list_ex (path_matches path) PUBLIC_ROUTE_PATTERNS then PublicLayout
      else GuardedLayout)"

datatype guarded = GuardLoading | GuardLogin string | GuardChildren

definition AuthGuard :: "auth_view \<Rightarrow> string \<Rightarrow> guarded" where
  "AuthGuard auth path =
     (if av_loading auth then GuardLoading
      else if \<not> av_authenticated auth then GuardLogin path
      else GuardChildren)"

text \<open>Whether a path's page is in the document; an authenticated layout needs the user.\<close>

definition page_shown :: "auth_view \<Rightarrow> string \<Rightarrow> bool" where
  "page_shown auth path =
     (case RootLayout path of
        GuardedLayout \<Rightarrow> AuthGuard auth path = GuardChildren \<and> truthy (av_user auth)
      | _ \<Rightarrow> True)"

text \<open>
  The margin of the content beside the sidebar. The layout reads the stored choice once and
  again on \<open>storage\<close> events, which the browser sends to the other tabs only; the sidebar keeps a
  state of its own and writes it.
\<close>

record shell =
  sh_stored :: bool
  sh_sidebar :: bool
  sh_layout :: bool
  sh_mobile :: bool

text \<open>
  The two buttons of the sidebar are on the wide screen only. Its effect runs when it mounts and when its state or \<open>isMobile\<close> changes.\<close>

definition sidebar_effect :: "shell \<Rightarrow> shell" where
  "sidebar_effect s = (if sh_mobile s then s else s\<lparr> sh_stored := sh_sidebar s \<rparr>)"

definition shell_mount :: "bool \<Rightarrow> bool \<Rightarrow> shell" where
  "shell_mount stored mobile =
     sidebar_effect \<lparr> sh_stored = stored, sh_sidebar = stored, sh_layout = stored, sh_mobile = mobile \<rparr>"

datatype shell_event = ToggleSidebar | OtherTab bool | ShellMobile bool

fun shell_step :: "shell \<Rightarrow> shell_event \<Rightarrow> shell" where
  "shell_step s ToggleSidebar =
     (if sh_mobile s then s else sidebar_effect (s\<lparr> sh_sidebar := \<not> sh_sidebar s \<rparr>))"
| "shell_step s (OtherTab b) = s\<lparr> sh_stored := b, sh_layout := b \<rparr>"
| "shell_step s (ShellMobile m) =
     (if m = sh_mobile s then s else sidebar_effect (s\<lparr> sh_mobile := m \<rparr>))"

definition main_margin :: "shell \<Rightarrow> string" where
  "main_margin s =
     (if sh_mobile s then ''pt-14'' else if sh_layout s then ''ml-[220px]'' else ''ml-14'')"

definition sidebar_width :: "shell \<Rightarrow> string" where
  "sidebar_width s = (if sh_sidebar s then ''w-[220px]'' else ''w-14'')"

section \<open>Login and registration\<close>

definition login_redirect :: "string option \<Rightarrow> string" where
  "login_redirect search = (case search of None \<Rightarrow> ''/'' | Some t \<Rightarrow> if t = [] then ''/'' else t)"

record login_page =
  lp_email :: string
  lp_password :: string
  lp_error :: string

datatype login_event =
    LgEmail string
  | LgPassword string
  | LgSubmit
  | LgDone
  | LgFailed string

datatype login_effect = LgPost string string | LgNavigate string

fun login_step :: "string \<Rightarrow> login_page \<Rightarrow> login_event \<Rightarrow> login_page \<times> login_effect list" where
  "login_step to s (LgEmail t) = (s\<lparr> lp_email := t \<rparr>, [])"
| "login_step to s (LgPassword t) = (s\<lparr> lp_password := t \<rparr>, [])"
| "login_step to s LgSubmit =
     (if lp_email s = [] \<or> lp_password s = []
      then (s\<lparr> lp_error := ''Email and password are required'' \<rparr>, [])
      else (s\<lparr> lp_error := [] \<rparr>, [LgPost (lp_email s) (lp_password s)]))"
| "login_step to s LgDone = (s, [LgNavigate to])"
| "login_step to s (LgFailed t) = (s\<lparr> lp_error := str_or t ''Invalid email or password'' \<rparr>, [])"

record register_form =
  rf_first_name :: string
  rf_last_name :: string
  rf_email :: string
  rf_password :: string
  rf_date_of_birth :: string

text \<open>\<open>/^[^\s@]+@[^\s@]+\.[^\s@]+$/\<close>.\<close>

definition email_ok :: "string \<Rightarrow> bool" where
  "email_ok e \<longleftrightarrow>
     \<not> list_ex is_space e \<and>
     (case split_on CHR ''@'' e of
        [a, d] \<Rightarrow> a \<noteq> [] \<and> CHR ''.'' \<in> set (butlast (tl d))
      | _ \<Rightarrow> False)"

definition register_errors :: "register_form \<Rightarrow> (string \<times> string) list" where
  "register_errors f =
     (if trim (rf_first_name f) = [] then [(''first_name'', ''First name is required'')] else []) @
     (if trim (rf_last_name f) = [] then [(''last_name'', ''Last name is required'')] else []) @
     (if trim (rf_email f) = [] then [(''email'', ''Email is required'')]
      else if \<not> email_ok (rf_email f) then [(''email'', ''Invalid email'')] else []) @
     (if rf_password f = [] then [(''password'', ''Password is required'')]
      else if length (rf_password f) < 8 then [(''password'', ''At least 8 characters'')]
      else if length (rf_password f) > 72 then [(''password'', ''Maximum 72 characters'')] else []) @
     (if rf_date_of_birth f = [] then [(''date_of_birth'', ''Date of birth is required'')] else [])"

definition register_submit :: "register_form \<Rightarrow> (string \<times> string) list \<times> register_form option" where
  "register_submit f =
     (register_errors f, if register_errors f = [] then Some f else None)"

section \<open>The sidebar\<close>

definition baseAuthNavGroups :: "(string \<times> (string \<times> string) list) list" where
  "baseAuthNavGroups =
     [([], [(''Home'', ''/''), (''Dashboard'', ''/dashboard''), (''My Assets'', ''/manage'')]),
      (''Events'', [(''Leagues'', ''/leagues''), (''Tournaments'', ''/tournaments'')]),
      (''Manage'', [(''Venues & Courts'', ''/venues''), (''Players'', ''/players''), (''Teams'', ''/teams''),
         (''Organizations'', ''/organizations'')]),
      (''Scoring'', [(''Ref Console'', ''/ref''), (''Scorekeeper'', ''/scorekeeper''),
         (''Quick Match'', ''/quick-match'')]),
      (''Broadcast'', [(''Overlay'', ''/overlay'')])]"

definition adminNavGroup :: "string \<times> (string \<times> string) list" where
  "adminNavGroup = (''Admin'', [(''Admin'', ''/admin'')])"

definition SCORING_ROLES :: "string list" where
  "SCORING_ROLES =
     [''platform_admin'', ''tournament_director'', ''head_referee'', ''referee'', ''scorekeeper'']"

definition BROADCAST_ROLES :: "string list" where
  "BROADCAST_ROLES = [''platform_admin'', ''tournament_director'', ''broadcast_operator'']"

definition getAuthNavGroups :: "string option \<Rightarrow> (string \<times> (string \<times> string) list) list" where
  "getAuthNavGroups role =
     take 3 baseAuthNavGroups @
     (case role of None \<Rightarrow> []
      | Some r \<Rightarrow>
          (if r \<in> set SCORING_ROLES then [baseAuthNavGroups ! 3] else []) @
          (if r \<in> set BROADCAST_ROLES then [baseAuthNavGroups ! 4] else []) @
          (if r = ''platform_admin'' then [adminNavGroup] else []))"

section \<open>The search\<close>

record search_key =
  sk_key :: string
  sk_meta :: bool
  sk_ctrl :: bool
  sk_alt :: bool
  sk_in_field :: bool      (* the target is an input, textarea or select *)

definition search_shortcut :: "bool \<Rightarrow> search_key \<Rightarrow> bool" where
  "search_shortcut shown k =
     (let toggled = (if (sk_meta k \<or> sk_ctrl k) \<and> sk_key k = ''k'' then \<not> shown else shown) in
      if sk_key k = ''/'' \<and> \<not> sk_meta k \<and> \<not> sk_ctrl k \<and> \<not> sk_alt k \<and> \<not> sk_in_field k then True
      else toggled)"

definition useGlobalSearch :: "string \<Rightarrow> query" where
  "useGlobalSearch debouncedQuery =
     (use_query [Str ''search'', Str debouncedQuery]
        (ApiGet (''/api/v1/search?q='' @ encodeURIComponent debouncedQuery)))
     \<lparr> q_enabled := (2 \<le> length debouncedQuery), q_stale := 60000 \<rparr>"

record player_hit =
  ph_id :: int
  ph_public_id :: string
  ph_first_name :: string
  ph_last_name :: string
  ph_display_name :: "string option"
  ph_city :: "string option"
  ph_state :: "string option"
  ph_hidden :: bool

record place_hit =      (* organizations, leagues and venues *)
  lh_id :: int
  lh_name :: string
  lh_slug :: string
  lh_city :: "string option"
  lh_state :: "string option"

record team_hit =
  te_id :: int
  te_name :: string
  te_short_name :: string
  te_slug :: string

record tournament_hit =
  tu_id :: int
  tu_name :: string
  tu_slug :: string
  tu_status :: string

record search_results =
  sr_players :: "player_hit list"
  sr_teams :: "team_hit list"
  sr_organizations :: "place_hit list"
  sr_tournaments :: "tournament_hit list"
  sr_leagues :: "place_hit list"
  sr_venues :: "place_hit list"

definition EMPTY_RESULTS :: search_results where
  "EMPTY_RESULTS =
     \<lparr> sr_players = [], sr_teams = [], sr_organizations = [], sr_tournaments = [], sr_leagues = [],
       sr_venues = [] \<rparr>"

record search_item =
  si_id :: int
  si_label :: string
  si_subtitle :: "string option"
  si_link :: string

definition opt_join :: "string option list \<Rightarrow> string option" where
  "opt_join parts =
     (let t = join_present '', '' (map (\<lambda>p. case p of None \<Rightarrow> [] | Some s \<Rightarrow> s) parts) in
      if t = [] then None else Some t)"

definition mapPlayers :: "player_hit list \<Rightarrow> search_item list" where
  "mapPlayers ps =
     map (\<lambda>p. \<lparr> si_id = ph_id p,
                si_label = str_or (case ph_display_name p of None \<Rightarrow> [] | Some n \<Rightarrow> n)
                  (ph_first_name p @ '' '' @ ph_last_name p),
                si_subtitle = opt_join [ph_city p, ph_state p],
                si_link = ''/players/'' @ ph_public_id p \<rparr>)
       (take 3 (filter (\<lambda>p. \<not> ph_hidden p) ps))"

definition mapTeams :: "team_hit list \<Rightarrow> search_item list" where
  "mapTeams ts =
     map (\<lambda>t. \<lparr> si_id = te_id t, si_label = te_name t,
                si_subtitle = (if te_short_name t \<noteq> te_name t then Some (te_short_name t) else None),
                si_link = ''/teams/'' @ te_slug t \<rparr>) (take 3 ts)"

definition map_places :: "string \<Rightarrow> place_hit list \<Rightarrow> search_item list" where
  "map_places path ps =
     map (\<lambda>p. \<lparr> si_id = lh_id p, si_label = lh_name p, si_subtitle = opt_join [lh_city p, lh_state p],
                si_link = path @ lh_slug p \<rparr>) (take 3 ps)"

text \<open>\<open>status.replace(/_/g, ' ').replace(/\b\w/g, c => c.toUpperCase())\<close>.\<close>

definition word_char :: "char \<Rightarrow> bool" where
  "word_char c \<longleftrightarrow> is_digit c \<or> c = CHR ''_'' \<or>
     (let n = of_char c :: nat in 65 \<le> n \<and> n \<le> 90 \<or> 97 \<le> n \<and> n \<le> 122)"

fun capitalize :: "bool \<Rightarrow> string \<Rightarrow> string" where
  "capitalize inside [] = []"
| "capitalize inside (c # cs) =
     (if word_char c \<and> \<not> inside then to_upper c else c) # capitalize (word_char c) cs"

definition formatStatus :: "string \<Rightarrow> string" where
  "formatStatus s = capitalize False (map (\<lambda>c. if c = CHR ''_'' then CHR '' '' else c) s)"

definition mapTournaments :: "tournament_hit list \<Rightarrow> search_item list" where
  "mapTournaments ts =
     map (\<lambda>t. \<lparr> si_id = tu_id t, si_label = tu_name t, si_subtitle = Some (formatStatus (tu_status t)),
                si_link = ''/tournaments/'' @ tu_slug t \<rparr>) (take 3 ts)"

definition search_groups :: "search_results option \<Rightarrow> (string \<times> search_item list) list" where
  "search_groups results =
     (case results of None \<Rightarrow> []
      | Some r \<Rightarrow>
          [(''Players'', mapPlayers (sr_players r)), (''Teams'', mapTeams (sr_teams r)),
           (''Organizations'', map_places ''/organizations/'' (sr_organizations r)),
           (''Tournaments'', mapTournaments (sr_tournaments r)),
           (''Leagues'', map_places ''/leagues/'' (sr_leagues r)),
           (''Venues'', map_places ''/venues/'' (sr_venues r))])"

text \<open>The sections below the field, each on a condition of its own.\<close>

datatype search_section = SearchHint | Searching | NoResults string
  | Results "(string \<times> search_item list) list"

definition SearchModal :: "string \<Rightarrow> search_results option \<Rightarrow> bool \<Rightarrow> search_section list" where
  "SearchModal query results isLoading =
     (let groups = search_groups results;
          hasResults = list_ex (\<lambda>(t, found). found \<noteq> []) groups;
          trimmed = trim query
      in (if trimmed = [] then [SearchHint] else []) @
         (if 2 \<le> length trimmed \<and> isLoading then [Searching] else []) @
         (if 2 \<le> length trimmed \<and> \<not> isLoading \<and> \<not> hasResults then [NoResults trimmed] else []) @
         (if hasResults then [Results (filter (\<lambda>(t, found). found \<noteq> []) groups)] else []))"

text \<open>
  The modal over the query library: \<open>observe placeholder own fetching\<close> is what the library
  answers, the data and \<open>isLoading\<close>, for a query with that placeholder, the data of its own
  and whether a request is under way.
\<close>

definition search_screen ::
    "(search_results \<Rightarrow> search_results option \<Rightarrow> bool \<Rightarrow> search_results option \<times> bool) \<Rightarrow>
     string \<Rightarrow> search_results option \<Rightarrow> bool \<Rightarrow> search_section list" where
  "search_screen observe query own fetching =
     (let (results, isLoading) = observe EMPTY_RESULTS own fetching in SearchModal query results isLoading)"

section \<open>Hooks on browser events\<close>

record install_prompt =
  ip_deferred :: bool
  ip_dismissed :: bool
  ip_installed :: bool
  ip_stored :: bool       (* the session storage has the dismissal *)

definition useInstallPrompt :: "bool \<Rightarrow> bool \<Rightarrow> install_prompt" where
  "useInstallPrompt stored standalone =
     \<lparr> ip_deferred = False, ip_dismissed = stored, ip_installed = standalone, ip_stored = stored \<rparr>"

datatype install_event =
    BeforeInstall
  | AppInstalled
  | PromptAnswered bool      (* accepted *)
  | DismissInstall

fun install_step :: "install_prompt \<Rightarrow> install_event \<Rightarrow> install_prompt" where
  "install_step s BeforeInstall = s\<lparr> ip_deferred := True \<rparr>"
| "install_step s AppInstalled = s\<lparr> ip_installed := True \<rparr>"
| "install_step s (PromptAnswered accepted) =
     (if ip_deferred s then s\<lparr> ip_installed := (accepted \<or> ip_installed s), ip_deferred := False \<rparr> else s)"
| "install_step s DismissInstall = s\<lparr> ip_dismissed := True, ip_stored := True \<rparr>"

definition canInstall :: "install_prompt \<Rightarrow> bool" where
  "canInstall s \<longleftrightarrow> ip_deferred s \<and> \<not> ip_dismissed s \<and> \<not> ip_installed s"

text \<open>\<open>useMediaQuery\<close>: the query, and the answer of the browser it shows.\<close>

record media = mq_query :: string  mq_matches :: bool

datatype media_event = MqQuery string | MqChange bool

fun media_step :: "(string \<Rightarrow> bool) \<Rightarrow> media \<Rightarrow> media_event \<Rightarrow> media" where
  "media_step now s (MqQuery q) =
     (if q = mq_query s then s else \<lparr> mq_query = q, mq_matches = now q \<rparr>)"
| "media_step now s (MqChange m) = s\<lparr> mq_matches := m \<rparr>"

definition useMediaQuery :: "(string \<Rightarrow> bool) \<Rightarrow> string \<Rightarrow> media" where
  "useMediaQuery now q = \<lparr> mq_query = q, mq_matches = now q \<rparr>"

definition useIsMobile :: "media \<Rightarrow> bool" where
  "useIsMobile m = (\<not> mq_matches m)"

text \<open>\<open>useOnlineStatus\<close> follows \<open>navigator.onLine\<close>; the banner is its negation.\<close>

definition OfflineBanner :: "bool \<Rightarrow> bool" where
  "OfflineBanner onLine = (\<not> onLine)"

section \<open>Lemmas\<close>

lemma segs_match_length:
  "segs_match False ps ss \<Longrightarrow> length ss = length ps"
  by (induction "False" ps ss rule: segs_match.induct) auto

lemma open_paths:
  assumes "RootLayout path \<noteq> GuardedLayout"
  obtains "path \<in> {''/login'', ''/register''}"
  | ss where "path_segments path = Some ss" "hd ss \<in> {[], ''public'', ''matches'', ''match-series'',
      ''live'', ''events'', ''overlay'', ''tv''}" "hd ss = ''overlay'' \<longrightarrow> length ss = 3"
proof -
  consider "path \<in> {''/login'', ''/register''}"
    | p where "p \<in> set (NO_SHELL_PATTERNS @ PUBLIC_ROUTE_PATTERNS)" "path_matches path p"
    using assms by (auto simp: RootLayout_def NO_SHELL_ROUTES_def list_ex_iff split: if_splits)
  then show thesis
  proof cases
    case 1
    then show ?thesis by (rule that(1))
  next
    case 2
    then obtain ss where ss: "path_segments path = Some ss" "pattern_matches ss p"
      by (auto simp: path_matches_def split: option.splits)
    have "hd ss \<in> {[], ''public'', ''matches'', ''match-series'', ''live'', ''events'', ''overlay'', ''tv''}
        \<and> (hd ss = ''overlay'' \<longrightarrow> length ss = 3)"
      using 2(1) ss(2)
      by (cases ss) (auto simp: NO_SHELL_PATTERNS_def PUBLIC_ROUTE_PATTERNS_def dest!: segs_match_length)
    then show ?thesis using ss(1) that(2) by blast
  qed
qed

text \<open>The narrow screen keeps the sidebar's state as it is.\<close>

fun this_tab :: "shell_event \<Rightarrow> bool" where
  "this_tab (OtherTab b) = False"
| "this_tab e = True"

lemma shell_step_this_tab:
  assumes "this_tab e"
  shows "sh_layout (shell_step s e) = sh_layout s"
  using assms by (cases e) (simp_all add: sidebar_effect_def)

lemma shell_step_written:
  assumes "\<not> sh_mobile s \<longrightarrow> sh_stored s = sh_sidebar s" "this_tab e"
  shows "\<not> sh_mobile (shell_step s e) \<longrightarrow> sh_stored (shell_step s e) = sh_sidebar (shell_step s e)"
  using assms by (cases e) (simp_all add: sidebar_effect_def)

lemma shell_run_this_tab:
  assumes "list_all this_tab es" "\<not> sh_mobile s \<longrightarrow> sh_stored s = sh_sidebar s"
  defines "t \<equiv> run shell_step s es"
  shows "sh_layout t = sh_layout s \<and> (\<not> sh_mobile t \<longrightarrow> sh_stored t = sh_sidebar t)"
  using assms(1,2) unfolding t_def
proof (induction es arbitrary: s)
  case (Cons e es)
  then show ?case
    using shell_step_this_tab [of e s] shell_step_written [of s e] by simp
qed simp

lemma shell_mount_written:
  "sh_layout (shell_mount b m) = b \<and> (\<not> sh_mobile (shell_mount b m) \<longrightarrow>
     sh_stored (shell_mount b m) = sh_sidebar (shell_mount b m))"
  by (simp add: shell_mount_def sidebar_effect_def)

lemma search_groups_empty:
  "search_groups (Some EMPTY_RESULTS) = map (\<lambda>t. (t, []))
     [''Players'', ''Teams'', ''Organizations'', ''Tournaments'', ''Leagues'', ''Venues'']"
  by (simp add: search_groups_def EMPTY_RESULTS_def mapPlayers_def mapTeams_def map_places_def
      mapTournaments_def)

text \<open>A hidden player is in no result, and a group never has more than three.\<close>

lemma search_groups_small:
  assumes "(t, found) \<in> set (search_groups results)"
  shows "length found \<le> 3"
proof (cases results)
  case None
  then show ?thesis using assms by (simp add: search_groups_def)
next
  case (Some r)
  have sizes: "length (mapPlayers ps) \<le> 3" "length (mapTeams ts) \<le> 3" "length (map_places x ls) \<le> 3"
    "length (mapTournaments us) \<le> 3" for ps ts x ls us
    by (simp_all add: mapPlayers_def mapTeams_def map_places_def mapTournaments_def)
  show ?thesis using assms unfolding Some search_groups_def option.case by (auto intro: sizes)
qed

lemma mapPlayers_visible:
  assumes "it \<in> set (mapPlayers ps)"
  shows "\<exists>p \<in> set ps. \<not> ph_hidden p \<and> si_link it = ''/players/'' @ ph_public_id p"
proof -
  from assms obtain p where p: "p \<in> set (take 3 (filter (\<lambda>p. \<not> ph_hidden p) ps))"
      "si_link it = ''/players/'' @ ph_public_id p"
    by (auto simp: mapPlayers_def)
  from in_set_takeD [OF p(1)] p(2) show ?thesis by auto
qed

text \<open>Once dismissed, the banner stays away for the session, also after a reload.\<close>

lemma install_dismissed:
  "ip_dismissed s \<Longrightarrow> ip_dismissed (install_step s e)"
  by (cases e) auto

lemma install_dismissed_run:
  "ip_dismissed s \<Longrightarrow> \<not> canInstall (run install_step s es)"
proof (induction es arbitrary: s)
  case (Cons e es)
  then show ?case by (simp add: install_dismissed)
qed (simp add: canInstall_def)

lemma login_posts:
  "LgPost e p \<in> set (snd (login_step to s ev)) \<longleftrightarrow>
     ev = LgSubmit \<and> e = lp_email s \<and> p = lp_password s \<and> e \<noteq> [] \<and> p \<noteq> []"
  by (cases ev) auto

section \<open>Theorems\<close>



text \<open>
  Opening or closing the sidebar never moves the page beside it: as long as no other tab
  changes the stored choice, the margin of the content is the one for the choice that was stored
  when the page mounted, whatever the sidebar shows and has written. After one click the sidebar
  and the margin therefore disagree, and the choice that the next mount reads is the new one.
\<close>

theorem sidebar_margin_stale:
  fixes b m :: bool
  assumes "list_all this_tab es"
  defines "s \<equiv> run shell_step (shell_mount b m) es"
  shows "(\<not> sh_mobile s \<longrightarrow> main_margin s = (if b then ''ml-[220px]'' else ''ml-14'') \<and>
        sh_stored s = sh_sidebar s) \<and>
     (\<not> sh_mobile s \<and> sh_sidebar s = b \<longrightarrow>
        (let t = shell_step s ToggleSidebar in
           sidebar_width t = (if b then ''w-14'' else ''w-[220px]'') \<and> main_margin t = main_margin s \<and>
           main_margin (shell_mount (sh_stored t) False) = (if b then ''ml-14'' else ''ml-[220px]'')))"
proof -
  have "sh_layout s = b" "\<not> sh_mobile s \<Longrightarrow> sh_stored s = sh_sidebar s"
    using shell_run_this_tab [OF assms(1), of "shell_mount b m"] shell_mount_written [of b m]
    unfolding s_def by auto
  then show ?thesis
    by (auto simp: main_margin_def sidebar_width_def sidebar_effect_def shell_mount_def)
qed

theorem sidebar_margin_stale_witness:
  "sidebar_width (shell_step (shell_mount True False) ToggleSidebar) = ''w-14'' \<and>
   main_margin (shell_step (shell_mount True False) ToggleSidebar) = ''ml-[220px]''"
  using sidebar_margin_stale [of "[]" True False]
  by (simp add: shell_mount_def sidebar_effect_def main_margin_def)

text \<open>
  While a search for two or more characters waits for its first answer the dialog says that
  nothing was found: the placeholder counts as an answer, so the line that says it is searching
  is never shown. This rests on the query library: with a placeholder and no data of its own it
  answers with the placeholder, and it is loading only while it has nothing to answer with.
\<close>

theorem search_never_searching:
  assumes "\<And>p fetching. observe p None fetching = (Some p, False)"
    and "\<And>p d fetching. observe p (Some d) fetching = (Some d, False)"
  shows "Searching \<notin> set (search_screen observe query own fetching) \<and>
     (2 \<le> length (trim query) \<longrightarrow>
        search_screen observe query None True = [NoResults (trim query)])"
proof -
  have no_hits: "\<not> list_ex (\<lambda>(t, found). found \<noteq> []) (search_groups (Some EMPTY_RESULTS))"
    by (simp add: search_groups_empty)
  show ?thesis
    using no_hits
    by (cases own) (auto simp: search_screen_def SearchModal_def assms Let_def)
qed

theorem search_never_searching_witness:
  "search_screen (\<lambda>p own fetching. (case own of None \<Rightarrow> Some p | Some d \<Rightarrow> Some d, False))
     '' ann '' None True = [NoResults ''ann'']"
  using search_never_searching
    [of "\<lambda>p own fetching. (case own of None \<Rightarrow> Some p | Some d \<Rightarrow> Some d, False)" "'' ann ''"]
  by (simp add: trim_def is_space_def)

lemma register_errors_Nil:
  "register_errors f = [] \<longleftrightarrow>
     trim (rf_first_name f) \<noteq> [] \<and> trim (rf_last_name f) \<noteq> [] \<and> trim (rf_email f) \<noteq> [] \<and>
     email_ok (rf_email f) \<and> 8 \<le> length (rf_password f) \<and> length (rf_password f) \<le> 72 \<and>
     rf_date_of_birth f \<noteq> []"
  unfolding register_errors_def append_is_Nil_conv by (cases "rf_password f = []") auto

lemma register_errors_distinct: "distinct (map fst (register_errors f))"
  unfolding register_errors_def by simp

text \<open>
  A registration is sent exactly when every field passes: the names are not blank, the
  address has a name, one at sign and a dotted domain without a space, the password has eight to
  seventy-two characters and there is a date of birth. Otherwise nothing is sent and the first
  fault of each field is shown, one message for a field at most.
\<close>

theorem register_validates:
  "(snd (register_submit f) = Some g \<longleftrightarrow>
      g = f \<and> trim (rf_first_name f) \<noteq> [] \<and> trim (rf_last_name f) \<noteq> [] \<and> trim (rf_email f) \<noteq> [] \<and>
      email_ok (rf_email f) \<and> 8 \<le> length (rf_password f) \<and> length (rf_password f) \<le> 72 \<and>
      rf_date_of_birth f \<noteq> []) \<and>
   distinct (map fst (fst (register_submit f))) \<and>
   (snd (register_submit f) = None \<longleftrightarrow> fst (register_submit f) \<noteq> [])"
  using register_errors_Nil [of f] register_errors_distinct [of f] by (auto simp: register_submit_def)

end
