(* ===== verification/Text_Components.thy ===== *)
theory Text_Components
  imports App_Shell
begin

text \<open>
  The shared components that turn a text of the server into what is shown: the embedded player
  (\<open>web/src/components/StreamEmbed.tsx\<close>), the rich text (\<open>RichTextDisplay.tsx\<close>), the status badge
  (\<open>StatusBadge.tsx\<close>), the parts of an address (\<open>AddressInput.tsx\<close>), the age of an article
  (\<open>NewsWidget.tsx\<close>) and the page buttons (\<open>Pagination.tsx\<close>). A regular expression is a matcher: a
  function of the rest of the text, tried at every position from the left.
\<close>

section \<open>Matchers\<close>

definition is_letter :: "char \<Rightarrow> bool" where
  "is_letter c \<longleftrightarrow> (let n = of_char c :: nat in 65 \<le> n \<and> n \<le> 90 \<or> 97 \<le> n \<and> n \<le> 122)"

definition is_alnum :: "char \<Rightarrow> bool" where
  "is_alnum c \<longleftrightarrow> is_letter c \<or> is_digit c"

fun strip_prefix :: "string \<Rightarrow> string \<Rightarrow> string option" where
  "strip_prefix [] s = Some s"
| "strip_prefix (p # ps) [] = None"
| "strip_prefix (p # ps) (c # cs) = (if c = p then strip_prefix ps cs else None)"

text \<open>The leftmost match.\<close>

fun search_at :: "(string \<Rightarrow> 'a option) \<Rightarrow> string \<Rightarrow> 'a option" where
  "search_at m [] = m []"
| "search_at m (c # cs) = (case m (c # cs) of Some x \<Rightarrow> Some x | None \<Rightarrow> search_at m cs)"

text \<open>
  \<open>s.replace(/.../g, f)\<close>: the matcher gives the replacement and the number of characters of the
  match after its first.
\<close>

fun replace_all :: "(string \<Rightarrow> (string \<times> nat) option) \<Rightarrow> string \<Rightarrow> string" where
  "replace_all m [] = []"
| "replace_all m (c # cs) =
     (case m (c # cs) of
        None \<Rightarrow> c # replace_all m cs
      | Some (t, n) \<Rightarrow> t @ replace_all m (drop n cs))"

section \<open>The embedded player\<close>

definition video_char :: "char \<Rightarrow> bool" where
  "video_char c \<longleftrightarrow> is_alnum c \<or> c = CHR ''_'' \<or> c = CHR ''-''"

definition youtube_prefixes :: "string list" where
  "youtube_prefixes =
     [''youtube.com/watch?v='', ''youtu.be/'', ''youtube.com/embed/'', ''youtube.com/live/'']"

definition youtube_id_at :: "string \<Rightarrow> string \<Rightarrow> string option" where
  "youtube_id_at p s =
     (case strip_prefix p s of None \<Rightarrow> None
      | Some r \<Rightarrow> if 11 \<le> length r \<and> list_all video_char (take 11 r) then Some (take 11 r) else None)"

definition youtube_at :: "string \<Rightarrow> string option" where
  "youtube_at s =
     (case filter (\<lambda>x. x \<noteq> None) (map (\<lambda>p. youtube_id_at p s) youtube_prefixes) of
        [] \<Rightarrow> None | x # _ \<Rightarrow> x)"

definition extractYouTubeId :: "string \<Rightarrow> string option" where
  "extractYouTubeId url = search_at youtube_at url"

definition twitch_at :: "string \<Rightarrow> string option" where
  "twitch_at s =
     (case strip_prefix ''twitch.tv/'' s of None \<Rightarrow> None
      | Some r \<Rightarrow> (let c = takeWhile (\<lambda>c. is_alnum c \<or> c = CHR ''_'') r in if c = [] then None else Some c))"

definition extractTwitchChannel :: "string \<Rightarrow> string option" where
  "extractTwitchChannel url = search_at twitch_at url"

definition vimeo_at :: "string \<Rightarrow> string option" where
  "vimeo_at s =
     (case strip_prefix ''vimeo.com/'' s of None \<Rightarrow> None
      | Some r \<Rightarrow>
          (let r1 = (case strip_prefix ''video/'' r of None \<Rightarrow> r | Some t \<Rightarrow> t); d = takeWhile is_digit r1
           in if d = [] then None else Some d))"

definition extractVimeoId :: "string \<Rightarrow> string option" where
  "extractVimeoId url = search_at vimeo_at url"

definition has_text :: "string \<Rightarrow> string \<Rightarrow> bool" where
  "has_text p s \<longleftrightarrow> search_at (strip_prefix p) s \<noteq> None"

definition detectStreamType :: "string \<Rightarrow> string" where
  "detectStreamType url =
     (if has_text ''youtube.com'' url \<or> has_text ''youtu.be'' url then ''youtube''
      else if has_text ''twitch.tv'' url then ''twitch''
      else if has_text ''vimeo.com'' url then ''vimeo''
      else if has_text ''.m3u8'' url then ''hls''
      else ''other'')"

datatype embed =
    Frame string bool      (* the address of the frame, and whether the badge is shown *)
  | FallbackEmbed string
  | HLSPlayer string bool

definition framed :: "string option \<Rightarrow> string \<Rightarrow> string \<Rightarrow> string \<Rightarrow> bool \<Rightarrow> embed" where
  "framed found before after url live =
     (case found of None \<Rightarrow> FallbackEmbed url | Some v \<Rightarrow> Frame (before @ v @ after) live)"

definition StreamEmbed :: "string \<Rightarrow> string \<Rightarrow> string option \<Rightarrow> bool \<Rightarrow> embed" where
  "StreamEmbed hostname url type isLive =
     (let streamType = (case type of None \<Rightarrow> detectStreamType url | Some t \<Rightarrow> t) in
      if streamType = ''youtube'' then
        framed (extractYouTubeId url) ''https://www.youtube.com/embed/'' ''?autoplay=1&mute=1'' url isLive
      else if streamType = ''twitch'' then
        framed (extractTwitchChannel url) ''https://player.twitch.tv/?channel=''
          (''&parent='' @ hostname @ ''&muted=true'') url isLive
      else if streamType = ''vimeo'' then
        framed (extractVimeoId url) ''https://player.vimeo.com/video/'' ''?autoplay=1&muted=1'' url isLive
      else if streamType = ''hls'' then HLSPlayer url isLive
      else FallbackEmbed url)"

section \<open>Rich text\<close>

definition ALLOWED_TAGS :: "string list" where
  "ALLOWED_TAGS =
     [''p'', ''br'', ''b'', ''i'', ''em'', ''strong'', ''u'', ''a'', ''ul'', ''ol'', ''li'',
      ''h1'', ''h2'', ''h3'', ''h4'', ''h5'', ''h6'', ''blockquote'', ''pre'', ''code'',
      ''img'', ''hr'', ''table'', ''thead'', ''tbody'', ''tr'', ''th'', ''td'',
      ''div'', ''span'', ''iframe'']"

definition ALLOWED_ATTRS :: "string list" where
  "ALLOWED_ATTRS =
     [''href'', ''target'', ''rel'', ''src'', ''alt'', ''width'', ''height'',
      ''class'', ''style'', ''colspan'', ''rowspan'']"

text \<open>\<open>/\s([a-zA-Z-]+)="[^"]*"/g\<close>.\<close>

definition attr_at :: "string \<Rightarrow> (string \<times> nat) option" where
  "attr_at s =
     (case s of [] \<Rightarrow> None
      | c # r \<Rightarrow>
          (let name = takeWhile (\<lambda>c. is_letter c \<or> c = CHR ''-'') r;
               rest = drop (length name) r
           in if \<not> is_space c \<or> name = [] then None
              else (case strip_prefix ''=\"'' rest of None \<Rightarrow> None
                | Some v \<Rightarrow>
                    if CHR 0x22 \<notin> set v then None
                    else (let n = length name + 2 + length (takeWhile (\<lambda>c. c \<noteq> CHR 0x22) v) + 1
                      in Some (if map to_lower name \<in> set ALLOWED_ATTRS then take (Suc n) s else [], n)))))"

text \<open>\<open>/<\/?([a-zA-Z][a-zA-Z0-9]*)\b[^>]*>/g\<close>: the tag ends where the word does.\<close>

definition tag_at :: "string \<Rightarrow> (string \<times> nat) option" where
  "tag_at s =
     (case s of [] \<Rightarrow> None
      | c # r \<Rightarrow>
          (let r1 = (case r of [] \<Rightarrow> [] | d # x \<Rightarrow> if d = CHR ''/'' then x else r);
               tag = takeWhile is_alnum r1;
               after = dropWhile is_alnum r1
           in if c \<noteq> CHR ''<'' \<or> tag = [] \<or> \<not> is_letter (hd tag) \<or> CHR ''>'' \<notin> set after \<or>
                  word_char (hd after) then None
              else (let n = length r - length (tl (dropWhile (\<lambda>c. c \<noteq> CHR ''>'') after))
                in Some (if map to_lower tag \<in> set ALLOWED_TAGS then replace_all attr_at (take (Suc n) s)
                         else [], n))))"

text \<open>Case is ignored from here on: the pattern is in small letters.\<close>

fun strip_lower :: "string \<Rightarrow> string \<Rightarrow> string option" where
  "strip_lower [] s = Some s"
| "strip_lower (p # ps) [] = None"
| "strip_lower (p # ps) (c # cs) = (if to_lower c = p then strip_lower ps cs else None)"

text \<open>\<open>/<script\b[^>]*>[\s\S]*?<\/script>/gi\<close>: to the first closing tag after the opening one.\<close>

definition script_at :: "string \<Rightarrow> (string \<times> nat) option" where
  "script_at s =
     (case strip_lower ''<script'' s of None \<Rightarrow> None
      | Some r \<Rightarrow>
          if CHR ''>'' \<notin> set r \<or> word_char (hd r) then None
          else (case search_at (strip_lower ''</script>'') (tl (dropWhile (\<lambda>c. c \<noteq> CHR ''>'') r)) of
                  None \<Rightarrow> None
                | Some rest \<Rightarrow> Some ([], length s - length rest - 1)))"

text \<open>\<open>/on\w+="[^"]*"/gi\<close>.\<close>

definition on_at :: "string \<Rightarrow> (string \<times> nat) option" where
  "on_at s =
     (case strip_lower ''on'' s of None \<Rightarrow> None
      | Some r \<Rightarrow>
          (let name = takeWhile word_char r in
           if name = [] then None
           else (case strip_prefix ''=\"'' (drop (length name) r) of None \<Rightarrow> None
             | Some v \<Rightarrow> if CHR 0x22 \<notin> set v then None
                 else Some ([], length s - length (tl (dropWhile (\<lambda>c. c \<noteq> CHR 0x22) v)) - 1))))"

definition javascript_at :: "string \<Rightarrow> (string \<times> nat) option" where
  "javascript_at s = (case strip_lower ''javascript:'' s of None \<Rightarrow> None | Some r \<Rightarrow> Some ([], 10))"

definition sanitizeHtml :: "string \<Rightarrow> string" where
  "sanitizeHtml html =
     replace_all javascript_at (replace_all on_at (replace_all script_at (replace_all tag_at html)))"

definition RichTextDisplay :: "string option \<Rightarrow> string option" where
  "RichTextDisplay html =
     (let sanitized = (case html of None \<Rightarrow> [] | Some h \<Rightarrow> if h = [] then [] else sanitizeHtml h)
      in if sanitized = [] then None else Some sanitized)"

section \<open>Badges, ages and pages\<close>

definition STATUS_VARIANTS :: "(string \<times> string) list" where
  "STATUS_VARIANTS =
     [(''draft'', ''default''), (''published'', ''info''), (''registration_open'', ''success''),
      (''registration_closed'', ''warning''), (''in_progress'', ''success''), (''completed'', ''default''),
      (''archived'', ''default''), (''cancelled'', ''error''), (''active'', ''success''), (''seeding'', ''info''),
      (''pending'', ''warning''), (''approved'', ''success''), (''waitlisted'', ''info''), (''rejected'', ''error''),
      (''withdrawn'', ''default''), (''checked_in'', ''success''), (''no_show'', ''error''),
      (''withdrawn_mid_tournament'', ''warning''), (''pending_review'', ''warning''), (''suspended'', ''error'')]"

text \<open>The variant and the text of the badge; its \<open>formatStatus\<close> has the body of the search's.\<close>

definition StatusBadge :: "string \<Rightarrow> string \<times> string" where
  "StatusBadge s =
     (case map_of STATUS_VARIANTS s of None \<Rightarrow> ''default'' | Some v \<Rightarrow> v, formatStatus s)"

text \<open>\<open>now\<close> and the time of publication in milliseconds.\<close>

definition timeAgo :: "int \<Rightarrow> int \<Rightarrow> string" where
  "timeAgo now published =
     (let seconds = (now - published) div 1000; minutes = seconds div 60; hours = minutes div 60;
          days = hours div 24; months = days div 30
      in if seconds < 60 then ''just now''
         else if minutes < 60 then show_int minutes @ ''m ago''
         else if hours < 24 then show_int hours @ ''h ago''
         else if days < 30 then show_int days @ ''d ago''
         else show_int months @ ''mo ago'')"

datatype page_button = PreviousPage | NextPage

text \<open>The line of text and the buttons that can be pressed with the page each asks for.\<close>

definition Pagination :: "int \<Rightarrow> int \<Rightarrow> (string \<times> (page_button \<times> int) list) option" where
  "Pagination page totalPages =
     (if totalPages \<le> 1 then None
      else Some (''Page '' @ show_int page @ '' of '' @ show_int totalPages,
        (if page \<le> 1 then [] else [(PreviousPage, page - 1)]) @
        (if page \<ge> totalPages then [] else [(NextPage, page + 1)])))"

record scoring_preset =
  sp_id :: int
  sp_name :: string
  sp_sets_to_win :: int
  sp_points_to_win :: int
  sp_win_by :: int
  sp_rally_scoring :: bool

definition summarize :: "scoring_preset \<Rightarrow> string" where
  "summarize p =
     show_int (sp_points_to_win p) @ '' win-by-'' @ show_int (sp_win_by p) @ '', '' @
     (if sp_sets_to_win p > 1 then ''Best of '' @ show_int (2 * sp_sets_to_win p - 1) else ''1 game'') @
     '', '' @ (if sp_rally_scoring p then ''rally'' else ''sideout'')"

section \<open>Addresses\<close>

record address_component =
  ac_types :: "string list"
  ac_long :: string
  ac_short :: string

record place =
  pl_components :: "address_component list option"
  pl_location :: "(rat \<times> rat) option"
  pl_formatted :: "string option"
  pl_name :: "string option"

record address =
  ad_formatted :: string
  ad_city :: string
  ad_state :: string
  ad_country :: string
  ad_postal :: string
  ad_line_1 :: string
  ad_line_2 :: string
  ad_latitude :: "rat option"
  ad_longitude :: "rat option"

definition EMPTY_ADDRESS :: address where
  "EMPTY_ADDRESS =
     \<lparr> ad_formatted = [], ad_city = [], ad_state = [], ad_country = [], ad_postal = [],
       ad_line_1 = [], ad_line_2 = [], ad_latitude = None, ad_longitude = None \<rparr>"

definition parse_component :: "address_component \<Rightarrow> address \<Rightarrow> address" where
  "parse_component part a =
     (let types = set (ac_types part); line = ad_line_1 a in
      if ''street_number'' \<in> types then
        a\<lparr> ad_line_1 := ac_long part @ (if line \<noteq> [] then '' '' @ line else []) \<rparr>
      else if ''route'' \<in> types then
        a\<lparr> ad_line_1 := line @ (if line \<noteq> [] then '' '' else []) @ ac_long part \<rparr>
      else if ''locality'' \<in> types \<or> ''sublocality_level_1'' \<in> types then a\<lparr> ad_city := ac_long part \<rparr>
      else if ''administrative_area_level_1'' \<in> types then a\<lparr> ad_state := ac_short part \<rparr>
      else if ''country'' \<in> types then a\<lparr> ad_country := ac_short part \<rparr>
      else if ''postal_code'' \<in> types then a\<lparr> ad_postal := ac_long part \<rparr>
      else a)"

definition opt_text :: "string option \<Rightarrow> string" where
  "opt_text t = (case t of None \<Rightarrow> [] | Some s \<Rightarrow> s)"

definition parsePlace :: "place \<Rightarrow> address" where
  "parsePlace p =
     (let a0 = fold parse_component (case pl_components p of None \<Rightarrow> [] | Some cs \<Rightarrow> cs) EMPTY_ADDRESS;
          a1 = (case pl_location p of None \<Rightarrow> a0
                | Some (lat, lng) \<Rightarrow> a0\<lparr> ad_latitude := Some lat, ad_longitude := Some lng \<rparr>);
          name = opt_text (pl_name p);
          formatted = opt_text (pl_formatted p);
          a2 = a1\<lparr> ad_formatted :=
                 (if name \<noteq> [] \<and> formatted \<noteq> [] \<and> strip_prefix name formatted = None
                  then name @ '', '' @ formatted else formatted) \<rparr>
      in if ad_line_1 a2 = [] \<and> name \<noteq> [] then a2\<lparr> ad_line_1 := name \<rparr> else a2)"

section \<open>Lemmas\<close>

lemma strip_prefix_append [simp]: "strip_prefix p (p @ s) = Some s"
  by (induction p) simp_all

lemma strip_prefix_iff: "strip_prefix p s = Some r \<longleftrightarrow> s = p @ r"
  by (induction p s rule: strip_prefix.induct) auto

lemma search_at_Some:
  assumes "search_at m s = Some x"
  obtains t where "m t = Some x"
  using assms by (induction m s rule: search_at.induct) (auto split: option.splits)

text \<open>A pattern that matches nowhere leaves the text as it is.\<close>

lemma replace_all_id:
  assumes "\<And>a c b. s = a @ c # b \<Longrightarrow> m (c # b) = None"
  shows "replace_all m s = s"
  using assms
proof (induction s)
  case (Cons c s)
  have "m (c # s) = None" using Cons.prems [of "[]"] by simp
  moreover have "replace_all m s = s"
  proof (rule Cons.IH)
    fix a d b assume "s = a @ d # b"
    then show "m (d # b) = None" using Cons.prems [of "c # a"] by simp
  qed
  ultimately show ?case by simp
qed simp

text \<open>No letter has a character below the letters as its small one.\<close>

lemma to_lower_low:
  assumes "(of_char d :: nat) < 65"
  shows "to_lower c = d \<longleftrightarrow> c = d"
proof (cases "65 \<le> (of_char c :: nat) \<and> (of_char c :: nat) \<le> 90")
  case True
  then have "(of_char (to_lower c) :: nat) = of_char c + 32"
    by (simp add: to_lower_def of_char_of)
  then have "to_lower c \<noteq> d" "c \<noteq> d" using assms True by auto
  then show ?thesis by simp
next
  case False
  then have "to_lower c = c" unfolding to_lower_def Let_def by (rule if_not_P)
  then show ?thesis by simp
qed

lemma to_lower_colon [simp]: "to_lower c = CHR 0x3A \<longleftrightarrow> c = CHR 0x3A"
    "CHR 0x3A = to_lower c \<longleftrightarrow> c = CHR 0x3A"
  using to_lower_low [of "CHR 0x3A" c] by auto

lemma to_lower_less [simp]: "to_lower c = CHR ''<'' \<longleftrightarrow> c = CHR ''<''"
  using to_lower_low [of "CHR ''<''" c] by auto

lemma strip_lower_colon: "CHR 0x3A \<in> set p \<Longrightarrow> strip_lower p s = Some r \<Longrightarrow> CHR 0x3A \<in> set s"
  by (induction p s rule: strip_lower.induct) (auto split: if_splits)

lemma javascript_at_id: "CHR 0x3A \<notin> set s \<Longrightarrow> replace_all javascript_at s = s"
  by (rule replace_all_id)
    (auto simp: javascript_at_def split: option.split dest!: strip_lower_colon [rotated])

lemma strip_prefix_set: "strip_prefix p s = Some r \<Longrightarrow> set p \<subseteq> set s \<and> set r \<subseteq> set s"
  by (auto simp: strip_prefix_iff)

lemma strip_lower_set: "strip_lower p s = Some r \<Longrightarrow> set r \<subseteq> set s"
  by (induction p s rule: strip_lower.induct) (auto split: if_splits)

lemma attr_at_quote:
  assumes "CHR 0x22 \<notin> set s"
  shows "attr_at s = None"
  using assms
  by (cases s)
    (auto simp: attr_at_def Let_def split: option.splits dest!: strip_prefix_set dest: in_set_dropD)

lemma on_at_quote:
  assumes "CHR 0x22 \<notin> set s"
  shows "on_at s = None"
  using assms
  by (auto simp: on_at_def Let_def split: option.splits
      dest!: strip_prefix_set strip_lower_set dest: in_set_dropD)

lemma attr_at_id: "CHR 0x22 \<notin> set s \<Longrightarrow> replace_all attr_at s = s"
  by (rule replace_all_id) (auto intro!: attr_at_quote)

lemma on_at_id: "CHR 0x22 \<notin> set s \<Longrightarrow> replace_all on_at s = s"
  by (rule replace_all_id) (auto intro!: on_at_quote)

lemma search_at_set:
  assumes "search_at (strip_lower p) s = Some r" "p \<noteq> []"
  shows "\<exists>c \<in> set s. to_lower c = hd p"
  using assms(1)
proof (induction s)
  case Nil
  then show ?case using assms(2) by (cases p) simp_all
next
  case (Cons c s)
  show ?case
  proof (cases "strip_lower p (c # s)")
    case None
    then show ?thesis using Cons by auto
  next
    case (Some x)
    then show ?thesis using assms(2) by (cases p) (auto split: if_splits)
  qed
qed

lemma set_tl: "set (tl xs) \<subseteq> set xs"
  by (cases xs) auto

text \<open>Where there is no \<open><\<close> there is no script to remove, nor a tag.\<close>

lemma script_at_other: "c \<noteq> CHR ''<'' \<Longrightarrow> script_at (c # s) = None"
  by (simp add: script_at_def)

lemma tag_at_other: "c \<noteq> CHR ''<'' \<Longrightarrow> tag_at (c # s) = None"
  by (simp add: tag_at_def Let_def)

lemma replace_all_less_free:
  assumes "CHR ''<'' \<notin> set s"
  shows "replace_all tag_at s = s" and "replace_all script_at s = s"
  using assms by (auto intro!: replace_all_id tag_at_other script_at_other)

text \<open>One tag with a text that has no \<open><\<close>, quote or colon after it: kept unless it is a script's.\<close>

lemma sanitize_tail:
  assumes "CHR 0x22 \<notin> set s" "CHR 0x3A \<notin> set s" "replace_all script_at s = s"
  shows "replace_all javascript_at (replace_all on_at (replace_all script_at s)) = s"
  using assms by (simp add: on_at_id javascript_at_id)

lemma script_at_closed:
  assumes "CHR ''<'' \<notin> set s"
  shows "script_at (CHR ''<'' # s) = None"
proof -
  have "search_at (strip_lower ''</script>'') (tl (dropWhile (\<lambda>c. c \<noteq> CHR ''>'') r)) = None"
    if "strip_lower ''script'' s = Some r" for r
  proof (rule ccontr)
    assume "search_at (strip_lower ''</script>'') (tl (dropWhile (\<lambda>c. c \<noteq> CHR ''>'') r)) \<noteq> None"
    then obtain x where "search_at (strip_lower ''</script>'') (tl (dropWhile (\<lambda>c. c \<noteq> CHR ''>'') r)) = Some x"
      by auto
    from search_at_set [OF this] obtain c where
      c: "c \<in> set (tl (dropWhile (\<lambda>c. c \<noteq> CHR ''>'') r))" "to_lower c = CHR ''<''" by auto
    have "c \<in> set r"
      by (rule set_dropWhileD, rule set_tl [THEN subsetD], rule c(1))
    then have "c \<in> set s" using strip_lower_set [OF that] by auto
    with c(2) assms show False by simp
  qed
  then show ?thesis by (auto simp: script_at_def split: option.split)
qed

lemma sanitize_plain:
  assumes "CHR 0x22 \<notin> set s" "CHR 0x3A \<notin> set s" "CHR ''<'' \<notin> set s"
  shows "sanitizeHtml s = s"
  using assms by (simp add: sanitizeHtml_def replace_all_less_free on_at_id javascript_at_id)

text \<open>A text with one opening character, at its start, that the tag pass leaves alone.\<close>

lemma sanitize_one_tag:
  assumes "CHR 0x22 \<notin> set s" "CHR 0x3A \<notin> set s" "CHR ''<'' \<notin> set s"
    and "replace_all tag_at h = CHR ''<'' # s"
  shows "sanitizeHtml h = CHR ''<'' # s"
proof -
  have "replace_all script_at (CHR ''<'' # s) = CHR ''<'' # s"
    using assms(3) by (simp add: script_at_closed replace_all_less_free)
  then show ?thesis
    unfolding sanitizeHtml_def assms(4) by (intro sanitize_tail) (use assms in simp_all)
qed

lemma tag_pass_img:
  assumes "CHR 0x22 \<notin> set a" "CHR ''<'' \<notin> set a" "CHR ''>'' \<notin> set a"
  shows "replace_all tag_at (''<img '' @ a @ ''>'') = ''<img '' @ a @ ''>''"
proof -
  have drop: "dropWhile (\<lambda>c. c \<noteq> CHR ''>'') (a @ ''>'') = ''>''"
    using assms(3) by (subst dropWhile_append2) auto
  define w where "w = ''<img '' @ a @ ''>''"
  have attrs: "replace_all attr_at w = w"
    by (rule attr_at_id) (use assms(1) in \<open>simp add: w_def\<close>)
  have all: "take (length a + 6) w = w" by (simp add: w_def)
  have "tag_at w = Some (replace_all attr_at (take (length a + 6) w), length a + 5)"
    unfolding tag_at_def Let_def
    using drop
    by (simp add: w_def is_alnum_def is_letter_def is_digit_def word_char_def
        ALLOWED_TAGS_def to_lower_def del: replace_all.simps take_Suc_Cons)
  then have "tag_at w = Some (w, length a + 5)" by (simp only: all attrs)
  then show ?thesis by (simp add: w_def)
qed

lemma tag_pass_nested:
  assumes "CHR ''<'' \<notin> set t"
  shows "replace_all tag_at (''<<x>'' @ t @ ''>'') = CHR ''<'' # t @ ''>''"
proof -
  have "tag_at (''<<x>'' @ t @ ''>'') = None"
    by (simp add: tag_at_def Let_def is_alnum_def is_letter_def is_digit_def)
  moreover have "tag_at (''<x>'' @ t @ ''>'') = Some ([], 2)"
    by (simp add: tag_at_def Let_def is_alnum_def is_letter_def is_digit_def word_char_def
        ALLOWED_TAGS_def to_lower_def)
  ultimately show ?thesis
    using assms replace_all_less_free(1) [of "t @ ''>''"] by simp
qed

lemma youtube_at_Some:
  assumes "youtube_at s = Some v"
  shows "v \<noteq> [] \<and> list_all video_char v"
  using assms
  by (auto simp: youtube_at_def youtube_prefixes_def youtube_id_at_def
      split: if_splits list.splits option.splits)

lemma twitch_at_Some:
  assumes "twitch_at s = Some v"
  shows "v \<noteq> [] \<and> list_all video_char v"
  using assms
  by (auto simp: twitch_at_def Let_def video_char_def list_all_iff dest: set_takeWhileD
      split: if_splits option.splits)

lemma vimeo_at_Some:
  assumes "vimeo_at s = Some v"
  shows "v \<noteq> [] \<and> list_all video_char v"
  using assms
  by (auto simp: vimeo_at_def Let_def video_char_def is_alnum_def list_all_iff dest: set_takeWhileD
      split: if_splits option.splits)

lemma framed_Frame:
  "framed found before after url live = Frame src b \<longleftrightarrow>
     (\<exists>v. found = Some v \<and> src = before @ v @ after \<and> b = live)"
  by (auto simp: framed_def split: option.split)

lemma youtube_id_found:
  assumes "length v = 11" "list_all video_char v" "p \<in> set youtube_prefixes"
  shows "extractYouTubeId (''https://www.'' @ p @ v @ rest) = Some v"
  using assms
  by (auto simp: extractYouTubeId_def youtube_prefixes_def youtube_at_def youtube_id_at_def)

lemma youtube_detected:
  assumes "p \<in> set youtube_prefixes"
  shows "detectStreamType (''https://www.'' @ p @ t) = ''youtube''"
  using assms by (auto simp: detectStreamType_def has_text_def youtube_prefixes_def)

section \<open>Theorems\<close>

text \<open>
  The address of a video reaches the frame of a known player only through its identifier: a
  frame's address is one of three fixed ones around a text of letters, digits, dashes and
  underscores, whatever the stored address is. And the identifier is found: each of the four forms
  of a YouTube address with eleven such characters plays the video of that identifier.
\<close>

theorem stream_frame_address:
  "(StreamEmbed hostname url type isLive = Frame src live \<longrightarrow>
      live = isLive \<and>
      (\<exists>v. v \<noteq> [] \<and> list_all video_char v \<and>
         src \<in> {''https://www.youtube.com/embed/'' @ v @ ''?autoplay=1&mute=1'',
           ''https://player.twitch.tv/?channel='' @ v @ ''&parent='' @ hostname @ ''&muted=true'',
           ''https://player.vimeo.com/video/'' @ v @ ''?autoplay=1&muted=1''})) \<and>
   (length w = 11 \<and> list_all video_char w \<and> p \<in> set youtube_prefixes \<longrightarrow>
      StreamEmbed hostname (''https://www.'' @ p @ w @ rest) None isLive =
        Frame (''https://www.youtube.com/embed/'' @ w @ ''?autoplay=1&mute=1'') isLive)"
proof (intro conjI impI)
  assume frame: "StreamEmbed hostname url type isLive = Frame src live"
  define k where "k = (case type of None \<Rightarrow> detectStreamType url | Some t \<Rightarrow> t)"
  from frame consider
      v where "extractYouTubeId url = Some v" "live = isLive"
        "src = ''https://www.youtube.com/embed/'' @ v @ ''?autoplay=1&mute=1''"
    | v where "extractTwitchChannel url = Some v" "live = isLive"
        "src = ''https://player.twitch.tv/?channel='' @ v @ ''&parent='' @ hostname @ ''&muted=true''"
    | v where "extractVimeoId url = Some v" "live = isLive"
        "src = ''https://player.vimeo.com/video/'' @ v @ ''?autoplay=1&muted=1''"
    unfolding StreamEmbed_def Let_def k_def [symmetric]
    by (cases "k = ''youtube''"; cases "k = ''twitch''"; cases "k = ''vimeo''"; cases "k = ''hls''")
      (simp_all add: framed_Frame, blast+)
  then show "live = isLive"
      "\<exists>v. v \<noteq> [] \<and> list_all video_char v \<and>
         src \<in> {''https://www.youtube.com/embed/'' @ v @ ''?autoplay=1&mute=1'',
           ''https://player.twitch.tv/?channel='' @ v @ ''&parent='' @ hostname @ ''&muted=true'',
           ''https://player.vimeo.com/video/'' @ v @ ''?autoplay=1&muted=1''}"
    by (cases; auto simp: extractYouTubeId_def extractTwitchChannel_def extractVimeoId_def
        elim!: search_at_Some dest!: youtube_at_Some twitch_at_Some vimeo_at_Some)+
next
  assume "length w = 11 \<and> list_all video_char w \<and> p \<in> set youtube_prefixes"
  then show "StreamEmbed hostname (''https://www.'' @ p @ w @ rest) None isLive =
        Frame (''https://www.youtube.com/embed/'' @ w @ ''?autoplay=1&mute=1'') isLive"
    by (simp only: StreamEmbed_def youtube_detected youtube_id_found option.case Let_def framed_def
        if_True simp_thms)
qed

theorem stream_frame_address_witness:
  "StreamEmbed ''cc'' ''https://www.youtu.be/dQw4w9WgXcQ?t=1'' None True =
     Frame ''https://www.youtube.com/embed/dQw4w9WgXcQ?autoplay=1&mute=1'' True"
  using stream_frame_address [of "''cc''" "[]" None True "[]" True "''dQw4w9WgXcQ''" "''youtu.be/''" "''?t=1''"]
  by (simp add: youtube_prefixes_def video_char_def is_alnum_def is_letter_def is_digit_def)

text \<open>
  What the sanitizer of the rich text lets through. A text without a tag, a quote or a colon
  is shown as it is. But so is an image with any attributes that are not in double quotes, the
  handlers of events among them; and any tag at all, allowed or not, passes when a tag that is
  removed stands between its first character and its name.
\<close>

theorem sanitizer_bypassed:
  "(CHR 0x22 \<notin> set a \<and> CHR 0x3A \<notin> set a \<and> CHR ''<'' \<notin> set a \<longrightarrow>
      sanitizeHtml a = a \<and>
      sanitizeHtml (''<<x>'' @ a @ ''>'') = CHR ''<'' # a @ ''>'' \<and>
      (CHR ''>'' \<notin> set a \<longrightarrow> sanitizeHtml (''<img '' @ a @ ''>'') = ''<img '' @ a @ ''>''))"
proof (intro impI conjI)
  assume a: "CHR 0x22 \<notin> set a \<and> CHR 0x3A \<notin> set a \<and> CHR ''<'' \<notin> set a"
  show "sanitizeHtml a = a" using a by (simp add: sanitize_plain)
  show "sanitizeHtml (''<<x>'' @ a @ ''>'') = CHR ''<'' # a @ ''>''"
    by (rule sanitize_one_tag) (use a tag_pass_nested [of a] in auto)
  assume gt: "CHR ''>'' \<notin> set a"
  have "sanitizeHtml (''<img '' @ a @ ''>'') = CHR ''<'' # ''img '' @ a @ ''>''"
    by (rule sanitize_one_tag) (use a gt tag_pass_img [of a] in auto)
  then show "sanitizeHtml (''<img '' @ a @ ''>'') = ''<img '' @ a @ ''>''" by simp
qed

theorem sanitizer_bypassed_witness:
  "sanitizeHtml ''<img src=x onerror=alert(1)>'' = ''<img src=x onerror=alert(1)>'' \<and>
   ''onerror'' \<notin> set ALLOWED_ATTRS \<and>
   sanitizeHtml ''<<x>object data=//evil>'' = ''<object data=//evil>'' \<and> ''object'' \<notin> set ALLOWED_TAGS"
  using sanitizer_bypassed [of "''src=x onerror=alert(1)''"]
    sanitizer_bypassed [of "''object data=//evil''"]
  by (simp add: ALLOWED_ATTRS_def ALLOWED_TAGS_def)

text \<open>The buttons of the pages keep the page within the pages there are.\<close>

lemma Pagination_bounds:
  assumes "Pagination page n = Some (t, bs)" "(b, q) \<in> set bs" "1 \<le> page" "page \<le> n"
  shows "1 \<le> q \<and> q \<le> n \<and> q = (case b of PreviousPage \<Rightarrow> page - 1 | NextPage \<Rightarrow> page + 1)"
  using assms by (auto simp: Pagination_def split: if_splits)

text \<open>The two parts of a street address make the same line in either order.\<close>

lemma parse_street_order:
  assumes "''street_number'' \<in> set (ac_types n)" "''route'' \<in> set (ac_types r)"
    "''street_number'' \<notin> set (ac_types r)" "ac_long n \<noteq> []" "ac_long r \<noteq> []"
  shows "ad_line_1 (fold parse_component [n, r] EMPTY_ADDRESS) = ac_long n @ '' '' @ ac_long r"
    and "fold parse_component [n, r] EMPTY_ADDRESS = fold parse_component [r, n] EMPTY_ADDRESS"
  using assms by (simp_all add: parse_component_def EMPTY_ADDRESS_def)

text \<open>An article dated in the future is as new as one of this minute.\<close>

lemma timeAgo_future:
  assumes "now \<le> published"
  shows "timeAgo now published = ''just now''"
proof -
  have "(now - published) div 1000 \<le> 0" using assms by linarith
  then show ?thesis by (simp add: timeAgo_def)
qed

end
