(* ===== verification/Shared_Components.thy ===== *)
theory Shared_Components
  imports Text_Components Registry_Hooks
begin

text \<open>
  The shared components that keep a state of their own: the loader of the map library
  (\<open>web/src/lib/google-maps.ts\<close>) and the map (\<open>web/src/components/MapView.tsx\<close>), the venue picker
  (\<open>VenuePicker.tsx\<close>), the uploads and the list of sponsors (\<open>ImageUpload.tsx\<close>, \<open>SponsorEditor.tsx\<close>),
  the rotating advertisements (\<open>AdSlot.tsx\<close>), the dialog (\<open>Modal.tsx\<close>), the toasts (\<open>Toast.tsx\<close>) and
  the error boundary (\<open>ErrorBoundary.tsx\<close>).
\<close>

section \<open>The map library\<close>

text \<open>
  \<open>loadPromise\<close> is one for the life of the page. A promise keeps its outcome: \<open>loadGoogleMaps\<close>
  answers with the same one once there is one.
\<close>

datatype load_state = NotRequested | Loading | Loaded | LoadFailed string

datatype load_event =
    LoadRequest          (* a component calls loadGoogleMaps *)
  | LoadOk
  | LoadError string

text \<open>Only the first call starts anything; a settled promise is not settled again.\<close>

fun load_step :: "load_state \<Rightarrow> load_event \<Rightarrow> load_state" where
  "load_step NotRequested LoadRequest = Loading"
| "load_step Loading LoadOk = Loaded"
| "load_step Loading (LoadError e) = LoadFailed e"
| "load_step s _ = s"

text \<open>Where the key comes from: the answer of the server, else the key of the build, else an error.\<close>

definition getApiKey :: "fetch \<Rightarrow> string \<Rightarrow> string option \<Rightarrow> string + string" where
  "getApiKey fetch base env =
     (let fallback = (case env of None \<Rightarrow> Inl ''Google Maps API key not configured''
            | Some k \<Rightarrow> if k = [] then Inl ''Google Maps API key not configured'' else Inr k)
      in case apiGet fetch base ''/api/v1/settings/google-maps'' of
           Inl e \<Rightarrow> fallback
         | Inr config \<Rightarrow>
             (case js_get config ''google_maps_api_key'' of
                Some (Str k) \<Rightarrow> if k = [] then fallback else Inr k
              | _ \<Rightarrow> fallback))"

definition maps_url :: "string \<Rightarrow> string" where
  "maps_url key = ''https://maps.googleapis.com/maps/api/js?key='' @ key @ ''&libraries=places''"

section \<open>The map\<close>

record marker =
  mk_ident :: string
  mk_lat :: rat
  mk_lng :: rat
  mk_label :: string
  mk_sublabel :: "string option"

definition valid_markers :: "marker list \<Rightarrow> marker list" where
  "valid_markers ms = filter (\<lambda>m. mk_lat m \<noteq> 0 \<and> mk_lng m \<noteq> 0) ms"

text \<open>How the view is placed: left alone, centred on the one marker, or around all of them.\<close>

datatype viewport = KeepView | CentreOn rat rat | FitBounds "marker list"

record map_view =
  mv_ready :: bool
  mv_error :: bool
  mv_map :: bool          (* there is a map instance *)
  mv_markers :: "marker list"
  mv_drawn :: "marker list"
  mv_viewport :: viewport

definition update_markers :: "map_view \<Rightarrow> map_view" where
  "update_markers s =
     (if \<not> mv_map s then s
      else (let vs = valid_markers (mv_markers s) in
        s\<lparr> mv_drawn := vs,
           mv_viewport := (case vs of [] \<Rightarrow> mv_viewport s | [m] \<Rightarrow> CentreOn (mk_lat m) (mk_lng m)
             | _ \<Rightarrow> FitBounds vs) \<rparr>))"

definition MapView_mount :: "marker list \<Rightarrow> map_view" where
  "MapView_mount ms =
     update_markers \<lparr> mv_ready = False, mv_error = False, mv_map = False, mv_markers = ms,
       mv_drawn = [], mv_viewport = KeepView \<rparr>"

text \<open>
  A render of the parent makes a new array of markers, which runs the effect of the markers. The
  library being ready renders the map's own element and runs the effect that makes the map; the
  markers have not changed, so their effect does not run.
\<close>

datatype map_event =
    MapRender "marker list"
  | MapReady
  | MapFailed

fun map_step :: "map_view \<Rightarrow> map_event \<Rightarrow> map_view" where
  "map_step s (MapRender ms) = update_markers (s\<lparr> mv_markers := ms \<rparr>)"
| "map_step s MapReady = s\<lparr> mv_ready := True, mv_map := (mv_map s \<or> \<not> mv_error s) \<rparr>"
| "map_step s MapFailed = s\<lparr> mv_error := True \<rparr>"

datatype map_screen = MapUnavailable | MapSkeleton | MapCanvas "marker list"

definition map_screen :: "map_view \<Rightarrow> map_screen" where
  "map_screen s =
     (if mv_error s then MapUnavailable else if \<not> mv_ready s then MapSkeleton else MapCanvas (mv_drawn s))"

text \<open>The text of the window of a marker, set as HTML.\<close>

definition info_window :: "bool \<Rightarrow> marker \<Rightarrow> string" where
  "info_window clickable m =
     ''<strong style=\"font-size: 14px;\">'' @ mk_label m @ ''</strong>'' @
     (case mk_sublabel m of None \<Rightarrow> []
      | Some t \<Rightarrow> if t = [] then []
          else ''<br/><span style=\"font-size: 12px; color: #666;\">'' @ t @ ''</span>'') @
     (if clickable then ''<br/><a href=\"#\" id=\"map-marker-'' @ mk_ident m @
        ''\" style=\"font-size: 12px; color: #0ea5e9;\">View details &rarr;</a>'' else [])"

section \<open>The venue picker\<close>

record venue_row =
  vr_id :: int
  vr_name :: string
  vr_city :: "string option"

text \<open>
  \<open>serve lim off\<close> is the page of venues the server answers with. The picker reads a page of
  one to find the name of the chosen venue.
\<close>

definition selected_venue :: "(int \<Rightarrow> int \<Rightarrow> venue_row list) \<Rightarrow> int \<Rightarrow> venue_row" where
  "selected_venue serve v =
     (case find (\<lambda>r. vr_id r = v) (serve 1 0) of
        Some r \<Rightarrow> r
      | None \<Rightarrow> \<lparr> vr_id = v, vr_name = ''Unknown Venue'', vr_city = None \<rparr>)"

definition venue_label :: "venue_row \<Rightarrow> string" where
  "venue_label r =
     vr_name r @ (case vr_city r of None \<Rightarrow> [] | Some c \<Rightarrow> if c = [] then [] else '' '' @ em_dash @ '' '' @ c)"

record venue_picker =
  vp_open :: bool
  vp_search :: string
  vp_value :: "int option"     (* the property, which the form sets from onChange *)

datatype picker_event =
    PickToggle
  | PickOutside
  | PickSearch string
  | PickVenue venue_row
  | PickClear

fun picker_step :: "venue_picker \<Rightarrow> picker_event \<Rightarrow> venue_picker" where
  "picker_step s PickToggle = s\<lparr> vp_open := \<not> vp_open s \<rparr>"
| "picker_step s PickOutside = s\<lparr> vp_open := False \<rparr>"
| "picker_step s (PickSearch t) = s\<lparr> vp_search := t \<rparr>"
| "picker_step s (PickVenue r) = s\<lparr> vp_value := Some (vr_id r), vp_open := False, vp_search := [] \<rparr>"
| "picker_step s PickClear = s\<lparr> vp_value := None, vp_search := [] \<rparr>"

text \<open>The text on the button once the query for the name has its answer.\<close>

definition picker_button :: "(int \<Rightarrow> int \<Rightarrow> venue_row list) \<Rightarrow> venue_picker \<Rightarrow> string" where
  "picker_button serve s =
     (case vp_value s of
        Some v \<Rightarrow> if v = 0 then ''Select venue...'' else venue_label (selected_venue serve v)
      | None \<Rightarrow> ''Select venue...'')"

definition picker_query :: "string \<Rightarrow> bool \<Rightarrow> query" where
  "picker_query debouncedSearch isOpen =
     (use_query [Str ''venues'', Str ''picker'', Str debouncedSearch]
        (ApiGetPaginated (''/api/v1/venues'' @ buildQueryString
          [(''query'', Str debouncedSearch), (''limit'', Num 20), (''offset'', Num 0)])))
     \<lparr> q_enabled := isOpen \<rparr>"

section \<open>Uploads and sponsors\<close>

text \<open>The checks of a file before it is sent, and what an answer gives the form.\<close>

definition accept_file :: "string list \<Rightarrow> int \<Rightarrow> string \<Rightarrow> int \<Rightarrow> string option" where
  "accept_file accept maxSize mime bytes =
     (if mime \<notin> set (map trim accept) then Some ''Invalid file type''
      else if bytes > maxSize then
        Some (''File too large (max '' @ show_int \<lfloor>rat_of_int maxSize / 1024 / 1024 + 1 / 2\<rfloor> @ ''MB)'')
      else None)"

definition upload_url :: "js \<Rightarrow> js" where
  "upload_url body = js_or (js_or (js_opt_get (js_opt_get body ''data'') ''url'') (js_opt_get body ''url'')) Null"

record sponsor =
  so_name :: string
  so_logo :: string
  so_link :: string
  so_tier :: string
  so_header :: bool

definition emptySponsor :: sponsor where
  "emptySponsor = \<lparr> so_name = [], so_logo = [], so_link = [], so_tier = ''gold'', so_header = False \<rparr>"

datatype sponsor_edit =
    SoName string
  | SoLogo "string option"
  | SoLink string
  | SoTier string
  | SoHeader bool

fun edit_sponsor :: "sponsor_edit \<Rightarrow> sponsor \<Rightarrow> sponsor" where
  "edit_sponsor (SoName t) x = x\<lparr> so_name := t \<rparr>"
| "edit_sponsor (SoLogo t) x = x\<lparr> so_logo := (case t of None \<Rightarrow> [] | Some u \<Rightarrow> u) \<rparr>"
| "edit_sponsor (SoLink t) x = x\<lparr> so_link := t \<rparr>"
| "edit_sponsor (SoTier t) x = x\<lparr> so_tier := t \<rparr>"
| "edit_sponsor (SoHeader b) x = x\<lparr> so_header := b \<rparr>"

text \<open>
  An upload under way holds the callback of the render in which the file was chosen, and with it
  the list or the draft of that render.
\<close>

datatype upload =
    RowUpload nat "sponsor list"
  | DraftUpload sponsor

record sponsors =
  sp_value :: "sponsor list"
  sp_adding :: bool
  sp_draft :: sponsor
  sp_uploads :: "upload list"     (* in the order they were started *)

definition SponsorEditor :: "sponsor list \<Rightarrow> sponsors" where
  "SponsorEditor v = \<lparr> sp_value = v, sp_adding = False, sp_draft = emptySponsor, sp_uploads = [] \<rparr>"

datatype sponsor_event =
    SpOpen
  | SpCancel
  | SpDraft sponsor_edit
  | SpAdd
  | SpRemove nat
  | SpUpdate nat sponsor_edit
  | SpRowFile nat
  | SpDraftFile
  | SpUploaded nat "string option"
  | SpParent "sponsor list"      (* the form gives another list *)

definition addSponsor :: "sponsors \<Rightarrow> sponsors" where
  "addSponsor s =
     (if trim (so_name (sp_draft s)) = [] then s
      else s\<lparr> sp_value := sp_value s @ [sp_draft s], sp_draft := emptySponsor, sp_adding := False \<rparr>)"

definition removeSponsor :: "nat \<Rightarrow> sponsor list \<Rightarrow> sponsor list" where
  "removeSponsor i v = take i v @ drop (Suc i) v"

definition updateSponsor :: "nat \<Rightarrow> sponsor_edit \<Rightarrow> sponsor list \<Rightarrow> sponsor list" where
  "updateSponsor i e v = (if i < length v then v[i := edit_sponsor e (v ! i)] else v)"

definition uploaded :: "upload \<Rightarrow> string option \<Rightarrow> sponsors \<Rightarrow> sponsors" where
  "uploaded u url s =
     (case u of
        RowUpload i v \<Rightarrow> s\<lparr> sp_value := updateSponsor i (SoLogo url) v \<rparr>
      | DraftUpload d \<Rightarrow> s\<lparr> sp_draft := edit_sponsor (SoLogo url) d \<rparr>)"

fun sponsor_step :: "sponsors \<Rightarrow> sponsor_event \<Rightarrow> sponsors" where
  "sponsor_step s SpOpen = s\<lparr> sp_adding := True \<rparr>"
| "sponsor_step s SpCancel = s\<lparr> sp_adding := False \<rparr>"
| "sponsor_step s (SpDraft e) = s\<lparr> sp_draft := edit_sponsor e (sp_draft s) \<rparr>"
| "sponsor_step s SpAdd = addSponsor s"
| "sponsor_step s (SpRemove i) = s\<lparr> sp_value := removeSponsor i (sp_value s) \<rparr>"
| "sponsor_step s (SpUpdate i e) = s\<lparr> sp_value := updateSponsor i e (sp_value s) \<rparr>"
| "sponsor_step s (SpRowFile i) =
     (if i < length (sp_value s) then s\<lparr> sp_uploads := sp_uploads s @ [RowUpload i (sp_value s)] \<rparr> else s)"
| "sponsor_step s SpDraftFile =
     (if sp_adding s then s\<lparr> sp_uploads := sp_uploads s @ [DraftUpload (sp_draft s)] \<rparr> else s)"
| "sponsor_step s (SpUploaded k url) =
     (if k < length (sp_uploads s) then uploaded (sp_uploads s ! k) url s else s)"
| "sponsor_step s (SpParent v) = s\<lparr> sp_value := v \<rparr>"

section \<open>Advertisements\<close>

record ad =
  ad_ident :: int
  ad_sizes :: "string list"
  ad_duration :: nat          (* seconds; 0 stands for a missing duration *)

definition matching_ads :: "ad list option \<Rightarrow> string \<Rightarrow> ad list" where
  "matching_ads ads sizeLabel =
     (case ads of None \<Rightarrow> []
      | Some l \<Rightarrow> filter (\<lambda>a. ad_sizes a = [] \<or> sizeLabel \<in> set (ad_sizes a)) l)"

record carousel =
  ca_ads :: "ad list"
  ca_index :: nat
  ca_timer :: countdown

definition ad_ms :: "ad \<Rightarrow> nat" where
  "ad_ms a = (if ad_duration a = 0 then 8 else ad_duration a) * 1000"

text \<open>The effect: no timer for one advertisement, else one for the duration of the current one.\<close>

definition schedule_next :: "carousel \<Rightarrow> carousel" where
  "schedule_next s =
     s\<lparr> ca_timer := (if length (ca_ads s) \<le> 1 then None
          else Some (ad_ms (ca_ads s ! (ca_index s mod length (ca_ads s))))) \<rparr>"

definition AdCarousel :: "ad list \<Rightarrow> carousel" where
  "AdCarousel ads = schedule_next \<lparr> ca_ads = ads, ca_index = 0, ca_timer = None \<rparr>"

text \<open>
  A render of the slot filters the advertisements again: another array, so the effect runs
  again. A wait lasts until the timer fires at most.
\<close>

datatype carousel_event = AdRender "ad list" | AdWait nat

fun carousel_step :: "carousel \<Rightarrow> carousel_event \<Rightarrow> carousel" where
  "carousel_step s (AdRender ads) = schedule_next (s\<lparr> ca_ads := ads \<rparr>)"
| "carousel_step s (AdWait n) =
     (if due n (ca_timer s)
      then schedule_next (s\<lparr> ca_index := (ca_index s + 1) mod length (ca_ads s) \<rparr>)
      else s\<lparr> ca_timer := elapse n (ca_timer s) \<rparr>)"

definition current_ad :: "carousel \<Rightarrow> ad option" where
  "current_ad s =
     (if ca_ads s = [] then None else Some (ca_ads s ! (ca_index s mod length (ca_ads s))))"

section \<open>The dialog\<close>

text \<open>
  The element is in the document while the dialog is open. \<open>mo_native\<close> says that the browser
  shows it as a modal, \<open>mo_listener\<close> that it has the listener for the cancel event.
\<close>

record modal =
  mo_open :: bool
  mo_native :: bool
  mo_listener :: bool
  mo_trigger :: bool       (* triggerRef holds the element that had the focus *)

definition Modal_closed :: modal where
  "Modal_closed = \<lparr> mo_open = False, mo_native = False, mo_listener = False, mo_trigger = False \<rparr>"

datatype modal_event =
    ModalRender bool bool     (* open, and whether onClose is another function *)
  | ModalEscape
  | ModalX
  | ModalBackdrop

datatype modal_effect = ShowModal | CloseDialog | FocusTrigger | OnClose

text \<open>
  The first effect runs when \<open>open\<close> changes, the second when \<open>onClose\<close> does; both read the
  element after the render, and there is none when the dialog is not open.
\<close>

definition open_effect :: "bool \<Rightarrow> modal \<Rightarrow> modal \<times> modal_effect list" where
  "open_effect element s =
     (if \<not> element then (s, [])
      else if mo_open s then (s\<lparr> mo_trigger := True, mo_native := True \<rparr>, [ShowModal])
      else (s\<lparr> mo_trigger := False, mo_native := False \<rparr>,
            CloseDialog # (if mo_trigger s then [FocusTrigger] else [])))"

definition cancel_effect :: "bool \<Rightarrow> modal \<Rightarrow> modal" where
  "cancel_effect element s = s\<lparr> mo_listener := element \<rparr>"

definition modal_render :: "modal \<Rightarrow> bool \<Rightarrow> bool \<Rightarrow> modal \<times> modal_effect list" where
  "modal_render s shown fresh =
     (let element = shown;
          s0 = s\<lparr> mo_open := shown,
                  mo_native := (mo_native s \<and> shown), mo_listener := (mo_listener s \<and> shown) \<rparr>;
          (s1, es) = (if shown = mo_open s then (s0, []) else open_effect element s0)
      in (if fresh then cancel_effect element s1 else s1, es))"

fun modal_step :: "modal \<Rightarrow> modal_event \<Rightarrow> modal \<times> modal_effect list" where
  "modal_step s (ModalRender shown fresh) = modal_render s shown fresh"
| "modal_step s ModalEscape =
     (if \<not> mo_native s then (s, [])
      else if mo_listener s then (s, [OnClose])
      else (s\<lparr> mo_native := False \<rparr>, []))"
| "modal_step s ModalX = (s, if mo_open s then [OnClose] else [])"
| "modal_step s ModalBackdrop = (s, if mo_native s then [OnClose] else [])"

section \<open>Toasts and the error boundary\<close>

record toast =
  to_ident :: string
  to_kind :: string
  to_message :: string
  to_left :: nat

datatype toast_event = AddToast string string string | RemoveToast string | ToastWait nat

fun toast_step :: "toast list \<Rightarrow> toast_event \<Rightarrow> toast list" where
  "toast_step ts (AddToast ident kind msg) =
     ts @ [\<lparr> to_ident = ident, to_kind = kind, to_message = msg, to_left = 5000 \<rparr>]"
| "toast_step ts (RemoveToast ident) = filter (\<lambda>t. to_ident t \<noteq> ident) ts"
| "toast_step ts (ToastWait n) =
     map (\<lambda>t. t\<lparr> to_left := to_left t - n \<rparr>) (filter (\<lambda>t. n < to_left t) ts)"

datatype fallback =
    NoFallback
  | NullFallback
  | RenderFallback
  | NodeFallback

datatype boundary_screen = Children | Nothing | Rendered string | Node | ErrorPanel

fun ErrorBoundary :: "string option option \<Rightarrow> fallback \<Rightarrow> boundary_screen" where
  "ErrorBoundary None f = Children"
| "ErrorBoundary (Some e) NullFallback = Nothing"
| "ErrorBoundary (Some e) RenderFallback = Rendered (case e of None \<Rightarrow> ''Unknown error'' | Some m \<Rightarrow> m)"
| "ErrorBoundary (Some e) NodeFallback = Node"
| "ErrorBoundary (Some e) NoFallback = ErrorPanel"

section \<open>Lemmas\<close>

fun settled :: "load_state \<Rightarrow> bool" where
  "settled Loaded = True"
| "settled (LoadFailed e) = True"
| "settled s = False"

lemma load_settled: "settled s \<Longrightarrow> run load_step s es = s"
proof (induction es arbitrary: s)
  case (Cons e es)
  have "load_step s e = s" using Cons.prems by (cases s; cases e) simp_all
  then show ?case using Cons by simp
qed simp

lemma map_not_ready:
  "\<not> mv_map s \<Longrightarrow> \<not> mv_ready s \<Longrightarrow> \<not> mv_error s \<Longrightarrow> mv_drawn s = [] \<Longrightarrow>
     (let t = run map_step s (map MapRender mss) in
        \<not> mv_map t \<and> \<not> mv_ready t \<and> \<not> mv_error t \<and> mv_drawn t = [])"
  by (induction mss arbitrary: s) (simp_all add: update_markers_def)

text \<open>A marker on the equator or on the first meridian is not drawn.\<close>

lemma marker_at_zero: "mk_lat m = 0 \<or> mk_lng m = 0 \<Longrightarrow> m \<notin> set (valid_markers ms)"
  by (auto simp: valid_markers_def)

text \<open>The label of a marker is in the window's HTML as it is.\<close>

lemma info_window_raw: "\<exists>x y. info_window b m = x @ mk_label m @ y"
proof -
  have "info_window b m = ''<strong style=\"font-size: 14px;\">'' @ mk_label m @
      drop (length (''<strong style=\"font-size: 14px;\">'' @ mk_label m)) (info_window b m)"
    by (simp add: info_window_def)
  then show ?thesis by blast
qed

lemma uploads_grow: "\<exists>us. sp_uploads (sponsor_step s e) = sp_uploads s @ us"
  by (cases e) (auto simp: addSponsor_def uploaded_def split: upload.split)

lemma uploads_grow_run: "\<exists>us. sp_uploads (run sponsor_step s es) = sp_uploads s @ us"
proof (induction es arbitrary: s)
  case (Cons e es)
  obtain us vs where "sp_uploads (sponsor_step s e) = sp_uploads s @ us"
    "sp_uploads (run sponsor_step (sponsor_step s e) es) = sp_uploads (sponsor_step s e) @ vs"
    using uploads_grow Cons.IH by meson
  then show ?case by simp
qed simp

lemma upload_kept:
  assumes "sp_uploads s = us @ [u]"
  shows "sponsor_step (run sponsor_step s es) (SpUploaded (length us) url) =
    uploaded u url (run sponsor_step s es)"
proof -
  obtain vs where "sp_uploads (run sponsor_step s es) = (us @ [u]) @ vs"
    using uploads_grow_run [of s es] assms by auto
  then show ?thesis by (simp add: nth_append)
qed

lemma removeSponsor_length: "i < length v \<Longrightarrow> length (removeSponsor i v) = length v - 1"
  by (simp add: removeSponsor_def)

lemma schedule_next_simps [simp]:
  "ca_ads (schedule_next s) = ca_ads s" "ca_index (schedule_next s) = ca_index s"
  by (simp_all add: schedule_next_def)

text \<open>With no render in between, each advertisement has its own time.\<close>

lemma carousel_rotates:
  fixes ads :: "ad list"
  assumes "2 \<le> length ads"
  defines "d \<equiv> \<lambda>i. ad_ms (ads ! (i mod length ads))"
  shows "let s = run carousel_step (AdCarousel ads) (map (\<lambda>i. AdWait (d i)) [0..<k]) in
     ca_ads s = ads \<and> ca_index s = k mod length ads \<and> ca_timer s = Some (d k)"
proof (induction k)
  case 0
  then show ?case using assms by (auto simp: AdCarousel_def schedule_next_def)
next
  case (Suc k)
  then show ?case using assms(1)
    by (auto simp: Let_def schedule_next_def d_def mod_Suc_eq)
qed

text \<open>A render before the time is up starts it again.\<close>

lemma carousel_held:
  assumes "2 \<le> length ads" "ca_ads s = ads" "ca_index s = i"
    "ca_timer s = Some (ad_ms (ads ! (i mod length ads)))"
    and "list_all (\<lambda>n. n < ad_ms (ads ! (i mod length ads))) ns"
  shows "let t = run carousel_step s (concat (map (\<lambda>n. [AdWait n, AdRender ads]) ns)) in
     ca_ads t = ads \<and> ca_index t = i \<and> ca_timer t = Some (ad_ms (ads ! (i mod length ads)))"
  using assms
proof (induction ns arbitrary: s)
  case (Cons n ns)
  have "carousel_step (carousel_step s (AdWait n)) (AdRender ads) = s"
    using Cons.prems by (auto simp: schedule_next_def)
  then show ?case using Cons by simp
qed simp

lemma matching_ads_sound: "a \<in> set (matching_ads ads k) \<Longrightarrow> ad_sizes a = [] \<or> k \<in> set (ad_sizes a)"
  by (auto simp: matching_ads_def split: option.splits)

definition modal_next :: "modal \<Rightarrow> modal_event \<Rightarrow> modal" where
  "modal_next s e = fst (modal_step s e)"

lemma modal_step_focus: "FocusTrigger \<notin> set (snd (modal_step s e))"
  by (cases e) (auto simp: modal_render_def open_effect_def Let_def split: prod.splits if_splits)

fun fresh_render :: "modal_event \<Rightarrow> bool" where
  "fresh_render (ModalRender shown fresh) = fresh"
| "fresh_render e = True"

definition modal_in_sync :: "modal \<Rightarrow> bool" where
  "modal_in_sync s \<longleftrightarrow> mo_native s = mo_open s \<and> mo_listener s = mo_open s"

lemma modal_sync_step: "modal_in_sync s \<Longrightarrow> fresh_render e \<Longrightarrow> modal_in_sync (modal_next s e)"
  by (cases e)
    (auto simp: modal_in_sync_def modal_next_def modal_render_def open_effect_def cancel_effect_def
      Let_def split: if_splits prod.splits)

lemma modal_sync_run:
  "modal_in_sync s \<Longrightarrow> list_all fresh_render es \<Longrightarrow> modal_in_sync (run modal_next s es)"
  by (induction es arbitrary: s) (simp_all add: modal_sync_step)

text \<open>A toast is gone five seconds after it came, whatever else happens.\<close>

lemma toast_left_bound:
  "\<forall>t \<in> set ts. to_left t \<le> 5000 \<Longrightarrow> \<forall>t \<in> set (toast_step ts e). to_left t \<le> 5000"
  by (cases e) auto

lemma toast_gone: "\<forall>t \<in> set ts. to_left t \<le> 5000 \<Longrightarrow> toast_step ts (ToastWait 5000) = []"
  by (auto simp: filter_empty_conv)

section \<open>Theorems\<close>

text \<open>
  The markers a map is given before the library is ready are never drawn: the pages show the
  map with its markers already loaded, and when the library is ready the map comes up empty. Only
  another render of the page draws the markers it gives then.
\<close>

theorem map_markers_lost:
  defines "s \<equiv> \<lambda>ms mss. run map_step (MapView_mount ms) (map MapRender mss @ [MapReady])"
  shows "map_screen (s ms mss) = MapCanvas [] \<and>
     map_screen (map_step (s ms mss) (MapRender ms')) = MapCanvas (valid_markers ms')"
proof -
  have start: "\<not> mv_map (MapView_mount ms)" "\<not> mv_ready (MapView_mount ms)" "\<not> mv_error (MapView_mount ms)"
    "mv_drawn (MapView_mount ms) = []"
    by (simp_all add: MapView_mount_def update_markers_def)
  show ?thesis
    using map_not_ready [OF start, of mss]
    by (simp add: s_def map_screen_def update_markers_def Let_def)
qed

text \<open>
  One failure to load the map library is for the life of the page: every later request gets
  the failure again, and nothing is loaded. In particular that is so when the server has no key
  to give at the time and the build has none.
\<close>

theorem map_failure_sticks:
  assumes "run load_step NotRequested es = LoadFailed e"
  shows "run load_step NotRequested (es @ es') = LoadFailed e \<and>
     (apiGet fetch base ''/api/v1/settings/google-maps'' = Inl err \<longrightarrow>
        getApiKey fetch base None = Inl ''Google Maps API key not configured'')"
  using assms by (simp add: load_settled getApiKey_def)

theorem map_failure_sticks_witness:
  "run load_step NotRequested ([LoadRequest, LoadError ''offline''] @ [LoadRequest, LoadOk]) =
     LoadFailed ''offline''"
  using map_failure_sticks [of "[LoadRequest, LoadError ''offline'']" "''offline''" "[LoadRequest, LoadOk]"]
  by simp

text \<open>
  The venue picker names the venue that was just picked only when it is the one venue on the
  server's first page of one; of two venues at least one is shown as an unknown venue after it is
  picked from a list that showed its name.
\<close>

theorem picked_venue_unknown:
  fixes s :: venue_picker
  assumes "length (serve 1 0) \<le> 1" and "vr_id v \<noteq> 0" and "vr_id w \<noteq> 0" and "vr_id v \<noteq> vr_id w"
  defines "button \<equiv> \<lambda>x. picker_button serve (picker_step s (PickVenue x))"
  shows "(button v = ''Unknown Venue'' \<or> button w = ''Unknown Venue'') \<and>
     (\<forall>r. serve 1 0 = [r] \<longrightarrow>
        button v = (if vr_id r = vr_id v then venue_label r else ''Unknown Venue''))"
proof -
  consider "serve 1 0 = []" | r where "serve 1 0 = [r]"
    using assms(1) by (cases "serve 1 0") auto
  then show ?thesis
    by cases (use assms(2-4) in \<open>auto simp: button_def picker_button_def selected_venue_def venue_label_def\<close>)
qed

theorem picked_venue_unknown_witness:
  "picker_button (\<lambda>lim off. take (nat lim) [\<lparr> vr_id = 1, vr_name = ''Arena'', vr_city = None \<rparr>])
     (picker_step \<lparr> vp_open = True, vp_search = ''b'', vp_value = None \<rparr>
        (PickVenue \<lparr> vr_id = 2, vr_name = ''Barn'', vr_city = None \<rparr>)) = ''Unknown Venue''"
  using picked_venue_unknown
    [of "\<lambda>lim off. take (nat lim) [\<lparr> vr_id = 1, vr_name = ''Arena'', vr_city = None \<rparr>]"
      "\<lparr> vr_id = 2, vr_name = ''Barn'', vr_city = None \<rparr>" "\<lparr> vr_id = 1, vr_name = ''Arena'', vr_city = None \<rparr>"
      "\<lparr> vp_open = True, vp_search = ''b'', vp_value = None \<rparr>"]
  by simp

text \<open>
  A logo that arrives undoes what was done meanwhile: when the upload for a row ends, the list
  of sponsors is the one of the moment the file was chosen, with the logo in it, whatever was
  added, edited or removed since; and the form of a new sponsor goes back to the draft of that
  moment, even after the sponsor was added.
\<close>

theorem sponsor_upload_reverts:
  fixes s :: sponsors
  defines "k \<equiv> length (sp_uploads s)"
  shows "(i < length (sp_value s) \<longrightarrow>
      sp_value (sponsor_step (run sponsor_step (sponsor_step s (SpRowFile i)) es) (SpUploaded k url)) =
        (sp_value s)[i := edit_sponsor (SoLogo url) (sp_value s ! i)]) \<and>
     (sp_adding s \<longrightarrow>
      sp_draft (sponsor_step (run sponsor_step (sponsor_step s SpDraftFile) es) (SpUploaded k url)) =
        edit_sponsor (SoLogo url) (sp_draft s))"
proof (intro conjI impI)
  assume i: "i < length (sp_value s)"
  have "sp_uploads (sponsor_step s (SpRowFile i)) = sp_uploads s @ [RowUpload i (sp_value s)]"
    using i by simp
  from upload_kept [OF this, of es url] i
  show "sp_value (sponsor_step (run sponsor_step (sponsor_step s (SpRowFile i)) es) (SpUploaded k url)) =
      (sp_value s)[i := edit_sponsor (SoLogo url) (sp_value s ! i)]"
    unfolding k_def by (simp only: uploaded_def upload.case) (simp add: updateSponsor_def)
next
  assume a: "sp_adding s"
  have "sp_uploads (sponsor_step s SpDraftFile) = sp_uploads s @ [DraftUpload (sp_draft s)]"
    using a by simp
  from upload_kept [OF this, of es url]
  show "sp_draft (sponsor_step (run sponsor_step (sponsor_step s SpDraftFile) es) (SpUploaded k url)) =
      edit_sponsor (SoLogo url) (sp_draft s)"
    unfolding k_def by (simp only: uploaded_def upload.case) simp
qed

theorem sponsor_upload_reverts_witness:
  "so_name (hd (sp_value (run sponsor_step (SponsorEditor [emptySponsor])
     [SpRowFile 0, SpUpdate 0 (SoName ''Acme''), SpUploaded 0 (Some ''/a.png'')]))) = []"
  using sponsor_upload_reverts
    [of 0 "SponsorEditor [emptySponsor]" "[SpUpdate 0 (SoName ''Acme'')]" "Some ''/a.png''"]
  by (simp add: SponsorEditor_def emptySponsor_def)

text \<open>
  Two or more advertisements rotate: left alone, each is shown for its own duration, in their
  order and around. But every render of the page around them makes a new list and starts the
  current one's time again: as long as renders come in less than that time the slot never changes.
\<close>

theorem advertisements_rotate:
  fixes ads :: "ad list"
  assumes "2 \<le> length ads"
  defines "d \<equiv> \<lambda>i. ad_ms (ads ! (i mod length ads))"
  shows "current_ad (run carousel_step (AdCarousel ads) (map (\<lambda>i. AdWait (d i)) [0..<k])) =
       Some (ads ! (k mod length ads)) \<and>
     (list_all (\<lambda>n. n < d 0) ns \<longrightarrow>
        current_ad (run carousel_step (AdCarousel ads) (concat (map (\<lambda>n. [AdWait n, AdRender ads]) ns))) =
          Some (ads ! 0))"
proof (intro conjI impI)
  show "current_ad (run carousel_step (AdCarousel ads) (map (\<lambda>i. AdWait (d i)) [0..<k])) =
       Some (ads ! (k mod length ads))"
    using carousel_rotates [OF assms(1), of k] assms(1)
    by (auto simp: current_ad_def Let_def d_def)
next
  assume ns: "list_all (\<lambda>n. n < d 0) ns"
  have "ca_ads (AdCarousel ads) = ads" "ca_index (AdCarousel ads) = 0"
    "ca_timer (AdCarousel ads) = Some (ad_ms (ads ! (0 mod length ads)))"
    using assms(1) by (auto simp: AdCarousel_def schedule_next_def)
  from carousel_held [OF assms(1) this, of ns] ns assms(1)
  show "current_ad (run carousel_step (AdCarousel ads) (concat (map (\<lambda>n. [AdWait n, AdRender ads]) ns))) =
          Some (ads ! 0)"
    by (auto simp: current_ad_def Let_def d_def)
qed

definition two_ads :: "ad list" where
  "two_ads = map (\<lambda>i. \<lparr> ad_ident = i, ad_sizes = [], ad_duration = 0 \<rparr>) [1, 2]"

theorem advertisements_rotate_witness:
  "current_ad (run carousel_step (AdCarousel two_ads) [AdWait 8000]) = Some (two_ads ! 1) \<and>
   current_ad (run carousel_step (AdCarousel two_ads)
     [AdWait 7000, AdRender two_ads, AdWait 7000, AdRender two_ads]) = Some (two_ads ! 0)"
  using advertisements_rotate [of two_ads 1 "[7000, 7000]"]
  by (simp add: two_ads_def ad_ms_def)

text \<open>
  Closing a dialog never gives the focus back: the effect that would do it reads the element
  after the render that removed it. While the page gives a new handler with every render the
  dialog the browser shows and the open state agree, and Escape asks the page to close it.
\<close>

theorem modal_focus_lost:
  defines "s \<equiv> \<lambda>es. run modal_next Modal_closed es"
  shows "FocusTrigger \<notin> set (snd (modal_step (s es) e)) \<and>
     (list_all fresh_render es \<longrightarrow>
        mo_native (s es) = mo_open (s es) \<and>
        modal_step (s es) ModalEscape = (s es, if mo_open (s es) then [OnClose] else []))"
proof (intro conjI impI)
  show "FocusTrigger \<notin> set (snd (modal_step (s es) e))" by (rule modal_step_focus)
next
  assume "list_all fresh_render es"
  moreover have "modal_in_sync Modal_closed" by (simp add: modal_in_sync_def Modal_closed_def)
  ultimately have "modal_in_sync (s es)" unfolding s_def by (rule modal_sync_run [rotated])
  then show "mo_native (s es) = mo_open (s es)"
      "modal_step (s es) ModalEscape = (s es, if mo_open (s es) then [OnClose] else [])"
    by (simp_all add: modal_in_sync_def)
qed

theorem modal_focus_lost_witness:
  "FocusTrigger \<notin> set (snd (modal_step (run modal_next Modal_closed [ModalRender True True])
     (ModalRender False True))) \<and>
   modal_step (run modal_next Modal_closed [ModalRender True True]) ModalEscape =
     (run modal_next Modal_closed [ModalRender True True], [OnClose])"
  using modal_focus_lost [of "[ModalRender True True]" "ModalRender False True"]
  by (simp add: Let_def modal_next_def modal_render_def open_effect_def cancel_effect_def Modal_closed_def)

end
