(* ===== verification/Source_Profiles.thy ===== *)
theory Source_Profiles
  imports Source_Tabs "HOL-Library.AList"
begin

text \<open>
  The pages of the source profiles, in \<open>web/src/features/overlay/profiles\<close>: the list with its
  delete dialog (\<open>SourceProfileList.tsx\<close>) and the editor (\<open>SourceProfileEditor.tsx\<close>), from what
  the operator types to the bodies of the requests. An object is the list of its members in the
  order they were added; a body is the value the hooks of \<open>Overlay_Hooks\<close> send.
\<close>

section \<open>The list\<close>

definition TYPE_META :: "(string \<times> string) list" where
  "TYPE_META =
     [(''court_command'', ''CC Match''), (''rest_api'', ''REST API''), (''webhook'', ''Webhook'')]"

definition type_label :: "source_profile \<Rightarrow> string" where
  "type_label p = (case map_of TYPE_META (sp_source_type p) of Some l \<Rightarrow> l | None \<Rightarrow> ''REST API'')"

definition status_badge :: "source_profile \<Rightarrow> string \<times> string" where
  "status_badge p =
     (if \<not> sp_active p then (''default'', ''Inactive'')
      else if sp_last_poll_status p = Some ''failed'' then (''error'', ''Error'')
      else if sp_last_poll_status p = Some ''ok'' \<or> sp_last_poll_status p = Some ''success''
      then (''success'', ''Healthy'')
      else (''warning'', ''Pending''))"

definition url_cell :: "source_profile \<Rightarrow> string option" where
  "url_cell p =
     (if sp_source_type p = ''court_command'' then None
      else (case sp_api_url p of None \<Rightarrow> None | Some u \<Rightarrow> if u = [] then None else Some u))"

text \<open>The age in milliseconds, as text.\<close>

definition formatRelative :: "int \<Rightarrow> string" where
  "formatRelative diff =
     (let s = diff div 1000 in
      if s < 10 then ''just now''
      else if s < 60 then show_int s @ ''s ago''
      else let m = s div 60 in
        if m < 60 then show_int m @ ''m ago''
        else let h = m div 60 in
          if h < 24 then show_int h @ ''h ago'' else show_int (h div 24) @ ''d ago'')"

definition last_poll_cell :: "(string \<Rightarrow> int) \<Rightarrow> source_profile \<Rightarrow> string" where
  "last_poll_cell age p =
     (case normalizeTimestamptz (sp_last_poll_at p) of
        None \<Rightarrow> ''Never''
      | Some stamp \<Rightarrow> if stamp = [] then ''Never'' else formatRelative (age stamp))"

datatype profiles_screen =
    ProfilesSkeleton
  | ProfilesFailed string
  | NoProfilesYet
  | ProfilesTable "source_profile list"

definition SourceProfileList :: "source_profile list option \<Rightarrow> bool \<Rightarrow> string option \<Rightarrow> profiles_screen" where
  "SourceProfileList profiles isLoading err =
     (if isLoading then ProfilesSkeleton
      else (case err of
          Some t \<Rightarrow> ProfilesFailed t
        | None \<Rightarrow> (case profiles of
            None \<Rightarrow> NoProfilesYet
          | Some ps \<Rightarrow> if ps = [] then NoProfilesYet else ProfilesTable ps)))"

text \<open>
  The dialog of the delete button: the profile it asks about, and the DELETE under way with the
  profile it was sent for. The Escape key closes the dialog also while it is loading, the
  Cancel button does not.
\<close>

record profile_list =
  pl_confirm :: "source_profile option"
  pl_removing :: "source_profile option"

datatype list_event =
    LsAsk source_profile
  | LsEscape
  | LsCancel
  | LsConfirm
  | LsDeleted
  | LsDeleteFailed string

datatype list_effect = LsSend api_call | LsToast string string

definition profile_list_init :: profile_list where
  "profile_list_init = \<lparr> pl_confirm = None, pl_removing = None \<rparr>"

definition can_delete :: "profile_list \<Rightarrow> bool" where
  "can_delete s \<longleftrightarrow> pl_confirm s \<noteq> None \<and> pl_removing s = None"

fun list_next :: "profile_list \<Rightarrow> list_event \<Rightarrow> profile_list" where
  "list_next s (LsAsk p) = s\<lparr> pl_confirm := Some p \<rparr>"
| "list_next s LsEscape = s\<lparr> pl_confirm := None \<rparr>"
| "list_next s LsCancel = (if pl_removing s = None then s\<lparr> pl_confirm := None \<rparr> else s)"
| "list_next s LsConfirm = (if can_delete s then s\<lparr> pl_removing := pl_confirm s \<rparr> else s)"
| "list_next s LsDeleted =
     (if pl_removing s = None then s else s\<lparr> pl_removing := None, pl_confirm := None \<rparr>)"
| "list_next s (LsDeleteFailed t) = s\<lparr> pl_removing := None \<rparr>"

fun list_out :: "profile_list \<Rightarrow> list_event \<Rightarrow> list_effect list" where
  "list_out s LsConfirm =
     (case pl_confirm s of
        Some p \<Rightarrow> if pl_removing s = None then [LsSend (m_call useDeleteSourceProfile (sp_id p))] else []
      | None \<Rightarrow> [])"
| "list_out s LsDeleted =
     (case pl_removing s of Some p \<Rightarrow> [LsToast ''success'' (''Deleted '' @ sp_name p)] | None \<Rightarrow> [])"
| "list_out s (LsDeleteFailed t) =
     (if pl_removing s = None then []
      else [LsToast ''error'' (if t \<noteq> [] then t else ''Delete failed'')])"
| "list_out s _ = []"

section \<open>Tables of the editor\<close>

definition SOURCE_TYPE_OPTIONS :: "(string \<times> string) list" where
  "SOURCE_TYPE_OPTIONS =
     [(''rest_api'', ''REST API''), (''webhook'', ''Webhook''),
      (''court_command'', ''Court Command Match'')]"

definition AUTH_TYPE_OPTIONS :: "(string \<times> string) list" where
  "AUTH_TYPE_OPTIONS =
     [(''none'', ''None''), (''bearer'', ''Bearer Token''), (''api_key'', ''API Key''),
      (''basic'', ''Basic Auth'')]"

definition ellipsis :: string where
  "ellipsis = [CHR 0xE2, CHR 0x80, CHR 0xA6]"

text \<open>Key, label and hint.\<close>

definition MAPPABLE_FIELDS :: "(string \<times> string \<times> string) list" where
  "MAPPABLE_FIELDS =
     [(''team_1_name'', ''Team 1 name'', ''e.g. home.name''),
      (''team_1_score'', ''Team 1 score'', ''e.g. home.score''),
      (''team_1_color'', ''Team 1 color'', ''hex''),
      (''team_1_logo_url'', ''Team 1 logo'', ''image URL''),
      (''team_2_name'', ''Team 2 name'', ''e.g. away.name''),
      (''team_2_score'', ''Team 2 score'', ''e.g. away.score''),
      (''team_2_color'', ''Team 2 color'', ''hex''),
      (''team_2_logo_url'', ''Team 2 logo'', ''image URL''),
      (''current_game'', ''Current game'', ''number''),
      (''serving_team'', ''Serving team'', ''1 or 2''),
      (''match_status'', ''Match status'', ''scheduled / in_progress / '' @ ellipsis),
      (''division_name'', ''Division'', ''string''),
      (''tournament_name'', ''Tournament'', ''string''),
      (''round_label'', ''Round label'', ''string''),
      (''court_name'', ''Court name'', ''string'')]"

definition mappable :: "string \<Rightarrow> bool" where
  "mappable k \<longleftrightarrow> k \<in> fst ` set MAPPABLE_FIELDS"

section \<open>The form\<close>

text \<open>The columns of a stored profile the form starts from, and the answer of a connection test.\<close>

record stored_profile =
  st_name :: string
  st_source_type :: string
  st_api_url :: "string option"
  st_secret :: "string option"
  st_auth_type :: string
  st_auth_config :: "(string \<times> js) list"
  st_poll :: "int wire"
  st_mapping :: "(string \<times> string) list"

record test_result =
  tr_success :: bool
  tr_status :: "int option"
  tr_paths :: "string list option"
  tr_sample :: js
  tr_error :: "string option"

record editor =
  ed_edit :: bool
  ed_id :: "int option"
  ed_name :: string
  ed_type :: string
  ed_url :: string
  ed_secret :: string
  ed_auth :: string
  ed_config :: "(string \<times> string) list"
  ed_poll :: int
  ed_mapping :: "(string \<times> string) list"
  ed_result :: "test_result option"
  ed_sample :: bool
  ed_errors :: "(string \<times> string) list"
  ed_saving :: bool
  ed_testing :: bool
  ed_left :: bool

definition or_default :: "'a \<Rightarrow> 'a option \<Rightarrow> 'a" where
  "or_default d v = (case v of None \<Rightarrow> d | Some x \<Rightarrow> x)"

definition config_text :: "js \<Rightarrow> string" where
  "config_text v = js_to_string (js_coalesce v (Str []))"

definition EditorForm_init :: "bool \<Rightarrow> int option \<Rightarrow> stored_profile option \<Rightarrow> editor" where
  "EditorForm_init isEdit profileID initial =
     \<lparr> ed_edit = isEdit, ed_id = profileID,
       ed_name = or_default [] (map_option st_name initial),
       ed_type = or_default ''rest_api'' (map_option st_source_type initial),
       ed_url = or_default [] (Option.bind initial st_api_url),
       ed_secret = or_default [] (Option.bind initial st_secret),
       ed_auth = or_default ''none'' (map_option st_auth_type initial),
       ed_config = map (\<lambda>(k, v). (k, config_text v)) (or_default [] (map_option st_auth_config initial)),
       ed_poll = or_default 5 (normalizePollInterval (or_default Missing (map_option st_poll initial))),
       ed_mapping = or_default [] (map_option st_mapping initial),
       ed_result = None, ed_sample = False, ed_errors = [],
       ed_saving = False, ed_testing = False, ed_left = False \<rparr>"

definition isRest :: "editor \<Rightarrow> bool" where
  "isRest s \<longleftrightarrow> ed_type s = ''rest_api''"

definition isWebhook :: "editor \<Rightarrow> bool" where
  "isWebhook s \<longleftrightarrow> ed_type s = ''webhook''"

definition isCC :: "editor \<Rightarrow> bool" where
  "isCC s \<longleftrightarrow> ed_type s = ''court_command''"

definition text_object :: "(string \<times> string) list \<Rightarrow> js" where
  "text_object kvs = Obj (map (\<lambda>(k, v). (k, Str v)) kvs)"

definition payload :: "editor \<Rightarrow> js" where
  "payload s = Obj
     [(''name'', Str (trim (ed_name s))),
      (''source_type'', Str (ed_type s)),
      (''api_url'', if isRest s then js_or (Str (trim (ed_url s))) Null else Null),
      (''webhook_secret'', if isWebhook s then js_or (Str (trim (ed_secret s))) Null else Null),
      (''auth_type'', Str (if isRest s then ed_auth s else ''none'')),
      (''auth_config'', if isRest s \<and> ed_auth s \<noteq> ''none'' then text_object (ed_config s) else Obj []),
      (''poll_interval_seconds'', if isRest s then Num (ed_poll s) else Null),
      (''field_mapping'', if isRest s \<or> isWebhook s then text_object (ed_mapping s) else Obj [])]"

definition config_blank :: "editor \<Rightarrow> string \<Rightarrow> bool" where
  "config_blank s k = (case map_of (ed_config s) k of None \<Rightarrow> True | Some v \<Rightarrow> trim v = [])"

definition validate :: "editor \<Rightarrow> (string \<times> string) list" where
  "validate s =
     (if trim (ed_name s) = [] then [(''name'', ''Name is required'')] else []) @
     (if isRest s \<and> trim (ed_url s) = [] then [(''api_url'', ''URL is required for REST API'')] else []) @
     (if isRest s \<and> ed_poll s < 1
      then [(''poll_interval'', ''Poll interval must be at least 1 second'')] else []) @
     (if isRest s \<and> ed_auth s = ''bearer'' \<and> config_blank s ''token''
      then [(''auth_token'', ''Bearer token is required'')] else []) @
     (if isRest s \<and> ed_auth s = ''api_key'' \<and> config_blank s ''key''
      then [(''auth_key'', ''API key is required'')] else []) @
     (if isRest s \<and> ed_auth s = ''basic'' \<and> config_blank s ''username''
      then [(''auth_username'', ''Username is required'')] else []) @
     (if isRest s \<and> ed_auth s = ''basic'' \<and> config_blank s ''password''
      then [(''auth_password'', ''Password is required'')] else [])"

section \<open>The field mapper\<close>

definition discoveredPaths :: "editor \<Rightarrow> string list" where
  "discoveredPaths s = or_default [] (Option.bind (ed_result s) tr_paths)"

definition mapped :: "editor \<Rightarrow> string \<Rightarrow> string" where
  "mapped s k = or_default [] (map_of (ed_mapping s) k)"

definition isCustom :: "string list \<Rightarrow> string \<Rightarrow> bool" where
  "isCustom paths v \<longleftrightarrow> v \<noteq> [] \<and> v \<notin> set paths"

text \<open>The row of a field: a select over the discovered paths, or a text input.\<close>

datatype mapper_row = PathSelect "string list" string | PathInput string string

definition mapper_row :: "editor \<Rightarrow> string \<times> string \<times> string \<Rightarrow> mapper_row" where
  "mapper_row s f = (case f of (k, label, hint) \<Rightarrow>
     (if discoveredPaths s \<noteq> [] \<and> \<not> isCustom (discoveredPaths s) (mapped s k)
      then PathSelect ([] # discoveredPaths s @ [''__custom__'']) (mapped s k)
      else PathInput (mapped s k) hint))"

definition FieldMapper :: "editor \<Rightarrow> (string \<times> mapper_row) list" where
  "FieldMapper s = map (\<lambda>f. (fst f, mapper_row s f)) MAPPABLE_FIELDS"

definition set_mapping :: "string \<Rightarrow> string \<Rightarrow> (string \<times> string) list \<Rightarrow> (string \<times> string) list" where
  "set_mapping k v m = (if v \<noteq> [] then AList.update k v m else AList.delete k m)"

definition choose_mapping :: "string \<Rightarrow> string \<Rightarrow> (string \<times> string) list \<Rightarrow> (string \<times> string) list" where
  "choose_mapping k v m =
     (if v = ''__custom__''
      then (let value = or_default [] (map_of m k) in
            AList.update k (if value \<noteq> [] then value else '' '') m)
      else set_mapping k v m)"

section \<open>The events of the form\<close>

datatype editor_event =
    EdName string
  | EdType string
  | EdUrl string
  | EdSecret string
  | EdAuth string
  | EdConfig string string
  | EdPoll string
  | EdChoose string string
  | EdMap string string
  | EdSave
  | EdSaved
  | EdSaveFailed string
  | EdTest
  | EdTested test_result
  | EdTestFailed string
  | EdSample
  | EdCancel

datatype editor_effect = EdSend api_call | EdToast string string | EdNavigate string

text \<open>The inputs of \<open>auth_config\<close> that are on the screen with each authentication.\<close>

definition config_inputs :: "string \<Rightarrow> string list" where
  "config_inputs auth =
     (if auth = ''bearer'' then [''token'']
      else if auth = ''api_key'' then [''header'', ''key'']
      else if auth = ''basic'' then [''username'', ''password''] else [])"

definition can_map :: "editor \<Rightarrow> string \<Rightarrow> bool" where
  "can_map s k \<longleftrightarrow> (isRest s \<or> isWebhook s) \<and> mappable k"

definition select_shown :: "editor \<Rightarrow> string \<Rightarrow> bool" where
  "select_shown s k \<longleftrightarrow> discoveredPaths s \<noteq> [] \<and> \<not> isCustom (discoveredPaths s) (mapped s k)"

definition poll_typed :: "string \<Rightarrow> int" where
  "poll_typed t = parseInt_or (if number_field t = None then [] else t) 5"

definition can_test :: "editor \<Rightarrow> bool" where
  "can_test s \<longleftrightarrow> isRest s \<and> \<not> ed_testing s \<and> trim (ed_url s) \<noteq> []"

text \<open>\<open>isEdit && profileID\<close>: the id 0 counts as none.\<close>

definition updates :: "editor \<Rightarrow> bool" where
  "updates s \<longleftrightarrow> ed_edit s \<and> (case ed_id s of None \<Rightarrow> False | Some i \<Rightarrow> i \<noteq> 0)"

definition save_call :: "editor \<Rightarrow> api_call" where
  "save_call s =
     (if updates s then m_call useUpdateSourceProfile (or_default 0 (ed_id s), payload s)
      else m_call useCreateSourceProfile (payload s))"

fun editor_live :: "editor \<Rightarrow> editor_event \<Rightarrow> editor" where
  "editor_live s (EdName t) = s\<lparr> ed_name := t \<rparr>"
| "editor_live s (EdType t) = (if t \<in> fst ` set SOURCE_TYPE_OPTIONS then s\<lparr> ed_type := t \<rparr> else s)"
| "editor_live s (EdUrl t) = (if isRest s then s\<lparr> ed_url := t \<rparr> else s)"
| "editor_live s (EdSecret t) = (if isWebhook s then s\<lparr> ed_secret := t \<rparr> else s)"
| "editor_live s (EdAuth t) =
     (if isRest s \<and> t \<in> fst ` set AUTH_TYPE_OPTIONS then s\<lparr> ed_auth := t \<rparr> else s)"
| "editor_live s (EdConfig k t) =
     (if isRest s \<and> k \<in> set (config_inputs (ed_auth s))
      then s\<lparr> ed_config := AList.update k t (ed_config s) \<rparr> else s)"
| "editor_live s (EdPoll t) = (if isRest s then s\<lparr> ed_poll := poll_typed t \<rparr> else s)"
| "editor_live s (EdChoose k v) =
     (if can_map s k \<and> select_shown s k \<and> v \<in> set ([] # discoveredPaths s @ [''__custom__''])
      then s\<lparr> ed_mapping := choose_mapping k v (ed_mapping s) \<rparr> else s)"
| "editor_live s (EdMap k v) =
     (if can_map s k \<and> \<not> select_shown s k
      then s\<lparr> ed_mapping := set_mapping k v (ed_mapping s) \<rparr> else s)"
| "editor_live s EdSave =
     (if ed_saving s then s else s\<lparr> ed_errors := validate s, ed_saving := (validate s = []) \<rparr>)"
| "editor_live s EdSaved = (if ed_saving s then s\<lparr> ed_saving := False, ed_left := True \<rparr> else s)"
| "editor_live s (EdSaveFailed t) = s\<lparr> ed_saving := False \<rparr>"
| "editor_live s EdTest = (if can_test s then s\<lparr> ed_result := None, ed_testing := True \<rparr> else s)"
| "editor_live s (EdTested r) =
     (if ed_testing s then s\<lparr> ed_result := Some r, ed_testing := False \<rparr> else s)"
| "editor_live s (EdTestFailed t) =
     (if ed_testing s
      then s\<lparr> ed_testing := False, ed_result := Some \<lparr> tr_success = False, tr_status = None,
                tr_paths = None, tr_sample = Undef, tr_error = Some t \<rparr> \<rparr>
      else s)"
| "editor_live s EdSample =
     (if (case ed_result s of None \<Rightarrow> False | Some r \<Rightarrow> tr_sample r \<noteq> Undef)
      then s\<lparr> ed_sample := \<not> ed_sample s \<rparr> else s)"
| "editor_live s EdCancel = (if ed_saving s then s else s\<lparr> ed_left := True \<rparr>)"

definition editor_next :: "editor \<Rightarrow> editor_event \<Rightarrow> editor" where
  "editor_next s e = (if ed_left s then s else editor_live s e)"

text \<open>
  The answer of a test is still announced on the next page; what it would change is gone with the
  form.
\<close>

fun editor_out :: "editor \<Rightarrow> editor_event \<Rightarrow> editor_effect list" where
  "editor_out s EdSave =
     (if ed_left s \<or> ed_saving s \<or> validate s \<noteq> [] then [] else [EdSend (save_call s)])"
| "editor_out s EdSaved =
     (if ed_saving s
      then [EdToast ''success'' (if updates s then ''Profile saved'' else ''Profile created''),
            EdNavigate ''/overlay/source-profiles'']
      else [])"
| "editor_out s (EdSaveFailed t) =
     (if ed_saving s then [EdToast ''error'' (if t \<noteq> [] then t else ''Save failed'')] else [])"
| "editor_out s EdTest =
     (if \<not> ed_left s \<and> can_test s then [EdSend (m_call useTestSourceProfileConnection (payload s))]
      else [])"
| "editor_out s (EdTested r) =
     (if ed_testing s
      then [if tr_success r then EdToast ''success'' ''Connection succeeded''
            else EdToast ''warning'' (case tr_error r of
                Some t \<Rightarrow> if t \<noteq> [] then t else ''Connection test returned no data''
              | None \<Rightarrow> ''Connection test returned no data'')]
      else [])"
| "editor_out s (EdTestFailed t) =
     (if ed_testing s then [EdToast ''error'' (if t \<noteq> [] then t else ''Test failed'')] else [])"
| "editor_out s EdCancel =
     (if ed_left s \<or> ed_saving s then [] else [EdNavigate ''/overlay/source-profiles''])"
| "editor_out s _ = []"

section \<open>The pages\<close>

text \<open>The badges and lines of the result of a test.\<close>

definition TestResultPanel :: "test_result \<Rightarrow> bool \<Rightarrow> string \<times> string list \<times> string option \<times> bool \<times> bool" where
  "TestResultPanel r showSample =
     (if tr_success r then ''Connection succeeded'' else ''Connection failed'',
      (case tr_status r of Some n \<Rightarrow> [''HTTP '' @ show_int n] | None \<Rightarrow> []) @
      (case tr_paths r of Some ps \<Rightarrow> [show_nat (length ps) @ '' paths discovered''] | None \<Rightarrow> []),
      (case tr_error r of Some t \<Rightarrow> if t \<noteq> [] then Some t else None | None \<Rightarrow> None),
      tr_sample r \<noteq> Undef,
      tr_sample r \<noteq> Undef \<and> showSample)"

datatype editor_page = EditorSkeleton | EditorFailed string | EditorShown editor | InvalidProfile

definition editor_query :: "bool \<Rightarrow> int option \<Rightarrow> query" where
  "editor_query isEdit profileID =
     useSourceProfile (Num (if isEdit then or_default 0 profileID else 0))"

definition SourceProfileEditor ::
    "bool \<Rightarrow> int option \<Rightarrow> bool \<Rightarrow> string option \<Rightarrow> stored_profile option \<Rightarrow> editor_page" where
  "SourceProfileEditor isEdit profileID isLoading err data =
     (if isEdit \<and> isLoading then EditorSkeleton
      else (case (isEdit, err) of
          (True, Some t) \<Rightarrow> EditorFailed (''Failed to load profile: '' @ t)
        | _ \<Rightarrow> EditorShown (EditorForm_init isEdit profileID (if isEdit then data else None))))"

definition EditSourceProfileRoute ::
    "string \<Rightarrow> bool \<Rightarrow> string option \<Rightarrow> stored_profile option \<Rightarrow> editor_page" where
  "EditSourceProfileRoute profileID isLoading err data =
     (case parseInt profileID of
        None \<Rightarrow> InvalidProfile
      | Some i \<Rightarrow> SourceProfileEditor True (Some i) isLoading err data)"

section \<open>Lemmas\<close>

lemma editor_step_frame [simp]:
  "ed_edit (editor_next s e) = ed_edit s" "ed_id (editor_next s e) = ed_id s"
  by (cases e; simp add: editor_next_def)+

lemma editor_run_frame [simp]:
  "ed_edit (run editor_next s es) = ed_edit s" "ed_id (run editor_next s es) = ed_id s"
  by (induction es arbitrary: s) simp_all

text \<open>Once there, a member of \<open>auth_config\<close> stays.\<close>

lemma config_grows:
  "k \<in> fst ` set (ed_config s) \<Longrightarrow> k \<in> fst ` set (ed_config (editor_next s e))"
  by (cases e) (simp_all add: editor_next_def dom_update)

lemma config_grows_run:
  "k \<in> fst ` set (ed_config s) \<Longrightarrow> k \<in> fst ` set (ed_config (run editor_next s es))"
  by (induction es arbitrary: s) (simp_all add: config_grows)

text \<open>The types in the form are among those of the contract.\<close>

definition typed_form :: "editor \<Rightarrow> bool" where
  "typed_form s \<longleftrightarrow> ed_type s \<in> set SOURCE_TYPE \<and> ed_auth s \<in> set AUTH_TYPE"

definition opened_on_typed :: "stored_profile option \<Rightarrow> bool" where
  "opened_on_typed initial =
     (case initial of None \<Rightarrow> True
      | Some p \<Rightarrow> st_source_type p \<in> set SOURCE_TYPE \<and> st_auth_type p \<in> set AUTH_TYPE)"

lemma typed_form_init: "opened_on_typed initial \<Longrightarrow> typed_form (EditorForm_init m i initial)"
  by (cases initial)
    (simp_all add: typed_form_def opened_on_typed_def EditorForm_init_def or_default_def SOURCE_TYPE_def
      AUTH_TYPE_def)

lemma typed_form_step: "typed_form s \<Longrightarrow> typed_form (editor_next s e)"
  by (cases e)
    (auto simp: typed_form_def editor_next_def SOURCE_TYPE_OPTIONS_def AUTH_TYPE_OPTIONS_def SOURCE_TYPE_def
      AUTH_TYPE_def)

interpretation profile_editor: event_machine editor_next
    "\<lambda>s. \<exists>m i initial. opened_on_typed initial \<and> s = EditorForm_init m i initial" typed_form
  by unfold_locales (auto intro: typed_form_init typed_form_step)

lemma js_or_text [simp]: "js_or (Str t) Null = (if t = [] then Null else Str t)"
  by (simp add: js_or_def)

section \<open>Properties\<close>

text \<open>What the server is promised of a body, spelled out on the JSON value.\<close>

definition str_such :: "(string \<Rightarrow> bool) \<Rightarrow> js \<Rightarrow> bool" where
  "str_such P v = (case v of Str t \<Rightarrow> P t | _ \<Rightarrow> False)"

definition num_such :: "(int \<Rightarrow> bool) \<Rightarrow> js \<Rightarrow> bool" where
  "num_such P v = (case v of Num n \<Rightarrow> P n | _ \<Rightarrow> False)"

definition profile_body_ok :: "js \<Rightarrow> bool" where
  "profile_body_ok b \<longleftrightarrow>
     str_such (\<lambda>t. t \<noteq> [] \<and> trim t = t) (js_opt_get b ''name'') \<and>
     str_such (\<lambda>t. t \<in> set SOURCE_TYPE) (js_opt_get b ''source_type'') \<and>
     str_such (\<lambda>t. t \<in> set AUTH_TYPE) (js_opt_get b ''auth_type'') \<and>
     (if js_opt_get b ''source_type'' = Str ''rest_api''
      then str_such (\<lambda>t. t \<noteq> [] \<and> trim t = t) (js_opt_get b ''api_url'') \<and>
        num_such (\<lambda>n. 1 \<le> n) (js_opt_get b ''poll_interval_seconds'')
      else js_opt_get b ''api_url'' = Null \<and> js_opt_get b ''poll_interval_seconds'' = Null \<and>
        js_opt_get b ''auth_type'' = Str ''none'' \<and> js_opt_get b ''auth_config'' = Obj []) \<and>
     (js_opt_get b ''source_type'' \<noteq> Str ''webhook'' \<longrightarrow> js_opt_get b ''webhook_secret'' = Null) \<and>
     (js_opt_get b ''source_type'' = Str ''court_command'' \<longrightarrow> js_opt_get b ''field_mapping'' = Obj [])"

lemma payload_get:
  "js_opt_get (payload s) ''name'' = Str (trim (ed_name s))"
  "js_opt_get (payload s) ''source_type'' = Str (ed_type s)"
  "js_opt_get (payload s) ''api_url'' = (if isRest s then js_or (Str (trim (ed_url s))) Null else Null)"
  "js_opt_get (payload s) ''webhook_secret'' =
     (if isWebhook s then js_or (Str (trim (ed_secret s))) Null else Null)"
  "js_opt_get (payload s) ''auth_type'' = Str (if isRest s then ed_auth s else ''none'')"
  "js_opt_get (payload s) ''auth_config'' =
     (if isRest s \<and> ed_auth s \<noteq> ''none'' then text_object (ed_config s) else Obj [])"
  "js_opt_get (payload s) ''poll_interval_seconds'' = (if isRest s then Num (ed_poll s) else Null)"
  "js_opt_get (payload s) ''field_mapping'' =
     (if isRest s \<or> isWebhook s then text_object (ed_mapping s) else Obj [])"
  by (simp_all add: payload_def js_opt_get_def)

lemma validate_empty:
  "validate s = [] \<Longrightarrow> trim (ed_name s) \<noteq> []"
  "validate s = [] \<Longrightarrow> isRest s \<Longrightarrow> trim (ed_url s) \<noteq> []"
  "validate s = [] \<Longrightarrow> isRest s \<Longrightarrow> 1 \<le> ed_poll s"
  by (auto simp: validate_def split: if_splits)

lemma valid_payload_ok:
  assumes "validate s = []" and "typed_form s"
  shows "profile_body_ok (payload s)"
proof -
  have t: "ed_type s \<in> set SOURCE_TYPE" "ed_auth s \<in> set AUTH_TYPE" "''none'' \<in> set AUTH_TYPE"
    using assms(2) by (simp_all add: typed_form_def AUTH_TYPE_def)
  show ?thesis
  proof (cases "isRest s")
    case True
    then have "\<not> isWebhook s" "\<not> isCC s" by (simp_all add: isRest_def isWebhook_def isCC_def)
    then show ?thesis using t True validate_empty [OF assms(1)]
      by (simp add: profile_body_ok_def payload_get str_such_def num_such_def isRest_def isWebhook_def)
  next
    case False
    then show ?thesis using t validate_empty(1) [OF assms(1)]
      by (auto simp: profile_body_ok_def payload_get str_such_def num_such_def isRest_def isWebhook_def)
  qed
qed

lemma save_sent:
  "EdSend c \<in> set (editor_out s EdSave) \<longleftrightarrow> c = save_call s \<and> validate s = [] \<and> \<not> ed_left s \<and> \<not> ed_saving s"
  by auto

lemma save_call_body:
  "save_call s =
     (if updates s
      then ApiPut (''/api/v1/source-profiles/'' @ show_int (or_default 0 (ed_id s))) (payload s)
      else ApiPost ''/api/v1/source-profiles'' (payload s))"
  by (simp add: save_call_def useUpdateSourceProfile_def useCreateSourceProfile_def)

text \<open>
  Whatever the operator does in the profile editor, every body it saves has a name without
  outer blanks, a source and an authentication type of the contract, an address and an interval
  of at least one second for a polled source, and nothing of the other source types; it goes to
  the profile the page was opened for, or creates one.
\<close>

theorem profile_saves_typed:
  assumes "opened_on_typed initial"
    and "EdSend c \<in> set (editor_out (run editor_next (EditorForm_init m i initial) es) EdSave)"
  shows "\<exists>b. profile_body_ok b \<and>
    c = (if m \<and> i \<noteq> None \<and> i \<noteq> Some 0
         then ApiPut (''/api/v1/source-profiles/'' @ show_int (or_default 0 i)) b
         else ApiPost ''/api/v1/source-profiles'' b)"
proof -
  let ?s = "run editor_next (EditorForm_init m i initial) es"
  have "typed_form ?s" using assms(1) by (intro profile_editor.reachable_inv) blast
  moreover have c: "c = save_call ?s" "validate ?s = []" using assms(2) unfolding save_sent by blast+
  ultimately have "profile_body_ok (payload ?s)" by (intro valid_payload_ok)
  moreover have "ed_edit ?s = m" "ed_id ?s = i" by (simp_all add: EditorForm_init_def)
  ultimately show ?thesis unfolding c(1) save_call_body
    by (intro exI [of _ "payload ?s"]) (auto simp: updates_def or_default_def split: option.splits)
qed

definition new_webhook :: "editor_event list" where
  "new_webhook = [EdName '' Feed '', EdUrl ''http://x'', EdType ''webhook'', EdSecret ''s'']"

lemma new_webhook_run:
  "run editor_next (EditorForm_init False None None) new_webhook =
     (EditorForm_init False None None)
       \<lparr> ed_name := '' Feed '', ed_url := ''http://x'', ed_type := ''webhook'', ed_secret := ''s'' \<rparr>"
  by (simp add: new_webhook_def editor_next_def EditorForm_init_def or_default_def isRest_def isWebhook_def
      SOURCE_TYPE_OPTIONS_def)

theorem profile_saves_typed_witness:
  "\<exists>b. profile_body_ok b \<and>
     save_call (run editor_next (EditorForm_init False None None) new_webhook) =
       ApiPost ''/api/v1/source-profiles'' b"
proof -
  let ?s = "run editor_next (EditorForm_init False None None) new_webhook"
  have "EdSend (save_call ?s) \<in> set (editor_out ?s EdSave)"
    unfolding save_sent new_webhook_run
    by (simp add: validate_def isRest_def EditorForm_init_def trim_def is_space_def)
  then show ?thesis
    using profile_saves_typed [of None "save_call ?s" False None new_webhook]
    by (simp add: opened_on_typed_def)
qed

text \<open>What the server stores of a body and hands back.\<close>

definition text_or_none :: "js \<Rightarrow> string option" where
  "text_or_none v = (case v of Str t \<Rightarrow> Some t | _ \<Rightarrow> None)"

definition text_of :: "js \<Rightarrow> string" where
  "text_of v = (case v of Str t \<Rightarrow> t | _ \<Rightarrow> [])"

definition members :: "js \<Rightarrow> (string \<times> js) list" where
  "members v = (case v of Obj kvs \<Rightarrow> kvs | _ \<Rightarrow> [])"

definition stored_body :: "js \<Rightarrow> stored_profile" where
  "stored_body b =
     \<lparr> st_name = text_of (js_opt_get b ''name''),
       st_source_type = text_of (js_opt_get b ''source_type''),
       st_api_url = text_or_none (js_opt_get b ''api_url''),
       st_secret = text_or_none (js_opt_get b ''webhook_secret''),
       st_auth_type = text_of (js_opt_get b ''auth_type''),
       st_auth_config = members (js_opt_get b ''auth_config''),
       st_poll = (case js_opt_get b ''poll_interval_seconds'' of Num n \<Rightarrow> Plain n | _ \<Rightarrow> Missing),
       st_mapping = map (\<lambda>(k, v). (k, text_of v)) (members (js_opt_get b ''field_mapping'')) \<rparr>"

lemma text_of_simps: "text_of (Str t) = t"
  by (simp add: text_of_def)

lemma trim_nil: "trim [] = []"
  by (simp add: trim_def)

lemma members_text [simp]: "members (text_object kvs) = map (\<lambda>(k, v). (k, Str v)) kvs"
  by (simp add: members_def text_object_def)

lemma text_object_again [simp]:
  "map ((\<lambda>(k, v). (k, config_text v)) \<circ> (\<lambda>(k, v). (k, Str v))) kvs = kvs"
  "map ((\<lambda>(k, v). (k, text_of v)) \<circ> (\<lambda>(k, v). (k, Str v))) kvs = kvs"
  by (induction kvs) (auto simp: config_text_def js_coalesce_def text_of_def)

text \<open>The body depends on the trimmed texts and on the fields of the source type alone.\<close>

lemma payload_cong:
  assumes "trim (ed_name r) = trim (ed_name s)" and "ed_type r = ed_type s"
    and "isRest s \<Longrightarrow> trim (ed_url r) = trim (ed_url s)"
    and "isWebhook s \<Longrightarrow> trim (ed_secret r) = trim (ed_secret s)"
    and "isRest s \<Longrightarrow> ed_auth r = ed_auth s"
    and "isRest s \<Longrightarrow> ed_auth s \<noteq> ''none'' \<Longrightarrow> ed_config r = ed_config s"
    and "isRest s \<Longrightarrow> ed_poll r = ed_poll s"
    and "isRest s \<or> isWebhook s \<Longrightarrow> ed_mapping r = ed_mapping s"
  shows "payload r = payload s"
proof -
  have "isRest r = isRest s" "isWebhook r = isWebhook s"
    using assms(2) by (simp_all add: isRest_def isWebhook_def)
  then show ?thesis
    using assms by (cases "isRest s"; cases "isWebhook s") (simp_all add: payload_def)
qed

lemma reopened_fields:
  fixes i s
  defines "r \<equiv> EditorForm_init True (Some i) (Some (stored_body (payload s)))"
  shows "ed_name r = trim (ed_name s)" "ed_type r = ed_type s"
    "isRest s \<Longrightarrow> trim (ed_url r) = trim (ed_url s)"
    "isWebhook s \<Longrightarrow> trim (ed_secret r) = trim (ed_secret s)"
    "isRest s \<Longrightarrow> ed_auth r = ed_auth s"
    "isRest s \<Longrightarrow> ed_auth s \<noteq> ''none'' \<Longrightarrow> ed_config r = ed_config s"
    "isRest s \<Longrightarrow> ed_poll r = ed_poll s"
    "isRest s \<or> isWebhook s \<Longrightarrow> ed_mapping r = ed_mapping s"
  unfolding r_def EditorForm_init_def stored_body_def
  by (simp_all add: payload_get or_default_def text_of_simps text_or_none_def trim_nil)

text \<open>
  A profile the editor has saved can be opened and saved again unchanged: the form the
  stored columns open with sends the same body, whatever the first form held in fields its
  source type does not use.
\<close>

theorem profile_reopen_roundtrip:
  "payload (EditorForm_init True (Some i) (Some (stored_body (payload s)))) = payload s"
  by (rule payload_cong) (simp_all add: reopened_fields)

text \<open>
  A credential typed for one kind of authentication is sent with every other one: no choice
  of authentication or source type takes a member out of \<open>auth_config\<close>, and the body of a
  polled profile with authentication carries all of them.
\<close>

theorem credentials_outlive_choice:
  assumes "k \<in> fst ` set (ed_config s)" and "s' = run editor_next s es"
    and "isRest s'" and "ed_auth s' \<noteq> ''none''"
  shows "k \<in> fst ` set (members (js_opt_get (payload s') ''auth_config''))"
  using assms config_grows_run [of k s es] by (simp add: payload_get image_image case_prod_beta)

definition two_credentials :: "editor_event list" where
  "two_credentials = [EdAuth ''api_key'', EdConfig ''key'' ''k1'']"

theorem credentials_outlive_choice_witness:
  "''token'' \<in> fst ` set (members (js_opt_get (payload (run editor_next
     ((EditorForm_init False None None)\<lparr> ed_auth := ''bearer'', ed_config := [(''token'', ''t1'')] \<rparr>)
     two_credentials)) ''auth_config''))"
  by (rule credentials_outlive_choice
      [where s = "(EditorForm_init False None None)\<lparr> ed_auth := ''bearer'', ed_config := [(''token'', ''t1'')] \<rparr>",
        OF _ refl])
    (simp_all add: two_credentials_def editor_next_def EditorForm_init_def or_default_def isRest_def
      AUTH_TYPE_OPTIONS_def config_inputs_def)

text \<open>
  The entry for a path of one's own does nothing on a field that is mapped to a discovered path:
  the value and the select stay. On a field that is not mapped it stores a path of one blank,
  which the body carries if nothing else is typed.
\<close>

theorem custom_path_choice:
  assumes "can_map s k" and "select_shown s k" and "\<not> ed_left s"
    and "s' = editor_next s (EdChoose k ''__custom__'')"
  shows "(if mapped s k \<noteq> [] then mapped s' k = mapped s k \<and> select_shown s' k
     else mapped s' k = '' '' \<and> (select_shown s' k \<longleftrightarrow> '' '' \<in> set (discoveredPaths s)))"
proof -
  have s': "s' = s\<lparr> ed_mapping := choose_mapping k ''__custom__'' (ed_mapping s) \<rparr>"
    using assms by (simp add: editor_next_def)
  show ?thesis using assms(2) unfolding s'
    by (auto simp: choose_mapping_def mapped_def or_default_def Let_def update_conv' select_shown_def
        discoveredPaths_def isCustom_def split: option.splits)
qed

definition tested_editor :: editor where
  "tested_editor =
     (EditorForm_init False None None)\<lparr> ed_mapping := [(''team_1_name'', ''home'')],
       ed_result := Some \<lparr> tr_success = True, tr_status = None, tr_paths = Some [''home'', ''away''],
         tr_sample = Undef, tr_error = None \<rparr> \<rparr>"

theorem custom_path_choice_witness:
  "mapped (editor_next tested_editor (EdChoose ''team_1_name'' ''__custom__'')) ''team_1_name'' = ''home'' \<and>
   mapped (editor_next tested_editor (EdChoose ''court_name'' ''__custom__'')) ''court_name'' = '' ''"
proof -
  have s: "can_map tested_editor ''team_1_name''" "can_map tested_editor ''court_name''"
      "select_shown tested_editor ''team_1_name''" "select_shown tested_editor ''court_name''"
      "\<not> ed_left tested_editor" "mapped tested_editor ''team_1_name'' = ''home''"
      "mapped tested_editor ''court_name'' = []"
    by (simp_all add: tested_editor_def can_map_def isRest_def EditorForm_init_def or_default_def
        mappable_def MAPPABLE_FIELDS_def select_shown_def isCustom_def mapped_def discoveredPaths_def)
  show ?thesis
    using custom_path_choice [OF s(1,3,5) refl] custom_path_choice [OF s(2,4,5) refl] s(6,7) by simp
qed

text \<open>
  The edit page of the profile number 0 shows the empty form under the heading of an edit, asks
  for nothing, and creates a profile when it is saved.
\<close>

theorem edit_zero_creates:
  assumes "parseInt profileID = Some 0" and "EdSend c \<in> set (editor_out (run editor_next
      (EditorForm_init True (Some 0) None) es) EdSave)"
  shows "EditSourceProfileRoute profileID False None None =
      EditorShown (EditorForm_init True (Some 0) None) \<and>
    \<not> q_enabled (editor_query True (Some 0)) \<and>
    (\<exists>b. c = ApiPost ''/api/v1/source-profiles'' b)"
proof (intro conjI)
  show "EditSourceProfileRoute profileID False None None =
      EditorShown (EditorForm_init True (Some 0) None)"
    using assms(1) by (simp add: EditSourceProfileRoute_def SourceProfileEditor_def)
  show "\<not> q_enabled (editor_query True (Some 0))"
    by (simp add: editor_query_def or_default_def useSourceProfile_def)
  have "\<not> updates (run editor_next (EditorForm_init True (Some 0) None) es)"
    by (simp add: updates_def EditorForm_init_def)
  then show "\<exists>b. c = ApiPost ''/api/v1/source-profiles'' b"
    using assms(2) unfolding save_sent save_call_body by auto
qed

theorem edit_zero_creates_witness:
  "\<exists>b. save_call (run editor_next (EditorForm_init True (Some 0) None)
     [EdName ''N'', EdType ''court_command'']) = ApiPost ''/api/v1/source-profiles'' b"
proof -
  let ?s = "run editor_next (EditorForm_init True (Some 0) None) [EdName ''N'', EdType ''court_command'']"
  have "parseInt ''0'' = Some 0"
    by (simp add: parseInt_def parse_unsigned_def is_digit_def is_space_def digits_value_def)
  moreover have "EdSend (save_call ?s) \<in> set (editor_out ?s EdSave)"
    by (simp add: save_sent editor_next_def EditorForm_init_def or_default_def SOURCE_TYPE_OPTIONS_def
        validate_def isRest_def trim_def is_space_def)
  ultimately show ?thesis by (rule edit_zero_creates [THEN conjunct2, THEN conjunct2])
qed

text \<open>
  The list deletes the profile its dialog asks about, one at a time. A dialog opened while
  another profile is being deleted closes with the answer of that one.
\<close>

lemma list_deletes_asked:
  "LsSend c \<in> set (list_out s e) \<Longrightarrow>
     \<exists>p. pl_confirm s = Some p \<and> pl_removing s = None \<and>
       c = ApiDelete (''/api/v1/source-profiles/'' @ show_int (sp_id p))"
  by (cases e; cases "pl_confirm s") (auto simp: useDeleteSourceProfile_def split: option.splits if_splits)

lemma list_single_delete:
  "pl_removing s \<noteq> None \<Longrightarrow> list_out s LsConfirm = [] \<and> list_next s LsConfirm = s"
  by (auto simp: can_delete_def split: option.split)

lemma list_dialog_closed:
  "pl_confirm (run list_next profile_list_init [LsAsk p, LsConfirm, LsEscape, LsAsk q, LsDeleted]) = None"
  by (simp add: profile_list_init_def can_delete_def)

text \<open>The editor's and the list's tables name the types of the contract.\<close>

lemma option_tables:
  "set (map fst SOURCE_TYPE_OPTIONS) = set SOURCE_TYPE" "set (map fst AUTH_TYPE_OPTIONS) = set AUTH_TYPE"
  "set (map fst TYPE_META) = set SOURCE_TYPE"
  by (auto simp: SOURCE_TYPE_OPTIONS_def AUTH_TYPE_OPTIONS_def SOURCE_TYPE_def AUTH_TYPE_def TYPE_META_def)

text \<open>An interval that cannot be read, and 0, become 5; a negative one is kept and refused on saving.\<close>

lemma poll_typed_zero: "poll_typed ''0'' = 5" "poll_typed [] = 5"
  by (simp_all add: poll_typed_def parseInt_or_def parseInt_def number_field_def parse_unsigned_def
      parse_magnitude_def is_digit_def is_space_def digits_value_def Let_def)

end
