(* ===== verification/Setup_Wizard.thy ===== *)
theory Setup_Wizard
  imports Source_Profiles Registry_Hooks
begin

text \<open>
  The overlay setup wizard, \<open>web/src/features/overlay/setup/SetupWizard.tsx\<close>: its three steps, each
  mounted afresh when the wizard comes to it, the requests of the first two, and the answers,
  which reach the wizard also when the step that asked is gone. The state holds the number of
  the mounted step's instance, and each request under way the number of the instance that sent it.
\<close>

section \<open>Steps\<close>

datatype step_key = CourtKey | SourceKey | ObsKey

definition STEPS :: "(step_key \<times> string \<times> string) list" where
  "STEPS =
     [(CourtKey, ''Create court'', ''Name the court players compete on''),
      (SourceKey, ''Pick data source'', ''Where will scores come from?''),
      (ObsKey, ''Copy OBS URL'', ''Add the browser source to OBS'')]"

datatype wizard_source = CourtCommand | ExternalSource

record wizard_court =
  wc_id :: int
  wc_name :: string
  wc_show :: bool
  wc_notes :: "string option"
  wc_slug :: string

text \<open>The local state of the steps.\<close>

record court_form =
  cf_name :: string
  cf_show :: bool
  cf_notes :: string
  cf_error :: "string option"
  cf_pending :: bool

record source_form =
  sf_source :: wizard_source
  sf_name :: string
  sf_type :: string
  sf_url :: string
  sf_secret :: string
  sf_auth :: string
  sf_token :: string
  sf_poll :: rat
  sf_error :: "string option"
  sf_pending :: bool

record obs_step =
  os_copied :: bool
  os_timers :: "nat list"

definition CourtStep_init :: "wizard_court option \<Rightarrow> court_form" where
  "CourtStep_init initial =
     \<lparr> cf_name = or_default [] (map_option wc_name initial),
       cf_show = or_default True (map_option wc_show initial),
       cf_notes = or_default [] (Option.bind initial wc_notes),
       cf_error = None, cf_pending = False \<rparr>"

definition SourceStep_init :: "wizard_court \<Rightarrow> source_form" where
  "SourceStep_init court =
     \<lparr> sf_source = CourtCommand, sf_name = wc_name court @ '' feed'', sf_type = ''rest_api'',
       sf_url = [], sf_secret = [], sf_auth = ''none'', sf_token = [], sf_poll = 5,
       sf_error = None, sf_pending = False \<rparr>"

definition ObsStep_init :: obs_step where
  "ObsStep_init = \<lparr> os_copied = False, os_timers = [] \<rparr>"

datatype wizard_page =
    CourtPage court_form
  | SourcePage source_form
  | ObsPage obs_step
  | BlankPage

section \<open>Requests\<close>

text \<open>The body of the new profile; the interval is a number with a fraction.\<close>

record profile_input =
  pr_name :: string
  pr_source_type :: string
  pr_api_url :: "string option"
  pr_secret :: "string option"
  pr_auth_type :: string
  pr_auth_config :: "(string \<times> string) list"
  pr_poll :: "rat option"

datatype wizard_task =
    CreatingCourt nat
  | CreatingProfile nat wizard_court
  | Binding nat wizard_court string

datatype wizard_answer =
    CourtCreated wizard_court
  | ProfileCreated int string
  | Bound
  | Refused string

datatype wizard_effect =
    WzCall api_call
  | WzPostProfile profile_input
  | WzToast string string
  | WzNavigate string

definition canSubmit :: "court_form \<Rightarrow> bool" where
  "canSubmit f \<longleftrightarrow> trim (cf_name f) \<noteq> [] \<and> \<not> cf_pending f"

definition court_body :: "court_form \<Rightarrow> js" where
  "court_body f = Obj
     [(''name'', Str (trim (cf_name f))), (''is_show_court'', Bool (cf_show f)),
      (''is_active'', Bool True), (''is_temporary'', Bool False),
      (''notes'', js_or (Str (trim (cf_notes f))) Null)]"

definition canContinue :: "source_form \<Rightarrow> bool" where
  "canContinue f =
     (if sf_source f = CourtCommand then True
      else if trim (sf_name f) = [] then False
      else if sf_type f = ''rest_api'' \<and> trim (sf_url f) = [] then False
      else if sf_type f = ''webhook'' \<and> trim (sf_secret f) = [] then False
      else True)"

definition token_missing :: "source_form \<Rightarrow> bool" where
  "token_missing f \<longleftrightarrow> sf_type f = ''rest_api'' \<and> sf_auth f = ''bearer'' \<and> trim (sf_token f) = []"

definition source_input :: "source_form \<Rightarrow> profile_input" where
  "source_input f =
     \<lparr> pr_name = trim (sf_name f), pr_source_type = sf_type f,
       pr_api_url = (if sf_type f = ''rest_api'' then Some (trim (sf_url f)) else None),
       pr_secret = (if sf_type f = ''webhook'' then Some (trim (sf_secret f)) else None),
       pr_auth_type = (if sf_type f = ''rest_api'' then sf_auth f else ''none''),
       pr_auth_config =
         (if sf_type f = ''rest_api'' \<and> sf_auth f = ''bearer'' then [(''token'', trim (sf_token f))] else []),
       pr_poll = (if sf_type f = ''rest_api'' then Some (sf_poll f) else None) \<rparr>"

text \<open>\<open>Math.max(1, Number(value) || 5)\<close>.\<close>

definition wizard_poll :: "string \<Rightarrow> rat" where
  "wizard_poll t = max 1 (case number_field t of None \<Rightarrow> 5 | Some q \<Rightarrow> if q = 0 then 5 else q)"

section \<open>The wizard\<close>

record wizard =
  wz_step :: nat
  wz_court :: "wizard_court option"
  wz_source :: wizard_source
  wz_page :: wizard_page
  wz_inst :: nat
  wz_tasks :: "wizard_task list"
  wz_left :: bool

definition currentStep :: "nat \<Rightarrow> step_key" where
  "currentStep i = fst (STEPS ! i)"

definition wizard_mount :: "nat \<Rightarrow> wizard_court option \<Rightarrow> wizard_page" where
  "wizard_mount i court =
     (case (currentStep i, court) of
        (CourtKey, _) \<Rightarrow> CourtPage (CourtStep_init court)
      | (SourceKey, Some c) \<Rightarrow> SourcePage (SourceStep_init c)
      | (ObsKey, Some c) \<Rightarrow> ObsPage ObsStep_init
      | _ \<Rightarrow> BlankPage)"

definition wizard_init :: wizard where
  "wizard_init =
     \<lparr> wz_step = 0, wz_court = None, wz_source = CourtCommand, wz_page = wizard_mount 0 None,
       wz_inst = 0, wz_tasks = [], wz_left = False \<rparr>"

definition wizard_goto :: "nat \<Rightarrow> wizard \<Rightarrow> wizard" where
  "wizard_goto i s =
     (if i = wz_step s then s
      else s\<lparr> wz_step := i, wz_page := wizard_mount i (wz_court s), wz_inst := wz_inst s + 1 \<rparr>)"

definition goNext :: "wizard \<Rightarrow> wizard" where
  "goNext s = wizard_goto (min (wz_step s + 1) (length STEPS - 1)) s"

definition goBack :: "wizard \<Rightarrow> wizard" where
  "goBack s = wizard_goto (wz_step s - 1) s"

definition onCourtCreated :: "wizard_court \<Rightarrow> wizard \<Rightarrow> wizard" where
  "onCourtCreated c s = goNext (s\<lparr> wz_court := Some c \<rparr>)"

definition onContinue :: "wizard_source \<Rightarrow> wizard \<Rightarrow> wizard" where
  "onContinue src s = goNext (s\<lparr> wz_source := src \<rparr>)"

text \<open>The events: what is typed and pressed on the mounted step, time, leaving, and the answers.\<close>

datatype wizard_event =
    WzName string
  | WzShow bool
  | WzNotes string
  | WzCreate
  | WzSource wizard_source
  | WzProfileName string
  | WzType string
  | WzUrl string
  | WzSecret string
  | WzAuth string
  | WzToken string
  | WzPoll string
  | WzContinue
  | WzBack
  | WzCopied
  | WzCopyFailed
  | WzWait nat
  | WzFinish
  | WzSkip
  | WzAnswer nat wizard_answer

definition on_court :: "(court_form \<Rightarrow> court_form) \<Rightarrow> wizard \<Rightarrow> wizard" where
  "on_court g s = (case wz_page s of CourtPage f \<Rightarrow> s\<lparr> wz_page := CourtPage (g f) \<rparr> | _ \<Rightarrow> s)"

definition on_source :: "(source_form \<Rightarrow> source_form) \<Rightarrow> wizard \<Rightarrow> wizard" where
  "on_source g s = (case wz_page s of SourcePage f \<Rightarrow> s\<lparr> wz_page := SourcePage (g f) \<rparr> | _ \<Rightarrow> s)"

definition on_obs :: "(obs_step \<Rightarrow> obs_step) \<Rightarrow> wizard \<Rightarrow> wizard" where
  "on_obs g s = (case wz_page s of ObsPage f \<Rightarrow> s\<lparr> wz_page := ObsPage (g f) \<rparr> | _ \<Rightarrow> s)"

text \<open>The fields of the external editor are on the screen with the external source only.\<close>

definition edit_external :: "(source_form \<Rightarrow> source_form) \<Rightarrow> source_form \<Rightarrow> source_form" where
  "edit_external g f = (if sf_source f = ExternalSource then g f else f)"

definition edit_rest :: "(source_form \<Rightarrow> source_form) \<Rightarrow> source_form \<Rightarrow> source_form" where
  "edit_rest g = edit_external (\<lambda>f. if sf_type f = ''rest_api'' then g f else f)"

definition wizard_create :: "wizard \<Rightarrow> wizard" where
  "wizard_create s =
     (case wz_page s of
        CourtPage f \<Rightarrow>
          if canSubmit f
          then s\<lparr> wz_page := CourtPage (f\<lparr> cf_error := None, cf_pending := True \<rparr>),
                  wz_tasks := wz_tasks s @ [CreatingCourt (wz_inst s)] \<rparr>
          else s
      | _ \<Rightarrow> s)"

definition wizard_continue :: "wizard \<Rightarrow> wizard" where
  "wizard_continue s =
     (case (wz_page s, wz_court s) of
        (SourcePage f, Some c) \<Rightarrow>
          if \<not> canContinue f \<or> sf_pending f then s
          else if sf_source f = CourtCommand then onContinue CourtCommand s
          else if token_missing f
          then s\<lparr> wz_page := SourcePage (f\<lparr> sf_error := Some ''Bearer token is required'' \<rparr>) \<rparr>
          else s\<lparr> wz_page := SourcePage (f\<lparr> sf_error := None, sf_pending := True \<rparr>),
                  wz_tasks := wz_tasks s @ [CreatingProfile (wz_inst s) c] \<rparr>
      | _ \<Rightarrow> s)"

text \<open>A failure is shown on the step that asked, if it is still mounted.\<close>

definition wizard_failed :: "nat \<Rightarrow> string \<Rightarrow> wizard \<Rightarrow> wizard" where
  "wizard_failed n t s =
     (if wz_inst s \<noteq> n then s
      else on_source (\<lambda>f. f\<lparr> sf_error := Some t, sf_pending := False \<rparr>)
        (on_court (\<lambda>f. f\<lparr> cf_error := Some t, cf_pending := False \<rparr>) s))"

definition drop_nth :: "nat \<Rightarrow> 'a list \<Rightarrow> 'a list" where
  "drop_nth i xs = take i xs @ drop (Suc i) xs"

fun wizard_answered :: "wizard_task \<Rightarrow> nat \<Rightarrow> wizard_answer \<Rightarrow> wizard \<Rightarrow> wizard" where
  "wizard_answered (CreatingCourt n) i (CourtCreated c) s =
     onCourtCreated c (s\<lparr> wz_tasks := drop_nth i (wz_tasks s) \<rparr>)"
| "wizard_answered (CreatingProfile n c) i (ProfileCreated pid name) s =
     s\<lparr> wz_tasks := (wz_tasks s)[i := Binding n c name] \<rparr>"
| "wizard_answered (Binding n c name) i Bound s =
     onContinue ExternalSource (s\<lparr> wz_tasks := drop_nth i (wz_tasks s) \<rparr>)"
| "wizard_answered (CreatingCourt n) i (Refused t) s =
     wizard_failed n t (s\<lparr> wz_tasks := drop_nth i (wz_tasks s) \<rparr>)"
| "wizard_answered (CreatingProfile n c) i (Refused t) s =
     wizard_failed n t (s\<lparr> wz_tasks := drop_nth i (wz_tasks s) \<rparr>)"
| "wizard_answered (Binding n c name) i (Refused t) s =
     wizard_failed n t (s\<lparr> wz_tasks := drop_nth i (wz_tasks s) \<rparr>)"
| "wizard_answered task i answer s = s"

fun answer_out :: "wizard_task \<Rightarrow> wizard_answer \<Rightarrow> wizard_effect list" where
  "answer_out (CreatingCourt n) (CourtCreated c) =
     [WzToast ''success'' (''Court \"'' @ wc_name c @ ''\" created'')]"
| "answer_out (CreatingProfile n c) (ProfileCreated pid name) = 
     [WzCall (m_call (useUpdateSourceProfileBinding (Num (wc_id c))) (Some pid))]"
| "answer_out (Binding n c name) Bound =
     [WzToast ''success'' (''Connected \"'' @ name @ ''\" to '' @ wc_name c)]"
| "answer_out (CreatingCourt n) (Refused t) = [WzToast ''error'' t]"
| "answer_out (CreatingProfile n c) (Refused t) = [WzToast ''error'' t]"
| "answer_out (Binding n c name) (Refused t) = [WzToast ''error'' t]"
| "answer_out task answer = []"

text \<open>What is typed and chosen on each step.\<close>

fun court_edit :: "court_form \<Rightarrow> wizard_event \<Rightarrow> court_form" where
  "court_edit f (WzName t) = f\<lparr> cf_name := t \<rparr>"
| "court_edit f (WzShow b) = f\<lparr> cf_show := b \<rparr>"
| "court_edit f (WzNotes t) = f\<lparr> cf_notes := t \<rparr>"
| "court_edit f _ = f"

fun source_edit :: "source_form \<Rightarrow> wizard_event \<Rightarrow> source_form" where
  "source_edit f (WzSource src) = f\<lparr> sf_source := src \<rparr>"
| "source_edit f (WzProfileName t) = edit_external (\<lambda>f. f\<lparr> sf_name := t \<rparr>) f"
| "source_edit f (WzType t) =
     (if t = ''rest_api'' \<or> t = ''webhook'' then edit_external (\<lambda>f. f\<lparr> sf_type := t \<rparr>) f else f)"
| "source_edit f (WzUrl t) = edit_rest (\<lambda>f. f\<lparr> sf_url := t \<rparr>) f"
| "source_edit f (WzSecret t) =
     edit_external (\<lambda>f. if sf_type f = ''webhook'' then f\<lparr> sf_secret := t \<rparr> else f) f"
| "source_edit f (WzAuth t) =
     (if t = ''none'' \<or> t = ''bearer'' then edit_rest (\<lambda>f. f\<lparr> sf_auth := t \<rparr>) f else f)"
| "source_edit f (WzToken t) =
     edit_rest (\<lambda>f. if sf_auth f = ''bearer'' then f\<lparr> sf_token := t \<rparr> else f) f"
| "source_edit f (WzPoll t) = edit_rest (\<lambda>f. f\<lparr> sf_poll := wizard_poll t \<rparr>) f"
| "source_edit f _ = f"

fun obs_edit :: "obs_step \<Rightarrow> wizard_event \<Rightarrow> obs_step" where
  "obs_edit f WzCopied = f\<lparr> os_copied := True, os_timers := 2000 # os_timers f \<rparr>"
| "obs_edit f (WzWait n) =
     f\<lparr> os_copied := (os_copied f \<and> list_all (\<lambda>r. n < r) (os_timers f)),
        os_timers := map (\<lambda>r. r - n) (filter (\<lambda>r. n < r) (os_timers f)) \<rparr>"
| "obs_edit f _ = f"

definition wizard_edit :: "wizard \<Rightarrow> wizard_event \<Rightarrow> wizard" where
  "wizard_edit s e =
     on_obs (\<lambda>f. obs_edit f e) (on_source (\<lambda>f. source_edit f e) (on_court (\<lambda>f. court_edit f e) s))"

fun wizard_live :: "wizard \<Rightarrow> wizard_event \<Rightarrow> wizard" where
  "wizard_live s WzCreate = wizard_create s"
| "wizard_live s WzContinue = wizard_continue s"
| "wizard_live s WzBack = (case wz_page s of SourcePage f \<Rightarrow> goBack s | ObsPage f \<Rightarrow> goBack s | _ \<Rightarrow> s)"
| "wizard_live s WzFinish = (case wz_page s of ObsPage f \<Rightarrow> s\<lparr> wz_left := True \<rparr> | _ \<Rightarrow> s)"
| "wizard_live s WzSkip = s\<lparr> wz_left := True \<rparr>"
| "wizard_live s (WzAnswer i a) =
     (if i < length (wz_tasks s) then wizard_answered (wz_tasks s ! i) i a s else s)"
| "wizard_live s e = wizard_edit s e"

text \<open>What the first two steps show: the error, and whether the button waits and can be pressed.\<close>

definition CourtStep_view :: "court_form \<Rightarrow> (string \<times> string) list \<times> string option \<times> bool \<times> bool" where
  "CourtStep_view f =
     ([(''Court name'', cf_name f), (''Court type'', if cf_show f then ''show'' else ''standard''),
       (''Notes'', cf_notes f)],
      (case cf_error f of Some t \<Rightarrow> if t = [] then None else Some t | None \<Rightarrow> None),
      cf_pending f, canSubmit f)"

definition SourceStep_fields :: "source_form \<Rightarrow> string list" where
  "SourceStep_fields f =
     (if sf_source f = CourtCommand then []
      else [''Profile name'', ''Source type''] @
        (if sf_type f = ''rest_api''
         then [''API URL'', ''Authentication'', ''Poll every (seconds)''] @
           (if sf_auth f = ''bearer'' then [''Bearer token''] else [])
         else []) @
        (if sf_type f = ''webhook'' then [''Shared secret''] else []))"

definition SourceStep_view :: "source_form \<Rightarrow> string list \<times> string option \<times> bool \<times> bool" where
  "SourceStep_view f =
     (SourceStep_fields f,
      (case sf_error f of Some t \<Rightarrow> if t = [] then None else Some t | None \<Rightarrow> None),
      sf_pending f, canContinue f \<and> \<not> sf_pending f)"

text \<open>After the wizard is left only the requests under way go on.\<close>

definition wizard_next :: "wizard \<Rightarrow> wizard_event \<Rightarrow> wizard" where
  "wizard_next s e =
     (if wz_left s
      then (case e of WzAnswer i a \<Rightarrow> s\<lparr> wz_tasks := wz_tasks (wizard_live s e) \<rparr> | _ \<Rightarrow> s)
      else wizard_live s e)"

definition ObsStep_url :: "string \<Rightarrow> wizard_court \<Rightarrow> string" where
  "ObsStep_url origin court = origin @ ''/overlay/court/'' @ wc_slug court"

fun wizard_pressed :: "wizard \<Rightarrow> wizard_event \<Rightarrow> wizard_effect list" where
  "wizard_pressed s WzCreate =
     (case wz_page s of
        CourtPage f \<Rightarrow>
          if canSubmit f then [WzCall (m_call useCreateFloatingCourt (court_body f))] else []
      | _ \<Rightarrow> [])"
| "wizard_pressed s WzContinue =
     (case (wz_page s, wz_court s) of
        (SourcePage f, Some c) \<Rightarrow>
          if canContinue f \<and> \<not> sf_pending f \<and> sf_source f = ExternalSource \<and> \<not> token_missing f
          then [WzPostProfile (source_input f)] else []
      | _ \<Rightarrow> [])"
| "wizard_pressed s WzCopied =
     (case wz_page s of ObsPage f \<Rightarrow> [WzToast ''success'' ''Overlay URL copied''] | _ \<Rightarrow> [])"
| "wizard_pressed s WzCopyFailed =
     (case wz_page s of
        ObsPage f \<Rightarrow> [WzToast ''error'' (''Clipboard blocked '' @ em_dash @ '' copy manually'')] | _ \<Rightarrow> [])"
| "wizard_pressed s WzFinish =
     (case (wz_page s, wz_court s) of
        (ObsPage f, Some c) \<Rightarrow> [WzNavigate (''/overlay/court/'' @ wc_slug c @ ''/settings'')]
      | _ \<Rightarrow> [])"
| "wizard_pressed s WzSkip = [WzNavigate ''/overlay'']"
| "wizard_pressed s _ = []"

definition wizard_out :: "wizard \<Rightarrow> wizard_event \<Rightarrow> wizard_effect list" where
  "wizard_out s e =
     (case e of
        WzAnswer i a \<Rightarrow> if i < length (wz_tasks s) then answer_out (wz_tasks s ! i) a else []
      | _ \<Rightarrow> if wz_left s then [] else wizard_pressed s e)"

fun wizard_sent :: "wizard \<Rightarrow> wizard_event list \<Rightarrow> wizard_effect list" where
  "wizard_sent s [] = []"
| "wizard_sent s (e # es) = wizard_out s e @ wizard_sent (wizard_next s e) es"

text \<open>The bar of the steps.\<close>

definition step_state :: "nat \<Rightarrow> nat \<Rightarrow> string" where
  "step_state currentIndex i =
     (if i < currentIndex then ''done'' else if i = currentIndex then ''current'' else ''upcoming'')"

definition StepNav :: "nat \<Rightarrow> (string \<times> string) list" where
  "StepNav currentIndex =
     map (\<lambda>i. (fst (snd (STEPS ! i)), step_state currentIndex i)) [0..<length STEPS]"

section \<open>Lemmas\<close>

lemma STEPS_simps [simp]:
  "length STEPS = 3" "currentStep 0 = CourtKey" "currentStep (Suc 0) = SourceKey"
  "currentStep 2 = ObsKey" "currentStep (Suc (Suc 0)) = ObsKey"
  by (simp_all add: STEPS_def currentStep_def numeral_2_eq_2)

definition page_matches :: "wizard_page \<Rightarrow> nat \<Rightarrow> bool" where
  "page_matches p i =
     (case p of CourtPage f \<Rightarrow> i = 0 | SourcePage f \<Rightarrow> i = 1 | ObsPage f \<Rightarrow> i = 2 | BlankPage \<Rightarrow> False)"

definition source_form_ok :: "source_form \<Rightarrow> bool" where
  "source_form_ok f \<longleftrightarrow>
     sf_type f \<in> {''rest_api'', ''webhook''} \<and> sf_auth f \<in> {''none'', ''bearer''} \<and> 1 \<le> sf_poll f"

definition wizard_ok :: "wizard \<Rightarrow> bool" where
  "wizard_ok s \<longleftrightarrow>
     wz_step s \<le> 2 \<and> (0 < wz_step s \<longrightarrow> wz_court s \<noteq> None) \<and> page_matches (wz_page s) (wz_step s) \<and>
     (case wz_page s of SourcePage f \<Rightarrow> source_form_ok f | _ \<Rightarrow> True)"

lemma wizard_goto_ok:
  assumes "wizard_ok s" and "i \<le> 2" and "0 < i \<longrightarrow> wz_court s \<noteq> None"
  shows "wizard_ok (wizard_goto i s)"
proof -
  have "i = 0 \<or> i = Suc 0 \<or> i = 2" using assms(2) by linarith
  then show ?thesis using assms
    by (auto simp: wizard_ok_def wizard_goto_def wizard_mount_def page_matches_def SourceStep_init_def
        source_form_ok_def split: option.splits)
qed

lemma wizard_moves_ok:
  "wizard_ok s \<Longrightarrow> wizard_ok (onCourtCreated c s)"
  "wizard_ok s \<Longrightarrow> wz_court s \<noteq> None \<Longrightarrow> wizard_ok (onContinue src s)"
  "wizard_ok s \<Longrightarrow> wizard_ok (goBack s)"
  unfolding onCourtCreated_def onContinue_def goNext_def goBack_def
  by (rule wizard_goto_ok; auto simp: wizard_ok_def)+

lemma wizard_edits_ok:
  "wizard_ok s \<Longrightarrow> wizard_ok (on_court g s)"
  "wizard_ok s \<Longrightarrow> (\<And>f. source_form_ok f \<Longrightarrow> source_form_ok (h f)) \<Longrightarrow> wizard_ok (on_source h s)"
  "wizard_ok s \<Longrightarrow> wizard_ok (on_obs k s)"
  by (auto simp: wizard_ok_def on_court_def on_source_def on_obs_def page_matches_def
      split: wizard_page.splits)

lemma wizard_tasks_ok [simp]:
  "wizard_ok (s\<lparr> wz_tasks := ts \<rparr>) = wizard_ok s" "wizard_ok (s\<lparr> wz_left := b \<rparr>) = wizard_ok s"
  by (simp_all add: wizard_ok_def)

lemma wizard_failed_ok: "wizard_ok s \<Longrightarrow> wizard_ok (wizard_failed n t s)"
  by (auto simp: wizard_failed_def source_form_ok_def intro!: wizard_edits_ok)

text \<open>A request for a profile or a binding is under way only when there is a court.\<close>

definition tasks_ok :: "wizard \<Rightarrow> bool" where
  "tasks_ok s \<longleftrightarrow>
     (wz_court s = None \<longrightarrow> list_all (\<lambda>t. case t of CreatingCourt n \<Rightarrow> True | _ \<Rightarrow> False) (wz_tasks s))"

lemma wizard_frame [simp]:
  "wz_court (on_court g s) = wz_court s" "wz_tasks (on_court g s) = wz_tasks s"
  "wz_court (on_source h s) = wz_court s" "wz_tasks (on_source h s) = wz_tasks s"
  "wz_court (on_obs k s) = wz_court s" "wz_tasks (on_obs k s) = wz_tasks s"
  "wz_court (wizard_goto i s) = wz_court s" "wz_tasks (wizard_goto i s) = wz_tasks s"
  "wz_left (wizard_goto i s) = wz_left s"
  by (simp_all add: on_court_def on_source_def on_obs_def wizard_goto_def split: wizard_page.split)

lemma wizard_frame_moves [simp]:
  "wz_court (onCourtCreated c s) = Some c" "wz_tasks (onCourtCreated c s) = wz_tasks s"
  "wz_court (onContinue src s) = wz_court s" "wz_tasks (onContinue src s) = wz_tasks s"
  "wz_court (goBack s) = wz_court s" "wz_tasks (goBack s) = wz_tasks s"
  "wz_court (wizard_failed n t s) = wz_court s" "wz_tasks (wizard_failed n t s) = wz_tasks s"
  by (simp_all add: onCourtCreated_def onContinue_def goNext_def goBack_def wizard_failed_def)

lemma list_all_drop_nth: "list_all P xs \<Longrightarrow> list_all P (drop_nth i xs)"
  by (auto simp: drop_nth_def list_all_iff dest: in_set_takeD in_set_dropD)

definition wizard_inv :: "wizard \<Rightarrow> bool" where
  "wizard_inv s \<longleftrightarrow> wizard_ok s \<and> tasks_ok s"

lemma wizard_answered_inv:
  assumes s: "wizard_inv s" and i: "i < length (wz_tasks s)"
  shows "wizard_inv (wizard_answered (wz_tasks s ! i) i a s)"
proof -
  have court: "wz_court s \<noteq> None" if "\<forall>n. wz_tasks s ! i \<noteq> CreatingCourt n"
  proof
    assume "wz_court s = None"
    then have "case wz_tasks s ! i of CreatingCourt n \<Rightarrow> True | _ \<Rightarrow> False"
      using s i by (simp add: wizard_inv_def tasks_ok_def list_all_length)
    then show False using that by (simp split: wizard_task.splits)
  qed
  show ?thesis
    using s court
    by (cases "(wz_tasks s ! i, i, a, s)" rule: wizard_answered.cases)
      (auto simp: wizard_inv_def tasks_ok_def list_all_drop_nth
        intro!: wizard_moves_ok wizard_failed_ok)
qed

lemma wizard_create_inv: "wizard_inv s \<Longrightarrow> wizard_inv (wizard_create s)"
  by (auto simp: wizard_create_def wizard_inv_def tasks_ok_def wizard_ok_def page_matches_def
      split: wizard_page.splits)

lemma wizard_continue_inv: "wizard_inv s \<Longrightarrow> wizard_inv (wizard_continue s)"
proof (cases "wz_page s")
  case (SourcePage f)
  assume s: "wizard_inv s"
  obtain c where c: "wz_court s = Some c"
    using s SourcePage by (auto simp: wizard_inv_def wizard_ok_def page_matches_def)
  have "wizard_inv (onContinue CourtCommand s)"
    using s c by (auto simp: wizard_inv_def tasks_ok_def intro!: wizard_moves_ok)
  then show ?thesis using s SourcePage c
    by (auto simp: wizard_continue_def wizard_inv_def tasks_ok_def wizard_ok_def page_matches_def
        source_form_ok_def)
qed (simp_all add: wizard_continue_def)

lemma edit_ok:
  "(\<And>f. source_form_ok f \<Longrightarrow> source_form_ok (g f)) \<Longrightarrow> source_form_ok f \<Longrightarrow> source_form_ok (edit_external g f)"
  "(\<And>f. source_form_ok f \<Longrightarrow> source_form_ok (g f)) \<Longrightarrow> source_form_ok f \<Longrightarrow> source_form_ok (edit_rest g f)"
  by (simp_all add: edit_external_def edit_rest_def)

lemma source_edit_ok: "source_form_ok f \<Longrightarrow> source_form_ok (source_edit f e)"
  by (cases e) (auto simp: source_form_ok_def wizard_poll_def edit_rest_def edit_external_def)

lemma wizard_edit_inv: "wizard_inv s \<Longrightarrow> wizard_inv (wizard_edit s e)"
  by (auto simp: wizard_edit_def wizard_inv_def tasks_ok_def source_edit_ok intro!: wizard_edits_ok)

lemma wizard_live_inv: "wizard_inv s \<Longrightarrow> wizard_inv (wizard_live s e)"
proof (cases e)
  case WzBack
  then show "wizard_inv s \<Longrightarrow> ?thesis"
    by (auto simp: wizard_inv_def tasks_ok_def intro!: wizard_moves_ok split: wizard_page.split)
next
  case WzFinish
  then show "wizard_inv s \<Longrightarrow> ?thesis"
    by (auto simp: wizard_inv_def tasks_ok_def split: wizard_page.split)
next
  case WzSkip
  then show "wizard_inv s \<Longrightarrow> ?thesis" by (simp add: wizard_inv_def tasks_ok_def)
qed (simp_all add: wizard_answered_inv wizard_create_inv wizard_continue_inv wizard_edit_inv)

lemma answered_creating:
  assumes "list_all (\<lambda>t. case t of CreatingCourt n \<Rightarrow> True | _ \<Rightarrow> False) (wz_tasks s)"
    and "i < length (wz_tasks s)"
  shows "list_all (\<lambda>t. case t of CreatingCourt n \<Rightarrow> True | _ \<Rightarrow> False)
     (wz_tasks (wizard_answered (wz_tasks s ! i) i a s))"
proof -
  have "case wz_tasks s ! i of CreatingCourt n \<Rightarrow> True | _ \<Rightarrow> False"
    using assms by (simp add: list_all_length)
  then show ?thesis
    using assms(1) by (cases "wz_tasks s ! i"; cases a) (simp_all add: list_all_drop_nth)
qed

lemma wizard_next_inv: "wizard_inv s \<Longrightarrow> wizard_inv (wizard_next s e)"
proof (cases "wz_left s")
  case True
  assume s: "wizard_inv s"
  show ?thesis
    using s True
    by (cases e) (auto simp: wizard_next_def wizard_inv_def tasks_ok_def answered_creating)
qed (simp add: wizard_next_def wizard_live_inv)

lemma wizard_init_inv: "wizard_inv wizard_init"
  by (simp add: wizard_inv_def wizard_ok_def tasks_ok_def wizard_init_def wizard_mount_def page_matches_def)

interpretation setup_wizard: event_machine wizard_next "\<lambda>s. s = wizard_init" wizard_inv
  by unfold_locales (auto simp: wizard_init_inv wizard_next_inv)

section \<open>Properties\<close>

text \<open>
  The wizard never goes blank: after any run, answers that come late included, it is on one
  of its three steps, that step is the one mounted, and past the first step there is a court.
\<close>

theorem wizard_never_blank:
  "let s = run wizard_next wizard_init es in
     wz_step s < length STEPS \<and>
     (case (currentStep (wz_step s), wz_page s) of
        (CourtKey, CourtPage f) \<Rightarrow> True
      | (SourceKey, SourcePage f) \<Rightarrow> wz_court s \<noteq> None
      | (ObsKey, ObsPage f) \<Rightarrow> wz_court s \<noteq> None
      | _ \<Rightarrow> False)"
proof -
  have "wizard_ok (run wizard_next wizard_init es)"
    using setup_wizard.reachable_inv [of wizard_init es] by (simp add: wizard_inv_def)
  then show ?thesis
    by (cases "wz_page (run wizard_next wizard_init es)")
      (auto simp: wizard_ok_def page_matches_def Let_def)
qed

text \<open>The profiles the wizard creates.\<close>

definition profile_input_ok :: "profile_input \<Rightarrow> bool" where
  "profile_input_ok p \<longleftrightarrow>
     pr_name p \<noteq> [] \<and> trim (pr_name p) = pr_name p \<and>
     (if pr_source_type p = ''rest_api''
      then pr_api_url p \<noteq> None \<and> pr_api_url p \<noteq> Some [] \<and> pr_secret p = None \<and>
        pr_poll p \<noteq> None \<and> 1 \<le> the (pr_poll p) \<and>
        (if pr_auth_type p = ''bearer'' then map fst (pr_auth_config p) = [''token''] \<and> snd (hd (pr_auth_config p)) \<noteq> []
         else pr_auth_type p = ''none'' \<and> pr_auth_config p = [])
      else pr_source_type p = ''webhook'' \<and> pr_secret p \<noteq> None \<and> pr_secret p \<noteq> Some [] \<and>
        pr_api_url p = None \<and> pr_poll p = None \<and> pr_auth_type p = ''none'' \<and> pr_auth_config p = [])"

lemma source_input_ok:
  assumes "source_form_ok f" "sf_source f = ExternalSource" "canContinue f" "\<not> token_missing f"
  shows "profile_input_ok (source_input f)"
  using assms
  by (auto simp: profile_input_ok_def source_input_def source_form_ok_def canContinue_def token_missing_def
      split: if_splits)

lemma out_profile:
  "WzPostProfile p \<in> set (wizard_out s e) \<Longrightarrow>
     \<exists>f. wz_page s = SourcePage f \<and> p = source_input f \<and> sf_source f = ExternalSource \<and> canContinue f \<and>
       \<not> token_missing f"
proof (cases e)
  case (WzAnswer i a)
  assume "WzPostProfile p \<in> set (wizard_out s e)"
  then have "i < length (wz_tasks s)" "WzPostProfile p \<in> set (answer_out (wz_tasks s ! i) a)"
    using WzAnswer by (auto simp: wizard_out_def split: if_splits)
  then show ?thesis by (cases "wz_tasks s ! i"; cases a) simp_all
next
  case WzContinue
  then show "WzPostProfile p \<in> set (wizard_out s e) \<Longrightarrow> ?thesis"
    by (cases "wz_page s"; cases "wz_court s") (auto simp: wizard_out_def split: if_splits)
qed (auto simp: wizard_out_def split: if_splits wizard_page.splits option.splits)

text \<open>
  Every profile the wizard creates has a name, and what its source type needs and nothing
  else: an address and an interval of at least one second, with a bearer token exactly for
  that authentication, or a secret.
\<close>

theorem wizard_profiles_typed:
  assumes "WzPostProfile p \<in> set (wizard_out (run wizard_next wizard_init es) e)"
  shows "profile_input_ok p"
proof -
  let ?s = "run wizard_next wizard_init es"
  obtain f where f: "wz_page ?s = SourcePage f" "p = source_input f" "sf_source f = ExternalSource"
      "canContinue f" "\<not> token_missing f"
    using out_profile [OF assms] by blast
  have "wizard_ok ?s" using setup_wizard.reachable_inv [of wizard_init es] by (simp add: wizard_inv_def)
  then have "source_form_ok f" using f(1) by (simp add: wizard_ok_def)
  then show ?thesis using f by (simp add: source_input_ok)
qed

definition sample_wizard_court :: wizard_court where
  "sample_wizard_court =
     \<lparr> wc_id = 7, wc_name = ''Court 1'', wc_show = True, wc_notes = None, wc_slug = ''court-1'' \<rparr>"

definition external_session :: "wizard_event list" where
  "external_session =
     [WzName ''Court 1'', WzCreate, WzAnswer 0 (CourtCreated sample_wizard_court),
      WzSource ExternalSource, WzUrl ''http://x'', WzPoll ''0.25'']"

definition external_form :: source_form where
  "external_form = (SourceStep_init sample_wizard_court)
     \<lparr> sf_source := ExternalSource, sf_url := ''http://x'', sf_poll := 1 \<rparr>"

lemma quarter_poll: "wizard_poll ''0.25'' = 1"
  by (simp add: wizard_poll_def number_field_def parse_magnitude_def is_digit_def digits_value_def
      parse_exponent_def scale_dec_def Let_def)

lemma external_session_run:
  "run wizard_next wizard_init external_session =
     \<lparr> wz_step = 1, wz_court = Some sample_wizard_court, wz_source = CourtCommand,
       wz_page = SourcePage external_form, wz_inst = 1, wz_tasks = [], wz_left = False \<rparr>"
  by (simp add: external_session_def external_form_def wizard_next_def wizard_init_def wizard_mount_def
      on_court_def on_source_def wizard_create_def canSubmit_def CourtStep_init_def or_default_def trim_def
      is_space_def onCourtCreated_def goNext_def wizard_goto_def drop_nth_def SourceStep_init_def
      wizard_edit_def on_obs_def edit_rest_def edit_external_def quarter_poll)

lemma external_ready:
  "sf_source external_form = ExternalSource" "canContinue external_form" "\<not> token_missing external_form"
  "\<not> sf_pending external_form"
  by (simp_all add: external_form_def SourceStep_init_def canContinue_def token_missing_def trim_def
      is_space_def sample_wizard_court_def)

theorem wizard_profiles_typed_witness: "profile_input_ok (source_input external_form)"
  by (rule wizard_profiles_typed [of _ external_session WzContinue])
    (simp add: external_session_run wizard_out_def external_ready)

text \<open>
  The binding of a court, as the requests sent so far leave it: the last one counts.
\<close>

definition binding_of :: "int \<Rightarrow> wizard_effect \<Rightarrow> js option" where
  "binding_of cid e =
     (case e of
        WzCall (ApiPut path b) \<Rightarrow>
          if path = ''/api/v1/overlay/court/'' @ show_int cid @ ''/config/source-profile''
          then Some (js_opt_get b ''source_profile_id'') else None
      | _ \<Rightarrow> None)"

definition last_binding :: "int \<Rightarrow> wizard_effect list \<Rightarrow> js" where
  "last_binding cid es = foldl (\<lambda>v e. case binding_of cid e of None \<Rightarrow> v | Some w \<Rightarrow> w) Null es"

lemma wizard_sent_append [simp]:
  "wizard_sent s (es @ es') = wizard_sent s es @ wizard_sent (run wizard_next s es) es'"
  by (induction es arbitrary: s) simp_all

lemma out_binding: "e \<in> set (wizard_out s x) \<Longrightarrow> binding_of cid e \<noteq> Some Null"
proof (cases x)
  case (WzAnswer i a)
  assume "e \<in> set (wizard_out s x)"
  then have "e \<in> set (answer_out (wz_tasks s ! i) a)"
    using WzAnswer by (auto simp: wizard_out_def split: if_splits)
  then show ?thesis
    by (cases "wz_tasks s ! i"; cases a)
      (auto simp: binding_of_def useUpdateSourceProfileBinding_def js_opt_get_def)
qed (auto simp: wizard_out_def binding_of_def useCreateFloatingCourt_def
    split: if_splits wizard_page.splits option.splits)

lemma sent_binding: "e \<in> set (wizard_sent s es) \<Longrightarrow> binding_of cid e \<noteq> Some Null"
  by (induction es arbitrary: s) (auto simp: out_binding)

lemma binding_kept:
  "\<forall>e \<in> set es. binding_of cid e \<noteq> Some Null \<Longrightarrow> v \<noteq> Null \<Longrightarrow>
     foldl (\<lambda>v e. case binding_of cid e of None \<Rightarrow> v | Some w \<Rightarrow> w) v es \<noteq> Null"
  by (induction es arbitrary: v) (auto split: option.splits)

text \<open>
  A court that the wizard has bound to an external profile stays bound: no later step of the
  wizard sends the request that gives the court back to Court Command's own matches, although
  the operator can go back, choose them, and is led to the last step as if they were in use.
\<close>

theorem wizard_binding_stays:
  assumes "last_binding cid (wizard_sent wizard_init es) \<noteq> Null"
  shows "last_binding cid (wizard_sent wizard_init (es @ es')) \<noteq> Null"
  unfolding wizard_sent_append last_binding_def foldl_append
  by (rule binding_kept) (use assms sent_binding in \<open>auto simp: last_binding_def\<close>)

definition second_thoughts :: "wizard_event list" where
  "second_thoughts = [WzBack, WzSource CourtCommand, WzContinue]"

definition bound_session :: "wizard_event list" where
  "bound_session =
     external_session @ [WzContinue, WzAnswer 0 (ProfileCreated 3 ''Court 1 feed''), WzAnswer 0 Bound]"

lemma bound_session_run:
  "run wizard_next wizard_init bound_session =
     \<lparr> wz_step = 2, wz_court = Some sample_wizard_court, wz_source = ExternalSource,
       wz_page = ObsPage ObsStep_init, wz_inst = 2, wz_tasks = [], wz_left = False \<rparr>"
  by (simp add: bound_session_def external_session_run wizard_next_def wizard_continue_def external_ready
      drop_nth_def onContinue_def goNext_def wizard_goto_def wizard_mount_def)

lemma second_thoughts_run:
  "wz_source (run wizard_next wizard_init (bound_session @ second_thoughts)) = CourtCommand"
  "wz_step (run wizard_next wizard_init (bound_session @ second_thoughts)) = 2"
  by (simp_all add: bound_session_run second_thoughts_def wizard_next_def wizard_continue_def
      wizard_edit_def on_obs_def on_court_def on_source_def goBack_def goNext_def wizard_goto_def wizard_mount_def onContinue_def
      SourceStep_init_def canContinue_def)

lemma bound_session_binding: "last_binding 7 (wizard_sent wizard_init bound_session) = Num 3"
proof -
  have "wizard_sent wizard_init external_session =
      [WzCall (m_call useCreateFloatingCourt (court_body ((CourtStep_init None)\<lparr> cf_name := ''Court 1'' \<rparr>))),
       WzToast ''success'' (''Court \"Court 1\" created'')]"
    by (simp add: external_session_def wizard_out_def wizard_next_def wizard_init_def wizard_mount_def
        wizard_edit_def on_obs_def on_court_def on_source_def wizard_create_def canSubmit_def
        CourtStep_init_def or_default_def trim_def is_space_def onCourtCreated_def goNext_def wizard_goto_def drop_nth_def
        sample_wizard_court_def)
  then show ?thesis
    by (simp add: bound_session_def external_session_run wizard_out_def wizard_next_def wizard_continue_def
        external_ready last_binding_def binding_of_def useCreateFloatingCourt_def sample_wizard_court_def
        useUpdateSourceProfileBinding_def js_opt_get_def)
qed

theorem wizard_binding_stays_witness:
  "last_binding 7 (wizard_sent wizard_init (bound_session @ second_thoughts)) \<noteq> Null \<and>
   wz_source (run wizard_next wizard_init (bound_session @ second_thoughts)) = CourtCommand"
  using wizard_binding_stays [of 7 bound_session second_thoughts] bound_session_binding
    second_thoughts_run(1) by simp

text \<open>
  Nothing ties a second attempt to what the first one made. After a profile was created and
  binding it failed, pressing the button again creates the profile a second time; after a court
  was created, going back and pressing the button creates it a second time.
\<close>

theorem wizard_retry_duplicates:
  assumes "wz_page s = SourcePage f" and "wz_court s = Some c" and "wz_tasks s = []" and "\<not> wz_left s"
    and "sf_source f = ExternalSource" and "canContinue f" and "\<not> token_missing f" and "\<not> sf_pending f"
    and "wz_step s = 1" and "trim (wc_name c) \<noteq> []"
  shows "filter (\<lambda>e. case e of WzPostProfile p \<Rightarrow> True | _ \<Rightarrow> False)
      (wizard_sent s [WzContinue, WzAnswer 0 (ProfileCreated pid name), WzAnswer 0 (Refused t), WzContinue]) =
        [WzPostProfile (source_input f), WzPostProfile (source_input f)] \<and>
    wizard_out (wizard_next s WzBack) WzCreate =
      [WzCall (m_call useCreateFloatingCourt (court_body (CourtStep_init (Some c))))]"
proof (intro conjI)
  define g where "g = f\<lparr> sf_error := Some t, sf_pending := False \<rparr>"
  have "canContinue g = canContinue f" "token_missing g = token_missing f"
    by (simp_all add: g_def canContinue_def token_missing_def)
  then have g: "sf_source g = ExternalSource" "canContinue g" "\<not> token_missing g" "\<not> sf_pending g"
      "source_input g = source_input f"
    using assms(5-7) by (simp_all add: g_def source_input_def)
  have r: "run wizard_next s [WzContinue, WzAnswer 0 (ProfileCreated pid name), WzAnswer 0 (Refused t)] =
      s\<lparr> wz_page := SourcePage g \<rparr>"
    using assms
    by (simp add: wizard_next_def wizard_continue_def drop_nth_def wizard_failed_def on_source_def
        on_court_def g_def)
  have first: "wizard_sent s [WzContinue, WzAnswer 0 (ProfileCreated pid name), WzAnswer 0 (Refused t)] =
      [WzPostProfile (source_input f),
       WzCall (m_call (useUpdateSourceProfileBinding (Num (wc_id c))) (Some pid)), WzToast ''error'' t]"
    using assms by (simp add: wizard_out_def wizard_next_def wizard_continue_def)
  have split: "[WzContinue, WzAnswer 0 (ProfileCreated pid name), WzAnswer 0 (Refused t), WzContinue] =
      [WzContinue, WzAnswer 0 (ProfileCreated pid name), WzAnswer 0 (Refused t)] @ [WzContinue]" by simp
  show "filter (\<lambda>e. case e of WzPostProfile p \<Rightarrow> True | _ \<Rightarrow> False)
      (wizard_sent s [WzContinue, WzAnswer 0 (ProfileCreated pid name), WzAnswer 0 (Refused t), WzContinue]) =
        [WzPostProfile (source_input f), WzPostProfile (source_input f)]"
    unfolding split wizard_sent_append r first using assms g
    by (simp add: wizard_out_def)
  show "wizard_out (wizard_next s WzBack) WzCreate =
      [WzCall (m_call useCreateFloatingCourt (court_body (CourtStep_init (Some c))))]"
    using assms(1,2,4,9,10)
    by (simp add: wizard_next_def goBack_def wizard_goto_def wizard_mount_def wizard_out_def canSubmit_def
        CourtStep_init_def or_default_def)
qed

theorem wizard_retry_duplicates_witness:
  "wizard_out (wizard_next (run wizard_next wizard_init external_session) WzBack) WzCreate =
     [WzCall (m_call useCreateFloatingCourt (court_body (CourtStep_init (Some sample_wizard_court))))]"
  by (rule wizard_retry_duplicates [THEN conjunct2, of _ external_form])
    (simp_all add: external_session_run external_ready sample_wizard_court_def trim_def is_space_def)

text \<open>
  An answer that comes after the operator went back moves the wizard forward from the step the
  operator went back to.
\<close>

lemma late_answer_moves:
  "wz_step (run wizard_next wizard_init (external_session @
     [WzContinue, WzAnswer 0 (ProfileCreated 3 ''F''), WzBack, WzAnswer 0 Bound])) = 1 \<and>
   wz_source (run wizard_next wizard_init (external_session @
     [WzContinue, WzAnswer 0 (ProfileCreated 3 ''F''), WzBack, WzAnswer 0 Bound])) = ExternalSource"
  by (simp add: external_session_run wizard_next_def wizard_continue_def external_ready drop_nth_def
      goBack_def onContinue_def goNext_def wizard_goto_def wizard_mount_def)

text \<open>The address the last step shows is the one of the control panel's tab, without a token.\<close>

lemma ObsStep_url_panel: "ObsStep_url origin c = obs_fullUrl origin (wc_slug c) None"
  by (simp add: ObsStep_url_def obs_fullUrl_def obs_baseUrl_def)

end
