(* ===== verification/Scoreboards.thy ===== *)
theory Scoreboards
  imports Overlay_Elements Form_Inputs
begin

text \<open>
  The two layouts of the scoreboard element, \<open>web/src/features/overlay/renderer/elements/scoreboard\<close>:
  what \<open>ClassicScoreboard.tsx\<close> and \<open>BannerScoreboard.tsx\<close> select from the overlay data, the pulse of
  a changed score, and the slots of the logos. Colours, fonts and class names are left out;
  \<open>mounted\<close> is the answer of the fade hook.
\<close>

section \<open>Words and initials\<close>

text \<open>\<open>s.split(/\s+/)\<close> without its empty pieces, and as it is on a trimmed text.\<close>

fun space_words :: "string \<Rightarrow> string list" where
  "space_words [] = [[]]"
| "space_words (x # xs) =
     (if is_space x then [] # space_words xs
      else (case space_words xs of [] \<Rightarrow> [[x]] | w # ws \<Rightarrow> (x # w) # ws))"

definition text_words :: "string \<Rightarrow> string list" where
  "text_words s = filter (\<lambda>w. w \<noteq> []) (space_words s)"

definition split_trimmed :: "string \<Rightarrow> string list" where
  "split_trimmed s = (if text_words s = [] then [[]] else text_words s)"

definition upper :: "string \<Rightarrow> string" where
  "upper s = map to_upper s"

definition classic_initials :: "string \<Rightarrow> string" where
  "classic_initials name =
     (if name = [] then []
      else let parts = split_trimmed (trim name) in
        if length parts = 1 then upper (take 3 (hd parts))
        else concat (map (\<lambda>p. upper (take 1 p)) (take 2 parts)))"

definition banner_initials :: "string \<Rightarrow> string" where
  "banner_initials name =
     (if name = [] then []
      else let parts = split_trimmed (trim name) in
        if 2 \<le> length parts then upper (take 1 (hd parts) @ take 1 (last parts))
        else upper (take 3 name))"

section \<open>What both layouts read\<close>

definition serving_side :: "overlay_data \<Rightarrow> int" where
  "serving_side data =
     (if od_serving_team data = 1 \<or> od_serving_team data = 2 then od_serving_team data else 0)"

definition is_completed :: "overlay_data \<Rightarrow> bool" where
  "is_completed data \<longleftrightarrow> od_match_status data = ''completed''"

definition team1Winner :: "overlay_data \<Rightarrow> bool" where
  "team1Winner data \<longleftrightarrow> is_completed data \<and> td_game_wins (od_team_2 data) < td_game_wins (od_team_1 data)"

definition team2Winner :: "overlay_data \<Rightarrow> bool" where
  "team2Winner data \<longleftrightarrow> is_completed data \<and> td_game_wins (od_team_1 data) < td_game_wins (od_team_2 data)"

text \<open>A dot per completed game: its title, and whether it has the colour of the first team.\<close>

definition GameHistoryDots :: "game_result list \<Rightarrow> (string \<times> bool) list" where
  "GameHistoryDots games =
     map (\<lambda>g. (''Game '' @ show_int (gr_game_num g) @ '': '' @ show_int (gr_score_team_1 g) @ ''-'' @
                 show_int (gr_score_team_2 g), gr_winner g = 1)) games"

text \<open>Two pips per team.\<close>

definition TimeoutPips :: "int \<Rightarrow> string \<Rightarrow> string \<times> bool list" where
  "TimeoutPips remaining label =
     (let shown = max 0 (min 2 remaining) in
      (label @ '' timeouts: '' @ show_int remaining, map (\<lambda>i. i < shown) [0, 1]))"

definition context_parts :: "overlay_data \<Rightarrow> string list" where
  "context_parts data =
     filter (\<lambda>s. s \<noteq> []) [od_division_name data, od_round_label data, od_match_info data]"

definition timeouts_used :: "overlay_data \<Rightarrow> bool" where
  "timeouts_used data \<longleftrightarrow> od_timeouts_remaining_1 data < 2 \<or> od_timeouts_remaining_2 data < 2"

definition has_extras :: "overlay_data \<Rightarrow> bool" where
  "has_extras data \<longleftrightarrow> od_is_paused data \<or> od_completed_games data \<noteq> [] \<or> timeouts_used data"

record scoreboard_config = element_config +
  sb_layout :: "string option"
  sb_tournament_logo :: "number option \<times> number option \<times> number option"
  sb_team_1_logo :: "number option \<times> number option \<times> number option"
  sb_team_2_logo :: "number option \<times> number option \<times> number option"

section \<open>The classic layout\<close>

record classic_row =
  cr_name :: string
  cr_color :: string
  cr_initials :: string
  cr_score :: int
  cr_serving :: bool
  cr_winner :: bool

definition classic_TeamRow :: "team_data \<Rightarrow> bool \<Rightarrow> bool \<Rightarrow> classic_row" where
  "classic_TeamRow t serving winner =
     \<lparr> cr_name = str_or (td_short_name t) (td_name t),
       cr_color = str_or (td_color t) ''var(--overlay-accent)'',
       cr_initials = join_present '' / '' (map classic_initials (take 2 (td_players t))),
       cr_score = td_score t, cr_serving = serving, cr_winner = winner \<rparr>"

record extras_bar =
  xb_games :: "(string \<times> bool) list"
  xb_pips :: "(string \<times> bool list) list"
  xb_paused :: bool

record classic_board =
  cb_row_1 :: classic_row
  cb_row_2 :: classic_row
  cb_extras :: "extras_bar option"
  cb_context :: "string option"
  cb_glow :: bool
  cb_place :: "string \<times> string \<times> number"

definition MatchContextBar :: "overlay_data \<Rightarrow> string option" where
  "MatchContextBar data =
     (if context_parts data = [] then None else Some (join_with mid_dot (context_parts data)))"

definition ClassicScoreboard :: "overlay_data \<Rightarrow> scoreboard_config \<Rightarrow> bool \<Rightarrow> classic_board option" where
  "ClassicScoreboard data config mounted =
     (if \<not> mounted then None
      else Some
        \<lparr> cb_row_1 = classic_TeamRow (od_team_1 data) (serving_side data = 1) (team1Winner data),
          cb_row_2 = classic_TeamRow (od_team_2 data) (serving_side data = 2) (team2Winner data),
          cb_extras =
            (if has_extras data
             then Some \<lparr> xb_games = GameHistoryDots (od_completed_games data),
                    xb_pips = [TimeoutPips (od_timeouts_remaining_1 data) ''T1'',
                       TimeoutPips (od_timeouts_remaining_2 data) ''T2''],
                    xb_paused = od_is_paused data \<rparr>
             else None),
          cb_context = MatchContextBar data,
          cb_glow = is_completed data,
          cb_place = place ''bottom-left'' (element_config.truncate config) \<rparr>)"

section \<open>The banner layout\<close>

definition toLogoTransform ::
    "number option \<times> number option \<times> number option \<Rightarrow> number \<times> number \<times> number" where
  "toLogoTransform t = (case t of (s, x, y) \<Rightarrow> (clampScale s, clampOffset x, clampOffset y))"

definition logoTransformStyle :: "number \<times> number \<times> number \<Rightarrow> (number \<times> number \<times> number) option" where
  "logoTransformStyle t =
     (case t of (s, x, y) \<Rightarrow>
        if s = Fin 1 \<and> x = Fin 0 \<and> y = Fin 0 then None else Some (x, y, s))"

text \<open>The wordmark in place of a missing logo: the words before the last, and the last.\<close>

definition WordmarkFallback :: "string \<Rightarrow> (string \<times> string option) option" where
  "WordmarkFallback label =
     (if label = [] then None
      else let ws = text_words label in
        Some (if 1 < length ws then join_with '' '' (butlast ws) else if ws = [] then [] else hd ws,
              if 1 < length ws then Some (last ws) else None))"

text \<open>
  A slot for a logo: the address it was last rendered with, and whether an image has failed in it.
\<close>

record logo_slot =
  lg_url :: string
  lg_broken :: bool

definition logo_slot_init :: "string \<Rightarrow> logo_slot" where
  "logo_slot_init url = \<lparr> lg_url = url, lg_broken = False \<rparr>"

definition showImg :: "logo_slot \<Rightarrow> bool" where
  "showImg s \<longleftrightarrow> lg_url s \<noteq> [] \<and> \<not> lg_broken s"

datatype logo_event = LogoUrl string | LogoError

fun logo_step :: "logo_slot \<Rightarrow> logo_event \<Rightarrow> logo_slot" where
  "logo_step s (LogoUrl u) = s\<lparr> lg_url := u \<rparr>"
| "logo_step s LogoError = (if showImg s then s\<lparr> lg_broken := True \<rparr> else s)"

datatype slot_view =
    SlotImage string string
  | SlotWordmark "(string \<times> string option) option"
  | SlotChip string

definition TournamentBadge :: "logo_slot \<Rightarrow> string \<Rightarrow> slot_view" where
  "TournamentBadge s label =
     (if showImg s then SlotImage (lg_url s) (str_or label ''Tournament logo'')
      else SlotWordmark (WordmarkFallback label))"

definition AbbreviationChip :: "string \<Rightarrow> string \<Rightarrow> string" where
  "AbbreviationChip shortName name =
     (let label = str_or (trim shortName) (banner_initials name) in str_or label em_dash)"

definition TeamLogoOrChip :: "logo_slot \<Rightarrow> string \<Rightarrow> string \<Rightarrow> slot_view" where
  "TeamLogoOrChip s shortName name =
     (if showImg s then SlotImage (lg_url s) (str_or name (str_or shortName ''Team'') @ '' logo'')
      else SlotChip (AbbreviationChip shortName name))"

record banner_row =
  br_name :: string
  br_color :: string
  br_roster :: string
  br_logo :: slot_view
  br_transform :: "(number \<times> number \<times> number) option"
  br_serving :: bool
  br_winner :: bool

definition banner_TeamRow ::
    "team_data \<Rightarrow> logo_slot \<Rightarrow> number option \<times> number option \<times> number option \<Rightarrow> bool \<Rightarrow> bool \<Rightarrow> banner_row"
where
  "banner_TeamRow t slot transform serving winner =
     \<lparr> br_name = str_or (td_name t) (str_or (td_short_name t) ''Team''),
       br_color = str_or (td_color t) ''var(--overlay-accent)'',
       br_roster = join_present '' & '' (map trim (td_players t)),
       br_logo = TeamLogoOrChip slot (td_short_name t) (td_name t),
       br_transform = logoTransformStyle (toLogoTransform transform),
       br_serving = serving, br_winner = winner \<rparr>"

text \<open>The score cells: value, and whether the winner's colour is on.\<close>

definition score_cell_view :: "int \<Rightarrow> bool \<Rightarrow> int \<times> bool" where
  "score_cell_view value highlight = (value, highlight)"

record banner_bottom =
  bb_parts :: string
  bb_games :: "(string \<times> bool) list"
  bb_pips :: "(string \<times> bool list) list"
  bb_paused :: bool

definition BottomStrip :: "overlay_data \<Rightarrow> banner_bottom" where
  "BottomStrip data =
     \<lparr> bb_parts = join_with mid_dot (context_parts data),
       bb_games = GameHistoryDots (od_completed_games data),
       bb_pips = (if timeouts_used data
         then [TimeoutPips (od_timeouts_remaining_1 data) ''T1'',
               TimeoutPips (od_timeouts_remaining_2 data) ''T2''] else []),
       bb_paused = od_is_paused data \<rparr>"

record banner_board =
  bn_top :: "string option"
  bn_badge :: slot_view
  bn_badge_transform :: "(number \<times> number \<times> number) option"
  bn_row_1 :: banner_row
  bn_row_2 :: banner_row
  bn_score_1 :: "int \<times> bool"
  bn_score_2 :: "int \<times> bool"
  bn_bottom :: "banner_bottom option"
  bn_glow :: bool
  bn_place :: "string \<times> string \<times> number"

definition badgeLogo :: "overlay_data \<Rightarrow> string" where
  "badgeLogo data = str_or (od_tournament_logo_url data) (od_league_logo_url data)"

definition badgeLabel :: "overlay_data \<Rightarrow> string" where
  "badgeLabel data = str_or (od_tournament_name data) (str_or (od_league_name data) ''Live'')"

definition ContextStrip :: "string list \<Rightarrow> string" where
  "ContextStrip parts = join_with mid_dot parts"

definition topStripParts :: "overlay_data \<Rightarrow> string list" where
  "topStripParts data =
     filter (\<lambda>s. s \<noteq> []) [od_court_name data, od_tournament_name data, od_league_name data]"

definition BannerScoreboard ::
    "overlay_data \<Rightarrow> scoreboard_config \<Rightarrow> logo_slot \<times> logo_slot \<times> logo_slot \<Rightarrow> bool \<Rightarrow> banner_board option"
where
  "BannerScoreboard data config slots mounted =
     (if \<not> mounted then None
      else (case slots of (badge, slot_1, slot_2) \<Rightarrow> Some
        \<lparr> bn_top = (if topStripParts data = [] then None else Some (ContextStrip (topStripParts data))),
          bn_badge = TournamentBadge badge (badgeLabel data),
          bn_badge_transform = logoTransformStyle (toLogoTransform (sb_tournament_logo config)),
          bn_row_1 = banner_TeamRow (od_team_1 data) slot_1 (sb_team_1_logo config)
            (serving_side data = 1) (team1Winner data),
          bn_row_2 = banner_TeamRow (od_team_2 data) slot_2 (sb_team_2_logo config)
            (serving_side data = 2) (team2Winner data),
          bn_score_1 = score_cell_view (td_score (od_team_1 data)) (team1Winner data),
          bn_score_2 = score_cell_view (td_score (od_team_2 data)) (team2Winner data),
          bn_bottom = (if context_parts data \<noteq> [] \<or> has_extras data then Some (BottomStrip data) else None),
          bn_glow = is_completed data,
          bn_place = place ''bottom-center'' (element_config.truncate config) \<rparr>))"

text \<open>The slots of a mounted banner are rendered with the addresses of the data.\<close>

definition banner_slots :: "overlay_data \<Rightarrow> string \<times> string \<times> string" where
  "banner_slots data = (badgeLogo data, td_logo_url (od_team_1 data), td_logo_url (od_team_2 data))"

datatype board = ClassicBoard "classic_board option" | BannerBoard "banner_board option"

definition Scoreboard ::
    "overlay_data \<Rightarrow> scoreboard_config \<Rightarrow> logo_slot \<times> logo_slot \<times> logo_slot \<Rightarrow> bool \<Rightarrow> board" where
  "Scoreboard data config slots mounted =
     (if (case sb_layout config of None \<Rightarrow> ''classic'' | Some l \<Rightarrow> l) = ''banner''
      then BannerBoard (BannerScoreboard data config slots mounted)
      else ClassicBoard (ClassicScoreboard data config mounted))"

section \<open>The pulse of a score\<close>

text \<open>
  A cell: the rendered value, the value its effect last saw, the pulse and the timer that ends it.
  A render with another value runs the clean-up of the previous effect and then the effect.
\<close>

record score_cell =
  sc_value :: int
  sc_prev :: int
  sc_pulse :: bool
  sc_timer :: countdown

definition ScoreCell_init :: "int \<Rightarrow> score_cell" where
  "ScoreCell_init v = \<lparr> sc_value = v, sc_prev = v, sc_pulse = False, sc_timer = None \<rparr>"

definition score_effect :: "score_cell \<Rightarrow> score_cell" where
  "score_effect s =
     (if sc_prev s \<noteq> sc_value s
      then s\<lparr> sc_pulse := True, sc_timer := Some 300, sc_prev := sc_value s \<rparr> else s)"

datatype score_event = ScoreValue int | ScoreWait nat

fun score_step :: "score_cell \<Rightarrow> score_event \<Rightarrow> score_cell" where
  "score_step s (ScoreValue v) =
     (if v = sc_value s then s else score_effect (s\<lparr> sc_value := v, sc_timer := None \<rparr>))"
| "score_step s (ScoreWait n) =
     s\<lparr> sc_pulse := (sc_pulse s \<and> \<not> due n (sc_timer s)), sc_timer := elapse n (sc_timer s) \<rparr>"

section \<open>The fonts of the banner\<close>

text \<open>The ids of the links in the head of the document.\<close>

definition FONT_LINK_ID :: string where
  "FONT_LINK_ID = ''cc-banner-scoreboard-fonts''"

definition font_effect :: "string list \<Rightarrow> string list" where
  "font_effect links = (if FONT_LINK_ID \<in> set links then links else links @ [FONT_LINK_ID])"

section \<open>Lemmas\<close>

lemma join_with_nonempty: "xs \<noteq> [] \<Longrightarrow> [] \<notin> set xs \<Longrightarrow> join_with sep xs \<noteq> []"
  by (cases "(sep, xs)" rule: join_with.cases) auto

lemma context_join_empty [simp]: "join_with mid_dot (context_parts data) = [] \<longleftrightarrow> context_parts data = []"
  using join_with_nonempty [of "context_parts data" mid_dot] by (auto simp: context_parts_def)

lemma has_extras_cases:
  "\<not> has_extras data \<Longrightarrow> od_completed_games data = [] \<and> \<not> od_is_paused data \<and> \<not> timeouts_used data"
  by (simp add: has_extras_def)

definition score_cell_ok :: "score_cell \<Rightarrow> bool" where
  "score_cell_ok s \<longleftrightarrow>
     sc_prev s = sc_value s \<and>
     (case sc_timer s of None \<Rightarrow> \<not> sc_pulse s | Some r \<Rightarrow> sc_pulse s \<and> 0 < r \<and> r \<le> 300)"

lemma score_step_ok: "score_cell_ok s \<Longrightarrow> score_cell_ok (score_step s e)"
  by (cases e) (auto simp: score_cell_ok_def score_effect_def split: option.splits)

lemma score_init_ok: "score_cell_ok (ScoreCell_init v)"
  by (simp add: score_cell_ok_def ScoreCell_init_def)

interpretation score_pulse: event_machine score_step "\<lambda>s. \<exists>v. s = ScoreCell_init v" score_cell_ok
  by unfold_locales (auto simp: score_init_ok score_step_ok)

lemma broken_stays: "lg_broken s \<Longrightarrow> lg_broken (logo_step s e)"
  by (cases e) simp_all

lemma broken_run: "lg_broken s \<Longrightarrow> lg_broken (run logo_step s es)"
  by (induction es arbitrary: s) (simp_all add: broken_stays)

section \<open>Properties\<close>


text \<open>
  A changed score pulses for 300 milliseconds and no longer: after any run of renders and
  time the cell pulses exactly while a timer of at most that time is running, a render with
  another value starts it, and 300 milliseconds without a change end it.
\<close>

theorem score_pulse_ends:
  fixes v es w
  defines "s \<equiv> run score_step (ScoreCell_init v) es"
  shows "(case sc_timer s of None \<Rightarrow> \<not> sc_pulse s | Some r \<Rightarrow> sc_pulse s \<and> 0 < r \<and> r \<le> 300) \<and>
    sc_pulse (score_step s (ScoreValue w)) = (if w = sc_value s then sc_pulse s else True) \<and>
    sc_value (score_step s (ScoreValue w)) = w \<and>
    \<not> sc_pulse (score_step s (ScoreWait 300)) \<and> sc_timer (score_step s (ScoreWait 300)) = None"
proof -
  have s: "score_cell_ok s" unfolding s_def by (rule score_pulse.reachable_inv) blast
  then have p: "sc_prev s = sc_value s" by (simp add: score_cell_ok_def)
  show ?thesis
    using s p by (auto simp: score_cell_ok_def score_effect_def split: option.splits)
qed

text \<open>
  A logo that failed to load once is never replaced: whatever address the slot is given
  afterwards, it shows the fallback, while a slot without a failure shows each address.
\<close>

theorem broken_logo_sticks:
  assumes "u \<noteq> []" and "w \<noteq> []"
  shows "\<not> showImg (run logo_step (logo_slot_init u) (LogoError # es @ [LogoUrl w])) \<and>
    showImg (run logo_step (logo_slot_init u) [LogoUrl w]) \<and>
    TournamentBadge (run logo_step (logo_slot_init u) (LogoError # es @ [LogoUrl w])) label =
      SlotWordmark (WordmarkFallback label)"
proof -
  have "lg_broken (logo_step (logo_slot_init u) LogoError)"
    using assms(1) by (simp add: logo_slot_init_def showImg_def)
  then have b: "lg_broken (run logo_step (logo_slot_init u) (LogoError # es @ [LogoUrl w]))"
    by (simp only: run_Cons broken_run)
  then have "\<not> showImg (run logo_step (logo_slot_init u) (LogoError # es @ [LogoUrl w]))"
    by (simp only: showImg_def) simp
  then show ?thesis using assms(2)
    by (simp only: TournamentBadge_def) (simp add: showImg_def logo_slot_init_def)
qed

theorem broken_logo_sticks_witness:
  "\<not> showImg (run logo_step (logo_slot_init ''/a.png'') [LogoError, LogoUrl ''/b.png'']) \<and>
   showImg (run logo_step (logo_slot_init ''/a.png'') [LogoUrl ''/b.png''])"
  using broken_logo_sticks [of "''/a.png''" "''/b.png''" "[]" "[]"]
  by (simp only: append_Nil list.distinct simp_thms)

text \<open>
  The initials of the banner are those of the first and the last word, of the classic layout
  those of the first two, although the comment says they match.
\<close>

lemma initials_differ:
  "classic_initials ''Anna Van Berg'' = ''AV'' \<and> banner_initials ''Anna Van Berg'' = ''AB'' \<and>
   classic_initials ''Los Reyes'' = banner_initials ''Los Reyes''"
  by (simp add: classic_initials_def banner_initials_def split_trimmed_def text_words_def trim_def
      is_space_def upper_def to_upper_def Let_def)

text \<open>At most one team is the winner, and none before the match is completed.\<close>

lemma one_winner: "\<not> (team1Winner data \<and> team2Winner data)"
  by (auto simp: team1Winner_def team2Winner_def)

lemma no_early_winner: "\<not> is_completed data \<Longrightarrow> \<not> team1Winner data \<and> \<not> team2Winner data"
  by (simp add: team1Winner_def team2Winner_def)

text \<open>Mounting the banner any number of times leaves one link to the fonts.\<close>

lemma font_link_once:
  "FONT_LINK_ID \<notin> set links \<Longrightarrow>
     length (filter (\<lambda>l. l = FONT_LINK_ID) ((font_effect ^^ Suc n) links)) = 1"
proof -
  have f: "font_effect (font_effect ls) = font_effect ls" for ls by (simp add: font_effect_def)
  have "(font_effect ^^ Suc n) links = font_effect links" by (induction n) (simp_all add: f)
  moreover assume "FONT_LINK_ID \<notin> set links"
  ultimately show ?thesis by (auto simp: font_effect_def filter_empty_conv)
qed

end
