(* ===== verification/Round_Columns.thy ===== *)
theory Round_Columns
  imports Court_Views
begin

text \<open>
  Grouping by a number and sorting, as the bracket pages do it: an object from round numbers to
  the lists of their matches, its keys in ascending order, and each list sorted by a second
  number. Both the kiosk and the division page draw their columns this way.
\<close>

fun add_to_group :: "('a \<Rightarrow> int) \<Rightarrow> (int \<times> 'a list) list \<Rightarrow> 'a \<Rightarrow> (int \<times> 'a list) list" where
  "add_to_group f [] m = [(f m, [m])]"
| "add_to_group f ((r, ms) # rest) m =
     (if r = f m then (r, ms @ [m]) # rest else (r, ms) # add_to_group f rest m)"

definition group_by :: "('a \<Rightarrow> int) \<Rightarrow> 'a list \<Rightarrow> (int \<times> 'a list) list" where
  "group_by f ms = foldl (add_to_group f) [] ms"

definition group_keys :: "('a \<Rightarrow> int) \<Rightarrow> 'a list \<Rightarrow> int list" where
  "group_keys f ms = js_sort (\<lambda>a b. a - b) (map fst (group_by f ms))"

definition group_columns :: "('a \<Rightarrow> int) \<Rightarrow> ('a \<Rightarrow> int) \<Rightarrow> 'a list \<Rightarrow> (int \<times> 'a list) list" where
  "group_columns f g ms =
     map (\<lambda>r. (r, js_sort (\<lambda>a b. g a - g b) (case map_of (group_by f ms) r of None \<Rightarrow> [] | Some c \<Rightarrow> c)))
       (group_keys f ms)"

definition groups_ok :: "('a \<Rightarrow> int) \<Rightarrow> (int \<times> 'a list) list \<Rightarrow> bool" where
  "groups_ok f gs \<longleftrightarrow>
     distinct (map fst gs) \<and> list_all (\<lambda>(r, ms). ms \<noteq> [] \<and> list_all (\<lambda>m. f m = r) ms) gs"

lemma add_to_group_keys:
  "set (map fst (add_to_group f gs m)) = insert (f m) (set (map fst gs))"
  "distinct (map fst gs) \<Longrightarrow> distinct (map fst (add_to_group f gs m))"
  by (induction f gs m rule: add_to_group.induct) auto

lemma add_to_group_mset:
  "mset (concat (map snd (add_to_group f gs m))) = add_mset m (mset (concat (map snd gs)))"
  by (induction f gs m rule: add_to_group.induct) simp_all

lemma add_to_group_ok: "groups_ok f gs \<Longrightarrow> groups_ok f (add_to_group f gs m)"
proof -
  assume ok: "groups_ok f gs"
  then have "list_all (\<lambda>(r, ms). ms \<noteq> [] \<and> list_all (\<lambda>m. f m = r) ms) (add_to_group f gs m)"
    unfolding groups_ok_def by (induction f gs m rule: add_to_group.induct) auto
  then show ?thesis using ok add_to_group_keys(2) [of gs f m] by (simp add: groups_ok_def)
qed

lemma group_by_facts: "groups_ok f (group_by f ms) \<and> mset (concat (map snd (group_by f ms))) = mset ms"
proof -
  have "groups_ok f gs \<Longrightarrow> groups_ok f (foldl (add_to_group f) gs ms) \<and>
      mset (concat (map snd (foldl (add_to_group f) gs ms))) = mset (concat (map snd gs)) + mset ms" for gs
    by (induction ms arbitrary: gs) (simp_all add: add_to_group_ok add_to_group_mset)
  from this [of "[]"] show ?thesis by (simp add: group_by_def groups_ok_def)
qed

lemma set_sort_insert: "set (sort_insert cmp x ys) = insert x (set ys)"
  by (induction ys) auto

text \<open>A sort by a number is sorted by it.\<close>

lemma sorted_sort_insert:
  fixes f :: "'a \<Rightarrow> int"
  shows "sorted (map f ys) \<Longrightarrow> sorted (map f (sort_insert (\<lambda>a b. f a - f b) x ys))"
  by (induction ys) (auto simp: set_sort_insert)

lemma sorted_js_sort:
  fixes f :: "'a \<Rightarrow> int"
  shows "sorted (map f (js_sort (\<lambda>a b. f a - f b) xs))"
  by (induction xs) (simp_all add: js_sort_def sorted_sort_insert)

lemma js_sort_Nil [simp]: "js_sort cmp xs = [] \<longleftrightarrow> xs = []"
  by (metis mset_js_sort mset_zero_iff)

lemma sum_list_js_sort:
  fixes h :: "'a \<Rightarrow> 'b :: comm_monoid_add"
  shows "sum_list (map h (js_sort cmp xs)) = sum_list (map h xs)"
proof -
  have "mset (map h (js_sort cmp xs)) = mset (map h xs)" by (simp add: mset_js_sort)
  then show ?thesis by (metis sum_mset_sum_list)
qed

lemma sum_groups:
  fixes h :: "'b \<Rightarrow> 'c :: comm_monoid_add"
  shows "distinct (map fst gs) \<Longrightarrow>
    sum_list (map (\<lambda>r. h (case map_of gs r of None \<Rightarrow> d | Some g \<Rightarrow> g)) (map fst gs)) =
    sum_list (map (\<lambda>p. h (snd p)) gs)"
proof -
  assume d: "distinct (map fst gs)"
  have "h (case map_of gs (fst p) of None \<Rightarrow> d | Some g \<Rightarrow> g) = h (snd p)" if "p \<in> set gs" for p
    using map_of_is_SomeI [OF d, of "fst p" "snd p"] that by simp
  then have "map (\<lambda>p. h (case map_of gs (fst p) of None \<Rightarrow> d | Some g \<Rightarrow> g)) gs = map (\<lambda>p. h (snd p)) gs"
    by (intro map_cong) auto
  then show ?thesis by (simp only: map_map o_def)
qed

lemma columns_mset: "mset (concat (map snd (group_columns f g ms))) = mset ms"
proof -
  let ?g = "\<lambda>r. case map_of (group_by f ms) r of None \<Rightarrow> [] | Some g \<Rightarrow> g"
  have d: "distinct (map fst (group_by f ms))" using group_by_facts [of f ms] by (simp add: groups_ok_def)
  have "mset (concat (map snd (group_columns f g ms))) = sum_list (map (\<lambda>r. mset (?g r)) (group_keys f ms))"
    by (simp add: mset_concat group_columns_def mset_js_sort o_def)
  also have "\<dots> = sum_list (map (\<lambda>r. mset (?g r)) (map fst (group_by f ms)))"
    unfolding group_keys_def by (rule sum_list_js_sort)
  also have "\<dots> = sum_list (map (\<lambda>p. mset (snd p)) (group_by f ms))" by (rule sum_groups [OF d])
  also have "\<dots> = mset (concat (map snd (group_by f ms)))" by (simp add: mset_concat o_def)
  finally show ?thesis using group_by_facts [of f ms] by simp
qed

lemma strict_sorted: "sorted xs \<Longrightarrow> distinct xs \<Longrightarrow> sorted_wrt (<) xs" for xs :: "int list"
  by (simp add: strict_sorted_iff)

lemma columns_groups:
  "list_all (\<lambda>(r, col). col \<noteq> [] \<and> list_all (\<lambda>m. f m = r) col \<and> sorted (map g col))
     (group_columns f g ms)"
proof -
  have ok: "groups_ok f (group_by f ms)" using group_by_facts [of f ms] by blast
  have "js_sort cmp g \<noteq> [] \<and> list_all (\<lambda>m. f m = r) (js_sort cmp g)"
    if "map_of (group_by f ms) r = Some g" for r g cmp
    using map_of_SomeD [OF that] ok by (auto simp: groups_ok_def list_all_iff)
  moreover have "\<exists>g. map_of (group_by f ms) r = Some g" if "r \<in> set (group_keys f ms)" for r
    using that by (simp add: group_keys_def) (metis (no_types) list.set_map map_of_eq_None_iff not_None_eq)
  ultimately show ?thesis
    unfolding group_columns_def list_all_iff
    by (force simp: sorted_js_sort split: option.split)
qed


text \<open>
  The columns have strictly ascending keys, are not empty and sorted, hold what belongs to their
  key, and together hold every element once.
\<close>

lemma group_columns_complete:
  "sorted_wrt (<) (map fst (group_columns f g ms)) \<and>
   mset (concat (map snd (group_columns f g ms))) = mset ms \<and>
   list_all (\<lambda>(r, col). col \<noteq> [] \<and> list_all (\<lambda>m. f m = r) col \<and> sorted (map g col)) (group_columns f g ms)"
proof -
  have "distinct (map fst (group_by f ms))" using group_by_facts [of f ms] by (simp add: groups_ok_def)
  then have "sorted_wrt (<) (group_keys f ms)"
    unfolding group_keys_def using sorted_js_sort [of "\<lambda>r. r" "map fst (group_by f ms)"]
    by (intro strict_sorted) simp_all
  moreover have "map fst (group_columns f g ms) = group_keys f ms"
    by (simp add: group_columns_def o_def)
  ultimately show ?thesis using columns_mset [of f g ms] columns_groups [of f g ms] by simp
qed

end
