(* ===== verification/TV_Kiosk.thy ===== *)
theory TV_Kiosk
  imports Slide_Rotation Round_Columns App_Shell Overlay_Renderer Source_Profiles
begin

text \<open>
  The full-screen pages of \<open>web/src/features/overlay/tv\<close>: the rotating slides of a tournament
  (\<open>TVKioskBracket.tsx\<close>) and the page of one court (\<open>TVKioskCourt.tsx\<close>). Formatting of dates is the
  browser's: a date is what the parameters \<open>parse\<close>, \<open>year\<close>, \<open>short\<close> and \<open>full\<close> make of it.
\<close>

section \<open>Slides\<close>

record kiosk_division =
  kd_id :: int
  kd_name :: string
  kd_format :: string
  kd_bracket_format :: string

datatype tv_slide = Hero | DivisionOf kiosk_division | Courts

definition kiosk_slides :: "kiosk_division list \<Rightarrow> court_summary list \<Rightarrow> tv_slide list" where
  "kiosk_slides divisions courtList =
     [Hero] @ map DivisionOf divisions @ (if courtList \<noteq> [] then [Courts] else [])"

text \<open>\<open>slides[index] ?? slides[0]\<close>.\<close>

definition active_slide :: "tv_slide list \<Rightarrow> int \<Rightarrow> tv_slide" where
  "active_slide slides i =
     (if 0 \<le> i \<and> i < int (length slides) then slides ! nat i else slides ! 0)"

definition SlideProgress :: "int \<Rightarrow> int \<Rightarrow> bool list option" where
  "SlideProgress index n =
     (if n \<le> 1 then None else Some (map (\<lambda>i. int i = index) [0..<nat n]))"

section \<open>Matches of a division\<close>

text \<open>A match of the bracket; the server's names of a field and their older ones.\<close>

record kiosk_match =
  km_id :: int
  km_round :: "int option"
  km_match_number :: "int option"
  km_position :: "int option"
  km_team_1_id :: "int option"
  km_team_2_id :: "int option"
  km_team_1_seed :: "int option"
  km_team_2_seed :: "int option"
  km_team_1_score :: "int option"
  km_team_2_score :: "int option"
  km_team_1 :: "(string \<times> string option) option"
  km_team_2 :: "(string \<times> string option) option"
  km_team1_id :: "int option"
  km_team2_id :: "int option"
  km_team_a_id :: "int option"
  km_team_b_id :: "int option"
  km_team1_seed :: "int option"
  km_team2_seed :: "int option"
  km_score_team1 :: "int option"
  km_score_team2 :: "int option"
  km_winner_team_id :: "int option"
  km_winner_id :: "int option"
  km_status :: "string option"

definition coalesce :: "'a option \<Rightarrow> 'a option \<Rightarrow> 'a option" where
  "coalesce a b = (case a of None \<Rightarrow> b | Some x \<Rightarrow> a)"

definition or_zero :: "int option \<Rightarrow> int" where
  "or_zero v = (case v of None \<Rightarrow> 0 | Some n \<Rightarrow> n)"

definition filled :: "string option \<Rightarrow> bool" where
  "filled s \<longleftrightarrow> s \<noteq> None \<and> s \<noteq> Some []"

definition formatTeamWithName ::
    "int option \<Rightarrow> (string \<times> string option) option \<Rightarrow> int option \<Rightarrow> string" where
  "formatTeamWithName ident team seed =
     (if ident = None \<and> team = None then ''TBD''
      else
        let seedPart = (case seed of None \<Rightarrow> [] | Some n \<Rightarrow> ''('' @ show_int n @ '') '');
            short_name = (case team of None \<Rightarrow> None | Some (n, s) \<Rightarrow> s);
            name = map_option fst team in
        if filled short_name then seedPart @ (case short_name of Some s \<Rightarrow> s | None \<Rightarrow> [])
        else if filled name then seedPart @ (case name of Some n \<Rightarrow> n | None \<Rightarrow> [])
        else (case ident of Some i \<Rightarrow> seedPart @ ''Team #'' @ show_int i | None \<Rightarrow> ''TBD''))"

record team_line =
  tl_label :: string
  tl_score :: string
  tl_winner :: bool

definition TeamLine :: "string \<Rightarrow> int option \<Rightarrow> bool \<Rightarrow> team_line" where
  "TeamLine label score winner =
     \<lparr> tl_label = label, tl_score = (case score of None \<Rightarrow> em_dash | Some n \<Rightarrow> show_int n),
       tl_winner = winner \<rparr>"

definition match_order :: "kiosk_match \<Rightarrow> int" where
  "match_order m = or_zero (coalesce (km_match_number m) (km_position m))"

definition KioskMatchCard :: "kiosk_match \<Rightarrow> string \<times> string \<times> team_line \<times> team_line" where
  "KioskMatchCard m =
     (let team1ID = coalesce (km_team_1_id m) (coalesce (km_team1_id m) (km_team_a_id m));
          team2ID = coalesce (km_team_2_id m) (coalesce (km_team2_id m) (km_team_b_id m));
          winnerID = coalesce (km_winner_team_id m) (km_winner_id m);
          score1 = coalesce (km_team_1_score m) (km_score_team1 m);
          score2 = coalesce (km_team_2_score m) (km_score_team2 m) in
      (''R'' @ show_int (or_zero (km_round m)) @ mid_dot @ ''M'' @ show_int (match_order m),
       (case km_status m of None \<Rightarrow> ''scheduled'' | Some s \<Rightarrow> s),
       TeamLine (formatTeamWithName team1ID (km_team_1 m) (coalesce (km_team_1_seed m) (km_team1_seed m)))
         score1 (winnerID \<noteq> None \<and> winnerID = team1ID),
       TeamLine (formatTeamWithName team2ID (km_team_2 m) (coalesce (km_team_2_seed m) (km_team2_seed m)))
         score2 (winnerID \<noteq> None \<and> winnerID = team2ID)))"

text \<open>The columns of the bracket: an object from rounds to matches, in ascending order of both.\<close>

definition km_round_of :: "kiosk_match \<Rightarrow> int" where
  "km_round_of m = or_zero (km_round m)"

definition byRound :: "kiosk_match list \<Rightarrow> (int \<times> kiosk_match list) list" where
  "byRound ms = group_by km_round_of ms"

definition BracketColumns :: "kiosk_match list \<Rightarrow> (int \<times> kiosk_match list) list" where
  "BracketColumns ms = group_columns km_round_of match_order ms"

datatype division_body =
    BracketLoading
  | BracketMissing
  | PoolGrid "(string \<times> string \<times> team_line \<times> team_line) list"
  | Columns "(string \<times> (string \<times> string \<times> team_line \<times> team_line) list) list"

text \<open>\<open>value.replace(/_/g, ' ')\<close>, then the first letter of each word in upper case.\<close>

definition formatBracketFormat :: "string \<Rightarrow> string" where
  "formatBracketFormat value = (if value = [] then [] else formatStatus value)"

definition DivisionSlide ::
    "kiosk_division \<Rightarrow> bool \<Rightarrow> kiosk_match list option \<Rightarrow> string \<times> string \<times> division_body" where
  "DivisionSlide d isLoading data =
     (let matches = (case data of None \<Rightarrow> [] | Some ms \<Rightarrow> ms);
          isPool = (kd_bracket_format d = ''round_robin'' \<or> kd_bracket_format d = ''pool_play'') in
      (formatBracketFormat (kd_bracket_format d) @
         (if kd_format d \<noteq> [] then mid_dot @ kd_format d else []),
       kd_name d,
       (if isLoading then BracketLoading
        else if matches = [] then BracketMissing
        else if isPool then PoolGrid (map KioskMatchCard matches)
        else Columns (map (\<lambda>(r, ms). (''Round '' @ show_int r, map KioskMatchCard ms))
               (BracketColumns matches)))))"

section \<open>Courts in play\<close>

definition CourtsSlide_order :: "court_summary list \<Rightarrow> court_summary list" where
  "CourtsSlide_order courts =
     filter (\<lambda>c. active_match c \<noteq> None) courts @
     filter (\<lambda>c. active_match c = None \<and> on_deck_match c \<noteq> None) courts @
     filter (\<lambda>c. active_match c = None \<and> on_deck_match c = None) courts"

record match_line =
  ml_tournament :: string
  ml_division :: "string option"
  ml_live :: bool
  ml_team_1 :: "string \<times> int"
  ml_team_2 :: "string \<times> int"

definition KioskMatchLine :: "match \<Rightarrow> bool \<Rightarrow> match_line" where
  "KioskMatchLine m liveBadge =
     \<lparr> ml_tournament = (case tournament_name m of None \<Rightarrow> [] | Some t \<Rightarrow> t),
       ml_division = (if filled (division_name m) then division_name m else None),
       ml_live = liveBadge,
       ml_team_1 = ((case team_1 m of None \<Rightarrow> ''TBD'' | Some t \<Rightarrow> mt_name t), team_1_score m),
       ml_team_2 = ((case team_2 m of None \<Rightarrow> ''TBD'' | Some t \<Rightarrow> mt_name t), team_2_score m) \<rparr>"

definition StatusDot :: "match_status option \<Rightarrow> string" where
  "StatusDot s =
     (if s = Some InProgress then ''In progress''
      else if s = Some Paused then ''Paused''
      else if s = Some Completed then ''Completed'' else ''Scheduled'')"

datatype kiosk_court_body = LiveLine match_line | OnDeckLine match_line | NoMatch

definition KioskCourtCard :: "court_summary \<Rightarrow> string \<times> string \<times> kiosk_court_body" where
  "KioskCourtCard c =
     (ct_name c, StatusDot (map_option m_status (active_match c)),
      (case active_match c of
         Some m \<Rightarrow> LiveLine (KioskMatchLine m True)
       | None \<Rightarrow> (case on_deck_match c of
           Some m \<Rightarrow> OnDeckLine (KioskMatchLine m False)
         | None \<Rightarrow> NoMatch)))"

definition CourtsSlide :: "court_summary list \<Rightarrow> (string \<times> string \<times> kiosk_court_body) list" where
  "CourtsSlide courts = map KioskCourtCard (CourtsSlide_order courts)"

section \<open>The page\<close>

record kiosk_tournament =
  kt_name :: string
  kt_start :: string
  kt_end :: string
  kt_description :: "string option"
  kt_logo_url :: "string option"
  kt_banner_url :: "string option"

definition en_dash :: string where
  "en_dash = '' '' @ [CHR 0xE2, CHR 0x80, CHR 0x93] @ '' ''"

definition formatDateRange ::
    "(string \<Rightarrow> 'd option) \<Rightarrow> ('d \<Rightarrow> int) \<Rightarrow> ('d \<Rightarrow> string) \<Rightarrow> ('d \<Rightarrow> string) \<Rightarrow> string \<Rightarrow> string \<Rightarrow> string" where
  "formatDateRange parse year short full start stop =
     (if start = [] then []
      else (case parse start of
          None \<Rightarrow> []
        | Some s \<Rightarrow>
            (case (if stop = [] then None else parse stop) of
               None \<Rightarrow> full s
             | Some e \<Rightarrow>
                 if start = stop then full s
                 else if year s = year e then short s @ en_dash @ full e
                 else full s @ en_dash @ full e)))"

record hero_view =
  hv_logo :: "string option"
  hv_banner :: "string option"
  hv_name :: string
  hv_description :: "string option"
  hv_stats :: "(string \<times> int) list"

definition HeroSlide :: "kiosk_tournament \<Rightarrow> nat \<Rightarrow> nat \<Rightarrow> hero_view" where
  "HeroSlide t divisionsCount courtsCount =
     \<lparr> hv_logo = (if filled (kt_logo_url t) then kt_logo_url t else None),
       hv_banner = (if filled (kt_banner_url t) then kt_banner_url t else None),
       hv_name = kt_name t,
       hv_description = (if filled (kt_description t) then kt_description t else None),
       hv_stats = [(''Divisions'', int divisionsCount), (''Courts in play'', int courtsCount)] \<rparr>"

datatype tv_body = HeroBody hero_view | DivisionBody kiosk_division
  | CourtsBody "(string \<times> string \<times> kiosk_court_body) list"

datatype tv_screen =
    TvMessage string "string option"
  | TvPage string string "bool list option" tv_body

text \<open>The page from the answers of its three queries and the index of the rotation.\<close>

definition TVKioskBracket ::
    "bool \<times> bool \<Rightarrow> bool \<Rightarrow> string option \<Rightarrow> kiosk_tournament option \<Rightarrow> kiosk_division list option \<Rightarrow>
     court_summary list option \<Rightarrow> int \<Rightarrow> tv_screen" where
  "TVKioskBracket loading isError err tournament divisionsData courtsData index =
     (let divisions = (case divisionsData of None \<Rightarrow> [] | Some ds \<Rightarrow> ds);
          courtList = (case courtsData of None \<Rightarrow> [] | Some cs \<Rightarrow> cs);
          slides = kiosk_slides divisions courtList;
          n = int (length slides) in
      if fst loading \<or> snd loading then TvMessage (''Loading tournament'' @ ellipsis) None
      else if isError then
        TvMessage ''Tournament not available''
          (Some (case err of None \<Rightarrow> ''Unable to load tournament data.'' | Some t \<Rightarrow> t))
      else (case tournament of
          None \<Rightarrow> TvMessage ''Tournament not available''
            (Some (case err of None \<Rightarrow> ''Unable to load tournament data.'' | Some t \<Rightarrow> t))
        | Some t \<Rightarrow>
            TvPage (kt_name t) (''Slide '' @ show_int (index + 1) @ '' of '' @ show_int n)
              (SlideProgress index n)
              (case active_slide slides index of
                 Hero \<Rightarrow> HeroBody (HeroSlide t (length divisions) (length courtList))
               | DivisionOf d \<Rightarrow> DivisionBody d
               | Courts \<Rightarrow> CourtsBody (CourtsSlide courtList))))"

text \<open>
  The court page: header and renderer, from the answers of the two queries. The style of the body
  is set on mount and put back on unmount.
\<close>

record kiosk_header =
  kh_tournament :: string
  kh_court :: string
  kh_division :: "string option"
  kh_round :: "string option"

definition KioskHeader :: "string \<Rightarrow> string \<Rightarrow> string \<Rightarrow> string \<Rightarrow> kiosk_header" where
  "KioskHeader courtName tournamentName division roundLabel =
     \<lparr> kh_tournament = str_or tournamentName ''Live'', kh_court = courtName,
       kh_division = (if division \<noteq> [] then Some division else None),
       kh_round = (if roundLabel \<noteq> [] then Some roundLabel else None) \<rparr>"

definition TVKioskCourt ::
    "bool \<Rightarrow> bool \<Rightarrow> string option option \<Rightarrow> overlay_data option \<Rightarrow> (string \<times> string option) + kiosk_header" where
  "TVKioskCourt courtsLoading overlayLoading courtsError data =
     (if courtsLoading \<or> overlayLoading then Inl (''Loading court'' @ ellipsis, None)
      else (case courtsError of
          Some err \<Rightarrow> Inl (''Court not found'', err)
        | None \<Rightarrow> Inr (case data of
            None \<Rightarrow> KioskHeader ''Court'' [] [] []
          | Some d \<Rightarrow> KioskHeader (str_or (od_court_name d) ''Court'')
              (str_or (od_tournament_name d) (od_league_name d)) (od_division_name d) (od_round_label d))))"

record body_style =
  by_background :: string
  by_overflow :: string
  by_saved :: "(string \<times> string) option"

definition kiosk_mount :: "string \<Rightarrow> body_style \<Rightarrow> body_style" where
  "kiosk_mount bg b =
     \<lparr> by_background = bg, by_overflow = ''hidden'', by_saved = Some (by_background b, by_overflow b) \<rparr>"

definition kiosk_unmount :: "body_style \<Rightarrow> body_style" where
  "kiosk_unmount b =
     (case by_saved b of None \<Rightarrow> b
      | Some (bg, ov) \<Rightarrow> \<lparr> by_background = bg, by_overflow = ov, by_saved = None \<rparr>)"

section \<open>Properties\<close>

text \<open>
  The bracket slide shows every match once: its columns are the rounds in strictly ascending
  order, each column has the matches of its round and is not empty, ordered by their numbers,
  and all columns together are the list of matches.
\<close>

theorem kiosk_bracket_complete:
  "sorted_wrt (<) (map fst (BracketColumns ms)) \<and>
   mset (concat (map snd (BracketColumns ms))) = mset ms \<and>
   list_all (\<lambda>(r, col). col \<noteq> [] \<and> list_all (\<lambda>m. km_round_of m = r) col \<and> sorted (map match_order col))
     (BracketColumns ms)"
  unfolding BracketColumns_def by (rule group_columns_complete)

text \<open>
  The courts slide shows every court once, those with a live match first and those with nothing
  last; only the first ones carry the live badge.
\<close>

lemma order_parts:
  "\<exists>live deck idle. CourtsSlide_order courts = live @ deck @ idle \<and>
     list_all (\<lambda>c. \<exists>m. active_match c = Some m) live \<and>
     list_all (\<lambda>c. active_match c = None \<and> (\<exists>m. on_deck_match c = Some m)) deck \<and>
     list_all (\<lambda>c. active_match c = None \<and> on_deck_match c = None) idle \<and>
     mset (live @ deck @ idle) = mset courts"
proof -
  have "mset (CourtsSlide_order courts) = mset courts"
    by (induction courts) (auto simp: CourtsSlide_order_def)
  then show ?thesis unfolding CourtsSlide_order_def
    by (intro exI conjI) (auto simp: list_all_iff)
qed

text \<open>
  The slide of the kiosk is always one of its slides: an index left over from more slides shows the
  first one.
\<close>

lemma active_slide_listed: "active_slide (kiosk_slides ds cs) i \<in> set (kiosk_slides ds cs)"
proof -
  have "kiosk_slides ds cs \<noteq> []" by (simp add: kiosk_slides_def)
  then show ?thesis by (auto simp: active_slide_def intro!: nth_mem)
qed

lemma slides_counted:
  "length (kiosk_slides ds cs) = 1 + length ds + (if cs = [] then 0 else 1)"
  by (simp add: kiosk_slides_def)

text \<open>Leaving a kiosk page puts the style of the body back.\<close>

lemma kiosk_body_restored:
  "by_saved b = None \<Longrightarrow> kiosk_unmount (kiosk_mount bg b) = b"
  by (simp add: kiosk_mount_def kiosk_unmount_def)

text \<open>A team without a short name is shown by its name, without either by its number.\<close>

lemma kiosk_team_label:
  "formatTeamWithName None None seed = ''TBD''"
  "formatTeamWithName (Some i) None (Some n) = ''('' @ show_int n @ '') Team #'' @ show_int i"
  "formatTeamWithName (Some i) (Some ([], Some [])) None = ''Team #'' @ show_int i"
  "formatTeamWithName ident (Some (c # cs, None)) None = c # cs"
  by (simp_all add: formatTeamWithName_def filled_def)

end
