(* ===== verification/Division_Screens.thy ===== *)
theory Division_Screens
  imports Round_Columns Tournament_Hooks Scoring_Hooks App_Shell Overlay_Elements Text_Components "HOL-Library.AList"
begin

text \<open>
  The screens of one division, in \<open>web/src/features/tournaments\<close>: the seeding page
  (\<open>DivisionSeeds.tsx\<close>), the bracket with the assignment of courts (\<open>DivisionBracket.tsx\<close>) and the
  registrations (\<open>DivisionRegistrations.tsx\<close>). An object keyed by ids is the list of its members.
\<close>

section \<open>Registrations\<close>

record registration =
  rg_id :: int
  rg_team_id :: "int option"
  rg_player_id :: "int option"
  rg_status :: string
  rg_seed :: "rat option"
  rg_notes :: "string option"
  rg_seeking :: bool
  rg_checked_in_at :: "string option"
  rg_registered_at :: string

section \<open>Seeding\<close>

type_synonym seeds = "(int \<times> rat option) list"

text \<open>A \<open>Map\<close> from ids: a later entry replaces an earlier one in its place.\<close>

definition combinedRegs :: "registration list \<Rightarrow> registration list \<Rightarrow> registration list" where
  "combinedRegs approved checkedIn =
     map snd (foldl (\<lambda>m r. AList.update (rg_id r) r m) [] (approved @ checkedIn))"

record seeding =
  sd_approved :: "registration list"
  sd_checked_in :: "registration list"
  sd_local :: seeds
  sd_locked :: bool
  sd_saving :: bool

definition sd_regs :: "seeding \<Rightarrow> registration list" where
  "sd_regs s = combinedRegs (sd_approved s) (sd_checked_in s)"

definition DivisionSeeds_init :: "registration list \<Rightarrow> registration list \<Rightarrow> seeding" where
  "DivisionSeeds_init approved checkedIn =
     \<lparr> sd_approved = approved, sd_checked_in = checkedIn, sd_local = [], sd_locked = False,
       sd_saving = False \<rparr>"

definition initializedFromServer :: "seeding \<Rightarrow> seeds" where
  "initializedFromServer s =
     (if sd_regs s = [] then sd_local s
      else if sd_local s \<noteq> [] then sd_local s
      else map (\<lambda>r. (rg_id r, rg_seed r)) (sd_regs s))"

text \<open>\<open>object[id] ?? null\<close>.\<close>

definition seed_at :: "seeds \<Rightarrow> int \<Rightarrow> rat option" where
  "seed_at m i = (case map_of m i of None \<Rightarrow> None | Some v \<Rightarrow> v)"

definition shown_seed :: "seeding \<Rightarrow> registration \<Rightarrow> rat option" where
  "shown_seed s r = seed_at (initializedFromServer s) (rg_id r)"

definition seed_compare :: "registration \<times> rat option \<Rightarrow> registration \<times> rat option \<Rightarrow> int" where
  "seed_compare a b =
     (case (snd a, snd b) of
        (None, None) \<Rightarrow> rg_id (fst a) - rg_id (fst b)
      | (None, Some _) \<Rightarrow> 1
      | (Some _, None) \<Rightarrow> - 1
      | (Some p, Some q) \<Rightarrow> if p < q then - 1 else if p = q then 0 else 1)"

definition seed_rows :: "seeding \<Rightarrow> (registration \<times> rat option) list" where
  "seed_rows s = js_sort seed_compare (map (\<lambda>r. (r, shown_seed s r)) (sd_regs s))"

text \<open>The typed value of the number input; an empty one is \<open>null\<close>.\<close>

definition updateSeed :: "int \<Rightarrow> string \<Rightarrow> seeding \<Rightarrow> seeding" where
  "updateSeed regId value s =
     s\<lparr> sd_local := AList.update regId (number_field value)
          (AList.merge (sd_local s) (initializedFromServer s)) \<rparr>"

definition number_seeds :: "registration list \<Rightarrow> seeds" where
  "number_seeds regs = map (\<lambda>(i, r). (rg_id r, Some (of_nat (Suc i)))) (enumerate 0 regs)"

definition currentSeeds :: "seeding \<Rightarrow> seeds" where
  "currentSeeds s = AList.merge (initializedFromServer s) (sd_local s)"

text \<open>The PATCHes of a save: registration and seed.\<close>

definition seed_updates :: "seeding \<Rightarrow> (int \<times> rat option) list" where
  "seed_updates s =
     map (\<lambda>r. (rg_id r, seed_at (currentSeeds s) (rg_id r)))
       (filter (\<lambda>r. seed_at (currentSeeds s) (rg_id r) \<noteq> rg_seed r) (sd_regs s))"

definition seed_path :: "string \<Rightarrow> int \<Rightarrow> string" where
  "seed_path divisionId i =
     ''/api/v1/divisions/'' @ divisionId @ ''/registrations/'' @ show_int i @ ''/seed''"

definition unsaved :: "seeding \<Rightarrow> registration \<Rightarrow> bool" where
  "unsaved s r \<longleftrightarrow> (case map_of (sd_local s) (rg_id r) of None \<Rightarrow> False | Some v \<Rightarrow> v \<noteq> rg_seed r)"

definition hasChanges :: "seeding \<Rightarrow> bool" where
  "hasChanges s \<longleftrightarrow> sd_local s \<noteq> [] \<and> list_ex (unsaved s) (sd_regs s)"

text \<open>
  The events: a render with the answers of the two queries, the controls, and the end of the
  save. The shuffle of the random button is any reordering.
\<close>

datatype seed_event =
    SdData "registration list" "registration list"
  | SdEdit int string
  | SdAuto
  | SdRandom "registration list"
  | SdSave
  | SdSaved
  | SdSaveFailed string

datatype seed_effect =
    SdPatch string "rat option"
  | SdInvalidate key
  | SdToast string string

definition seeds_open :: "seeding \<Rightarrow> bool" where
  "seeds_open s \<longleftrightarrow> \<not> sd_locked s \<and> \<not> sd_saving s \<and> sd_regs s \<noteq> []"

fun seed_next :: "seeding \<Rightarrow> seed_event \<Rightarrow> seeding" where
  "seed_next s (SdData a c) = s\<lparr> sd_approved := a, sd_checked_in := c \<rparr>"
| "seed_next s (SdEdit i t) =
     (if seeds_open s \<and> i \<in> rg_id ` set (sd_regs s) then updateSeed i t s else s)"
| "seed_next s SdAuto = (if seeds_open s then s\<lparr> sd_local := number_seeds (sd_regs s) \<rparr> else s)"
| "seed_next s (SdRandom shuffled) =
     (if seeds_open s \<and> mset shuffled = mset (sd_regs s)
      then s\<lparr> sd_local := number_seeds shuffled \<rparr> else s)"
| "seed_next s SdSave = (if seeds_open s then s\<lparr> sd_saving := True \<rparr> else s)"
| "seed_next s SdSaved = (if sd_saving s then s\<lparr> sd_locked := True, sd_saving := False \<rparr> else s)"
| "seed_next s (SdSaveFailed t) = s\<lparr> sd_saving := False \<rparr>"

fun seed_out :: "string \<Rightarrow> seeding \<Rightarrow> seed_event \<Rightarrow> seed_effect list" where
  "seed_out divisionId s SdAuto =
     (if seeds_open s
      then [SdToast ''info'' (''Auto-seeded (placeholder ordering '' @ em_dash @
              '' real ratings coming soon)'')]
      else [])"
| "seed_out divisionId s SdSave =
     (if seeds_open s
      then map (\<lambda>(i, v). SdPatch (seed_path divisionId i) v) (seed_updates s) else [])"
| "seed_out divisionId s (SdSaveFailed t) =
     (if sd_saving s then [SdToast ''error'' (''Failed to save seeds: '' @ t)] else [])"
| "seed_out divisionId s _ = []"

text \<open>What a save that went through announces; the count is the one of its PATCHes.\<close>

definition saved_out :: "string \<Rightarrow> nat \<Rightarrow> seed_effect list" where
  "saved_out divisionId n =
     [SdInvalidate [Str ''divisions'', Str divisionId, Str ''registrations''],
      SdToast ''success'' (''Seeds saved and locked ('' @ show_nat n @ '' updated)'')]"

text \<open>The registrations as the server has them once the PATCHes are done.\<close>

definition patched_regs :: "(int \<times> rat option) list \<Rightarrow> registration list \<Rightarrow> registration list" where
  "patched_regs ps regs =
     map (\<lambda>r. case map_of ps (rg_id r) of None \<Rightarrow> r | Some v \<Rightarrow> r\<lparr> rg_seed := v \<rparr>) regs"

definition seed_label :: "registration \<Rightarrow> string" where
  "seed_label r =
     (if truthy (null_or Num (rg_team_id r)) then ''Team #'' @ js_to_string (null_or Num (rg_team_id r))
      else if truthy (null_or Num (rg_player_id r))
      then ''Player #'' @ js_to_string (null_or Num (rg_player_id r))
      else ''Registration #'' @ show_int (rg_id r))"

definition spaced :: "string \<Rightarrow> string" where
  "spaced t = map (\<lambda>c. if c = CHR ''_'' then CHR '' '' else c) t"

datatype seeds_screen =
    SeedsLoading
  | NothingToSeed
  | SeedTable "(rat option \<times> string \<times> string) list"

definition DivisionSeeds :: "bool \<Rightarrow> bool \<Rightarrow> seeding \<Rightarrow> bool \<times> seeds_screen" where
  "DivisionSeeds loadingApproved loadingChecked s =
     (hasChanges s \<and> \<not> sd_locked s,
      (if loadingApproved \<or> loadingChecked then SeedsLoading
       else if seed_rows s = [] then NothingToSeed
       else SeedTable (map (\<lambda>(r, v). (v, seed_label r, spaced (rg_status r))) (seed_rows s))))"

section \<open>The bracket\<close>

record bracket_team =
  bt_name :: string
  bt_short_name :: "string option"

record bracket_match =
  bm_id :: int
  bm_public_id :: "string option"
  bm_round :: "int option"
  bm_round_name :: "string option"
  bm_match_number :: "int option"
  bm_team_1_id :: "int option"
  bm_team_2_id :: "int option"
  bm_team_1 :: "bracket_team option"
  bm_team_2 :: "bracket_team option"
  bm_team_1_seed :: "int option"
  bm_team_2_seed :: "int option"
  bm_winner :: "int option"
  bm_team_1_score :: "int option"
  bm_team_2_score :: "int option"
  bm_status :: string
  bm_court_id :: "int option"
  bm_court_name :: "string option"

definition has_str :: "string option \<Rightarrow> bool" where
  "has_str t \<longleftrightarrow> (case t of None \<Rightarrow> False | Some u \<Rightarrow> u \<noteq> [])"

definition str_of :: "string option \<Rightarrow> string" where
  "str_of t = (case t of None \<Rightarrow> [] | Some u \<Rightarrow> u)"

definition getRoundLabel :: "int \<Rightarrow> int \<Rightarrow> string option \<Rightarrow> string" where
  "getRoundLabel rnd totalRounds roundName =
     (if has_str roundName then str_of roundName
      else let remaining = totalRounds - rnd in
        if remaining = 0 then ''Finals''
        else if remaining = 1 then ''Semifinals''
        else if remaining = 2 then ''Quarterfinals''
        else ''Round '' @ show_int rnd)"

definition teamDisplayName :: "bracket_team option \<Rightarrow> int option \<Rightarrow> int option \<Rightarrow> string" where
  "teamDisplayName team teamId seed =
     (let seedStr = (case seed of None \<Rightarrow> [] | Some n \<Rightarrow> ''('' @ show_int n @ '') '') in
      if has_str (Option.bind team bt_short_name) then seedStr @ str_of (Option.bind team bt_short_name)
      else if has_str (map_option bt_name team) then seedStr @ str_of (map_option bt_name team)
      else (case teamId of
          None \<Rightarrow> ''TBD''
        | Some i \<Rightarrow> if i \<noteq> 0 then seedStr @ ''Team #'' @ show_int i else ''TBD''))"

definition isComplete :: "bracket_match \<Rightarrow> bool" where
  "isComplete m \<longleftrightarrow> bm_status m = ''completed''"

definition canScore :: "bracket_match \<Rightarrow> bool" where
  "canScore m \<longleftrightarrow> has_str (bm_public_id m) \<and> (bm_status m = ''scheduled'' \<or> bm_status m = ''in_progress'')"

definition hasCourt :: "bracket_match \<Rightarrow> bool" where
  "hasCourt m \<longleftrightarrow> (case bm_court_id m of None \<Rightarrow> False | Some i \<Rightarrow> i \<noteq> 0)"

definition needsCourt :: "bracket_match \<Rightarrow> bool" where
  "needsCourt m \<longleftrightarrow> canScore m \<and> \<not> hasCourt m"

datatype row_state = Won | Lost | Undecided

definition team1Won :: "bracket_match \<Rightarrow> bool" where
  "team1Won m \<longleftrightarrow> isComplete m \<and> bm_winner m = bm_team_1_id m"

definition team2Won :: "bracket_match \<Rightarrow> bool" where
  "team2Won m \<longleftrightarrow> isComplete m \<and> bm_winner m = bm_team_2_id m"

text \<open>The card: its own state is whether the choice of a court is open, and a call under way.\<close>

record match_card =
  mc_assigning :: bool
  mc_pending :: bool

definition MatchCard_init :: match_card where
  "MatchCard_init = \<lparr> mc_assigning = False, mc_pending = False \<rparr>"

datatype card_event =
    McAssign
  | McCancel
  | McChoose int
  | McAssigned
  | McFailed string

datatype card_effect = McCall api_call | McToast string string

text \<open>The select's value: the option for no court is 0 and does nothing.\<close>

fun card_next :: "bracket_match \<Rightarrow> int list \<Rightarrow> match_card \<Rightarrow> card_event \<Rightarrow> match_card" where
  "card_next m courts s McAssign =
     (if needsCourt m \<and> \<not> mc_assigning s then s\<lparr> mc_assigning := True \<rparr> else s)"
| "card_next m courts s McCancel =
     (if needsCourt m \<and> mc_assigning s then s\<lparr> mc_assigning := False \<rparr> else s)"
| "card_next m courts s (McChoose v) =
     (if needsCourt m \<and> mc_assigning s \<and> \<not> mc_pending s \<and> v \<in> set courts \<and> 0 < v
      then s\<lparr> mc_pending := True \<rparr> else s)"
| "card_next m courts s McAssigned = (if mc_pending s then s\<lparr> mc_pending := False, mc_assigning := False \<rparr> else s)"
| "card_next m courts s (McFailed t) = s\<lparr> mc_pending := False \<rparr>"

fun card_out :: "int option \<Rightarrow> bracket_match \<Rightarrow> int list \<Rightarrow> match_card \<Rightarrow> card_event \<Rightarrow> card_effect list" where
  "card_out tournamentId m courts s (McChoose v) =
     (if needsCourt m \<and> mc_assigning s \<and> \<not> mc_pending s \<and> v \<in> set courts \<and> 0 < v
      then [McCall (m_call useAssignMatchToCourt
              \<lparr> ai_matchId = bm_id m, ai_courtId = v, ai_tournamentId = tournamentId \<rparr>)]
      else [])"
| "card_out tournamentId m courts s McAssigned =
     (if mc_pending s then [McToast ''success'' ''Court assigned''] else [])"
| "card_out tournamentId m courts s (McFailed t) = (if mc_pending s then [McToast ''error'' t] else [])"
| "card_out tournamentId m courts s _ = []"

record card_view =
  cv_number :: string
  cv_court :: "string option"
  cv_score_link :: "string option"
  cv_assign_button :: bool
  cv_trophy :: bool
  cv_choice :: "(int \<times> string) list option"
  cv_team_1 :: "string \<times> string \<times> row_state"
  cv_team_2 :: "string \<times> string \<times> row_state"

definition score_text :: "int option \<Rightarrow> string" where
  "score_text v = (case v of None \<Rightarrow> [] | Some n \<Rightarrow> show_int n)"

definition MatchCard :: "bracket_match \<Rightarrow> bool \<Rightarrow> (int \<times> string) list \<Rightarrow> match_card \<Rightarrow> card_view" where
  "MatchCard m isLastRound courts s =
     \<lparr> cv_number = (case bm_match_number m of None \<Rightarrow> [] | Some n \<Rightarrow> ''M'' @ show_int n),
       cv_court = (if hasCourt m \<and> has_str (bm_court_name m) then bm_court_name m else None),
       cv_score_link = (if canScore m \<and> hasCourt m then Some (''/ref/matches/'' @ str_of (bm_public_id m)) else None),
       cv_assign_button = (needsCourt m \<and> \<not> mc_assigning s),
       cv_trophy = (isComplete m \<and> isLastRound),
       cv_choice = (if needsCourt m \<and> mc_assigning s then Some courts else None),
       cv_team_1 = (teamDisplayName (bm_team_1 m) (bm_team_1_id m) (bm_team_1_seed m),
          score_text (bm_team_1_score m),
          if team1Won m then Won else if team2Won m then Lost else Undecided),
       cv_team_2 = (teamDisplayName (bm_team_2 m) (bm_team_2_id m) (bm_team_2_seed m),
          score_text (bm_team_2_score m),
          if team2Won m then Won else if team1Won m then Lost else Undecided) \<rparr>"

text \<open>The lines from each pair of matches to the next round: \<open>x1 y1 x2 y2\<close>.\<close>

definition pair_lines :: "rat \<Rightarrow> rat \<Rightarrow> nat \<Rightarrow> (rat \<times> rat \<times> rat \<times> rat) list" where
  "pair_lines matchHeight gap i =
     (let stp = matchHeight + gap;
          topY = of_nat (2 * i) * stp + matchHeight / 2;
          botY = of_nat (2 * i + 1) * stp + matchHeight / 2;
          midY = (topY + botY) / 2 in
      [(0, topY, 16, topY), (0, botY, 16, botY), (16, topY, 16, botY), (16, midY, 32, midY)])"

definition BracketConnectors :: "nat \<Rightarrow> rat \<Rightarrow> rat \<Rightarrow> (rat \<times> rat \<times> rat \<times> rat) list \<times> rat" where
  "BracketConnectors sourceCount matchHeight gap =
     (concat (map (pair_lines matchHeight gap)
        (takeWhile (\<lambda>i. 2 * i + 1 < sourceCount) [0..<(sourceCount + 1) div 2])),
      of_nat sourceCount * (matchHeight + gap) - gap)"

definition bm_round_of :: "bracket_match \<Rightarrow> int" where
  "bm_round_of m = (case bm_round m of None \<Rightarrow> 1 | Some r \<Rightarrow> r)"

definition bm_number_of :: "bracket_match \<Rightarrow> int" where
  "bm_number_of m = (case bm_match_number m of None \<Rightarrow> 0 | Some n \<Rightarrow> n)"

text \<open>A column: its heading, its matches in order, and the number of matches its lines join.\<close>

record round_column =
  rc_label :: string
  rc_matches :: "bracket_match list"
  rc_last :: bool
  rc_connectors :: "nat option"

definition bracket_columns :: "bracket_match list \<Rightarrow> round_column list" where
  "bracket_columns matches =
     (let cols = group_columns bm_round_of bm_number_of matches; n = length cols in
      map (\<lambda>(i, (r, ms)).
          \<lparr> rc_label = getRoundLabel r (int n) (case ms of [] \<Rightarrow> None | m # _ \<Rightarrow> bm_round_name m),
            rc_matches = ms, rc_last = (i = n - 1),
            rc_connectors = (if i \<noteq> n - 1 \<and> 1 < length ms then Some (length ms) else None) \<rparr>)
        (enumerate 0 cols))"

datatype bracket_screen =
    BracketSkeleton
  | GenerateBracket string
  | RoundRobin string "bracket_match list"
  | Elimination string "round_column list"

definition DivisionBracket ::
    "string \<Rightarrow> int option \<Rightarrow> bool \<Rightarrow> bracket_match list option \<Rightarrow> bracket_screen" where
  "DivisionBracket bracket_format max_teams isLoading data =
     (let matches = (case data of None \<Rightarrow> [] | Some ms \<Rightarrow> ms);
          heading = formatStatus bracket_format @ mid_dot @ show_nat (length matches) @ '' matches'' in
      if isLoading then BracketSkeleton
      else if matches = [] then
        GenerateBracket (''Format: '' @ formatStatus bracket_format @
          (case max_teams of
             None \<Rightarrow> []
           | Some n \<Rightarrow> if n \<noteq> 0 then mid_dot @ ''Up to '' @ show_int n @ '' teams'' else ''0''))
      else if bracket_format = ''round_robin'' \<or> bracket_format = ''pool_play'' then RoundRobin heading matches
      else Elimination heading (bracket_columns matches))"

section \<open>The list of registrations\<close>

definition search_registrations :: "string \<Rightarrow> registration list \<Rightarrow> registration list" where
  "search_registrations debouncedSearch regs =
     (if debouncedSearch = [] then regs
      else filter (\<lambda>r. list_ex (\<lambda>v. has_text (map to_lower debouncedSearch) (map to_lower v))
             (filter (\<lambda>v. v \<noteq> []) [str_of (rg_notes r), show_int (rg_id r)])) regs)"

text \<open>The ids the bulk button sends: of the loaded page, those not checked in.\<close>

definition no_show_ids :: "registration list \<Rightarrow> int list" where
  "no_show_ids regs =
     map rg_id (filter (\<lambda>r. rg_status r \<noteq> ''checked_in'' \<and> rg_checked_in_at r = None) regs)"

definition handleBulkNoShow :: "string \<Rightarrow> registration list \<Rightarrow> api_call" where
  "handleBulkNoShow divisionId regs =
     m_call (useBulkNoShow divisionId) (Arr (map Num (no_show_ids regs)))"

definition entity_cell :: "registration \<Rightarrow> string \<times> bool" where
  "entity_cell r =
     (if truthy (null_or Num (rg_team_id r)) then ''Team #'' @ js_to_string (null_or Num (rg_team_id r))
      else if truthy (null_or Num (rg_player_id r))
      then ''Player #'' @ js_to_string (null_or Num (rg_player_id r)) else em_dash,
      rg_seeking r)"

text \<open>The form that adds one.\<close>

record add_form =
  af_search :: string
  af_entity :: "(int \<times> string) option"
  af_notes :: string
  af_seeking :: bool
  af_pending :: bool
  af_closed :: bool

definition AddRegistrationForm_init :: add_form where
  "AddRegistrationForm_init =
     \<lparr> af_search = [], af_entity = None, af_notes = [], af_seeking = False, af_pending = False,
       af_closed = False \<rparr>"

datatype add_event =
    AfSearch string
  | AfSelect int string
  | AfClear
  | AfNotes string
  | AfSeeking bool
  | AfSubmit
  | AfAdded
  | AfFailed string
  | AfClose

datatype add_effect = AfSend api_call | AfToast string string

definition chosen_entity :: "add_form \<Rightarrow> int option" where
  "chosen_entity s =
     (case af_entity s of None \<Rightarrow> None | Some (i, l) \<Rightarrow> if i = 0 then None else Some i)"

definition registration_body :: "bool \<Rightarrow> add_form \<Rightarrow> int \<Rightarrow> js" where
  "registration_body isSingles s i = Obj
     [(if isSingles then ''player_id'' else ''team_id'', Num i),
      (''registration_notes'', js_or (Str (af_notes s)) Null),
      (''seeking_partner'', Bool (af_seeking s))]"

fun add_next :: "bool \<Rightarrow> add_form \<Rightarrow> add_event \<Rightarrow> add_form" where
  "add_next isSingles s (AfSearch t) = (if chosen_entity s = None then s\<lparr> af_search := t \<rparr> else s)"
| "add_next isSingles s (AfSelect i l) =
     (if chosen_entity s = None then s\<lparr> af_entity := Some (i, l), af_search := [] \<rparr> else s)"
| "add_next isSingles s AfClear = s\<lparr> af_entity := None \<rparr>"
| "add_next isSingles s (AfNotes t) = s\<lparr> af_notes := t \<rparr>"
| "add_next isSingles s (AfSeeking b) = (if isSingles then s else s\<lparr> af_seeking := b \<rparr>)"
| "add_next isSingles s AfSubmit =
     (if chosen_entity s \<noteq> None \<and> \<not> af_pending s then s\<lparr> af_pending := True \<rparr> else s)"
| "add_next isSingles s AfAdded =
     (if af_pending s then s\<lparr> af_pending := False, af_closed := True \<rparr> else s)"
| "add_next isSingles s (AfFailed t) = s\<lparr> af_pending := False \<rparr>"
| "add_next isSingles s AfClose = s\<lparr> af_closed := True \<rparr>"

fun add_out :: "string \<Rightarrow> bool \<Rightarrow> add_form \<Rightarrow> add_event \<Rightarrow> add_effect list" where
  "add_out divisionId isSingles s AfSubmit =
     (case chosen_entity s of
        None \<Rightarrow> []
      | Some i \<Rightarrow>
          if af_pending s then []
          else [AfSend (m_call (useCreateRegistration divisionId) (registration_body isSingles s i))])"
| "add_out divisionId isSingles s AfAdded =
     (if af_pending s then [AfToast ''success'' ''Registration added''] else [])"
| "add_out divisionId isSingles s (AfFailed t) = (if af_pending s then [AfToast ''error'' t] else [])"
| "add_out divisionId isSingles s _ = []"

section \<open>Lemmas\<close>

definition keyed :: "(int \<times> registration) list \<Rightarrow> bool" where
  "keyed m \<longleftrightarrow> distinct (map fst m) \<and> list_all (\<lambda>(k, r). k = rg_id r) m"

lemma keyed_update: "keyed m \<Longrightarrow> keyed (AList.update (rg_id r) r m)"
proof -
  assume m: "keyed m"
  then have "list_all (\<lambda>(k, r). k = rg_id r) (AList.update (rg_id r) r m)"
    unfolding keyed_def by (induction m) auto
  then show ?thesis using m by (simp add: keyed_def distinct_update)
qed

lemma keyed_ids: "keyed m \<Longrightarrow> map rg_id (map snd m) = map fst m"
  by (auto simp: keyed_def list_all_iff)

lemma distinct_regs: "distinct (map rg_id (sd_regs s))"
proof -
  have "keyed m \<Longrightarrow> keyed (foldl (\<lambda>m r. AList.update (rg_id r) r m) m rs)" for m rs
    by (induction rs arbitrary: m) (simp_all add: keyed_update)
  then have "keyed (foldl (\<lambda>m r. AList.update (rg_id r) r m) [] (sd_approved s @ sd_checked_in s))"
    by (simp add: keyed_def)
  then show ?thesis
    unfolding sd_regs_def combinedRegs_def by (simp only: keyed_ids) (simp add: keyed_def)
qed

lemma map_of_keyed:
  "distinct (map rg_id rs) \<Longrightarrow> r \<in> set rs \<Longrightarrow>
     map_of (map (\<lambda>r. (rg_id r, f r)) (filter P rs)) (rg_id r) = (if P r then Some (f r) else None)"
proof (induction rs)
  case (Cons a rs)
  show ?case
  proof (cases "r = a")
    case True
    then have "map_of (map (\<lambda>r. (rg_id r, f r)) (filter P rs)) (rg_id r) = None"
      using Cons.prems(1) by (auto simp: map_of_eq_None_iff)
    then show ?thesis using True by simp
  next
    case False
    then have r: "r \<in> set rs" using Cons.prems(2) by simp
    then have "rg_id a \<noteq> rg_id r" using Cons.prems(1) by auto
    then show ?thesis using Cons r by simp
  qed
qed simp

lemma shown_seed_current: "r \<in> set (sd_regs s) \<Longrightarrow> seed_at (currentSeeds s) (rg_id r) = shown_seed s r"
  by (cases "sd_local s = []")
    (auto simp: currentSeeds_def shown_seed_def seed_at_def merge_conv' initializedFromServer_def
      map_add_def split: option.split)

lemma number_seeds_nth:
  "distinct (map rg_id rs) \<Longrightarrow>
     map (\<lambda>r. seed_at (number_seeds rs) (rg_id r)) rs = map (\<lambda>i. Some (of_nat (Suc i))) [0..<length rs]"
proof (rule nth_equalityI)
  fix i assume d: "distinct (map rg_id rs)"
    and "i < length (map (\<lambda>r. seed_at (number_seeds rs) (rg_id r)) rs)"
  then have i: "i < length rs" by simp
  have "map fst (number_seeds rs) = map rg_id rs"
    by (rule nth_equalityI) (simp_all add: number_seeds_def nth_enumerate_eq)
  moreover have "(rg_id (rs ! i), Some (of_nat (Suc i))) \<in> set (number_seeds rs)"
    using i by (auto simp: number_seeds_def in_set_enumerate_eq image_iff intro!: bexI [of _ "(i, rs ! i)"])
  ultimately have "map_of (number_seeds rs) (rg_id (rs ! i)) = Some (Some (of_nat (Suc i)))"
    using d by (simp add: map_of_is_SomeI)
  then show "map (\<lambda>r. seed_at (number_seeds rs) (rg_id r)) rs ! i =
      map (\<lambda>i. Some (of_nat (Suc i))) [0..<length rs] ! i"
    using i by (simp add: seed_at_def)
qed simp

lemma number_seeds_Nil [simp]: "number_seeds rs = [] \<longleftrightarrow> rs = []"
proof -
  have "length (number_seeds rs) = length rs" by (simp add: number_seeds_def)
  then show ?thesis by (metis length_0_conv)
qed

lemma sd_regs_frame [simp]: "sd_regs (s\<lparr> sd_local := m \<rparr>) = sd_regs s"
  by (simp add: sd_regs_def)

section \<open>Properties\<close>


text \<open>
  The two buttons that fill in seeds give the numbers from one to the number of registrations,
  each once: in the order of the list, or in the order of the shuffle.
\<close>

theorem seeds_filled_in:
  assumes "seeds_open s" and "mset shuffled = mset (sd_regs s)"
  shows "map (shown_seed (seed_next s SdAuto)) (sd_regs s) =
      map (\<lambda>i. Some (of_nat (Suc i))) [0..<length (sd_regs s)] \<and>
    mset (map (shown_seed (seed_next s (SdRandom shuffled))) (sd_regs s)) =
      mset (map (\<lambda>i. Some (of_nat (Suc i))) [0..<length (sd_regs s)])"
proof -
  have ne: "sd_regs s \<noteq> []" "shuffled \<noteq> []"
    using assms by (auto simp: seeds_open_def)
  have d: "distinct (map rg_id shuffled)"
    using distinct_regs [of s] assms(2) by (metis mset_map mset_eq_imp_distinct_iff)
  have n: "length shuffled = length (sd_regs s)" using assms(2) by (metis size_mset)
  have "map (shown_seed (seed_next s SdAuto)) (sd_regs s) =
      map (\<lambda>r. seed_at (number_seeds (sd_regs s)) (rg_id r)) (sd_regs s)"
    using assms(1) ne by (simp add: shown_seed_def initializedFromServer_def)
  moreover have "map (shown_seed (seed_next s (SdRandom shuffled))) shuffled =
      map (\<lambda>r. seed_at (number_seeds shuffled) (rg_id r)) shuffled"
    using assms ne by (simp add: shown_seed_def initializedFromServer_def)
  moreover have "mset (map (shown_seed (seed_next s (SdRandom shuffled))) (sd_regs s)) =
      mset (map (shown_seed (seed_next s (SdRandom shuffled))) shuffled)"
    using assms(2) by simp
  ultimately show ?thesis
    using number_seeds_nth [OF distinct_regs] number_seeds_nth [OF d] n by simp
qed

definition sample_reg :: "int \<Rightarrow> rat option \<Rightarrow> registration" where
  "sample_reg i v =
     \<lparr> rg_id = i, rg_team_id = Some (10 * i), rg_player_id = None, rg_status = ''approved'', rg_seed = v,
       rg_notes = None, rg_seeking = False, rg_checked_in_at = None, rg_registered_at = [] \<rparr>"

lemma sample_regs:
  "sd_regs (DivisionSeeds_init [sample_reg 1 None, sample_reg 2 (Some 1)] []) =
     [sample_reg 1 None, sample_reg 2 (Some 1)]"
  by (simp add: sd_regs_def DivisionSeeds_init_def combinedRegs_def sample_reg_def)

theorem seeds_filled_in_witness:
  "map (shown_seed (seed_next (DivisionSeeds_init [sample_reg 1 None, sample_reg 2 (Some 1)] []) SdAuto))
     [sample_reg 1 None, sample_reg 2 (Some 1)] = [Some 1, Some 2]"
proof -
  let ?s = "DivisionSeeds_init [sample_reg 1 None, sample_reg 2 (Some 1)] []"
  have "seeds_open ?s" by (simp add: seeds_open_def sample_regs) (simp add: DivisionSeeds_init_def)
  then have "map (shown_seed (seed_next ?s SdAuto)) (sd_regs ?s) =
      map (\<lambda>i. Some (of_nat (Suc i))) [0..<length (sd_regs ?s)]"
    using seeds_filled_in [of ?s "sd_regs ?s"] by blast
  then show ?thesis unfolding sample_regs by simp
qed

text \<open>
  A registration that comes in after the first edit loses its seed: it is shown without one, the
  page does not count it as a change, and the save erases the seed the server has.
\<close>

theorem late_registration_erased:
  assumes "sd_local s \<noteq> []" and "r \<in> set (sd_regs s)" and "rg_id r \<notin> fst ` set (sd_local s)"
    and "rg_seed r \<noteq> None"
  shows "shown_seed s r = None \<and> \<not> unsaved s r \<and> (rg_id r, None) \<in> set (seed_updates s)"
proof -
  have n: "map_of (sd_local s) (rg_id r) = None" using assms(3) by (simp add: map_of_eq_None_iff)
  have "sd_regs s \<noteq> []" using assms(2) by auto
  then have sh: "shown_seed s r = None"
    using assms(1) n by (simp add: shown_seed_def initializedFromServer_def seed_at_def)
  then have "(rg_id r, None) \<in> set (seed_updates s)"
    using assms(2,4) shown_seed_current [OF assms(2)]
    by (auto simp: seed_updates_def image_iff intro!: bexI [of _ r])
  then show ?thesis using sh n by (simp add: unsaved_def)
qed

definition edited_seeding :: seeding where
  "edited_seeding =
     (DivisionSeeds_init [sample_reg 1 None, sample_reg 2 (Some 1)] [])\<lparr> sd_local := [(1, Some 2)] \<rparr>"

theorem late_registration_erased_witness:
  "shown_seed edited_seeding (sample_reg 2 (Some 1)) = None \<and>
   (2, None) \<in> set (seed_updates edited_seeding)"
proof -
  have r: "sd_regs edited_seeding = [sample_reg 1 None, sample_reg 2 (Some 1)]"
    unfolding edited_seeding_def sd_regs_frame by (rule sample_regs)
  have "sd_local edited_seeding = [(1, Some 2)]" by (simp add: edited_seeding_def)
  then show ?thesis
    using late_registration_erased [of edited_seeding "sample_reg 2 (Some 1)"] r
    by (simp add: sample_reg_def)
qed

lemma columns_matches: "map rc_matches (bracket_columns ms) = map snd (group_columns bm_round_of bm_number_of ms)"
  by (rule nth_equalityI)
    (simp_all add: bracket_columns_def Let_def nth_enumerate_eq split: prod.split)

text \<open>
  The elimination bracket shows every match once: its columns hold the matches of one round
  each, ordered by number, and together all of them; the trophy and the missing lines belong
  to the last column alone.
\<close>

theorem division_bracket_complete:
  "mset (concat (map rc_matches (bracket_columns ms))) = mset ms \<and>
   list_all (\<lambda>c. rc_matches c \<noteq> [] \<and> sorted (map bm_number_of (rc_matches c)) \<and>
     list_all (\<lambda>m. bm_round_of m = bm_round_of (hd (rc_matches c))) (rc_matches c)) (bracket_columns ms) \<and>
   map rc_last (bracket_columns ms) =
     map (\<lambda>i. i = length (bracket_columns ms) - 1) [0..<length (bracket_columns ms)]"
proof (intro conjI)
  note gc = group_columns_complete [of bm_round_of bm_number_of ms]
  show "mset (concat (map rc_matches (bracket_columns ms))) = mset ms"
    unfolding columns_matches using gc by blast
  show "list_all (\<lambda>c. rc_matches c \<noteq> [] \<and> sorted (map bm_number_of (rc_matches c)) \<and>
     list_all (\<lambda>m. bm_round_of m = bm_round_of (hd (rc_matches c))) (rc_matches c)) (bracket_columns ms)"
  proof -
    have "col \<noteq> [] \<and> sorted (map bm_number_of col) \<and> list_all (\<lambda>m. bm_round_of m = bm_round_of (hd col)) col"
      if "col \<in> set (map rc_matches (bracket_columns ms))" for col
      using that gc unfolding columns_matches by (fastforce simp: list_all_iff)
    then show ?thesis by (simp add: list_all_iff)
  qed
  show "map rc_last (bracket_columns ms) =
     map (\<lambda>i. i = length (bracket_columns ms) - 1) [0..<length (bracket_columns ms)]"
    by (rule nth_equalityI)
      (simp_all add: bracket_columns_def Let_def nth_enumerate_eq split: prod.split)
qed

text \<open>
  A completed match without a winner in which both places are empty is drawn as won by both.
\<close>

lemma empty_match_won_twice:
  "bm_status m = ''completed'' \<Longrightarrow> bm_winner m = None \<Longrightarrow> bm_team_1_id m = None \<Longrightarrow> bm_team_2_id m = None \<Longrightarrow>
     team1Won m \<and> team2Won m"
  by (simp add: team1Won_def team2Won_def isComplete_def)

text \<open>A match never offers the scoring link and the choice of a court at once.\<close>

lemma card_one_action:
  "cv_score_link (MatchCard m l cs s) = None \<or>
     (cv_choice (MatchCard m l cs s) = None \<and> \<not> cv_assign_button (MatchCard m l cs s))"
  by (simp add: MatchCard_def needsCourt_def)

text \<open>The lines of the bracket stay inside their picture.\<close>

lemma connectors_inside:
  assumes "0 < h" and "0 \<le> g" and "2 * i + 1 < n"
    and "(x1, y1, x2, y2) \<in> set (pair_lines h g i)"
  shows "0 \<le> x1 \<and> x2 \<le> 32 \<and> 0 \<le> y1 \<and> y1 \<le> y2 \<and> y2 \<le> of_nat n * (h + g) - g"
proof -
  have n: "(of_nat (2 * i) :: rat) + 2 \<le> of_nat n"
    using assms(3) by (metis Suc_eq_plus1 Suc_leI add.commute add_2_eq_Suc of_nat_add of_nat_mono of_nat_numeral)
  have "(of_nat (2 * i) + 2) * (h + g) \<le> of_nat n * (h + g)"
    using n assms(1,2) by (intro mult_right_mono) simp_all
  moreover have "0 \<le> y1"
  proof -
    have p: "0 \<le> 2 * of_nat i * (h + g)" "0 \<le> (1 + 2 * of_nat i) * (h + g)"
      using assms(1,2) by simp_all
    show ?thesis
      using assms(1,2,4) by (auto simp: pair_lines_def Let_def) (insert p, linarith)+
  qed
  ultimately show ?thesis
    using assms(1,2,4) by (auto simp: pair_lines_def Let_def algebra_simps)
qed

text \<open>
  The bulk button marks what is on the loaded page only, and also registrations that were
  withdrawn or rejected.
\<close>

lemma no_show_page:
  "set (no_show_ids regs) \<subseteq> rg_id ` set regs"
  "r \<in> set regs \<Longrightarrow> rg_status r = ''withdrawn'' \<Longrightarrow> rg_checked_in_at r = None \<Longrightarrow> rg_id r \<in> set (no_show_ids regs)"
  by (auto simp: no_show_ids_def)

text \<open>The form registers a player in singles and a team otherwise, and sends one request at a time.\<close>

lemma add_sends:
  "AfSend c \<in> set (add_out d singles s e) \<Longrightarrow>
     \<exists>i. chosen_entity s = Some i \<and> \<not> af_pending s \<and>
       c = ApiPost (''/api/v1/divisions/'' @ d @ ''/registrations'') (registration_body singles s i)"
  by (cases e; cases "chosen_entity s") (auto simp: useCreateRegistration_def split: if_splits)

end
