(* ===== verification/Tournament_Create.thy ===== *)
theory Tournament_Create
  imports Form_Inputs Shared_Components Division_Screens
begin

text \<open>
  The wizard that creates a tournament, \<open>web/src/features/tournaments/TournamentCreate.tsx\<close>: its
  form with the validation of the first step, the drafts of the divisions with their own form
  and the import of templates, the review, and the body that is posted. Numbers are kept as the
  texts of their inputs until the body is built.
\<close>

section \<open>Options\<close>

definition CREATE_STEPS :: "string list" where
  "CREATE_STEPS = [''Basic Info'', ''Divisions'', ''Review & Create'']"

definition FORMAT_OPTIONS :: "(string \<times> string) list" where
  "FORMAT_OPTIONS =
     [(''singles'', ''Singles''), (''doubles'', ''Doubles''), (''mixed_doubles'', ''Mixed Doubles''),
      (''team_match'', ''Team Match'')]"

definition GENDER_OPTIONS :: "(string \<times> string) list" where
  "GENDER_OPTIONS =
     [(''open'', ''Open''), (''mens'', ''Men'' @ [CHR 0x27] @ ''s''),
      (''womens'', ''Women'' @ [CHR 0x27] @ ''s''), (''mixed'', ''Mixed'')]"

definition BRACKET_FORMAT_OPTIONS :: "(string \<times> string) list" where
  "BRACKET_FORMAT_OPTIONS =
     [(''single_elimination'', ''Single Elimination''), (''double_elimination'', ''Double Elimination''),
      (''round_robin'', ''Round Robin''), (''pool_play'', ''Pool Play''),
      (''pool_to_bracket'', ''Pool to Bracket'')]"

definition REGISTRATION_MODE_OPTIONS :: "(string \<times> string) list" where
  "REGISTRATION_MODE_OPTIONS = [(''open'', ''Open''), (''invite_only'', ''Invite Only'')]"

definition SEED_METHOD_OPTIONS :: "(string \<times> string) list" where
  "SEED_METHOD_OPTIONS =
     [(''manual'', ''Manual''), (''rating'', ''By Rating''), (''random'', ''Random'')]"

definition CURRENCIES :: "string list" where
  "CURRENCIES = [''USD'', ''CAD'', ''EUR'', ''GBP'']"

text \<open>\<open>OPTIONS.find(...)?.label ?? value\<close>.\<close>

definition option_label :: "(string \<times> string) list \<Rightarrow> string \<Rightarrow> string" where
  "option_label opts v = (case map_of opts v of None \<Rightarrow> v | Some l \<Rightarrow> l)"

section \<open>Drafts of divisions\<close>

record division_draft =
  dd_name :: string
  dd_format :: string
  dd_gender :: string
  dd_bracket :: string
  dd_preset :: "int option"
  dd_max_teams :: string
  dd_max_roster :: string
  dd_fee :: string
  dd_currency :: string
  dd_auto :: bool
  dd_mode :: string
  dd_seed :: string

definition EMPTY_DIVISION :: division_draft where
  "EMPTY_DIVISION =
     \<lparr> dd_name = [], dd_format = ''doubles'', dd_gender = ''open'', dd_bracket = ''double_elimination'',
       dd_preset = None, dd_max_teams = [], dd_max_roster = [], dd_fee = [], dd_currency = ''USD'',
       dd_auto = False, dd_mode = ''open'', dd_seed = ''manual'' \<rparr>"

record division_template =
  dt_id :: int
  dt_name :: string
  dt_format :: string
  dt_gender :: string
  dt_bracket :: string
  dt_preset :: "int option"
  dt_max_teams :: "int option"
  dt_max_roster :: "int option"
  dt_fee :: "string option"
  dt_currency :: "string option"
  dt_auto :: bool
  dt_mode :: "string option"
  dt_seed :: "string option"

definition num_text :: "int option \<Rightarrow> string" where
  "num_text v = (case v of None \<Rightarrow> [] | Some n \<Rightarrow> show_int n)"

definition templateToDraft :: "division_template \<Rightarrow> division_draft" where
  "templateToDraft t =
     \<lparr> dd_name = dt_name t, dd_format = dt_format t, dd_gender = dt_gender t, dd_bracket = dt_bracket t,
       dd_preset = dt_preset t, dd_max_teams = num_text (dt_max_teams t),
       dd_max_roster = num_text (dt_max_roster t), dd_fee = str_of (dt_fee t),
       dd_currency = str_or (str_of (dt_currency t)) ''USD'', dd_auto = dt_auto t,
       dd_mode = str_or (str_of (dt_mode t)) ''open'', dd_seed = str_or (str_of (dt_seed t)) ''manual'' \<rparr>"

text \<open>The inputs of the division form; a number input hands over its value, empty if it is no number.\<close>

datatype draft_input =
    InName string
  | InFormat string
  | InGender string
  | InBracket string
  | InPreset "int option"
  | InMode string
  | InSeed string
  | InMaxTeams string
  | InMaxRoster string
  | InFee string
  | InCurrency string
  | InAuto bool

definition number_text :: "string \<Rightarrow> string" where
  "number_text t = (if number_field t = None then [] else t)"

definition pick_option :: "(string \<times> string) list \<Rightarrow> string \<Rightarrow> ('a \<Rightarrow> 'a) \<Rightarrow> 'a \<Rightarrow> 'a" where
  "pick_option opts v g d = (if v \<in> fst ` set opts then g d else d)"

fun update_draft :: "draft_input \<Rightarrow> division_draft \<Rightarrow> division_draft" where
  "update_draft (InName t) d = d\<lparr> dd_name := t \<rparr>"
| "update_draft (InFormat v) d = pick_option FORMAT_OPTIONS v (\<lambda>d. d\<lparr> dd_format := v \<rparr>) d"
| "update_draft (InGender v) d = pick_option GENDER_OPTIONS v (\<lambda>d. d\<lparr> dd_gender := v \<rparr>) d"
| "update_draft (InBracket v) d = pick_option BRACKET_FORMAT_OPTIONS v (\<lambda>d. d\<lparr> dd_bracket := v \<rparr>) d"
| "update_draft (InPreset i) d = d\<lparr> dd_preset := i \<rparr>"
| "update_draft (InMode v) d = pick_option REGISTRATION_MODE_OPTIONS v (\<lambda>d. d\<lparr> dd_mode := v \<rparr>) d"
| "update_draft (InSeed v) d = pick_option SEED_METHOD_OPTIONS v (\<lambda>d. d\<lparr> dd_seed := v \<rparr>) d"
| "update_draft (InMaxTeams t) d = d\<lparr> dd_max_teams := number_text t \<rparr>"
| "update_draft (InMaxRoster t) d = d\<lparr> dd_max_roster := number_text t \<rparr>"
| "update_draft (InFee t) d = d\<lparr> dd_fee := number_text t \<rparr>"
| "update_draft (InCurrency v) d = (if v \<in> set CURRENCIES then d\<lparr> dd_currency := v \<rparr> else d)"
| "update_draft (InAuto b) d = d\<lparr> dd_auto := b \<rparr>"

definition DivisionCard :: "division_draft \<Rightarrow> string \<times> string \<times> string option" where
  "DivisionCard d =
     (dd_name d,
      option_label FORMAT_OPTIONS (dd_format d) @ mid_dot @ option_label BRACKET_FORMAT_OPTIONS (dd_bracket d),
      (if dd_fee d = [] then None else Some (''Entry fee: '' @ dd_currency d @ '' '' @ dd_fee d)))"

section \<open>The template picker\<close>

text \<open>The set of the selected ids, and what is imported.\<close>

definition toggle_template :: "int \<Rightarrow> int list \<Rightarrow> int list" where
  "toggle_template i sel = (if i \<in> set sel then filter (\<lambda>j. j \<noteq> i) sel else sel @ [i])"

definition selected_templates :: "division_template list \<Rightarrow> int list \<Rightarrow> division_template list" where
  "selected_templates ts sel = filter (\<lambda>t. dt_id t \<in> set sel) ts"

definition TemplatePicker ::
    "division_template list \<Rightarrow> int list \<Rightarrow> (bool \<times> string \<times> string) list \<times> bool \<times> string" where
  "TemplatePicker ts sel =
     (map (\<lambda>t. (dt_id t \<in> set sel, dt_name t,
         option_label FORMAT_OPTIONS (dt_format t) @ mid_dot @
         option_label BRACKET_FORMAT_OPTIONS (dt_bracket t))) ts,
      sel \<noteq> [],
      ''Import '' @ (if sel \<noteq> [] then ''('' @ show_nat (length sel) @ '')'' else []))"

section \<open>The league picker\<close>

record league_picker =
  lp_query :: string
  lp_open :: bool
  lp_name :: "string option"

definition LeaguePicker_init :: league_picker where
  "LeaguePicker_init = \<lparr> lp_query = [], lp_open = False, lp_name = None \<rparr>"

datatype league_list = LeagueChosen string | LeagueMenu "(int \<times> string) list" | LeagueNone | LeagueClosed

definition LeaguePicker ::
    "int option \<Rightarrow> string \<Rightarrow> (int \<times> string) list option \<Rightarrow> league_picker \<Rightarrow> league_list" where
  "LeaguePicker value debouncedQuery data s =
     (let leagues = (case data of None \<Rightarrow> [] | Some ls \<Rightarrow> ls) in
      case value of
        Some i \<Rightarrow>
          if i \<noteq> 0 then LeagueChosen (case lp_name s of None \<Rightarrow> ''League #'' @ show_int i | Some n \<Rightarrow> n)
          else if lp_open s \<and> debouncedQuery \<noteq> [] then (if leagues \<noteq> [] then LeagueMenu leagues else LeagueNone)
          else LeagueClosed
      | None \<Rightarrow>
          if lp_open s \<and> debouncedQuery \<noteq> [] then (if leagues \<noteq> [] then LeagueMenu leagues else LeagueNone)
          else LeagueClosed)"

section \<open>The form\<close>

record tournament_form =
  tf_name :: string
  tf_start :: string
  tf_end :: string
  tf_venue :: "int option"
  tf_league :: "int option"
  tf_season :: "int option"
  tf_description :: string
  tf_email :: string
  tf_phone :: string
  tf_website :: string
  tf_rules :: string
  tf_logo :: "string option"
  tf_banner :: "string option"
  tf_sponsors :: "sponsor list"

definition INITIAL_FORM :: tournament_form where
  "INITIAL_FORM =
     \<lparr> tf_name = [], tf_start = [], tf_end = [], tf_venue = None, tf_league = None, tf_season = None,
       tf_description = [], tf_email = [], tf_phone = [], tf_website = [], tf_rules = [], tf_logo = None,
       tf_banner = None, tf_sponsors = [] \<rparr>"

datatype form_input =
    FName string
  | FStart string
  | FEnd string
  | FVenue "int option"
  | FDescription string
  | FEmail string
  | FPhone string
  | FWebsite string
  | FRules string
  | FLogo "string option"
  | FBanner "string option"
  | FSponsors "sponsor list"

fun input_key :: "form_input \<Rightarrow> string" where
  "input_key (FName t) = ''name''"
| "input_key (FStart t) = ''start_date''"
| "input_key (FEnd t) = ''end_date''"
| "input_key (FVenue i) = ''venue_id''"
| "input_key (FDescription t) = ''description''"
| "input_key (FEmail t) = ''contact_email''"
| "input_key (FPhone t) = ''contact_phone''"
| "input_key (FWebsite t) = ''website_url''"
| "input_key (FRules t) = ''rules_document_url''"
| "input_key (FLogo u) = ''logo_url''"
| "input_key (FBanner u) = ''banner_url''"
| "input_key (FSponsors ss) = ''sponsors''"

fun set_input :: "form_input \<Rightarrow> tournament_form \<Rightarrow> tournament_form" where
  "set_input (FName t) f = f\<lparr> tf_name := t \<rparr>"
| "set_input (FStart t) f = f\<lparr> tf_start := t \<rparr>"
| "set_input (FEnd t) f = f\<lparr> tf_end := t \<rparr>"
| "set_input (FVenue i) f = f\<lparr> tf_venue := i \<rparr>"
| "set_input (FDescription t) f = f\<lparr> tf_description := t \<rparr>"
| "set_input (FEmail t) f = f\<lparr> tf_email := t \<rparr>"
| "set_input (FPhone t) f = f\<lparr> tf_phone := t \<rparr>"
| "set_input (FWebsite t) f = f\<lparr> tf_website := t \<rparr>"
| "set_input (FRules t) f = f\<lparr> tf_rules := t \<rparr>"
| "set_input (FLogo u) f = f\<lparr> tf_logo := u \<rparr>"
| "set_input (FBanner u) f = f\<lparr> tf_banner := u \<rparr>"
| "set_input (FSponsors ss) f = f\<lparr> tf_sponsors := ss \<rparr>"

text \<open>\<open>a < b\<close> on strings.\<close>

fun str_less :: "string \<Rightarrow> string \<Rightarrow> bool" where
  "str_less a [] = False"
| "str_less [] (y # ys) = True"
| "str_less (x # xs) (y # ys) =
     ((of_char x :: nat) < of_char y \<or> (x = y \<and> str_less xs ys))"

text \<open>A later message on the end date replaces an earlier one; they exclude each other.\<close>

definition step1_errors :: "tournament_form \<Rightarrow> (string \<times> string) list" where
  "step1_errors f =
     (if trim (tf_name f) = [] then [(''name'', ''Tournament name is required'')] else []) @
     (if tf_start f = [] then [(''start_date'', ''Start date is required'')] else []) @
     (if tf_end f = [] then [(''end_date'', ''End date is required'')]
      else if tf_start f \<noteq> [] \<and> str_less (tf_end f) (tf_start f)
      then [(''end_date'', ''End date must be on or after start date'')] else [])"

section \<open>The body\<close>

record division_payload =
  dp_name :: string
  dp_format :: string
  dp_gender :: string
  dp_bracket :: string
  dp_scoring :: "string option"
  dp_max_teams :: "rat option"
  dp_max_roster :: "rat option"
  dp_fee :: "rat option"
  dp_currency :: string
  dp_auto :: bool
  dp_mode :: string
  dp_seed :: string

definition number_or_null :: "string \<Rightarrow> rat option" where
  "number_or_null t = (if t = [] then None else number_field t)"

definition division_payload_of :: "division_draft \<Rightarrow> division_payload" where
  "division_payload_of d =
     \<lparr> dp_name = dd_name d, dp_format = dd_format d, dp_gender = dd_gender d, dp_bracket = dd_bracket d,
       dp_scoring = (case dd_preset d of None \<Rightarrow> None | Some i \<Rightarrow> if i = 0 then None else Some (show_int i)),
       dp_max_teams = number_or_null (dd_max_teams d), dp_max_roster = number_or_null (dd_max_roster d),
       dp_fee = number_or_null (dd_fee d), dp_currency = dd_currency d, dp_auto = dd_auto d,
       dp_mode = dd_mode d, dp_seed = dd_seed d \<rparr>"

record tournament_payload =
  tp_name :: string
  tp_status :: string
  tp_start :: string
  tp_end :: string
  tp_venue :: "int option"
  tp_league :: "int option"
  tp_season :: "int option"
  tp_texts :: "(string \<times> string option) list"
  tp_logo :: "string option"
  tp_banner :: "string option"
  tp_sponsors :: "sponsor list option"
  tp_divisions :: "division_payload list"

definition text_or_null :: "string \<Rightarrow> string option" where
  "text_or_null t = (if t = [] then None else Some t)"

definition create_payload :: "tournament_form \<Rightarrow> division_draft list \<Rightarrow> string \<Rightarrow> tournament_payload" where
  "create_payload f ds stat =
     \<lparr> tp_name = tf_name f, tp_status = stat, tp_start = tf_start f, tp_end = tf_end f,
       tp_venue = tf_venue f, tp_league = tf_league f, tp_season = tf_season f,
       tp_texts = [(''description'', text_or_null (tf_description f)),
         (''contact_email'', text_or_null (tf_email f)), (''contact_phone'', text_or_null (tf_phone f)),
         (''website_url'', text_or_null (tf_website f)), (''rules_document_url'', text_or_null (tf_rules f))],
       tp_logo = tf_logo f, tp_banner = tf_banner f,
       tp_sponsors = (if tf_sponsors f \<noteq> [] then Some (tf_sponsors f) else None),
       tp_divisions = map division_payload_of ds \<rparr>"

section \<open>The wizard\<close>

record creation =
  tc_step :: nat
  tc_form :: tournament_form
  tc_divisions :: "division_draft list"
  tc_errors :: "(string \<times> string) list"
  tc_editing :: "nat option"
  tc_draft :: division_draft
  tc_show_form :: bool
  tc_templates :: "division_template list option"
  tc_picker :: "int list option"          (* shown, with its selection *)
  tc_league_name :: league_picker
  tc_pending :: "string option"           (* the status being created *)
  tc_left :: bool

definition TournamentCreate_init :: creation where
  "TournamentCreate_init =
     \<lparr> tc_step = 0, tc_form = INITIAL_FORM, tc_divisions = [], tc_errors = [], tc_editing = None,
       tc_draft = EMPTY_DIVISION, tc_show_form = False, tc_templates = None, tc_picker = None,
       tc_league_name = LeaguePicker_init, tc_pending = None, tc_left = False \<rparr>"

definition updateField :: "string \<Rightarrow> (tournament_form \<Rightarrow> tournament_form) \<Rightarrow> creation \<Rightarrow> creation" where
  "updateField key g s =
     s\<lparr> tc_form := g (tc_form s), tc_errors := filter (\<lambda>(k, m). k \<noteq> key) (tc_errors s) \<rparr>"

text \<open>An upload that ends after its step was left still reaches the form.\<close>

definition is_upload :: "form_input \<Rightarrow> bool" where
  "is_upload x = (case x of FLogo u \<Rightarrow> True | FBanner u \<Rightarrow> True | FSponsors ss \<Rightarrow> True | _ \<Rightarrow> False)"

datatype creation_event =
    TcInput form_input
  | TcLeagueQuery string
  | TcLeague int string
  | TcClearLeague
  | TcSeason "int option"
  | TcNext
  | TcBack
  | TcAddDivision
  | TcEditDivision nat
  | TcRemoveDivision nat
  | TcDraft draft_input
  | TcSaveDivision
  | TcCancelDivision
  | TcTemplates "division_template list option"
  | TcShowPicker
  | TcToggle int
  | TcSelectAll
  | TcImport
  | TcCancelPicker
  | TcSubmit string
  | TcCreated int
  | TcFailed string

datatype creation_effect = TcPost tournament_payload | TcToast string string | TcNavigate string

definition league_set :: "creation \<Rightarrow> bool" where
  "league_set s \<longleftrightarrow> (case tf_league (tc_form s) of None \<Rightarrow> False | Some i \<Rightarrow> i \<noteq> 0)"

definition validateStep1 :: "creation \<Rightarrow> creation \<times> bool" where
  "validateStep1 s =
     (s\<lparr> tc_errors := step1_errors (tc_form s) \<rparr>, step1_errors (tc_form s) = [])"

text \<open>
  A step is mounted afresh, and with it the local state of its pickers; the picker of the templates
  is mounted afresh as well when the templates are read again.
\<close>

definition go_step :: "nat \<Rightarrow> creation \<Rightarrow> creation" where
  "go_step i s =
     s\<lparr> tc_step := i, tc_league_name := (if i = tc_step s then tc_league_name s else LeaguePicker_init),
        tc_picker := (if i = tc_step s then tc_picker s else map_option (\<lambda>_. []) (tc_picker s)) \<rparr>"

definition handleNext :: "creation \<Rightarrow> creation" where
  "handleNext s =
     (if tc_step s = 0 \<and> \<not> snd (validateStep1 s) then fst (validateStep1 s)
      else go_step (min (tc_step s + 1) (length CREATE_STEPS - 1))
        (if tc_step s = 0 then fst (validateStep1 s) else s))"

definition handleBack :: "creation \<Rightarrow> creation" where
  "handleBack s = go_step (tc_step s - 1) s"

definition handleSaveDivision :: "creation \<Rightarrow> creation" where
  "handleSaveDivision s =
     s\<lparr> tc_divisions :=
          (case tc_editing s of
             Some i \<Rightarrow> map (\<lambda>(k, d). if k = i then tc_draft s else d) (enumerate 0 (tc_divisions s))
           | None \<Rightarrow> tc_divisions s @ [tc_draft s]),
        tc_show_form := False, tc_editing := None \<rparr>"

definition handleRemoveDivision :: "nat \<Rightarrow> creation \<Rightarrow> creation" where
  "handleRemoveDivision i s =
     s\<lparr> tc_divisions := map snd (filter (\<lambda>(k, d). k \<noteq> i) (enumerate 0 (tc_divisions s))) \<rparr>"

definition handleImportTemplates :: "division_template list \<Rightarrow> creation \<Rightarrow> creation" where
  "handleImportTemplates ts s =
     s\<lparr> tc_divisions := tc_divisions s @ map templateToDraft ts, tc_picker := None \<rparr>"

text \<open>The templates the picker works on: it is on the screen when they are loaded.\<close>

definition picker_templates :: "creation \<Rightarrow> (division_template list \<times> int list) option" where
  "picker_templates s =
     (case (tc_step s = 1, tc_picker s, tc_templates s) of
        (True, Some sel, Some ts) \<Rightarrow> Some (ts, sel) | _ \<Rightarrow> None)"

definition can_import :: "creation \<Rightarrow> bool" where
  "can_import s \<longleftrightarrow>
     tc_step s = 1 \<and> \<not> tc_show_form s \<and> league_set s \<and>
     (case tc_templates s of None \<Rightarrow> False | Some ts \<Rightarrow> ts \<noteq> [])"

text \<open>Steps one, two and three, and the answer of the request.\<close>

fun step1_next :: "creation \<Rightarrow> creation_event \<Rightarrow> creation" where
  "step1_next s (TcInput x) = updateField (input_key x) (set_input x) s"
| "step1_next s (TcLeagueQuery t) =
     (if league_set s then s
      else s\<lparr> tc_league_name := (tc_league_name s)\<lparr> lp_query := t, lp_open := True \<rparr> \<rparr>)"
| "step1_next s (TcLeague i name) =
     (if league_set s then s
      else (let t = updateField ''league_id'' (\<lambda>f. f\<lparr> tf_league := Some i \<rparr>)
                  (s\<lparr> tc_league_name := \<lparr> lp_query = [], lp_open = False, lp_name = Some name \<rparr> \<rparr>) in
            if i = 0 then updateField ''season_id'' (\<lambda>f. f\<lparr> tf_season := None \<rparr>) t else t))"
| "step1_next s TcClearLeague =
     (if \<not> league_set s then s
      else updateField ''season_id'' (\<lambda>f. f\<lparr> tf_season := None \<rparr>)
        (updateField ''league_id'' (\<lambda>f. f\<lparr> tf_league := None \<rparr>)
          (s\<lparr> tc_league_name := (tc_league_name s)\<lparr> lp_query := [], lp_name := None \<rparr> \<rparr>)))"
| "step1_next s (TcSeason i) =
     (if league_set s then updateField ''season_id'' (\<lambda>f. f\<lparr> tf_season := i \<rparr>) s else s)"
| "step1_next s e = s"

fun step2_next :: "creation \<Rightarrow> creation_event \<Rightarrow> creation" where
  "step2_next s TcAddDivision =
     (if tc_show_form s then s
      else s\<lparr> tc_draft := EMPTY_DIVISION, tc_editing := None, tc_show_form := True \<rparr>)"
| "step2_next s (TcEditDivision i) =
     (if i < length (tc_divisions s)
      then s\<lparr> tc_draft := tc_divisions s ! i, tc_editing := Some i, tc_show_form := True \<rparr> else s)"
| "step2_next s (TcRemoveDivision i) =
     (if i < length (tc_divisions s) then handleRemoveDivision i s else s)"
| "step2_next s (TcDraft x) = (if tc_show_form s then s\<lparr> tc_draft := update_draft x (tc_draft s) \<rparr> else s)"
| "step2_next s TcSaveDivision =
     (if tc_show_form s \<and> trim (dd_name (tc_draft s)) \<noteq> [] then handleSaveDivision s else s)"
| "step2_next s TcCancelDivision =
     (if tc_show_form s then s\<lparr> tc_show_form := False, tc_editing := None \<rparr> else s)"
| "step2_next s TcShowPicker =
     (if can_import s \<and> tc_picker s = None then s\<lparr> tc_picker := Some [] \<rparr> else s)"
| "step2_next s (TcToggle i) =
     (case picker_templates s of
        None \<Rightarrow> s
      | Some (ts, sel) \<Rightarrow> if i \<in> dt_id ` set ts then s\<lparr> tc_picker := Some (toggle_template i sel) \<rparr> else s)"
| "step2_next s TcSelectAll =
     (case picker_templates s of
        None \<Rightarrow> s | Some (ts, sel) \<Rightarrow> s\<lparr> tc_picker := Some (remdups (map dt_id ts)) \<rparr>)"
| "step2_next s TcImport =
     (case picker_templates s of
        None \<Rightarrow> s
      | Some (ts, sel) \<Rightarrow> if sel = [] then s else handleImportTemplates (selected_templates ts sel) s)"
| "step2_next s TcCancelPicker = (if picker_templates s = None then s else s\<lparr> tc_picker := None \<rparr>)"
| "step2_next s e = s"

definition creation_live :: "creation \<Rightarrow> creation_event \<Rightarrow> creation" where
  "creation_live s e =
     (case e of
        TcTemplates ts \<Rightarrow>
          s\<lparr> tc_templates := ts,
             tc_picker := (if ts = None then map_option (\<lambda>_. []) (tc_picker s) else tc_picker s) \<rparr>
      | TcNext \<Rightarrow> if tc_step s < 2 then handleNext s else s
      | TcBack \<Rightarrow> if 0 < tc_step s then handleBack s else s
      | TcSubmit stat \<Rightarrow>
          if tc_step s = 2 \<and> tc_pending s = None \<and> (stat = ''draft'' \<or> stat = ''published'')
          then s\<lparr> tc_pending := Some stat \<rparr> else s
      | TcCreated i \<Rightarrow> if tc_pending s = None then s else s\<lparr> tc_pending := None, tc_left := True \<rparr>
      | TcFailed t \<Rightarrow> s\<lparr> tc_pending := None \<rparr>
      | TcInput x \<Rightarrow> if tc_step s = 0 \<or> is_upload x then step1_next s e else s
      | _ \<Rightarrow> if tc_step s = 0 then step1_next s e else if tc_step s = 1 then step2_next s e else s)"

definition creation_next :: "creation \<Rightarrow> creation_event \<Rightarrow> creation" where
  "creation_next s e = (if tc_left s then s else creation_live s e)"

definition creation_out :: "creation \<Rightarrow> creation_event \<Rightarrow> creation_effect list" where
  "creation_out s e =
     (case e of
        TcSubmit stat \<Rightarrow>
          if \<not> tc_left s \<and> tc_step s = 2 \<and> tc_pending s = None \<and> (stat = ''draft'' \<or> stat = ''published'')
          then [TcPost (create_payload (tc_form s) (tc_divisions s) stat)] else []
      | TcCreated i \<Rightarrow>
          (case tc_pending s of
             None \<Rightarrow> []
           | Some stat \<Rightarrow>
               [TcToast ''success'' (''Tournament '' @
                  (if stat = ''draft'' then ''saved as draft'' else ''created and published'')),
                TcNavigate (''/tournaments/'' @ show_int i)])
      | TcFailed t \<Rightarrow>
          if tc_pending s = None then []
          else [TcToast ''error'' (if t \<noteq> [] then t else ''Failed to create tournament'')]
      | TcImport \<Rightarrow>
          if tc_left s then []
          else (case picker_templates s of
              None \<Rightarrow> []
            | Some (ts, sel) \<Rightarrow>
                if sel = [] then []
                else (let n = length (selected_templates ts sel) in
                  [TcToast ''success'' (''Imported '' @ show_nat n @ '' division'' @
                     (if n \<noteq> 1 then ''s'' else []) @ '' from templates'')]))
      | _ \<Rightarrow> [])"

section \<open>What the pages show\<close>

definition StepIndicator :: "nat \<Rightarrow> (string \<times> bool \<times> bool) list" where
  "StepIndicator currentStep =
     map (\<lambda>(i, l). (l, i < currentStep, i = currentStep)) (enumerate 0 CREATE_STEPS)"

definition review_rows :: "(string \<Rightarrow> string) \<Rightarrow> tournament_form \<Rightarrow> (string \<times> string) list" where
  "review_rows fmtDate f =
     [(''Name'', tf_name f), (''Start Date'', fmtDate (tf_start f)), (''End Date'', fmtDate (tf_end f)),
      (''Venue'', case tf_venue f of None \<Rightarrow> em_dash
         | Some i \<Rightarrow> if i = 0 then em_dash else ''Venue #'' @ show_int i),
      (''League'', case tf_league f of None \<Rightarrow> em_dash
         | Some i \<Rightarrow> if i = 0 then em_dash else ''League #'' @ show_int i)] @
     (if tf_email f \<noteq> [] then [(''Email'', tf_email f)] else []) @
     (if tf_phone f \<noteq> [] then [(''Phone'', tf_phone f)] else []) @
     (if tf_website f \<noteq> [] then [(''Website'', tf_website f)] else [])"

definition review_division :: "division_draft \<Rightarrow> string \<times> string" where
  "review_division d =
     (dd_name d,
      option_label FORMAT_OPTIONS (dd_format d) @ mid_dot @
      option_label BRACKET_FORMAT_OPTIONS (dd_bracket d) @
      (if dd_max_teams d \<noteq> [] then mid_dot @ ''Max '' @ dd_max_teams d @ '' teams'' else []) @
      (if dd_fee d \<noteq> [] then mid_dot @ dd_currency d @ '' '' @ dd_fee d else []))"

definition SeasonPicker ::
    "int option \<Rightarrow> int option \<Rightarrow> (int \<times> string) list option \<Rightarrow> (string \<times> (string \<times> string) list) option" where
  "SeasonPicker leagueId value seasons =
     (if leagueId \<in> {None, Some 0} then None
      else Some ((case value of None \<Rightarrow> [] | Some i \<Rightarrow> if i = 0 then [] else show_int i),
        ([], ''Select season...'') #
        map (\<lambda>(i, name). (show_int i, name)) (case seasons of None \<Rightarrow> [] | Some ss \<Rightarrow> ss)))"

record divisions_page =
  dv_empty :: bool
  dv_cards :: "(string \<times> string \<times> string option) list"
  dv_form :: "(division_draft \<times> bool) option"    (* with whether it can be saved *)
  dv_import :: bool
  dv_picker :: "((bool \<times> string \<times> string) list \<times> bool \<times> string) option"

definition divisions_view :: "creation \<Rightarrow> divisions_page" where
  "divisions_view s =
     \<lparr> dv_empty = (tc_divisions s = [] \<and> \<not> tc_show_form s),
       dv_cards = map DivisionCard (tc_divisions s),
       dv_form = (if tc_show_form s then Some (tc_draft s, trim (dd_name (tc_draft s)) \<noteq> []) else None),
       dv_import = can_import s,
       dv_picker = map_option (\<lambda>(ts, sel). TemplatePicker ts sel) (picker_templates s) \<rparr>"

record review_page =
  rv_rows :: "(string \<times> string) list"
  rv_description :: "string option"
  rv_divisions :: "(string \<times> string) list"
  rv_sponsors :: "(string \<times> string) list"
  rv_busy :: bool

definition review_view :: "(string \<Rightarrow> string) \<Rightarrow> creation \<Rightarrow> review_page" where
  "review_view fmtDate s =
     (let f = tc_form s in
      \<lparr> rv_rows = review_rows fmtDate f,
        rv_description = text_or_null (tf_description f),
        rv_divisions = map review_division (tc_divisions s),
        rv_sponsors = map (\<lambda>p. (so_name p, so_tier p @ '' tier'')) (tf_sponsors f),
        rv_busy = (tc_pending s \<noteq> None) \<rparr>)"

section \<open>What is posted\<close>

text \<open>
  Between the steps the form stays one that the first step has accepted, and a season is only
  ever chosen under a league.
\<close>

definition creation_inv :: "creation \<Rightarrow> bool" where
  "creation_inv s \<longleftrightarrow>
     tc_step s < 3 \<and> (0 < tc_step s \<longrightarrow> step1_errors (tc_form s) = []) \<and>
     (tf_season (tc_form s) \<noteq> None \<longrightarrow> league_set s)"

lemma upload_keeps_checked:
  "is_upload x \<Longrightarrow> step1_errors (set_input x f) = step1_errors f"
  by (cases x) (auto simp: is_upload_def step1_errors_def)

lemma input_keeps_leagues [simp]:
  "tf_league (set_input x f) = tf_league f" "tf_season (set_input x f) = tf_season f"
  by (cases x; simp)+

lemma step1_inv: "creation_inv s \<Longrightarrow> tc_step s = 0 \<Longrightarrow> creation_inv (step1_next s e)"
  by (cases "(s, e)" rule: step1_next.cases)
    (auto simp: creation_inv_def updateField_def league_set_def Let_def split: option.splits)

lemma step2_frame [simp]: "tc_step (step2_next s e) = tc_step s" "tc_form (step2_next s e) = tc_form s"
  by (cases "(s, e)" rule: step2_next.cases;
      auto simp: handleSaveDivision_def handleRemoveDivision_def handleImportTemplates_def
        split: option.splits)+

lemma inv_frame:
  "creation_inv s \<Longrightarrow> tc_step s' = tc_step s \<Longrightarrow> tc_form s' = tc_form s \<Longrightarrow> creation_inv s'"
  by (simp add: creation_inv_def league_set_def)

lemma next_inv: "creation_inv s \<Longrightarrow> tc_step s < 2 \<Longrightarrow> creation_inv (handleNext s)"
  by (auto simp: handleNext_def go_step_def validateStep1_def CREATE_STEPS_def creation_inv_def league_set_def)

lemma back_inv: "creation_inv s \<Longrightarrow> creation_inv (handleBack s)"
  by (auto simp: handleBack_def go_step_def creation_inv_def league_set_def)

lemma input_inv:
  "creation_inv s \<Longrightarrow> tc_step s = 0 \<or> is_upload x \<Longrightarrow> creation_inv (step1_next s (TcInput x))"
  by (auto simp: creation_inv_def updateField_def league_set_def upload_keeps_checked)

lemma step2_inv: "creation_inv s \<Longrightarrow> creation_inv (step2_next s e)"
  by (rule inv_frame) simp_all

lemma creation_live_inv:
  assumes "creation_inv s"
  shows "creation_inv (creation_live s e)"
proof -
  note parts = assms step1_inv [OF assms] step2_inv [OF assms] next_inv [OF assms] back_inv [OF assms]
    input_inv [OF assms] inv_frame [OF assms]
  show ?thesis using parts
    by (cases e) (simp_all add: creation_live_def del: step1_next.simps step2_next.simps)
qed

interpretation tc: event_machine creation_next "\<lambda>s. s = TournamentCreate_init" creation_inv
proof unfold_locales
  show "creation_inv s \<Longrightarrow> creation_inv (creation_next s e)" for s e
    by (simp add: creation_next_def creation_live_inv)
qed (simp add: creation_inv_def TournamentCreate_init_def INITIAL_FORM_def)

lemmas creation_run_inv = tc.reachable_inv [OF refl]

lemma step1_errors_none:
  "step1_errors f = [] \<longleftrightarrow>
     trim (tf_name f) \<noteq> [] \<and> tf_start f \<noteq> [] \<and> tf_end f \<noteq> [] \<and> \<not> str_less (tf_end f) (tf_start f)"
  by (auto simp: step1_errors_def)

lemma posted_form:
  "TcPost p \<in> set (creation_out s e) \<Longrightarrow>
     tc_step s = 2 \<and> (\<exists>stat. p = create_payload (tc_form s) (tc_divisions s) stat \<and>
       (stat = ''draft'' \<or> stat = ''published''))"
  by (cases e) (auto simp: creation_out_def Let_def split: option.splits if_splits)

text \<open>
  C38. Whatever is typed, chosen, imported and revisited before, a tournament that is posted has a
  name that is not blank and both of its dates, the end not before the start; it is a draft or
  published, and names a season only together with a league.
\<close>

theorem create_payload_valid:
  assumes "TcPost p \<in> set (creation_out (run creation_next TournamentCreate_init es) e)"
  shows "trim (tp_name p) \<noteq> [] \<and> tp_start p \<noteq> [] \<and> tp_end p \<noteq> [] \<and> \<not> str_less (tp_end p) (tp_start p) \<and>
    tp_status p \<in> {''draft'', ''published''} \<and> (tp_season p = None \<or> tp_league p \<notin> {None, Some 0})"
proof -
  let ?s = "run creation_next TournamentCreate_init es"
  obtain stat where p: "p = create_payload (tc_form ?s) (tc_divisions ?s) stat"
      and st: "stat = ''draft'' \<or> stat = ''published''" and "tc_step ?s = 2"
    using posted_form [OF assms] by blast
  then have ok: "step1_errors (tc_form ?s) = []"
      and sea: "tf_season (tc_form ?s) \<noteq> None \<longrightarrow> league_set ?s"
    using creation_run_inv [of es] by (simp_all add: creation_inv_def)
  show ?thesis
    using ok [unfolded step1_errors_none] sea st unfolding p
    by (auto simp: create_payload_def league_set_def split: option.splits)
qed

definition one_tournament :: "creation_event list" where
  "one_tournament =
     [TcNext, TcInput (FName ''Cup''), TcInput (FStart ''2026-05-02''), TcInput (FEnd ''2026-05-03''),
      TcLeague 7 ''L'', TcSeason (Some 3), TcNext, TcNext]"

theorem create_payload_valid_witness:
  "\<exists>p. TcPost p \<in> set (creation_out (run creation_next TournamentCreate_init one_tournament) (TcSubmit ''draft'')) \<and>
     trim (tp_name p) \<noteq> [] \<and> tp_season p = Some 3"
proof -
  let ?s = "run creation_next TournamentCreate_init one_tournament"
  let ?p = "create_payload (tc_form ?s) (tc_divisions ?s) ''draft''"
  have s: "tc_step ?s = 2 \<and> tc_left ?s = False \<and> tc_pending ?s = None \<and> tf_season (tc_form ?s) = Some 3"
    by (simp add: one_tournament_def creation_next_def creation_live_def TournamentCreate_init_def
        INITIAL_FORM_def handleNext_def validateStep1_def step1_errors_def go_step_def CREATE_STEPS_def
        updateField_def league_set_def trim_def is_space_def)
  then have post: "TcPost ?p \<in> set (creation_out ?s (TcSubmit ''draft''))"
    by (simp add: creation_out_def)
  moreover have "trim (tp_name ?p) \<noteq> []" using create_payload_valid [OF post] by blast
  moreover have "tp_season ?p = Some 3" using s by (simp add: create_payload_def)
  ultimately show ?thesis by blast
qed

section \<open>The drafts of the divisions\<close>

text \<open>Saving, removing and importing as operations on lists.\<close>

lemma enumerate_map_at:
  "map (\<lambda>(k, d). if k = i then x else d) (enumerate n xs) = (if n \<le> i then xs[i - n := x] else xs)"
proof (induction xs arbitrary: n)
  case (Cons y ys)
  have "i - n = Suc (i - Suc n)" if "n \<le> i" "n \<noteq> i" using that by simp
  then show ?case using Cons [of "Suc n"] by auto
qed simp

lemma enumerate_filter_at:
  "map snd (filter (\<lambda>(k, d). k \<noteq> i) (enumerate n xs)) =
     (if n \<le> i then take (i - n) xs @ drop (Suc (i - n)) xs else xs)"
proof (induction xs arbitrary: n)
  case (Cons y ys)
  have "i - n = Suc (i - Suc n)" if "n \<le> i" "n \<noteq> i" using that by simp
  then show ?case using Cons [of "Suc n"] by auto
qed simp

lemma save_division_at:
  "tc_divisions (handleSaveDivision s) =
     (case tc_editing s of None \<Rightarrow> tc_divisions s @ [tc_draft s]
      | Some i \<Rightarrow> (tc_divisions s)[i := tc_draft s])"
  by (simp add: handleSaveDivision_def enumerate_map_at split: option.split)

lemma remove_division_at:
  "tc_divisions (handleRemoveDivision i s) = take i (tc_divisions s) @ drop (Suc i) (tc_divisions s)"
  by (simp add: handleRemoveDivision_def enumerate_filter_at)

text \<open>
  The division under the form is remembered by its position, and removing an earlier one does
  not move it: what is then saved replaces the division after the edited one, which keeps its old
  content; if the edited one was the last, the edit is lost without a word.
\<close>

theorem edited_division_shift:
  fixes s :: creation and i j :: nat and x :: draft_input
  defines "ds \<equiv> tc_divisions s"
  defines "s' \<equiv> run creation_next s [TcEditDivision i, TcDraft x, TcRemoveDivision j, TcSaveDivision]"
  assumes "j < i" and "i < length ds" and "tc_step s = 1" and "\<not> tc_left s"
    and "trim (dd_name (update_draft x (ds ! i))) \<noteq> []"
  shows "tc_divisions s' ! (i - 1) = ds ! i \<and> length (tc_divisions s') = length ds - 1 \<and>
    (if i = length ds - 1 then tc_divisions s' = take j ds @ drop (Suc j) ds
     else tc_divisions s' ! i = update_draft x (ds ! i))"
proof -
  have d: "tc_divisions s' = (take j ds @ drop (Suc j) ds)[i := update_draft x (ds ! i)]"
    using assms(3-) unfolding s'_def ds_def
    by (simp add: creation_next_def creation_live_def save_division_at
        handleRemoveDivision_def enumerate_filter_at)
  have i: "(take j ds @ drop (Suc j) ds) ! (i - 1) = ds ! i"
    using assms(3,4) by (simp add: nth_append)
  have n: "length (take j ds @ drop (Suc j) ds) = length ds - 1" using assms(3,4) by simp
  show ?thesis unfolding d using assms(3,4) i n by (auto simp: list_update_beyond)
qed

definition three_divisions :: creation where
  "three_divisions = TournamentCreate_init
     \<lparr> tc_step := 1, tc_divisions := [EMPTY_DIVISION\<lparr> dd_name := ''A'' \<rparr>, EMPTY_DIVISION\<lparr> dd_name := ''B'' \<rparr>,
         EMPTY_DIVISION\<lparr> dd_name := ''C'' \<rparr>] \<rparr>"

theorem edited_division_shift_witness:
  "map dd_name (tc_divisions (run creation_next three_divisions
     [TcEditDivision 1, TcDraft (InName ''B2''), TcRemoveDivision 0, TcSaveDivision])) = [''B'', ''B2'']"
proof -
  let ?ds = "tc_divisions (run creation_next three_divisions
     [TcEditDivision 1, TcDraft (InName ''B2''), TcRemoveDivision 0, TcSaveDivision])"
  have "?ds ! 0 = EMPTY_DIVISION\<lparr> dd_name := ''B'' \<rparr> \<and> length ?ds = 2 \<and>
      ?ds ! 1 = EMPTY_DIVISION\<lparr> dd_name := ''B2'' \<rparr>"
    using edited_division_shift [of 0 1 three_divisions "InName ''B2''"]
    by (simp add: three_divisions_def TournamentCreate_init_def trim_def is_space_def)
  then show ?thesis by (auto simp: length_Suc_conv numeral_2_eq_2)
qed

text \<open>An integer written out is read back by the number inputs.\<close>

lemma number_field_show: "number_field (show_int i) = Some (of_int i)"
proof -
  have all: "takeWhile is_digit (show_nat n) = show_nat n" "dropWhile is_digit (show_nat n) = []" for n
    using digits_value_show [of n] by (simp_all add: takeWhile_eq_all_conv dropWhile_eq_Nil_conv list_all_iff)
  have m: "parse_magnitude (show_nat n) = Some (of_nat n)" for n
    using digits_value_show [of n] by (simp add: parse_magnitude_def all Let_def)
  obtain c r where c: "show_nat (nat i) = c # r" "is_digit c"
    using digits_value_show [of "nat i"] by (cases "show_nat (nat i)") auto
  have "c \<noteq> CHR ''-''" using c(2) by (auto simp: is_digit_def)
  then show ?thesis
    using m [of "nat i"] m [of "nat (- i)"] by (simp add: number_field_def show_int_def c(1))
qed

text \<open>
  A division made from a template of the league is posted with the limits and the preset of
  the template, the preset as a text; its entry fee is the number of the template's text, and the
  three choices a template may lack are filled in.
\<close>

theorem template_import_roundtrip:
  fixes t :: division_template
  defines "p \<equiv> division_payload_of (templateToDraft t)"
  shows "dp_name p = dt_name t \<and> dp_max_teams p = map_option of_int (dt_max_teams t) \<and>
    dp_max_roster p = map_option of_int (dt_max_roster t) \<and>
    dp_scoring p = (case dt_preset t of None \<Rightarrow> None | Some i \<Rightarrow> if i = 0 then None else Some (show_int i)) \<and>
    dp_fee p = (case dt_fee t of None \<Rightarrow> None | Some u \<Rightarrow> number_or_null u) \<and>
    dp_currency p \<noteq> [] \<and> dp_mode p \<noteq> [] \<and> dp_seed p \<noteq> []"
proof -
  have n: "show_int i \<noteq> []" for i using digits_value_show by (auto simp: show_int_def)
  have num: "number_or_null (num_text v) = map_option of_int v" for v
    by (cases v) (simp_all add: number_or_null_def num_text_def n number_field_show)
  have fee: "number_or_null (str_of v) = (case v of None \<Rightarrow> None | Some u \<Rightarrow> number_or_null u)" for v
    by (cases v) (simp_all add: number_or_null_def str_of_def)
  have filled: "str_or u (c # cs) \<noteq> []" for u c cs by (simp add: str_or_def)
  show ?thesis unfolding p_def
    by (simp add: division_payload_of_def templateToDraft_def num fee filled)
qed

text \<open>
  Going to another step and back forgets the name of the league, which is then shown by its
  number; and divisions may be skipped, though the text of the step asks for at least one.
\<close>

lemma league_name_forgotten:
  "tc_step s = 1 \<Longrightarrow> \<not> tc_left s \<Longrightarrow> tf_league (tc_form s) = Some i \<Longrightarrow> i \<noteq> 0 \<Longrightarrow>
     LeaguePicker (Some i) q ls (tc_league_name (creation_next s TcBack)) = LeagueChosen (''League #'' @ show_int i)"
  by (simp add: creation_next_def creation_live_def handleBack_def go_step_def LeaguePicker_def
      LeaguePicker_init_def Let_def)

lemma no_division_needed:
  "tc_divisions (run creation_next TournamentCreate_init one_tournament) = [] \<and>
   tc_step (run creation_next TournamentCreate_init one_tournament) = 2"
  by (simp add: one_tournament_def creation_next_def creation_live_def TournamentCreate_init_def
      INITIAL_FORM_def handleNext_def validateStep1_def step1_errors_def go_step_def CREATE_STEPS_def
      updateField_def league_set_def trim_def is_space_def)

end
