(* ===== verification/Record_Forms.thy ===== *)
theory Record_Forms
  imports Tournament_Create Text_Components Admin_Hooks League_Hooks
begin

text \<open>
  The forms that create or edit one record: player profile, venue, team, organization and court
  (\<open>web/src/features/registry\<close>), division and tournament settings (\<open>features/tournaments\<close>), league,
  season and division template (\<open>features/leagues\<close>), advertisement (\<open>features/admin\<close>). The state
  variables of a form are kept under the key they are sent as; for each key a form says how the
  variable is opened with the record, which control changes it and how it is sent.
\<close>

section \<open>Values, fields, controls\<close>

text \<open>
  A value of JSON or of a state variable; \<open>FInt\<close> is a number that is an integer, and a key that is
  missing reads as \<open>FNull\<close>, as \<open>undefined\<close> and \<open>null\<close> do after \<open>??\<close>.
\<close>

datatype field_value =
    FNull
  | FText string
  | FInt int
  | FFrac rat
  | FBool bool
  | FSponsorList "sponsor list"
  | FTexts "string list"

type_synonym field_values = "(string \<times> field_value) list"

definition value_at :: "field_values \<Rightarrow> string \<Rightarrow> field_value" where
  "value_at f k = (case map_of f k of None \<Rightarrow> FNull | Some v \<Rightarrow> v)"

fun value_text :: "field_value \<Rightarrow> string" where
  "value_text (FText t) = t"
| "value_text _ = []"

definition text_at :: "field_values \<Rightarrow> string \<Rightarrow> string" where
  "text_at f k = value_text (value_at f k)"

text \<open>\<open>Number(text)\<close> of a number input: its text is empty or a number.\<close>

definition number_value :: "string \<Rightarrow> field_value" where
  "number_value t =
     (case number_field t of
        None \<Rightarrow> FNull
      | Some q \<Rightarrow> if q = of_int \<lfloor>q\<rfloor> then FInt \<lfloor>q\<rfloor> else FFrac q)"

text \<open>The ways a key is opened and sent; \<open>v\<close> is the record's value, \<open>t\<close> the text of the variable.\<close>

datatype field_kind =
    Trimmed                       (* v ?? '', sent t.trim() || null *)
  | TrimmedName                   (* v ?? '', sent t.trim() *)
  | TrimmedUpper                  (* v ?? '', sent t.trim().toUpperCase() *)
  | Blankable string              (* v ?? d, sent t || null *)
  | Verbatim field_value          (* v ?? d, sent as it is *)
  | YearText                      (* v ? String(v) : '', sent t ? Number(t) : null *)
  | CountText                     (* v ?. toString() ?? '', sent t ? Number(t) : null *)
  | NumberOr int                  (* String(v ?? d), sent Number(t) || d *)
  | DateText                      (* v?.slice(0, 10) ?? '', sent as it is *)
  | DateOrNull                    (* v?.slice(0, 10) ?? '', sent t || null *)
  | Sponsors                      (* v ?? [], sent if not empty, else null *)
  | Omittable                     (* v ?? '', sent t || undefined *)
  | OmittableIf string string     (* the same if another variable has this text, else undefined *)

definition or_else_value :: "field_value \<Rightarrow> field_value \<Rightarrow> field_value" where
  "or_else_value v d = (if v = FNull then d else v)"

definition blank_null :: "string \<Rightarrow> field_value" where
  "blank_null t = (if t = [] then FNull else FText t)"

definition int_text :: "field_value \<Rightarrow> string" where
  "int_text v = (case v of FInt n \<Rightarrow> show_int n | _ \<Rightarrow> [])"

fun open_field :: "field_kind \<Rightarrow> field_value \<Rightarrow> field_value" where
  "open_field (Blankable d) v = or_else_value v (FText d)"
| "open_field (Verbatim d) v = or_else_value v d"
| "open_field YearText v = FText (if v = FInt 0 then [] else int_text v)"
| "open_field CountText v = FText (int_text v)"
| "open_field (NumberOr d) v = FText (int_text (or_else_value v (FInt d)))"
| "open_field DateText v = FText (take 10 (value_text v))"
| "open_field DateOrNull v = FText (take 10 (value_text v))"
| "open_field Sponsors v = or_else_value v (FSponsorList [])"
| "open_field _ v = or_else_value v (FText [])"

text \<open>What is sent under the key; \<open>None\<close> if the key is left out.\<close>

fun send_field :: "field_values \<Rightarrow> string \<Rightarrow> field_kind \<Rightarrow> field_value option" where
  "send_field f k Trimmed = Some (blank_null (trim (text_at f k)))"
| "send_field f k TrimmedName = Some (FText (trim (text_at f k)))"
| "send_field f k TrimmedUpper = Some (FText (map to_upper (trim (text_at f k))))"
| "send_field f k (Blankable d) = Some (blank_null (text_at f k))"
| "send_field f k (Verbatim d) = Some (value_at f k)"
| "send_field f k YearText = Some (number_value (text_at f k))"
| "send_field f k CountText = Some (number_value (text_at f k))"
| "send_field f k (NumberOr d) =
     Some (let v = number_value (text_at f k) in if v = FNull \<or> v = FInt 0 then FInt d else v)"
| "send_field f k DateText = Some (value_at f k)"
| "send_field f k DateOrNull = Some (blank_null (text_at f k))"
| "send_field f k Sponsors =
     Some (if value_at f k = FSponsorList [] then FNull else value_at f k)"
| "send_field f k Omittable = (if text_at f k = [] then None else Some (FText (text_at f k)))"
| "send_field f k (OmittableIf j t) =
     (if text_at f j \<noteq> t \<or> text_at f k = [] then None else Some (FText (text_at f k)))"

text \<open>The controls, and the value one hands over when the user tries to enter \<open>v\<close>.\<close>

datatype control =
    TextBox
  | ShortBox nat
  | SelectOf "string list"
  | NumberBox
  | CountBox
  | ColorBox
  | UploadBox
  | UploadText
  | CheckBox
  | SponsorBox
  | IdBox
  | PresetBox
  | TogglesOf "string list"
  | OnlyIf string string control
  | UnlessBlank string control

fun entered :: "field_values \<Rightarrow> field_value \<Rightarrow> control \<Rightarrow> field_value \<Rightarrow> field_value option" where
  "entered f old TextBox v = (case v of FText t \<Rightarrow> Some v | _ \<Rightarrow> None)"
| "entered f old (ShortBox n) v = (case v of FText t \<Rightarrow> Some (FText (take n t)) | _ \<Rightarrow> None)"
| "entered f old (SelectOf vs) v = (case v of FText t \<Rightarrow> if t \<in> set vs then Some v else None | _ \<Rightarrow> None)"
| "entered f old NumberBox v = (case v of FText t \<Rightarrow> Some (FText (number_text t)) | _ \<Rightarrow> None)"
| "entered f old CountBox v = (case v of FText t \<Rightarrow> Some (number_value t) | _ \<Rightarrow> None)"
| "entered f old ColorBox v =
     (case v of FText t \<Rightarrow> if looksHex t then Some (FText (map to_lower t)) else None | _ \<Rightarrow> None)"
| "entered f old UploadBox v = (case v of FText t \<Rightarrow> Some v | FNull \<Rightarrow> Some v | _ \<Rightarrow> None)"
| "entered f old UploadText v = (case v of FText t \<Rightarrow> Some v | FNull \<Rightarrow> Some (FText []) | _ \<Rightarrow> None)"
| "entered f old CheckBox v = (case v of FBool b \<Rightarrow> Some v | _ \<Rightarrow> None)"
| "entered f old SponsorBox v = (case v of FSponsorList ss \<Rightarrow> Some v | _ \<Rightarrow> None)"
| "entered f old IdBox v = (case v of FInt n \<Rightarrow> Some v | FNull \<Rightarrow> Some v | _ \<Rightarrow> None)"
| "entered f old PresetBox v =
     (case v of FInt n \<Rightarrow> Some (FText (if n = 0 then [] else show_int n)) | FNull \<Rightarrow> Some (FText []) | _ \<Rightarrow> None)"
| "entered f old (TogglesOf vs) v =
     (case (v, old) of
        (FText t, FTexts ts) \<Rightarrow>
          if t \<in> set vs
          then Some (FTexts (if t \<in> set ts then filter (\<lambda>u. u \<noteq> t) ts else ts @ [t])) else None
      | _ \<Rightarrow> None)"
| "entered f old (OnlyIf k t c) v = (if text_at f k = t then entered f old c v else None)"
| "entered f old (UnlessBlank k c) v = (if text_at f k = [] then None else entered f old c v)"

section \<open>Forms\<close>

datatype form_call = PostTo string | PatchTo string | PutTo string

datatype report = ShowErrors | ToastError | Silent

record form_spec =
  fs_fields :: "(string \<times> field_kind) list"
  fs_controls :: "(string \<times> control) list"
  fs_address :: bool                             (* has an address input *)
  fs_resets :: "(string \<times> field_values) list"      (* what clearing a variable sets besides *)
  fs_errors :: "field_values \<Rightarrow> (string \<times> string) list"
  fs_report :: report
  fs_buttons :: "string list"                     (* the texts the submit buttons add as status *)
  fs_save :: "int option \<Rightarrow> form_call"
  fs_done :: "bool \<Rightarrow> string \<Rightarrow> field_values \<Rightarrow> string"
  fs_failed :: "bool \<Rightarrow> string \<Rightarrow> string"
  fs_goes :: "int \<Rightarrow> string option"
  fs_closes :: "bool \<Rightarrow> bool"                      (* editing, whether success ends the form *)

definition open_form :: "form_spec \<Rightarrow> field_values \<Rightarrow> field_values" where
  "open_form F r = map (\<lambda>(k, kind). (k, open_field kind (value_at r k))) (fs_fields F)"

definition form_payload :: "form_spec \<Rightarrow> field_values \<Rightarrow> field_values" where
  "form_payload F f =
     concat (map (\<lambda>(k, kind). case send_field f k kind of None \<Rightarrow> [] | Some v \<Rightarrow> [(k, v)]) (fs_fields F))"

definition ADDRESS_KEYS :: "string list" where
  "ADDRESS_KEYS =
     [''formatted_address'', ''city'', ''state_province'', ''country'', ''postal_code'', ''address_line_1'',
      ''address_line_2'', ''latitude'', ''longitude'']"

definition coord_value :: "rat option \<Rightarrow> field_value" where
  "coord_value c =
     (case c of None \<Rightarrow> FNull | Some q \<Rightarrow> if q = of_int \<lfloor>q\<rfloor> then FInt \<lfloor>q\<rfloor> else FFrac q)"

definition address_values :: "address \<Rightarrow> field_values" where
  "address_values a =
     zip ADDRESS_KEYS
       (map FText [ad_formatted a, ad_city a, ad_state a, ad_country a, ad_postal a, ad_line_1 a, ad_line_2 a] @
        map coord_value [ad_latitude a, ad_longitude a])"

text \<open>\<open>setState\<close> of several variables.\<close>

definition set_values :: "field_values \<Rightarrow> field_values \<Rightarrow> field_values" where
  "set_values new f = map (\<lambda>(k, v). (k, case map_of new k of None \<Rightarrow> v | Some w \<Rightarrow> w)) f"

record entity_form =
  fm_id :: "int option"
  fm_values :: field_values
  fm_errors :: "(string \<times> string) list"
  fm_pending :: "string option"                   (* what success will announce *)
  fm_left :: bool

definition form_init :: "form_spec \<Rightarrow> int option \<Rightarrow> field_values \<Rightarrow> entity_form" where
  "form_init F i r =
     \<lparr> fm_id = i, fm_values = open_form F r, fm_errors = [], fm_pending = None, fm_left = False \<rparr>"

text \<open>
  The events: a newer version of the record, an input, a choice of an address, a submit with one
  of the buttons, the answer.
\<close>

datatype form_event =
    FmRecord field_values
  | FmInput string field_value
  | FmAddress address
  | FmSubmit string
  | FmSaved int
  | FmFailed string

datatype form_effect = FmSend form_call field_values | FmToast string string | FmGo string

definition form_input_value :: "form_spec \<Rightarrow> field_values \<Rightarrow> string \<Rightarrow> field_value \<Rightarrow> field_value option" where
  "form_input_value F f k v =
     (case map_of (fs_controls F) k of None \<Rightarrow> None | Some c \<Rightarrow> entered f (value_at f k) c v)"

definition apply_resets :: "form_spec \<Rightarrow> string \<Rightarrow> field_values \<Rightarrow> field_values" where
  "apply_resets F k f =
     (case map_of (fs_resets F) k of
        None \<Rightarrow> f | Some new \<Rightarrow> if text_at f k = [] then set_values new f else f)"

definition form_ready :: "form_spec \<Rightarrow> entity_form \<Rightarrow> string \<Rightarrow> bool" where
  "form_ready F s b \<longleftrightarrow> b \<in> set (fs_buttons F) \<and> fm_pending s = None"

definition form_body :: "form_spec \<Rightarrow> field_values \<Rightarrow> string \<Rightarrow> field_values" where
  "form_body F f b = form_payload F f @ (if b = [] then [] else [(''status'', FText b)])"

definition form_live :: "form_spec \<Rightarrow> entity_form \<Rightarrow> form_event \<Rightarrow> entity_form" where
  "form_live F s e =
     (case e of
        FmRecord r \<Rightarrow> s
      | FmInput k v \<Rightarrow>
          (case form_input_value F (fm_values s) k v of
             None \<Rightarrow> s
           | Some w \<Rightarrow> s\<lparr> fm_values := apply_resets F k (set_values [(k, w)] (fm_values s)) \<rparr>)
      | FmAddress a \<Rightarrow>
          (if fs_address F then s\<lparr> fm_values := set_values (address_values a) (fm_values s) \<rparr> else s)
      | FmSubmit b \<Rightarrow>
          (if \<not> form_ready F s b then s
           else (let errs = fs_errors F (fm_values s);
                     t = (if fs_report F = ShowErrors then s\<lparr> fm_errors := errs \<rparr> else s) in
             if errs \<noteq> [] then t
             else t\<lparr> fm_pending := Some (fs_done F (fm_id s \<noteq> None) b (fm_values s)) \<rparr>))
      | FmSaved i \<Rightarrow>
          (if fm_pending s = None then s
           else s\<lparr> fm_pending := None, fm_left := (fs_closes F (fm_id s \<noteq> None) \<or> fs_goes F i \<noteq> None) \<rparr>)
      | FmFailed t \<Rightarrow> s\<lparr> fm_pending := None \<rparr>)"

definition form_next :: "form_spec \<Rightarrow> entity_form \<Rightarrow> form_event \<Rightarrow> entity_form" where
  "form_next F s e = (if fm_left s then s else form_live F s e)"

definition form_out :: "form_spec \<Rightarrow> entity_form \<Rightarrow> form_event \<Rightarrow> form_effect list" where
  "form_out F s e =
     (if fm_left s then []
      else (case e of
        FmSubmit b \<Rightarrow>
          (if \<not> form_ready F s b then []
           else if fs_errors F (fm_values s) \<noteq> [] then
             (if fs_report F = ToastError then [FmToast ''error'' (snd (hd (fs_errors F (fm_values s))))] else [])
           else [FmSend (fs_save F (fm_id s)) (form_body F (fm_values s) b)])
      | FmSaved i \<Rightarrow>
          (case fm_pending s of
             None \<Rightarrow> []
           | Some note \<Rightarrow>
               FmToast ''success'' note #
               (case fs_goes F i of None \<Rightarrow> [] | Some p \<Rightarrow> [FmGo p]))
      | FmFailed t \<Rightarrow>
          (if fm_pending s = None then [] else [FmToast ''error'' (fs_failed F (fm_id s \<noteq> None) t)])
      | _ \<Rightarrow> []))"

section \<open>The forms of the program\<close>

definition blank_name :: "string \<Rightarrow> field_values \<Rightarrow> (string \<times> string) list" where
  "blank_name message f = (if trim (text_at f ''name'') = [] then [(''name'', message)] else [])"

definition bad_email :: "string \<Rightarrow> string \<Rightarrow> field_values \<Rightarrow> (string \<times> string) list" where
  "bad_email key message f =
     (let t = text_at f ''contact_email'' in
      if t \<noteq> [] \<and> CHR ''@'' \<notin> set t then [(key, message)] else [])"

definition bad_year :: "field_values \<Rightarrow> (string \<times> string) list" where
  "bad_year f =
     (let t = text_at f ''founded_year'' in
      if t \<noteq> [] \<and> (case number_field t of None \<Rightarrow> True | Some q \<Rightarrow> q < 1900)
      then [(''founded_year'', ''Enter a valid year'')] else [])"

definition saved_text :: "string \<Rightarrow> bool \<Rightarrow> string" where
  "saved_text what editing = what @ (if editing then '' updated'' else '' created'')"

definition create_or_patch :: "string \<Rightarrow> int option \<Rightarrow> form_call" where
  "create_or_patch path i =
     (case i of None \<Rightarrow> PostTo path | Some n \<Rightarrow> PatchTo (path @ ''/'' @ show_int n))"

subsection \<open>Player profile\<close>

definition PLAYER_GENDERS :: "string list" where
  "PLAYER_GENDERS = [[], ''male'', ''female'', ''non_binary'', ''prefer_not_to_say'']"

definition HANDEDNESS_OPTIONS :: "string list" where
  "HANDEDNESS_OPTIONS = [[], ''right'', ''left'', ''ambidextrous'']"

definition PlayerForm_fields :: "(string \<times> field_kind) list" where
  "PlayerForm_fields =
     [(''display_name'', Trimmed), (''gender'', Blankable []), (''handedness'', Blankable []),
      (''avatar_url'', Verbatim FNull), (''bio'', Trimmed), (''city'', Trimmed), (''state_province'', Trimmed),
      (''country'', Trimmed), (''postal_code'', Trimmed), (''address_line_1'', Trimmed),
      (''address_line_2'', Trimmed), (''phone'', Trimmed), (''paddle_brand'', Trimmed),
      (''paddle_model'', Trimmed), (''dupr_id'', Trimmed), (''vair_id'', Trimmed),
      (''emergency_contact_name'', Trimmed), (''emergency_contact_phone'', Trimmed),
      (''medical_notes'', Trimmed), (''is_profile_hidden'', Verbatim (FBool False))]"

definition PlayerForm_controls :: "(string \<times> control) list" where
  "PlayerForm_controls =
     [(''display_name'', TextBox), (''gender'', SelectOf PLAYER_GENDERS), (''handedness'', SelectOf HANDEDNESS_OPTIONS),
      (''avatar_url'', UploadBox), (''bio'', TextBox), (''address_line_1'', TextBox), (''address_line_2'', TextBox),
      (''city'', TextBox), (''state_province'', TextBox), (''country'', TextBox), (''postal_code'', TextBox),
      (''phone'', TextBox), (''paddle_brand'', TextBox), (''paddle_model'', TextBox), (''dupr_id'', TextBox),
      (''vair_id'', TextBox), (''emergency_contact_name'', TextBox), (''emergency_contact_phone'', TextBox),
      (''medical_notes'', TextBox), (''is_profile_hidden'', CheckBox)]"

definition phone_char :: "char \<Rightarrow> bool" where
  "phone_char c \<longleftrightarrow> is_digit c \<or> is_space c \<or> c \<in> {CHR ''+'', CHR ''('', CHR '')'', CHR ''-''}"

definition PlayerForm_errors :: "field_values \<Rightarrow> (string \<times> string) list" where
  "PlayerForm_errors f =
     (if 100 < length (text_at f ''display_name'')
      then [(''display_name'', ''Display name must be 100 characters or fewer'')] else []) @
     (if list_all phone_char (text_at f ''phone'') then [] else [(''phone'', ''Enter a valid phone number'')]) @
     (if list_all phone_char (text_at f ''emergency_contact_phone'') then []
      else [(''emergency_contact_phone'', ''Enter a valid phone number'')])"

definition PlayerForm :: form_spec where
  "PlayerForm =
     \<lparr> fs_fields = PlayerForm_fields, fs_controls = PlayerForm_controls, fs_address = False, fs_resets = [],
       fs_errors = PlayerForm_errors, fs_report = ShowErrors, fs_buttons = [[]],
       fs_save = (\<lambda>i. PatchTo ''/api/v1/players/me''), fs_done = (\<lambda>ed b f. ''Profile updated''),
       fs_failed = (\<lambda>ed t. t), fs_goes = (\<lambda>i. Some ''/dashboard''), fs_closes = (\<lambda>ed. False) \<rparr>"

datatype player_page = ProfileSkeleton | ProfileError | ProfileForm string

definition PlayerForm_page :: "bool \<Rightarrow> bool \<Rightarrow> (string \<times> string \<times> string) option \<Rightarrow> player_page" where
  "PlayerForm_page isLoading err profile =
     (if isLoading then ProfileSkeleton
      else (case (err, profile) of
          (False, Some (first, last_name, publicId)) \<Rightarrow> ProfileForm (first @ '' '' @ last_name @ mid_dot @ publicId)
        | _ \<Rightarrow> ProfileError))"

subsection \<open>Venue\<close>

definition US_TIMEZONES :: "string list" where
  "US_TIMEZONES =
     [''America/New_York'', ''America/Chicago'', ''America/Denver'', ''America/Los_Angeles'',
      ''America/Anchorage'', ''Pacific/Honolulu'', ''America/Phoenix'', ''America/Puerto_Rico'',
      ''Pacific/Guam'', ''Pacific/Pago_Pago'']"

definition VenueForm_fields :: "(string \<times> field_kind) list" where
  "VenueForm_fields =
     [(''name'', TrimmedName), (''formatted_address'', Trimmed), (''address_line_1'', Trimmed),
      (''address_line_2'', Trimmed), (''city'', Trimmed), (''state_province'', Trimmed), (''country'', Trimmed),
      (''postal_code'', Trimmed), (''latitude'', Verbatim FNull), (''longitude'', Verbatim FNull),
      (''timezone'', Trimmed), (''website_url'', Trimmed), (''contact_email'', Trimmed),
      (''contact_phone'', Trimmed), (''bio'', Trimmed), (''logo_url'', Verbatim FNull),
      (''photo_url'', Verbatim FNull), (''venue_map_url'', Verbatim FNull)]"

definition VenueForm_controls :: "(string \<times> control) list" where
  "VenueForm_controls =
     [(''name'', TextBox), (''timezone'', SelectOf ([] # US_TIMEZONES)), (''website_url'', TextBox),
      (''contact_email'', TextBox), (''contact_phone'', TextBox), (''logo_url'', UploadBox),
      (''photo_url'', UploadBox), (''venue_map_url'', UploadBox), (''bio'', TextBox)]"

definition VenueForm_errors :: "field_values \<Rightarrow> (string \<times> string) list" where
  "VenueForm_errors f =
     blank_name ''Name is required'' f @ bad_email ''contact_email'' ''Enter a valid email'' f"

definition VenueForm :: form_spec where
  "VenueForm =
     \<lparr> fs_fields = VenueForm_fields, fs_controls = VenueForm_controls, fs_address = True, fs_resets = [],
       fs_errors = VenueForm_errors, fs_report = ShowErrors, fs_buttons = [[]],
       fs_save = create_or_patch ''/api/v1/venues'', fs_done = (\<lambda>ed b f. saved_text ''Venue'' ed),
       fs_failed = (\<lambda>ed t. t), fs_goes = (\<lambda>i. Some (''/venues/'' @ show_int i)), fs_closes = (\<lambda>ed. False) \<rparr>"

subsection \<open>Team\<close>

definition TeamForm_fields :: "(string \<times> field_kind) list" where
  "TeamForm_fields =
     [(''name'', TrimmedName), (''short_name'', TrimmedUpper), (''primary_color'', Blankable ''#3b82f6''),
      (''secondary_color'', Blankable ''#64748b''), (''city'', Trimmed), (''founded_year'', YearText),
      (''bio'', Trimmed), (''logo_url'', Verbatim FNull)]"

definition TeamForm_controls :: "(string \<times> control) list" where
  "TeamForm_controls =
     [(''name'', TextBox), (''short_name'', ShortBox 4), (''primary_color'', ColorBox),
      (''secondary_color'', ColorBox), (''city'', TextBox), (''founded_year'', NumberBox),
      (''logo_url'', UploadBox), (''bio'', TextBox)]"

definition TeamForm_errors :: "field_values \<Rightarrow> (string \<times> string) list" where
  "TeamForm_errors f =
     blank_name ''Name is required'' f @
     (if 4 < length (text_at f ''short_name'') then [(''short_name'', ''Short name must be 4 characters or fewer'')]
      else if trim (text_at f ''short_name'') = [] then [(''short_name'', ''Short name is required'')] else []) @
     bad_year f"

definition TeamForm :: form_spec where
  "TeamForm =
     \<lparr> fs_fields = TeamForm_fields, fs_controls = TeamForm_controls, fs_address = False, fs_resets = [],
       fs_errors = TeamForm_errors, fs_report = ShowErrors, fs_buttons = [[]],
       fs_save = create_or_patch ''/api/v1/teams'', fs_done = (\<lambda>ed b f. saved_text ''Team'' ed),
       fs_failed = (\<lambda>ed t. t), fs_goes = (\<lambda>i. Some (''/teams/'' @ show_int i)), fs_closes = (\<lambda>ed. False) \<rparr>"

subsection \<open>Organization\<close>

definition OrgForm_fields :: "(string \<times> field_kind) list" where
  "OrgForm_fields =
     [(''name'', TrimmedName), (''contact_email'', Trimmed), (''website_url'', Trimmed),
      (''formatted_address'', Trimmed), (''city'', Trimmed), (''state_province'', Trimmed), (''country'', Trimmed),
      (''postal_code'', Trimmed), (''address_line_1'', Trimmed), (''address_line_2'', Trimmed),
      (''latitude'', Verbatim FNull), (''longitude'', Verbatim FNull), (''founded_year'', YearText),
      (''bio'', Trimmed), (''logo_url'', Verbatim FNull)]"

definition OrgForm_controls :: "(string \<times> control) list" where
  "OrgForm_controls =
     [(''name'', TextBox), (''contact_email'', TextBox), (''website_url'', TextBox),
      (''founded_year'', NumberBox), (''logo_url'', UploadBox), (''bio'', TextBox)]"

definition OrgForm_errors :: "field_values \<Rightarrow> (string \<times> string) list" where
  "OrgForm_errors f =
     blank_name ''Name is required'' f @ bad_email ''contact_email'' ''Enter a valid email'' f @ bad_year f"

definition OrgForm :: form_spec where
  "OrgForm =
     \<lparr> fs_fields = OrgForm_fields, fs_controls = OrgForm_controls, fs_address = True, fs_resets = [],
       fs_errors = OrgForm_errors, fs_report = ShowErrors, fs_buttons = [[]],
       fs_save = create_or_patch ''/api/v1/organizations'', fs_done = (\<lambda>ed b f. saved_text ''Organization'' ed),
       fs_failed = (\<lambda>ed t. t), fs_goes = (\<lambda>i. Some (''/organizations/'' @ show_int i)),
       fs_closes = (\<lambda>ed. False) \<rparr>"

subsection \<open>Court\<close>

definition SURFACE_TYPES :: "string list" where
  "SURFACE_TYPES =
     [[], ''indoor_hard'', ''outdoor_concrete'', ''outdoor_sport_court'', ''outdoor_wood'', ''temporary'', ''other'']"

definition STREAM_PLATFORMS :: "string list" where
  "STREAM_PLATFORMS = [[], ''youtube'', ''twitch'', ''vimeo'', ''hls'', ''other'']"

definition CourtEditForm_fields :: "(string \<times> field_kind) list" where
  "CourtEditForm_fields =
     [(''name'', TrimmedName), (''surface_type'', Blankable []), (''is_show_court'', Verbatim (FBool False)),
      (''is_active'', Verbatim (FBool False)), (''notes'', Trimmed), (''stream_type'', Blankable []),
      (''stream_url'', Trimmed), (''stream_title'', Trimmed), (''stream_is_live'', Verbatim (FBool False))]"

definition CourtEditForm_controls :: "(string \<times> control) list" where
  "CourtEditForm_controls =
     [(''name'', TextBox), (''surface_type'', SelectOf SURFACE_TYPES), (''is_show_court'', CheckBox),
      (''is_active'', CheckBox), (''stream_type'', SelectOf STREAM_PLATFORMS),
      (''stream_url'', UnlessBlank ''stream_type'' TextBox), (''stream_title'', UnlessBlank ''stream_type'' TextBox),
      (''stream_is_live'', UnlessBlank ''stream_type'' CheckBox), (''notes'', TextBox)]"

definition CourtEditForm_resets :: "(string \<times> field_values) list" where
  "CourtEditForm_resets =
     [(''stream_type'', [(''stream_url'', FText []), (''stream_title'', FText []), (''stream_is_live'', FBool False)])]"

definition CourtEditForm :: form_spec where
  "CourtEditForm =
     \<lparr> fs_fields = CourtEditForm_fields, fs_controls = CourtEditForm_controls, fs_address = False,
       fs_resets = CourtEditForm_resets, fs_errors = blank_name [], fs_report = Silent, fs_buttons = [[]],
       fs_save = create_or_patch ''/api/v1/courts'', fs_done = (\<lambda>ed b f. ''Court updated''),
       fs_failed = (\<lambda>ed t. ''Failed to update court''), fs_goes = (\<lambda>i. None), fs_closes = (\<lambda>ed. True) \<rparr>"

subsection \<open>Division, and a template for divisions\<close>

definition DIVISION_CURRENCIES :: "string list" where
  "DIVISION_CURRENCIES = [''USD'', ''EUR'', ''GBP'', ''CAD'', ''AUD'']"

definition DivisionForm_fields :: "(string \<times> field_kind) list" where
  "DivisionForm_fields =
     [(''name'', Verbatim (FText [])), (''format'', Verbatim (FText ''doubles'')),
      (''gender_restriction'', Verbatim (FText ''open'')),
      (''bracket_format'', Verbatim (FText ''double_elimination'')), (''scoring_format'', Blankable []),
      (''max_teams'', Verbatim FNull), (''max_roster_size'', Verbatim FNull), (''entry_fee_amount'', Verbatim FNull),
      (''entry_fee_currency'', Verbatim (FText ''USD'')), (''auto_approve'', Verbatim (FBool False)),
      (''registration_mode'', Verbatim (FText ''open'')), (''seed_method'', Verbatim (FText ''manual''))]"

text \<open>The seeding method has no control here.\<close>

definition DivisionForm_controls :: "(string \<times> control) list" where
  "DivisionForm_controls =
     [(''name'', TextBox), (''format'', SelectOf (map fst FORMAT_OPTIONS)),
      (''gender_restriction'', SelectOf (map fst GENDER_OPTIONS)),
      (''bracket_format'', SelectOf (map fst BRACKET_FORMAT_OPTIONS)),
      (''registration_mode'', SelectOf (map fst REGISTRATION_MODE_OPTIONS)), (''scoring_format'', PresetBox),
      (''max_teams'', CountBox), (''max_roster_size'', CountBox), (''entry_fee_amount'', CountBox),
      (''entry_fee_currency'', SelectOf DIVISION_CURRENCIES), (''auto_approve'', CheckBox)]"

definition DivisionForm :: "string \<Rightarrow> form_spec" where
  "DivisionForm tournamentId =
     \<lparr> fs_fields = DivisionForm_fields, fs_controls = DivisionForm_controls, fs_address = False, fs_resets = [],
       fs_errors = blank_name ''Division name is required'', fs_report = ToastError, fs_buttons = [[]],
       fs_save = create_or_patch (''/api/v1/tournaments/'' @ tournamentId @ ''/divisions''),
       fs_done = (\<lambda>ed b f. saved_text ''Division'' ed), fs_failed = (\<lambda>ed t. t), fs_goes = (\<lambda>i. None),
       fs_closes = (\<lambda>ed. True) \<rparr>"

definition DivisionTemplateForm_fields :: "(string \<times> field_kind) list" where
  "DivisionTemplateForm_fields =
     [(''name'', TrimmedName), (''format'', Verbatim (FText ''doubles'')),
      (''gender_restriction'', Verbatim (FText ''open'')),
      (''bracket_format'', Verbatim (FText ''single_elimination'')), (''seed_method'', Verbatim (FText ''rating'')),
      (''registration_mode'', Verbatim (FText ''open'')), (''max_teams'', CountText),
      (''auto_approve'', Verbatim (FBool True))]"

definition DivisionTemplateForm_controls :: "(string \<times> control) list" where
  "DivisionTemplateForm_controls =
     [(''name'', TextBox), (''format'', SelectOf (map fst FORMAT_OPTIONS)),
      (''gender_restriction'', SelectOf (map fst GENDER_OPTIONS)),
      (''bracket_format'', SelectOf (map fst BRACKET_FORMAT_OPTIONS)),
      (''seed_method'', SelectOf (map fst SEED_METHOD_OPTIONS)),
      (''registration_mode'', SelectOf (map fst REGISTRATION_MODE_OPTIONS)), (''max_teams'', NumberBox),
      (''auto_approve'', CheckBox)]"

definition DivisionTemplateForm_errors :: "field_values \<Rightarrow> (string \<times> string) list" where
  "DivisionTemplateForm_errors f =
     blank_name ''Name is required'' f @
     (if text_at f ''max_teams'' \<noteq> [] \<and> number_field (text_at f ''max_teams'') = None
      then [(''maxTeams'', ''Must be a number'')] else [])"

definition or_text :: "string \<Rightarrow> string \<Rightarrow> string" where
  "or_text t d = (if t = [] then d else t)"

definition DivisionTemplateForm :: "int \<Rightarrow> form_spec" where
  "DivisionTemplateForm leagueId =
     \<lparr> fs_fields = DivisionTemplateForm_fields, fs_controls = DivisionTemplateForm_controls, fs_address = False,
       fs_resets = [], fs_errors = DivisionTemplateForm_errors, fs_report = ShowErrors, fs_buttons = [[]],
       fs_save = create_or_patch (''/api/v1/leagues/'' @ show_int leagueId @ ''/division-templates''),
       fs_done = (\<lambda>ed b f. saved_text ''Template'' ed), fs_failed = (\<lambda>ed t. or_text t ''Failed to save template''),
       fs_goes = (\<lambda>i. None), fs_closes = (\<lambda>ed. True) \<rparr>"

subsection \<open>Season and league\<close>

definition STANDINGS_METHODS :: "string list" where
  "STANDINGS_METHODS = [''placement_points'', ''win_loss'', ''match_points'', ''custom'']"

definition SeasonForm_fields :: "(string \<times> field_kind) list" where
  "SeasonForm_fields =
     [(''name'', TrimmedName), (''start_date'', DateOrNull), (''end_date'', DateOrNull), (''description'', Trimmed),
      (''standings_method'', Verbatim (FText ''placement_points'')), (''roster_confirmation_deadline'', DateOrNull)]"

definition SeasonForm_controls :: "(string \<times> control) list" where
  "SeasonForm_controls =
     [(''name'', TextBox), (''start_date'', TextBox), (''end_date'', TextBox),
      (''standings_method'', SelectOf STANDINGS_METHODS), (''roster_confirmation_deadline'', TextBox),
      (''description'', TextBox)]"

definition SeasonForm_errors :: "field_values \<Rightarrow> (string \<times> string) list" where
  "SeasonForm_errors f =
     blank_name ''Name is required'' f @
     (let a = text_at f ''start_date''; b = text_at f ''end_date'' in
      if a \<noteq> [] \<and> b \<noteq> [] \<and> str_less b a then [(''endDate'', ''End date must be after start date'')] else [])"

definition SeasonForm :: "int \<Rightarrow> form_spec" where
  "SeasonForm leagueId =
     \<lparr> fs_fields = SeasonForm_fields, fs_controls = SeasonForm_controls, fs_address = False, fs_resets = [],
       fs_errors = SeasonForm_errors, fs_report = ShowErrors, fs_buttons = [[]],
       fs_save = create_or_patch (''/api/v1/leagues/'' @ show_int leagueId @ ''/seasons''),
       fs_done = (\<lambda>ed b f. saved_text ''Season'' ed), fs_failed = (\<lambda>ed t. or_text t ''Failed to save season''),
       fs_goes = (\<lambda>i. None), fs_closes = (\<lambda>ed. True) \<rparr>"

definition LeagueCreate_fields :: "(string \<times> field_kind) list" where
  "LeagueCreate_fields =
     [(''name'', TrimmedName), (''description'', Trimmed), (''contact_email'', Trimmed), (''contact_phone'', Trimmed),
      (''website_url'', Trimmed), (''formatted_address'', Trimmed), (''city'', Trimmed), (''state_province'', Trimmed),
      (''country'', Trimmed), (''postal_code'', Trimmed), (''address_line_1'', Trimmed), (''address_line_2'', Trimmed),
      (''latitude'', Verbatim FNull), (''longitude'', Verbatim FNull), (''logo_url'', Verbatim FNull),
      (''banner_url'', Verbatim FNull), (''sponsor_info'', Sponsors)]"

definition LeagueCreate_controls :: "(string \<times> control) list" where
  "LeagueCreate_controls =
     [(''name'', TextBox), (''description'', TextBox), (''contact_email'', TextBox), (''contact_phone'', TextBox),
      (''website_url'', TextBox), (''logo_url'', UploadBox), (''banner_url'', UploadBox), (''sponsor_info'', SponsorBox)]"

definition LeagueCreate_errors :: "field_values \<Rightarrow> (string \<times> string) list" where
  "LeagueCreate_errors f = blank_name ''Name is required'' f @ bad_email ''contactEmail'' ''Invalid email'' f"

definition LeagueCreate :: form_spec where
  "LeagueCreate =
     \<lparr> fs_fields = LeagueCreate_fields, fs_controls = LeagueCreate_controls, fs_address = True, fs_resets = [],
       fs_errors = LeagueCreate_errors, fs_report = ShowErrors, fs_buttons = [''draft'', ''published''],
       fs_save = (\<lambda>i. PostTo ''/api/v1/leagues''),
       fs_done = (\<lambda>ed b f. if b = ''draft'' then ''League saved as draft'' else ''League published''),
       fs_failed = (\<lambda>ed t. or_text t ''Failed to create league''),
       fs_goes = (\<lambda>i. Some (''/leagues/'' @ show_int i)), fs_closes = (\<lambda>ed. False) \<rparr>"

subsection \<open>Tournament settings\<close>

definition TournamentSettings_fields :: "(string \<times> field_kind) list" where
  "TournamentSettings_fields =
     [(''name'', Verbatim (FText [])), (''slug'', Verbatim (FText [])), (''start_date'', DateText),
      (''end_date'', DateText), (''venue_id'', Verbatim FNull), (''description'', Blankable []),
      (''contact_email'', Blankable []), (''contact_phone'', Blankable []), (''website_url'', Blankable []),
      (''rules_document_url'', Blankable []), (''logo_url'', Verbatim FNull), (''banner_url'', Verbatim FNull),
      (''sponsor_info'', Sponsors), (''max_participants'', Verbatim FNull),
      (''show_registrations'', Verbatim (FBool False))]"

definition TournamentSettings_controls :: "(string \<times> control) list" where
  "TournamentSettings_controls =
     [(''name'', TextBox), (''slug'', TextBox), (''start_date'', TextBox), (''end_date'', TextBox), (''venue_id'', IdBox),
      (''description'', TextBox), (''contact_email'', TextBox), (''contact_phone'', TextBox), (''website_url'', TextBox),
      (''rules_document_url'', TextBox), (''logo_url'', UploadBox), (''banner_url'', UploadBox),
      (''sponsor_info'', SponsorBox), (''max_participants'', CountBox), (''show_registrations'', CheckBox)]"

definition TournamentSettings :: form_spec where
  "TournamentSettings =
     \<lparr> fs_fields = TournamentSettings_fields, fs_controls = TournamentSettings_controls, fs_address = False,
       fs_resets = [], fs_errors = (\<lambda>f. []), fs_report = Silent, fs_buttons = [[]],
       fs_save = create_or_patch ''/api/v1/tournaments'', fs_done = (\<lambda>ed b f. ''Tournament updated''),
       fs_failed = (\<lambda>ed t. t), fs_goes = (\<lambda>i. None), fs_closes = (\<lambda>ed. False) \<rparr>"

subsection \<open>Advertisement\<close>

definition SIZE_OPTIONS :: "string list" where
  "SIZE_OPTIONS = [''leaderboard'', ''mobile-banner'', ''medium-rectangle'', ''skyscraper'', ''billboard'']"

definition AdForm_fields :: "(string \<times> field_kind) list" where
  "AdForm_fields =
     [(''name'', TrimmedName), (''slot_name'', Verbatim (FText ''all'')), (''ad_type'', Verbatim (FText ''image'')),
      (''image_url'', OmittableIf ''ad_type'' ''image''), (''link_url'', Omittable), (''alt_text'', Omittable),
      (''embed_code'', OmittableIf ''ad_type'' ''embed''), (''is_active'', Verbatim (FBool True)),
      (''sort_order'', NumberOr 0), (''sizes'', Verbatim (FTexts [])), (''display_duration_sec'', NumberOr 8)]"

definition AdForm_controls :: "(string \<times> control) list" where
  "AdForm_controls =
     [(''name'', TextBox), (''ad_type'', SelectOf [''image'', ''embed'']),
      (''image_url'', OnlyIf ''ad_type'' ''image'' UploadText), (''link_url'', TextBox),
      (''alt_text'', OnlyIf ''ad_type'' ''image'' TextBox), (''embed_code'', OnlyIf ''ad_type'' ''embed'' TextBox),
      (''sizes'', TogglesOf SIZE_OPTIONS),
      (''slot_name'', SelectOf [''all'', ''header'', ''sidebar'', ''inline'', ''footer'']), (''sort_order'', NumberBox),
      (''display_duration_sec'', NumberBox), (''is_active'', CheckBox)]"

text \<open>The dialog for a new advertisement stays mounted when it closes, with all it holds.\<close>

definition AdForm :: form_spec where
  "AdForm =
     \<lparr> fs_fields = AdForm_fields, fs_controls = AdForm_controls, fs_address = False, fs_resets = [],
       fs_errors = blank_name ''Name is required'', fs_report = ToastError, fs_buttons = [[]],
       fs_save = (\<lambda>i. case i of None \<Rightarrow> PostTo ''/api/v1/admin/ads''
          | Some n \<Rightarrow> PutTo (''/api/v1/admin/ads/'' @ show_int n)),
       fs_done = (\<lambda>ed b f. [CHR 0x22] @ saved_text (text_at f ''name'' @ [CHR 0x22]) ed),
       fs_failed = (\<lambda>ed t. ''Failed to '' @ (if ed then ''update'' else ''create'') @ '' ad''),
       fs_goes = (\<lambda>i. None), fs_closes = (\<lambda>ed. ed) \<rparr>"

definition RECORD_FORMS :: "string \<Rightarrow> int \<Rightarrow> form_spec list" where
  "RECORD_FORMS tournamentId leagueId =
     [PlayerForm, VenueForm, TeamForm, OrgForm, CourtEditForm, DivisionForm tournamentId,
      DivisionTemplateForm leagueId, SeasonForm leagueId, LeagueCreate, TournamentSettings, AdForm]"

section \<open>What a form sends\<close>

text \<open>The calls of the hooks the forms use.\<close>

fun call_of :: "form_call \<Rightarrow> js \<Rightarrow> api_call" where
  "call_of (PostTo p) b = ApiPost p b"
| "call_of (PatchTo p) b = ApiPatch p b"
| "call_of (PutTo p) b = ApiPut p b"

lemma form_calls:
  "call_of (fs_save PlayerForm i) b = m_call useUpdateProfile b"
  "call_of (fs_save VenueForm None) b = m_call useCreateVenue b"
  "call_of (fs_save VenueForm (Some n)) b = m_call (useUpdateVenue (show_int n)) b"
  "call_of (fs_save TeamForm None) b = m_call useCreateTeam b"
  "call_of (fs_save TeamForm (Some n)) b = m_call (useUpdateTeam (show_int n)) b"
  "call_of (fs_save OrgForm None) b = m_call useCreateOrg b"
  "call_of (fs_save OrgForm (Some n)) b = m_call (useUpdateOrg (show_int n)) b"
  "call_of (fs_save CourtEditForm (Some n)) b = m_call (useUpdateCourt (show_int n)) b"
  by (simp_all add: PlayerForm_def VenueForm_def TeamForm_def OrgForm_def CourtEditForm_def create_or_patch_def
      useUpdateProfile_def useCreateVenue_def useUpdateVenue_def useCreateTeam_def useUpdateTeam_def
      useCreateOrg_def useUpdateOrg_def useUpdateCourt_def)

lemma form_calls2:
  "call_of (fs_save (DivisionForm t) None) b = m_call (useCreateDivision t) b"
  "call_of (fs_save (DivisionForm t) (Some n)) b = m_call (useUpdateDivision t (show_int n)) b"
  "call_of (fs_save (DivisionTemplateForm l) None) b = m_call (useCreateDivisionTemplate l) b"
  "call_of (fs_save (DivisionTemplateForm l) (Some n)) b = m_call (useUpdateDivisionTemplate l n) b"
  "call_of (fs_save (SeasonForm l) None) b = m_call (useCreateSeason l) b"
  "call_of (fs_save (SeasonForm l) (Some n)) b = m_call (useUpdateSeason l n) b"
  "call_of (fs_save LeagueCreate i) b = m_call useCreateLeague b"
  "call_of (fs_save TournamentSettings (Some n)) b = m_call (useUpdateTournament (show_int n)) b"
  "call_of (fs_save AdForm None) b = m_call useCreateAd b"
  "call_of (fs_save AdForm (Some n)) b = m_call (useUpdateAd n) b"
  by (simp_all add: DivisionForm_def DivisionTemplateForm_def SeasonForm_def LeagueCreate_def
      TournamentSettings_def AdForm_def create_or_patch_def useCreateDivision_def useUpdateDivision_def
      useCreateDivisionTemplate_def useUpdateDivisionTemplate_def useCreateSeason_def useUpdateSeason_def
      useCreateLeague_def useUpdateTournament_def useCreateAd_def useUpdateAd_def)

text \<open>
  A stored value a kind of field sends back as it is: blanks around a text, for one, are not kept.
\<close>

fun settled :: "field_kind \<Rightarrow> field_value \<Rightarrow> bool" where
  "settled Trimmed v = (case v of FNull \<Rightarrow> True | FText t \<Rightarrow> t \<noteq> [] \<and> trim t = t | _ \<Rightarrow> False)"
| "settled TrimmedName v = (case v of FText t \<Rightarrow> trim t = t | _ \<Rightarrow> False)"
| "settled TrimmedUpper v = (case v of FText t \<Rightarrow> map to_upper (trim t) = t | _ \<Rightarrow> False)"
| "settled (Blankable d) v = (case v of FNull \<Rightarrow> d = [] | FText t \<Rightarrow> t \<noteq> [] | _ \<Rightarrow> False)"
| "settled (Verbatim d) v = (v \<noteq> FNull \<or> d = FNull)"
| "settled YearText v = (case v of FNull \<Rightarrow> True | FInt n \<Rightarrow> n \<noteq> 0 | _ \<Rightarrow> False)"
| "settled CountText v = (case v of FNull \<Rightarrow> True | FInt n \<Rightarrow> True | _ \<Rightarrow> False)"
| "settled (NumberOr d) v = (case v of FInt n \<Rightarrow> n \<noteq> 0 \<or> d = 0 | _ \<Rightarrow> False)"
| "settled DateText v = (case v of FText t \<Rightarrow> length t \<le> 10 | _ \<Rightarrow> False)"
| "settled DateOrNull v = (case v of FNull \<Rightarrow> True | FText t \<Rightarrow> t \<noteq> [] \<and> length t \<le> 10 | _ \<Rightarrow> False)"
| "settled Sponsors v = (case v of FNull \<Rightarrow> True | FSponsorList ss \<Rightarrow> ss \<noteq> [] | _ \<Rightarrow> False)"
| "settled Omittable v = (case v of FNull \<Rightarrow> True | FText t \<Rightarrow> True | _ \<Rightarrow> False)"
| "settled (OmittableIf j u) v = (case v of FNull \<Rightarrow> True | FText t \<Rightarrow> True | _ \<Rightarrow> False)"

lemma show_int_not_Nil [simp]: "show_int n \<noteq> []"
  using digits_value_show by (auto simp: show_int_def)

lemma number_value_show [simp]: "number_value (show_int n) = FInt n"
  by (simp add: number_value_def number_field_show)

lemma number_value_Nil [simp]: "number_value [] = FNull"
  by (simp add: number_value_def number_field_def)

definition kept_value :: "field_value option \<Rightarrow> field_value \<Rightarrow> field_value" where
  "kept_value sent v = (case sent of None \<Rightarrow> v | Some w \<Rightarrow> w)"

lemma settled_kept:
  "settled kind v \<Longrightarrow> value_at f k = open_field kind v \<Longrightarrow> kept_value (send_field f k kind) v = v"
  by (cases "(f, k, kind)" rule: send_field.cases; cases v)
    (auto simp: kept_value_def text_at_def blank_null_def or_else_value_def int_text_def Let_def trim_def
      split: if_splits)

text \<open>What an event can change.\<close>

definition touches :: "form_spec \<Rightarrow> form_event \<Rightarrow> string \<Rightarrow> bool" where
  "touches F e k \<longleftrightarrow>
     (case e of
        FmInput j v \<Rightarrow>
          k = j \<or> (case map_of (fs_resets F) j of None \<Rightarrow> False | Some new \<Rightarrow> k \<in> fst ` set new)
      | FmAddress a \<Rightarrow> k \<in> set ADDRESS_KEYS
      | _ \<Rightarrow> False)"

definition patched_field :: "field_values \<Rightarrow> field_values \<Rightarrow> string \<Rightarrow> field_value" where
  "patched_field body r k = kept_value (map_of body k) (value_at r k)"

lemma set_values_fst [simp]: "map fst (set_values new f) = map fst f"
  by (simp add: set_values_def case_prod_beta comp_def)

lemma map_of_set_values:
  "map_of (set_values new f) k =
     (case map_of f k of None \<Rightarrow> None | Some v \<Rightarrow> Some (case map_of new k of None \<Rightarrow> v | Some w \<Rightarrow> w))"
  by (induction f) (auto simp: set_values_def split: option.splits)

lemma set_values_other: "k \<notin> fst ` set new \<Longrightarrow> value_at (set_values new f) k = value_at f k"
  by (auto simp: value_at_def map_of_set_values map_of_eq_None_iff [symmetric] split: option.splits)

lemma address_values_keys: "fst ` set (address_values a) = set ADDRESS_KEYS"
  by (simp add: address_values_def ADDRESS_KEYS_def)

lemma form_untouched:
  assumes "\<not> touches F e k"
  shows "value_at (fm_values (form_next F s e)) k = value_at (fm_values s) k"
proof -
  have reset: "value_at (apply_resets F j f) k = value_at f k"
    if "\<forall>new. map_of (fs_resets F) j = Some new \<longrightarrow> k \<notin> fst ` set new" for j f
    using that by (auto simp: apply_resets_def set_values_other split: option.split)
  show ?thesis
    using assms
    by (cases e)
      (auto simp: form_next_def form_live_def touches_def Let_def set_values_other reset address_values_keys
        split: option.splits)
qed

lemma form_run_untouched:
  "\<forall>e \<in> set es. \<not> touches F e k \<Longrightarrow>
     value_at (fm_values (run (form_next F) s es)) k = value_at (fm_values s) k"
  by (induction es arbitrary: s) (simp_all add: form_untouched)

text \<open>
  A form whose keys are distinct: what it opens and sends under a key is what the table says.
\<close>

locale record_form =
  fixes F :: form_spec
  assumes distinct_keys: "distinct (map fst (fs_fields F))"
    and no_status: "''status'' \<notin> fst ` set (fs_fields F)"
begin

lemma opened_value:
  assumes "(k, kind) \<in> set (fs_fields F)"
  shows "value_at (open_form F r) k = open_field kind (value_at r k)"
proof -
  have "map_of (open_form F r) k = Some (open_field kind (value_at r k))"
  proof (rule map_of_is_SomeI)
    show "distinct (map fst (open_form F r))"
      using distinct_keys by (simp add: open_form_def case_prod_beta comp_def)
    show "(k, open_field kind (value_at r k)) \<in> set (open_form F r)"
      using assms by (force simp: open_form_def)
  qed
  then show ?thesis by (simp add: value_at_def)
qed

lemma payload_at:
  assumes "(k, kind) \<in> set (fs_fields F)"
  shows "map_of (form_payload F f) k = send_field f k kind"
proof -
  have "map_of (concat (map (\<lambda>(k, kind). case send_field f k kind of None \<Rightarrow> [] | Some v \<Rightarrow> [(k, v)]) ps)) k =
      send_field f k kind" if "distinct (map fst ps)" "(k, kind) \<in> set ps" for ps
    using that
  proof (induction ps)
    case (Cons p ps)
    obtain j kd where p: "p = (j, kd)" by (cases p)
    show ?case
    proof (cases "j = k")
      case True
      have none: "map_of (concat (map (\<lambda>(k, kind). case send_field f k kind of None \<Rightarrow> [] | Some v \<Rightarrow> [(k, v)]) ps)) k
          = None"
        using Cons.prems(1) True p
        by (auto simp: map_of_eq_None_iff image_iff split: option.splits)
      have "kd = kind" using Cons.prems True p by (auto simp: image_iff)
      then show ?thesis using p True none by (auto split: option.split)
    next
      case False
      then show ?thesis using Cons p by (auto split: option.split)
    qed
  qed simp
  from this [OF distinct_keys assms] show ?thesis unfolding form_payload_def .
qed

lemma body_at:
  assumes "(k, kind) \<in> set (fs_fields F)"
  shows "map_of (form_body F f b) k = send_field f k kind"
proof -
  have "k \<noteq> ''status''" using assms no_status by force
  then show ?thesis
    using payload_at [OF assms, of f] by (auto simp: form_body_def map_add_def split: option.split)
qed

lemma untouched_field_kept:
  assumes "(k, kind) \<in> set (fs_fields F)" and "settled kind (value_at r k)"
    and "\<forall>e \<in> set es. \<not> touches F e k"
  shows "patched_field (form_body F (fm_values (run (form_next F) (form_init F i r) es)) b) r k = value_at r k"
  unfolding patched_field_def body_at [OF assms(1)]
proof (rule settled_kept [OF assms(2)])
  have "value_at (fm_values (run (form_next F) (form_init F i r) es)) k = value_at (open_form F r) k"
    by (simp add: form_run_untouched [OF assms(3)]) (simp add: form_init_def)
  then show "value_at (fm_values (run (form_next F) (form_init F i r) es)) k = open_field kind (value_at r k)"
    by (simp add: opened_value [OF assms(1)])
qed

end

section \<open>The forms keep what they do not show as changed\<close>

interpretation player: record_form PlayerForm
  by unfold_locales (simp_all add: PlayerForm_def PlayerForm_fields_def)

interpretation venue: record_form VenueForm
  by unfold_locales (simp_all add: VenueForm_def VenueForm_fields_def)

interpretation team: record_form TeamForm
  by unfold_locales (simp_all add: TeamForm_def TeamForm_fields_def)

interpretation org: record_form OrgForm
  by unfold_locales (simp_all add: OrgForm_def OrgForm_fields_def)

interpretation court_edit: record_form CourtEditForm
  by unfold_locales (simp_all add: CourtEditForm_def CourtEditForm_fields_def)

interpretation division: record_form "DivisionForm t" for t
  by unfold_locales (simp_all add: DivisionForm_def DivisionForm_fields_def)

interpretation template: record_form "DivisionTemplateForm l" for l
  by unfold_locales (simp_all add: DivisionTemplateForm_def DivisionTemplateForm_fields_def)

interpretation season: record_form "SeasonForm l" for l
  by unfold_locales (simp_all add: SeasonForm_def SeasonForm_fields_def)

interpretation league: record_form LeagueCreate
  by unfold_locales (simp_all add: LeagueCreate_def LeagueCreate_fields_def)

interpretation settings: record_form TournamentSettings
  by unfold_locales (simp_all add: TournamentSettings_def TournamentSettings_fields_def)

interpretation ad: record_form AdForm
  by unfold_locales (simp_all add: AdForm_def AdForm_fields_def)

lemmas record_forms =
  player.record_form_axioms venue.record_form_axioms team.record_form_axioms org.record_form_axioms
  court_edit.record_form_axioms division.record_form_axioms template.record_form_axioms
  season.record_form_axioms league.record_form_axioms settings.record_form_axioms ad.record_form_axioms

lemma record_form_listed: "F \<in> set (RECORD_FORMS t l) \<Longrightarrow> record_form F"
  unfolding RECORD_FORMS_def using record_forms by (simp only: list.set insert_iff empty_iff) blast

lemma form_sent:
  "FmSend c body \<in> set (form_out F s e) \<Longrightarrow>
     c = fs_save F (fm_id s) \<and> fs_errors F (fm_values s) = [] \<and> (\<exists>b. body = form_body F (fm_values s) b)"
  by (cases e) (auto simp: form_out_def split: if_splits option.splits)

lemma form_submits:
  "\<not> fm_left s \<Longrightarrow> form_ready F s b \<Longrightarrow> fs_errors F (fm_values s) = [] \<Longrightarrow>
     form_out F s (FmSubmit b) = [FmSend (fs_save F (fm_id s)) (form_body F (fm_values s) b)]"
  by (simp add: form_out_def)

lemma untouched_kept_aux:
  assumes "F \<in> set (RECORD_FORMS t l)" and "(k, kind) \<in> set (fs_fields F)" and "settled kind (value_at r k)"
    and "\<forall>e \<in> set es. \<not> touches F e k"
    and "FmSend c body \<in> set (form_out F (run (form_next F) (form_init F i r) es) e)"
  shows "patched_field body r k = value_at r k"
proof -
  obtain b where "body = form_body F (fm_values (run (form_next F) (form_init F i r) es)) b"
    using form_sent [OF assms(5)] by blast
  then show ?thesis
    using record_form.untouched_field_kept [OF record_form_listed [OF assms(1)] assms(2-4)] by simp
qed


definition stored_team :: field_values where
  "stored_team = [(''name'', FText ''Aces''), (''short_name'', FText ''ACE''), (''city'', FText ''Dallas'')]"

definition renamed_team :: entity_form where
  "renamed_team = run (form_next TeamForm) (form_init TeamForm (Some 4) stored_team) [FmInput ''name'' (FText ''Kings'')]"

lemma renamed_team_sends:
  "form_out TeamForm renamed_team (FmSubmit []) =
     [FmSend (PatchTo (''/api/v1/teams/'' @ show_int 4)) (form_body TeamForm (fm_values renamed_team) [])]"
  by (simp add: renamed_team_def form_init_def open_form_def stored_team_def TeamForm_def TeamForm_fields_def
      form_next_def form_live_def form_input_value_def TeamForm_controls_def set_values_def apply_resets_def
      form_out_def form_ready_def TeamForm_errors_def blank_name_def bad_year_def text_at_def value_at_def
      or_else_value_def int_text_def trim_def is_space_def create_or_patch_def)


text \<open>
  Apart from the profile, which has no name, and the settings of a tournament, no form sends a
  record without a name.
\<close>

theorem saved_name_present:
  assumes "F \<in> set (RECORD_FORMS t l)" and "F \<notin> {PlayerForm, TournamentSettings}"
    and "FmSend c body \<in> set (form_out F s e)"
  shows "trim (value_text (kept_value (map_of body ''name'') FNull)) \<noteq> []"
proof -
  obtain b where b: "body = form_body F (fm_values s) b" and ok: "fs_errors F (fm_values s) = []"
    using form_sent [OF assms(3)] by blast
  have named: "trim (text_at (fm_values s) ''name'') \<noteq> [] \<and>
      ((''name'', TrimmedName) \<in> set (fs_fields F) \<or> (''name'', Verbatim (FText [])) \<in> set (fs_fields F))"
    using assms(1,2) ok unfolding RECORD_FORMS_def
    by (auto simp: VenueForm_def TeamForm_def OrgForm_def CourtEditForm_def DivisionForm_def
        DivisionTemplateForm_def SeasonForm_def LeagueCreate_def AdForm_def VenueForm_errors_def
        TeamForm_errors_def OrgForm_errors_def DivisionTemplateForm_errors_def SeasonForm_errors_def
        LeagueCreate_errors_def blank_name_def VenueForm_fields_def TeamForm_fields_def OrgForm_fields_def
        CourtEditForm_fields_def DivisionForm_fields_def DivisionTemplateForm_fields_def SeasonForm_fields_def
        LeagueCreate_fields_def AdForm_fields_def split: if_splits)
  then show ?thesis
    using record_form.body_at [OF record_form_listed [OF assms(1)], of "''name''" _ "fm_values s" b] unfolding b
    by (fastforce simp: kept_value_def text_at_def)
qed

theorem saved_name_present_witness:
  "trim (value_text (kept_value (map_of (form_body TeamForm (fm_values renamed_team) []) ''name'') FNull)) \<noteq> []"
proof -
  have "TeamForm \<in> set (RECORD_FORMS [] 0)" by (simp add: RECORD_FORMS_def)
  moreover have "fs_goes TeamForm 0 \<noteq> fs_goes PlayerForm 0" "fs_goes TeamForm 0 \<noteq> fs_goes TournamentSettings 0"
    by (simp_all add: TeamForm_def PlayerForm_def TournamentSettings_def)
  then have "TeamForm \<notin> {PlayerForm, TournamentSettings}" by auto
  moreover have "FmSend (PatchTo (''/api/v1/teams/'' @ show_int 4)) (form_body TeamForm (fm_values renamed_team) []) \<in>
      set (form_out TeamForm renamed_team (FmSubmit []))" by (simp add: renamed_team_sends)
  ultimately show ?thesis by (rule saved_name_present)
qed

text \<open>
  The settings of a tournament are sent unchecked: with any name and any two dates, though the
  wizard that creates one refuses a blank name, a missing date and an end before the start.
\<close>

theorem settings_unchecked:
  fixes n a b :: string and i :: int and r :: field_values
  defines "s \<equiv> run (form_next TournamentSettings) (form_init TournamentSettings (Some i) r)
    [FmInput ''name'' (FText n), FmInput ''start_date'' (FText a), FmInput ''end_date'' (FText b)]"
  shows "\<exists>c body. form_out TournamentSettings s (FmSubmit []) = [FmSend c body] \<and>
    map (map_of body) [''name'', ''start_date'', ''end_date''] = map Some [FText n, FText a, FText b]"
proof -
  have v: "value_at (fm_values s) ''name'' = FText n" "value_at (fm_values s) ''start_date'' = FText a"
      "value_at (fm_values s) ''end_date'' = FText b"
    unfolding s_def
    by (simp_all add: form_init_def open_form_def TournamentSettings_def TournamentSettings_fields_def
        form_next_def form_live_def form_input_value_def TournamentSettings_controls_def apply_resets_def
        set_values_def value_at_def)
  have "form_out TournamentSettings s (FmSubmit []) =
      [FmSend (fs_save TournamentSettings (fm_id s)) (form_body TournamentSettings (fm_values s) [])]"
    unfolding s_def
    by (simp add: form_init_def TournamentSettings_def form_next_def form_live_def form_input_value_def
        TournamentSettings_controls_def form_out_def form_ready_def)
  moreover have "map (map_of (form_body TournamentSettings (fm_values s) [])) [''name'', ''start_date'', ''end_date''] =
      map Some [FText n, FText a, FText b]"
    using v by (simp add: form_body_def form_payload_def TournamentSettings_def TournamentSettings_fields_def)
  ultimately show ?thesis by blast
qed

lemma ad_link_field: "(''link_url'', Omittable) \<in> set (fs_fields AdForm)"
  by (simp add: AdForm_def AdForm_fields_def)

text \<open>
  The link of an advertisement cannot be taken away: once the field is emptied the request leaves
  the key out, and the advertisement keeps the link it has.
\<close>

theorem ad_link_stays:
  assumes "FmSend c body \<in> set (form_out AdForm (form_next AdForm s (FmInput ''link_url'' (FText []))) e)"
  shows "map_of body ''link_url'' = None \<and> patched_field body r ''link_url'' = value_at r ''link_url''"
proof -
  let ?s = "form_next AdForm s (FmInput ''link_url'' (FText []))"
  obtain b where b: "body = form_body AdForm (fm_values ?s) b" using form_sent [OF assms] by blast
  have left: "\<not> fm_left s" using assms by (auto simp: form_out_def form_next_def)
  have "text_at (fm_values ?s) ''link_url'' = []"
    using left
    by (auto simp: form_next_def form_live_def form_input_value_def AdForm_def AdForm_controls_def
        apply_resets_def text_at_def value_at_def map_of_set_values split: option.split)
  then have "map_of body ''link_url'' = None"
    unfolding b using ad.body_at [OF ad_link_field, of "fm_values ?s" b] by simp
  then show ?thesis by (simp add: patched_field_def kept_value_def)
qed

definition linked_ad :: field_values where
  "linked_ad = [(''name'', FText ''A''), (''link_url'', FText ''https://a'')]"

theorem ad_link_stays_witness:
  "\<exists>body c. FmSend c body \<in> set (form_out AdForm (form_next AdForm (form_init AdForm (Some 2) linked_ad)
       (FmInput ''link_url'' (FText []))) (FmSubmit [])) \<and>
     patched_field body linked_ad ''link_url'' = FText ''https://a''"
proof -
  let ?s = "form_next AdForm (form_init AdForm (Some 2) linked_ad) (FmInput ''link_url'' (FText []))"
  have "\<not> fm_left ?s \<and> form_ready AdForm ?s [] \<and> fs_errors AdForm (fm_values ?s) = []"
    by (simp add: form_init_def open_form_def linked_ad_def AdForm_def AdForm_fields_def form_next_def form_live_def
        form_input_value_def AdForm_controls_def set_values_def apply_resets_def form_ready_def
        blank_name_def text_at_def value_at_def or_else_value_def trim_def is_space_def)
  then have sent: "FmSend (fs_save AdForm (fm_id ?s)) (form_body AdForm (fm_values ?s) []) \<in>
      set (form_out AdForm ?s (FmSubmit []))"
    by (simp add: form_submits)
  moreover have "value_at linked_ad ''link_url'' = FText ''https://a''" by (simp add: linked_ad_def value_at_def)
  ultimately show ?thesis using ad_link_stays [OF sent, of linked_ad] by auto
qed

text \<open>A newer version of the record does not reach an open form, so saving writes the old values back.\<close>

lemma newer_record_overwritten:
  assumes "F \<in> set (RECORD_FORMS t l)" and "(k, kind) \<in> set (fs_fields F)" and "settled kind (value_at r k)"
    and "\<forall>e \<in> set es. \<not> touches F e k"
    and "FmSend c body \<in> set (form_out F (run (form_next F) (form_init F i r) (FmRecord newer # es)) e)"
    and "map_of body k \<noteq> None"
  shows "patched_field body newer k = value_at r k"
proof -
  have "\<forall>e \<in> set (FmRecord newer # es). \<not> touches F e k" using assms(4) by (simp add: touches_def)
  from untouched_kept_aux [OF assms(1-3) this assms(5)] show ?thesis
    using assms(6) by (auto simp: patched_field_def kept_value_def)
qed

lemma team_color_field: "(''primary_color'', Blankable ''#3b82f6'') \<in> set (fs_fields TeamForm)"
  by (simp add: TeamForm_def TeamForm_fields_def)

text \<open>A team without colours gets two when it is saved, whatever was edited.\<close>

lemma team_colors_filled:
  "value_at r ''primary_color'' = FNull \<Longrightarrow> \<forall>e \<in> set es. \<not> touches TeamForm e ''primary_color'' \<Longrightarrow>
     map_of (form_body TeamForm (fm_values (run (form_next TeamForm) (form_init TeamForm i r) es)) b) ''primary_color''
       = Some (FText ''#3b82f6'')"
  by (simp add: team.body_at [OF team_color_field] text_at_def form_run_untouched)
    (simp add: form_init_def team.opened_value [OF team_color_field] or_else_value_def blank_null_def)

text \<open>Choosing no platform for the stream of a court empties its address and title.\<close>

lemma platform_cleared:
  assumes "\<not> fm_left s" and "map fst (fm_values s) = map fst CourtEditForm_fields"
  shows "map (value_at (fm_values (form_next CourtEditForm s (FmInput ''stream_type'' (FText [])))))
      [''stream_type'', ''stream_url'', ''stream_title'', ''stream_is_live''] =
    [FText [], FText [], FText [], FBool False]"
proof -
  have in_form: "\<exists>v. map_of (fm_values s) k = Some v" if "k \<in> fst ` set CourtEditForm_fields" for k
    using that assms(2) by (metis map_of_eq_None_iff not_None_eq list.set_map)
  have k: "\<exists>v. map_of (fm_values s) ''stream_type'' = Some v" "\<exists>v. map_of (fm_values s) ''stream_url'' = Some v"
      "\<exists>v. map_of (fm_values s) ''stream_title'' = Some v" "\<exists>v. map_of (fm_values s) ''stream_is_live'' = Some v"
    by (rule in_form, simp add: CourtEditForm_fields_def)+
  show ?thesis using assms(1) k
    by (auto simp: form_next_def form_live_def form_input_value_def CourtEditForm_def CourtEditForm_controls_def
        STREAM_PLATFORMS_def apply_resets_def CourtEditForm_resets_def text_at_def value_at_def map_of_set_values)
qed

text \<open>The dialog that has created an advertisement opens again with its values.\<close>

lemma new_ad_dialog_keeps:
  "fm_id s = None \<Longrightarrow> fm_values (form_next AdForm s (FmSaved i)) = fm_values s \<and>
     (\<not> fm_left s \<longrightarrow> \<not> fm_left (form_next AdForm s (FmSaved i)))"
  by (simp add: form_next_def form_live_def AdForm_def)

end
