(* ===== verification/Status_Flows.thy ===== *)
theory Status_Flows
  imports Tournament_Create League_Hooks
begin

text \<open>
  The pages on which the status of a record is changed: \<open>TournamentOverview.tsx\<close> with its
  \<open>CloneDialog.tsx\<close> and \<open>DivisionOverview.tsx\<close> (\<open>features/tournaments\<close>), \<open>LeagueOverview.tsx\<close>,
  \<open>SeasonDetail.tsx\<close> and \<open>StandingsView.tsx\<close> (\<open>features/leagues\<close>), with the tables of allowed
  changes the server keeps (\<open>api/service\<close>). A page is a table of buttons by status, dialogs that
  ask before a change, and one request at a time.
\<close>

section \<open>Tables\<close>

text \<open>For each status the buttons, each a label and the next status.\<close>

type_synonym transition_table = "(string \<times> (string \<times> string) list) list"

definition TOURNAMENT_TRANSITIONS :: transition_table where
  "TOURNAMENT_TRANSITIONS =
     [(''draft'', [(''Publish'', ''published'')]),
      (''published'', [(''Open Registration'', ''registration_open'')]),
      (''registration_open'', [(''Close Registration'', ''registration_closed'')]),
      (''registration_closed'', [(''Start Tournament'', ''in_progress'')]),
      (''in_progress'', [(''Complete'', ''completed'')])]"

definition DIVISION_STATUS_TRANSITIONS :: transition_table where
  "DIVISION_STATUS_TRANSITIONS =
     [(''draft'', [(''Open Registration'', ''registration_open'')]),
      (''registration_open'', [(''Close Registration'', ''registration_closed'')]),
      (''registration_closed'', [(''Start Seeding'', ''seeding'')]),
      (''seeding'', [(''Start Play'', ''in_progress'')]),
      (''in_progress'', [(''Complete'', ''completed'')])]"

definition LEAGUE_TRANSITIONS :: transition_table where
  "LEAGUE_TRANSITIONS =
     [(''draft'', [(''Publish'', ''published'')]),
      (''published'', [(''Activate'', ''active''), (''Cancel'', ''cancelled'')]),
      (''active'', [(''Archive'', ''archived''), (''Cancel'', ''cancelled'')]),
      (''archived'', []), (''cancelled'', [])]"

definition SEASON_TRANSITIONS :: transition_table where
  "SEASON_TRANSITIONS =
     [(''draft'', [(''Activate'', ''active'')]), (''active'', [(''Complete'', ''completed'')]),
      (''completed'', [(''Archive'', ''archived'')]), (''archived'', [])]"

text \<open>\<open>TABLE[status] ?? []\<close>.\<close>

definition transitions :: "transition_table \<Rightarrow> string \<Rightarrow> (string \<times> string) list" where
  "transitions tbl s = (case map_of tbl s of None \<Rightarrow> [] | Some ts \<Rightarrow> ts)"

text \<open>The tables of the server: what it answers with an error is every other change.\<close>

definition validTournamentTransitions :: "(string \<times> string list) list" where
  "validTournamentTransitions =
     [(''draft'', [''published'', ''cancelled'']), (''published'', [''registration_open'', ''cancelled'']),
      (''registration_open'', [''registration_closed'', ''cancelled'']),
      (''registration_closed'', [''in_progress'', ''cancelled'']),
      (''in_progress'', [''completed'', ''cancelled'']), (''completed'', [''archived'']),
      (''cancelled'', [''archived''])]"

definition validDivisionTransitions :: "(string \<times> string list) list" where
  "validDivisionTransitions =
     [(''draft'', [''registration_open'']), (''registration_open'', [''registration_closed'']),
      (''registration_closed'', [''seeding'']), (''seeding'', [''in_progress'']),
      (''in_progress'', [''completed''])]"

definition validLeagueTransitions :: "(string \<times> string list) list" where
  "validLeagueTransitions =
     [(''draft'', [''published'']), (''published'', [''active'', ''cancelled'']),
      (''active'', [''archived'', ''cancelled''])]"

definition validSeasonTransitions :: "(string \<times> string list) list" where
  "validSeasonTransitions =
     [(''draft'', [''active'']), (''active'', [''completed'']), (''completed'', [''archived''])]"

definition server_allows :: "(string \<times> string list) list \<Rightarrow> string \<Rightarrow> string list" where
  "server_allows tbl s = (case map_of tbl s of None \<Rightarrow> [] | Some ts \<Rightarrow> ts)"

section \<open>Pages\<close>

text \<open>
  What distinguishes the pages: the table, the changes a dialog asks about, who sees the buttons,
  the requests and the texts of the answers. \<open>fw_delete\<close> is the request that deletes the record,
  its toast and the page it leads to; \<open>fw_deletable\<close> gets the number of registrations.
\<close>

record flow_spec =
  fw_table :: transition_table
  fw_asked :: "string \<Rightarrow> string list"
  fw_visible :: bool
  fw_call :: "string \<Rightarrow> api_call"
  fw_done :: "string \<Rightarrow> string"
  fw_failed :: "string \<Rightarrow> string"
  fw_delete :: "(api_call \<times> string \<times> string) option"
  fw_delete_failed :: "string \<Rightarrow> string"
  fw_deletable :: "int option \<Rightarrow> bool"

record flow_page =
  fl_status :: string                     (* of the record as last fetched *)
  fl_total :: "int option"                 (* registrations as last fetched *)
  fl_pending :: "string option"            (* variable of the running status mutation *)
  fl_asking :: "string list"               (* open dialogs *)
  fl_delete_open :: bool
  fl_deleting :: bool

definition flow_init :: "string \<Rightarrow> flow_page" where
  "flow_init s =
     \<lparr> fl_status = s, fl_total = None, fl_pending = None, fl_asking = [], fl_delete_open = False,
       fl_deleting = False \<rparr>"

text \<open>An answer is \<open>None\<close> for a success and the message of the error otherwise.\<close>

datatype flow_event =
    FlStatus string
  | FlTotal "int option"
  | FlPress string
  | FlAsk string
  | FlConfirm string
  | FlDismiss string
  | FlAnswer "string option"
  | FlAskDelete
  | FlDelete
  | FlDismissDelete
  | FlDeleted "string option"

datatype flow_effect = FlSend api_call | FlToast string string | FlGo string

text \<open>
  A button can be pressed while no request of its mutation runs. A dialog can be closed at any
  time, by its cross, the backdrop or the escape key.
\<close>

definition can_press :: "flow_spec \<Rightarrow> flow_page \<Rightarrow> string \<Rightarrow> bool" where
  "can_press F s t \<longleftrightarrow>
     fw_visible F \<and> fl_pending s = None \<and> t \<in> snd ` set (transitions (fw_table F) (fl_status s))"

definition can_ask :: "flow_spec \<Rightarrow> flow_page \<Rightarrow> string \<Rightarrow> bool" where
  "can_ask F s t \<longleftrightarrow> fw_visible F \<and> t \<in> set (fw_asked F (fl_status s))"

definition can_confirm :: "flow_page \<Rightarrow> string \<Rightarrow> bool" where
  "can_confirm s t \<longleftrightarrow> t \<in> set (fl_asking s) \<and> fl_pending s = None"

definition can_ask_delete :: "flow_spec \<Rightarrow> flow_page \<Rightarrow> bool" where
  "can_ask_delete F s \<longleftrightarrow> fw_visible F \<and> fw_delete F \<noteq> None \<and> fw_deletable F (fl_total s)"

definition can_delete :: "flow_spec \<Rightarrow> flow_page \<Rightarrow> bool" where
  "can_delete F s \<longleftrightarrow> fw_visible F \<and> fl_delete_open s \<and> \<not> fl_deleting s"

definition flow_next :: "flow_spec \<Rightarrow> flow_page \<Rightarrow> flow_event \<Rightarrow> flow_page" where
  "flow_next F s e =
     (case e of
        FlStatus t \<Rightarrow> s\<lparr> fl_status := t \<rparr>
      | FlTotal n \<Rightarrow> s\<lparr> fl_total := n \<rparr>
      | FlPress t \<Rightarrow> if can_press F s t then s\<lparr> fl_pending := Some t \<rparr> else s
      | FlAsk t \<Rightarrow> if can_ask F s t then s\<lparr> fl_asking := List.insert t (fl_asking s) \<rparr> else s
      | FlConfirm t \<Rightarrow>
          if can_confirm s t then s\<lparr> fl_pending := Some t, fl_asking := removeAll t (fl_asking s) \<rparr> else s
      | FlDismiss t \<Rightarrow> s\<lparr> fl_asking := removeAll t (fl_asking s) \<rparr>
      | FlAnswer r \<Rightarrow> s\<lparr> fl_pending := None \<rparr>
      | FlAskDelete \<Rightarrow> if can_ask_delete F s then s\<lparr> fl_delete_open := True \<rparr> else s
      | FlDelete \<Rightarrow> if can_delete F s then s\<lparr> fl_deleting := True \<rparr> else s
      | FlDismissDelete \<Rightarrow> s\<lparr> fl_delete_open := False \<rparr>
      | FlDeleted r \<Rightarrow> s\<lparr> fl_deleting := False \<rparr>)"

definition flow_out :: "flow_spec \<Rightarrow> flow_page \<Rightarrow> flow_event \<Rightarrow> flow_effect list" where
  "flow_out F s e =
     (case e of
        FlPress t \<Rightarrow> if can_press F s t then [FlSend (fw_call F t)] else []
      | FlConfirm t \<Rightarrow> if can_confirm s t then [FlSend (fw_call F t)] else []
      | FlAnswer r \<Rightarrow>
          (case (fl_pending s, r) of
             (None, _) \<Rightarrow> []
           | (Some t, None) \<Rightarrow> [FlToast ''success'' (fw_done F t)]
           | (Some t, Some msg) \<Rightarrow> [FlToast ''error'' (fw_failed F msg)])
      | FlDelete \<Rightarrow>
          (case fw_delete F of
             Some (c, note, path) \<Rightarrow> if can_delete F s then [FlSend c] else []
           | None \<Rightarrow> [])
      | FlDeleted r \<Rightarrow>
          (case (fl_deleting s, fw_delete F, r) of
             (True, Some (c, note, path), None) \<Rightarrow> [FlToast ''success'' note, FlGo path]
           | (True, Some (c, note, path), Some msg) \<Rightarrow> [FlToast ''error'' (fw_delete_failed F msg)]
           | _ \<Rightarrow> [])
      | _ \<Rightarrow> [])"

definition or_else_text :: "string \<Rightarrow> string \<Rightarrow> string" where
  "or_else_text t d = (if t = [] then d else t)"

text \<open>
  Tournament: a change to \<open>cancelled\<close> or \<open>archived\<close> is asked about; everybody who opens the page
  sees the buttons.
\<close>

definition asked_of_tournament :: "string \<Rightarrow> string list" where
  "asked_of_tournament s =
     (if s \<noteq> ''cancelled'' then [''cancelled''] else []) @
     (if s = ''completed'' \<or> s = ''cancelled'' then [''archived''] else [])"

definition TournamentOverview :: "string \<Rightarrow> flow_spec" where
  "TournamentOverview ident =
     \<lparr> fw_table = TOURNAMENT_TRANSITIONS, fw_asked = asked_of_tournament, fw_visible = True,
       fw_call = m_call (useUpdateTournamentStatus ident),
       fw_done = (\<lambda>t. ''Tournament status updated to '' @ spaced t), fw_failed = (\<lambda>msg. msg),
       fw_delete = None, fw_delete_failed = (\<lambda>msg. msg), fw_deletable = (\<lambda>n. False) \<rparr>"

text \<open>Division: buttons for two roles only; \<open>registrations?.total ?? 0\<close> is 0 until the list is there.\<close>

definition can_edit_division :: "string option \<Rightarrow> bool" where
  "can_edit_division role \<longleftrightarrow> role = Some ''platform_admin'' \<or> role = Some ''tournament_director''"

definition canDelete :: "int option \<Rightarrow> bool" where
  "canDelete regTotal \<longleftrightarrow> (case regTotal of None \<Rightarrow> True | Some n \<Rightarrow> n = 0)"

definition DivisionOverview :: "string option \<Rightarrow> string \<Rightarrow> string \<Rightarrow> flow_spec" where
  "DivisionOverview role tournamentId divisionId =
     \<lparr> fw_table = DIVISION_STATUS_TRANSITIONS, fw_asked = (\<lambda>s. []), fw_visible = can_edit_division role,
       fw_call = m_call (useUpdateDivisionStatus tournamentId divisionId),
       fw_done = (\<lambda>t. ''Division status updated to '' @ spaced t), fw_failed = (\<lambda>msg. msg),
       fw_delete = Some (m_call (useDeleteDivision tournamentId divisionId) (), ''Division deleted'',
         ''/tournaments/'' @ tournamentId),
       fw_delete_failed = (\<lambda>msg. msg), fw_deletable = canDelete \<rparr>"

definition LeagueOverview :: "int \<Rightarrow> flow_spec" where
  "LeagueOverview ident =
     \<lparr> fw_table = LEAGUE_TRANSITIONS, fw_asked = (\<lambda>s. []), fw_visible = True,
       fw_call = m_call (useUpdateLeagueStatus ident), fw_done = (\<lambda>t. ''League '' @ t),
       fw_failed = (\<lambda>msg. or_else_text msg ''Failed to update status''),
       fw_delete = Some (m_call useDeleteLeague ident, ''League deleted'', ''/leagues''),
       fw_delete_failed = (\<lambda>msg. or_else_text msg ''Failed to delete league''),
       fw_deletable = (\<lambda>n. True) \<rparr>"

definition SeasonDetail :: "int \<Rightarrow> int \<Rightarrow> flow_spec" where
  "SeasonDetail leagueId seasonId =
     \<lparr> fw_table = SEASON_TRANSITIONS, fw_asked = (\<lambda>s. []), fw_visible = True,
       fw_call = m_call (useUpdateSeasonStatus leagueId seasonId), fw_done = (\<lambda>t. ''Season '' @ t),
       fw_failed = (\<lambda>msg. or_else_text msg ''Failed to update status''), fw_delete = None,
       fw_delete_failed = (\<lambda>msg. msg), fw_deletable = (\<lambda>n. False) \<rparr>"

text \<open>The changes a page offers for a status.\<close>

definition offers :: "flow_spec \<Rightarrow> string \<Rightarrow> string list" where
  "offers F s = map snd (transitions (fw_table F) s) @ fw_asked F s"

section \<open>What the pages show\<close>

text \<open>The cards over the tournament; the number of registrations is a constant of the code.\<close>

record tournament_facts =
  tf_status :: string
  tf_venue :: "int option"
  tf_start :: "string option"
  tf_end :: "string option"
  tf_max :: "int option"
  tf_show :: bool
  tf_email :: "string option"
  tf_phone :: "string option"
  tf_website :: "string option"

definition tournament_stats :: "(string \<Rightarrow> string option) \<Rightarrow> tournament_facts \<Rightarrow> nat \<Rightarrow> (string \<times> string) list" where
  "tournament_stats ld t divisions =
     [(''Divisions'', show_nat divisions), (''Registrations'', show_nat 0),
      (''Start Date'', formatDate ld (tf_start t)), (''End Date'', formatDate ld (tf_end t))]"

text \<open>A row of details: \<open>value || dash\<close>, where 0 counts as missing.\<close>

definition InfoRow :: "string \<Rightarrow> string option \<Rightarrow> string \<times> string" where
  "InfoRow label v = (label, if has_str v then str_of v else em_dash)"

definition number_row :: "int option \<Rightarrow> string option" where
  "number_row v = (case v of None \<Rightarrow> None | Some n \<Rightarrow> if n = 0 then None else Some (show_int n))"

definition yes_no :: "bool \<Rightarrow> string" where
  "yes_no b = (if b then ''Yes'' else ''No'')"

definition tournament_rows :: "(string \<Rightarrow> string option) \<Rightarrow> tournament_facts \<Rightarrow> (string \<times> string) list" where
  "tournament_rows ld t =
     [InfoRow ''Status'' (Some (snd (StatusBadge (tf_status t)))),
      InfoRow ''Venue'' (map_option (\<lambda>n. ''Venue #'' @ n) (number_row (tf_venue t))),
      InfoRow ''Start Date'' (Some (formatDate ld (tf_start t))),
      InfoRow ''End Date'' (Some (formatDate ld (tf_end t))),
      InfoRow ''Max Participants'' (number_row (tf_max t)),
      InfoRow ''Show Registrations'' (Some (yes_no (tf_show t)))] @
     (if has_str (tf_email t) then [InfoRow ''Contact Email'' (tf_email t)] else []) @
     (if has_str (tf_phone t) then [InfoRow ''Contact Phone'' (tf_phone t)] else []) @
     (if has_str (tf_website t) then [InfoRow ''Website'' (tf_website t)] else [])"

record division_facts =
  df_format :: string
  df_bracket :: string
  df_gender :: "string option"
  df_mode :: "string option"
  df_auto :: "bool option"
  df_seed :: "string option"
  df_max_teams :: "int option"
  df_max_roster :: "int option"
  df_fee :: "int option"
  df_currency :: "string option"
  df_status :: string

definition or_default :: "string option \<Rightarrow> string \<Rightarrow> string" where
  "or_default v d = (case v of None \<Rightarrow> d | Some t \<Rightarrow> t)"

definition division_rows :: "division_facts \<Rightarrow> (string \<times> string) list" where
  "division_rows d =
     [InfoRow ''Format'' (Some (spaced (df_format d))), InfoRow ''Bracket'' (Some (spaced (df_bracket d))),
      InfoRow ''Gender'' (Some (or_default (map_option spaced (df_gender d)) ''Open'')),
      InfoRow ''Registration Mode'' (Some (or_default (df_mode d) ''open'')),
      InfoRow ''Auto-Approve'' (Some (yes_no (df_auto d \<noteq> Some False))),
      InfoRow ''Seed Method'' (Some (or_default (df_seed d) em_dash)),
      InfoRow ''Max Teams'' (number_row (df_max_teams d)), InfoRow ''Max Roster'' (number_row (df_max_roster d)),
      InfoRow ''Entry Fee''
        (Some (case df_fee d of None \<Rightarrow> em_dash
               | Some n \<Rightarrow> show_int n @ '' '' @ or_default (df_currency d) ''USD'')),
      InfoRow ''Status'' (Some (snd (StatusBadge (df_status d))))]"

text \<open>The line under the buttons of a division that cannot be deleted.\<close>

definition delete_hint :: "int option \<Rightarrow> string" where
  "delete_hint n =
     (if canDelete n then []
      else (let c = (case n of None \<Rightarrow> 0 | Some k \<Rightarrow> k) in
        ''Division has '' @ show_int c @ '' registration'' @ (if c \<noteq> 1 then ''s'' else []) @
        ''. Remove all registrations before deleting.''))"

text \<open>The three counts over a league: seasons, active registrations, registrations.\<close>

definition league_stats :: "nat option \<Rightarrow> string list option \<Rightarrow> (string \<times> nat) list" where
  "league_stats seasons regs =
     [(''Seasons'', case seasons of None \<Rightarrow> 0 | Some n \<Rightarrow> n),
      (''Active Orgs'', case regs of None \<Rightarrow> 0 | Some ss \<Rightarrow> length (filter (\<lambda>st. st = ''active'') ss)),
      (''Total Registrations'', case regs of None \<Rightarrow> 0 | Some ss \<Rightarrow> length ss)]"

record league_facts =
  lf_name :: string
  lf_slug :: string
  lf_email :: "string option"
  lf_phone :: "string option"
  lf_website :: "string option"
  lf_formatted :: "string option"
  lf_city :: "string option"
  lf_state :: "string option"
  lf_country :: "string option"

definition league_rows :: "league_facts \<Rightarrow> (string \<times> string) list" where
  "league_rows l =
     [InfoRow ''Name'' (Some (lf_name l)), InfoRow ''Slug'' (Some (lf_slug l)),
      InfoRow ''Contact Email'' (lf_email l), InfoRow ''Contact Phone'' (lf_phone l),
      InfoRow ''Website'' (lf_website l),
      InfoRow ''Location''
        (if has_str (lf_formatted l) then lf_formatted l
         else Some (join_present '', '' (map str_of [lf_city l, lf_state l, lf_country l])))]"

text \<open>The page of a season: early returns, then details, tournaments, and a badge per confirmation.\<close>

record season_facts =
  sf_name :: string
  sf_status :: string
  sf_start :: "string option"
  sf_end :: "string option"
  sf_method :: string
  sf_deadline :: "string option"

record season_confirmation =
  sc_team :: int
  sc_team_name :: "string option"
  sc_division :: int
  sc_division_name :: "string option"
  sc_confirmed :: bool
  sc_deadline :: "string option"

definition named_or_numbered :: "string \<Rightarrow> string option \<Rightarrow> int \<Rightarrow> string" where
  "named_or_numbered what nm n = (if has_str nm then str_of nm else what @ '' #'' @ show_int n)"

definition confirmation_row :: "(string \<Rightarrow> string option) \<Rightarrow> season_confirmation \<Rightarrow> string list" where
  "confirmation_row ld c =
     [named_or_numbered ''Team'' (sc_team_name c) (sc_team c),
      named_or_numbered ''Division'' (sc_division_name c) (sc_division c),
      if sc_confirmed c then ''Confirmed'' else ''Pending''] @
     (if has_str (sc_deadline c) then [''Due '' @ formatDate ld (sc_deadline c)] else [])"

datatype season_page =
    SeasonSkeleton
  | SeasonError string
  | SeasonPage string "(string \<times> string) list" "string list" "string list list"

text \<open>The title, the rows, the labels of the status buttons, the confirmations.\<close>

definition SeasonDetail_page ::
    "(string \<Rightarrow> string option) \<Rightarrow> bool \<Rightarrow> string option \<Rightarrow> season_facts option \<Rightarrow>
     season_confirmation list option \<Rightarrow> season_page" where
  "SeasonDetail_page ld isLoading err season confirmations =
     (if isLoading then SeasonSkeleton
      else (case (err, season) of
          (None, Some f) \<Rightarrow>
            SeasonPage (sf_name f)
              [InfoRow ''Start Date'' (Some (formatDate ld (sf_start f))),
               InfoRow ''End Date'' (Some (formatDate ld (sf_end f))),
               InfoRow ''Standings Method'' (Some (spaced (sf_method f))),
               InfoRow ''Roster Confirmation Deadline'' (Some (formatDate ld (sf_deadline f)))]
              (map fst (transitions SEASON_TRANSITIONS (sf_status f)))
              (case confirmations of None \<Rightarrow> [] | Some cs \<Rightarrow> map (confirmation_row ld) cs)
        | _ \<Rightarrow> SeasonError (if has_str err then str_of err else ''Season not found.'')))"

subsection \<open>Standings\<close>

record standings_entry =
  se_id :: int
  se_division :: int
  se_team :: int
  se_wins :: int
  se_losses :: int
  se_draws :: int
  se_points_for :: int
  se_points_against :: int
  se_differential :: int
  se_played :: int
  se_points :: int
  se_override :: "int option"
  se_withdrawn :: bool
  se_rank :: int

definition standings_groups ::
    "(int \<Rightarrow> string option) \<Rightarrow> standings_entry list option \<Rightarrow> (int \<times> string \<times> standings_entry list) list" where
  "standings_groups divisionNames entries =
     (case entries of
        None \<Rightarrow> []
      | Some es \<Rightarrow>
          map (\<lambda>(d, col). (d, or_default (divisionNames d) (''Division #'' @ show_int d), col))
            (group_columns se_division se_rank es))"

datatype standings_view =
    StandingsSkeleton
  | StandingsError string
  | NoStandings
  | StandingsTables "(int \<times> string \<times> standings_entry list) list"

definition StandingsView ::
    "(int \<Rightarrow> string option) \<Rightarrow> bool \<Rightarrow> string option \<Rightarrow> standings_entry list option \<Rightarrow> standings_view" where
  "StandingsView divisionNames isLoading err entries =
     (let grouped = standings_groups divisionNames entries in
      if isLoading then StandingsSkeleton
      else (case err of
          Some t \<Rightarrow> StandingsError (or_else_text t ''An error occurred.'')
        | None \<Rightarrow> if grouped = [] then NoStandings else StandingsTables grouped))"

text \<open>The badges after a team, its numbers, and the signed differential with its colour.\<close>

definition team_badges :: "standings_entry \<Rightarrow> string list" where
  "team_badges e =
     (if se_withdrawn e then [''Withdrawn''] else []) @
     (case se_override e of None \<Rightarrow> [] | Some p \<Rightarrow> [''Override: '' @ show_int p])"

definition signed_differential :: "standings_entry \<Rightarrow> string \<times> string" where
  "signed_differential e =
     (let d = se_differential e in
      ((if 0 < d then ''+'' else []) @ show_int d,
       if 0 < d then ''emerald'' else if d < 0 then ''red'' else ''secondary''))"

definition StandingsRow :: "standings_entry \<Rightarrow> string list" where
  "StandingsRow e =
     [show_int (se_rank e), ''Team #'' @ show_int (se_team e)] @ team_badges e @
     map show_int [se_wins e, se_losses e, se_draws e, se_played e, se_points_for e, se_points_against e] @
     [fst (signed_differential e), show_int (se_points e)]"

text \<open>The button of one division: \<open>True\<close> while its own request runs.\<close>

datatype recompute_event = RecomputePress | RecomputeAnswer "string option"

definition recompute_next :: "bool \<Rightarrow> recompute_event \<Rightarrow> bool" where
  "recompute_next recomputing e = (case e of RecomputePress \<Rightarrow> True | RecomputeAnswer r \<Rightarrow> False)"

definition DivisionStandings :: "int \<Rightarrow> int \<Rightarrow> string \<Rightarrow> bool \<Rightarrow> bool \<Rightarrow> recompute_event \<Rightarrow> flow_effect list" where
  "DivisionStandings seasonId divisionId nm isAdmin recomputing e =
     (case e of
        RecomputePress \<Rightarrow>
          if isAdmin \<and> \<not> recomputing then [FlSend (m_call (useRecomputeStandings seasonId divisionId) ())] else []
      | RecomputeAnswer None \<Rightarrow> [FlToast ''success'' (''Standings recomputed for '' @ nm)]
      | RecomputeAnswer (Some msg) \<Rightarrow> [FlToast ''error'' (or_else_text msg ''Failed to recompute'')])"

section \<open>Cloning a tournament\<close>

text \<open>
  The dialog is mounted with the page, so its fields outlive both the dialog and, as long as the
  page stays mounted, a change of the tournament.
\<close>

record clone_dialog =
  cd_ident :: int
  cd_open :: bool
  cd_name :: string
  cd_start :: string
  cd_end :: string
  cd_pending :: bool

definition CloneDialog_init :: "int \<Rightarrow> string \<Rightarrow> clone_dialog" where
  "CloneDialog_init ident nm =
     \<lparr> cd_ident = ident, cd_open = False, cd_name = ''Copy of '' @ nm, cd_start = [], cd_end = [],
       cd_pending = False \<rparr>"

datatype clone_event =
    CdTournament int string
  | CdOpen
  | CdClose
  | CdName string
  | CdStart string
  | CdEnd string
  | CdSubmit
  | CdCloned int
  | CdFailed string

definition nonempty :: "string \<Rightarrow> string option" where
  "nonempty t = (if t = [] then None else Some t)"

definition clone_next :: "clone_dialog \<Rightarrow> clone_event \<Rightarrow> clone_dialog" where
  "clone_next s e =
     (case e of
        CdTournament n nm \<Rightarrow> s\<lparr> cd_ident := n \<rparr>
      | CdOpen \<Rightarrow> s\<lparr> cd_open := True \<rparr>
      | CdClose \<Rightarrow> s\<lparr> cd_open := False \<rparr>
      | CdName t \<Rightarrow> if cd_open s then s\<lparr> cd_name := t \<rparr> else s
      | CdStart t \<Rightarrow> if cd_open s then s\<lparr> cd_start := t \<rparr> else s
      | CdEnd t \<Rightarrow> if cd_open s then s\<lparr> cd_end := t \<rparr> else s
      | CdSubmit \<Rightarrow>
          if cd_open s \<and> \<not> cd_pending s \<and> trim (cd_name s) \<noteq> [] then s\<lparr> cd_pending := True \<rparr> else s
      | CdCloned n \<Rightarrow> if cd_pending s then s\<lparr> cd_pending := False, cd_open := False \<rparr> else s
      | CdFailed msg \<Rightarrow> s\<lparr> cd_pending := False \<rparr>)"

definition CloneDialog :: "clone_dialog \<Rightarrow> clone_event \<Rightarrow> flow_effect list" where
  "CloneDialog s e =
     (case e of
        CdSubmit \<Rightarrow>
          if \<not> cd_open s \<or> cd_pending s then []
          else if trim (cd_name s) = [] then [FlToast ''error'' ''Name is required'']
          else [FlSend (m_call (useCloneTournament (show_int (cd_ident s)))
                  (trim (cd_name s), nonempty (cd_start s), nonempty (cd_end s)))]
      | CdCloned n \<Rightarrow>
          if cd_pending s
          then [FlToast ''success'' ''Tournament cloned successfully'', FlGo (''/tournaments/'' @ show_int n)] else []
      | CdFailed msg \<Rightarrow> if cd_pending s then [FlToast ''error'' msg] else []
      | _ \<Rightarrow> [])"

section \<open>What is sent was offered\<close>

text \<open>The statuses a run has shown.\<close>

fun shown_status :: "flow_event \<Rightarrow> string list" where
  "shown_status (FlStatus t) = [t]"
| "shown_status _ = []"

definition shown_statuses :: "flow_event list \<Rightarrow> string list" where
  "shown_statuses es = concat (map shown_status es)"

lemma shown_statuses_simps [simp]:
  "shown_statuses [] = []"
  "shown_statuses (e # es) = shown_status e @ shown_statuses es"
  by (simp_all add: shown_statuses_def)

definition flow_ok :: "flow_spec \<Rightarrow> string set \<Rightarrow> flow_page \<Rightarrow> bool" where
  "flow_ok F S s \<longleftrightarrow>
     fl_status s \<in> S \<and> (\<forall>t \<in> set (fl_asking s). fw_visible F \<and> (\<exists>x \<in> S. t \<in> set (fw_asked F x)))"

lemma flow_ok_mono: "flow_ok F S s \<Longrightarrow> S \<subseteq> T \<Longrightarrow> flow_ok F T s"
  unfolding flow_ok_def by blast

lemma flow_ok_step: "flow_ok F S s \<Longrightarrow> flow_ok F (S \<union> set (shown_status e)) (flow_next F s e)"
  by (cases e) (auto simp: flow_next_def flow_ok_def can_press_def can_ask_def can_confirm_def
      can_ask_delete_def can_delete_def)

lemma flow_ok_run: "flow_ok F S s \<Longrightarrow> flow_ok F (S \<union> set (shown_statuses es)) (run (flow_next F) s es)"
proof (induction es arbitrary: S s)
  case (Cons e es)
  show ?case using Cons.IH [OF flow_ok_step [OF Cons.prems, of e]] by (simp add: Un_assoc)
qed simp

lemma flow_ok_init: "flow_ok F {s} (flow_init s)"
  by (simp add: flow_ok_def flow_init_def)

lemma flow_sent:
  assumes "flow_ok F S s" and "FlSend c \<in> set (flow_out F s e)"
  shows "fw_visible F \<and> ((\<exists>x \<in> S. \<exists>t \<in> set (offers F x). c = fw_call F t) \<or> map_option fst (fw_delete F) = Some c)"
proof (cases e)
  case (FlPress t)
  then show ?thesis using assms by (auto simp: flow_out_def flow_ok_def can_press_def offers_def split: if_splits)
next
  case (FlConfirm t)
  then have "c = fw_call F t" and "t \<in> set (fl_asking s)"
    using assms(2) by (auto simp: flow_out_def can_confirm_def split: if_splits)
  moreover from this(2) assms(1) obtain x where "fw_visible F" and "x \<in> S" and "t \<in> set (fw_asked F x)"
    unfolding flow_ok_def by blast
  ultimately show ?thesis unfolding offers_def by auto
next
  case FlDelete
  then show ?thesis using assms(2) by (cases "fw_delete F") (auto simp: flow_out_def can_delete_def split: if_splits)
qed (use assms(2) in \<open>auto simp: flow_out_def split: option.splits bool.splits\<close>)

text \<open>
  A page asks for a status change only if it showed a status for which the change is offered, on
  a button or by a dialog that was opened from one; the only other request is the deletion, and a
  page whose buttons are hidden from the user sends nothing at all.
\<close>

theorem changes_were_offered:
  assumes "FlSend c \<in> set (flow_out F (run (flow_next F) (flow_init s0) es) e)"
  shows "fw_visible F \<and>
    ((\<exists>x \<in> set (s0 # shown_statuses es). \<exists>t \<in> set (offers F x). c = fw_call F t) \<or>
     map_option fst (fw_delete F) = Some c)"
  using flow_sent [OF flow_ok_run [OF flow_ok_init, of F s0 es] assms] by simp

lemma press_sends:
  "fw_visible F \<Longrightarrow> t \<in> snd ` set (transitions (fw_table F) s0) \<Longrightarrow>
     flow_out F (flow_init s0) (FlPress t) = [FlSend (fw_call F t)]"
  by (simp add: flow_out_def can_press_def flow_init_def)

theorem changes_were_offered_witness:
  "\<exists>t \<in> set (offers (SeasonDetail 1 2) ''draft''). fw_call (SeasonDetail 1 2) ''active'' = fw_call (SeasonDetail 1 2) t"
proof -
  have "FlSend (fw_call (SeasonDetail 1 2) ''active'') \<in>
      set (flow_out (SeasonDetail 1 2) (run (flow_next (SeasonDetail 1 2)) (flow_init ''draft'') []) (FlPress ''active''))"
    by (simp add: press_sends SeasonDetail_def transitions_def SEASON_TRANSITIONS_def)
  from changes_were_offered [OF this] show ?thesis by (simp add: SeasonDetail_def)
qed

section \<open>The server's tables\<close>

definition known_statuses :: "transition_table \<Rightarrow> string list" where
  "known_statuses tbl = map fst tbl"

lemmas status_tables =
  transitions_def server_allows_def TOURNAMENT_TRANSITIONS_def DIVISION_STATUS_TRANSITIONS_def
  LEAGUE_TRANSITIONS_def SEASON_TRANSITIONS_def validTournamentTransitions_def
  validDivisionTransitions_def validLeagueTransitions_def validSeasonTransitions_def

lemma offers_simps:
  "offers (TournamentOverview i) s = map snd (transitions TOURNAMENT_TRANSITIONS s) @ asked_of_tournament s"
  "offers (DivisionOverview r t d) s = map snd (transitions DIVISION_STATUS_TRANSITIONS s)"
  "offers (LeagueOverview l) s = map snd (transitions LEAGUE_TRANSITIONS s)"
  "offers (SeasonDetail l n) s = map snd (transitions SEASON_TRANSITIONS s)"
  by (simp_all add: offers_def TournamentOverview_def DivisionOverview_def LeagueOverview_def SeasonDetail_def)

lemma division_offers: "offers (DivisionOverview r t d) s = server_allows validDivisionTransitions s"
  by (simp add: offers_simps status_tables)

lemma league_offers: "offers (LeagueOverview l) s = server_allows validLeagueTransitions s"
  by (simp add: offers_simps status_tables)

lemma season_offers: "offers (SeasonDetail l n) s = server_allows validSeasonTransitions s"
  by (simp add: offers_simps status_tables)

definition TOURNAMENT_STATUSES :: "string list" where
  "TOURNAMENT_STATUSES = map fst TOURNAMENT_TRANSITIONS @ [''completed'', ''cancelled'', ''archived'']"

lemma tournament_offers:
  "s \<in> set TOURNAMENT_STATUSES \<Longrightarrow>
     set (offers (TournamentOverview i) s) =
       set (server_allows validTournamentTransitions s) \<union>
       (if s = ''completed'' \<or> s = ''archived'' then {''cancelled''} else {})"
  by (auto simp: offers_simps status_tables asked_of_tournament_def TOURNAMENT_STATUSES_def)

text \<open>
  C29. The pages of a division, a league and a season offer exactly the changes the server accepts,
  in the server's order and for every status. The page of a tournament offers everything the server
  accepts and one change it refuses: to cancel a tournament that is completed or archived.
\<close>

theorem status_offers_match:
  "offers (DivisionOverview r t d) s = server_allows validDivisionTransitions s \<and>
   offers (LeagueOverview l) s = server_allows validLeagueTransitions s \<and>
   offers (SeasonDetail l n) s = server_allows validSeasonTransitions s \<and>
   list_all (\<lambda>st. set (offers (TournamentOverview i) st) =
     set (server_allows validTournamentTransitions st) \<union>
     (if st = ''completed'' \<or> st = ''archived'' then {''cancelled''} else {})) TOURNAMENT_STATUSES"
  using division_offers league_offers season_offers tournament_offers by (simp add: list_all_iff)

section \<open>Every record comes to rest\<close>

inductive changes :: "(string \<Rightarrow> string list) \<Rightarrow> string \<Rightarrow> string \<Rightarrow> bool" for allowed where
  change: "t \<in> set (allowed s) \<Longrightarrow> changes allowed s t"

code_pred changes .

inductive_simps changes_iff: "changes allowed s t"

text \<open>How far a status is from the end: a measure that every accepted change lowers.\<close>

definition rank_in :: "(string \<times> nat) list \<Rightarrow> string \<Rightarrow> nat" where
  "rank_in ranks s = (case map_of ranks s of None \<Rightarrow> 0 | Some n \<Rightarrow> n)"

definition tournament_rank :: "string \<Rightarrow> nat" where
  "tournament_rank =
     rank_in [(''draft'', 6), (''published'', 5), (''registration_open'', 4), (''registration_closed'', 3),
       (''in_progress'', 2), (''completed'', 1), (''cancelled'', 1)]"

definition division_rank :: "string \<Rightarrow> nat" where
  "division_rank =
     rank_in [(''draft'', 5), (''registration_open'', 4), (''registration_closed'', 3), (''seeding'', 2),
       (''in_progress'', 1)]"

definition league_rank :: "string \<Rightarrow> nat" where
  "league_rank = rank_in [(''draft'', 3), (''published'', 2), (''active'', 1)]"

definition season_rank :: "string \<Rightarrow> nat" where
  "season_rank = rank_in [(''draft'', 3), (''active'', 2), (''completed'', 1)]"

lemmas status_ranks = tournament_rank_def division_rank_def league_rank_def season_rank_def rank_in_def

locale ranked =
  fixes allowed :: "string \<Rightarrow> string list"
    and rank :: "string \<Rightarrow> nat"
  assumes lower: "t \<in> set (allowed s) \<Longrightarrow> rank t < rank s"
begin

lemma chain_bound: "(changes allowed ^^ n) s t \<Longrightarrow> n + rank t \<le> rank s"
proof (induction n arbitrary: t)
  case (Suc n)
  from Suc.prems obtain u where "(changes allowed ^^ n) s u" and "changes allowed u t" by auto
  moreover from this(2) have "rank t < rank u" by (auto elim: changes.cases dest: lower)
  ultimately show ?case using Suc.IH [of u] by simp
qed simp

lemma never_back: "(changes allowed)\<^sup>+\<^sup>+ s t \<Longrightarrow> rank t < rank s"
  by (induction rule: tranclp_induct) (auto elim!: changes.cases dest: lower)

lemma no_return: "\<not> (changes allowed)\<^sup>+\<^sup>+ s s"
  using never_back by blast

end

lemma rank_bounds: "tournament_rank s \<le> 6" "division_rank s \<le> 5" "league_rank s \<le> 3" "season_rank s \<le> 3"
  by (simp_all add: status_ranks)

interpretation tournament_flow: ranked "server_allows validTournamentTransitions" tournament_rank
  by unfold_locales (auto simp: status_tables status_ranks split: if_splits)

interpretation division_flow: ranked "server_allows validDivisionTransitions" division_rank
  by unfold_locales (auto simp: status_tables status_ranks split: if_splits)

interpretation league_flow: ranked "server_allows validLeagueTransitions" league_rank
  by unfold_locales (auto simp: status_tables status_ranks split: if_splits)

interpretation season_flow: ranked "server_allows validSeasonTransitions" season_rank
  by unfold_locales (auto simp: status_tables status_ranks split: if_splits)

text \<open>The tables with the number of changes each allows.\<close>

definition STATUS_TABLES :: "((string \<times> string list) list \<times> nat) list" where
  "STATUS_TABLES =
     [(validTournamentTransitions, 6), (validDivisionTransitions, 5), (validLeagueTransitions, 3),
      (validSeasonTransitions, 3)]"

lemma status_tables_ranked:
  "(x, k) \<in> set STATUS_TABLES \<Longrightarrow> \<exists>rank. ranked (server_allows x) rank \<and> (\<forall>s. rank s \<le> k)"
  unfolding STATUS_TABLES_def
  using tournament_flow.ranked_axioms division_flow.ranked_axioms league_flow.ranked_axioms season_flow.ranked_axioms rank_bounds
  by (simp only: list.set insert_iff prod.inject empty_iff) blast

lemma status_no_return: "(x, k) \<in> set STATUS_TABLES \<Longrightarrow> \<not> (changes (server_allows x))\<^sup>+\<^sup>+ s s"
  using status_tables_ranked ranked.no_return by blast

text \<open>
  C28. A record comes to rest: from any status the server accepts at most six changes of a
  tournament, five of a division, three of a league and three of a season, whoever asks for them,
  and no status is ever taken a second time.
\<close>

theorem status_changes_end:
  assumes "(x, k) \<in> set STATUS_TABLES" and "(changes (server_allows x) ^^ n) s t"
  shows "n \<le> k \<and> \<not> (changes (server_allows x))\<^sup>+\<^sup>+ t t"
proof -
  obtain rank where r: "ranked (server_allows x) rank" and k: "\<forall>u. rank u \<le> k"
    using status_tables_ranked [OF assms(1)] by blast
  have "n + rank t \<le> rank s" by (rule ranked.chain_bound [OF r assms(2)])
  then have "n \<le> k" using k [rule_format, of s] by linarith
  then show ?thesis using status_no_return [OF assms(1)] by blast
qed

lemma season_chain: "(changes (server_allows validSeasonTransitions) ^^ 3) ''draft'' ''archived''"
proof -
  have "changes (server_allows validSeasonTransitions) ''draft'' ''active''"
      "changes (server_allows validSeasonTransitions) ''active'' ''completed''"
      "changes (server_allows validSeasonTransitions) ''completed'' ''archived''"
    by (simp_all add: changes_iff status_tables)
  then show ?thesis by (auto simp: numeral_3_eq_3)
qed

theorem status_changes_end_witness: "\<not> (changes (server_allows validSeasonTransitions))\<^sup>+\<^sup>+ ''archived'' ''archived''"
proof -
  have "(validSeasonTransitions, 3) \<in> set STATUS_TABLES" by (simp add: STATUS_TABLES_def)
  from status_changes_end [OF this season_chain] show ?thesis by blast
qed

text \<open>What the page of a tournament offers would not end: cancel and archive, again and again.\<close>

lemma tournament_offers_cycle:
  "changes (offers (TournamentOverview i)) ''archived'' ''cancelled''"
  "changes (offers (TournamentOverview i)) ''cancelled'' ''archived''"
  by (simp_all add: changes_iff offers_simps asked_of_tournament_def status_tables)

section \<open>Page and server\<close>

text \<open>
  The page with the server behind it: the user acts, the server accepts or refuses the change that
  is under way, a fetch brings the status of the moment, and others change the record too.
\<close>

definition user_event :: "flow_event \<Rightarrow> bool" where
  "user_event e \<longleftrightarrow> (\<forall>t. e \<noteq> FlStatus t) \<and> (\<forall>r. e \<noteq> FlAnswer r)"

inductive page_run :: "flow_spec \<Rightarrow> (string \<Rightarrow> string list) \<Rightarrow> string \<Rightarrow> flow_page \<Rightarrow> bool" for F allowed where
  opened: "page_run F allowed sv (flow_init sv)"
| acted: "page_run F allowed sv s \<Longrightarrow> user_event e \<Longrightarrow> page_run F allowed sv (flow_next F s e)"
| accepted: "page_run F allowed sv s \<Longrightarrow> fl_pending s = Some t \<Longrightarrow> t \<in> set (allowed sv) \<Longrightarrow>
    page_run F allowed t (flow_next F s (FlAnswer None))"
| refused: "page_run F allowed sv s \<Longrightarrow> fl_pending s = Some t \<Longrightarrow> t \<notin> set (allowed sv) \<Longrightarrow>
    page_run F allowed sv (flow_next F s (FlAnswer (Some msg)))"
| fetched: "page_run F allowed sv s \<Longrightarrow> page_run F allowed sv (flow_next F s (FlStatus sv))"
| others: "page_run F allowed sv s \<Longrightarrow> t \<in> set (allowed sv) \<Longrightarrow> page_run F allowed t s"

lemma flow_next_status:
  "fl_status (flow_next F s e) = (case e of FlStatus t \<Rightarrow> t | _ \<Rightarrow> fl_status s)"
  by (cases e) (simp_all add: flow_next_def)

lemma shown_behind: "page_run F allowed sv s \<Longrightarrow> (changes allowed)\<^sup>*\<^sup>* (fl_status s) sv"
proof (induction rule: page_run.induct)
  case (acted sv s e)
  then show ?case by (cases e) (simp_all add: flow_next_status user_event_def)
next
  case (accepted sv s t)
  then show ?case by (simp add: flow_next_status) (rule rtranclp.rtrancl_into_rtrancl, assumption, rule change)
next
  case (others sv s t)
  then show ?case by - (rule rtranclp.rtrancl_into_rtrancl, assumption, rule change)
qed (simp_all add: flow_next_status flow_init_def)


definition late_page :: flow_page where
  "late_page = flow_next (SeasonDetail 1 2) (flow_next (SeasonDetail 1 2) (flow_init ''draft'') (FlPress ''active''))
     (FlAnswer None)"


text \<open>Until the list is fetched again the button of the accepted change is still there; the server refuses it.\<close>

lemma stale_button_refused:
  "(x, k) \<in> set STATUS_TABLES \<Longrightarrow> t \<in> set (server_allows x s) \<Longrightarrow> t \<notin> set (server_allows x t)"
  using status_no_return [of x k t] change [of t "server_allows x" t] by blast

text \<open>A division is offered for deletion before its registrations are known.\<close>

lemma delete_before_count:
  "flow_out (DivisionOverview (Some ''platform_admin'') t d)
     (run (flow_next (DivisionOverview (Some ''platform_admin'') t d)) (flow_init s) [FlAskDelete]) FlDelete =
   [FlSend (m_call (useDeleteDivision t d) ())]"
  by (simp add: flow_out_def flow_next_def can_ask_delete_def can_delete_def flow_init_def DivisionOverview_def
      can_edit_division_def canDelete_def)

section \<open>Standings and clones\<close>

text \<open>
  The standings show every entry once, under its own division, the divisions in ascending order
  without an empty one, and the entries of a division by rank.
\<close>

theorem standings_complete:
  "mset (concat (map (snd \<circ> snd) (standings_groups names (Some es)))) = mset es"
  "sorted_wrt (<) (map fst (standings_groups names (Some es)))"
  "list_all (\<lambda>(d, nm, col). col \<noteq> [] \<and> list_all (\<lambda>e. se_division e = d) col \<and> sorted (map se_rank col))
     (standings_groups names (Some es))"
  using group_columns_complete [where f = se_division and g = se_rank and ms = es]
  by (simp_all add: standings_groups_def o_def case_prod_beta list_all_iff)

text \<open>The name proposed for a clone stays that of the first tournament the page has shown.\<close>

lemma clone_name_kept:
  "\<forall>e \<in> set es. \<forall>t. e \<noteq> CdName t \<Longrightarrow> cd_name (run clone_next (CloneDialog_init i nm) es) = ''Copy of '' @ nm"
proof (induction es rule: rev_induct)
  case Nil
  show ?case by (simp add: CloneDialog_init_def)
next
  case (snoc e es)
  then show ?case by (cases e) (simp_all add: clone_next_def)
qed

text \<open>A clone that is ready after the dialog was closed still takes the user to its page.\<close>

lemma clone_after_close:
  "cd_pending s \<Longrightarrow> CloneDialog (clone_next s CdClose) (CdCloned n) =
     [FlToast ''success'' ''Tournament cloned successfully'', FlGo (''/tournaments/'' @ show_int n)]"
  by (simp add: clone_next_def CloneDialog_def)

end
