(* ===== verification/List_Pages.thy ===== *)
theory List_Pages
  imports Status_Flows Admin_Hooks Public_Hooks Registry_Hooks
begin

text \<open>
  The pages that list records a page at a time, with a search box and filters: the lists of
  \<open>features/tournaments\<close>, \<open>features/leagues\<close> and \<open>features/registry\<close>, users, activity log and
  pending venues of \<open>features/admin\<close>, the registrations of a division, and the public directories
  with the events page (\<open>features/public\<close>). Each is a table of what differs; one step function
  runs them all.
\<close>

section \<open>A list\<close>

text \<open>
  Where the text of the search box goes: nowhere, into the request after a delay or at once, or
  into a filter over the loaded page, at once or after a delay.
\<close>

datatype search_kind = NoSearch | DelayedSearch | DirectSearch | LocalSearch | DelayedLocal

record list_item =
  li_id :: int
  li_texts :: "string list"        (* what a filter over the loaded page looks at *)
  li_located :: bool               (* has coordinates *)

datatype list_data = ListLoading | ListFailed string | ListLoaded "list_item list" int

text \<open>
  A filter has the values of its options besides the empty one; \<open>None\<close> stands for a text box.
  \<open>ls_failed\<close> is what an error shows, \<open>None\<close> if the page treats it as an empty answer;
  \<open>ls_error_only\<close> says that an error replaces the inputs too.
\<close>

record list_spec =
  ls_limit :: int
  ls_search :: search_kind
  ls_filters :: "(string \<times> string list option) list"
  ls_search_resets :: bool
  ls_filter_resets :: bool
  ls_map :: bool
  ls_pager_always :: bool
  ls_query :: "string \<Rightarrow> (string \<Rightarrow> string) \<Rightarrow> int \<Rightarrow> int \<Rightarrow> query"
  ls_failed :: "string \<Rightarrow> string option"
  ls_error_only :: bool
  ls_hint :: "string \<Rightarrow> bool \<Rightarrow> string"        (* search text, whether a filter is set *)

record list_page =
  lp_search :: string
  lp_applied :: string                     (* the delayed search text *)
  lp_filters :: "(string \<times> string) list"
  lp_page :: int
  lp_map :: bool
  lp_data :: list_data

definition list_init :: "list_spec \<Rightarrow> list_page" where
  "list_init F =
     \<lparr> lp_search = [], lp_applied = [], lp_filters = map (\<lambda>(k, _). (k, [])) (ls_filters F),
       lp_page = init_page, lp_map = False, lp_data = ListLoading \<rparr>"

definition filter_value :: "list_page \<Rightarrow> string \<Rightarrow> string" where
  "filter_value s k = (case map_of (lp_filters s) k of None \<Rightarrow> [] | Some v \<Rightarrow> v)"

definition query_text :: "list_spec \<Rightarrow> list_page \<Rightarrow> string" where
  "query_text F s =
     (case ls_search F of DelayedSearch \<Rightarrow> lp_applied s | DirectSearch \<Rightarrow> lp_search s | _ \<Rightarrow> [])"

definition local_text :: "list_spec \<Rightarrow> list_page \<Rightarrow> string" where
  "local_text F s =
     (case ls_search F of LocalSearch \<Rightarrow> lp_search s | DelayedLocal \<Rightarrow> lp_applied s | _ \<Rightarrow> [])"

text \<open>The map shows up to 200 records from the first on.\<close>

definition list_limit :: "list_spec \<Rightarrow> list_page \<Rightarrow> int" where
  "list_limit F s = (if lp_map s then 200 else ls_limit F)"

definition list_offset :: "list_spec \<Rightarrow> list_page \<Rightarrow> int" where
  "list_offset F s = (if lp_map s then 0 else page_offset (ls_limit F) (lp_page s))"

definition list_query :: "list_spec \<Rightarrow> list_page \<Rightarrow> query" where
  "list_query F s = ls_query F (query_text F s) (filter_value s) (list_limit F s) (list_offset F s)"

text \<open>\<open>value.toLowerCase().includes(text.toLowerCase())\<close> for one of the texts.\<close>

definition matches_text :: "string \<Rightarrow> list_item \<Rightarrow> bool" where
  "matches_text t i \<longleftrightarrow> t = [] \<or> list_ex (\<lambda>v. has_text (map to_lower t) (map to_lower v)) (li_texts i)"

definition any_filter :: "list_page \<Rightarrow> bool" where
  "any_filter s \<longleftrightarrow> list_ex (\<lambda>(k, v). v \<noteq> []) (lp_filters s)"

datatype list_view =
    ListSkeleton
  | ListError string
  | ListEmpty string
  | ListMap "list_item list" nat
  | ListTable "list_item list"

definition list_view :: "list_spec \<Rightarrow> list_page \<Rightarrow> list_view" where
  "list_view F s =
     (let none = ListEmpty (ls_hint F (lp_search s) (any_filter s)) in
      case lp_data s of
        ListLoading \<Rightarrow> ListSkeleton
      | ListFailed msg \<Rightarrow> (case ls_failed F msg of Some t \<Rightarrow> ListError t | None \<Rightarrow> none)
      | ListLoaded found tot \<Rightarrow>
          (let shown = filter (matches_text (local_text F s)) found in
           if shown = [] then none
           else if lp_map s then ListMap (filter li_located shown) (length shown)
           else ListTable shown))"

text \<open>\<open>Math.ceil(total / limit)\<close> of a positive limit; no data count as none.\<close>

definition page_total :: "list_spec \<Rightarrow> list_page \<Rightarrow> int" where
  "page_total F s =
     (case lp_data s of ListLoaded found tot \<Rightarrow> - ((- tot) div ls_limit F) | _ \<Rightarrow> 0)"

definition pager_buttons :: "list_spec \<Rightarrow> list_page \<Rightarrow> (page_button \<times> int) list" where
  "pager_buttons F s =
     (if (case list_view F s of ListTable found \<Rightarrow> True | ListError t \<Rightarrow> False | _ \<Rightarrow> ls_pager_always F)
      then (case Pagination (lp_page s) (page_total F s) of None \<Rightarrow> [] | Some (t, bs) \<Rightarrow> bs) else [])"

text \<open>
  The events: typing, the end of the delay, a filter, a page button, the switch between list and
  map, and what the query gives for the present key. A new key has no data at first.
\<close>

datatype list_event =
    LpSearch string
  | LpSettled
  | LpFilter string string
  | LpPage int
  | LpMap bool
  | LpData list_data

definition inputs_shown :: "list_spec \<Rightarrow> list_page \<Rightarrow> bool" where
  "inputs_shown F s \<longleftrightarrow> \<not> ls_error_only F \<or> (\<forall>msg. lp_data s \<noteq> ListFailed msg)"

definition can_filter :: "list_spec \<Rightarrow> string \<Rightarrow> string \<Rightarrow> bool" where
  "can_filter F k v \<longleftrightarrow>
     (case map_of (ls_filters F) k of
        None \<Rightarrow> False
      | Some None \<Rightarrow> True
      | Some (Some vs) \<Rightarrow> v = [] \<or> v \<in> set vs)"

definition set_filter :: "string \<Rightarrow> string \<Rightarrow> (string \<times> string) list \<Rightarrow> (string \<times> string) list" where
  "set_filter k v fs = map (\<lambda>(j, w). (j, if j = k then v else w)) fs"

definition refetched :: "list_spec \<Rightarrow> list_page \<Rightarrow> list_page \<Rightarrow> list_page" where
  "refetched F s t = (if list_query F t = list_query F s then t else t\<lparr> lp_data := ListLoading \<rparr>)"

definition list_change :: "list_spec \<Rightarrow> list_page \<Rightarrow> list_event \<Rightarrow> list_page" where
  "list_change F s e =
     (case e of
        LpSearch t \<Rightarrow>
          if ls_search F \<noteq> NoSearch \<and> inputs_shown F s
          then s\<lparr> lp_search := t, lp_page := (if ls_search_resets F then 1 else lp_page s) \<rparr> else s
      | LpSettled \<Rightarrow> s\<lparr> lp_applied := lp_search s \<rparr>
      | LpFilter k v \<Rightarrow>
          if can_filter F k v \<and> inputs_shown F s
          then s\<lparr> lp_filters := set_filter k v (lp_filters s),
                  lp_page := (if ls_filter_resets F then 1 else lp_page s) \<rparr> else s
      | LpPage p \<Rightarrow> if p \<in> snd ` set (pager_buttons F s) then s\<lparr> lp_page := p \<rparr> else s
      | LpMap b \<Rightarrow> if ls_map F then s\<lparr> lp_map := b \<rparr> else s
      | LpData d \<Rightarrow> s\<lparr> lp_data := d \<rparr>)"

definition list_next :: "list_spec \<Rightarrow> list_page \<Rightarrow> list_event \<Rightarrow> list_page" where
  "list_next F s e = refetched F s (list_change F s e)"

section \<open>The lists of the program\<close>

definition hint_of :: "string \<Rightarrow> string \<Rightarrow> string \<Rightarrow> bool \<Rightarrow> string" where
  "hint_of filtered unfiltered t b = (if t \<noteq> [] \<or> b then filtered else unfiltered)"

definition no_results :: "string \<Rightarrow> string \<Rightarrow> bool \<Rightarrow> string" where
  "no_results unfiltered t b =
     (if t \<noteq> [] then ''No results for '' @ [CHR 0x22] @ t @ [CHR 0x22] else unfiltered)"

definition plain_list :: "(string \<Rightarrow> int \<Rightarrow> int \<Rightarrow> query) \<Rightarrow> (string \<Rightarrow> bool \<Rightarrow> string) \<Rightarrow> list_spec" where
  "plain_list q hint =
     \<lparr> ls_limit = 20, ls_search = DelayedSearch, ls_filters = [], ls_search_resets = True,
       ls_filter_resets = True, ls_map = False, ls_pager_always = False,
       ls_query = (\<lambda>t f lmt ofs. q t lmt ofs), ls_failed = Some, ls_error_only = False, ls_hint = hint \<rparr>"

definition TOURNAMENT_STATUS_FILTERS :: "string list" where
  "TOURNAMENT_STATUS_FILTERS =
     [''draft'', ''published'', ''registration_open'', ''registration_closed'', ''in_progress'', ''completed'',
      ''archived'', ''cancelled'']"

definition TournamentList :: "string option \<Rightarrow> list_spec" where
  "TournamentList leagueId =
     (plain_list (\<lambda>t lmt ofs. useListTournaments (nonempty t) None (Some lmt) (Some ofs) leagueId)
        (hint_of ''No tournaments match your filters.'' ''No tournaments created yet.''))
     \<lparr> ls_filters := [(''status'', Some TOURNAMENT_STATUS_FILTERS)],
       ls_query := (\<lambda>t f lmt ofs.
         useListTournaments (nonempty t) (nonempty (f ''status'')) (Some lmt) (Some ofs) leagueId) \<rparr>"

definition LeagueList :: list_spec where
  "LeagueList =
     plain_list (\<lambda>t. useListLeagues (nonempty t)) (hint_of ''No leagues match your search.'' ''No leagues created yet.'')"

definition TeamList :: list_spec where
  "TeamList = plain_list useTeamSearch (no_results ''No teams created yet.'')"

definition PlayerList :: list_spec where
  "PlayerList = plain_list usePlayerSearch (no_results ''No players registered yet.'')"

definition OrgList :: list_spec where
  "OrgList = (plain_list useOrgSearch (no_results ''No organizations created yet.'')) \<lparr> ls_map := True \<rparr>"

definition VenueList :: list_spec where
  "VenueList = (plain_list useVenueSearch (no_results ''No venues created yet.'')) \<lparr> ls_map := True \<rparr>"

definition CourtList :: list_spec where
  "CourtList =
     (plain_list (\<lambda>t. useFloatingCourts) (\<lambda>t b. ''No standalone courts exist yet.''))
     \<lparr> ls_search := NoSearch \<rparr>"

definition ALL_ROLES :: "string list" where
  "ALL_ROLES =
     [''platform_admin'', ''organization_admin'', ''league_admin'', ''tournament_director'', ''head_referee'',
      ''referee'', ''scorekeeper'', ''broadcast_operator'', ''team_coach'', ''api_readonly'', ''player'']"

definition USER_STATUSES :: "string list" where
  "USER_STATUSES = [''active'', ''suspended'', ''banned'']"

definition UserSearch :: list_spec where
  "UserSearch =
     \<lparr> ls_limit = 20, ls_search = DirectSearch,
       ls_filters = [(''role'', Some ALL_ROLES), (''status'', Some USER_STATUSES)],
       ls_search_resets = True, ls_filter_resets = True, ls_map = False, ls_pager_always = True,
       ls_query = (\<lambda>t f lmt ofs.
         useSearchUsers (nonempty t) (nonempty (f ''role'')) (nonempty (f ''status'')) (Some lmt) (Some ofs)),
       ls_failed = (\<lambda>msg. Some ''Failed to load users.''), ls_error_only = True,
       ls_hint = hint_of ''Try adjusting your search filters.'' ''No users exist yet.'' \<rparr>"

definition ENTITY_TYPES :: "string list" where
  "ENTITY_TYPES =
     [''user'', ''tournament'', ''league'', ''season'', ''division'', ''venue'', ''match'', ''team'',
      ''registration'', ''api_key'']"

definition ActivityLog :: list_spec where
  "ActivityLog =
     \<lparr> ls_limit = 25, ls_search = NoSearch,
       ls_filters = [(''entity_type'', Some ENTITY_TYPES), (''action'', None)],
       ls_search_resets = True, ls_filter_resets = True, ls_map = False, ls_pager_always = False,
       ls_query = (\<lambda>t f lmt ofs.
         useActivityLogs None (nonempty (f ''entity_type'')) (nonempty (f ''action'')) (Some lmt) (Some ofs)),
       ls_failed = (\<lambda>msg. Some ''Failed to load activity log.''), ls_error_only = False,
       ls_hint = (\<lambda>t b. ''No log entries match the current filters.'') \<rparr>"

definition VenueApproval :: list_spec where
  "VenueApproval =
     \<lparr> ls_limit = 12, ls_search = NoSearch, ls_filters = [], ls_search_resets = True, ls_filter_resets = True,
       ls_map = False, ls_pager_always = False,
       ls_query = (\<lambda>t f lmt ofs. usePendingVenues (Some lmt) (Some ofs)),
       ls_failed = (\<lambda>msg. Some ''Failed to load pending venues.''), ls_error_only = False,
       ls_hint = (\<lambda>t b. ''All venue submissions have been reviewed.'') \<rparr>"

definition REGISTRATION_STATUS_FILTERS :: "string list" where
  "REGISTRATION_STATUS_FILTERS =
     [''pending'', ''approved'', ''waitlisted'', ''rejected'', ''withdrawn'', ''checked_in'', ''no_show'']"

text \<open>The registrations of a division: the search looks at the loaded page, an error shows nothing.\<close>

definition DivisionRegistrations :: "string \<Rightarrow> list_spec" where
  "DivisionRegistrations divisionId =
     \<lparr> ls_limit = 20, ls_search = DelayedLocal, ls_filters = [(''status'', Some REGISTRATION_STATUS_FILTERS)],
       ls_search_resets = False, ls_filter_resets = True, ls_map = False, ls_pager_always = False,
       ls_query = (\<lambda>t f lmt ofs. useListRegistrations divisionId (nonempty (f ''status'')) (Some lmt) (Some ofs)),
       ls_failed = (\<lambda>msg. None), ls_error_only = False,
       ls_hint = hint_of ''No registrations match your filters.'' ''No registrations have been submitted yet.'' \<rparr>"

text \<open>The directories: the search looks at the loaded page, and no input goes back to the first page.\<close>

definition directory :: "string \<Rightarrow> (int \<Rightarrow> int \<Rightarrow> query) \<Rightarrow> (string \<Rightarrow> bool \<Rightarrow> string) \<Rightarrow> list_spec" where
  "directory failed q hint =
     \<lparr> ls_limit = 12, ls_search = LocalSearch, ls_filters = [], ls_search_resets = False,
       ls_filter_resets = False, ls_map = False, ls_pager_always = False,
       ls_query = (\<lambda>t f lmt ofs. q lmt ofs), ls_failed = (\<lambda>msg. Some failed), ls_error_only = False,
       ls_hint = hint \<rparr>"

definition TOURNAMENT_STATUS_OPTIONS :: "string list" where
  "TOURNAMENT_STATUS_OPTIONS =
     [''published'', ''registration_open'', ''registration_closed'', ''in_progress'', ''completed'']"

definition TournamentDirectory :: list_spec where
  "TournamentDirectory =
     (directory ''Failed to load tournaments. Please try again later.''
        (\<lambda>lmt ofs. usePublicTournaments lmt ofs None)
        (hint_of ''Try adjusting your filters'' ''Check back soon for upcoming tournaments''))
     \<lparr> ls_filters := [(''status'', Some TOURNAMENT_STATUS_OPTIONS)],
       ls_query := (\<lambda>t f lmt ofs. usePublicTournaments lmt ofs (nonempty (f ''status''))) \<rparr>"

definition LeagueDirectory :: list_spec where
  "LeagueDirectory =
     directory ''Failed to load leagues. Please try again later.'' usePublicLeagues
       (hint_of ''Try adjusting your search'' ''Check back soon for available leagues'')"

definition VenueDirectory :: list_spec where
  "VenueDirectory =
     directory ''Failed to load venues. Please try again later.'' usePublicVenues
       (hint_of ''Try adjusting your search'' ''Check back soon for available venues'')"

text \<open>
  The two tabs of the events page; both are mounted and share the search text. Its pages count from
  0 and are shown from 1, the number kept here.
\<close>

definition EventsTournaments :: list_spec where
  "EventsTournaments =
     directory ''Please try again later.'' (\<lambda>lmt ofs. usePublicTournaments lmt ofs None)
       (hint_of ''Try a different search term.'' ''Tournaments will appear here once published.'')"

definition EventsLeagues :: list_spec where
  "EventsLeagues =
     directory ''Please try again later.'' usePublicLeagues
       (hint_of ''Try a different search term.'' ''Leagues will appear here once created.'')"

text \<open>Two tabs of a public league: no search, and an error shows nothing.\<close>

definition league_tab :: "(int \<Rightarrow> int \<Rightarrow> query) \<Rightarrow> string \<Rightarrow> list_spec" where
  "league_tab q hint =
     (directory [] q (\<lambda>t b. hint)) \<lparr> ls_limit := 20, ls_search := NoSearch, ls_failed := (\<lambda>msg. None) \<rparr>"

definition SeasonsTab :: "string \<Rightarrow> list_spec" where
  "SeasonsTab slug =
     league_tab (usePublicLeagueSeasons slug) ''Seasons will appear here as the league progresses.''"

definition TournamentsTab :: "string \<Rightarrow> list_spec" where
  "TournamentsTab slug =
     league_tab (usePublicLeagueTournaments slug) ''Tournaments associated with this league will appear here.''"

definition DIRECTORIES :: "string \<Rightarrow> list_spec list" where
  "DIRECTORIES slug =
     [TournamentDirectory, LeagueDirectory, VenueDirectory, EventsTournaments, EventsLeagues, SeasonsTab slug,
      TournamentsTab slug]"

definition LIST_PAGES :: "string option \<Rightarrow> string \<Rightarrow> string \<Rightarrow> list_spec list" where
  "LIST_PAGES leagueId divisionId slug =
     [TournamentList leagueId, LeagueList, TeamList, PlayerList, OrgList, VenueList, CourtList, UserSearch,
      ActivityLog, VenueApproval, DivisionRegistrations divisionId] @ DIRECTORIES slug"

lemmas list_specs =
  plain_list_def directory_def TournamentList_def LeagueList_def TeamList_def PlayerList_def OrgList_def
  VenueList_def CourtList_def UserSearch_def ActivityLog_def VenueApproval_def DivisionRegistrations_def
  TournamentDirectory_def LeagueDirectory_def VenueDirectory_def EventsTournaments_def EventsLeagues_def league_tab_def
  SeasonsTab_def TournamentsTab_def

section \<open>What a page can ask for\<close>

lemma ceil_div_less:
  fixes t l p :: int
  assumes "0 < l" and "p \<le> - ((- t) div l)"
  shows "(p - 1) * l < t"
proof -
  let ?q = "(- t) div l"
  have "?q * l \<le> (- p) * l" using assms by (intro mult_right_mono) simp_all
  moreover have "?q * l + (- t) mod l = - t" by (rule div_mult_mod_eq)
  moreover have "(- t) mod l < l" using assms(1) by simp
  ultimately show ?thesis unfolding left_diff_distrib by linarith
qed

lemma pager_target:
  assumes "p \<in> snd ` set (pager_buttons F s)"
  shows "(1 \<le> p \<and> p = lp_page s - 1) \<or> (p = lp_page s + 1 \<and> p \<le> page_total F s)"
proof -
  have "p \<in> snd ` set (case Pagination (lp_page s) (page_total F s) of None \<Rightarrow> [] | Some (t, bs) \<Rightarrow> bs)"
    using assms unfolding pager_buttons_def by (simp only: split: if_split_asm) simp
  then show ?thesis by (auto simp: Pagination_def split: if_splits)
qed

lemma pager_only_on_table:
  "\<not> ls_pager_always F \<Longrightarrow> (\<And>found. list_view F s \<noteq> ListTable found) \<Longrightarrow> pager_buttons F s = []"
  by (auto simp: pager_buttons_def split: list_view.split)

lemma list_next_fields [simp]:
  "lp_page (list_next F s e) = lp_page (list_change F s e)"
  "lp_map (list_next F s e) = lp_map (list_change F s e)"
  "lp_search (list_next F s e) = lp_search (list_change F s e)"
  "lp_applied (list_next F s e) = lp_applied (list_change F s e)"
  "lp_filters (list_next F s e) = lp_filters (list_change F s e)"
  by (simp_all add: list_next_def refetched_def)

lemma list_query_data [simp]: "list_query F (s\<lparr> lp_data := d \<rparr>) = list_query F s"
proof -
  have "filter_value (s\<lparr> lp_data := d \<rparr>) = filter_value s" by (rule ext) (simp add: filter_value_def)
  then show ?thesis
    by (simp add: list_query_def query_text_def list_limit_def list_offset_def split: search_kind.split)
qed

lemma list_next_data [simp]: "lp_data (list_next F s (LpData d)) = d"
  by (simp add: list_next_def refetched_def list_change_def)

text \<open>The page stays where the largest total seen so far has records, or at the first.\<close>

definition total_within :: "int \<Rightarrow> list_data \<Rightarrow> bool" where
  "total_within n d \<longleftrightarrow> (case d of ListLoaded found tot \<Rightarrow> tot \<le> n | _ \<Rightarrow> True)"

definition list_ok :: "list_spec \<Rightarrow> int \<Rightarrow> list_page \<Rightarrow> bool" where
  "list_ok F n s \<longleftrightarrow>
     1 \<le> lp_page s \<and> (lp_page s = 1 \<or> (lp_page s - 1) * ls_limit F < n) \<and> total_within n (lp_data s)"

locale paged_list =
  fixes F :: list_spec
  assumes limit_positive: "0 < ls_limit F"
begin

lemma next_page_bound: "p \<le> page_total F s \<Longrightarrow> 1 < p \<Longrightarrow> total_within n (lp_data s) \<Longrightarrow> (p - 1) * ls_limit F < n"
  using ceil_div_less [OF limit_positive, of p]
  by (auto simp: page_total_def total_within_def split: list_data.splits intro: less_le_trans)

lemma pager_ok: "list_ok F n s \<Longrightarrow> p \<in> snd ` set (pager_buttons F s) \<Longrightarrow> list_ok F n (s\<lparr> lp_page := p \<rparr>)"
proof -
  assume ok: "list_ok F n s" and "p \<in> snd ` set (pager_buttons F s)"
  from pager_target [OF this(2)] show ?thesis
  proof
    assume p: "1 \<le> p \<and> p = lp_page s - 1"
    then have "(p - 1) * ls_limit F \<le> (lp_page s - 1) * ls_limit F"
      using limit_positive by (intro mult_right_mono) simp_all
    then show ?thesis using ok p by (auto simp: list_ok_def)
  next
    assume "p = lp_page s + 1 \<and> p \<le> page_total F s"
    then show ?thesis using ok next_page_bound [of p s n] by (auto simp: list_ok_def)
  qed
qed

lemma change_ok: "list_ok F n s \<Longrightarrow> (\<And>d. e = LpData d \<Longrightarrow> total_within n d) \<Longrightarrow> list_ok F n (list_change F s e)"
  using pager_ok [of n s] by (cases e) (auto simp: list_change_def list_ok_def)

lemma step_ok: "list_ok F n s \<Longrightarrow> (\<And>d. e = LpData d \<Longrightarrow> total_within n d) \<Longrightarrow> list_ok F n (list_next F s e)"
  using change_ok [of n s e] by (auto simp: list_next_def refetched_def list_ok_def total_within_def)

lemma run_ok:
  "list_ok F n s \<Longrightarrow> \<forall>d. LpData d \<in> set es \<longrightarrow> total_within n d \<Longrightarrow> list_ok F n (run (list_next F) s es)"
  by (induction es arbitrary: s) (simp_all add: step_ok)

lemma init_ok: "list_ok F n (list_init F)"
  by (simp add: list_ok_def list_init_def init_page_def total_within_def)

lemma offset_bound:
  assumes "list_ok F n s"
  shows "0 \<le> list_offset F s \<and> (list_offset F s = 0 \<or> list_offset F s < n)"
  using assms limit_positive by (auto simp: list_ok_def list_offset_def page_offset_def)

end

interpretation tournaments: paged_list "TournamentList l" for l by unfold_locales (simp add: list_specs)
interpretation leagues: paged_list LeagueList by unfold_locales (simp add: list_specs)
interpretation teams: paged_list TeamList by unfold_locales (simp add: list_specs)
interpretation players: paged_list PlayerList by unfold_locales (simp add: list_specs)
interpretation orgs: paged_list OrgList by unfold_locales (simp add: list_specs)
interpretation venues: paged_list VenueList by unfold_locales (simp add: list_specs)
interpretation courts: paged_list CourtList by unfold_locales (simp add: list_specs)
interpretation users: paged_list UserSearch by unfold_locales (simp add: list_specs)
interpretation activity: paged_list ActivityLog by unfold_locales (simp add: list_specs)
interpretation approvals: paged_list VenueApproval by unfold_locales (simp add: list_specs)
interpretation registrations: paged_list "DivisionRegistrations d" for d by unfold_locales (simp add: list_specs)
interpretation tournament_dir: paged_list TournamentDirectory by unfold_locales (simp add: list_specs)
interpretation league_dir: paged_list LeagueDirectory by unfold_locales (simp add: list_specs)
interpretation venue_dir: paged_list VenueDirectory by unfold_locales (simp add: list_specs)
interpretation tournament_events: paged_list EventsTournaments by unfold_locales (simp add: list_specs)
interpretation league_events: paged_list EventsLeagues by unfold_locales (simp add: list_specs)
interpretation seasons_tab: paged_list "SeasonsTab slug" for slug by unfold_locales (simp add: list_specs)
interpretation tournaments_tab: paged_list "TournamentsTab slug" for slug by unfold_locales (simp add: list_specs)

lemma list_pages_paged: "F \<in> set (LIST_PAGES l d slug) \<Longrightarrow> paged_list F"
  unfolding LIST_PAGES_def DIRECTORIES_def
  using tournaments.paged_list_axioms leagues.paged_list_axioms teams.paged_list_axioms
    players.paged_list_axioms orgs.paged_list_axioms venues.paged_list_axioms courts.paged_list_axioms
    users.paged_list_axioms activity.paged_list_axioms approvals.paged_list_axioms
    registrations.paged_list_axioms tournament_dir.paged_list_axioms league_dir.paged_list_axioms
    venue_dir.paged_list_axioms tournament_events.paged_list_axioms league_events.paged_list_axioms
    seasons_tab.paged_list_axioms tournaments_tab.paged_list_axioms
  by (auto simp only: set_append list.set Un_iff insert_iff empty_iff)

text \<open>
  C39. Whatever is typed, chosen and pressed, and however the answers come in, no list asks for
  records before the first one or past the largest total it has been told: the offset is 0, or it
  lies below a bound of all totals.
\<close>

theorem list_requests_bounded:
  assumes "F \<in> set (LIST_PAGES l d slug)" and "\<forall>data. LpData data \<in> set es \<longrightarrow> total_within n data"
  defines "s \<equiv> run (list_next F) (list_init F) es"
  shows "0 \<le> list_offset F s \<and> (list_offset F s = 0 \<or> list_offset F s < n)"
proof -
  have F: "paged_list F" by (rule list_pages_paged [OF assms(1)])
  have "list_ok F n s" unfolding s_def by (rule paged_list.run_ok [OF F paged_list.init_ok [OF F] assms(2)])
  then show ?thesis by (rule paged_list.offset_bound [OF F])
qed

definition forty_teams :: list_data where
  "forty_teams = ListLoaded [\<lparr> li_id = 1, li_texts = [], li_located = False \<rparr>] 40"

theorem list_requests_bounded_witness:
  "list_offset TeamList (run (list_next TeamList) (list_init TeamList) [LpData forty_teams, LpPage 2]) = 20 \<and>
   list_offset TeamList (run (list_next TeamList) (list_init TeamList) [LpData forty_teams, LpPage 2]) < 40"
proof -
  let ?s = "run (list_next TeamList) (list_init TeamList) [LpData forty_teams, LpPage 2]"
  have two: "list_offset TeamList ?s = 20"
    by (simp add: list_offset_def list_change_def pager_buttons_def list_view_def list_init_def init_page_def
        forty_teams_def Pagination_def page_total_def matches_text_def local_text_def list_specs page_offset_def)
  have "0 \<le> list_offset TeamList ?s \<and> (list_offset TeamList ?s = 0 \<or> list_offset TeamList ?s < 40)"
    by (rule list_requests_bounded [where l = None and d = "[]" and slug = "[]"])
      (auto simp: LIST_PAGES_def forty_teams_def total_within_def)
  with two show ?thesis by simp
qed

section \<open>Stranded on a page\<close>

definition no_records :: "list_data \<Rightarrow> bool" where
  "no_records data \<longleftrightarrow> (\<forall>found tot. data = ListLoaded found tot \<longrightarrow> found = [])"

lemma no_records_no_pager: "\<not> ls_pager_always F \<Longrightarrow> no_records (lp_data s) \<Longrightarrow> pager_buttons F s = []"
  by (rule pager_only_on_table)
    (auto simp: list_view_def no_records_def Let_def split: list_data.splits option.splits)

lemma directory_flags:
  "F \<in> set (DIRECTORIES slug) \<Longrightarrow> \<not> ls_search_resets F \<and> \<not> ls_filter_resets F \<and> \<not> ls_pager_always F"
  by (auto simp: DIRECTORIES_def list_specs)

lemma stranded_step:
  assumes "F \<in> set (DIRECTORIES slug)" and "no_records (lp_data s)" and "\<forall>data. e = LpData data \<longrightarrow> no_records data"
  shows "lp_page (list_next F s e) = lp_page s \<and> no_records (lp_data (list_next F s e))"
  using assms(2,3) directory_flags [OF assms(1)] no_records_no_pager [of F s]
  by (cases e) (auto simp: list_next_def refetched_def list_change_def no_records_def)

lemma stranded_run:
  assumes "F \<in> set (DIRECTORIES slug)"
  shows "no_records (lp_data s) \<Longrightarrow> \<forall>data. LpData data \<in> set es \<longrightarrow> no_records data \<Longrightarrow>
    lp_page (run (list_next F) s es) = lp_page s"
  using stranded_step [OF assms] by (induction es arbitrary: s) simp_all

text \<open>
  A directory or a tab of the events and league pages that has no record on its page is stuck
  there: no typing, no choice of a status and no button leads back to an earlier page, until the
  server has a record for the page after all. Choosing a status on a later page of the tournament
  directory gets there, because the choice does not go back to the first page.
\<close>

theorem directory_stranded:
  assumes "F \<in> set (DIRECTORIES slug)" and "no_records (lp_data s)"
    and "\<forall>data. LpData data \<in> set es \<longrightarrow> no_records data"
  shows "lp_page (run (list_next F) s es) = lp_page s"
  using assms by (rule stranded_run)

definition completed_chosen :: list_page where
  "completed_chosen =
     run (list_next TournamentDirectory) (list_init TournamentDirectory)
       [LpData forty_teams, LpPage 2, LpFilter ''status'' ''completed'', LpData (ListLoaded [] 5)]"

lemma completed_chosen_page: "lp_page completed_chosen = 2" "lp_data completed_chosen = ListLoaded [] 5"
  by (simp_all add: completed_chosen_def list_change_def pager_buttons_def list_view_def list_init_def init_page_def
      forty_teams_def Pagination_def page_total_def matches_text_def local_text_def list_specs can_filter_def)

theorem directory_stranded_witness:
  "list_offset TournamentDirectory completed_chosen = 12 \<and>
   lp_page (run (list_next TournamentDirectory) completed_chosen [LpSearch ''a'', LpPage 1, LpFilter ''status'' ''published'']) = 2"
proof -
  have "lp_page (run (list_next TournamentDirectory) completed_chosen
      [LpSearch ''a'', LpPage 1, LpFilter ''status'' ''published'']) = lp_page completed_chosen"
    by (rule directory_stranded [where slug = "[]"])
      (auto simp: DIRECTORIES_def completed_chosen_page no_records_def)
  moreover have "\<not> lp_map completed_chosen"
    by (simp add: completed_chosen_def list_change_def list_init_def list_specs)
  ultimately show ?thesis
    by (simp add: completed_chosen_page list_offset_def page_offset_def list_specs)
qed

text \<open>The lists of the management pages go back to the first page on every input.\<close>

lemma input_shows_first_page:
  "ls_search F \<noteq> NoSearch \<Longrightarrow> ls_search_resets F \<Longrightarrow> inputs_shown F s \<Longrightarrow> lp_page (list_next F s (LpSearch t)) = 1"
  "can_filter F k v \<Longrightarrow> ls_filter_resets F \<Longrightarrow> inputs_shown F s \<Longrightarrow> lp_page (list_next F s (LpFilter k v)) = 1"
  by (simp_all add: list_change_def)

text \<open>Until the delay has passed, that is the first page of the old search.\<close>

lemma typing_asks_old_first_page:
  "ls_search F = DelayedSearch \<Longrightarrow> ls_search_resets F \<Longrightarrow> \<not> lp_map s \<Longrightarrow> inputs_shown F s \<Longrightarrow>
     list_query F (list_next F s (LpSearch t)) = ls_query F (lp_applied s) (filter_value s) (ls_limit F) 0"
proof -
  assume F: "ls_search F = DelayedSearch" "ls_search_resets F" and s: "\<not> lp_map s" "inputs_shown F s"
  have "filter_value (list_next F s (LpSearch t)) = filter_value s"
    by (rule ext) (simp add: filter_value_def list_change_def)
  then show ?thesis
    using F s by (simp add: list_query_def query_text_def list_limit_def list_offset_def page_offset_def list_change_def)
qed

text \<open>The search of a directory looks at one page: what is on the others counts as not found, and the pager goes.\<close>

lemma directory_search_one_page:
  "F \<in> set (DIRECTORIES slug) \<Longrightarrow> ls_search F = LocalSearch \<Longrightarrow> lp_data s = ListLoaded found tot \<Longrightarrow>
     \<forall>i \<in> set found. \<not> matches_text (lp_search s) i \<Longrightarrow>
     list_view F s = ListEmpty (ls_hint F (lp_search s) (any_filter s)) \<and> pager_buttons F s = []"
proof -
  assume F: "F \<in> set (DIRECTORIES slug)" "ls_search F = LocalSearch" and found: "lp_data s = ListLoaded found tot"
    and none: "\<forall>i \<in> set found. \<not> matches_text (lp_search s) i"
  have v: "list_view F s = ListEmpty (ls_hint F (lp_search s) (any_filter s))"
    using none by (simp add: list_view_def found F(2) local_text_def filter_False)
  then show ?thesis using pager_only_on_table [of F s] directory_flags [OF F(1)] by simp
qed

text \<open>
  Pending venues: approving the last ones of the last page leaves an empty page without a pager,
  which says that all venues have been reviewed.
\<close>

lemma approval_claims_done:
  "lp_data s = ListLoaded [] tot \<Longrightarrow>
     list_view VenueApproval s = ListEmpty ''All venue submissions have been reviewed.'' \<and>
     pager_buttons VenueApproval s = []"
  by (simp add: list_view_def pager_buttons_def list_specs)

section \<open>Rows\<close>

text \<open>The texts of the cells of a row, in the order of the columns.\<close>

definition or_dash :: "string option \<Rightarrow> string" where
  "or_dash v = (if has_str v then str_of v else em_dash)"

definition place_text :: "string option list \<Rightarrow> string" where
  "place_text parts = or_dash (Some (join_present '', '' (map str_of parts)))"

definition tournament_cells ::
    "(string \<Rightarrow> string option) \<Rightarrow> string \<Rightarrow> string \<Rightarrow> string option \<Rightarrow> string option \<Rightarrow> int option \<Rightarrow> string list" where
  "tournament_cells ld nm stat start stop venue =
     [nm, snd (StatusBadge stat), formatDate ld start, formatDate ld stop,
      or_dash (map_option (\<lambda>n. ''Venue #'' @ n) (number_row venue))]"

definition league_cells :: "string \<Rightarrow> string \<Rightarrow> string option \<Rightarrow> string option \<Rightarrow> string option \<Rightarrow> string list" where
  "league_cells nm stat city state email =
     [nm, snd (StatusBadge stat), place_text [city, state], or_dash email]"

definition player_cells ::
    "string \<Rightarrow> string \<Rightarrow> string option \<Rightarrow> string \<Rightarrow> string option \<Rightarrow> string option \<Rightarrow> string option \<Rightarrow>
     string option \<Rightarrow> string list" where
  "player_cells first surname display publicId hand city state dupr =
     [formatPlayerName first surname display, publicId, or_dash hand, place_text [city, state],
      or_default dupr em_dash]"

definition team_cells :: "string \<Rightarrow> string \<Rightarrow> string option \<Rightarrow> string option \<Rightarrow> string list" where
  "team_cells nm short org city = [nm, short, or_dash org, or_dash city]"

definition org_cells :: "string \<Rightarrow> string option \<Rightarrow> string option \<Rightarrow> string option \<Rightarrow> int option \<Rightarrow> string list" where
  "org_cells nm city state email founded = [nm, place_text [city, state], or_dash email, or_dash (number_row founded)]"

definition venue_cells :: "string \<Rightarrow> string option \<Rightarrow> string \<Rightarrow> int \<Rightarrow> string list" where
  "venue_cells nm city stat courts = [nm, or_dash city, spaced stat, show_int courts]"

definition court_cells :: "string \<Rightarrow> string option \<Rightarrow> bool \<Rightarrow> bool \<Rightarrow> string option \<Rightarrow> string list" where
  "court_cells nm surface show_court active stream =
     [nm, or_dash (map_option spaced surface), yes_no show_court, if active then ''Active'' else ''Inactive'',
      or_dash stream]"

text \<open>\<open>num\<close> writes a number.\<close>

definition registration_cells ::
    "(string \<Rightarrow> string option) \<Rightarrow> (rat \<Rightarrow> string) \<Rightarrow> registration \<Rightarrow> string list" where
  "registration_cells ld num r =
     [''#'' @ show_int (rg_id r), fst (entity_cell r), snd (StatusBadge (rg_status r)),
      case rg_seed r of None \<Rightarrow> em_dash | Some n \<Rightarrow> num n,
      if has_str (rg_checked_in_at r) then formatDate ld (rg_checked_in_at r) else em_dash,
      formatDate ld (Some (rg_registered_at r))]"

text \<open>The markers of the map: the loaded records that have both coordinates, 0 counting as none.\<close>

definition has_coordinates :: "rat option \<Rightarrow> rat option \<Rightarrow> bool" where
  "has_coordinates lat lng \<longleftrightarrow> lat \<noteq> None \<and> lat \<noteq> Some 0 \<and> lng \<noteq> None \<and> lng \<noteq> Some 0"

section \<open>A new player\<close>

text \<open>The dialog over the list of players, for three roles.\<close>

record new_player =
  np_open :: bool
  np_first :: string
  np_last :: string
  np_born :: string
  np_pending :: bool

definition new_player_init :: new_player where
  "new_player_init = \<lparr> np_open = False, np_first = [], np_last = [], np_born = [], np_pending = False \<rparr>"

definition can_create_players :: "string option \<Rightarrow> bool" where
  "can_create_players role \<longleftrightarrow>
     role \<in> {Some ''platform_admin'', Some ''tournament_director'', Some ''league_admin''}"

datatype new_player_event =
    NpOpen
  | NpClose
  | NpFirst string
  | NpLast string
  | NpBorn string
  | NpCreate
  | NpCreated
  | NpFailed string

definition new_player_ready :: "new_player \<Rightarrow> bool" where
  "new_player_ready s \<longleftrightarrow>
     np_open s \<and> \<not> np_pending s \<and> trim (np_first s) \<noteq> [] \<and> trim (np_last s) \<noteq> [] \<and> np_born s \<noteq> []"

definition new_player_next :: "string option \<Rightarrow> new_player \<Rightarrow> new_player_event \<Rightarrow> new_player" where
  "new_player_next role s e =
     (case e of
        NpOpen \<Rightarrow> if can_create_players role then s\<lparr> np_open := True \<rparr> else s
      | NpClose \<Rightarrow> s\<lparr> np_open := False \<rparr>
      | NpFirst t \<Rightarrow> if np_open s then s\<lparr> np_first := t \<rparr> else s
      | NpLast t \<Rightarrow> if np_open s then s\<lparr> np_last := t \<rparr> else s
      | NpBorn t \<Rightarrow> if np_open s then s\<lparr> np_born := t \<rparr> else s
      | NpCreate \<Rightarrow> if new_player_ready s then s\<lparr> np_pending := True \<rparr> else s
      | NpCreated \<Rightarrow> if np_pending s then new_player_init else s
      | NpFailed msg \<Rightarrow> s\<lparr> np_pending := False \<rparr>)"

definition new_player_out :: "new_player \<Rightarrow> new_player_event \<Rightarrow> flow_effect list" where
  "new_player_out s e =
     (case e of
        NpCreate \<Rightarrow>
          if new_player_ready s
          then [FlSend (ApiPost ''/api/v1/admin/users/create-player''
            (Obj [(''first_name'', Str (trim (np_first s))), (''last_name'', Str (trim (np_last s))),
                  (''date_of_birth'', Str (np_born s))]))] else []
      | NpCreated \<Rightarrow> if np_pending s then [FlToast ''success'' ''Player created''] else []
      | NpFailed msg \<Rightarrow> if np_pending s then [FlToast ''error'' msg] else []
      | _ \<Rightarrow> [])"

text \<open>
  A dialog closed while the request runs and opened again for another player is closed and emptied
  by the answer.
\<close>

lemma next_player_wiped:
  "np_pending s \<Longrightarrow> new_player_next role (run (new_player_next role) s [NpClose, NpOpen, NpFirst t]) NpCreated = new_player_init"
  by (simp add: new_player_next_def)

end
