(* ===== verification/Admin_Screens.thy ===== *)
theory Admin_Screens
  imports List_Pages Cache_Consistency
begin

text \<open>
  The administration (\<open>features/admin\<close>): dialogs that ask before they act (keys, users, uploads,
  advertisements), \<open>ApiKeyManager.tsx\<close>, \<open>UserDetail.tsx\<close>, \<open>VenueApproval.tsx\<close>,
  \<open>AdminSettings.tsx\<close>, \<open>UploadBrowser.tsx\<close>, \<open>AdManager.tsx\<close> and the rows of \<open>UserSearch.tsx\<close> and
  \<open>ActivityLog.tsx\<close>, whose paging is in \<open>List_Pages\<close>.
\<close>

section \<open>Dialogs with a target\<close>

text \<open>
  A button puts an item into the state \<open>target\<close>, which opens the dialog; its confirmation sends a
  request for the target, with a text where one is asked for. The callbacks of a request belong to
  the render that sent it, so they speak of the item it was sent for.
\<close>

record 'a ask_spec =
  as_open :: "'a \<Rightarrow> bool"                  (* the item has the button *)
  as_call :: "'a \<Rightarrow> string \<Rightarrow> api_call"
  as_text :: bool                         (* a text is required *)
  as_clears :: bool                       (* closing and success empty the text *)
  as_done :: "'a \<Rightarrow> string"
  as_failed :: "'a \<Rightarrow> string \<Rightarrow> string"

record 'a ask =
  ak_target :: "'a option"
  ak_text :: string
  ak_pending :: "'a option"

definition ask_init :: "'a ask" where
  "ask_init = \<lparr> ak_target = None, ak_text = [], ak_pending = None \<rparr>"

datatype 'a ask_event =
    AkOpen 'a
  | AkText string
  | AkClose
  | AkConfirm
  | AkDone
  | AkFailed string

definition ask_ready :: "'a ask_spec \<Rightarrow> 'a ask \<Rightarrow> bool" where
  "ask_ready S s \<longleftrightarrow> ak_pending s = None \<and> (as_text S \<longrightarrow> trim (ak_text s) \<noteq> [])"

definition emptied :: "'a ask_spec \<Rightarrow> 'a ask \<Rightarrow> string" where
  "emptied S s = (if as_clears S then [] else ak_text s)"

definition ask_next :: "'a ask_spec \<Rightarrow> 'a ask \<Rightarrow> 'a ask_event \<Rightarrow> 'a ask" where
  "ask_next S s e =
     (case e of
        AkOpen x \<Rightarrow> if as_open S x then s\<lparr> ak_target := Some x \<rparr> else s
      | AkText t \<Rightarrow> if ak_target s \<noteq> None \<and> as_text S then s\<lparr> ak_text := t \<rparr> else s
      | AkClose \<Rightarrow> s\<lparr> ak_target := None, ak_text := emptied S s \<rparr>
      | AkConfirm \<Rightarrow> if ak_target s \<noteq> None \<and> ask_ready S s then s\<lparr> ak_pending := ak_target s \<rparr> else s
      | AkDone \<Rightarrow>
          if ak_pending s = None then s
          else s\<lparr> ak_pending := None, ak_target := None, ak_text := emptied S s \<rparr>
      | AkFailed msg \<Rightarrow> s\<lparr> ak_pending := None \<rparr>)"

definition ask_out :: "'a ask_spec \<Rightarrow> 'a ask \<Rightarrow> 'a ask_event \<Rightarrow> flow_effect list" where
  "ask_out S s e =
     (case e of
        AkConfirm \<Rightarrow>
          (case ak_target s of
             Some x \<Rightarrow> if ask_ready S s then [FlSend (as_call S x (ak_text s))] else []
           | None \<Rightarrow> [])
      | AkDone \<Rightarrow> (case ak_pending s of Some x \<Rightarrow> [FlToast ''success'' (as_done S x)] | None \<Rightarrow> [])
      | AkFailed msg \<Rightarrow> (case ak_pending s of Some x \<Rightarrow> [FlToast ''error'' (as_failed S x msg)] | None \<Rightarrow> [])
      | _ \<Rightarrow> [])"

definition quoted :: "string \<Rightarrow> string" where
  "quoted t = [CHR 0x22] @ t @ [CHR 0x22]"

text \<open>An API key: its number, name, and whether it is active; revoked keys have the button too.\<close>

record api_key =
  ky_id :: int
  ky_name :: string
  ky_active :: bool

definition RevokeDialog :: "api_key ask_spec" where
  "RevokeDialog =
     \<lparr> as_open = (\<lambda>k. True), as_call = (\<lambda>k t. m_call useRevokeApiKey (ky_id k)), as_text = False, as_clears = False,
       as_done = (\<lambda>k. ''Key '' @ quoted (ky_name k) @ '' revoked''),
       as_failed = (\<lambda>k msg. ''Failed to revoke API key'') \<rparr>"

record admin_user =
  au_id :: int
  au_public :: string
  au_first :: string
  au_last :: string
  au_role :: string
  au_status :: string

definition SuspendDialog :: "admin_user ask_spec" where
  "SuspendDialog =
     \<lparr> as_open = (\<lambda>u. au_status u = ''active'' \<and> au_role u \<noteq> ''platform_admin''),
       as_call = (\<lambda>u t. m_call useUpdateUserStatus (au_public u, ''suspended'', ''Suspended by admin'')),
       as_text = False, as_clears = False, as_done = (\<lambda>u. au_first u @ '' '' @ au_last u @ '' suspended''),
       as_failed = (\<lambda>u msg. ''Failed to suspend user'') \<rparr>"

definition DeleteUploadDialog :: "(int \<times> string) ask_spec" where
  "DeleteUploadDialog =
     \<lparr> as_open = (\<lambda>u. True), as_call = (\<lambda>u t. m_call useDeleteUpload (fst u)), as_text = False, as_clears = False,
       as_done = (\<lambda>u. snd u @ '' deleted''), as_failed = (\<lambda>u msg. ''Failed to delete '' @ snd u) \<rparr>"

definition DeleteAdDialog :: "(int \<times> string) ask_spec" where
  "DeleteAdDialog =
     \<lparr> as_open = (\<lambda>a. True), as_call = (\<lambda>a t. m_call useDeleteAd (fst a)), as_text = False, as_clears = False,
       as_done = (\<lambda>a. quoted (snd a) @ '' deleted''), as_failed = (\<lambda>a msg. ''Failed to delete ad'') \<rparr>"

text \<open>The status of a user: the target is the new status, and a reason is required.\<close>

definition status_actions :: "string \<Rightarrow> (string \<times> string) list" where
  "status_actions st =
     (if st = ''active'' then [(''Suspend'', ''suspended''), (''Ban'', ''banned'')]
      else if st = ''suspended'' then [(''Reinstate'', ''active''), (''Ban'', ''banned'')]
      else if st = ''banned'' then [(''Reinstate'', ''active'')] else [])"

definition UserStatusDialog :: "admin_user \<Rightarrow> string ask_spec" where
  "UserStatusDialog u =
     \<lparr> as_open = (\<lambda>a. a \<in> snd ` set (status_actions (au_status u))),
       as_call = (\<lambda>a reason. m_call useUpdateUserStatus (au_public u, a, reason)), as_text = True, as_clears = True,
       as_done = (\<lambda>a. ''User '' @ (if a = ''active'' then ''reinstated'' else a) @ '' successfully.''),
       as_failed = (\<lambda>a msg. or_else_text msg ''Failed to update user status.'') \<rparr>"

definition dialog_title :: "string option \<Rightarrow> string" where
  "dialog_title a =
     (if a = Some ''active'' then ''Reinstate User'' else if a = Some ''suspended'' then ''Suspend User'' else ''Ban User'')"

section \<open>What a dialog does\<close>

interpretation asks: event_machine "ask_next S" "\<lambda>s. s = ask_init" "\<lambda>s. \<forall>x. ak_target s = Some x \<longrightarrow> as_open S x" for S
  by unfold_locales (auto simp: ask_init_def ask_next_def split: ask_event.splits if_splits)

lemma target_step: "ak_target (ask_next S s e) = Some x \<Longrightarrow> ak_target s = Some x \<or> e = AkOpen x"
  by (cases e) (auto simp: ask_next_def split: if_splits)

lemma target_opened:
  "ak_target (run (ask_next S) s es) = Some x \<Longrightarrow> ak_target s = Some x \<or> AkOpen x \<in> set es"
proof (induction es arbitrary: s)
  case (Cons e es)
  then show ?case using target_step [of S s e x] by fastforce
qed simp


definition sample_user :: admin_user where
  "sample_user =
     \<lparr> au_id = 3, au_public = ''u3'', au_first = ''Ann'', au_last = ''Lee'', au_role = ''player'', au_status = ''active'' \<rparr>"


text \<open>
  A dialog closed while its request runs can be opened for another item; the answer of the first
  request closes it again.
\<close>

lemma late_answer_closes_other:
  "ak_pending s = Some x \<Longrightarrow> as_open S y \<Longrightarrow>
     ak_target (run (ask_next S) s [AkClose, AkOpen y]) = Some y \<and>
     ak_target (run (ask_next S) s [AkClose, AkOpen y, AkDone]) = None"
  by (simp add: ask_next_def)

text \<open>No button leads to the status the user has, and a blocked user can always be reinstated.\<close>

lemma status_actions_other:
  "st \<notin> snd ` set (status_actions st)"
  "st \<in> set USER_STATUSES \<Longrightarrow> st \<noteq> ''active'' \<Longrightarrow> ''active'' \<in> snd ` set (status_actions st)"
  by (auto simp: USER_STATUSES_def status_actions_def)

section \<open>Pending venues\<close>

text \<open>Approval without a dialog, rejection with a text, archiving with a question; one mutation for all three.\<close>

record pending_venue =
  pv_id :: int
  pv_name :: string

datatype venue_action = Approve | Reject | Archive

record approval =
  va_reject :: "pending_venue option"
  va_archive :: "pending_venue option"
  va_feedback :: string
  va_pending :: "(venue_action \<times> pending_venue) option"

definition VenueApproval_init :: approval where
  "VenueApproval_init = \<lparr> va_reject = None, va_archive = None, va_feedback = [], va_pending = None \<rparr>"

datatype approval_event =
    VaApprove pending_venue
  | VaOpenReject pending_venue
  | VaFeedback string
  | VaCloseReject
  | VaReject
  | VaOpenArchive pending_venue
  | VaCloseArchive
  | VaArchive
  | VaDone
  | VaFailed

definition approval_next :: "approval \<Rightarrow> approval_event \<Rightarrow> approval" where
  "approval_next s e =
     (case e of
        VaApprove v \<Rightarrow> if va_pending s = None then s\<lparr> va_pending := Some (Approve, v) \<rparr> else s
      | VaOpenReject v \<Rightarrow> if va_pending s = None then s\<lparr> va_reject := Some v, va_feedback := [] \<rparr> else s
      | VaFeedback t \<Rightarrow> if va_reject s = None then s else s\<lparr> va_feedback := t \<rparr>
      | VaCloseReject \<Rightarrow> s\<lparr> va_reject := None \<rparr>
      | VaReject \<Rightarrow>
          (case va_reject s of
             Some v \<Rightarrow> if va_pending s = None \<and> trim (va_feedback s) \<noteq> [] then s\<lparr> va_pending := Some (Reject, v) \<rparr> else s
           | None \<Rightarrow> s)
      | VaOpenArchive v \<Rightarrow> s\<lparr> va_archive := Some v \<rparr>
      | VaCloseArchive \<Rightarrow> s\<lparr> va_archive := None \<rparr>
      | VaArchive \<Rightarrow>
          (case va_archive s of
             Some v \<Rightarrow> if va_pending s = None then s\<lparr> va_pending := Some (Archive, v) \<rparr> else s
           | None \<Rightarrow> s)
      | VaDone \<Rightarrow>
          (case va_pending s of
             Some (Reject, v) \<Rightarrow> s\<lparr> va_pending := None, va_reject := None \<rparr>
           | Some (Archive, v) \<Rightarrow> s\<lparr> va_pending := None, va_archive := None \<rparr>
           | _ \<Rightarrow> s\<lparr> va_pending := None \<rparr>)
      | VaFailed \<Rightarrow> s\<lparr> va_pending := None \<rparr>)"

fun venue_call :: "string \<Rightarrow> venue_action \<times> pending_venue \<Rightarrow> api_call" where
  "venue_call t (Approve, v) = m_call useUpdateVenueStatus_admin (pv_id v, ''published'', None)"
| "venue_call t (Reject, v) = m_call useUpdateVenueStatus_admin (pv_id v, ''draft'', Some t)"
| "venue_call t (Archive, v) = m_call useUpdateVenueStatus_admin (pv_id v, ''archived'', None)"

fun venue_done :: "venue_action \<times> pending_venue \<Rightarrow> string" where
  "venue_done (Approve, v) = pv_name v @ '' approved''"
| "venue_done (Reject, v) = pv_name v @ '' rejected''"
| "venue_done (Archive, v) = pv_name v @ '' archived''"

fun venue_failed :: "venue_action \<times> pending_venue \<Rightarrow> string" where
  "venue_failed (Approve, v) = ''Failed to approve '' @ pv_name v"
| "venue_failed (Reject, v) = ''Failed to reject '' @ pv_name v"
| "venue_failed (Archive, v) = ''Failed to archive '' @ pv_name v"

text \<open>A request is what an event makes pending.\<close>

definition approval_out :: "approval \<Rightarrow> approval_event \<Rightarrow> flow_effect list" where
  "approval_out s e =
     (case (e, va_pending s) of
        (VaDone, Some a) \<Rightarrow> [FlToast ''success'' (venue_done a)]
      | (VaFailed, Some a) \<Rightarrow> [FlToast ''error'' (venue_failed a)]
      | (_, None) \<Rightarrow>
          (case va_pending (approval_next s e) of
             Some a \<Rightarrow> [FlSend (venue_call (va_feedback s) a)]
           | None \<Rightarrow> [])
      | _ \<Rightarrow> [])"

text \<open>A venue is sent back to its owner only with a reason, whatever the order of clicks and answers.\<close>

lemma rejection_has_reason:
  "FlSend (venue_call t (Reject, v)) \<in> set (approval_out s e) \<Longrightarrow> e = VaReject \<and> trim (va_feedback s) \<noteq> []"
  by (cases e; cases "va_pending s"; cases "va_reject s"; cases "va_archive s")
    (auto simp: approval_out_def approval_next_def useUpdateVenueStatus_admin_def split: if_splits)

text \<open>The card of a venue: place, number of courts, date, owner.\<close>

definition VenueCard ::
    "(string \<Rightarrow> string option) \<Rightarrow> string option \<Rightarrow> string option \<Rightarrow> int \<Rightarrow> string \<Rightarrow> string option \<Rightarrow>
     pending_venue \<Rightarrow> string list" where
  "VenueCard ld city state courts created owner v =
     [pv_name v, place_text [city, state], show_int courts @ '' court'' @ (if courts = 1 then [] else ''s''),
      ''Submitted '' @ formatDate ld (Some created)] @
     (if has_str owner then [''By '' @ str_of owner] else [])"

section \<open>API keys\<close>

definition AVAILABLE_SCOPES :: "string list" where
  "AVAILABLE_SCOPES = [''read'']"

record key_form =
  kf_open :: bool
  kf_name :: string
  kf_scopes :: "string list"
  kf_expires :: string
  kf_created :: "string option"           (* the raw key, which the server tells once *)
  kf_pending :: bool

definition resetForm :: "key_form \<Rightarrow> key_form" where
  "resetForm s = s\<lparr> kf_name := [], kf_scopes := [''read''], kf_expires := [], kf_created := None \<rparr>"

definition ApiKeyManager_init :: key_form where
  "ApiKeyManager_init =
     \<lparr> kf_open = False, kf_name = [], kf_scopes = [''read''], kf_expires = [], kf_created = None, kf_pending = False \<rparr>"

definition toggleScope :: "string \<Rightarrow> string list \<Rightarrow> string list" where
  "toggleScope scope prev = (if scope \<in> set prev then filter (\<lambda>t. t \<noteq> scope) prev else prev @ [scope])"

datatype key_event =
    KfOpen
  | KfClose
  | KfName string
  | KfScope string
  | KfExpires string
  | KfCreate
  | KfKeyDone
  | KfCreated "string option"
  | KfFailed

text \<open>The dialog shows the form until there is a key, then the key.\<close>

definition key_shown :: "key_form \<Rightarrow> string option" where
  "key_shown s = (if kf_open s \<and> has_str (kf_created s) then kf_created s else None)"

definition form_shown :: "key_form \<Rightarrow> bool" where
  "form_shown s \<longleftrightarrow> kf_open s \<and> \<not> has_str (kf_created s)"

definition key_ready :: "key_form \<Rightarrow> bool" where
  "key_ready s \<longleftrightarrow> form_shown s \<and> \<not> kf_pending s \<and> trim (kf_name s) \<noteq> [] \<and> kf_scopes s \<noteq> []"

definition key_next :: "key_form \<Rightarrow> key_event \<Rightarrow> key_form" where
  "key_next s e =
     (case e of
        KfOpen \<Rightarrow> (resetForm s)\<lparr> kf_open := True \<rparr>
      | KfClose \<Rightarrow> s\<lparr> kf_open := False \<rparr>
      | KfName t \<Rightarrow> if form_shown s then s\<lparr> kf_name := t \<rparr> else s
      | KfScope t \<Rightarrow>
          if form_shown s \<and> t \<in> set AVAILABLE_SCOPES then s\<lparr> kf_scopes := toggleScope t (kf_scopes s) \<rparr> else s
      | KfExpires t \<Rightarrow> if form_shown s then s\<lparr> kf_expires := t \<rparr> else s
      | KfCreate \<Rightarrow> if key_ready s then s\<lparr> kf_pending := True \<rparr> else s
      | KfKeyDone \<Rightarrow> if key_shown s \<noteq> None then resetForm (s\<lparr> kf_open := False \<rparr>) else s
      | KfCreated k \<Rightarrow>
          if \<not> kf_pending s then s
          else if has_str k then s\<lparr> kf_pending := False, kf_created := k \<rparr>
          else s\<lparr> kf_pending := False, kf_open := False \<rparr>
      | KfFailed \<Rightarrow> s\<lparr> kf_pending := False \<rparr>)"

definition key_out :: "key_form \<Rightarrow> key_event \<Rightarrow> flow_effect list" where
  "key_out s e =
     (case e of
        KfCreate \<Rightarrow>
          if key_ready s
          then [FlSend (m_call useCreateApiKey (kf_name s, Arr (map Str (kf_scopes s)), nonempty (kf_expires s)))] else []
      | KfCreated k \<Rightarrow> if kf_pending s \<and> \<not> has_str k then [FlToast ''success'' ''API key created''] else []
      | KfFailed \<Rightarrow> if kf_pending s then [FlToast ''error'' ''Failed to create API key''] else []
      | _ \<Rightarrow> [])"

definition key_kept :: "key_form \<Rightarrow> bool" where
  "key_kept s \<longleftrightarrow> set (kf_scopes s) \<subseteq> set AVAILABLE_SCOPES \<and> distinct (kf_scopes s)"

lemma toggleScope_kept:
  "distinct ss \<Longrightarrow> distinct (toggleScope t ss)"
  "t \<in> set vs \<Longrightarrow> set ss \<subseteq> set vs \<Longrightarrow> set (toggleScope t ss) \<subseteq> set vs"
  by (auto simp: toggleScope_def)

interpretation api_keys: event_machine key_next "\<lambda>s. s = ApiKeyManager_init" key_kept
proof unfold_locales
  show "s = ApiKeyManager_init \<Longrightarrow> key_kept s" for s
    by (simp add: ApiKeyManager_init_def key_kept_def AVAILABLE_SCOPES_def)
  show "key_kept s \<Longrightarrow> key_kept (key_next s e)" for s e
    by (cases e) (auto simp: key_next_def key_kept_def resetForm_def toggleScope_kept AVAILABLE_SCOPES_def
        toggleScope_def)
qed

text \<open>
  C36. The key the server tells once is lost when the dialog was closed before the answer: the answer
  puts it into the state of a dialog nobody sees, without a message, and opening the dialog again
  throws it away. If the dialog stays open, the key is on screen.
\<close>

theorem created_key_lost:
  assumes "kf_pending s" and "k \<noteq> []"
  shows "list_all (\<lambda>n. key_shown (run key_next s (take n [KfClose, KfCreated (Some k), KfOpen])) = None) [1, 2, 3] \<and>
    kf_created (run key_next s [KfClose, KfCreated (Some k), KfOpen]) = None \<and>
    key_out (key_next s KfClose) (KfCreated (Some k)) = [] \<and>
    (kf_open s \<longrightarrow> key_shown (key_next s (KfCreated (Some k))) = Some k)"
  using assms by (simp_all add: key_next_def key_shown_def resetForm_def key_out_def has_str_def)

definition requested_key :: key_form where
  "requested_key = run key_next ApiKeyManager_init [KfOpen, KfName ''ci'', KfCreate]"

lemma requested_key_pending: "kf_pending requested_key" "kf_open requested_key"
  by (simp_all add: requested_key_def key_next_def ApiKeyManager_init_def form_shown_def key_ready_def resetForm_def
      has_str_def trim_def is_space_def)

theorem created_key_lost_witness:
  "kf_created (run key_next requested_key [KfClose, KfCreated (Some ''secret''), KfOpen]) = None \<and>
   key_shown (key_next requested_key (KfCreated (Some ''secret''))) = Some ''secret''"
  using created_key_lost [OF requested_key_pending(1), of "''secret''"] requested_key_pending(2) by simp

text \<open>A row of the table.\<close>

definition key_cells ::
    "(string \<Rightarrow> string option) \<Rightarrow> (string \<Rightarrow> string) \<Rightarrow> api_key \<Rightarrow> string \<Rightarrow> string list \<Rightarrow> string \<Rightarrow>
     string option \<Rightarrow> string list" where
  "key_cells ld dt k key_prefix scopes created used =
     [ky_name k, key_prefix @ ''...''] @ scopes @
     [formatDate ld (Some created), if has_str used then dt (str_of used) else ''Never'',
      if ky_active k then ''Active'' else ''Revoked'']"

text \<open>
  The body of the pages of keys and uploads: what the query gives, the text of an error, title and
  hint of an empty answer. An answer kept from before is hidden by an error.
\<close>

datatype 'a collection = CoSkeleton | CoError string | CoEmpty string string | CoItems "'a list" | CoNothing

definition collection :: "string \<Rightarrow> string \<Rightarrow> string \<Rightarrow> bool \<Rightarrow> bool \<Rightarrow> 'a list option \<Rightarrow> 'a collection" where
  "collection failed none hint isLoading err data =
     (if isLoading then CoSkeleton
      else if err then CoError failed
      else (case data of
          None \<Rightarrow> CoNothing
        | Some [] \<Rightarrow> CoEmpty none hint
        | Some (x # xs) \<Rightarrow> CoItems (x # xs)))"

definition ApiKeyManager :: "bool \<Rightarrow> bool \<Rightarrow> api_key list option \<Rightarrow> api_key collection" where
  "ApiKeyManager =
     collection ''Failed to load API keys.'' ''No API keys'' ''Create an API key to enable programmatic access.''"

text \<open>
  The copy button shows a tick for two seconds after a copy; the timers of earlier copies keep
  running. \<open>CpTick\<close> is the first timer to end.
\<close>

record copy_button =
  cp_copied :: bool
  cp_timers :: nat

datatype copy_event = CpCopied | CpRefused | CpTick

definition CreatedKeyDisplay_init :: copy_button where
  "CreatedKeyDisplay_init = \<lparr> cp_copied = False, cp_timers = 0 \<rparr>"

definition copyToClipboard :: "copy_button \<Rightarrow> copy_event \<Rightarrow> copy_button" where
  "copyToClipboard s e =
     (case e of
        CpCopied \<Rightarrow> \<lparr> cp_copied = True, cp_timers = Suc (cp_timers s) \<rparr>
      | CpRefused \<Rightarrow> s
      | CpTick \<Rightarrow> if cp_timers s = 0 then s else \<lparr> cp_copied = False, cp_timers = cp_timers s - 1 \<rparr>)"

interpretation copy_buttons: event_machine copyToClipboard "\<lambda>s. s = CreatedKeyDisplay_init"
  "\<lambda>s. cp_copied s \<longrightarrow> 0 < cp_timers s"
  by unfold_locales (auto simp: CreatedKeyDisplay_init_def copyToClipboard_def split: copy_event.splits)

text \<open>So the tick always goes, and after two copies the first timer takes it away early.\<close>

lemma copy_tick_goes:
  "cp_copied (run copyToClipboard CreatedKeyDisplay_init es) \<Longrightarrow>
     \<not> cp_copied (run copyToClipboard CreatedKeyDisplay_init (es @ [CpTick]))"
  using copy_buttons.reachable_inv [of CreatedKeyDisplay_init es] by (simp add: run_append copyToClipboard_def)

lemma copy_tick_early: "\<not> cp_copied (run copyToClipboard CreatedKeyDisplay_init [CpCopied, CpCopied, CpTick])"
  by (simp add: copyToClipboard_def)

section \<open>One user\<close>

text \<open>The role selector beside the status dialog; the page keeps both while the user's data is fetched again.\<close>

record user_page =
  ud_user :: admin_user
  ud_role :: "string option"                (* selectedRole *)
  ud_saving :: bool

definition UserDetail_init :: "admin_user \<Rightarrow> user_page" where
  "UserDetail_init u = \<lparr> ud_user = u, ud_role = None, ud_saving = False \<rparr>"

datatype user_event =
    UdUser admin_user
  | UdRole string
  | UdSave
  | UdSaved
  | UdFailed string

definition currentRole :: "user_page \<Rightarrow> string" where
  "currentRole s = or_default (ud_role s) (au_role (ud_user s))"

definition role_ready :: "user_page \<Rightarrow> bool" where
  "role_ready s \<longleftrightarrow> currentRole s \<noteq> au_role (ud_user s) \<and> currentRole s \<noteq> [] \<and> \<not> ud_saving s"

definition user_next :: "user_page \<Rightarrow> user_event \<Rightarrow> user_page" where
  "user_next s e =
     (case e of
        UdUser u \<Rightarrow> s\<lparr> ud_user := u \<rparr>
      | UdRole r \<Rightarrow> if r \<in> set ALL_ROLES then s\<lparr> ud_role := Some r \<rparr> else s
      | UdSave \<Rightarrow> if role_ready s then s\<lparr> ud_saving := True \<rparr> else s
      | UdSaved \<Rightarrow> if ud_saving s then s\<lparr> ud_saving := False, ud_role := None \<rparr> else s
      | UdFailed msg \<Rightarrow> s\<lparr> ud_saving := False \<rparr>)"

definition user_out :: "user_page \<Rightarrow> user_event \<Rightarrow> flow_effect list" where
  "user_out s e =
     (case e of
        UdSave \<Rightarrow>
          if role_ready s then [FlSend (m_call useUpdateUserRole (au_public (ud_user s), currentRole s))] else []
      | UdSaved \<Rightarrow> if ud_saving s then [FlToast ''success'' ''Role updated successfully.''] else []
      | UdFailed msg \<Rightarrow> if ud_saving s then [FlToast ''error'' (or_else_text msg ''Failed to update role.'')] else []
      | _ \<Rightarrow> [])"

interpretation user_pages: event_machine user_next "\<lambda>s. \<exists>u. s = UserDetail_init u"
  "\<lambda>s. \<forall>r. ud_role s = Some r \<longrightarrow> r \<in> set ALL_ROLES"
  by unfold_locales (auto simp: UserDetail_init_def user_next_def split: user_event.splits if_splits)

text \<open>A role that is sent is one of the list and not the one on screen.\<close>

lemma role_sent_valid:
  assumes "FlSend c \<in> set (user_out (run user_next (UserDetail_init u) es) e)"
  shows "\<exists>r \<in> set ALL_ROLES. c = m_call useUpdateUserRole (au_public (ud_user (run user_next (UserDetail_init u) es)), r) \<and>
    r \<noteq> au_role (ud_user (run user_next (UserDetail_init u) es))"
proof -
  let ?s = "run user_next (UserDetail_init u) es"
  have r: "role_ready ?s" and c: "c = m_call useUpdateUserRole (au_public (ud_user ?s), currentRole ?s)"
    using assms by (cases e; simp add: user_out_def split: if_splits)+
  then obtain x where "ud_role ?s = Some x" by (auto simp: role_ready_def currentRole_def or_default_def split: option.splits)
  moreover from this have "x \<in> set ALL_ROLES" using user_pages.reachable_inv [of "UserDetail_init u" es] by blast
  ultimately show ?thesis using r c by (auto simp: role_ready_def currentRole_def or_default_def)
qed

text \<open>A role chosen while another one is being saved is dropped by the answer.\<close>

lemma role_choice_lost:
  "ud_saving s \<Longrightarrow> r \<in> set ALL_ROLES \<Longrightarrow> ud_role (run user_next s [UdRole r, UdSaved]) = None"
  by (simp add: user_next_def)

text \<open>Viewing as the user: not while impersonating, not a blocked user, not oneself.\<close>

definition can_impersonate :: "bool \<Rightarrow> string option \<Rightarrow> admin_user \<Rightarrow> bool" where
  "can_impersonate impersonating me u \<longleftrightarrow> \<not> impersonating \<and> au_status u = ''active'' \<and> me \<noteq> Some (au_public u)"

definition handleImpersonate :: "admin_user \<Rightarrow> string option \<Rightarrow> flow_effect list" where
  "handleImpersonate u answer =
     (case answer of
        None \<Rightarrow> [FlGo ''/dashboard'']
      | Some msg \<Rightarrow> [FlToast ''error'' (or_else_text msg ''Failed to start impersonation.'')])"

definition ROLE_VARIANT :: "(string \<times> string) list" where
  "ROLE_VARIANT =
     [(''platform_admin'', ''error''), (''organization_admin'', ''warning''), (''league_admin'', ''warning''),
      (''tournament_director'', ''info''), (''head_referee'', ''info''), (''referee'', ''info''),
      (''scorekeeper'', ''default''), (''broadcast_operator'', ''default''), (''team_coach'', ''default''),
      (''api_readonly'', ''default''), (''player'', ''success'')]"

definition ROLE_LABELS :: "(string \<times> string) list" where
  "ROLE_LABELS =
     [(''platform_admin'', ''Platform Admin''), (''organization_admin'', ''Organization Admin''),
      (''league_admin'', ''League Admin''), (''tournament_director'', ''Tournament Director''),
      (''head_referee'', ''Head Referee''), (''referee'', ''Referee''), (''scorekeeper'', ''Scorekeeper''),
      (''broadcast_operator'', ''Broadcast Operator''), (''team_coach'', ''Team Coach''),
      (''api_readonly'', ''API Read-Only''), (''player'', ''Player'')]"

definition looked_up :: "(string \<times> string) list \<Rightarrow> string \<Rightarrow> string \<Rightarrow> string" where
  "looked_up tbl d k = (case map_of tbl k of None \<Rightarrow> d | Some v \<Rightarrow> v)"

text \<open>Variant and text of the badge of a role.\<close>

definition role_badge :: "string \<Rightarrow> string \<times> string" where
  "role_badge r = (looked_up ROLE_VARIANT ''default'' r, looked_up ROLE_LABELS r r)"

lemma roles_labelled: "map fst ROLE_LABELS = ALL_ROLES" "map fst ROLE_VARIANT = ALL_ROLES"
  by (simp_all add: ROLE_LABELS_def ROLE_VARIANT_def ALL_ROLES_def)

datatype user_view = UserSkeleton | UserError string | UserView string "(string \<times> string) list"

definition UserDetail ::
    "(string \<Rightarrow> string option) \<Rightarrow> (string \<Rightarrow> string) \<Rightarrow> bool \<Rightarrow> bool \<Rightarrow>
     (admin_user \<times> string \<times> string option \<times> string option \<times> string \<times> string) option \<Rightarrow> user_view" where
  "UserDetail ld dt isLoading err user =
     (if isLoading then UserSkeleton
      else (case user of
          None \<Rightarrow> UserError (if err then ''Failed to load user.'' else ''User not found.'')
        | Some (u, email, display, born, created, updated) \<Rightarrow>
            if err then UserError ''Failed to load user.''
            else UserView (au_first u @ '' '' @ au_last u)
              [InfoRow ''Public ID'' (Some (au_public u)), InfoRow ''Email'' (Some email),
               InfoRow ''Display Name'' display,
               InfoRow ''Date of Birth'' (if has_str born then Some (formatDate ld born) else None),
               InfoRow ''Created'' (Some (dt created)), InfoRow ''Updated'' (Some (dt updated))]))"

definition user_cells :: "(string \<Rightarrow> string option) \<Rightarrow> admin_user \<Rightarrow> string \<Rightarrow> string \<Rightarrow> string list" where
  "user_cells ld u email created =
     [au_public u, au_first u @ '' '' @ au_last u, email, snd (role_badge (au_role u)),
      snd (StatusBadge (au_status u)), formatDate ld (Some created)]"

section \<open>Activity log\<close>

text \<open>A row opens by a click or a key only if it has metadata; \<open>members\<close> is their number.\<close>

definition has_metadata :: "nat option \<Rightarrow> bool" where
  "has_metadata members \<longleftrightarrow> (case members of None \<Rightarrow> False | Some n \<Rightarrow> 0 < n)"

datatype row_input = RowClick | RowKey string

definition activity_row_next :: "nat option \<Rightarrow> bool \<Rightarrow> row_input \<Rightarrow> bool" where
  "activity_row_next members expanded i =
     (if has_metadata members \<and> (case i of RowClick \<Rightarrow> True | RowKey k \<Rightarrow> k = ''Enter'' \<or> k = '' '')
      then \<not> expanded else expanded)"

definition activity_cells :: "(string \<Rightarrow> string) \<Rightarrow> string \<Rightarrow> string option \<Rightarrow> string \<Rightarrow> string \<Rightarrow> string \<Rightarrow> string list" where
  "activity_cells dt created email action entity ident =
     [dt created, or_default email ''System'', action, formatStatus entity, ident]"

section \<open>Settings\<close>

definition useAdminSettings :: query where
  "useAdminSettings = use_query [Str ''admin-settings''] (ApiGet ''/api/v1/admin/settings'')"

definition useUpdateSettings :: "(string \<times> string) list mutation" where
  "useUpdateSettings =
     use_mutation (\<lambda>data. ApiPut ''/api/v1/admin/settings'' (Obj (map (\<lambda>(k, v). (k, Str v)) data)))
       (\<lambda>_ _. [Invalidate [Str ''admin-settings''], Invalidate [Str ''ghost-config'']])"

definition SETTING_KEYS :: "string list" where
  "SETTING_KEYS = [''ghost_url'', ''ghost_content_api_key'', ''google_maps_api_key'']"

record settings_page =
  sg_seen :: "(string \<times> string) list option"       (* the data of the last effect *)
  sg_values :: "string list"
  sg_saving :: bool

definition AdminSettings_init :: settings_page where
  "AdminSettings_init = \<lparr> sg_seen = None, sg_values = [[], [], []], sg_saving = False \<rparr>"

datatype settings_event = SgData "(string \<times> string) list" | SgInput nat string | SgSave | SgSaved | SgFailed

definition settings_next :: "settings_page \<Rightarrow> settings_event \<Rightarrow> settings_page" where
  "settings_next s e =
     (case e of
        SgData d \<Rightarrow>
          if sg_seen s = Some d then s
          else s\<lparr> sg_seen := Some d, sg_values := map (\<lambda>k. or_default (map_of d k) []) SETTING_KEYS \<rparr>
      | SgInput i t \<Rightarrow> s\<lparr> sg_values := (sg_values s)[i := t] \<rparr>
      | SgSave \<Rightarrow> s\<lparr> sg_saving := True \<rparr>
      | SgSaved \<Rightarrow> s\<lparr> sg_saving := False \<rparr>
      | SgFailed \<Rightarrow> s\<lparr> sg_saving := False \<rparr>)"

definition settings_out :: "settings_page \<Rightarrow> settings_event \<Rightarrow> flow_effect list" where
  "settings_out s e =
     (case e of
        SgSave \<Rightarrow>
          if sg_saving s then [] else [FlSend (m_call useUpdateSettings (zip SETTING_KEYS (map trim (sg_values s))))]
      | SgSaved \<Rightarrow> if sg_saving s then [FlToast ''success'' ''Settings saved''] else []
      | SgFailed \<Rightarrow> if sg_saving s then [FlToast ''error'' ''Failed to save settings''] else []
      | _ \<Rightarrow> [])"

text \<open>What is typed after saving is overwritten when the saved values are fetched.\<close>

lemma settings_edit_lost:
  "sg_seen s \<noteq> Some d \<Longrightarrow>
     sg_values (run settings_next s [SgSave, SgInput i t, SgSaved, SgData d]) = map (\<lambda>k. or_default (map_of d k) []) SETTING_KEYS"
  by (simp add: settings_next_def)

datatype settings_view = SettingsSkeleton | SettingsFailed | SettingsForm "(string \<times> string) list"

definition AdminSettings :: "bool \<Rightarrow> bool \<Rightarrow> settings_page \<Rightarrow> settings_view" where
  "AdminSettings isLoading err s =
     (if isLoading then SettingsSkeleton else if err then SettingsFailed
      else SettingsForm (zip [''Ghost URL'', ''Content API Key'', ''API Key''] (sg_values s)))"

section \<open>Uploads\<close>

text \<open>\<open>(n / 1024).toFixed(1)\<close>: quotients by powers of two are exact, halves are rounded up.\<close>

definition to_fixed_1 :: "nat \<Rightarrow> nat \<Rightarrow> string" where
  "to_fixed_1 n d =
     (let tenths = (20 * n + d) div (2 * d) in show_nat (tenths div 10) @ ''.'' @ show_nat (tenths mod 10))"

definition formatFileSize :: "nat \<Rightarrow> string" where
  "formatFileSize bytes =
     (if bytes < 1024 then show_nat bytes @ '' B''
      else if bytes < 1024 * 1024 then to_fixed_1 bytes 1024 @ '' KB''
      else to_fixed_1 bytes (1024 * 1024) @ '' MB'')"

text \<open>Just below a megabyte the rounded number is 1024.\<close>

lemma file_size_steps:
  "formatFileSize 1023 = ''1023 B''" "formatFileSize 1536 = ''1.5 KB''" "formatFileSize 1048575 = ''1024.0 KB''"
  by (simp_all add: formatFileSize_def to_fixed_1_def show_nat.simps char_of_def bit_simps bit_numeral_rec)

definition isImageType :: "string \<Rightarrow> bool" where
  "isImageType contentType \<longleftrightarrow> take 6 contentType = ''image/''"

record upload =
  up_id :: int
  up_name :: string
  up_type :: string
  up_bytes :: nat
  up_created :: string

definition UploadBrowser :: "bool \<Rightarrow> bool \<Rightarrow> upload list option \<Rightarrow> upload collection" where
  "UploadBrowser = collection ''Failed to load uploads.'' ''No uploads'' ''No files have been uploaded yet.''"

text \<open>Whether the card shows the picture, and its texts.\<close>

definition UploadCard :: "(string \<Rightarrow> string option) \<Rightarrow> upload \<Rightarrow> bool \<times> string list" where
  "UploadCard ld u =
     (isImageType (up_type u),
      [up_name u, up_type u, formatFileSize (up_bytes u), formatDate ld (Some (up_created u))])"

definition cleanOrphans :: "unit mutation" where
  "cleanOrphans =
     use_mutation (\<lambda>_. ApiPost ''/api/v1/admin/uploads/cleanup'' Undef) (\<lambda>_ _. [Invalidate [Str ''uploads'']])"

definition cleaned_text :: "int \<Rightarrow> string" where
  "cleaned_text n = ''Cleaned up '' @ show_int n @ '' orphaned file'' @ (if n = 1 then [] else ''s'')"

text \<open>
  Cleaning up orphaned files leaves the list of files on screen as it is, though deleting one
  refreshes it: the two mutations invalidate different keys.
\<close>

theorem cleaning_leaves_list:
  assumes "key_filter qm"
  shows "\<not> refreshes qm (m_success cleanOrphans data ()) useMyUploads \<and>
    refreshes qm (m_success useDeleteUpload data n) useMyUploads"
  using assms key_filter_scalar [OF assms]
  by (simp add: cleanOrphans_def use_mutation_def key_simps effect_simps)

theorem cleaning_leaves_list_witness:
  "\<not> refreshes prefix (m_success cleanOrphans Null ()) useMyUploads"
  using cleaning_leaves_list [OF key_filter_of_prefix] by blast

section \<open>Advertisements\<close>

definition ads_by_activity :: "('a \<Rightarrow> bool) \<Rightarrow> 'a list \<Rightarrow> 'a list \<times> 'a list" where
  "ads_by_activity active ads = (filter active ads, filter (\<lambda>a. \<not> active a) ads)"

lemma ads_split: "mset (fst (ads_by_activity p ads)) + mset (snd (ads_by_activity p ads)) = mset ads"
  by (simp add: ads_by_activity_def flip: multiset_partition)

text \<open>
  Toggling: every press sends the opposite of what the card shows; the callbacks given to \<open>mutate\<close>
  are kept for the latest call only.
\<close>

record toggles =
  tg_latest :: "(int \<times> string \<times> bool) option"    (* ad, its name, the value sent *)
  tg_running :: "int list"

datatype toggle_event = TgPress int string bool | TgAnswer nat bool

text \<open>While the latest call is unanswered, it is the last of those running.\<close>

definition latest_answered :: "toggles \<Rightarrow> nat \<Rightarrow> bool" where
  "latest_answered s i \<longleftrightarrow> tg_latest s \<noteq> None \<and> Suc i = length (tg_running s)"

definition toggle_next :: "toggles \<Rightarrow> toggle_event \<Rightarrow> toggles" where
  "toggle_next s e =
     (case e of
        TgPress n nm active \<Rightarrow> \<lparr> tg_latest = Some (n, nm, \<not> active), tg_running = tg_running s @ [n] \<rparr>
      | TgAnswer i ok \<Rightarrow>
          \<lparr> tg_latest = if latest_answered s i then None else tg_latest s,
            tg_running = take i (tg_running s) @ drop (Suc i) (tg_running s) \<rparr>)"

definition toggle_out :: "toggles \<Rightarrow> toggle_event \<Rightarrow> flow_effect list" where
  "toggle_out s e =
     (case e of
        TgPress n nm active \<Rightarrow> [FlSend (m_call useToggleAd (n, Bool (\<not> active)))]
      | TgAnswer i ok \<Rightarrow>
          (case tg_latest s of
             Some (n, nm, act) \<Rightarrow>
               if latest_answered s i
               then [if ok then FlToast ''success'' (quoted nm @ (if act then '' activated'' else '' deactivated''))
                     else FlToast ''error'' (if act then ''Failed to activate ad'' else ''Failed to deactivate ad'')]
               else []
           | None \<Rightarrow> []))"

text \<open>If two cards are toggled at once, the answer to the first is not announced, not even a failure.\<close>

lemma earlier_toggle_silent:
  "toggle_out (run toggle_next \<lparr> tg_latest = None, tg_running = [] \<rparr> [TgPress n a x, TgPress m b y]) (TgAnswer 0 ok) = []"
  by (simp add: toggle_next_def toggle_out_def latest_answered_def)

definition ad_preview :: "string \<Rightarrow> string option \<Rightarrow> string" where
  "ad_preview ad_type picture =
     (if ad_type = ''image'' \<and> has_str picture then ''image'' else if ad_type = ''embed'' then ''code'' else ''placeholder'')"

definition AdCard :: "string \<Rightarrow> string \<Rightarrow> string \<Rightarrow> int \<Rightarrow> string list \<Rightarrow> string option \<Rightarrow> string list" where
  "AdCard nm ad_type slot sort_order sizes link =
     [or_else_text nm ''Untitled'', if ad_type = ''embed'' then ''Embed'' else ''Image'',
      ''Slot: '' @ or_else_text slot ''all'', ''Order: '' @ show_int sort_order] @
     (if sizes \<noteq> [] then [''Sizes: '' @ join_with '', '' sizes] else []) @ (if has_str link then [''Link''] else [])"

end
