(* ===== verification/Public_Pages.thy ===== *)
theory Public_Pages
  imports List_Pages
begin

text \<open>
  The public pages (\<open>features/public\<close>): live matches, the schedule, divisions and courts of a
  tournament, league and venue pages, the landing page, and the cards of the directories, whose
  paging is in \<open>List_Pages\<close>. All read answers of \<open>Public_Hooks\<close>; they keep a tab and a filter.
\<close>

section \<open>Groups in the order of their first element\<close>

text \<open>A \<open>Map\<close> from keys to lists, filled in one pass; it keeps its keys in the order they were set.\<close>

fun add_to_bucket :: "('a \<Rightarrow> 'k) \<Rightarrow> ('k \<times> 'a list) list \<Rightarrow> 'a \<Rightarrow> ('k \<times> 'a list) list" where
  "add_to_bucket key [] m = [(key m, [m])]"
| "add_to_bucket key ((k, ms) # rest) m =
     (if k = key m then (k, ms @ [m]) # rest else (k, ms) # add_to_bucket key rest m)"

definition buckets :: "('a \<Rightarrow> 'k) \<Rightarrow> 'a list \<Rightarrow> ('k \<times> 'a list) list" where
  "buckets key ms = foldl (add_to_bucket key) [] ms"

definition first_seen :: "'k list \<Rightarrow> 'k list" where
  "first_seen ks = rev (remdups (rev ks))"

text \<open>What the pass computes, said without a pass.\<close>

definition sections_of :: "('a \<Rightarrow> 'k) \<Rightarrow> 'a list \<Rightarrow> ('k \<times> 'a list) list" where
  "sections_of key ms = map (\<lambda>k. (k, filter (\<lambda>m. key m = k) ms)) (first_seen (map key ms))"

lemma first_seen_snoc: "first_seen (ks @ [k]) = (if k \<in> set ks then first_seen ks else first_seen ks @ [k])"
  by (simp add: first_seen_def)

lemma set_first_seen [simp]: "set (first_seen ks) = set ks"
  by (simp add: first_seen_def)

lemma distinct_first_seen [simp]: "distinct (first_seen ks)"
  by (simp add: first_seen_def)

lemma add_to_bucket_new: "key m \<notin> fst ` set gs \<Longrightarrow> add_to_bucket key gs m = gs @ [(key m, [m])]"
  by (induction key gs m rule: add_to_bucket.induct) auto

lemma add_to_bucket_old:
  "distinct ks \<Longrightarrow> key m \<in> set ks \<Longrightarrow>
     add_to_bucket key (map (\<lambda>k. (k, g k)) ks) m = map (\<lambda>k. (k, if k = key m then g k @ [m] else g k)) ks"
  by (induction ks) auto

lemma buckets_sections: "buckets key ms = sections_of key ms"
proof (induction ms rule: rev_induct)
  case Nil
  show ?case by (simp add: buckets_def sections_of_def first_seen_def)
next
  case (snoc m ms)
  have step: "buckets key (ms @ [m]) = add_to_bucket key (sections_of key ms) m"
    using snoc by (simp add: buckets_def)
  show ?case
  proof (cases "key m \<in> set (map key ms)")
    case True
    then have "add_to_bucket key (sections_of key ms) m =
        map (\<lambda>k. (k, if k = key m then filter (\<lambda>x. key x = k) ms @ [m] else filter (\<lambda>x. key x = k) ms))
          (first_seen (map key ms))"
      unfolding sections_of_def by (intro add_to_bucket_old) simp_all
    then show ?thesis using True by (auto simp: step sections_of_def first_seen_snoc)
  next
    case False
    then have "filter (\<lambda>x. key x = key m) ms = []" by (fastforce simp: filter_empty_conv image_iff)
    moreover have "add_to_bucket key (sections_of key ms) m = sections_of key ms @ [(key m, [m])]"
      using False by (intro add_to_bucket_new) (auto simp: sections_of_def)
    ultimately show ?thesis using False by (auto simp: step sections_of_def first_seen_snoc)
  qed
qed

lemma filter_split_mset: "distinct ks \<Longrightarrow> set (map key ms) \<subseteq> set ks \<Longrightarrow>
    mset (concat (map (\<lambda>k. filter (\<lambda>m. key m = k) ms) ks)) = mset ms"
proof (induction ks arbitrary: ms)
  case (Cons k ks)
  have rest: "filter (\<lambda>m. key m = j) (filter (\<lambda>m. key m \<noteq> k) ms) = filter (\<lambda>m. key m = j) ms" if "j \<in> set ks" for j
    using that Cons.prems(1) by (auto intro: filter_cong)
  have "mset (concat (map (\<lambda>j. filter (\<lambda>m. key m = j) (filter (\<lambda>m. key m \<noteq> k) ms)) ks)) =
      mset (filter (\<lambda>m. key m \<noteq> k) ms)"
    using Cons.prems by (intro Cons.IH) auto
  then have "mset (concat (map (\<lambda>j. filter (\<lambda>m. key m = j) ms) ks)) = mset (filter (\<lambda>m. key m \<noteq> k) ms)"
    using rest by (simp cong: map_cong)
  then show ?case using multiset_partition [of "mset ms" "\<lambda>m. key m = k"] by simp
qed simp

lemma sections_complete: "mset (concat (map snd (sections_of key ms))) = mset ms"
  using filter_split_mset [of "first_seen (map key ms)" key ms] by (simp add: sections_of_def o_def)

section \<open>Live matches\<close>

record public_team =
  ut_name :: string
  ut_color :: "string option"

record public_match =
  um_id :: int
  um_public :: string
  um_tournament :: "string option"
  um_court :: "string option"
  um_round :: "int option"
  um_round_name :: "string option"
  um_team1 :: "public_team option"
  um_team2 :: "public_team option"
  um_seed1 :: "int option"
  um_seed2 :: "int option"
  um_score1 :: int
  um_score2 :: int
  um_games1 :: int
  um_games2 :: int
  um_serving :: "int option"
  um_sets_to_win :: int
  um_set :: int
  um_best_of :: int
  um_status :: string

definition team_name :: "public_team option \<Rightarrow> string" where
  "team_name t = (case t of None \<Rightarrow> ''TBD'' | Some u \<Rightarrow> ut_name u)"

definition statusLabel :: "string \<Rightarrow> string" where
  "statusLabel st =
     (if st = ''in_progress'' then ''Live'' else if st = ''warmup'' then ''Warmup''
      else if st = ''paused'' then ''Paused'' else spaced st)"

text \<open>The label and whether the dot is animated.\<close>

definition StatusDot :: "string \<Rightarrow> string \<times> bool" where
  "StatusDot st = (statusLabel st, st = ''in_progress'')"

record live_row =
  lr_name :: string
  lr_color :: "string option"          (* \<open>None\<close>: the border colour *)
  lr_serving :: bool
  lr_games :: "int option"
  lr_score :: int

definition live_TeamRow :: "public_team option \<Rightarrow> int \<Rightarrow> int \<Rightarrow> bool \<Rightarrow> int \<Rightarrow> live_row" where
  "live_TeamRow t score gamesWon isServing setsToWin =
     \<lparr> lr_name = team_name t,
       lr_color = (case t of None \<Rightarrow> None | Some u \<Rightarrow> if has_str (ut_color u) then ut_color u else None),
       lr_serving = isServing, lr_games = (if 1 < setsToWin then Some gamesWon else None), lr_score = score \<rparr>"

record live_card =
  lc_link :: string
  lc_status :: "string \<times> bool"
  lc_place :: "string list"
  lc_rows :: "live_row list"
  lc_footer :: "string list"

definition LiveMatchCard :: "public_match \<Rightarrow> live_card" where
  "LiveMatchCard m =
     \<lparr> lc_link = ''/matches/'' @ um_public m, lc_status = StatusDot (um_status m),
       lc_place = map str_of (filter has_str [um_court m, um_round_name m]),
       lc_rows =
         [live_TeamRow (um_team1 m) (um_score1 m) (um_games1 m) (um_serving m = Some 1) (um_sets_to_win m),
          live_TeamRow (um_team2 m) (um_score2 m) (um_games2 m) (um_serving m = Some 2) (um_sets_to_win m)],
       lc_footer = or_default (um_tournament m) ''Quick Match'' #
         (if 1 < um_sets_to_win m
          then [''Set '' @ show_int (um_set m) @ '' of '' @ show_int (um_best_of m)] else []) \<rparr>"

definition tournament_key :: "public_match \<Rightarrow> string" where
  "tournament_key m = or_default (um_tournament m) ''Quick Matches''"

definition groupByTournament :: "public_match list \<Rightarrow> (string \<times> public_match list) list" where
  "groupByTournament = buckets tournament_key"

definition plural :: "int \<Rightarrow> string \<Rightarrow> string" where
  "plural n ending = (if n = 1 then [] else ending)"

definition live_header :: "bool \<Rightarrow> int \<Rightarrow> string" where
  "live_header isLoading tot =
     (if isLoading then ''Loading...''
      else if 0 < tot then show_int tot @ '' match'' @ plural tot ''es'' @ '' in progress''
      else ''No matches in progress right now'')"

datatype live_view =
    LiveSkeleton
  | LiveError
  | LiveEmpty
  | LiveSections "(string \<times> string \<times> live_card list) list"

definition live_query :: query where
  "live_query = useLiveMatches 50 0"

text \<open>The page: its header, and one section for each tournament with its number of matches.\<close>

definition LivePage :: "bool \<Rightarrow> bool \<Rightarrow> (public_match list \<times> int) option \<Rightarrow> string \<times> live_view" where
  "LivePage isLoading isError data =
     (let ms = (case data of None \<Rightarrow> [] | Some d \<Rightarrow> fst d); tot = (case data of None \<Rightarrow> 0 | Some d \<Rightarrow> snd d) in
      (live_header isLoading tot,
       if isLoading then LiveSkeleton else if isError then LiveError else if ms = [] then LiveEmpty
       else LiveSections (map (\<lambda>(t, group). (t,
         show_int (int (length group)) @ '' match'' @ plural (int (length group)) ''es'', map LiveMatchCard group))
           (groupByTournament ms))))"

section \<open>The schedule of a tournament\<close>

datatype schedule_filter = AllMatches | LiveMatches | UpcomingMatches | CompletedMatches

definition LIVE_STATUSES :: "string list" where
  "LIVE_STATUSES = [''in_progress'', ''warmup'', ''paused'']"

definition DONE_STATUSES :: "string list" where
  "DONE_STATUSES = [''completed'', ''forfeited'', ''cancelled'']"

fun under_filter :: "schedule_filter \<Rightarrow> public_match \<Rightarrow> bool" where
  "under_filter LiveMatches m = (um_status m \<in> set LIVE_STATUSES)"
| "under_filter UpcomingMatches m = (um_status m = ''scheduled'')"
| "under_filter CompletedMatches m = (um_status m \<in> set DONE_STATUSES)"
| "under_filter AllMatches m = True"

definition round_key :: "public_match \<Rightarrow> string" where
  "round_key m =
     (case um_round_name m of
        Some t \<Rightarrow> t
      | None \<Rightarrow>
          (case um_round m of None \<Rightarrow> ''Unassigned''
           | Some n \<Rightarrow> if n = 0 then ''Unassigned'' else ''Round '' @ show_int n))"

datatype match_dot = LiveDot | DoneDot | WaitingDot

text \<open>A number put into the page by \<open>seed && ...\<close>: 0 is written as it is.\<close>

definition TeamLabel :: "public_team option \<Rightarrow> int option \<Rightarrow> string list" where
  "TeamLabel t seed =
     (case seed of None \<Rightarrow> [] | Some n \<Rightarrow> if n = 0 then [''0''] else [''['' @ show_int n @ '']'']) @ [team_name t]"

record match_row =
  mr_link :: string
  mr_dot :: match_dot
  mr_teams :: "(string list \<times> int) list"
  mr_court :: "string option"

definition MatchRow :: "public_match \<Rightarrow> match_row" where
  "MatchRow m =
     \<lparr> mr_link = ''/matches/'' @ um_public m,
       mr_dot = (if um_status m = ''in_progress'' then LiveDot
                 else if um_status m \<in> set DONE_STATUSES then DoneDot else WaitingDot),
       mr_teams = [(TeamLabel (um_team1 m) (um_seed1 m), um_score1 m), (TeamLabel (um_team2 m) (um_seed2 m), um_score2 m)],
       mr_court = (if has_str (um_court m) then um_court m else None) \<rparr>"

datatype schedule_view =
    ScheduleSkeleton
  | ScheduleEmpty
  | NoneUnderFilter
  | Rounds "(string \<times> match_row list) list"

definition ScheduleTab :: "schedule_filter \<Rightarrow> bool \<Rightarrow> public_match list \<Rightarrow> schedule_view" where
  "ScheduleTab f isLoading ms =
     (if isLoading then ScheduleSkeleton
      else if ms = [] then ScheduleEmpty
      else (let filtered = filter (under_filter f) ms in
        if filtered = [] then NoneUnderFilter
        else Rounds (map (\<lambda>(r, rms). (r, map MatchRow rms)) (buckets round_key filtered))))"

section \<open>Divisions and courts\<close>

record public_division =
  ud_name :: string
  ud_status :: string
  ud_format :: string
  ud_bracket :: string
  ud_max_teams :: "int option"
  ud_gender :: "string option"
  ud_skill_min :: "rat option"
  ud_skill_max :: "rat option"
  ud_phase :: "string option"

definition range_dash :: string where
  "range_dash = [CHR 0xE2, CHR 0x80, CHR 0x93]"

text \<open>Name, badge and the texts of the card; \<open>num\<close> writes a number. A limit of 0 is written as 0.\<close>

definition DivisionCard :: "(rat \<Rightarrow> string) \<Rightarrow> public_division \<Rightarrow> string \<times> string \<times> string list" where
  "DivisionCard num d =
     (ud_name d, snd (StatusBadge (ud_status d)),
      [formatStatus (ud_format d), formatStatus (ud_bracket d)] @
      (case ud_max_teams d of None \<Rightarrow> []
       | Some n \<Rightarrow> if n = 0 then [''0''] else [''Max '' @ show_int n @ '' teams'']) @
      (if has_str (ud_gender d) then [formatStatus (str_of (ud_gender d))] else []) @
      (case (ud_skill_min d, ud_skill_max d) of
         (Some a, Some b) \<Rightarrow> [''Skill '' @ num a @ range_dash @ num b] | _ \<Rightarrow> []) @
      (if has_str (ud_phase d) then [formatStatus (str_of (ud_phase d))] else []))"

datatype 'a tab_view = TabSkeleton | TabEmpty string string | TabItems "'a list"

definition tab_view :: "string \<Rightarrow> string \<Rightarrow> bool \<Rightarrow> 'a list \<Rightarrow> 'a tab_view" where
  "tab_view none hint isLoading xs =
     (if isLoading then TabSkeleton else if xs = [] then TabEmpty none hint else TabItems xs)"

definition DivisionsTab :: "bool \<Rightarrow> public_division list \<Rightarrow> public_division tab_view" where
  "DivisionsTab = tab_view ''No divisions yet'' ''Divisions will appear here once the tournament is set up.''"

record public_court =
  uc_name :: string
  uc_show :: bool
  uc_surface :: "string option"
  uc_stream_url :: "string option"
  uc_stream_type :: "string option"
  uc_stream_live :: bool
  uc_active :: "public_match option"
  uc_on_deck :: "public_match option"

definition hasLive :: "public_court \<Rightarrow> bool" where
  "hasLive c \<longleftrightarrow> (case uc_active c of None \<Rightarrow> False | Some m \<Rightarrow> um_status m = ''in_progress'')"

definition active_label :: "public_court \<Rightarrow> public_match \<Rightarrow> string" where
  "active_label c m = (if hasLive c then ''LIVE'' else map to_upper (spaced (um_status m)))"

datatype court_line =
    ActiveLine string "string option" "(string \<times> int) list" string        (* label, heading, rows, link *)
  | OnDeckLine string
  | NoLine

record court_view =
  cv_name :: string
  cv_show :: bool
  cv_pulse :: bool
  cv_line :: court_line
  cv_stream :: "embed option"
  cv_surface :: "string option"

text \<open>The card of a court on a tournament's page shows the round of the match, on a venue's page its tournament.\<close>

definition court_view :: "string \<Rightarrow> (public_match \<Rightarrow> string option) \<Rightarrow> public_court \<Rightarrow> court_view" where
  "court_view hostname heading c =
     \<lparr> cv_name = uc_name c, cv_show = uc_show c, cv_pulse = hasLive c,
       cv_line =
         (case uc_active c of
            Some m \<Rightarrow> ActiveLine (active_label c m) (if has_str (heading m) then heading m else None)
              [(team_name (um_team1 m), um_score1 m), (team_name (um_team2 m), um_score2 m)] (''/matches/'' @ um_public m)
          | None \<Rightarrow>
              (case uc_on_deck c of
                 Some m \<Rightarrow> OnDeckLine (''On deck: '' @ team_name (um_team1 m) @ '' vs '' @ team_name (um_team2 m))
               | None \<Rightarrow> NoLine)),
       cv_stream =
         (if has_str (uc_stream_url c) \<and> uc_stream_live c
          then Some (StreamEmbed hostname (str_of (uc_stream_url c)) (uc_stream_type c) False) else None),
       cv_surface = (if has_str (uc_surface c) then uc_surface c else None) \<rparr>"

definition CourtCard :: "string \<Rightarrow> public_court \<Rightarrow> court_view" where
  "CourtCard hostname = court_view hostname um_round_name"

definition VenueCourtCard :: "string \<Rightarrow> public_court \<Rightarrow> court_view" where
  "VenueCourtCard hostname = court_view hostname um_tournament"

definition activeCourts :: "public_court list \<Rightarrow> public_court list" where
  "activeCourts = filter (\<lambda>c. uc_active c \<noteq> None)"

definition CourtsTab :: "bool \<Rightarrow> public_court list \<Rightarrow> public_court tab_view" where
  "CourtsTab = tab_view ''No courts assigned'' ''Courts will appear here once they are assigned to this tournament.''"

definition active_courts_line :: "public_court list \<Rightarrow> string option" where
  "active_courts_line cs =
     (let n = int (length (activeCourts cs)) in
      if 0 < n then Some (show_int n @ '' court'' @ plural n ''s'' @ '' with active matches'') else None)"

definition VenueCourtsTab :: "bool \<Rightarrow> public_court list \<Rightarrow> public_court tab_view" where
  "VenueCourtsTab = tab_view ''No courts listed'' ''Courts will appear here when added to this venue.''"

section \<open>A tournament\<close>

record public_tournament =
  pt_id :: int
  pt_name :: string
  pt_slug :: string
  pt_status :: string
  pt_start :: "string option"
  pt_end :: "string option"
  pt_venue :: "string option"
  pt_city :: "string option"
  pt_state :: "string option"
  pt_divisions :: "int option"
  pt_registrations :: "int option"
  pt_description :: "string option"

text \<open>\<open>[a, b].filter(Boolean).join(', ')\<close>, and the line that is left out when it is not wanted.\<close>

definition place :: "string option list \<Rightarrow> string" where
  "place parts = join_present '', '' (map str_of parts)"

definition line_if :: "bool \<Rightarrow> string \<Rightarrow> string list" where
  "line_if b t = (if b then [t] else [])"

definition spaced_dash :: string where
  "spaced_dash = '' '' @ range_dash @ '' ''"

definition date_span :: "(string \<Rightarrow> string option) \<Rightarrow> string option \<Rightarrow> string option \<Rightarrow> string" where
  "date_span ld start stop =
     formatDate ld start @ (if has_str stop \<and> stop \<noteq> start then spaced_dash @ formatDate ld stop else [])"

definition live_count :: "public_match list \<Rightarrow> nat" where
  "live_count ms = length (filter (\<lambda>m. um_status m = ''in_progress'') ms)"

definition tournament_header ::
    "(string \<Rightarrow> string option) \<Rightarrow> public_tournament \<Rightarrow> public_match list \<Rightarrow> string list" where
  "tournament_header ld t ms =
     [pt_name t, snd (StatusBadge (pt_status t)), date_span ld (pt_start t) (pt_end t)] @
     line_if (has_str (pt_venue t) \<or> has_str (pt_city t)) (place [pt_venue t, pt_city t]) @
     line_if (0 < live_count ms) (show_nat (live_count ms) @ '' live'')"

definition count_row :: "string \<Rightarrow> int option \<Rightarrow> (string \<times> string) list" where
  "count_row label n = (case n of None \<Rightarrow> [] | Some k \<Rightarrow> [InfoRow label (Some (show_int k))])"

text \<open>Rows of the overview and the description.\<close>

definition OverviewTab :: "(string \<Rightarrow> string option) \<Rightarrow> public_tournament \<Rightarrow> (string \<times> string) list \<times> string option" where
  "OverviewTab ld t =
     ([InfoRow ''Start Date'' (Some (formatDate ld (pt_start t))),
       InfoRow ''End Date'' (if has_str (pt_end t) then Some (formatDate ld (pt_end t)) else None),
       InfoRow ''Venue'' (pt_venue t), InfoRow ''Location'' (Some (place [pt_city t, pt_state t]))] @
      count_row ''Divisions'' (pt_divisions t) @ count_row ''Registrations'' (pt_registrations t),
      if has_str (pt_description t) then RichTextDisplay (pt_description t) else None)"

text \<open>The button of an open registration: the tournament's page, or the login with the way back.\<close>

datatype register_link = RegisterNow string | SignIn "string option"

definition register_link :: "bool \<Rightarrow> public_tournament \<Rightarrow> register_link option" where
  "register_link isAuthenticated t =
     (if pt_status t \<noteq> ''registration_open'' then None
      else if isAuthenticated then Some (RegisterNow (''/tournaments/'' @ show_int (pt_id t)))
      else Some (SignIn (Some (''/public/tournaments/'' @ pt_slug t))))"

text \<open>
  Tab and filter. The filter belongs to the schedule, which is mounted while its tab is active, so
  leaving the tab forgets it. A tab is a button; the label may carry a count.
\<close>

record public_page =
  pp_tab :: string
  pp_filter :: schedule_filter

definition PublicTournamentDetail_init :: public_page where
  "PublicTournamentDetail_init = \<lparr> pp_tab = ''overview'', pp_filter = AllMatches \<rparr>"

definition tournament_tabs :: "'a list option \<Rightarrow> 'b list option \<Rightarrow> 'c list option \<Rightarrow> (string \<times> nat option) list" where
  "tournament_tabs divisions matches courts =
     [(''overview'', None), (''divisions'', map_option length divisions), (''schedule'', map_option length matches),
      (''courts'', map_option length courts)]"

datatype public_event = PbTab string | PbFilter schedule_filter

definition public_next :: "public_page \<Rightarrow> public_event \<Rightarrow> public_page" where
  "public_next s e =
     (case e of
        PbTab t \<Rightarrow>
          if t \<in> {''overview'', ''divisions'', ''schedule'', ''courts''}
          then s\<lparr> pp_tab := t, pp_filter := (if t = pp_tab s then pp_filter s else AllMatches) \<rparr> else s
      | PbFilter f \<Rightarrow> if pp_tab s = ''schedule'' then s\<lparr> pp_filter := f \<rparr> else s)"

datatype tournament_body =
    OverviewBody "(string \<times> string) list" "string option"
  | DivisionsBody "public_division tab_view"
  | ScheduleBody schedule_view
  | CourtsBody "public_court tab_view" "string option"

definition tournament_body ::
    "(string \<Rightarrow> string option) \<Rightarrow> public_page \<Rightarrow> public_tournament \<Rightarrow> bool \<times> public_division list option \<Rightarrow>
     bool \<times> public_match list option \<Rightarrow> bool \<times> public_court list option \<Rightarrow> tournament_body" where
  "tournament_body ld s t ds ms cs =
     (let or_none = (\<lambda>x. case x of None \<Rightarrow> [] | Some xs \<Rightarrow> xs);
          matches = (case snd ms of None \<Rightarrow> [] | Some xs \<Rightarrow> xs);
          courts = (case snd cs of None \<Rightarrow> [] | Some xs \<Rightarrow> xs) in
      if pp_tab s = ''divisions'' then DivisionsBody (DivisionsTab (fst ds) (or_none (snd ds)))
      else if pp_tab s = ''schedule'' then ScheduleBody (ScheduleTab (pp_filter s) (fst ms) matches)
      else if pp_tab s = ''courts'' then CourtsBody (CourtsTab (fst cs) courts)
        (if fst cs \<or> courts = [] then None else active_courts_line courts)
      else OverviewBody (fst (OverviewTab ld t)) (snd (OverviewTab ld t)))"

datatype detail_view = DetailSkeleton | DetailFailed string | DetailOf public_tournament

definition PublicTournamentDetail :: "bool \<Rightarrow> bool \<Rightarrow> public_tournament option \<Rightarrow> detail_view" where
  "PublicTournamentDetail isLoading isError t =
     (if isLoading then DetailSkeleton
      else if isError then DetailFailed ''Failed to load tournament details. Please try again later.''
      else (case t of None \<Rightarrow> DetailFailed ''Tournament not found.'' | Some x \<Rightarrow> DetailOf x))"

section \<open>Leagues and venues\<close>

record public_league =
  pl_name :: string
  pl_slug :: string
  pl_status :: string
  pl_city :: "string option"
  pl_state :: "string option"
  pl_description :: "string option"

record public_season =
  ps_name :: string
  ps_status :: string
  ps_start :: "string option"
  ps_end :: "string option"
  ps_method :: "string option"
  ps_description :: "string option"

record public_venue =
  pn_name :: string
  pn_slug :: string
  pn_city :: "string option"
  pn_state :: "string option"
  pn_country :: "string option"
  pn_courts :: "int option"

definition league_header :: "public_league \<Rightarrow> string list" where
  "league_header l =
     [pl_name l, snd (StatusBadge (pl_status l))] @
     line_if (has_str (pl_city l) \<or> has_str (pl_state l)) (place [pl_city l, pl_state l])"

definition league_overview :: "public_league \<Rightarrow> (string \<times> string) list \<times> string option" where
  "league_overview l =
     ([InfoRow ''Status'' (Some (spaced (pl_status l))), InfoRow ''Location'' (Some (place [pl_city l, pl_state l]))],
      if has_str (pl_description l) then RichTextDisplay (pl_description l) else None)"

definition PublicLeagueDetail :: "bool \<Rightarrow> bool \<Rightarrow> public_league option \<Rightarrow> string list + string option" where
  "PublicLeagueDetail isLoading isError l =
     (if isLoading then Inr None
      else if isError then Inr (Some ''Failed to load league details. Please try again later.'')
      else (case l of None \<Rightarrow> Inr (Some ''League not found.'') | Some x \<Rightarrow> Inl (league_header x)))"

definition SeasonCard :: "(string \<Rightarrow> string option) \<Rightarrow> public_season \<Rightarrow> string list" where
  "SeasonCard ld s =
     [ps_name s, snd (StatusBadge (ps_status s))] @
     line_if (has_str (ps_start s))
       (formatDate ld (ps_start s) @ (if has_str (ps_end s) then spaced_dash @ formatDate ld (ps_end s) else [])) @
     line_if (has_str (ps_method s)) (formatStatus (str_of (ps_method s))) @
     line_if (has_str (ps_description s)) (str_of (ps_description s))"

definition positive :: "int option \<Rightarrow> bool" where
  "positive n \<longleftrightarrow> (case n of None \<Rightarrow> False | Some k \<Rightarrow> 0 < k)"

definition counted :: "int option \<Rightarrow> string" where
  "counted n = (case n of None \<Rightarrow> [] | Some k \<Rightarrow> show_int k)"

definition courts_text :: "int option \<Rightarrow> string" where
  "courts_text n = (case n of None \<Rightarrow> [] | Some k \<Rightarrow> show_int k @ '' court'' @ plural k ''s'')"

text \<open>A tournament in the tab of a league: the plural is fixed.\<close>

definition league_TournamentCard :: "(string \<Rightarrow> string option) \<Rightarrow> public_tournament \<Rightarrow> string list" where
  "league_TournamentCard ld t =
     [pt_name t, snd (StatusBadge (pt_status t))] @
     line_if (has_str (pt_start t)) (date_span ld (pt_start t) (pt_end t)) @
     line_if (has_str (pt_venue t) \<or> has_str (pt_city t)) (place [pt_venue t, pt_city t]) @
     line_if (positive (pt_divisions t)) (counted (pt_divisions t) @ '' divisions'')"

definition venue_header :: "public_venue \<Rightarrow> public_court list option \<Rightarrow> string list" where
  "venue_header v cs =
     (let n = int (length (activeCourts (case cs of None \<Rightarrow> [] | Some xs \<Rightarrow> xs))) in
      [pn_name v] @
      line_if (has_str (pn_city v) \<or> has_str (pn_state v)) (place [pn_city v, pn_state v, pn_country v]) @
      line_if (0 < n) (show_int n @ '' active match'' @ plural n ''es''))"

definition venue_overview :: "public_venue \<Rightarrow> (string \<times> string) list" where
  "venue_overview v =
     [InfoRow ''Location'' (Some (place [pn_city v, pn_state v, pn_country v])),
      InfoRow ''Courts'' (if pn_courts v = None then None else Some (courts_text (pn_courts v)))]"

definition PublicVenueDetail ::
    "bool \<Rightarrow> bool \<Rightarrow> public_venue option \<Rightarrow> public_court list option \<Rightarrow> string list + string option" where
  "PublicVenueDetail isLoading isError v cs =
     (if isLoading then Inr None
      else if isError then Inr (Some ''Failed to load venue details. Please try again later.'')
      else (case v of None \<Rightarrow> Inr (Some ''Venue not found.'') | Some x \<Rightarrow> Inl (venue_header x cs)))"

section \<open>Cards and the landing page\<close>

text \<open>The cards of the directories.\<close>

definition directory_TournamentCard :: "(string \<Rightarrow> string option) \<Rightarrow> public_tournament \<Rightarrow> string list" where
  "directory_TournamentCard ld t =
     [pt_name t, date_span ld (pt_start t) (pt_end t)] @
     line_if (has_str (pt_city t) \<or> has_str (pt_venue t)) (place [pt_venue t, pt_city t]) @
     [snd (StatusBadge (pt_status t))]"

definition directory_LeagueCard :: "public_league \<Rightarrow> string list" where
  "directory_LeagueCard l =
     [pl_name l] @ line_if (has_str (pl_city l) \<or> has_str (pl_state l)) (place [pl_city l, pl_state l]) @
     [snd (StatusBadge (pl_status l))]"

definition directory_VenueCard :: "public_venue \<Rightarrow> string list" where
  "directory_VenueCard v =
     [pn_name v] @ line_if (has_str (pn_city v) \<or> has_str (pn_state v)) (place [pn_city v, pn_state v]) @
     line_if (positive (pn_courts v)) (courts_text (pn_courts v))"

text \<open>
  The cards of the events page. Their range of dates formats with \<open>Intl\<close>, which throws on an
  invalid date (\<open>None\<close>); days, months, years and the three formats are parameters.
\<close>

record 'd date_formats =
  da_parse :: "string \<Rightarrow> 'd option"
  da_same_day :: "'d \<Rightarrow> 'd \<Rightarrow> bool"
  da_month :: "'d \<Rightarrow> int"
  da_year :: "'d \<Rightarrow> int"
  da_day :: "'d \<Rightarrow> int"
  da_full :: "'d \<Rightarrow> string"
  da_short :: "'d \<Rightarrow> string"

definition events_formatDateRange :: "'d date_formats \<Rightarrow> string \<Rightarrow> string option \<Rightarrow> string option" where
  "events_formatDateRange D start stop =
     (case da_parse D start of
        None \<Rightarrow> None
      | Some a \<Rightarrow>
          if \<not> has_str stop then Some (da_full D a)
          else (case da_parse D (str_of stop) of
              None \<Rightarrow> None
            | Some b \<Rightarrow> Some (
                if da_same_day D a b then da_full D a
                else if da_month D a = da_month D b \<and> da_year D a = da_year D b
                then da_short D a @ range_dash @ show_int (da_day D b) @ '', '' @ show_int (da_year D b)
                else da_full D a @ spaced_dash @ da_full D b)))"

definition events_TournamentCard :: "'d date_formats \<Rightarrow> public_tournament \<Rightarrow> string list option" where
  "events_TournamentCard D t =
     (case (if has_str (pt_start t) then map_option (\<lambda>r. [r]) (events_formatDateRange D (str_of (pt_start t)) (pt_end t))
            else Some []) of
        None \<Rightarrow> None
      | Some dates \<Rightarrow> Some ([pt_name t, snd (StatusBadge (pt_status t))] @ dates @
          line_if (place [pt_city t, pt_state t] \<noteq> []) (place [pt_city t, pt_state t]) @
          line_if (positive (pt_divisions t))
            (counted (pt_divisions t) @ '' division'' @ (if pt_divisions t = Some 1 then [] else ''s'')) @
          line_if (positive (pt_registrations t)) (counted (pt_registrations t) @ '' registered'')))"

definition events_LeagueCard :: "public_league \<Rightarrow> string list" where
  "events_LeagueCard l =
     [pl_name l, snd (StatusBadge (pl_status l))] @
     line_if (place [pl_city l, pl_state l] \<noteq> []) (place [pl_city l, pl_state l]) @
     line_if (has_str (pl_description l)) (str_of (pl_description l))"

text \<open>The landing page: three grids of six, each with the same four cases.\<close>

datatype 'a landing = LandingGrid | LandingText string | LandingCards "'a list"

definition landing :: "string \<Rightarrow> string \<Rightarrow> ('b \<Rightarrow> 'a) \<Rightarrow> bool \<Rightarrow> bool \<Rightarrow> 'b list option \<Rightarrow> 'a landing" where
  "landing failed none to_card isLoading err data =
     (if isLoading then LandingGrid
      else if err then LandingText failed
      else (case data of
          None \<Rightarrow> LandingText none
        | Some xs \<Rightarrow> if xs = [] then LandingText none else LandingCards (map to_card xs)))"

definition TournamentCards ::
    "(string \<Rightarrow> string option) \<Rightarrow> bool \<Rightarrow> bool \<Rightarrow> public_tournament list option \<Rightarrow> (string \<times> string list) landing" where
  "TournamentCards ld =
     landing ''Failed to load tournaments.'' ''No tournaments yet.'' (\<lambda>t.
       (''/public/tournaments/'' @ pt_slug t,
        [pt_name t, formatDate ld (pt_start t)] @
        line_if (has_str (pt_city t) \<or> has_str (pt_venue t)) (join_present mid_dot (map str_of [pt_venue t, pt_city t])) @
        [snd (StatusBadge (pt_status t))]))"

definition LeagueCards :: "bool \<Rightarrow> bool \<Rightarrow> public_league list option \<Rightarrow> (string \<times> string list) landing" where
  "LeagueCards =
     landing ''Failed to load leagues.'' ''No leagues yet.'' (\<lambda>l.
       (''/public/leagues/'' @ pl_slug l,
        [pl_name l] @ line_if (has_str (pl_city l)) (place [pl_city l, pl_state l]) @ [snd (StatusBadge (pl_status l))]))"

definition VenueCards :: "bool \<Rightarrow> bool \<Rightarrow> public_venue list option \<Rightarrow> (string \<times> string list) landing" where
  "VenueCards =
     landing ''Failed to load venues.'' ''No venues yet.'' (\<lambda>v.
       (''/public/venues/'' @ pn_slug v,
        [pn_name v] @ line_if (has_str (pn_city v)) (place [pn_city v, pn_state v]) @
        line_if (positive (pn_courts v)) (courts_text (pn_courts v))))"

section \<open>What the pages show\<close>

text \<open>
  C40. Live matches and rounds appear in the order of their first match, each section holds exactly
  the matches of its tournament or round in the order of the answer, and together the sections hold
  every match once: the one pass with a map is the same as filtering for each key.
\<close>

theorem sections_in_order:
  "groupByTournament ms = sections_of tournament_key ms \<and>
   ScheduleTab f False ms =
     (if ms = [] then ScheduleEmpty
      else if filter (under_filter f) ms = [] then NoneUnderFilter
      else Rounds (map (\<lambda>(r, rms). (r, map MatchRow rms)) (sections_of round_key (filter (under_filter f) ms)))) \<and>
   mset (concat (map snd (groupByTournament ms))) = mset ms"
  by (simp add: groupByTournament_def buckets_sections sections_complete ScheduleTab_def)

text \<open>The statuses a match can have (\<open>db/migrations/00018_create_matches.sql\<close>).\<close>

definition MATCH_STATUSES :: "string list" where
  "MATCH_STATUSES =
     [''scheduled'', ''warmup'', ''in_progress'', ''paused'', ''completed'', ''cancelled'', ''forfeited'']"

lemma one_filter:
  "um_status m \<in> set MATCH_STATUSES \<Longrightarrow>
     (under_filter LiveMatches m \<longleftrightarrow> \<not> under_filter UpcomingMatches m \<and> \<not> under_filter CompletedMatches m) \<and>
     (under_filter UpcomingMatches m \<longrightarrow> \<not> under_filter CompletedMatches m)"
  by (auto simp: MATCH_STATUSES_def LIVE_STATUSES_def DONE_STATUSES_def)

text \<open>
  The filters of the schedule divide the matches: every match of the server is under exactly one
  of live, upcoming and completed.
\<close>

theorem schedule_filters_divide:
  assumes "\<forall>m \<in> set ms. um_status m \<in> set MATCH_STATUSES"
  shows "mset (filter (under_filter LiveMatches) ms) + mset (filter (under_filter UpcomingMatches) ms) +
    mset (filter (under_filter CompletedMatches) ms) = mset ms"
  using assms
proof (induction ms)
  case (Cons m ms)
  have "um_status m \<in> set MATCH_STATUSES" using Cons.prems by simp
  note one = one_filter [OF this]
  have ih: "mset (filter (under_filter LiveMatches) ms) + mset (filter (under_filter UpcomingMatches) ms) +
      mset (filter (under_filter CompletedMatches) ms) = mset ms"
    using Cons by simp
  show ?case using one ih
    by (cases "under_filter UpcomingMatches m"; cases "under_filter CompletedMatches m")
      (simp_all del: under_filter.simps)
qed simp

definition sample_public :: "string \<Rightarrow> int option \<Rightarrow> public_match" where
  "sample_public st rnd =
     \<lparr> um_id = 1, um_public = ''m1'', um_tournament = None, um_court = None, um_round = rnd, um_round_name = None,
       um_team1 = None, um_team2 = None, um_seed1 = None, um_seed2 = None, um_score1 = 0, um_score2 = 0,
       um_games1 = 0, um_games2 = 0, um_serving = None, um_sets_to_win = 1, um_set = 1, um_best_of = 1,
       um_status = st \<rparr>"

theorem schedule_filters_divide_witness:
  "length (filter (under_filter CompletedMatches) [sample_public ''paused'' None, sample_public ''forfeited'' None]) = 1 \<and>
   mset (filter (under_filter LiveMatches) [sample_public ''paused'' None, sample_public ''forfeited'' None]) +
   mset (filter (under_filter UpcomingMatches) [sample_public ''paused'' None, sample_public ''forfeited'' None]) +
   mset (filter (under_filter CompletedMatches) [sample_public ''paused'' None, sample_public ''forfeited'' None]) =
   mset [sample_public ''paused'' None, sample_public ''forfeited'' None]"
proof -
  let ?ms = "[sample_public ''paused'' None, sample_public ''forfeited'' None]"
  have "\<forall>m \<in> set ?ms. um_status m \<in> set MATCH_STATUSES" by (simp add: sample_public_def MATCH_STATUSES_def)
  from schedule_filters_divide [OF this]
  show ?thesis by (simp add: sample_public_def DONE_STATUSES_def del: under_filter.simps(1) mset.simps)
qed

section \<open>The way to a registration\<close>

lemma public_path: "RootLayout (''/public/tournaments/'' @ slug) = PublicLayout"
  by (simp add: RootLayout_def NO_SHELL_ROUTES_def NO_SHELL_PATTERNS_def PUBLIC_ROUTE_PATTERNS_def
      path_matches_def path_segments_def)

text \<open>
  A visitor who follows the button of an open registration to the login comes back to the page
  of that tournament, which is shown to anybody; a user with a session is sent to the tournament's
  own page, and without an open registration there is no button.
\<close>

theorem registration_returns:
  "case register_link auth t of
     None \<Rightarrow> pt_status t \<noteq> ''registration_open''
   | Some (SignIn back) \<Rightarrow> \<not> auth \<and> snd (login_step (login_redirect back) s LgDone) =
       [LgNavigate (''/public/tournaments/'' @ pt_slug t)] \<and>
       page_shown v (''/public/tournaments/'' @ pt_slug t)
   | Some (RegisterNow path) \<Rightarrow> auth \<and> path = ''/tournaments/'' @ show_int (pt_id t)"
proof -
  have "page_shown v (''/public/tournaments/'' @ pt_slug t)" by (simp only: page_shown_def public_path layout.case)
  then show ?thesis by (simp add: register_link_def login_redirect_def)
qed

section \<open>Tabs, counts and errors\<close>

interpretation public_pages: event_machine public_next "\<lambda>s. s = PublicTournamentDetail_init"
  "\<lambda>s. pp_tab s \<in> {''overview'', ''divisions'', ''schedule'', ''courts''} \<and>
     (pp_filter s \<noteq> AllMatches \<longrightarrow> pp_tab s = ''schedule'')"
  by unfold_locales
    (auto simp: PublicTournamentDetail_init_def public_next_def split: public_event.splits if_splits)

text \<open>A tab is always one of the four, and a filter is set only while it is on screen.\<close>

lemma public_tab_listed:
  fixes es
  defines "s \<equiv> run public_next PublicTournamentDetail_init es"
  shows "pp_tab s \<in> fst ` set (tournament_tabs ds ms cs)" "pp_filter s \<noteq> AllMatches \<Longrightarrow> pp_tab s = ''schedule''"
  using public_pages.reachable_inv [of PublicTournamentDetail_init es] by (auto simp: s_def tournament_tabs_def)

lemma leaving_forgets_filter:
  "pp_tab s = ''schedule'' \<Longrightarrow>
     pp_filter (run public_next s [PbFilter f, PbTab ''courts'', PbTab ''schedule'']) = AllMatches"
  by (simp add: public_next_def)

text \<open>The header counts the matches in progress; the filter live has those warming up and paused too.\<close>

lemma live_count_partial: "live_count ms \<le> length (filter (under_filter LiveMatches) ms)"
  unfolding live_count_def by (induction ms) (simp_all add: LIVE_STATUSES_def)

lemma paused_not_counted:
  "live_count [sample_public ''paused'' None] = 0 \<and>
   ScheduleTab LiveMatches False [sample_public ''paused'' None] \<noteq> NoneUnderFilter"
  by (simp add: live_count_def ScheduleTab_def sample_public_def LIVE_STATUSES_def)

text \<open>A failed request for divisions, matches or courts is shown as their absence.\<close>

lemma failed_shown_empty:
  "tournament_body ld \<lparr> pp_tab = ''divisions'', pp_filter = f \<rparr> t (False, None) ms cs =
     DivisionsBody (TabEmpty ''No divisions yet'' ''Divisions will appear here once the tournament is set up.'')"
  "tournament_body ld \<lparr> pp_tab = ''schedule'', pp_filter = f \<rparr> t ds (False, None) cs = ScheduleBody ScheduleEmpty"
  by (simp_all add: tournament_body_def DivisionsTab_def tab_view_def ScheduleTab_def)

text \<open>A court is either playing, or has a next match, or neither; a pulse has a match in progress behind it.\<close>

lemma court_line_cases:
  "(cv_line (CourtCard h c) = NoLine) = (uc_active c = None \<and> uc_on_deck c = None)"
  "cv_pulse (CourtCard h c) \<Longrightarrow> \<exists>m hd rows link. uc_active c = Some m \<and> cv_line (CourtCard h c) = ActiveLine ''LIVE'' hd rows link"
  by (auto simp: CourtCard_def court_view_def hasLive_def active_label_def split: option.splits)

end
