(* ===== verification/Record_Panels.thy ===== *)
theory Record_Panels
  imports Admin_Screens Record_Forms
begin

text \<open>
  The panels inside the pages of tournaments, leagues and the registry that edit what belongs to a
  record: announcements (\<open>AnnouncementFeed.tsx\<close>, \<open>LeagueAnnouncementFeed.tsx\<close>), people
  (\<open>MembersPanel.tsx\<close>, \<open>RosterPanel.tsx\<close>, \<open>VenueManagersPanel.tsx\<close>, \<open>TournamentStaff.tsx\<close>), courts
  (\<open>CourtListPanel.tsx\<close>, \<open>TournamentCourts.tsx\<close>), templates and registrations
  (\<open>DivisionTemplateList.tsx\<close>, \<open>LeagueRegistrations.tsx\<close>, \<open>RegistrationTable.tsx\<close>). Dialogs that ask
  before they remove something are those of \<open>Admin_Screens\<close>.
\<close>

section \<open>Sorting by a comparison\<close>

lemma sorted_sort_insert_cmp:
  assumes "\<And>a b. cmp a b \<le> 0 \<or> cmp b a \<le> 0" and "\<And>a b c. cmp a b \<le> 0 \<Longrightarrow> cmp b c \<le> 0 \<Longrightarrow> cmp a c \<le> 0"
  shows "sorted_wrt (\<lambda>a b. cmp a b \<le> 0) ys \<Longrightarrow> sorted_wrt (\<lambda>a b. cmp a b \<le> 0) (sort_insert cmp x ys)"
proof (induction ys)
  case (Cons y ys)
  show ?case
  proof (cases "cmp x y \<le> 0")
    case True
    then show ?thesis using Cons.prems assms(2) by fastforce
  next
    case False
    then have "cmp y x \<le> 0" using assms(1) [of x y] by blast
    then show ?thesis using False Cons by (auto simp: set_sort_insert)
  qed
qed simp

lemma sorted_js_sort_cmp:
  assumes "\<And>a b. cmp a b \<le> 0 \<or> cmp b a \<le> 0" and "\<And>a b c. cmp a b \<le> 0 \<Longrightarrow> cmp b c \<le> 0 \<Longrightarrow> cmp a c \<le> 0"
  shows "sorted_wrt (\<lambda>a b. cmp a b \<le> 0) (js_sort cmp xs)"
proof (induction xs)
  case (Cons x xs)
  then show ?case using sorted_sort_insert_cmp [of cmp, OF assms] by (simp add: js_sort_def)
qed (simp add: js_sort_def)

section \<open>Announcements\<close>

text \<open>\<open>an_time\<close> is the time of creation in milliseconds, \<open>an_created\<close> its text.\<close>

record announcement =
  an_id :: int
  an_title :: string
  an_body :: string
  an_division :: "int option"
  an_pinned :: bool
  an_time :: int
  an_created :: string

definition announcement_compare :: "announcement \<Rightarrow> announcement \<Rightarrow> int" where
  "announcement_compare a b =
     (if an_pinned a \<noteq> an_pinned b then (if an_pinned a then - 1 else 1) else an_time b - an_time a)"

definition sorted_feed :: "announcement list \<Rightarrow> announcement list" where
  "sorted_feed = js_sort announcement_compare"

text \<open>
  The two feeds: the request for a new announcement, and whether there is a division, which is
  chosen only if the tournament has some.
\<close>

record feed_spec =
  fs_create :: "js \<Rightarrow> api_call"
  fs_division :: bool
  fs_choices :: "string list"

record feed =
  fd_open :: bool
  fd_editing :: "int option"
  fd_title :: string
  fd_body :: string
  fd_division :: string
  fd_pinned :: bool
  fd_creating :: bool
  fd_updating :: bool

definition AnnouncementFeed_init :: feed where
  "AnnouncementFeed_init =
     \<lparr> fd_open = False, fd_editing = None, fd_title = [], fd_body = [], fd_division = [], fd_pinned = False,
       fd_creating = False, fd_updating = False \<rparr>"

definition feed_resetForm :: "feed \<Rightarrow> feed" where
  "feed_resetForm s =
     s\<lparr> fd_title := [], fd_body := [], fd_division := [], fd_pinned := False, fd_editing := None, fd_open := False \<rparr>"

definition startEdit :: "feed_spec \<Rightarrow> announcement \<Rightarrow> feed \<Rightarrow> feed" where
  "startEdit F a s =
     s\<lparr> fd_title := an_title a, fd_body := an_body a, fd_pinned := an_pinned a,
        fd_division := (case an_division a of Some n \<Rightarrow> if fs_division F then show_int n else [] | None \<Rightarrow> []),
        fd_editing := Some (an_id a), fd_open := True \<rparr>"

definition feed_payload :: "feed_spec \<Rightarrow> feed \<Rightarrow> js" where
  "feed_payload F s =
     Obj ([(''title'', Str (fd_title s)), (''body'', Str (fd_body s))] @
       (if fs_division F then [(''division_id'', if fd_division s = [] then Null else Num (digits_value (fd_division s)))] else []) @
       [(''is_pinned'', Bool (fd_pinned s))])"

datatype feed_event =
    FdNew
  | FdEdit announcement
  | FdTitle string
  | FdBody string
  | FdDivision string
  | FdPin bool
  | FdCancel
  | FdSubmit
  | FdCreated "string option"        (* the message of an error *)
  | FdUpdated "string option"

definition feed_busy :: "feed \<Rightarrow> bool" where
  "feed_busy s = (if fd_editing s \<noteq> None then fd_updating s else fd_creating s)"

definition feed_sends :: "feed \<Rightarrow> bool" where
  "feed_sends s \<longleftrightarrow> fd_open s \<and> \<not> feed_busy s \<and> trim (fd_title s) \<noteq> []"

definition feed_next :: "feed_spec \<Rightarrow> feed \<Rightarrow> feed_event \<Rightarrow> feed" where
  "feed_next F s e =
     (case e of
        FdNew \<Rightarrow> s\<lparr> fd_open := True \<rparr>
      | FdEdit a \<Rightarrow> startEdit F a s
      | FdTitle t \<Rightarrow> if fd_open s then s\<lparr> fd_title := t \<rparr> else s
      | FdBody t \<Rightarrow> if fd_open s then s\<lparr> fd_body := t \<rparr> else s
      | FdDivision t \<Rightarrow>
          if fd_open s \<and> fs_division F \<and> fs_choices F \<noteq> [] \<and> (t = [] \<or> t \<in> set (fs_choices F))
          then s\<lparr> fd_division := t \<rparr> else s
      | FdPin b \<Rightarrow> if fd_open s then s\<lparr> fd_pinned := b \<rparr> else s
      | FdCancel \<Rightarrow> if fd_open s then feed_resetForm s else s
      | FdSubmit \<Rightarrow>
          if \<not> feed_sends s then s
          else if fd_editing s \<noteq> None then s\<lparr> fd_updating := True \<rparr> else s\<lparr> fd_creating := True \<rparr>
      | FdCreated err \<Rightarrow>
          if \<not> fd_creating s then s
          else if err = None then (feed_resetForm s)\<lparr> fd_creating := False \<rparr> else s\<lparr> fd_creating := False \<rparr>
      | FdUpdated err \<Rightarrow>
          if \<not> fd_updating s then s
          else if err = None then (feed_resetForm s)\<lparr> fd_updating := False \<rparr> else s\<lparr> fd_updating := False \<rparr>)"

definition feed_request :: "feed_spec \<Rightarrow> feed \<Rightarrow> api_call" where
  "feed_request F s =
     (case fd_editing s of
        Some n \<Rightarrow> m_call (useUpdateAnnouncement (show_int n)) (feed_payload F s)
      | None \<Rightarrow> fs_create F (feed_payload F s))"

definition feed_answer :: "string \<Rightarrow> string option \<Rightarrow> flow_effect list" where
  "feed_answer ok err = [case err of None \<Rightarrow> FlToast ''success'' ok | Some msg \<Rightarrow> FlToast ''error'' msg]"

definition feed_out :: "feed_spec \<Rightarrow> feed \<Rightarrow> feed_event \<Rightarrow> flow_effect list" where
  "feed_out F s e =
     (case e of
        FdSubmit \<Rightarrow>
          if \<not> fd_open s \<or> feed_busy s then []
          else if trim (fd_title s) = [] then [FlToast ''error'' ''Title is required'']
          else [FlSend (feed_request F s)]
      | FdCreated err \<Rightarrow> if fd_creating s then feed_answer ''Announcement posted'' err else []
      | FdUpdated err \<Rightarrow> if fd_updating s then feed_answer ''Announcement updated'' err else []
      | _ \<Rightarrow> [])"

definition AnnouncementFeed :: "string \<Rightarrow> int list \<Rightarrow> feed_spec" where
  "AnnouncementFeed tournamentId divisions =
     \<lparr> fs_create = m_call (useCreateTournamentAnnouncement tournamentId), fs_division = True,
       fs_choices = map show_int divisions \<rparr>"

definition LeagueAnnouncementFeed :: "int \<Rightarrow> feed_spec" where
  "LeagueAnnouncementFeed leagueId =
     \<lparr> fs_create = m_call (useCreateLeagueAnnouncement leagueId), fs_division = False, fs_choices = [] \<rparr>"

definition DeleteAnnouncement :: "int ask_spec" where
  "DeleteAnnouncement =
     \<lparr> as_open = (\<lambda>n. True), as_call = (\<lambda>n t. m_call (useDeleteAnnouncement (show_int n)) ()), as_text = False,
       as_clears = False, as_done = (\<lambda>n. ''Announcement deleted''), as_failed = (\<lambda>n msg. msg) \<rparr>"

text \<open>A card: pin, title, body, date and the name of the division if it is among those given.\<close>

definition announcement_card ::
    "(string \<Rightarrow> string) \<Rightarrow> (int \<times> string) list \<Rightarrow> announcement \<Rightarrow> bool \<times> string list" where
  "announcement_card dt divisions a =
     (an_pinned a,
      [an_title a] @ (if an_body a = [] then [] else [an_body a]) @ [dt (an_created a)] @
      (case an_division a of
         None \<Rightarrow> []
       | Some n \<Rightarrow> (case map_of divisions n of None \<Rightarrow> [] | Some nm \<Rightarrow> [nm])))"

text \<open>
  The feed shows every announcement once, the pinned ones before the others and each of the two
  groups from the newest to the oldest.
\<close>

theorem feed_ordered:
  "mset (sorted_feed as) = mset as \<and>
   sorted_wrt (\<lambda>a b. (an_pinned b \<longrightarrow> an_pinned a) \<and> (an_pinned a = an_pinned b \<longrightarrow> an_time b \<le> an_time a)) (sorted_feed as)"
proof
  show "mset (sorted_feed as) = mset as" by (simp add: sorted_feed_def mset_js_sort)
  have "sorted_wrt (\<lambda>a b. announcement_compare a b \<le> 0) (sorted_feed as)"
    unfolding sorted_feed_def by (rule sorted_js_sort_cmp) (auto simp: announcement_compare_def split: if_splits)
  then show "sorted_wrt (\<lambda>a b. (an_pinned b \<longrightarrow> an_pinned a) \<and> (an_pinned a = an_pinned b \<longrightarrow> an_time b \<le> an_time a))
      (sorted_feed as)"
    by (rule sorted_wrt_mono_rel [rotated]) (auto simp: announcement_compare_def split: if_splits)
qed

text \<open>
  The composer sends what it shows: a request is for the announcement being edited, or for a new
  one, with the title and the text in the form, and the title is not blank.
\<close>

theorem feed_sends_form:
  assumes "FlSend c \<in> set (feed_out F s e)"
  shows "e = FdSubmit \<and> fd_open s \<and> trim (fd_title s) \<noteq> [] \<and>
    c = (case fd_editing s of
           Some n \<Rightarrow> ApiPatch (''/api/v1/announcements/'' @ show_int n) (feed_payload F s)
         | None \<Rightarrow> fs_create F (feed_payload F s)) \<and>
    js_opt_get (feed_payload F s) ''title'' = Str (fd_title s)"
  using assms
  by (cases e) (auto simp: feed_out_def feed_request_def feed_answer_def feed_payload_def js_opt_get_def
      useUpdateAnnouncement_def use_mutation_def split: if_splits option.splits)

definition edited_feed :: feed where
  "edited_feed =
     feed_next (LeagueAnnouncementFeed 4) AnnouncementFeed_init
       (FdEdit \<lparr> an_id = 9, an_title = ''Rain'', an_body = [], an_division = None, an_pinned = True, an_time = 0, an_created = [] \<rparr>)"

theorem feed_sends_form_witness:
  "\<exists>b. feed_out (LeagueAnnouncementFeed 4) edited_feed FdSubmit = [FlSend (ApiPatch (''/api/v1/announcements/'' @ show_int 9) b)] \<and>
     js_opt_get b ''title'' = Str ''Rain''"
proof -
  let ?F = "LeagueAnnouncementFeed 4"
  have s: "fd_open edited_feed" "fd_editing edited_feed = Some 9" "fd_title edited_feed = ''Rain''" "\<not> feed_busy edited_feed"
    by (simp_all add: edited_feed_def feed_next_def startEdit_def AnnouncementFeed_init_def feed_busy_def)
  have out: "feed_out ?F edited_feed FdSubmit = [FlSend (feed_request ?F edited_feed)]"
    using s by (simp add: feed_out_def trim_def is_space_def)
  then have "FlSend (feed_request ?F edited_feed) \<in> set (feed_out ?F edited_feed FdSubmit)" by simp
  from feed_sends_form [OF this] show ?thesis using s out by auto
qed

text \<open>
  What is typed into an announcement while a new one is being posted is lost: the answer to the
  post closes the composer whatever it shows.
\<close>

theorem edit_lost_to_post:
  assumes "fd_creating s"
  shows "fd_title (run (feed_next F) s [FdEdit a, FdTitle t]) = t"
    and "fd_open (run (feed_next F) s [FdEdit a, FdTitle t, FdCreated None]) = False"
    and "fd_title (run (feed_next F) s [FdEdit a, FdTitle t, FdCreated None]) = []"
  using assms by (simp_all add: feed_next_def startEdit_def feed_resetForm_def)

theorem edit_lost_to_post_witness:
  "\<exists>s. fd_creating s \<and> fd_title (run (feed_next (LeagueAnnouncementFeed 4)) s [FdEdit a, FdTitle ''x'', FdCreated None]) = []"
proof -
  let ?s = "run (feed_next (LeagueAnnouncementFeed 4)) AnnouncementFeed_init [FdNew, FdTitle ''New'', FdSubmit]"
  have "fd_creating ?s"
    by (simp add: feed_next_def AnnouncementFeed_init_def feed_sends_def feed_busy_def trim_def is_space_def)
  with edit_lost_to_post(3) [OF this, of "LeagueAnnouncementFeed 4" a "''x''"] show ?thesis by blast
qed

text \<open>The page of a tournament gives no divisions, so no announcement of it is for one division.\<close>

lemma no_scope: "feed_next (AnnouncementFeed t []) s (FdDivision d) = s"
  by (simp add: feed_next_def AnnouncementFeed_def)

text \<open>Deleting the announcement being edited leaves the composer open for it.\<close>

lemma deleted_still_edited:
  "fd_editing (feed_next F s (FdEdit a)) = Some (an_id a) \<and>
   (\<forall>d. ak_target d = Some (an_id a) \<longrightarrow> ask_ready DeleteAnnouncement d \<longrightarrow>
      ask_out DeleteAnnouncement d AkConfirm = [FlSend (ApiDelete (''/api/v1/announcements/'' @ show_int (an_id a)))])"
  by (simp add: feed_next_def startEdit_def ask_out_def DeleteAnnouncement_def useDeleteAnnouncement_def use_mutation_def)

section \<open>Adding people\<close>

text \<open>
  A search box with results to pick from, in a dialog (members, roster) or under a button that opens
  and closes it (managers, whose results need two letters and skip those who manage already). The
  first page of all players is there before anything is typed.
\<close>

record picker_spec =
  ps_allowed :: bool                (* the button that opens it is there *)
  ps_add :: "int \<Rightarrow> api_call"
  ps_letters :: nat
  ps_toggle :: bool
  ps_skip :: "int list"
  ps_added :: string
  ps_failed :: "string \<Rightarrow> string"

record picker =
  pk_open :: bool
  pk_search :: string
  pk_applied :: string
  pk_results :: "int list option"
  pk_pending :: bool

definition picker_init :: picker where
  "picker_init = \<lparr> pk_open = False, pk_search = [], pk_applied = [], pk_results = None, pk_pending = False \<rparr>"

datatype picker_event =
    PkOpen
  | PkClose
  | PkSearch string
  | PkSettled
  | PkResults "int list"
  | PkPick int
  | PkAdded
  | PkFailed string

text \<open>The buttons of the results.\<close>

definition pickable :: "picker_spec \<Rightarrow> picker \<Rightarrow> int list" where
  "pickable S s =
     (if pk_open s \<and> \<not> pk_pending s \<and> ps_letters S \<le> length (pk_applied s)
      then filter (\<lambda>n. n \<notin> set (ps_skip S)) (case pk_results s of None \<Rightarrow> [] | Some ns \<Rightarrow> ns) else [])"

definition picker_next :: "picker_spec \<Rightarrow> picker \<Rightarrow> picker_event \<Rightarrow> picker" where
  "picker_next S s e =
     (case e of
        PkOpen \<Rightarrow>
          if \<not> ps_allowed S then s else s\<lparr> pk_open := (if ps_toggle S then \<not> pk_open s else True) \<rparr>
      | PkClose \<Rightarrow> if ps_toggle S then s else s\<lparr> pk_open := False \<rparr>
      | PkSearch t \<Rightarrow> if pk_open s then s\<lparr> pk_search := t \<rparr> else s
      | PkSettled \<Rightarrow>
          if pk_applied s = pk_search s then s else s\<lparr> pk_applied := pk_search s, pk_results := None \<rparr>
      | PkResults ns \<Rightarrow> s\<lparr> pk_results := Some ns \<rparr>
      | PkPick n \<Rightarrow> if n \<in> set (pickable S s) then s\<lparr> pk_pending := True \<rparr> else s
      | PkAdded \<Rightarrow> if pk_pending s then s\<lparr> pk_pending := False, pk_open := False, pk_search := [] \<rparr> else s
      | PkFailed msg \<Rightarrow> s\<lparr> pk_pending := False \<rparr>)"

definition picker_out :: "picker_spec \<Rightarrow> picker \<Rightarrow> picker_event \<Rightarrow> flow_effect list" where
  "picker_out S s e =
     (case e of
        PkPick n \<Rightarrow> if n \<in> set (pickable S s) then [FlSend (ps_add S n)] else []
      | PkAdded \<Rightarrow> if pk_pending s then [FlToast ''success'' (ps_added S)] else []
      | PkFailed msg \<Rightarrow> if pk_pending s then [FlToast ''error'' (ps_failed S msg)] else []
      | _ \<Rightarrow> [])"

definition picker_query :: "picker_spec \<Rightarrow> picker \<Rightarrow> query" where
  "picker_query S s = usePlayerSearch (pk_applied s) (if ps_toggle S then 20 else 10) 0"

definition AddMember :: "bool \<Rightarrow> string \<Rightarrow> picker_spec" where
  "AddMember canManage orgId =
     \<lparr> ps_allowed = canManage, ps_add = (\<lambda>n. m_call (useAddMember orgId) (n, None)), ps_letters = 0, ps_toggle = False, ps_skip = [],
       ps_added = ''Member added'', ps_failed = (\<lambda>msg. msg) \<rparr>"

definition AddPlayer :: "string \<Rightarrow> picker_spec" where
  "AddPlayer teamId =
     \<lparr> ps_allowed = True, ps_add = (\<lambda>n. m_call (useAddPlayerToRoster teamId) (n, None, None)), ps_letters = 0, ps_toggle = False,
       ps_skip = [], ps_added = ''Player added to roster'', ps_failed = (\<lambda>msg. msg) \<rparr>"

record manager =
  mg_user :: int
  mg_public :: string
  mg_role :: string
  mg_first :: string
  mg_last :: string
  mg_display :: "string option"

definition manages :: "string option \<Rightarrow> string option \<Rightarrow> manager list \<Rightarrow> bool" where
  "manages role me managers \<longleftrightarrow>
     role = Some ''platform_admin'' \<or> list_ex (\<lambda>m. Some (mg_public m) = me \<and> mg_role m = ''admin'') managers"

definition AddManager :: "string \<Rightarrow> string option \<Rightarrow> string option \<Rightarrow> manager list \<Rightarrow> picker_spec" where
  "AddManager venueId role me managers =
     \<lparr> ps_allowed = manages role me managers, ps_add = (\<lambda>n. m_call (useAddVenueManager venueId) (n, Some ''manager'')), ps_letters = 2, ps_toggle = True,
       ps_skip = map mg_user managers, ps_added = ''Manager added'', ps_failed = (\<lambda>msg. ''Failed to add manager'') \<rparr>"

text \<open>What stands under the search box of the two dialogs when there are no results.\<close>

definition picker_hint :: "string \<Rightarrow> string \<Rightarrow> picker \<Rightarrow> string option" where
  "picker_hint none ask s =
     (if pk_results s \<noteq> None \<and> pk_results s \<noteq> Some [] then None else Some (if pk_search s \<noteq> [] then none else ask))"

definition RemoveMember :: "bool \<Rightarrow> string \<Rightarrow> (int \<times> string) ask_spec" where
  "RemoveMember canManage orgId =
     \<lparr> as_open = (\<lambda>m. canManage), as_call = (\<lambda>m t. m_call (useRemoveMember orgId) (fst m)), as_text = False,
       as_clears = False, as_done = (\<lambda>m. ''Member removed''), as_failed = (\<lambda>m msg. msg) \<rparr>"

definition RemovePlayer :: "string \<Rightarrow> (int \<times> string) ask_spec" where
  "RemovePlayer teamId =
     \<lparr> as_open = (\<lambda>m. True), as_call = (\<lambda>m t. m_call (useRemovePlayerFromRoster teamId) (fst m)), as_text = False,
       as_clears = False, as_done = (\<lambda>m. ''Player removed from roster''), as_failed = (\<lambda>m msg. msg) \<rparr>"

definition roster_cells ::
    "(string \<Rightarrow> string option) \<Rightarrow> string \<Rightarrow> string \<Rightarrow> string option \<Rightarrow> string \<Rightarrow> int option \<Rightarrow> string \<Rightarrow> string list" where
  "roster_cells ld first surname display role jersey joined =
     [formatPlayerName first surname display, role,
      case jersey of None \<Rightarrow> em_dash | Some n \<Rightarrow> ''#'' @ show_int n, formatDate ld (Some joined)]"

text \<open>
  The role of a member has a badge and, for who manages the organization, a selector with two
  options; the role of an owner is neither, so the selector shows its first option.
\<close>

definition MEMBER_ROLES :: "string list" where
  "MEMBER_ROLES = [''admin'', ''member'']"

definition selector_shows :: "string list \<Rightarrow> string \<Rightarrow> string" where
  "selector_shows options v = (if v \<in> set options then v else hd options)"

definition member_cells ::
    "(string \<Rightarrow> string option) \<Rightarrow> bool \<Rightarrow> string \<Rightarrow> string \<Rightarrow> string \<Rightarrow> string \<Rightarrow> string \<Rightarrow> string list" where
  "member_cells ld canManage first surname email role joined =
     [first @ '' '' @ surname, email, role] @ (if canManage then [selector_shows MEMBER_ROLES role] else []) @
     [formatDate ld (Some joined)]"

text \<open>A choice of the selector is an event only if it differs from what it shows.\<close>

definition handleRoleChange :: "bool \<Rightarrow> string \<Rightarrow> int \<Rightarrow> string \<Rightarrow> string \<Rightarrow> flow_effect list" where
  "handleRoleChange canManage orgId userId role choice =
     (if canManage \<and> choice \<in> set MEMBER_ROLES \<and> choice \<noteq> selector_shows MEMBER_ROLES role
      then [FlSend (m_call (useUpdateMemberRole orgId) (userId, choice))] else [])"

lemma owner_shown_as_admin:
  "selector_shows MEMBER_ROLES ''owner'' = ''admin''" "handleRoleChange c i n ''owner'' ''admin'' = []"
  by (simp_all add: MEMBER_ROLES_def selector_shows_def handleRoleChange_def)

lemma results_step: "pk_results (picker_next S s e) = Some ns \<Longrightarrow> pk_results s = Some ns \<or> e = PkResults ns"
  by (cases e) (simp_all add: picker_next_def split: if_splits)

lemma results_received:
  "pk_results (run (picker_next S) s es) = Some ns \<Longrightarrow> pk_results s = Some ns \<or> PkResults ns \<in> set es"
proof (induction es arbitrary: s)
  case (Cons e es)
  then show ?case using results_step [of S s e ns] by fastforce
qed simp

text \<open>
  A panel adds only who it lists: a request is for a person among the results of the search text
  that was last settled, who is not among the managers already, and the panel is open.
\<close>

theorem picker_adds_listed:
  assumes "FlSend c \<in> set (picker_out S (run (picker_next S) picker_init es) e)"
  shows "\<exists>n ns. e = PkPick n \<and> c = ps_add S n \<and> PkResults ns \<in> set es \<and> n \<in> set ns \<and> n \<notin> set (ps_skip S) \<and>
    pk_open (run (picker_next S) picker_init es)"
proof -
  let ?s = "run (picker_next S) picker_init es"
  obtain n where n: "e = PkPick n" "n \<in> set (pickable S ?s)" "c = ps_add S n"
    using assms by (cases e) (auto simp: picker_out_def split: if_splits)
  then obtain ns where "pk_results ?s = Some ns" "n \<in> set ns" "n \<notin> set (ps_skip S)" "pk_open ?s"
    by (cases "pk_results ?s") (auto simp: pickable_def split: if_splits)
  then show ?thesis using n results_received [of S picker_init es ns] by (auto simp: picker_init_def)
qed

theorem picker_adds_listed_witness:
  "\<exists>ns. 5 \<in> set ns \<and> 5 \<notin> set (ps_skip (AddManager ''v1'' (Some ''platform_admin'') None [])) \<and>
     PkResults ns \<in> set [PkOpen, PkSearch ''an'', PkSettled, PkResults [4, 5]]"
proof -
  let ?S = "AddManager ''v1'' (Some ''platform_admin'') None []" and ?es = "[PkOpen, PkSearch ''an'', PkSettled, PkResults [4, 5]]"
  have "FlSend (ps_add ?S 5) \<in> set (picker_out ?S (run (picker_next ?S) picker_init ?es) (PkPick 5))"
    by (simp add: picker_out_def picker_next_def picker_init_def pickable_def AddManager_def manages_def)
  from picker_adds_listed [OF this] show ?thesis by auto
qed

section \<open>Managers of a venue\<close>

text \<open>The controls of a row: for who manages, except on the own row. The selector sends the other role.\<close>

definition has_controls :: "string option \<Rightarrow> string option \<Rightarrow> manager list \<Rightarrow> manager \<Rightarrow> bool" where
  "has_controls role me managers m \<longleftrightarrow> manages role me managers \<and> Some (mg_public m) \<noteq> me"

definition other_role :: "string \<Rightarrow> string" where
  "other_role r = (if r = ''admin'' then ''manager'' else ''admin'')"

definition manager_name :: "manager \<Rightarrow> string" where
  "manager_name m = (if has_str (mg_display m) then str_of (mg_display m) else mg_first m @ '' '' @ mg_last m)"

text \<open>
  A removal in flight turns the buttons off; of the changes of a role only the latest is told about.
\<close>

record manager_panel =
  mp_removing :: bool
  mp_role :: "string option"

definition VenueManagersPanel_init :: manager_panel where
  "VenueManagersPanel_init = \<lparr> mp_removing = False, mp_role = None \<rparr>"

datatype manager_event =
    MgRemove manager bool             (* the answer to the question *)
  | MgToggle manager
  | MgRemoved bool
  | MgToggled bool

definition removes :: "string option \<Rightarrow> string option \<Rightarrow> manager list \<Rightarrow> manager_panel \<Rightarrow> manager \<Rightarrow> bool" where
  "removes role me managers s m \<longleftrightarrow> m \<in> set managers \<and> has_controls role me managers m \<and> \<not> mp_removing s"

definition manager_next ::
    "string option \<Rightarrow> string option \<Rightarrow> manager list \<Rightarrow> manager_panel \<Rightarrow> manager_event \<Rightarrow> manager_panel" where
  "manager_next role me managers s e =
     (case e of
        MgRemove m sure \<Rightarrow> if removes role me managers s m \<and> sure then s\<lparr> mp_removing := True \<rparr> else s
      | MgToggle m \<Rightarrow>
          if m \<in> set managers \<and> has_controls role me managers m then s\<lparr> mp_role := Some (other_role (mg_role m)) \<rparr> else s
      | MgRemoved ok \<Rightarrow> s\<lparr> mp_removing := False \<rparr>
      | MgToggled ok \<Rightarrow> s\<lparr> mp_role := None \<rparr>)"

definition manager_out ::
    "string \<Rightarrow> string option \<Rightarrow> string option \<Rightarrow> manager list \<Rightarrow> manager_panel \<Rightarrow> manager_event \<Rightarrow> flow_effect list" where
  "manager_out venueId role me managers s e =
     (case e of
        MgRemove m sure \<Rightarrow>
          if removes role me managers s m \<and> sure then [FlSend (m_call (useRemoveVenueManager venueId) (mg_user m))] else []
      | MgToggle m \<Rightarrow>
          if m \<in> set managers \<and> has_controls role me managers m
          then [FlSend (m_call (useUpdateVenueManagerRole venueId) (mg_user m, other_role (mg_role m)))] else []
      | MgRemoved ok \<Rightarrow>
          if \<not> mp_removing s then []
          else [if ok then FlToast ''success'' ''Manager removed'' else FlToast ''error'' ''Failed to remove manager'']
      | MgToggled ok \<Rightarrow>
          (case mp_role s of
             None \<Rightarrow> []
           | Some r \<Rightarrow> [if ok then FlToast ''success'' (''Role updated to '' @ r) else FlToast ''error'' ''Failed to update role'']))"

text \<open>
  The panel of a venue cannot be used against oneself: whoever removes a manager or changes a
  role manages the venue, the row is another person's, and the request is for that row. So an
  administrator of a venue never takes away their own rights, and never leaves it without one.
\<close>

theorem managers_spare_self:
  assumes "FlSend c \<in> set (manager_out venueId role (Some me) managers s e)"
  shows "manages role (Some me) managers \<and>
    (\<exists>m \<in> set managers. mg_public m \<noteq> me \<and>
       (c = ApiDelete (''/api/v1/venues/'' @ venueId @ ''/managers/'' @ show_int (mg_user m)) \<or>
        c = ApiPatch (''/api/v1/venues/'' @ venueId @ ''/managers/'' @ show_int (mg_user m))
              (Obj [(''role'', Str (other_role (mg_role m)))])))"
  using assms
  by (cases e) (auto simp: manager_out_def removes_def has_controls_def useRemoveVenueManager_def useUpdateVenueManagerRole_def
      use_mutation_def split: if_splits option.splits)

definition two_admins :: "manager list" where
  "two_admins =
     [\<lparr> mg_user = 1, mg_public = ''p1'', mg_role = ''admin'', mg_first = ''A'', mg_last = ''B'', mg_display = None \<rparr>,
      \<lparr> mg_user = 2, mg_public = ''p2'', mg_role = ''manager'', mg_first = ''C'', mg_last = ''D'', mg_display = None \<rparr>]"

theorem managers_spare_self_witness:
  "manager_out ''v1'' None (Some ''p1'') two_admins VenueManagersPanel_init (MgRemove (two_admins ! 0) True) = [] \<and>
   (\<exists>m \<in> set two_admins. mg_public m \<noteq> ''p1'')"
proof
  show "manager_out ''v1'' None (Some ''p1'') two_admins VenueManagersPanel_init (MgRemove (two_admins ! 0) True) = []"
    by (simp add: manager_out_def removes_def two_admins_def has_controls_def)
  have "FlSend (m_call (useUpdateVenueManagerRole ''v1'') (2, ''admin''))
      \<in> set (manager_out ''v1'' None (Some ''p1'') two_admins VenueManagersPanel_init (MgToggle (two_admins ! 1)))"
    by (simp add: manager_out_def two_admins_def has_controls_def manages_def other_role_def)
  from managers_spare_self [OF this] show "\<exists>m \<in> set two_admins. mg_public m \<noteq> ''p1''" by blast
qed

section \<open>Courts of a venue\<close>

record court_form =
  cf_open :: bool
  cf_name :: string
  cf_surface :: string
  cf_show :: bool
  cf_stream :: string
  cf_url :: string
  cf_pending :: bool

definition court_resetForm :: "court_form \<Rightarrow> court_form" where
  "court_resetForm s = s\<lparr> cf_name := [], cf_surface := [], cf_show := False, cf_stream := [], cf_url := [] \<rparr>"

definition CourtListPanel_init :: court_form where
  "CourtListPanel_init =
     \<lparr> cf_open = False, cf_name = [], cf_surface = [], cf_show = False, cf_stream = [], cf_url = [], cf_pending = False \<rparr>"

definition text_or_null :: "string \<Rightarrow> js" where
  "text_or_null t = (if t = [] then Null else Str t)"

text \<open>\<open>n\<close> is the number of courts the panel has loaded.\<close>

definition court_payload :: "nat \<Rightarrow> court_form \<Rightarrow> js" where
  "court_payload n s =
     Obj [(''name'', Str (trim (cf_name s))), (''surface_type'', text_or_null (cf_surface s)),
          (''is_show_court'', Bool (cf_show s)), (''is_active'', Bool True), (''is_temporary'', Bool False),
          (''sort_order'', Num (int n + 1)), (''stream_type'', text_or_null (cf_stream s)),
          (''stream_url'', text_or_null (trim (cf_url s)))]"

datatype court_event =
    CfOpen
  | CfClose
  | CfName string
  | CfSurface string
  | CfShow bool
  | CfStream string
  | CfUrl string
  | CfSubmit
  | CfCreated
  | CfFailed string

definition court_sends :: "court_form \<Rightarrow> bool" where
  "court_sends s \<longleftrightarrow> cf_open s \<and> \<not> cf_pending s \<and> trim (cf_name s) \<noteq> []"

text \<open>The controls are there while the dialog is open, that of the URL while a platform is chosen.\<close>

definition court_next :: "court_form \<Rightarrow> court_event \<Rightarrow> court_form" where
  "court_next s e =
     (case e of
        CfOpen \<Rightarrow> s\<lparr> cf_open := True \<rparr>
      | CfClose \<Rightarrow> s\<lparr> cf_open := False \<rparr>
      | CfName t \<Rightarrow> if cf_open s then s\<lparr> cf_name := t \<rparr> else s
      | CfSurface t \<Rightarrow> if cf_open s \<and> t \<in> set SURFACE_TYPES then s\<lparr> cf_surface := t \<rparr> else s
      | CfShow b \<Rightarrow> if cf_open s then s\<lparr> cf_show := b \<rparr> else s
      | CfStream t \<Rightarrow> if cf_open s \<and> t \<in> set STREAM_PLATFORMS then s\<lparr> cf_stream := t \<rparr> else s
      | CfUrl t \<Rightarrow> if cf_open s \<and> cf_stream s \<noteq> [] then s\<lparr> cf_url := t \<rparr> else s
      | CfSubmit \<Rightarrow> if court_sends s then s\<lparr> cf_pending := True \<rparr> else s
      | CfCreated \<Rightarrow> if cf_pending s then (court_resetForm s)\<lparr> cf_open := False, cf_pending := False \<rparr> else s
      | CfFailed msg \<Rightarrow> s\<lparr> cf_pending := False \<rparr>)"

definition court_out :: "string \<Rightarrow> nat \<Rightarrow> court_form \<Rightarrow> court_event \<Rightarrow> flow_effect list" where
  "court_out venueId n s e =
     (case e of
        CfSubmit \<Rightarrow> if court_sends s then [FlSend (m_call (useCreateVenueCourt venueId) (court_payload n s))] else []
      | CfCreated \<Rightarrow> if cf_pending s then [FlToast ''success'' ''Court created''] else []
      | CfFailed msg \<Rightarrow> if cf_pending s then [FlToast ''error'' msg] else []
      | _ \<Rightarrow> [])"

definition court_chosen :: "court_form \<Rightarrow> bool" where
  "court_chosen s \<longleftrightarrow> cf_surface s \<in> set SURFACE_TYPES \<and> cf_stream s \<in> set STREAM_PLATFORMS"

interpretation court_forms: event_machine court_next "\<lambda>s. s = CourtListPanel_init" court_chosen
proof unfold_locales
  show "court_chosen s" if "s = CourtListPanel_init" for s
    using that by (simp add: court_chosen_def CourtListPanel_init_def SURFACE_TYPES_def STREAM_PLATFORMS_def)
  show "court_chosen s \<Longrightarrow> court_chosen (court_next s e)" for s e
    by (cases e) (auto simp: court_next_def court_chosen_def court_resetForm_def SURFACE_TYPES_def STREAM_PLATFORMS_def)
qed

text \<open>
  A new court is sent with a name that is not blank and is trimmed, with a surface and a platform
  of the lists or none, active, permanent, and last in the order of the courts that were loaded.
\<close>

theorem new_court_valid:
  assumes "FlSend c \<in> set (court_out venueId n (run court_next CourtListPanel_init es) e)"
  shows "\<exists>body. c = ApiPost (''/api/v1/venues/'' @ venueId @ ''/courts'') body \<and>
    (\<exists>nm. js_opt_get body ''name'' = Str nm \<and> nm \<noteq> []) \<and>
    js_opt_get body ''surface_type'' \<in> insert Null (Str ` (set SURFACE_TYPES - {[]})) \<and>
    js_opt_get body ''stream_type'' \<in> insert Null (Str ` (set STREAM_PLATFORMS - {[]})) \<and>
    js_opt_get body ''is_active'' = Bool True \<and> js_opt_get body ''sort_order'' = Num (int n + 1)"
proof -
  let ?s = "run court_next CourtListPanel_init es"
  have kept: "court_chosen ?s" by (rule court_forms.reachable_inv) simp
  have c: "court_sends ?s" "c = ApiPost (''/api/v1/venues/'' @ venueId @ ''/courts'') (court_payload n ?s)"
    using assms by (cases e; auto simp: court_out_def useCreateVenueCourt_def use_mutation_def split: if_splits)+
  show ?thesis
    using kept c(1) by (auto simp: c(2) court_payload_def text_or_null_def js_opt_get_def court_chosen_def court_sends_def)
qed

theorem new_court_valid_witness:
  "\<exists>c. c \<in> set (court_out ''v1'' 2 (run court_next CourtListPanel_init [CfOpen, CfName ''Court 3'']) CfSubmit) \<and>
     (\<exists>body. c = FlSend (ApiPost (''/api/v1/venues/'' @ ''v1'' @ ''/courts'') body) \<and> js_opt_get body ''sort_order'' = Num 3)"
proof -
  let ?s = "run court_next CourtListPanel_init [CfOpen, CfName ''Court 3'']"
  let ?c = "m_call (useCreateVenueCourt ''v1'') (court_payload 2 ?s)"
  have "FlSend ?c \<in> set (court_out ''v1'' 2 ?s CfSubmit)"
    by (simp add: court_out_def court_next_def CourtListPanel_init_def court_sends_def trim_def is_space_def)
  with new_court_valid [OF this] show ?thesis by (intro exI [of _ "FlSend ?c"]) auto
qed

text \<open>
  Taking the platform back hides the URL and still sends it. After a deletion the order of a new court
  can be that of an older one.
\<close>

lemma hidden_url_sent:
  "js_opt_get (court_payload n (run court_next s [CfOpen, CfStream ''hls'', CfUrl ''u'', CfStream []])) ''stream_type'' = Null"
  "js_opt_get (court_payload n (run court_next s [CfOpen, CfStream ''hls'', CfUrl ''u'', CfStream []])) ''stream_url'' = Str ''u''"
  by (simp_all add: court_next_def court_payload_def text_or_null_def js_opt_get_def STREAM_PLATFORMS_def trim_def is_space_def)

lemma sort_order_taken:
  "orders = [1, 2, 3] \<Longrightarrow> x = 2 \<Longrightarrow>
   js_opt_get (court_payload (length (remove1 x orders)) s) ''sort_order'' \<in> set (map Num (remove1 x orders))"
  by (simp add: court_payload_def js_opt_get_def)

record venue_court =
  vc_id :: int
  vc_name :: string
  vc_surface :: "string option"
  vc_show :: bool
  vc_active :: bool
  vc_stream :: "string option"

definition CourtListPanel :: "bool \<Rightarrow> venue_court list option \<Rightarrow> string list collection" where
  "CourtListPanel isLoading courts =
     collection [] ''No courts'' ''Add courts to this venue.'' isLoading False
       (Some (map (\<lambda>c. court_cells (vc_name c) (vc_surface c) (vc_show c) (vc_active c) (vc_stream c))
          (case courts of None \<Rightarrow> [] | Some cs \<Rightarrow> cs)))"

text \<open>
  The dialog that deletes a court belongs to the court it was opened for and is gone when it closes;
  what a request of it still running answers is then not told.
\<close>

record court_delete =
  ce_target :: "venue_court option"
  ce_pending :: bool

datatype court_delete_event = CeOpen venue_court | CeClose | CeConfirm | CeDone | CeFailed string

definition DeleteCourtDialog_next :: "court_delete \<Rightarrow> court_delete_event \<Rightarrow> court_delete" where
  "DeleteCourtDialog_next s e =
     (case e of
        CeOpen c \<Rightarrow> s\<lparr> ce_target := Some c \<rparr>
      | CeClose \<Rightarrow> \<lparr> ce_target = None, ce_pending = False \<rparr>
      | CeConfirm \<Rightarrow> if ce_target s \<noteq> None then s\<lparr> ce_pending := True \<rparr> else s
      | CeDone \<Rightarrow> if ce_pending s then \<lparr> ce_target = None, ce_pending = False \<rparr> else s
      | CeFailed msg \<Rightarrow> s\<lparr> ce_pending := False \<rparr>)"

definition DeleteCourtDialog_out :: "string \<Rightarrow> court_delete \<Rightarrow> court_delete_event \<Rightarrow> flow_effect list" where
  "DeleteCourtDialog_out venueId s e =
     (case e of
        CeConfirm \<Rightarrow>
          (case ce_target s of
             Some c \<Rightarrow> if ce_pending s then [] else [FlSend (m_call (useDeleteVenueCourt venueId (vc_id c)) ())]
           | None \<Rightarrow> [])
      | CeDone \<Rightarrow> if ce_pending s then [FlToast ''success'' ''Court deleted''] else []
      | CeFailed msg \<Rightarrow> if ce_pending s then [FlToast ''error'' msg] else []
      | _ \<Rightarrow> [])"

lemma closed_delete_silent:
  "DeleteCourtDialog_out v (run DeleteCourtDialog_next s [CeConfirm, CeClose]) (CeFailed msg) = []"
  by (simp add: DeleteCourtDialog_next_def DeleteCourtDialog_out_def)

end
