(* ===== verification/Event_Panels.thy ===== *)
theory Event_Panels
  imports Record_Panels Court_Views Source_Tabs
begin

text \<open>
  The panels of a tournament and of a league: courts (\<open>TournamentCourts.tsx\<close>), staff accounts
  (\<open>TournamentStaff.tsx\<close>), registrations (\<open>RegistrationTable.tsx\<close>, \<open>LeagueRegistrations.tsx\<close>) and
  divisions (\<open>DivisionList.tsx\<close>, \<open>DivisionTemplateList.tsx\<close>).
\<close>

section \<open>Courts of a tournament\<close>

definition availableVenueCourts :: "court_summary list \<Rightarrow> venue_court list \<Rightarrow> venue_court list" where
  "availableVenueCourts assigned venue = filter (\<lambda>c. vc_id c \<notin> set (map ct_id assigned)) venue"

definition plural :: "nat \<Rightarrow> string \<Rightarrow> string" where
  "plural n t = show_nat n @ '' '' @ t @ (if n = 1 then [] else ''s'')"

text \<open>
  The venue's part is there when the tournament has a venue and a court is left; the number 0 would
  be written as it is.
\<close>

datatype offered_courts = NoVenuePart | VenueZero | VenuePart string "(int \<times> string \<times> string) list"

datatype courts_view =
    CourtsLoading
  | CourtsView string "court_card list option" "(int \<times> string) list" offered_courts bool

definition venue_part :: "int option \<Rightarrow> venue_court list \<Rightarrow> offered_courts" where
  "venue_part venueId available =
     (case venueId of
        None \<Rightarrow> NoVenuePart
      | Some n \<Rightarrow>
          if n = 0 then VenueZero
          else if available = [] then NoVenuePart
          else VenuePart (''Available Venue Courts ('' @ show_nat (length available) @ '')'')
            (map (\<lambda>c. (vc_id c, vc_name c, if has_str (vc_surface c) then spaced (str_of (vc_surface c)) else [])) available))"

definition TournamentCourts ::
    "int option \<Rightarrow> bool \<Rightarrow> court_summary list option \<Rightarrow> venue_court list option \<Rightarrow> courts_view" where
  "TournamentCourts venueId isLoading courts venueCourts =
     (let assigned = (case courts of None \<Rightarrow> [] | Some cs \<Rightarrow> cs);
          venue = (case venueCourts of None \<Rightarrow> [] | Some cs \<Rightarrow> cs) in
      if isLoading then CourtsLoading
      else CourtsView (plural (length assigned) ''court'' @ '' assigned'') (CourtGrid PublicMode assigned)
        (map (\<lambda>c. (ct_id c, ct_name c)) assigned) (venue_part venueId (availableVenueCourts assigned venue))
        ((venueId = None \<or> venueId = Some 0) \<and> assigned = []))"

text \<open>
  One mutation assigns, and all its buttons wait for it. One removes, and its buttons never wait; the
  callbacks are those of the latest call.
\<close>

record court_panel =
  cs_open :: bool
  cs_name :: string
  cs_surface :: string
  cs_creating :: bool
  cs_assigning :: bool
  cs_latest :: "int option"         (* the removal that is listened to *)

definition TournamentCourts_init :: court_panel where
  "TournamentCourts_init =
     \<lparr> cs_open = False, cs_name = [], cs_surface = [], cs_creating = False, cs_assigning = False, cs_latest = None \<rparr>"

datatype court_panel_event =
    CsOpen
  | CsClose
  | CsName string
  | CsSurface string
  | CsSubmit
  | CsCreated bool
  | CsAssign int
  | CsAssigned bool
  | CsRemove int
  | CsRemoved bool                  (* the answer to the latest removal *)

definition temp_sends :: "court_panel \<Rightarrow> bool" where
  "temp_sends s \<longleftrightarrow> cs_open s \<and> \<not> cs_creating s \<and> trim (cs_name s) \<noteq> []"

definition assigns :: "int option \<Rightarrow> court_summary list \<Rightarrow> venue_court list \<Rightarrow> court_panel \<Rightarrow> int \<Rightarrow> bool" where
  "assigns venueId assigned venue s n \<longleftrightarrow>
     venueId \<noteq> None \<and> venueId \<noteq> Some 0 \<and> \<not> cs_assigning s \<and> n \<in> set (map vc_id (availableVenueCourts assigned venue))"

definition court_panel_next ::
    "int option \<Rightarrow> court_summary list \<Rightarrow> venue_court list \<Rightarrow> court_panel \<Rightarrow> court_panel_event \<Rightarrow> court_panel" where
  "court_panel_next venueId assigned venue s e =
     (case e of
        CsOpen \<Rightarrow> s\<lparr> cs_open := True \<rparr>
      | CsClose \<Rightarrow> s\<lparr> cs_open := False \<rparr>
      | CsName t \<Rightarrow> if cs_open s then s\<lparr> cs_name := t \<rparr> else s
      | CsSurface t \<Rightarrow> if cs_open s \<and> t \<in> set SURFACE_TYPES then s\<lparr> cs_surface := t \<rparr> else s
      | CsSubmit \<Rightarrow> if temp_sends s then s\<lparr> cs_creating := True \<rparr> else s
      | CsCreated ok \<Rightarrow>
          if cs_creating s \<and> ok then s\<lparr> cs_creating := False, cs_open := False, cs_name := [], cs_surface := [] \<rparr>
          else s\<lparr> cs_creating := False \<rparr>
      | CsAssign n \<Rightarrow> if assigns venueId assigned venue s n then s\<lparr> cs_assigning := True \<rparr> else s
      | CsAssigned ok \<Rightarrow> s\<lparr> cs_assigning := False \<rparr>
      | CsRemove n \<Rightarrow> if n \<in> set (map ct_id assigned) then s\<lparr> cs_latest := Some n \<rparr> else s
      | CsRemoved ok \<Rightarrow> s\<lparr> cs_latest := None \<rparr>)"

definition told :: "bool \<Rightarrow> bool \<Rightarrow> string \<Rightarrow> string \<Rightarrow> flow_effect list" where
  "told awaited ok good bad =
     (if \<not> awaited then [] else [if ok then FlToast ''success'' good else FlToast ''error'' bad])"

definition court_panel_out ::
    "int \<Rightarrow> int option \<Rightarrow> court_summary list \<Rightarrow> venue_court list \<Rightarrow> court_panel \<Rightarrow> court_panel_event \<Rightarrow> flow_effect list" where
  "court_panel_out tournamentId venueId assigned venue s e =
     (case e of
        CsSubmit \<Rightarrow>
          if temp_sends s
          then [FlSend (m_call (useCreateTempTournamentCourt tournamentId)
            (trim (cs_name s), if cs_surface s = [] then None else Some (cs_surface s)))]
          else []
      | CsCreated ok \<Rightarrow> told (cs_creating s) ok ''Temporary court created'' ''Failed to create court''
      | CsAssign n \<Rightarrow>
          if assigns venueId assigned venue s n then [FlSend (m_call (useAssignCourtToTournament tournamentId) n)] else []
      | CsAssigned ok \<Rightarrow> told (cs_assigning s) ok ''Court assigned to tournament'' ''Failed to assign court''
      | CsRemove n \<Rightarrow>
          if n \<in> set (map ct_id assigned) then [FlSend (m_call (useUnassignCourtFromTournament tournamentId) n)] else []
      | CsRemoved ok \<Rightarrow> told (cs_latest s \<noteq> None) ok ''Court removed from tournament'' ''Failed to remove court''
      | _ \<Rightarrow> [])"

text \<open>
  The courts of the venue are divided: a court is offered exactly if it is not in the tournament yet,
  so what is removed was assigned, and what is assigned was not.
\<close>

lemma courts_divided:
  "mset (availableVenueCourts assigned venue) + mset (filter (\<lambda>c. vc_id c \<in> set (map ct_id assigned)) venue) = mset venue"
  "FlSend c \<in> set (court_panel_out t venueId assigned venue s (CsAssign n)) \<Longrightarrow> n \<notin> set (map ct_id assigned)"
  "FlSend c \<in> set (court_panel_out t venueId assigned venue s (CsRemove n)) \<Longrightarrow> n \<in> set (map ct_id assigned)"
proof -
  show "mset (availableVenueCourts assigned venue) + mset (filter (\<lambda>c. vc_id c \<in> set (map ct_id assigned)) venue) = mset venue"
    by (induction venue) (auto simp: availableVenueCourts_def)
qed (auto simp: availableVenueCourts_def court_panel_out_def assigns_def split: if_splits)

section \<open>Staff accounts\<close>

record staff_member =
  sm_id :: int
  sm_role :: string
  sm_email :: string
  sm_password :: string

definition roleLabel :: "string \<Rightarrow> string" where
  "roleLabel role = (if role = ''referee'' then ''Referee'' else ''Scorekeeper'')"

definition newline :: string where "newline = [char_of (10 :: nat)]"

definition handleCopy :: "staff_member \<Rightarrow> string" where
  "handleCopy m = ''Email: '' @ sm_email m @ newline @ ''Password: '' @ sm_password m"

text \<open>
  Cards, each with a password hidden or shown and a question open or not; one mutation for all, whose
  latest call is the one listened to.
\<close>

record staff_page =
  sp_shown :: "int list"
  sp_asked :: "int list"
  sp_pending :: "string option"

definition TournamentStaff_init :: staff_page where
  "TournamentStaff_init = \<lparr> sp_shown = [], sp_asked = [], sp_pending = None \<rparr>"

datatype staff_event =
    SpShow staff_member
  | SpAsk staff_member
  | SpCancel staff_member
  | SpConfirm staff_member
  | SpAnswer bool                   (* to the latest request *)

definition isRegenerating :: "staff_page \<Rightarrow> staff_member \<Rightarrow> bool" where
  "isRegenerating s m \<longleftrightarrow> sp_pending s = Some (sm_role m)"

definition staff_next :: "staff_member list \<Rightarrow> staff_page \<Rightarrow> staff_event \<Rightarrow> staff_page" where
  "staff_next staff s e =
     (case e of
        SpShow m \<Rightarrow>
          if m \<notin> set staff then s
          else if sm_id m \<in> set (sp_shown s) then s\<lparr> sp_shown := filter (\<lambda>n. n \<noteq> sm_id m) (sp_shown s) \<rparr>
          else s\<lparr> sp_shown := sm_id m # sp_shown s \<rparr>
      | SpAsk m \<Rightarrow> if m \<in> set staff \<and> \<not> isRegenerating s m then s\<lparr> sp_asked := sm_id m # sp_asked s \<rparr> else s
      | SpCancel m \<Rightarrow> s\<lparr> sp_asked := filter (\<lambda>n. n \<noteq> sm_id m) (sp_asked s) \<rparr>
      | SpConfirm m \<Rightarrow>
          if m \<in> set staff \<and> sm_id m \<in> set (sp_asked s)
          then s\<lparr> sp_asked := filter (\<lambda>n. n \<noteq> sm_id m) (sp_asked s), sp_pending := Some (sm_role m) \<rparr> else s
      | SpAnswer ok \<Rightarrow> s\<lparr> sp_pending := None \<rparr>)"

definition staff_out :: "int \<Rightarrow> staff_member list \<Rightarrow> staff_page \<Rightarrow> staff_event \<Rightarrow> flow_effect list" where
  "staff_out tournamentId staff s e =
     (case e of
        SpConfirm m \<Rightarrow>
          if m \<in> set staff \<and> sm_id m \<in> set (sp_asked s)
          then [FlSend (m_call (useRegenerateStaffPassword tournamentId) (sm_role m))] else []
      | SpAnswer ok \<Rightarrow>
          told (sp_pending s \<noteq> None) ok ''Password regenerated successfully'' ''Failed to regenerate password''
      | _ \<Rightarrow> [])"

definition dots :: string where
  "dots = concat (replicate 16 bullet)"

definition StaffCard :: "staff_page \<Rightarrow> staff_member \<Rightarrow> string list \<times> bool" where
  "StaffCard s m =
     ([roleLabel (sm_role m), if sm_role m = ''referee'' then ''info'' else ''success'', sm_email m] @
      (if sm_id m \<in> set (sp_shown s) then [sm_password m, ''Hide''] else [dots, ''Show'']), isRegenerating s m)"

definition TournamentStaff :: "bool \<Rightarrow> bool \<Rightarrow> staff_member list option \<Rightarrow> staff_member collection" where
  "TournamentStaff isLoading err staff =
     collection ''Failed to load staff accounts. Please try again.'' ''No Staff Accounts''
       ''Staff accounts were not created for this tournament.'' isLoading err
       (Some (case staff of None \<Rightarrow> [] | Some ms \<Rightarrow> ms))"

text \<open>
  A password is made new only for a member that was asked about and not since cancelled.
\<close>

lemma staff_asked_step:
  "n \<in> set (sp_asked (staff_next staff s e)) \<Longrightarrow> n \<in> set (sp_asked s) \<or> (\<exists>m \<in> set staff. e = SpAsk m \<and> sm_id m = n)"
  by (cases e) (auto simp: staff_next_def split: if_splits)

lemma staff_asked:
  "n \<in> set (sp_asked (run (staff_next staff) s es)) \<Longrightarrow>
   n \<in> set (sp_asked s) \<or> (\<exists>m \<in> set staff. SpAsk m \<in> set es \<and> sm_id m = n)"
proof (induction es arbitrary: s)
  case (Cons e es)
  then show ?case using staff_asked_step [of n staff s e] by fastforce
qed simp

theorem password_asked_first:
  assumes "FlSend c \<in> set (staff_out t staff (run (staff_next staff) TournamentStaff_init es) e)"
  shows "\<exists>m \<in> set staff. e = SpConfirm m \<and> (\<exists>m' \<in> set staff. SpAsk m' \<in> set es \<and> sm_id m' = sm_id m) \<and>
    c = ApiPost (''/api/v1/tournaments/'' @ show_int t @ ''/staff/regenerate/'' @ sm_role m) Undef"
proof -
  let ?s = "run (staff_next staff) TournamentStaff_init es"
  obtain m where "e = SpConfirm m" "m \<in> set staff" "sm_id m \<in> set (sp_asked ?s)"
      "c = m_call (useRegenerateStaffPassword t) (sm_role m)"
    using assms by (cases e) (auto simp: staff_out_def told_def split: if_splits)
  then show ?thesis using staff_asked [of "sm_id m" staff TournamentStaff_init es]
    by (auto simp: TournamentStaff_init_def useRegenerateStaffPassword_def use_mutation_def)
qed

definition sample_staff :: "staff_member list" where
  "sample_staff =
     [\<lparr> sm_id = 1, sm_role = ''referee'', sm_email = ''r@x'', sm_password = ''a'' \<rparr>,
      \<lparr> sm_id = 2, sm_role = ''scorekeeper'', sm_email = ''s@x'', sm_password = ''b'' \<rparr>]"

theorem password_asked_first_witness:
  "\<exists>m \<in> set sample_staff. m_call (useRegenerateStaffPassword 7) ''referee'' =
     ApiPost (''/api/v1/tournaments/'' @ show_int 7 @ ''/staff/regenerate/'' @ sm_role m) Undef"
proof -
  let ?m = "sample_staff ! 0"
  have "FlSend (m_call (useRegenerateStaffPassword 7) ''referee'')
      \<in> set (staff_out 7 sample_staff (run (staff_next sample_staff) TournamentStaff_init [SpAsk ?m]) (SpConfirm ?m))"
    by (simp add: staff_out_def staff_next_def sample_staff_def TournamentStaff_init_def isRegenerating_def)
  from password_asked_first [OF this] show ?thesis by auto
qed

text \<open>
  While the password of one account is being made new, asking for the other one frees the button of
  the first, and after that a failure of the first is not told.
\<close>

lemma second_request_frees_first:
  assumes "m \<in> set staff" "m' \<in> set staff" "sm_role m \<noteq> sm_role m'" "sp_pending s = Some (sm_role m)"
  shows "\<not> isRegenerating (run (staff_next staff) s [SpAsk m', SpConfirm m']) m"
    and "staff_out t staff (run (staff_next staff) s [SpAsk m', SpConfirm m', SpAnswer ok]) (SpAnswer ok') = []"
  using assms by (auto simp: staff_next_def staff_out_def isRegenerating_def told_def)

section \<open>The registrations of a tournament\<close>

text \<open>
  Every division fetches its registrations by itself and hands them over. The table keeps them by
  division, in the ascending order in which an object lists its numeric keys, also those of a division
  that is no longer there.
\<close>

record reg_row = registration +
  rr_division :: int

type_synonym reg_map = "(int \<times> reg_row list) list"

fun put_rows :: "int \<Rightarrow> reg_row list \<Rightarrow> reg_map \<Rightarrow> reg_map" where
  "put_rows d rows [] = [(d, rows)]"
| "put_rows d rows ((k, v) # m) =
     (if d = k then (d, rows) # m else if d < k then (d, rows) # (k, v) # m else (k, v) # put_rows d rows m)"

definition handleData :: "reg_map \<Rightarrow> int \<times> reg_row list \<Rightarrow> reg_map" where
  "handleData m e = put_rows (fst e) (snd e) m"

definition table_division :: "(int \<times> string) list \<Rightarrow> int \<Rightarrow> string" where
  "table_division divisions d =
     (case map_of (rev divisions) d of Some nm \<Rightarrow> nm | None \<Rightarrow> ''Division #'' @ show_int d)"

definition allRows :: "(int \<times> string) list \<Rightarrow> reg_map \<Rightarrow> (reg_row \<times> string) list" where
  "allRows divisions m = concat (map (\<lambda>(d, regs). map (\<lambda>r. (r, table_division divisions d)) regs) m)"

record reg_filter =
  rf_search :: string               (* what is in the box *)
  rf_settled :: string              (* what it was a moment ago *)
  rf_division :: string
  rf_status :: string

definition passes :: "reg_filter \<Rightarrow> reg_row \<times> string \<Rightarrow> bool" where
  "passes f x =
     (let r = fst x; q = map to_lower (rf_settled f) in
      (rf_division f = [] \<or> show_int (rr_division r) = rf_division f) \<and>
      (rf_status f = [] \<or> rg_status r = rf_status f) \<and>
      (rf_settled f = [] \<or> has_text q (map to_lower (snd x)) \<or> has_text q (show_int (rg_id r)) \<or>
       has_text q (map to_lower (str_of (rg_notes r)))))"

definition filteredRows :: "reg_filter \<Rightarrow> (reg_row \<times> string) list \<Rightarrow> (reg_row \<times> string) list" where
  "filteredRows f rows = filter (passes f) rows"

definition reg_cells :: "(string \<Rightarrow> string option) \<Rightarrow> (rat \<Rightarrow> string) \<Rightarrow> reg_row \<times> string \<Rightarrow> string list" where
  "reg_cells ld num x =
     (let r = fst x in
      [''#'' @ show_int (rg_id r), snd x, snd (StatusBadge (rg_status r)),
       case rg_seed r of None \<Rightarrow> em_dash | Some n \<Rightarrow> num n, formatDate ld (Some (rg_registered_at r))])"

definition reg_total :: "nat \<Rightarrow> nat \<Rightarrow> string" where
  "reg_total shown every =
     ''Total: '' @ plural shown ''registration'' @
     (if every \<noteq> shown then '' ('' @ show_nat every @ '' total)'' else [])"

definition RegistrationTable ::
    "(int \<times> string) list \<Rightarrow> reg_filter \<Rightarrow> reg_map \<Rightarrow> (reg_row \<times> string) collection \<times> string" where
  "RegistrationTable divisions f m =
     (let rows = allRows divisions m; shown = filteredRows f rows in
      (if divisions \<noteq> [] \<and> m = [] then CoSkeleton
       else if shown = [] then
         CoEmpty ''No registrations found''
           (if rf_search f \<noteq> [] \<or> rf_division f \<noteq> [] \<or> rf_status f \<noteq> []
            then ''No registrations match your filters.'' else ''No registrations have been submitted yet.'')
       else CoItems shown,
       reg_total (length shown) (length rows)))"

lemma put_rows_keys: "set (map fst (put_rows d rows m)) = insert d (set (map fst m))"
  by (induction d rows m rule: put_rows.induct) auto

lemma put_rows_sorted: "sorted_wrt (<) (map fst m) \<Longrightarrow> sorted_wrt (<) (map fst (put_rows d rows m))"
proof (induction d rows m rule: put_rows.induct)
  case (2 d rows k v m)
  have "set (map fst (put_rows d rows m)) = insert d (set (map fst m))" by (rule put_rows_keys)
  then show ?case using 2 by (auto simp flip: set_map simp del: set_map)
qed simp

lemma put_rows_lookup: "map_of (put_rows d rows m) = (map_of m)(d \<mapsto> rows)"
  by (induction d rows m rule: put_rows.induct) (auto simp: fun_eq_iff)

interpretation reg_tables: event_machine handleData "\<lambda>m. m = []" "\<lambda>m. sorted_wrt (<) (map fst m)"
  by unfold_locales (auto simp: handleData_def put_rows_sorted)

lemma handed_over: "map_of (run handleData m es) = map_of m ++ map_of (rev es)"
proof (induction es arbitrary: m)
  case (Cons e es)
  then show ?case by (cases e) (simp add: handleData_def put_rows_lookup map_add_def fun_eq_iff split: option.splits)
qed simp

text \<open>
  The table of registrations is made of the latest answer of each division, in ascending order of
  the divisions' ids whatever the order in which the answers came.
\<close>

theorem rows_of_latest_answers:
  "map_of (run handleData [] es) = map_of (rev es) \<and> sorted_wrt (<) (map fst (run handleData [] es)) \<and>
   (filteredRows f (allRows ds (run handleData [] es)) =
      concat (map (\<lambda>(d, regs). filter (passes f) (map (\<lambda>r. (r, table_division ds d)) regs)) (run handleData [] es)))"
  using handed_over [of "[]" es] reg_tables.reachable_inv [of "[]" es]
  by (simp add: filteredRows_def allRows_def filter_concat comp_def split_def)

text \<open>If no request is answered, the table keeps its skeleton and its total is zero.\<close>

lemma table_waits: "divisions \<noteq> [] \<Longrightarrow> RegistrationTable divisions f [] = (CoSkeleton, ''Total: 0 registrations'')"
proof -
  have zero: "show_nat 0 = ''0''" by code_simp
  show "divisions \<noteq> [] \<Longrightarrow> ?thesis" by (simp add: RegistrationTable_def allRows_def filteredRows_def reg_total_def plural_def zero)
qed

section \<open>The registrations of a league\<close>

record league_registration =
  lr_id :: int
  lr_org :: int
  lr_name :: "string option"
  lr_status :: string
  lr_registered :: string

definition league_reg_actions :: "string \<Rightarrow> (string \<times> string) list" where
  "league_reg_actions st =
     (if st = ''active'' then [(''Suspend'', ''suspended''), (''Withdraw'', ''withdrawn'')]
      else if st = ''suspended'' then [(''Reactivate'', ''active'')] else [])"

definition league_reg_cells :: "(string \<Rightarrow> string option) \<Rightarrow> league_registration \<Rightarrow> string list" where
  "league_reg_cells ld r =
     [if has_str (lr_name r) then str_of (lr_name r) else ''Org #'' @ show_int (lr_org r),
      snd (StatusBadge (lr_status r)), formatDate ld (Some (lr_registered r))]"

definition LeagueRegistrations ::
    "bool \<Rightarrow> string option \<Rightarrow> league_registration list option \<Rightarrow> league_registration collection" where
  "LeagueRegistrations isLoading err regs =
     (if isLoading then CoSkeleton
      else case err of
          Some msg \<Rightarrow> CoEmpty ''Failed to load registrations'' msg
        | None \<Rightarrow> collection [] ''No organizations registered'' ''Organizations can register to participate in this league.''
            False False (Some (case regs of None \<Rightarrow> [] | Some rs \<Rightarrow> rs)))"

text \<open>
  The requests in flight and the row whose buttons are off. Each press waits for its own answer, and
  each answer turns the buttons on.
\<close>

record league_regs =
  lg_updating :: "int option"
  lg_running :: "(int \<times> string) list"

definition LeagueRegistrations_init :: league_regs where
  "LeagueRegistrations_init = \<lparr> lg_updating = None, lg_running = [] \<rparr>"

datatype league_reg_event = LgPress league_registration string | LgAnswer nat "string option"

definition lg_enabled :: "league_regs \<Rightarrow> league_registration \<Rightarrow> string \<Rightarrow> bool" where
  "lg_enabled s r st \<longleftrightarrow> st \<in> snd ` set (league_reg_actions (lr_status r)) \<and> lg_updating s \<noteq> Some (lr_id r)"

definition handleStatus :: "league_regs \<Rightarrow> league_reg_event \<Rightarrow> league_regs" where
  "handleStatus s e =
     (case e of
        LgPress r st \<Rightarrow>
          if lg_enabled s r st
          then \<lparr> lg_updating = Some (lr_id r), lg_running = lg_running s @ [(lr_id r, st)] \<rparr> else s
      | LgAnswer i err \<Rightarrow>
          if i < length (lg_running s)
          then \<lparr> lg_updating = None, lg_running = take i (lg_running s) @ drop (Suc i) (lg_running s) \<rparr> else s)"

definition league_reg_out :: "int \<Rightarrow> league_regs \<Rightarrow> league_reg_event \<Rightarrow> flow_effect list" where
  "league_reg_out leagueId s e =
     (case e of
        LgPress r st \<Rightarrow>
          if lg_enabled s r st then [FlSend (m_call (useUpdateLeagueRegistrationStatus leagueId) (lr_id r, st))] else []
      | LgAnswer i err \<Rightarrow>
          if i < length (lg_running s)
          then [case err of
                  None \<Rightarrow> FlToast ''success'' (''Registration '' @ snd (lg_running s ! i))
                | Some msg \<Rightarrow> FlToast ''error'' (if msg = [] then ''Failed to update status'' else msg)]
          else [])"

interpretation league_reg_pages: event_machine handleStatus "\<lambda>s. s = LeagueRegistrations_init"
  "\<lambda>s. \<forall>n. lg_updating s = Some n \<longrightarrow> n \<in> fst ` set (lg_running s)"
  by unfold_locales (auto simp: handleStatus_def LeagueRegistrations_init_def split: league_reg_event.splits if_splits)

text \<open>
  A row's buttons are off only while a request for that row runs.
\<close>

lemma buttons_off_while_running:
  assumes "st \<in> snd ` set (league_reg_actions (lr_status r))"
    and "\<not> lg_enabled (run handleStatus LeagueRegistrations_init es) r st"
  shows "lr_id r \<in> fst ` set (lg_running (run handleStatus LeagueRegistrations_init es))"
  using league_reg_pages.reachable_inv [of LeagueRegistrations_init es] assms by (auto simp: lg_enabled_def)

text \<open>But not the whole while: after an answer for one row the buttons of another are on, and it can be sent twice.\<close>

lemma other_answer_frees:
  assumes "lr_status a = ''active''" "lr_status b = ''active''" "lr_id a \<noteq> lr_id b"
  shows "league_reg_out l (run handleStatus LeagueRegistrations_init
      [LgPress a ''suspended'', LgPress b ''suspended'', LgAnswer 0 None]) (LgPress b ''suspended'') =
    [FlSend (m_call (useUpdateLeagueRegistrationStatus l) (lr_id b, ''suspended''))]"
    and "lg_running (run handleStatus LeagueRegistrations_init
      [LgPress a ''suspended'', LgPress b ''suspended'', LgAnswer 0 None]) = [(lr_id b, ''suspended'')]"
  using assms
  by (simp_all add: handleStatus_def league_reg_out_def lg_enabled_def LeagueRegistrations_init_def league_reg_actions_def)

section \<open>Divisions and templates\<close>

record division_card =
  dk_id :: int
  dk_name :: string
  dk_status :: string
  dk_format :: string
  dk_bracket :: string
  dk_max :: "int option"
  dk_fee :: "rat option"
  dk_currency :: string

definition formatBracket :: "string \<Rightarrow> string" where
  "formatBracket bracket = capitalize False (spaced bracket)"

text \<open>\<open>num\<close> writes a number. A maximum of 0 is written as \<open>0\<close>.\<close>

definition division_lines :: "(rat \<Rightarrow> string) \<Rightarrow> division_card \<Rightarrow> string list" where
  "division_lines num d =
     [dk_name d, snd (StatusBadge (dk_status d)), ''Format: '' @ dk_format d, ''Bracket: '' @ formatBracket (dk_bracket d)] @
     (case dk_max d of None \<Rightarrow> [] | Some n \<Rightarrow> if n = 0 then [''0''] else [''Max teams: '' @ show_int n]) @
     (case dk_fee d of
        None \<Rightarrow> []
      | Some x \<Rightarrow> if 0 < x then [''Entry fee: $'' @ num x @ '' '' @ dk_currency d] else [])"

datatype division_list = NoDivisions | DivisionCards string "(string \<times> string list) list" bool

definition DivisionList :: "(rat \<Rightarrow> string) \<Rightarrow> string \<Rightarrow> bool \<Rightarrow> division_card list \<Rightarrow> division_list" where
  "DivisionList num tournamentId createOpen ds =
     (if ds = [] \<and> \<not> createOpen then NoDivisions
      else DivisionCards (plural (length ds) ''division'')
        (map (\<lambda>d. (''/tournaments/'' @ tournamentId @ ''/divisions/'' @ show_int (dk_id d), division_lines num d)) ds)
        createOpen)"

record template_card =
  tk_id :: int
  tk_name :: string
  tk_format :: string
  tk_bracket :: string
  tk_gender :: string
  tk_max :: "int option"

definition template_lines :: "template_card \<Rightarrow> string list" where
  "template_lines t =
     [tk_name t, spaced (tk_format t), spaced (tk_bracket t), ''Gender: '' @ tk_gender t,
      ''Max Teams: '' @ (case tk_max t of None \<Rightarrow> ''No limit'' | Some n \<Rightarrow> show_int n)]"

definition DivisionTemplateList :: "bool \<Rightarrow> string option \<Rightarrow> template_card list option \<Rightarrow> string list collection" where
  "DivisionTemplateList isLoading err templates =
     (if isLoading then CoSkeleton
      else case err of
          Some msg \<Rightarrow> CoEmpty ''Failed to load templates'' msg
        | None \<Rightarrow> collection [] ''No templates yet''
            ''Create reusable division configurations to speed up tournament setup.'' False False
            (Some (map template_lines (case templates of None \<Rightarrow> [] | Some ts \<Rightarrow> ts))))"

definition DeleteTemplate :: "int \<Rightarrow> template_card ask_spec" where
  "DeleteTemplate leagueId =
     \<lparr> as_open = (\<lambda>t. True), as_call = (\<lambda>t u. m_call (useDeleteDivisionTemplate leagueId) (tk_id t)), as_text = False,
       as_clears = False, as_done = (\<lambda>t. ''Template deleted''),
       as_failed = (\<lambda>t msg. if msg = [] then ''Failed to delete template'' else msg) \<rparr>"

lemma bracket_names: "formatBracket s = formatStatus s" "formatBracket ''single_elimination'' = ''Single Elimination''"
  by (simp add: formatBracket_def formatStatus_def spaced_def, code_simp)

end
