(* ===== verification/Detail_Pages.thy ===== *)
theory Detail_Pages
  imports Event_Panels
begin

text \<open>
  The pages of one record: tournament, division and league with their tabs (\<open>TournamentDetail.tsx\<close>,
  \<open>DivisionDetail.tsx\<close>, \<open>LeagueDetail.tsx\<close>), venue, organization, team and player
  (\<open>features/registry\<close>), and a court (\<open>CourtDetail.tsx\<close>, \<open>PublicCourtDetail.tsx\<close>). Panels and forms
  inside them are in other theories.
\<close>

text \<open>A page that loads one record; without it, a title, a hint and a way back.\<close>

datatype 'v loaded_page = RpSkeleton | RpMissing string string string | RpShown 'v

definition record_page ::
    "string \<Rightarrow> (string option \<Rightarrow> string) \<Rightarrow> string \<Rightarrow> ('a \<Rightarrow> 'v) \<Rightarrow> bool \<Rightarrow> string option \<Rightarrow> 'a option \<Rightarrow> 'v loaded_page" where
  "record_page title hint back show isLoading err data =
     (if isLoading then RpSkeleton
      else case data of
          None \<Rightarrow> RpMissing title (hint err) back
        | Some x \<Rightarrow> if err \<noteq> None then RpMissing title (hint err) back else RpShown (show x))"

definition error_or :: "string \<Rightarrow> string option \<Rightarrow> string" where
  "error_or d err = or_default err d"

definition no_access :: "string \<Rightarrow> string option \<Rightarrow> string" where
  "no_access what err = ''This '' @ what @ '' may have been removed or you don't have access.''"

section \<open>Tabs\<close>

record tab_item =
  tb_id :: string
  tb_label :: string
  tb_count :: "nat option"
  tb_admin :: bool

definition tab :: "string \<Rightarrow> string \<Rightarrow> tab_item" where
  "tab i label = \<lparr> tb_id = i, tb_label = label, tb_count = None, tb_admin = False \<rparr>"

definition TournamentDetail_tabs :: "nat option \<Rightarrow> tab_item list" where
  "TournamentDetail_tabs divisions =
     [tab ''overview'' ''Overview'',
      (tab ''divisions'' ''Divisions'')\<lparr> tb_count := Some (case divisions of None \<Rightarrow> 0 | Some n \<Rightarrow> n) \<rparr>,
      tab ''courts'' ''Courts'',
      (tab ''registrations'' ''Registrations'')\<lparr> tb_admin := True \<rparr>,
      (tab ''announcements'' ''Announcements'')\<lparr> tb_admin := True \<rparr>,
      (tab ''staff'' ''Staff'')\<lparr> tb_admin := True \<rparr>,
      (tab ''settings'' ''Settings'')\<lparr> tb_admin := True \<rparr>]"

definition DivisionDetail_tabs :: "tab_item list" where
  "DivisionDetail_tabs =
     [tab ''overview'' ''Overview'', (tab ''registrations'' ''Registrations'')\<lparr> tb_admin := True \<rparr>,
      (tab ''seeds'' ''Seeds'')\<lparr> tb_admin := True \<rparr>, tab ''bracket'' ''Bracket'']"

definition LeagueDetail_tabs :: "nat option \<Rightarrow> nat option \<Rightarrow> nat option \<Rightarrow> tab_item list" where
  "LeagueDetail_tabs seasons templates regs =
     [tab ''overview'' ''Overview'', (tab ''seasons'' ''Seasons'')\<lparr> tb_count := seasons \<rparr>,
      (tab ''templates'' ''Division Templates'')\<lparr> tb_count := templates \<rparr>,
      (tab ''registrations'' ''Registrations'')\<lparr> tb_count := regs \<rparr>, tab ''announcements'' ''Announcements'']"

text \<open>The role of who is signed in decides; it changes when they sign in or out.\<close>

definition isAdmin :: "string option \<Rightarrow> bool" where
  "isAdmin role \<longleftrightarrow> role = Some ''platform_admin'' \<or> role = Some ''tournament_director''"

definition shown_tabs :: "tab_item list \<Rightarrow> string option \<Rightarrow> tab_item list" where
  "shown_tabs tabs role = filter (\<lambda>t. \<not> tb_admin t \<or> isAdmin role) tabs"

record tab_page =
  tp_active :: string
  tp_role :: "string option"

datatype tab_event = TpChoose string | TpRole "string option"

definition tab_next :: "tab_item list \<Rightarrow> tab_page \<Rightarrow> tab_event \<Rightarrow> tab_page" where
  "tab_next tabs s e =
     (case e of
        TpChoose i \<Rightarrow> if i \<in> tb_id ` set (shown_tabs tabs (tp_role s)) then s\<lparr> tp_active := i \<rparr> else s
      | TpRole r \<Rightarrow> s\<lparr> tp_role := r \<rparr>)"

definition tab_init :: "string option \<Rightarrow> tab_page" where
  "tab_init role = \<lparr> tp_active = ''overview'', tp_role = role \<rparr>"

text \<open>The panel: that of the active tab, those for administrators only for them.\<close>

definition tab_panel :: "tab_item list \<Rightarrow> tab_page \<Rightarrow> string option" where
  "tab_panel tabs s =
     (if list_ex (\<lambda>t. tb_id t = tp_active s \<and> (\<not> tb_admin t \<or> isAdmin (tp_role s))) tabs
      then Some (tp_active s) else None)"

interpretation tab_pages: event_machine "tab_next tabs" "\<lambda>s. \<exists>r. s = tab_init r"
  "\<lambda>s. tp_active s = ''overview'' \<or> tp_active s \<in> tb_id ` set tabs" for tabs
  by unfold_locales (auto simp: tab_next_def tab_init_def shown_tabs_def split: tab_event.splits if_splits)

definition ADMIN_PANELS :: "string list" where
  "ADMIN_PANELS = [''registrations'', ''announcements'', ''staff'', ''settings'', ''seeds'']"

lemma admin_tabs:
  "list_all (\<lambda>t. tb_id t \<in> set ADMIN_PANELS \<longrightarrow> tb_admin t) (TournamentDetail_tabs n)"
  "list_all (\<lambda>t. tb_id t \<in> set ADMIN_PANELS \<longrightarrow> tb_admin t) DivisionDetail_tabs"
  by (simp_all add: TournamentDetail_tabs_def DivisionDetail_tabs_def tab_def ADMIN_PANELS_def)



text \<open>Who signs out on such a tab has an empty page; and the tabs of a league are there for everyone.\<close>

lemma empty_after_sign_out:
  "tab_panel DivisionDetail_tabs (run (tab_next DivisionDetail_tabs) (tab_init (Some ''platform_admin'')) [TpChoose ''seeds'', TpRole None]) = None"
  by (simp add: tab_panel_def tab_next_def tab_init_def shown_tabs_def DivisionDetail_tabs_def tab_def isAdmin_def)

lemma league_tabs_open: "shown_tabs (LeagueDetail_tabs s t r) role = LeagueDetail_tabs s t r"
  by (simp add: shown_tabs_def LeagueDetail_tabs_def tab_def)

text \<open>The headers, and the invitation to register that a division shows to players.\<close>

definition TournamentDetail :: "bool \<Rightarrow> string option \<Rightarrow> (string \<times> string) option \<Rightarrow> string list loaded_page" where
  "TournamentDetail =
     record_page ''Failed to load tournament'' (error_or ''Tournament not found.'') ''/tournaments''
       (\<lambda>(nm, st). [nm, snd (StatusBadge st)])"

definition DivisionDetail ::
    "string \<Rightarrow> string option \<Rightarrow> (string \<times> string) option \<Rightarrow> bool \<Rightarrow> string option \<Rightarrow> (string \<times> string) option \<Rightarrow>
     (string list \<times> bool) loaded_page" where
  "DivisionDetail tournamentId role tournament =
     record_page ''Failed to load division'' (error_or ''Division not found.'') (''/tournaments/'' @ tournamentId)
       (\<lambda>(nm, st). ([case tournament of Some t \<Rightarrow> fst t | None \<Rightarrow> ''Back to Tournament'', nm, snd (StatusBadge st)],
          \<not> isAdmin role \<and> map_option snd tournament = Some ''registration_open''))"

definition LeagueDetail :: "bool \<Rightarrow> string option \<Rightarrow> (string \<times> string) option \<Rightarrow> string list loaded_page" where
  "LeagueDetail =
     record_page ''Failed to load league'' (error_or ''League not found.'') ''/leagues'' (\<lambda>(nm, st). [nm, snd (StatusBadge st)])"

section \<open>A venue\<close>

datatype venue_step = SubmitVenue | SetVenue string

definition venue_steps :: "string \<Rightarrow> bool \<Rightarrow> bool \<Rightarrow> (string \<times> venue_step) list" where
  "venue_steps st admin canManage =
     (if st = ''draft'' \<and> canManage
      then (''Submit for Review'', SubmitVenue) # (if admin then [(''Publish Now'', SetVenue ''published'')] else [])
      else if st = ''pending_review'' \<and> admin
      then [(''Approve & Publish'', SetVenue ''published''), (''Reject'', SetVenue ''draft'')]
      else if st = ''published'' \<and> admin then [(''Archive'', SetVenue ''archived'')] else [])"

record venue_page =
  vp_status :: string
  vp_admin :: bool
  vp_manages :: bool
  vp_submitting :: bool
  vp_setting :: "string option"

datatype venue_event =
    VpPress venue_step
  | VpSubmitted "string option"     (* the message of an error *)
  | VpSet "string option"
  | VpData string bool bool         (* status, role and right as last loaded *)

definition venue_can :: "venue_page \<Rightarrow> venue_step \<Rightarrow> bool" where
  "venue_can s x \<longleftrightarrow> x \<in> snd ` set (venue_steps (vp_status s) (vp_admin s) (vp_manages s)) \<and>
     (if x = SubmitVenue then \<not> vp_submitting s else vp_setting s = None)"

definition venue_next :: "venue_page \<Rightarrow> venue_event \<Rightarrow> venue_page" where
  "venue_next s e =
     (case e of
        VpPress x \<Rightarrow>
          if \<not> venue_can s x then s
          else (case x of SubmitVenue \<Rightarrow> s\<lparr> vp_submitting := True \<rparr> | SetVenue st \<Rightarrow> s\<lparr> vp_setting := Some st \<rparr>)
      | VpSubmitted err \<Rightarrow> s\<lparr> vp_submitting := False \<rparr>
      | VpSet err \<Rightarrow> s\<lparr> vp_setting := None \<rparr>
      | VpData st admin mine \<Rightarrow> s\<lparr> vp_status := st, vp_admin := admin, vp_manages := mine \<rparr>)"

definition venue_said :: "string \<Rightarrow> flow_effect" where
  "venue_said st =
     (if st = ''published'' then FlToast ''success'' ''Venue published''
      else if st = ''draft'' then FlToast ''warning'' ''Venue sent back to draft''
      else FlToast ''warning'' ''Venue archived'')"

definition venue_out :: "string \<Rightarrow> venue_page \<Rightarrow> venue_event \<Rightarrow> flow_effect list" where
  "venue_out venueId s e =
     (case e of
        VpPress x \<Rightarrow>
          if \<not> venue_can s x then []
          else [FlSend (case x of
                  SubmitVenue \<Rightarrow> m_call (useSubmitForReview venueId) ()
                | SetVenue st \<Rightarrow> m_call (useUpdateVenueStatus venueId) st)]
      | VpSubmitted err \<Rightarrow>
          if \<not> vp_submitting s then []
          else [case err of None \<Rightarrow> FlToast ''success'' ''Submitted for review'' | Some msg \<Rightarrow> FlToast ''error'' msg]
      | VpSet err \<Rightarrow>
          (case vp_setting s of
             None \<Rightarrow> []
           | Some st \<Rightarrow> [case err of None \<Rightarrow> venue_said st | Some msg \<Rightarrow> FlToast ''error'' msg])
      | _ \<Rightarrow> [])"

text \<open>
  The life of a venue: the review of \<open>service/venue.go\<close>, publication without one, and the archive.
\<close>

definition venue_review :: "(string \<times> string) list" where
  "venue_review =
     [(''draft'', ''pending_review''), (''draft'', ''published''), (''pending_review'', ''published''),
      (''pending_review'', ''draft''), (''published'', ''archived'')]"

text \<open>
  C7. The page of a venue changes a status only along this life: what it asks for is a step from the
  status last loaded, only a platform administrator sets a status, and only who manages the venue
  submits it. Nothing leads out of the archive.
\<close>

theorem venue_follows_review:
  assumes "FlSend c \<in> set (venue_out venueId s e)"
  shows "(c = ApiPost (''/api/v1/venues/'' @ venueId @ ''/submit-for-review'') Undef \<and>
            vp_status s = ''draft'' \<and> vp_manages s \<and> \<not> vp_submitting s) \<or>
         (\<exists>st. c = ApiPatch (''/api/v1/admin/venues/'' @ venueId @ ''/status'') (Obj [(''status'', Str st)]) \<and>
            (vp_status s, st) \<in> set venue_review \<and> vp_admin s \<and> vp_setting s = None)"
  using assms
  by (cases e) (auto simp: venue_out_def venue_can_def venue_steps_def venue_review_def venue_said_def useSubmitForReview_def
      useUpdateVenueStatus_def use_mutation_def split: if_splits option.splits venue_step.splits)

definition pending_page :: venue_page where
  "pending_page =
     \<lparr> vp_status = ''pending_review'', vp_admin = True, vp_manages = False, vp_submitting = False, vp_setting = None \<rparr>"

theorem venue_follows_review_witness:
  "\<exists>st. m_call (useUpdateVenueStatus ''v1'') ''published'' =
      ApiPatch (''/api/v1/admin/venues/'' @ ''v1'' @ ''/status'') (Obj [(''status'', Str st)]) \<and>
      (''pending_review'', st) \<in> set venue_review"
proof -
  have "FlSend (m_call (useUpdateVenueStatus ''v1'') ''published'')
      \<in> set (venue_out ''v1'' pending_page (VpPress (SetVenue ''published'')))"
    by (simp add: venue_out_def venue_can_def venue_steps_def pending_page_def)
  from venue_follows_review [OF this] show ?thesis by (auto simp: pending_page_def)
qed

text \<open>An administrator who may not manage a draft, cannot publish it.\<close>

lemma draft_needs_manager: "venue_steps ''draft'' True False = []"
  by (simp add: venue_steps_def)

definition venue_rows ::
    "(string \<Rightarrow> string option) \<Rightarrow> string \<Rightarrow> string option \<Rightarrow> string option list \<Rightarrow> string option \<Rightarrow> string option \<Rightarrow>
     string option \<Rightarrow> int \<Rightarrow> string option \<Rightarrow> string \<Rightarrow> (string \<times> string) list" where
  "venue_rows ld nm formatted parts timezone email website courts bio created =
     [InfoRow ''Name'' (Some nm),
      InfoRow ''Address'' (Some (if has_str formatted then str_of formatted else join_present '', '' (map str_of parts))),
      InfoRow ''Timezone'' timezone, InfoRow ''Contact Email'' email, InfoRow ''Website'' website,
      InfoRow ''Court Count'' (Some (show_int courts)), InfoRow ''Bio'' bio,
      InfoRow ''Created'' (Some (formatDate ld (Some created)))]"

section \<open>An organization, a team, a player\<close>

definition canManage :: "string option \<Rightarrow> string option \<Rightarrow> bool" where
  "canManage role myRole \<longleftrightarrow> role = Some ''platform_admin'' \<or> myRole = Some ''admin''"

text \<open>The buttons; \<open>role\<close> is \<open>None\<close> when nobody is signed in.\<close>

definition org_buttons :: "string option \<Rightarrow> string option \<Rightarrow> bool \<Rightarrow> string list" where
  "org_buttons role myRole blocked =
     (if canManage role myRole then [''Edit'', ''Delete'']
      else if role \<noteq> None then [if blocked then ''Unblock'' else ''Block''] else [])"

record org_page =
  op_role :: "string option"
  op_mine :: "string option"
  op_blocked :: "bool option"       (* as last loaded *)
  op_delete :: bool
  op_block :: bool
  op_deleting :: bool
  op_blocking :: "bool option"      (* a request in flight: to block, or to unblock *)

datatype org_event =
    OpLoaded "string option" "string option" "bool option"
  | OpDelete
  | OpBlock
  | OpClose
  | OpConfirm
  | OpDeleted "string option"       (* the message of an error *)
  | OpBlocked "string option"

definition isBlocked :: "org_page \<Rightarrow> bool" where
  "isBlocked s = (op_blocked s = Some True)"

definition org_next :: "org_page \<Rightarrow> org_event \<Rightarrow> org_page" where
  "org_next s e =
     (case e of
        OpLoaded r m b \<Rightarrow> s\<lparr> op_role := r, op_mine := m, op_blocked := b \<rparr>
      | OpDelete \<Rightarrow>
          if ''Delete'' \<in> set (org_buttons (op_role s) (op_mine s) (isBlocked s)) then s\<lparr> op_delete := True \<rparr> else s
      | OpBlock \<Rightarrow>
          if \<not> canManage (op_role s) (op_mine s) \<and> op_role s \<noteq> None then s\<lparr> op_block := True \<rparr> else s
      | OpClose \<Rightarrow> s\<lparr> op_delete := False, op_block := False \<rparr>
      | OpConfirm \<Rightarrow>
          if op_delete s then (if op_deleting s then s else s\<lparr> op_deleting := True \<rparr>)
          else if op_block s \<and> op_blocking s = None then s\<lparr> op_blocking := Some (\<not> isBlocked s) \<rparr> else s
      | OpDeleted err \<Rightarrow> s\<lparr> op_deleting := False \<rparr>
      | OpBlocked err \<Rightarrow>
          if op_blocking s = None then s
          else if err = None then s\<lparr> op_blocking := None, op_block := False \<rparr> else s\<lparr> op_blocking := None \<rparr>)"

definition org_out :: "string \<Rightarrow> org_page \<Rightarrow> org_event \<Rightarrow> flow_effect list" where
  "org_out orgId s e =
     (case e of
        OpConfirm \<Rightarrow>
          if op_delete s then (if op_deleting s then [] else [FlSend (m_call (useDeleteOrg orgId) ())])
          else if op_block s \<and> op_blocking s = None
          then [FlSend (if isBlocked s then m_call (useUnblockOrg orgId) () else m_call (useBlockOrg orgId) ())]
          else []
      | OpDeleted err \<Rightarrow>
          if \<not> op_deleting s then []
          else (case err of
              None \<Rightarrow> [FlToast ''success'' ''Organization deleted'', FlGo ''/organizations'']
            | Some msg \<Rightarrow> [FlToast ''error'' msg])
      | OpBlocked err \<Rightarrow>
          (case op_blocking s of
             None \<Rightarrow> []
           | Some b \<Rightarrow>
               (case err of
                  None \<Rightarrow> [FlToast ''success'' (if b then ''Organization blocked'' else ''Organization unblocked'')]
                | Some msg \<Rightarrow> [FlToast ''error'' msg]))
      | _ \<Rightarrow> [])"

definition block_title :: "org_page \<Rightarrow> string" where
  "block_title s = (if isBlocked s then ''Unblock Organization'' else ''Block Organization'')"

definition OrgDetail_init :: "string option \<Rightarrow> string option \<Rightarrow> bool option \<Rightarrow> org_page" where
  "OrgDetail_init role mine blocked =
     \<lparr> op_role = role, op_mine = mine, op_blocked = blocked, op_delete = False, op_block = False, op_deleting = False,
       op_blocking = None \<rparr>"

lemma org_request_as_titled:
  "FlSend c \<in> set (org_out i s e) \<Longrightarrow> \<not> op_delete s \<Longrightarrow>
   c = (if block_title s = ''Block Organization'' then ApiPost (''/api/v1/organizations/'' @ i @ ''/block'') Undef
        else ApiDelete (''/api/v1/organizations/'' @ i @ ''/block''))"
  by (cases e) (auto simp: org_out_def block_title_def useBlockOrg_def useUnblockOrg_def use_mutation_def
      split: if_splits option.splits)

text \<open>Before the block status has come, an organization that is blocked is offered to be blocked.\<close>

lemma blocked_offered_block:
  "org_buttons (Some r) None (isBlocked (OrgDetail_init (Some r) None None)) = (if r = ''platform_admin'' then [''Edit'', ''Delete''] else [''Block''])"
  by (simp add: org_buttons_def isBlocked_def OrgDetail_init_def canManage_def)

definition org_rows ::
    "(string \<Rightarrow> string option) \<Rightarrow> string \<Rightarrow> string \<Rightarrow> string option \<Rightarrow> string option \<Rightarrow> string option \<Rightarrow> string option \<Rightarrow>
     string option list \<Rightarrow> int option \<Rightarrow> string option \<Rightarrow> string \<Rightarrow> (string \<times> string) list" where
  "org_rows ld nm slug email phone website formatted parts founded bio created =
     [InfoRow ''Name'' (Some nm), InfoRow ''Slug'' (Some slug), InfoRow ''Contact Email'' email,
      InfoRow ''Contact Phone'' phone, InfoRow ''Website'' website,
      InfoRow ''Location'' (Some (if has_str formatted then str_of formatted else join_present '', '' (map str_of parts))),
      InfoRow ''Founded'' (number_row founded), InfoRow ''Bio'' bio,
      InfoRow ''Created'' (Some (formatDate ld (Some created)))]"

record org_team =
  ot_id :: int
  ot_name :: string
  ot_short :: string
  ot_city :: "string option"
  ot_color :: "string option"

text \<open>The link of a team, its colour if it has one, and its lines.\<close>

definition OrgTeamsPanel ::
    "bool \<Rightarrow> bool \<Rightarrow> bool \<Rightarrow> org_team list option \<Rightarrow> string list \<times> (string \<times> string option \<times> string list) collection" where
  "OrgTeamsPanel manage isLoading err data =
     (let ts = (case data of None \<Rightarrow> [] | Some xs \<Rightarrow> xs) in
      ([''Teams ('' @ show_nat (length ts) @ '')''] @ (if manage then [''Create Team''] else []),
       collection ''Failed to load teams'' ''No teams yet'' ''This organization has no teams.'' isLoading err
         (Some (map (\<lambda>t. (''/teams/'' @ show_int (ot_id t), if has_str (ot_color t) then ot_color t else None,
            [ot_name t, ot_short t @ (if has_str (ot_city t) then mid_dot @ str_of (ot_city t) else [])])) ts))))"

definition DeleteTeam :: "string \<Rightarrow> unit ask_spec" where
  "DeleteTeam teamId =
     \<lparr> as_open = (\<lambda>u. True), as_call = (\<lambda>u t. m_call (useDeleteTeam teamId) ()), as_text = False, as_clears = False,
       as_done = (\<lambda>u. ''Team deleted''), as_failed = (\<lambda>u msg. msg) \<rparr>"

definition team_rows ::
    "(string \<Rightarrow> string option) \<Rightarrow> string \<Rightarrow> string \<Rightarrow> string \<Rightarrow> string option \<Rightarrow> string option \<Rightarrow> string option \<Rightarrow>
     int option \<Rightarrow> string option \<Rightarrow> int option \<Rightarrow> string option \<Rightarrow> string \<Rightarrow> (string \<times> string) list" where
  "team_rows ld nm short slug primary secondary org org_id city founded bio created =
     [InfoRow ''Name'' (Some nm), InfoRow ''Short Name'' (Some short), InfoRow ''Slug'' (Some slug),
      InfoRow ''Primary Color'' primary, InfoRow ''Secondary Color'' secondary,
      InfoRow ''Organization'' (if org_id \<noteq> None \<and> org_id \<noteq> Some 0 then org else None), InfoRow ''City'' city,
      InfoRow ''Founded'' (number_row founded), InfoRow ''Bio'' bio,
      InfoRow ''Created'' (Some (formatDate ld (Some created)))]"

record player_profile =
  pf_first :: string
  pf_last :: string
  pf_display :: "string option"
  pf_email :: "string option"
  pf_born :: "string option"
  pf_hand :: "string option"
  pf_dupr :: "string option"
  pf_vair :: "string option"
  pf_gender :: "string option"
  pf_place :: "string option list"
  pf_paddle :: "string option list"
  pf_bio :: "string option"
  pf_waiver :: "string option"
  pf_hidden :: bool
  pf_created :: string

definition player_rows :: "(string \<Rightarrow> string option) \<Rightarrow> player_profile \<Rightarrow> (string \<times> string) list" where
  "player_rows ld p =
     [InfoRow ''Name'' (Some (pf_first p @ '' '' @ pf_last p)), InfoRow ''Display Name'' (pf_display p),
      InfoRow ''Email'' (pf_email p), InfoRow ''Date of Birth'' (Some (formatDate ld (pf_born p))),
      InfoRow ''Handedness'' (pf_hand p), InfoRow ''DUPR ID'' (pf_dupr p), InfoRow ''VAIR ID'' (pf_vair p),
      InfoRow ''Gender'' (pf_gender p), InfoRow ''Location'' (Some (join_present '', '' (map str_of (pf_place p)))),
      InfoRow ''Paddle'' (Some (join_present '' '' (map str_of (pf_paddle p)))), InfoRow ''Bio'' (pf_bio p),
      InfoRow ''Waiver'' (Some (if has_str (pf_waiver p) then ''Accepted '' @ formatDate ld (pf_waiver p) else ''Not accepted'')),
      InfoRow ''Profile Hidden'' (Some (if pf_hidden p then ''Yes'' else ''No'')),
      InfoRow ''Member Since'' (Some (formatDate ld (Some (pf_created p))))]"

section \<open>A court\<close>

record court =
  co_name :: string
  co_surface :: "string option"
  co_show :: bool
  co_active :: bool
  co_stream_url :: "string option"
  co_stream_type :: "string option"
  co_stream_title :: "string option"
  co_stream_live :: bool
  co_notes :: "string option"
  co_created :: string

definition match_teams :: "match \<Rightarrow> string \<times> string" where
  "match_teams m =
     (case team_1 m of Some t \<Rightarrow> mt_name t | None \<Rightarrow> ''Team 1'', case team_2 m of Some t \<Rightarrow> mt_name t | None \<Rightarrow> ''Team 2'')"

definition compact_badge :: "match \<Rightarrow> string" where
  "compact_badge m =
     (if m_status m = InProgress then ''Live'' else if m_status m = Completed then ''Final'' else ''Upcoming'')"

record court_shown =
  cv_header :: "string list"
  cv_stream :: "embed option"
  cv_now :: "match option"
  cv_no_match :: bool
  cv_upcoming :: "match list"
  cv_recent :: "match list"
  cv_info :: "(string \<times> string) list"

definition capital_first :: "string \<Rightarrow> string" where
  "capital_first t = (case t of [] \<Rightarrow> [] | c # cs \<Rightarrow> to_upper c # cs)"

definition court_info :: "court \<Rightarrow> (string \<times> string) list" where
  "court_info c =
     [InfoRow ''Surface'' (map_option spaced (co_surface c)), InfoRow ''Show Court'' (Some (if co_show c then ''Yes'' else ''No''))] @
     (if has_str (co_stream_type c) then [InfoRow ''Stream Platform'' (map_option capital_first (co_stream_type c))] else []) @
     (if has_str (co_stream_title c) then [InfoRow ''Stream Title'' (co_stream_title c)] else []) @
     (if has_str (co_notes c) then [InfoRow ''Notes'' (co_notes c)] else [])"

definition PublicCourtDetail :: "string \<Rightarrow> match list option \<Rightarrow> court \<Rightarrow> court_shown" where
  "PublicCourtDetail hostname matches c =
     (let ms = (case matches of None \<Rightarrow> [] | Some xs \<Rightarrow> xs); now = List.find (\<lambda>m. m_status m = InProgress) ms in
      \<lparr> cv_header =
          [co_name c, case co_surface c of None \<Rightarrow> ''Court'' | Some t \<Rightarrow> spaced t] @
          (if co_stream_live c then [''Live''] else []) @ (if co_show c then [''Show Court''] else []) @
          [if co_active c then ''Active'' else ''Inactive''],
        cv_stream =
          (if has_str (co_stream_url c)
           then Some (StreamEmbed hostname (str_of (co_stream_url c)) (co_stream_type c) (co_stream_live c)) else None),
        cv_now = now, cv_no_match = (now = None \<and> \<not> has_str (co_stream_url c)),
        cv_upcoming = filter (\<lambda>m. m_status m = Scheduled) ms,
        cv_recent = take 5 (filter (\<lambda>m. m_status m = Completed) ms),
        cv_info = court_info c \<rparr>)"

text \<open>The other page has a row more, and for platform administrators a button to edit.\<close>

definition CourtDetail ::
    "string \<Rightarrow> (string \<Rightarrow> string option) \<Rightarrow> string option \<Rightarrow> match list option \<Rightarrow> court \<Rightarrow> bool \<times> court_shown" where
  "CourtDetail hostname ld role matches c =
     (let v = PublicCourtDetail hostname matches c in
      (role = Some ''platform_admin'',
       v\<lparr> cv_info := cv_info v @ [InfoRow ''Created'' (Some (formatDate ld (Some (co_created c))))] \<rparr>))"

definition court_page :: "(court \<Rightarrow> 'v) \<Rightarrow> bool \<Rightarrow> string option \<Rightarrow> court option \<Rightarrow> 'v loaded_page" where
  "court_page = record_page ''Court not found'' (no_access ''court'') ''/courts''"

definition on_court_page :: "court_shown \<Rightarrow> match list" where
  "on_court_page v = (case cv_now v of None \<Rightarrow> [] | Some m \<Rightarrow> [m]) @ cv_upcoming v @ cv_recent v"

text \<open>
  What a court page shows of the matches on the court: the one in progress that comes first, all
  that are scheduled, and the first five that are complete. A match that is warming up, paused,
  cancelled or forfeited is nowhere on the page; if the match being played is paused, the page says
  there is none, unless it shows a stream.
\<close>

theorem court_page_matches:
  "m \<in> set (on_court_page (PublicCourtDetail h (Some ms) c)) \<longleftrightarrow>
     List.find (\<lambda>x. m_status x = InProgress) ms = Some m \<or> (m \<in> set ms \<and> m_status m = Scheduled) \<or>
     m \<in> set (take 5 (filter (\<lambda>x. m_status x = Completed) ms))"
  by (auto simp: on_court_page_def PublicCourtDetail_def Let_def split: option.splits)

lemma paused_nowhere:
  assumes "m_status m \<in> {Warmup, Paused, Cancelled, Forfeited}"
  shows "m \<notin> set (on_court_page (PublicCourtDetail h (Some ms) c))"
proof
  assume "m \<in> set (on_court_page (PublicCourtDetail h (Some ms) c))"
  then show False using assms set_take_subset [of 5 "filter (\<lambda>x. m_status x = Completed) ms"]
    by (auto simp: court_page_matches find_Some_iff)
qed

lemma paused_says_none:
  assumes "m_status m = Paused" "co_stream_url c = None"
  shows "cv_no_match (PublicCourtDetail h (Some [m]) c)"
  using assms by (simp add: PublicCourtDetail_def has_str_def)

end
