(* ===== verification/Home_Pages.thy ===== *)
theory Home_Pages
  imports Detail_Pages
begin

text \<open>
  The pages one starts from: what one manages (\<open>ManageHub.tsx\<close>), the dashboards of a player and of an
  administrator (\<open>features/dashboard\<close>, \<open>AdminDashboard.tsx\<close>), quick matches (\<open>features/quick-match\<close>),
  the monitor of the producer (\<open>ProducerMonitor.tsx\<close>), the pages of a match and of a series, the tabs at
  the bottom of the public pages and the news.
\<close>

section \<open>What one manages\<close>

text \<open>
  Two kinds of sections: for a list, which says it is empty when the answer is, and for the items of a
  page, which counts no answer as none.
\<close>

record 'a hub_section =
  hs_loading :: bool
  hs_failed :: "string option"
  hs_empty :: "(string \<times> string) option"
  hs_cards :: "'a list"

definition list_section :: "string \<Rightarrow> string \<times> string \<Rightarrow> bool \<Rightarrow> bool \<Rightarrow> 'a list option \<Rightarrow> 'a hub_section" where
  "list_section failed none isLoading isError data =
     \<lparr> hs_loading = isLoading, hs_failed = (if isError then Some failed else None),
       hs_empty = (if data = Some [] then Some none else None), hs_cards = (case data of None \<Rightarrow> [] | Some xs \<Rightarrow> xs) \<rparr>"

definition page_section :: "string \<Rightarrow> string \<times> string \<Rightarrow> bool \<Rightarrow> bool \<Rightarrow> 'a list option \<Rightarrow> 'a hub_section" where
  "page_section failed none isLoading isError data =
     (let xs = (case data of None \<Rightarrow> [] | Some ys \<Rightarrow> ys) in
      \<lparr> hs_loading = isLoading, hs_failed = (if isError then Some failed else None),
        hs_empty = (if \<not> isLoading \<and> xs = [] then Some none else None), hs_cards = xs \<rparr>)"

record hub_card =
  hc_id :: int
  hc_name :: string
  hc_line :: string
  hc_badge :: string

definition hub_link :: "string \<Rightarrow> hub_card \<Rightarrow> string" where
  "hub_link path c = path @ show_int (hc_id c)"

definition city_line :: "string option \<Rightarrow> string option \<Rightarrow> string" where
  "city_line city state = join_present '', '' [str_of city, str_of state]"

definition VenuesSection :: "bool \<Rightarrow> bool \<Rightarrow> hub_card list option \<Rightarrow> hub_card hub_section" where
  "VenuesSection =
     list_section ''Failed to load venues'' (''No venues'', ''Create a venue to manage courts and host events.'')"

definition TournamentsSection :: "bool \<Rightarrow> bool \<Rightarrow> hub_card list option \<Rightarrow> hub_card hub_section" where
  "TournamentsSection =
     page_section ''Failed to load tournaments'' (''No tournaments'', ''Create your first tournament to get started.'')"

definition LeaguesSection :: "bool \<Rightarrow> bool \<Rightarrow> hub_card list option \<Rightarrow> hub_card hub_section" where
  "LeaguesSection =
     page_section ''Failed to load leagues'' (''No leagues'', ''Create a league to organize seasons and tournaments.'')"

definition OrgsSection :: "bool \<Rightarrow> bool \<Rightarrow> hub_card list option \<Rightarrow> hub_card hub_section" where
  "OrgsSection =
     list_section ''Failed to load organizations'' (''No organizations'', ''Join or create an organization to manage teams.'')"

definition run_dates :: "(string \<Rightarrow> string) \<Rightarrow> string option \<Rightarrow> string option \<Rightarrow> string" where
  "run_dates ld start stop =
     (if has_str start
      then ld (str_of start) @ (if has_str stop then '' '' @ [CHR 0xE2, CHR 0x80, CHR 0x93] @ '' '' @ ld (str_of stop) else [])
      else [])"

text \<open>A failure of tournaments or leagues also says there are none; of venues or organizations it does not.\<close>

lemma failure_says_none:
  "hs_failed (TournamentsSection False True None) \<noteq> None \<and> hs_empty (TournamentsSection False True None) \<noteq> None"
  "hs_failed (LeaguesSection False True None) \<noteq> None \<and> hs_empty (LeaguesSection False True None) \<noteq> None"
  "hs_empty (VenuesSection False True None) = None" "hs_empty (OrgsSection False True None) = None"
  by (simp_all add: TournamentsSection_def LeaguesSection_def VenuesSection_def OrgsSection_def page_section_def list_section_def)

section \<open>The dashboard of a player\<close>

definition display_name_of :: "(string option \<times> string) option \<Rightarrow> string" where
  "display_name_of user =
     (case user of
        None \<Rightarrow> ''Player''
      | Some (display, first) \<Rightarrow> if has_str display then str_of display else if first \<noteq> [] then first else ''Player'')"

text \<open>Skeleton, error and content are there each on its own; \<open>msg\<close> is the text of an \<open>Error\<close>.\<close>

definition PlayerDashboard ::
    "(string option \<times> string) option \<Rightarrow> bool \<Rightarrow> string option option \<Rightarrow> 'd option \<Rightarrow> string \<times> bool \<times> string option \<times> 'd option" where
  "PlayerDashboard user isLoading err data =
     (''Welcome back, '' @ display_name_of user, isLoading,
      map_option (\<lambda>msg. ''Failed to load dashboard'' @ (case msg of Some t \<Rightarrow> '': '' @ t | None \<Rightarrow> ''.'')) err, data)"

text \<open>
  \<open>fl\<close> rounds to a floating-point number after each operation.
\<close>

definition js_round :: "rat \<Rightarrow> int" where
  "js_round q = \<lfloor>q + 1/2\<rfloor>"

definition win_rate :: "(rat \<Rightarrow> rat) \<Rightarrow> int \<Rightarrow> int \<Rightarrow> int" where
  "win_rate fl won played = (if played = 0 then 0 else js_round (fl (fl (of_int won / of_int played) * 100)))"

definition StatsSummary :: "(rat \<Rightarrow> rat) \<Rightarrow> int \<Rightarrow> int \<Rightarrow> int \<Rightarrow> (string \<times> string) list" where
  "StatsSummary fl played won lost =
     [(''Matches Played'', show_int played), (''Wins'', show_int won), (''Losses'', show_int lost),
      (''Win Rate'', show_int (win_rate fl won played) @ ''%'')]"

text \<open>
  The win rate is a percentage: from 0 to 100, 100 if every match was won and 0 if none was, for
  every rounding that keeps the order and the numbers 0, 1 and 100.
\<close>

theorem win_rate_percentage:
  assumes "mono fl" and "fl 0 = 0" and "fl 1 = 1" and "fl 100 = 100" and "0 \<le> won" and "won \<le> played"
  shows "0 \<le> win_rate fl won played \<and> win_rate fl won played \<le> 100 \<and> win_rate fl 0 played = 0 \<and>
    (0 < played \<longrightarrow> win_rate fl played played = 100)"
proof -
  have bound: "0 \<le> fl (fl q * 100) \<and> fl (fl q * 100) \<le> 100" if "0 \<le> q" "q \<le> 1" for q
  proof -
    have "0 \<le> fl q" "fl q \<le> 1" using monoD [OF assms(1) that(1)] monoD [OF assms(1) that(2)] assms(2,3) by simp_all
    then have "0 \<le> fl q * 100" "fl q * 100 \<le> 100" by simp_all
    then show ?thesis using monoD [OF assms(1), of 0 "fl q * 100"] monoD [OF assms(1), of "fl q * 100" 100] assms(2,4) by simp
  qed
  have "0 \<le> win_rate fl won played \<and> win_rate fl won played \<le> 100"
  proof (cases "played = 0")
    case False
    then have "(0::rat) \<le> of_int won / of_int played" "of_int won / of_int played \<le> (1::rat)"
      using assms(5,6) by (simp_all add: divide_le_eq)
    from bound [OF this] show ?thesis using False by (simp add: win_rate_def js_round_def le_floor_iff floor_le_iff)
  qed (simp add: win_rate_def)
  moreover have "\<lfloor>(1::rat) / 2\<rfloor> = 0" "\<lfloor>(201::rat) / 2\<rfloor> = 100" by (simp_all add: floor_eq_iff)
  ultimately show ?thesis using assms(2-4) by (auto simp: win_rate_def js_round_def)
qed

theorem win_rate_percentage_witness: "win_rate (\<lambda>q. q) 2 3 = 67 \<and> win_rate (\<lambda>q. q) 2 3 \<le> 100"
proof
  show "win_rate (\<lambda>q. q) 2 3 = 67" by (simp add: win_rate_def js_round_def floor_eq_iff)
  show "win_rate (\<lambda>q. q) 2 3 \<le> 100"
    using win_rate_percentage [of "\<lambda>q. q" 2 3] by (simp add: mono_def)
qed

record dashboard_match =
  dm_id :: int
  dm_public :: string
  dm_type :: string
  dm_number :: "int option"
  dm_round :: "string option"
  dm_scheduled :: "string option"
  dm_status :: string
  dm_score1 :: int
  dm_score2 :: int
  dm_winner :: "int option"
  dm_completed :: "string option"

definition upcoming_title :: "dashboard_match \<Rightarrow> string" where
  "upcoming_title m =
     (if dm_type m = ''quick_match'' then ''Quick Match''
      else ''Match #'' @ show_int (case dm_number m of Some n \<Rightarrow> n | None \<Rightarrow> dm_id m))"

definition line_of :: "string option \<Rightarrow> string list" where
  "line_of t = (if has_str t then [str_of t] else [])"

definition UpcomingMatches :: "(string \<Rightarrow> string option) \<Rightarrow> dashboard_match list \<Rightarrow> (string \<times> string list) collection" where
  "UpcomingMatches dt ms =
     collection [] ''No upcoming matches'' ''When you have scheduled matches, they'll appear here.'' False False
       (Some (map (\<lambda>m. (''/matches/'' @ dm_public m,
          [upcoming_title m] @ line_of (dm_round m) @
          (if has_str (dm_scheduled m) then [formatDateTime dt (dm_scheduled m)] else []) @
          [snd (StatusBadge (dm_status m))])) ms))"

definition RecentResults :: "(string \<Rightarrow> string option) \<Rightarrow> dashboard_match list \<Rightarrow> (string \<times> string list) collection" where
  "RecentResults ld ms =
     collection [] ''No recent results'' ''Completed match results will appear here.'' False False
       (Some (map (\<lambda>m. (''/matches/'' @ dm_public m,
          [show_int (dm_score1 m), ''vs'', show_int (dm_score2 m)] @ line_of (dm_round m) @
          (case dm_winner m of None \<Rightarrow> [] | Some n \<Rightarrow> if n = 0 then [''0''] else [''Completed'']) @
          (if has_str (dm_completed m) then [formatDate ld (dm_completed m)] else []))) ms))"

text \<open>
  The types a match can have (\<open>db/migrations/00018_create_matches.sql\<close>, \<open>scoring/types.ts\<close>). The
  dashboard asks for one that is not among them, so it never calls a match a quick match.
\<close>

definition MATCH_TYPES :: "string list" where
  "MATCH_TYPES = [''tournament'', ''quick'', ''pickup'', ''practice'', ''league'']"

lemma never_quick:
  "dm_type m \<in> set MATCH_TYPES \<Longrightarrow> upcoming_title m = ''Match #'' @ show_int (case dm_number m of Some n \<Rightarrow> n | None \<Rightarrow> dm_id m)"
  by (auto simp: MATCH_TYPES_def upcoming_title_def)

definition ActiveRegistrations ::
    "(string \<Rightarrow> string option) \<Rightarrow> (string \<times> string \<times> string \<times> string) list \<Rightarrow> string list collection" where
  "ActiveRegistrations ld regs =
     collection [] ''No active registrations'' ''Register for a tournament to see your entries here.'' False False
       (Some (map (\<lambda>(tour, division, st, registered). [tour, division, snd (StatusBadge st), formatDate ld (Some registered)]) regs))"

record dashboard_team =
  dt_id :: int
  dt_name :: string
  dt_slug :: string
  dt_short :: "string option"
  dt_logo :: "string option"
  dt_color :: "string option"
  dt_role :: string

text \<open>A picture, or two letters on a colour.\<close>

definition TeamAvatar :: "dashboard_team \<Rightarrow> string + string \<times> string" where
  "TeamAvatar t =
     (if has_str (dt_logo t) then Inl (str_of (dt_logo t))
      else Inr (map to_upper (take 2 (if has_str (dt_short t) then str_of (dt_short t) else dt_name t)),
        or_default (dt_color t) ''#6b7280''))"

definition team_link :: "dashboard_team \<Rightarrow> string" where
  "team_link t = ''/teams/'' @ dt_slug t"

definition MyTeams :: "dashboard_team list \<Rightarrow> (string \<times> string list) collection" where
  "MyTeams ts =
     collection [] ''No teams'' ''Join or create a team to see it here.'' False False
       (Some (map (\<lambda>t. (team_link t, [dt_name t, dt_role t])) ts))"

text \<open>The order of the announcements, written another way than in \<open>AnnouncementFeed\<close>, is the same.\<close>

definition pin_value :: "announcement \<Rightarrow> int" where
  "pin_value a = (if an_pinned a then 1 else 0)"

definition sortAnnouncements :: "announcement list \<Rightarrow> announcement list" where
  "sortAnnouncements =
     js_sort (\<lambda>a b. if pin_value b \<noteq> pin_value a then pin_value b - pin_value a else an_time b - an_time a)"

lemma same_order: "sortAnnouncements = sorted_feed"
proof -
  have "(\<lambda>a b. if pin_value b \<noteq> pin_value a then pin_value b - pin_value a else an_time b - an_time a) = announcement_compare"
    by (intro ext) (simp add: pin_value_def announcement_compare_def)
  then show ?thesis by (simp add: sortAnnouncements_def sorted_feed_def)
qed

section \<open>The dashboard of an administrator\<close>

record admin_stats =
  as_users :: int
  as_matches :: int
  as_tournaments :: int
  as_leagues :: int
  as_venues :: int
  as_waiting :: int
  as_courts :: int
  as_active :: int

definition getStatCards :: "admin_stats \<Rightarrow> (string \<times> int \<times> bool \<times> string) list" where
  "getStatCards s =
     [(''Total Users'', as_users s, False, ''/admin/users''), (''Total Matches'', as_matches s, False, ''/ref''),
      (''Active Tournaments'', as_tournaments s, False, ''/tournaments''), (''Total Leagues'', as_leagues s, False, ''/leagues''),
      (''Total Venues'', as_venues s, False, ''/venues''), (''Pending Venues'', as_waiting s, 0 < as_waiting s, ''/admin/venues''),
      (''Total Courts'', as_courts s, False, ''/courts''), (''Active Matches'', as_active s, False, ''/ref''),
      (''Ad Manager'', - 1, False, ''/admin/ads''), (''Uploads'', - 1, False, ''/admin/uploads''),
      (''API Keys'', - 1, False, ''/admin/api-keys''), (''Activity Log'', - 1, False, ''/admin/activity''),
      (''Settings'', - 1, False, ''/admin/settings'')]"

definition StatCard :: "(int \<Rightarrow> string) \<Rightarrow> string \<times> int \<times> bool \<times> string \<Rightarrow> string list \<times> bool \<times> string" where
  "StatCard locale x =
     (case x of (label, v, highlight, link) \<Rightarrow> ([label, if 0 \<le> v then locale v else ''Manage''], highlight, link))"

definition AdminDashboard ::
    "(int \<Rightarrow> string) \<Rightarrow> bool \<Rightarrow> string option \<Rightarrow> admin_stats option \<Rightarrow> (string list \<times> bool \<times> string) list loaded_page" where
  "AdminDashboard locale =
     record_page ''Failed to load admin stats'' (\<lambda>err. []) [] (\<lambda>s. map (StatCard locale) (getStatCards s))"

lemma stat_cards:
  "list_all (\<lambda>x. 0 \<le> x) [as_users s, as_matches s, as_tournaments s, as_leagues s, as_venues s, as_waiting s, as_courts s, as_active s] \<Longrightarrow>
   map (\<lambda>x. fst (StatCard locale x) ! 1) (getStatCards s) =
     map locale [as_users s, as_matches s, as_tournaments s, as_leagues s, as_venues s, as_waiting s, as_courts s, as_active s] @
     replicate 5 ''Manage''"
  by (simp add: getStatCards_def StatCard_def numeral_eq_Suc)

section \<open>Quick matches\<close>

text \<open>
  The three numbers are texts of number inputs; \<open>Number(t) || d\<close> is \<open>d\<close> for an empty text and for 0.
  What is posted to \<open>/api/v1/quick-matches\<close>, with the numbers as they are.
\<close>

record quick_form =
  qf_rally :: bool
  qf_points :: string
  qf_win_by :: string
  qf_best_of :: string

definition QuickMatchCreate_init :: quick_form where
  "QuickMatchCreate_init = \<lparr> qf_rally = False, qf_points = ''11'', qf_win_by = ''2'', qf_best_of = ''1'' \<rparr>"

definition number_or :: "string \<Rightarrow> rat \<Rightarrow> rat" where
  "number_or t d = (case number_field t of None \<Rightarrow> d | Some q \<Rightarrow> if q = 0 then d else q)"

record quick_body =
  qb_games :: int
  qb_sets :: int
  qb_points :: rat
  qb_win_by :: rat
  qb_rally :: bool

definition quick_submit :: "quick_form \<Rightarrow> quick_body" where
  "quick_submit f =
     \<lparr> qb_games = 1, qb_sets = \<lceil>number_or (qf_best_of f) 1 / 2\<rceil>, qb_points = number_or (qf_points f) 11,
       qb_win_by = number_or (qf_win_by f) 2, qb_rally = qf_rally f \<rparr>"

text \<open>After the answer: a message, and the page of the match.\<close>

definition quick_created :: "string + string option \<Rightarrow> flow_effect list" where
  "quick_created answer =
     (case answer of
        Inl publicId \<Rightarrow> [FlToast ''success'' ''Quick match created'', FlGo (''/ref/matches/'' @ publicId)]
      | Inr (Some msg) \<Rightarrow> [FlToast ''error'' msg]
      | Inr None \<Rightarrow> [FlToast ''error'' ''Failed to create quick match''])"

text \<open>
  A quick match is played to a majority: with a best of \<open>n\<close> games it asks for the least number of
  won games that is at least half of \<open>n\<close>, more than half exactly if \<open>n\<close> is odd, and never for fewer
  than one when \<open>n\<close> is positive.
\<close>

theorem quick_match_majority:
  assumes "number_field (qf_best_of f) = Some (of_int n)" and "0 < n"
  shows "qb_sets (quick_submit f) = (n + 1) div 2 \<and> 1 \<le> qb_sets (quick_submit f) \<and>
    (n < 2 * qb_sets (quick_submit f) \<longleftrightarrow> odd n)"
proof -
  have s: "qb_sets (quick_submit f) = (n + 1) div 2"
  proof -
    have "\<lceil>(of_int n :: rat) / 2\<rceil> = (n + 1) div 2"
      by (cases "even n") (auto elim!: evenE oddE simp: ceiling_eq_iff add_divide_distrib)
    then show ?thesis using assms by (simp add: quick_submit_def number_or_def)
  qed
  show ?thesis unfolding s using assms(2) by (cases "even n") (auto elim!: evenE oddE)
qed

theorem quick_match_majority_witness:
  "qb_sets (quick_submit \<lparr> qf_rally = True, qf_points = [], qf_win_by = [], qf_best_of = ''3'' \<rparr>) = 2"
proof -
  have "number_field ''3'' = Some (of_int 3)" by code_simp
  from quick_match_majority [of "\<lparr> qf_rally = True, qf_points = [], qf_win_by = [], qf_best_of = ''3'' \<rparr>" 3] this
  show ?thesis by simp
qed

text \<open>
  The lower bounds of the inputs bind nothing, since there is no form to submit: numbers below 1 are
  sent as they are.
\<close>

lemma negative_sent:
  "qb_points (quick_submit \<lparr> qf_rally = False, qf_points = ''-5'', qf_win_by = ''2'', qf_best_of = ''-3'' \<rparr>) = - 5"
  "qb_sets (quick_submit \<lparr> qf_rally = False, qf_points = ''-5'', qf_win_by = ''2'', qf_best_of = ''-3'' \<rparr>) = - 1"
  by code_simp+

text \<open>\<open>left\<close> is the time that remains, in milliseconds; \<open>None\<close> if the match has no time to expire.\<close>

definition formatExpiresAt :: "int option \<Rightarrow> string" where
  "formatExpiresAt left =
     (case left of
        None \<Rightarrow> []
      | Some ms \<Rightarrow>
          if ms \<le> 0 then ''expired''
          else (let hrs = ms div 3600000; mins = (ms mod 3600000) div 60000 in
            if 0 < hrs then ''expires in '' @ show_int hrs @ ''h '' @ show_int mins @ ''m''
            else ''expires in '' @ show_int mins @ ''m''))"

lemma expiry_parts:
  fixes ms :: int
  shows "0 \<le> (ms mod 3600000) div 60000 \<and> (ms mod 3600000) div 60000 < 60 \<and>
    60000 * (60 * (ms div 3600000) + (ms mod 3600000) div 60000) \<le> ms \<and>
    ms < 60000 * (60 * (ms div 3600000) + (ms mod 3600000) div 60000 + 1)"
proof -
  define h r where "h = ms div 3600000" and "r = ms mod 3600000"
  have ms: "ms = 3600000 * h + r" "0 \<le> r" "r < 3600000" by (simp_all add: h_def r_def)
  define q x where "q = r div 60000" and "x = r mod 60000"
  have r: "r = 60000 * q + x" "0 \<le> x" "x < 60000" by (simp_all add: q_def x_def)
  have e: "60000 * (60 * h + q) = 3600000 * h + 60000 * q" "60000 * (60 * h + q + 1) = 3600000 * h + 60000 * q + 60000"
    by (simp_all add: algebra_simps)
  show ?thesis unfolding h_def [symmetric] r_def [symmetric] q_def [symmetric] e using ms r by (intro conjI) linarith+
qed

definition QuickMatchCard :: "int option \<Rightarrow> match \<Rightarrow> string \<times> string list" where
  "QuickMatchCard left m =
     (''/ref/matches/'' @ m_public_id m,
      [fst (match_teams m) @ '' vs '' @ snd (match_teams m),
       (if m_scoring_type m = RallyScoring then ''Rally'' else ''Side-out'') @ mid_dot @ ''to '' @ show_int (points_to_win m) @
         mid_dot @ ''best of '' @ show_int (best_of m),
       show_int (team_1_score m) @ '' '' @ [CHR 0xE2, CHR 0x80, CHR 0x93] @ '' '' @ show_int (team_2_score m)] @
      (if formatExpiresAt left = [] then [] else [formatExpiresAt left]))"

definition QuickMatchList :: "bool \<Rightarrow> bool \<Rightarrow> match list option \<Rightarrow> match collection" where
  "QuickMatchList isLoading isError data =
     collection ''Failed to load quick matches.'' ''No active quick matches''
       (''Start a casual match in seconds '' @ em_dash @ '' no tournament needed.'') isLoading isError
       (Some (case data of None \<Rightarrow> [] | Some ms \<Rightarrow> ms))"

section \<open>The monitor of the producer\<close>

datatype activity = AllCourts | LiveOnly | IdleOnly

definition monitor_live :: "court_summary \<Rightarrow> bool" where
  "monitor_live c = (case active_match c of None \<Rightarrow> False | Some m \<Rightarrow> m_status m = InProgress \<or> m_status m = Paused)"

definition monitor_filter :: "string \<Rightarrow> activity \<Rightarrow> court_summary list \<Rightarrow> court_summary list" where
  "monitor_filter search act courts =
     (let needle = map to_lower (trim search) in
      filter (\<lambda>c. (needle \<noteq> [] \<longrightarrow> has_text needle (map to_lower (ct_name c @ '' '' @ ct_slug c))) \<and>
        (act = LiveOnly \<longrightarrow> monitor_live c) \<and> (act = IdleOnly \<longrightarrow> \<not> monitor_live c)) courts)"

record monitor_view =
  mv_counts :: "nat \<times> nat \<times> nat"
  mv_loading :: bool
  mv_failed :: "string option"
  mv_empty :: "string option"
  mv_cards :: "court_summary list"

text \<open>The courts of the chosen tournament, or all; an error without a message has a text of its own.\<close>

definition ProducerMonitor ::
    "string \<Rightarrow> activity \<Rightarrow> bool \<Rightarrow> string option option \<Rightarrow> court_summary list option \<Rightarrow> monitor_view" where
  "ProducerMonitor search act isLoading err data =
     (let courts = (case data of None \<Rightarrow> [] | Some cs \<Rightarrow> cs); shown = monitor_filter search act courts in
      \<lparr> mv_counts = (length courts, length (filter monitor_live courts), length shown), mv_loading = isLoading,
        mv_failed = map_option (\<lambda>msg. case msg of Some t \<Rightarrow> t | None \<Rightarrow> ''Check your connection and retry.'') err,
        mv_empty =
          (if \<not> isLoading \<and> err = None \<and> shown = []
           then Some (if courts = []
             then ''Create a court from the tournament settings or the setup wizard to see it here.''
             else ''Clear the search or switch the activity filter to see more courts.'')
           else None),
        mv_cards = shown \<rparr>)"

text \<open>
  The activity filter divides the courts that the search finds: each is shown either as live or as
  idle, and without a filter every court found is there.
\<close>

lemma monitor_divides:
  "mset (monitor_filter t LiveOnly cs) + mset (monitor_filter t IdleOnly cs) = mset (monitor_filter t AllCourts cs) \<and>
   (\<forall>c \<in> set (monitor_filter t LiveOnly cs). monitor_live c) \<and> (\<forall>c \<in> set (monitor_filter t IdleOnly cs). \<not> monitor_live c) \<and>
   mset (monitor_filter t a cs) \<subseteq># mset cs"
proof -
  have "mset (monitor_filter t LiveOnly cs) + mset (monitor_filter t IdleOnly cs) = mset (monitor_filter t AllCourts cs)"
    unfolding monitor_filter_def Let_def by (induction cs) auto
  then show ?thesis by (auto simp: monitor_filter_def Let_def mset_filter multiset_filter_subset)
qed

text \<open>A paused match is live for the monitor and not for the cards of courts.\<close>

lemma paused_live_here:
  assumes "active_match c = Some m" "m_status m = Paused"
  shows "monitor_live c" "\<not> cc_live (CourtCard mode c)"
  using assms by (simp_all add: monitor_live_def CourtCard_def)

section \<open>The pages of a match and of a series\<close>

definition roster_column :: "match_team option \<Rightarrow> string \<Rightarrow> string \<times> string list" where
  "roster_column t d =
     (case t of None \<Rightarrow> d | Some x \<Rightarrow> mt_name x,
      case (case t of None \<Rightarrow> [] | Some x \<Rightarrow> (case mt_players x of None \<Rightarrow> [] | Some ps \<Rightarrow> ps)) of
        [] \<Rightarrow> [em_dash] | p # ps \<Rightarrow> map pl_display_name (p # ps))"

definition short_or :: "match_team option \<Rightarrow> string \<Rightarrow> string" where
  "short_or t d = (case t of None \<Rightarrow> d | Some x \<Rightarrow> (case mt_short_name x of None \<Rightarrow> d | Some n \<Rightarrow> n))"

definition games_table :: "match \<Rightarrow> string list list" where
  "games_table m =
     (case set_scores m of
        Some (g # gs) \<Rightarrow>
          [''Game'', short_or (team_1 m) ''T1'', short_or (team_2 m) ''T2'', ''Winner''] #
          map (\<lambda>x. [''Game '' @ show_int (game_num x), show_int (team_one_score x), show_int (team_two_score x),
                    ''T'' @ show_int (side_num (cg_winner x))]) (g # gs)
      | _ \<Rightarrow> [])"

definition OVERRIDE_ROLES :: "string list" where
  "OVERRIDE_ROLES = [''platform_admin'', ''tournament_director'', ''head_referee'']"

record match_shown =
  ms_rosters :: "(string \<times> string list) list"
  ms_games :: "string list list"
  ms_override :: bool
  ms_events :: string

definition MatchDetail_view :: "string option \<Rightarrow> nat option \<Rightarrow> match \<Rightarrow> match_shown" where
  "MatchDetail_view role events m =
     \<lparr> ms_rosters = [roster_column (team_1 m) ''Team 1'', roster_column (team_2 m) ''Team 2''],
       ms_games = games_table m,
       ms_override = (case role of None \<Rightarrow> False | Some r \<Rightarrow> r \<in> set OVERRIDE_ROLES),
       ms_events = ''Event log '' @ (case events of None \<Rightarrow> [] | Some n \<Rightarrow> ''('' @ show_nat n @ '')'') \<rparr>"

definition MatchDetail :: "string option \<Rightarrow> nat option \<Rightarrow> bool \<Rightarrow> string option \<Rightarrow> match option \<Rightarrow> match_shown loaded_page" where
  "MatchDetail role events = record_page ''Match not found.'' (\<lambda>err. []) [] (MatchDetail_view role events)"

definition TeamSide :: "side \<Rightarrow> match \<Rightarrow> string \<times> string \<times> serve_indicator" where
  "TeamSide team m =
     (let serving = (serving_team m = Some team) in
      (''Team '' @ show_int (side_num team),
       case (if team = One then team_1 m else team_2 m) of Some t \<Rightarrow> mt_name t | None \<Rightarrow> ''Team '' @ show_int (side_num team),
       ServeIndicator serving (if serving then Some (case server_number m of Some n \<Rightarrow> side_num n | None \<Rightarrow> 1) else None) None))"

definition dash :: string where
  "dash = '' '' @ [CHR 0xE2, CHR 0x80, CHR 0x93] @ '' ''"

text \<open>Nothing at all while the match loads or if it does not.\<close>

definition MatchScoreboardPage ::
    "bool \<Rightarrow> bool \<Rightarrow> match option \<Rightarrow>
     (string list \<times> (string \<times> string \<times> serve_indicator) list \<times> (int \<times> int \<times> int \<times> bool \<times> bool) list \<times> int list) option" where
  "MatchScoreboardPage isLoading isError data =
     (if isLoading \<or> isError then None
      else map_option (\<lambda>m.
        ([(case tournament_name m of Some t \<Rightarrow> t | None \<Rightarrow> ''Match'') @
          (if has_str (division_name m) then mid_dot @ str_of (division_name m) else []) @
          (if has_str (court_name m) then mid_dot @ str_of (court_name m) else []),
          show_int (team_1_score m) @ dash @ show_int (team_2_score m),
          ''Game '' @ show_int (current_game m) @ '' of '' @ show_int (best_of m)],
         [TeamSide One m, TeamSide Two m],
         GameHistoryBar (case set_scores m of None \<Rightarrow> [] | Some gs \<Rightarrow> gs), ScoreCall m)) data)"

record series =
  sr_team1 :: "match_team option"
  sr_team2 :: "match_team option"
  sr_wins1 :: int
  sr_wins2 :: int
  sr_games :: int
  sr_status :: string
  sr_matches :: "match list"

fun status_text :: "match_status \<Rightarrow> string" where
  "status_text Scheduled = ''scheduled''"
| "status_text Warmup = ''warmup''"
| "status_text InProgress = ''in_progress''"
| "status_text Paused = ''paused''"
| "status_text Completed = ''completed''"
| "status_text Cancelled = ''cancelled''"
| "status_text Forfeited = ''forfeited''"

definition series_line :: "match \<Rightarrow> string" where
  "series_line m =
     (let score = show_int (team_1_score m) @ [CHR 0xE2, CHR 0x80, CHR 0x93] @ show_int (team_2_score m) in
      if m_status m = InProgress then score @ mid_dot @ ''G'' @ show_int (current_game m)
      else if m_status m = Completed then ''Final '' @ score else status_text (m_status m))"

definition MatchSeriesDetail ::
    "bool \<Rightarrow> string option \<Rightarrow> series option \<Rightarrow> (string list \<times> (string \<times> string list) collection) loaded_page" where
  "MatchSeriesDetail =
     record_page ''Series not found.'' (\<lambda>err. []) [] (\<lambda>s.
       ([case sr_team1 s of Some t \<Rightarrow> mt_name t | None \<Rightarrow> ''Team 1'',
         show_int (sr_wins1 s) @ dash @ show_int (sr_wins2 s),
         ''First to '' @ show_int (sr_games s) @ mid_dot @ sr_status s,
         case sr_team2 s of Some t \<Rightarrow> mt_name t | None \<Rightarrow> ''Team 2''],
        collection [] ''No matches yet.'' [] False False
          (Some (map (\<lambda>m. (''/matches/'' @ m_public_id m,
             [fst (match_teams m) @ '' vs '' @ snd (match_teams m), series_line m])) (sr_matches s)))))"

text \<open>At most one side of the scoreboard serves, and its number is that of the server.\<close>

lemma one_serves:
  "si_active (snd (snd (TeamSide One m))) \<Longrightarrow> \<not> si_active (snd (snd (TeamSide Two m)))"
  "si_active (snd (snd (TeamSide s m))) \<longleftrightarrow> serving_team m = Some s"
  by (auto simp: TeamSide_def ServeIndicator_def Let_def)

section \<open>Tabs at the bottom, and news\<close>

datatype tab_target = TabPath string | TabHref string | TabMore

definition BOTTOM_TABS :: "(string \<times> tab_target) list" where
  "BOTTOM_TABS =
     [(''Home'', TabPath ''/''), (''Events'', TabPath ''/public/events''), (''Live'', TabPath ''/public/live''),
      (''News'', TabHref ''https://news.courtcommand.app''), (''More'', TabMore)]"

text \<open>\<open>matches\<close> is the router's \<open>matchRoute\<close> for a path, fuzzy or exact.\<close>

definition tab_active :: "(string \<Rightarrow> bool \<Rightarrow> bool) \<Rightarrow> bool \<Rightarrow> tab_target \<Rightarrow> bool" where
  "tab_active matches moreOpen t =
     (case t of TabPath p \<Rightarrow> matches p (p \<noteq> ''/'') | TabHref h \<Rightarrow> False | TabMore \<Rightarrow> moreOpen)"

definition MORE_LINKS :: "bool \<Rightarrow> (string \<times> tab_target) list" where
  "MORE_LINKS isAuthenticated =
     [(''Venues'', TabPath ''/public/venues''), (''About'', TabHref ''https://courtcommand.app/about''),
      (''Contact'', TabHref ''https://courtcommand.app/contact'')] @
     (if isAuthenticated then [] else [(''Sign In'', TabPath ''/login'')])"

datatype sheet_event = ShTab tab_target | ShBackdrop | ShClose | ShLink

definition sheet_next :: "bool \<Rightarrow> sheet_event \<Rightarrow> bool" where
  "sheet_next moreOpen e = (case e of ShTab t \<Rightarrow> t = TabMore \<or> moreOpen | _ \<Rightarrow> False)"

record ghost_post =
  gp_title :: string
  gp_slug :: string
  gp_excerpt :: string
  gp_image :: "string option"
  gp_time :: int
  gp_tags :: "string list"

definition isConfigured :: "string \<Rightarrow> string \<Rightarrow> bool" where
  "isConfigured ghostUrl apiKey \<longleftrightarrow> ghostUrl \<noteq> [] \<and> apiKey \<noteq> []"

definition useGhostPosts :: "string \<Rightarrow> string \<Rightarrow> string option \<Rightarrow> nat \<Rightarrow> string option" where
  "useGhostPosts ghostUrl apiKey label n =
     (if isConfigured ghostUrl apiKey
      then Some (ghostUrl @ ''/ghost/api/content/posts/?'' @
        url_search_params ([(''key'', apiKey), (''limit'', show_nat n), (''include'', ''tags''),
          (''fields'', ''id,title,slug,excerpt,feature_image,published_at'')] @
          (if has_str label then [(''filter'', ''tag:'' @ str_of label)] else [])))
      else None)"

definition PostCard :: "string \<Rightarrow> int \<Rightarrow> ghost_post \<Rightarrow> string \<times> string option \<times> string list" where
  "PostCard ghostUrl now p =
     (ghostUrl @ ''/'' @ gp_slug p, (if has_str (gp_image p) then gp_image p else None),
      [gp_title p] @ (if gp_excerpt p = [] then [] else [gp_excerpt p]) @ take 1 (gp_tags p) @ [timeAgo now (gp_time p)])"

text \<open>\<open>None\<close>: the widget is not there.\<close>

definition NewsWidget :: "bool \<Rightarrow> string \<Rightarrow> bool \<Rightarrow> bool \<Rightarrow> ghost_post list \<Rightarrow> ghost_post collection option" where
  "NewsWidget configured emptyMessage isLoading isError posts =
     (if \<not> configured \<and> \<not> isLoading then None
      else Some (collection ''Unable to load news'' emptyMessage [] isLoading isError (Some posts)))"

lemma news_only_configured:
  "NewsWidget (isConfigured u k) t False e ps = Some v \<Longrightarrow> useGhostPosts u k l n \<noteq> None"
  by (auto simp: NewsWidget_def useGhostPosts_def split: if_splits)

end
