(* ===== verification/Spec2Isabelle.thy ===== *)
theory Spec2Isabelle
  imports Cache_Consistency Match_Socket Overlay_Socket Slide_Rotation Overlay_Elements
    Theme_Presets Court_Views Scoring_Consoles Control_Panel App_Shell Text_Components Shared_Components
    Setup_Wizard Scoreboards TV_Kiosk Record_Forms Admin_Screens Public_Pages
    Record_Panels Event_Panels Detail_Pages Home_Pages
begin

text \<open>
  A verification library for the web front end of Court Command (\<open>web/src/\<close>), the React and
  TypeScript application with which pickleball tournaments and leagues are run, scored live and
  broadcast. The program has four parts that talk to each other: a client of the REST API with
  a cache of queries, the live connections that keep the cache fresh, the scoring consoles that
  write matches, and the broadcast overlay that shows them.

  Program and theories.

  \<^item> Values. \<open>CC_Prelude\<close> has JavaScript values with the coercions the source uses, lists, and
    the locale \<open>event_machine\<close>: a step function with an invariant that every run keeps.
    \<open>JS_Number\<close> has numbers with \<open>NaN\<close> and the infinities, \<open>Browser\<close> the sockets and timers of
    a browser with the locale \<open>backoff\<close> of the reconnect delays.

  \<^item> API client and cache. \<open>Api_Client\<close> is \<open>lib/api.ts\<close>: every call as a function of the
    response of \<open>fetch\<close>, which is a parameter, with its errors as values. \<open>Formatters\<close> is
    \<open>lib/formatters.ts\<close>, \<open>usePagination\<close> and \<open>usePageTitle\<close>. \<open>Query_Layer\<close> says what a hook
    tells the query library: key, call and options of a query; call and cache effects of a
    mutation. The theories \<open>Scoring_Hooks\<close>, \<open>Tournament_Hooks\<close>, \<open>League_Hooks\<close>,
    \<open>Registry_Hooks\<close>, \<open>Admin_Hooks\<close>, \<open>Public_Hooks\<close> and \<open>Overlay_Hooks\<close> hold the hooks of
    \<open>features/*/hooks.ts\<close>, each under its name in the source. \<open>Query_Catalogue\<close> lists them all
    as one datatype and shows that the cache key determines the request; \<open>Cache_Consistency\<close>
    says which reads a write refreshes. The query library is not part of the repository: what
    is used of it is the documented rule by which a key filter selects entries, the hypothesis
    \<open>key_filter\<close> on a parameter \<open>qm\<close>, met by \<open>prefix\<close>.

  \<^item> Live connections. \<open>Match_Socket\<close> is \<open>useMatchWebSocket.ts\<close> and \<open>Overlay_Socket\<close> is
    \<open>useOverlayWebSocket.ts\<close>: state and refs of the hook, the effect with its clean-up, and the
    callbacks of the sockets and timers it created. A run is any sequence of what the browser,
    the network and the parent component may do, in any order the browser allows.

  \<^item> Scoring. \<open>Scoring_Types\<close> has the records of \<open>features/scoring/types.ts\<close>; \<open>Console_Parts\<close>
    the keyboard shortcuts, preferences, sounds and the connection banner; \<open>Scoring_Dialogs\<close>
    the end-of-game prompt, the score override and the match setup; \<open>Scoring_Consoles\<close> the
    referee's and the scorekeeper's console, from the key press or click to the call of a
    mutation hook and back; \<open>Score_Views\<close> and \<open>Court_Views\<close> what is shown of matches and courts.

  \<^item> Overlay. \<open>Overlay_Contract\<close> is \<open>features/overlay/contract.ts\<close>, the types and their
    encodings, clamps, anchors and licensing; \<open>Trigger_Queue\<close> the queue of one-shot events with
    the tab that fires them; \<open>Fade_Mount\<close> and \<open>Slide_Rotation\<close> the timed hooks;
    \<open>Overlay_Elements\<close> the elements on screen; \<open>Theme_Presets\<close> the presets of \<open>lib/themes.ts\<close>
    and \<open>useTheme\<close>.

  \<^item> Control panel. \<open>Form_Inputs\<close> has number fields, sliders and delayed writes, with the locale
    \<open>debounced\<close> of a form that saves after a delay and the hook \<open>useDebounce\<close>; \<open>Stored_Choice\<close> the
    choices kept in the session storage, with the locale \<open>stored_choice\<close>. \<open>Elements_Tab\<close>,
    \<open>Overrides_Tab\<close>, \<open>Theme_Tab\<close> and \<open>Source_Tabs\<close> are the tabs of \<open>features/overlay/controls\<close>,
    each a draft, a timer and the request it sends; \<open>Overlay_Renderer\<close> is the page the broadcast
    shows with its preview, and \<open>Control_Panel\<close> the settings page that mounts one tab at a time.

  \<^item> Frame and shared components. \<open>App_Shell\<close> has the session, the root layout with the pages that
    need one, login and registration, sidebar and search; \<open>Text_Components\<close> the components that
    turn a text of the server into what is shown, their regular expressions as matchers;
    \<open>Shared_Components\<close> those with a state: map, venue picker, sponsors, advertisements, dialog.

  \<^item> Sources and setup. \<open>Source_Profiles\<close> is \<open>features/overlay/profiles\<close>, the list with its dialog
    and the editor from the typed form to the body it sends; \<open>Setup_Wizard\<close> the wizard of
    \<open>features/overlay/setup\<close>, its steps mounted one at a time, its requests answered in any order.

  \<^item> Scoreboards and kiosks. \<open>Scoreboards\<close> has both layouts of \<open>renderer/elements/scoreboard\<close> with
    the pulse of a score and the slots of the logos; \<open>TV_Kiosk\<close> the two pages of
    \<open>features/overlay/tv\<close>; \<open>Round_Columns\<close> the grouping by rounds that kiosk and bracket share.

  \<^item> Tournaments. \<open>Division_Screens\<close> has seeding, bracket and registrations of a division,
    \<open>Tournament_Create\<close> the wizard that creates a tournament, both of \<open>features/tournaments\<close>.

  \<^item> Records. \<open>Record_Forms\<close> has the eleven forms that create or edit one record as tables: for each
    key how the variable is opened with the record, which control changes it and how it is sent.
    One step function runs them all; the locale \<open>record_form\<close> has what every table must satisfy and
    is interpreted for each form.

  \<^item> Status, lists, administration. \<open>Status_Flows\<close> has the pages whose buttons change the status of
    a tournament, division, league or season, beside the tables of changes the server accepts (the
    only part of \<open>api/\<close> translated): the locale \<open>ranked\<close> gives an end to every chain of changes, and
    \<open>page_run\<close> runs a page together with the server and other users. \<open>List_Pages\<close> has the eighteen
    lists that show a page of records at a time, each a table over one step function and an instance
    of the locale \<open>paged_list\<close>; \<open>Admin_Screens\<close> what else \<open>features/admin\<close> does with its records.

  \<^item> Public pages. \<open>Public_Pages\<close> is \<open>features/public\<close>: live matches and schedule with their
    grouping in one pass, shown equal to filtering for each key, courts, tournament, league and
    venue pages, landing page and cards.

  \<^item> Records and their panels. \<open>Record_Panels\<close> has what belongs to a record and is edited inside its
    page: announcements, members, rosters, the managers and courts of a venue; \<open>Event_Panels\<close> the
    panels of tournaments and leagues: courts, staff accounts, registrations, divisions, templates;
    \<open>Detail_Pages\<close> the pages around them, with the tabs a role may see and the buttons that change
    a venue or an organization; \<open>Home_Pages\<close> the pages one starts from: managed records, dashboards,
    quick matches, the producer's monitor, a match, a series and the news.

  How the code is read. A component with state is a record of its \<open>useState\<close> and \<open>useRef\<close>
  values and a step function on events: the browser's callbacks, user actions and new
  properties. Effects run when their dependencies differ from those of their last run, and a
  state update of an effect gives one more pass; where this matters the pass is repeated and a
  lemma shows that another one changes nothing. A closure that is older than the state it meets
  is modelled by the values it captured. Errors are values: \<open>option\<close>, sums, or the datatype of
  outcomes of the client. There is no fuel: every function is total by structural recursion, and
  what may go on for ever, such as reconnecting, is a run of events of any length.

  What is shown. For each machine, an invariant of all its states and what follows: at most one
  live connection, nothing left after the unmount, bounded and growing delays, indices in range,
  no timer without a reason. For the cache, keys determine requests and writes refresh what they
  changed. For the consoles, nothing is sent without a connection, nothing is finalised without
  the server's word, and a call acts on the match on screen. For views, selections are
  exhaustive and disjoint. Where the code departs from what it means to do, a theorem exhibits
  the run: the old connection that comes back when a hook changes its match
  (the stale reconnects of \<open>Match_Socket\<close> and \<open>Overlay_Socket\<close>), the trigger that reaches no
  renderer, the edits a change of tab drops, the upload that reverts a list, and others.

  What is not modelled: layout, class names and styling; the hero and the facts of a match page, the hero
  of the public pages and a few other views that only lay out answers; most routes; and everything outside \<open>web/src/\<close>, in particular the server, but for its tables of
  status changes. Numbers are integers except where the program divides or tests for finiteness,
  texts are lists of bytes, dates and collation are parameters.
\<close>

section \<open>From a key press to the cache\<close>

lemma console_calls_own_match_parts:
  assumes "key_filter qm"
    and "Mutate c \<in> set (snd (ref_step s pe)) \<or> Mutate c \<in> set (sk_step pe)"
  defines "pid \<equiv> event_match pe"
  shows "\<exists>rest body. call_request (cl_publicId c) (cl_action c) = ApiPost (api_match pid rest) body"
    and "js_get data ''match'' = Some m \<Longrightarrow>
      refreshes qm (call_success (cl_publicId c) (cl_action c) data) (useMatch (Some pid)) \<and>
      refreshes qm (call_success (cl_publicId c) (cl_action c) data) (useMatchEvents (Some pid))"
    and "other \<noteq> pid \<Longrightarrow>
      \<not> refreshes qm (call_success (cl_publicId c) (cl_action c) data) (useMatch (Some other)) \<and>
      \<not> refreshes qm (call_success (cl_publicId c) (cl_action c) data) (useMatchEvents (Some other))"
proof -
  have pid: "cl_publicId c = pid"
    using assms(2) step_calls_for [of pe] unfolding calls_for_def pid_def by blast
  show "\<exists>rest body. call_request (cl_publicId c) (cl_action c) = ApiPost (api_match pid rest) body"
    using call_request_posts [of "cl_publicId c" "cl_action c"] by (auto simp: pid)
  have success: "call_success (cl_publicId c) (cl_action c) data = m_success useSideOut data pid"
    by (simp add: call_success_applyResult sideout.success pid)
  show "js_get data ''match'' = Some m \<Longrightarrow>
      refreshes qm (call_success (cl_publicId c) (cl_action c) data) (useMatch (Some pid)) \<and>
      refreshes qm (call_success (cl_publicId c) (cl_action c) data) (useMatchEvents (Some pid))"
    using sideout.refreshes_match_and_events [OF assms(1), of data m pid] by (simp add: success)
  show "other \<noteq> pid \<Longrightarrow>
      \<not> refreshes qm (call_success (cl_publicId c) (cl_action c) data) (useMatch (Some other)) \<and>
      \<not> refreshes qm (call_success (cl_publicId c) (cl_action c) data) (useMatchEvents (Some other))"
    using sideout.leaves_other_matches [OF assms(1), of other pid data] by (simp add: success)
qed

text \<open>
  C12. Whatever happens on a console, each call it makes goes to the server under the match the
  console was opened for (in reaction to an answer, under the match that answer was for), and
  when it succeeds it refreshes the cached match and the event list of that match and of no
  other.
\<close>

theorem console_calls_own_match:
  assumes "key_filter qm"
    and "Mutate c \<in> set (snd (ref_step s pe)) \<or> Mutate c \<in> set (sk_step pe)"
  defines "pid \<equiv> event_match pe"
  defines "ops \<equiv> \<lambda>data. call_success (cl_publicId c) (cl_action c) data"
  shows "(\<exists>rest body. call_request (cl_publicId c) (cl_action c) = ApiPost (api_match pid rest) body) \<and>
    (\<forall>data m. js_get data ''match'' = Some m \<longrightarrow>
      refreshes qm (ops data) (useMatch (Some pid)) \<and>
      refreshes qm (ops data) (useMatchEvents (Some pid))) \<and>
    (\<forall>data other. other \<noteq> pid \<longrightarrow>
      \<not> refreshes qm (ops data) (useMatch (Some other)) \<and>
      \<not> refreshes qm (ops data) (useMatchEvents (Some other)))"
  unfolding pid_def ops_def using console_calls_own_match_parts [OF assms(1,2)] by blast

theorem console_calls_own_match_witness:
  "\<exists>rest body. call_request ''m7'' (ScorePoint (Num 1)) = ApiPost (api_match ''m7'' rest) body"
proof -
  let ?pe = "(sample_props WsOpen sample_match, KeyDown (plain_key ''1''))"
  let ?c = "\<lparr> cl_publicId = ''m7'', cl_action = ScorePoint (Num 1), cl_prefs = DEFAULT_PREFS \<rparr>"
  have "Mutate ?c \<in> set (sk_step ?pe)"
    by (simp add: keys_enabled_def sample_props_def sample_match_def DEFAULT_PREFS_def disabled_def
        sk_shortcut_def shortcut_of_def with_match_def call_of_def)
  then have "Mutate ?c \<in> set (snd (ref_step ref_init ?pe)) \<or> Mutate ?c \<in> set (sk_step ?pe)" by blast
  from console_calls_own_match [OF key_filter_of_prefix this] show ?thesis
    by (simp add: sample_props_def sample_match_def)
qed

end
